(* ===== verification/Takogami_Prelude.thy ===== *)
theory Takogami_Prelude
  imports Main "HOL-Library.List_Lexorder" "HOL-Library.Char_ord" "HOL-Library.Sublist"
    "HOL-Library.Multiset"
begin

text \<open>
  Shared vocabulary of the development: fallible results (\<open>Result\<close> and the \<open>?\<close> operator of the
  source), Rust strings as UTF-8 byte lists, Rust paths as component lists, the file system as a
  record of observations, and the generic lemmas on sorting, deduplication and unique lists that
  the component theories use.

  A Rust \<open>String\<close> is a list of bytes (\<^typ>\<open>string\<close>): \<open>len\<close>, \<open>==\<close>, \<open>cmp\<close>, \<open>starts_with\<close>,
  \<open>contains\<close> and \<open>split\<close> on an ASCII character work on the bytes, and \<open>chars\<close> groups the bytes into
  the encodings of the scalar values (only whitespace and control tests need the grouping).
\<close>

named_theorems result_simps \<open>characteristic equations of the result combinators\<close>
named_theorems path_simps \<open>definitions of the path operations\<close>

section \<open>Fallible results\<close>

type_synonym ('e, 'a) result = "'e + 'a"

text \<open>The \<open>?\<close> operator: stop at the first error.\<close>

fun rbind :: "('e, 'a) result \<Rightarrow> ('a \<Rightarrow> ('e, 'b) result) \<Rightarrow> ('e, 'b) result" where
  "rbind (Inl e) f = Inl e"
| "rbind (Inr v) f = f v"

definition ensure :: "bool \<Rightarrow> 'e \<Rightarrow> ('e, unit) result" where
  "ensure b e = (if b then Inr () else Inl e)"

definition map_err :: "('e \<Rightarrow> 'f) \<Rightarrow> ('e, 'a) result \<Rightarrow> ('f, 'a) result" where
  "map_err f r = (case r of Inl e \<Rightarrow> Inl (f e) | Inr v \<Rightarrow> Inr v)"

text \<open>A loop that pushes one result per element and returns at the first error.\<close>

fun traverse :: "('a \<Rightarrow> ('e, 'b) result) \<Rightarrow> 'a list \<Rightarrow> ('e, 'b list) result" where
  "traverse f [] = Inr []"
| "traverse f (x # xs) = rbind (f x) (\<lambda>y. rbind (traverse f xs) (\<lambda>ys. Inr (y # ys)))"

text \<open>A loop that only checks, and returns at the first error.\<close>

fun check_all :: "('a \<Rightarrow> ('e, unit) result) \<Rightarrow> 'a list \<Rightarrow> ('e, unit) result" where
  "check_all f [] = Inr ()"
| "check_all f (x # xs) = rbind (f x) (\<lambda>_. check_all f xs)"

lemma rbind_eq_Inr_iff [result_simps]:
  "rbind r f = Inr y \<longleftrightarrow> (\<exists>v. r = Inr v \<and> f v = Inr y)"
  by (cases r) auto

lemma rbind_eq_Inl_iff [result_simps]:
  "rbind r f = Inl e \<longleftrightarrow> r = Inl e \<or> (\<exists>v. r = Inr v \<and> f v = Inl e)"
  by (cases r) auto

lemma rbind_InrE: "rbind r f = Inr y \<Longrightarrow> (\<And>v. r = Inr v \<Longrightarrow> f v = Inr y \<Longrightarrow> P) \<Longrightarrow> P"
  by (cases r) auto

lemma case_sum_eq_Inr_iff:
  "(case r of Inl e \<Rightarrow> f e | Inr v \<Rightarrow> g v) = Inr y \<longleftrightarrow>
     (\<exists>e. r = Inl e \<and> f e = Inr y) \<or> (\<exists>v. r = Inr v \<and> g v = Inr y)"
  by (cases r) auto

lemma ensure_eq_Inr_iff [result_simps]: "ensure b e = Inr u \<longleftrightarrow> b"
  by (simp add: ensure_def)

lemma ensure_eq_Inl_iff [result_simps]: "ensure b e = Inl e' \<longleftrightarrow> \<not> b \<and> e' = e"
  by (auto simp: ensure_def)

lemma ensure_simps [simp]: "ensure True e = Inr ()" "ensure False e = Inl e"
  by (simp_all add: ensure_def)

lemma map_err_eq_Inr_iff [result_simps]: "map_err f r = Inr v \<longleftrightarrow> r = Inr v"
  by (cases r) (auto simp: map_err_def)

lemma map_err_simps [simp]: "map_err f (Inl e) = Inl (f e)" "map_err f (Inr v) = Inr v"
  by (simp_all add: map_err_def)

lemma branch_eq_Inr_iff [result_simps]:
  "(if b then Inl e else r) = Inr v \<longleftrightarrow> \<not> b \<and> r = Inr v"
  "(if b then r else Inl e) = Inr v \<longleftrightarrow> b \<and> r = Inr v"
  "(case xs of [] \<Rightarrow> Inl e | y # ys \<Rightarrow> f y ys) = Inr v \<longleftrightarrow> (\<exists>y ys. xs = y # ys \<and> f y ys = Inr v)"
  "(case x of None \<Rightarrow> Inl e | Some y \<Rightarrow> g y) = Inr v \<longleftrightarrow> (\<exists>y. x = Some y \<and> g y = Inr v)"
  by (auto split: list.splits option.splits)

lemma rbind_cong [fundef_cong]:
  "r = r' \<Longrightarrow> (\<And>v. r' = Inr v \<Longrightarrow> f v = f' v) \<Longrightarrow> rbind r f = rbind r' f'"
  by (cases r') auto

lemma check_all_eq_Inr_iff [result_simps]:
  "check_all f xs = Inr u \<longleftrightarrow> (\<forall>x \<in> set xs. f x = Inr ())"
  by (induction xs) (auto simp: result_simps)

lemma traverse_eq_Inr_iff [result_simps]:
  "traverse f xs = Inr ys \<longleftrightarrow> list_all2 (\<lambda>x y. f x = Inr y) xs ys"
  by (induction xs arbitrary: ys) (auto simp: result_simps list_all2_Cons1)

lemma traverse_set:
  "traverse f xs = Inr ys \<Longrightarrow> y \<in> set ys \<Longrightarrow> \<exists>x \<in> set xs. f x = Inr y"
  by (fastforce simp: result_simps list_all2_conv_all_nth in_set_conv_nth)

lemma traverse_set_rev:
  "traverse f xs = Inr ys \<Longrightarrow> x \<in> set xs \<Longrightarrow> \<exists>y \<in> set ys. f x = Inr y"
  by (fastforce simp: result_simps list_all2_conv_all_nth in_set_conv_nth)

text \<open>
  What a fallible computation may do: \<open>E\<close> holds of its error, \<open>P\<close> of its value. The rules give one
  subgoal per step of a \<open>?\<close> chain.
\<close>

definition outcome :: "('e, 'a) result \<Rightarrow> ('e \<Rightarrow> bool) \<Rightarrow> ('a \<Rightarrow> bool) \<Rightarrow> bool" where
  "outcome r E P \<longleftrightarrow> (case r of Inl e \<Rightarrow> E e | Inr v \<Rightarrow> P v)"

named_theorems outcome_intros \<open>decomposition rules for the result combinators\<close>

lemma outcome_simps [simp]: "outcome (Inl e) E P = E e" "outcome (Inr v) E P = P v"
  by (simp_all add: outcome_def)

lemma outcome_rbind [outcome_intros]:
  "outcome r E Q \<Longrightarrow> (\<And>v. Q v \<Longrightarrow> outcome (f v) E P) \<Longrightarrow> outcome (rbind r f) E P"
  by (cases r) simp_all

lemma outcome_rbind_pair [outcome_intros]:
  "outcome r E (\<lambda>(a, b). Q a b) \<Longrightarrow> (\<And>a b. Q a b \<Longrightarrow> outcome (f a b) E P) \<Longrightarrow>
   outcome (rbind r (\<lambda>(a, b). f a b)) E P"
  by (cases r) auto

lemma outcome_ensure [outcome_intros]:
  "(\<not> b \<Longrightarrow> E e) \<Longrightarrow> outcome (ensure b e) E (\<lambda>_. b)"
  by (simp add: ensure_def)

lemma outcome_mono:
  "outcome r E Q \<Longrightarrow> (\<And>v. Q v \<Longrightarrow> P v) \<Longrightarrow> outcome r E P"
  by (cases r) simp_all

lemma outcome_InrD: "outcome r E P \<Longrightarrow> r = Inr v \<Longrightarrow> P v"
  by simp

lemma outcome_InlD: "outcome r E P \<Longrightarrow> r = Inl e \<Longrightarrow> E e"
  by simp

text \<open>Evaluates one \<open>let\<close> at a time, naming its value.\<close>

lemma Let_eqI: "x = v \<Longrightarrow> f v = r \<Longrightarrow> Let x f = r"
  by simp

section \<open>Strings\<close>

definition byte :: "char \<Rightarrow> nat" where
  "byte c = of_char c"

definition is_ascii_digit :: "char \<Rightarrow> bool" where
  "is_ascii_digit c \<longleftrightarrow> 48 \<le> byte c \<and> byte c \<le> 57"

definition is_ascii_lowercase :: "char \<Rightarrow> bool" where
  "is_ascii_lowercase c \<longleftrightarrow> 97 \<le> byte c \<and> byte c \<le> 122"

definition is_ascii_uppercase :: "char \<Rightarrow> bool" where
  "is_ascii_uppercase c \<longleftrightarrow> 65 \<le> byte c \<and> byte c \<le> 90"

definition is_ascii_alphanumeric :: "char \<Rightarrow> bool" where
  "is_ascii_alphanumeric c \<longleftrightarrow> is_ascii_digit c \<or> is_ascii_lowercase c \<or> is_ascii_uppercase c"

lemmas ascii_class_defs = byte_def is_ascii_digit_def is_ascii_lowercase_def
  is_ascii_uppercase_def is_ascii_alphanumeric_def

text \<open>The number of bytes of the scalar value that starts with a given lead byte.\<close>

definition utf8_width :: "char \<Rightarrow> nat" where
  "utf8_width c =
     (if byte c < 0xC0 then 1 else if byte c < 0xE0 then 2 else if byte c < 0xF0 then 3 else 4)"

text \<open>\<open>str::chars\<close>: each scalar value is given by its UTF-8 encoding.\<close>

fun chars :: "string \<Rightarrow> string list" where
  "chars [] = []"
| "chars (c # cs) =
     (c # take (utf8_width c - 1) cs) # chars (drop (utf8_width c - 1) cs)"

lemma concat_chars [simp]: "concat (chars s) = s"
  by (induction s rule: chars.induct) simp_all

lemma chars_nonempty: "x \<in> set (chars s) \<Longrightarrow> x \<noteq> []"
  by (induction s rule: chars.induct) auto

lemma chars_eq_Nil_iff [simp]: "chars s = [] \<longleftrightarrow> s = []"
  by (cases s) simp_all

definition is_ascii_string :: "string \<Rightarrow> bool" where
  "is_ascii_string s \<longleftrightarrow> (\<forall>c \<in> set s. byte c < 128)"

lemma chars_ascii: "is_ascii_string s \<Longrightarrow> chars s = map (\<lambda>c. [c]) s"
  by (induction s) (auto simp: is_ascii_string_def utf8_width_def)

text \<open>
  \<open>char::is_whitespace\<close> (the Unicode property \<open>White_Space\<close>) and \<open>char::is_control\<close> (the general
  category \<open>Cc\<close>), on encoded scalar values.
\<close>

definition whitespace_encodings :: "string list" where
  "whitespace_encodings =
     [[CHR 0x09], [CHR 0x0A], [CHR 0x0B], [CHR 0x0C], [CHR 0x0D], [CHR 0x20],
      [CHR 0xC2, CHR 0x85], [CHR 0xC2, CHR 0xA0], [CHR 0xE1, CHR 0x9A, CHR 0x80],
      [CHR 0xE2, CHR 0x80, CHR 0x80], [CHR 0xE2, CHR 0x80, CHR 0x81],
      [CHR 0xE2, CHR 0x80, CHR 0x82], [CHR 0xE2, CHR 0x80, CHR 0x83],
      [CHR 0xE2, CHR 0x80, CHR 0x84], [CHR 0xE2, CHR 0x80, CHR 0x85],
      [CHR 0xE2, CHR 0x80, CHR 0x86], [CHR 0xE2, CHR 0x80, CHR 0x87],
      [CHR 0xE2, CHR 0x80, CHR 0x88], [CHR 0xE2, CHR 0x80, CHR 0x89],
      [CHR 0xE2, CHR 0x80, CHR 0x8A], [CHR 0xE2, CHR 0x80, CHR 0xA8],
      [CHR 0xE2, CHR 0x80, CHR 0xA9], [CHR 0xE2, CHR 0x80, CHR 0xAF],
      [CHR 0xE2, CHR 0x81, CHR 0x9F], [CHR 0xE3, CHR 0x80, CHR 0x80]]"

definition is_whitespace :: "string \<Rightarrow> bool" where
  "is_whitespace u \<longleftrightarrow> u \<in> set whitespace_encodings"

definition is_control :: "string \<Rightarrow> bool" where
  "is_control u \<longleftrightarrow>
     (case u of
        [c] \<Rightarrow> byte c < 0x20 \<or> byte c = 0x7F
      | [c, d] \<Rightarrow> byte c = 0xC2 \<and> 0x80 \<le> byte d \<and> byte d < 0xA0
      | _ \<Rightarrow> False)"

definition trim :: "string \<Rightarrow> string" where
  "trim s = concat (rev (dropWhile is_whitespace (rev (dropWhile is_whitespace (chars s)))))"

definition starts_with :: "string \<Rightarrow> string \<Rightarrow> bool" where
  "starts_with s p \<longleftrightarrow> prefix p s"

definition ends_with :: "string \<Rightarrow> string \<Rightarrow> bool" where
  "ends_with s p \<longleftrightarrow> suffix p s"

definition contains :: "string \<Rightarrow> string \<Rightarrow> bool" where
  "contains s p \<longleftrightarrow> sublist p s"

definition strip_prefix :: "string \<Rightarrow> string \<Rightarrow> string option" where
  "strip_prefix s p = (if prefix p s then Some (drop (length p) s) else None)"

fun split_on :: "char \<Rightarrow> string \<Rightarrow> string list" where
  "split_on c [] = [[]]"
| "split_on c (x # xs) =
     (if x = c then [] # split_on c xs
      else (case split_on c xs of [] \<Rightarrow> [[x]] | y # ys \<Rightarrow> (x # y) # ys))"

fun split_once :: "char \<Rightarrow> string \<Rightarrow> (string \<times> string) option" where
  "split_once c [] = None"
| "split_once c (x # xs) =
     (if x = c then Some ([], xs) else map_option (\<lambda>(l, r). (x # l, r)) (split_once c xs))"

fun join :: "string \<Rightarrow> string list \<Rightarrow> string" where
  "join sep [] = []"
| "join sep [x] = x"
| "join sep (x # y # ys) = x @ sep @ join sep (y # ys)"

lemma strip_prefix_Some_iff: "strip_prefix s p = Some r \<longleftrightarrow> s = p @ r"
  by (auto simp: strip_prefix_def prefix_def)

lemma contains_char_iff: "contains s [c] \<longleftrightarrow> c \<in> set s"
  by (auto simp: contains_def sublist_def in_set_conv_decomp)

lemma contains_mono: "contains s (xs @ ys) \<Longrightarrow> contains s xs"
  by (auto simp: contains_def sublist_def)

lemma split_on_nonempty [simp]: "split_on c s \<noteq> []"
  by (induction s) (auto split: list.splits)

lemma split_on_no_sep: "seg \<in> set (split_on c s) \<Longrightarrow> c \<notin> set seg"
  by (induction s arbitrary: seg) (auto split: list.splits if_splits)

lemma split_on_set: "seg \<in> set (split_on c s) \<Longrightarrow> set seg \<subseteq> set s"
proof (induction s arbitrary: seg)
  case (Cons x xs)
  then show ?case by (fastforce split: list.splits if_splits)
qed simp

lemma split_on_append_sep:
  "c \<notin> set x \<Longrightarrow> split_on c (x @ c # ys) = x # split_on c ys"
  by (induction x) (auto)

lemma split_on_no_sep_id: "c \<notin> set x \<Longrightarrow> split_on c x = [x]"
  by (induction x) auto

lemma split_on_join:
  "xs \<noteq> [] \<Longrightarrow> (\<forall>x \<in> set xs. c \<notin> set x) \<Longrightarrow> split_on c (join [c] xs) = xs"
  by (induction "[c]" xs rule: join.induct) (auto simp: split_on_append_sep split_on_no_sep_id)

lemma join_split_on: "join [c] (split_on c s) = s"
proof (induction s)
  case (Cons x xs)
  obtain y ys where "split_on c xs = y # ys"
    using split_on_nonempty by (metis list.exhaust)
  with Cons show ?case by (cases ys) auto
qed simp

lemma split_once_Some_iff:
  "split_once c s = Some (l, r) \<longleftrightarrow> s = l @ c # r \<and> c \<notin> set l"
proof (induction s arbitrary: l)
  case (Cons x xs)
  then show ?case by (cases l) auto
qed simp

text \<open>Decimal rendering of a natural number (\<open>{n}\<close>).\<close>

fun show_nat :: "nat \<Rightarrow> string" where
  "show_nat n =
     (if n < 10 then [char_of (48 + n)] else show_nat (n div 10) @ [char_of (48 + n mod 10)])"

declare show_nat.simps [simp del]

lemma show_nat_digit: "n < 10 \<Longrightarrow> show_nat n = [char_of (48 + n)]"
  by (simp add: show_nat.simps)

lemma show_nat_step: "10 \<le> n \<Longrightarrow> show_nat n = show_nat (n div 10) @ [char_of (48 + n mod 10)]"
  by (simp add: show_nat.simps [of n])

section \<open>Sorted and deduplicated lists\<close>

text \<open>
  \<open>sort\<close> followed by \<open>dedup\<close>. \<open>Vec::sort\<close> is stable and \<open>Vec::dedup\<close> drops an element equal to its
  predecessor, which is what \<^const>\<open>sort\<close> and \<^const>\<open>remdups_adj\<close> do.
\<close>

definition sort_dedup :: "'a::linorder list \<Rightarrow> 'a list" where
  "sort_dedup xs = remdups_adj (sort xs)"

lemma set_sort_dedup [simp]: "set (sort_dedup xs) = set xs"
  by (simp add: sort_dedup_def)

lemma sorted_sort_dedup [simp]: "sorted (sort_dedup xs)"
  by (simp add: sort_dedup_def sorted_remdups_adj)

lemma sorted_remdups_adj_distinct: "sorted xs \<Longrightarrow> distinct (remdups_adj xs)"
proof (induction xs rule: remdups_adj.induct)
  case (3 x y xs)
  then show ?case by (cases "x = y") (auto simp: order_less_le)
qed simp_all

lemma distinct_sort_dedup [simp]: "distinct (sort_dedup xs)"
  by (simp add: sort_dedup_def sorted_remdups_adj_distinct)

lemma sort_dedup_eq_sorted_list_of_set: "sort_dedup xs = sorted_list_of_set (set xs)"
  using sorted_distinct_set_unique [of "sort_dedup xs" "sorted_list_of_set (set xs)"] by simp

lemma sort_dedup_cong: "set xs = set ys \<Longrightarrow> sort_dedup xs = sort_dedup ys"
  by (simp add: sort_dedup_eq_sorted_list_of_set)

text \<open>\<open>sort_by\<close> on a key followed by \<open>dedup_by\<close> on the same key.\<close>

fun dedup_key :: "('a \<Rightarrow> 'k) \<Rightarrow> 'a list \<Rightarrow> 'a list" where
  "dedup_key f [] = []"
| "dedup_key f [x] = [x]"
| "dedup_key f (x # y # xs) =
     (if f x = f y then dedup_key f (x # xs) else x # dedup_key f (y # xs))"

definition sort_dedup_key :: "('a \<Rightarrow> 'k::linorder) \<Rightarrow> 'a list \<Rightarrow> 'a list" where
  "sort_dedup_key f xs = dedup_key f (sort_key f xs)"

lemma dedup_key_subset: "set (dedup_key f xs) \<subseteq> set xs"
  by (induction f xs rule: dedup_key.induct) auto

lemma map_dedup_key: "map f (dedup_key f xs) = remdups_adj (map f xs)"
  by (induction f xs rule: dedup_key.induct) auto

lemma set_sort_dedup_key_subset: "set (sort_dedup_key f xs) \<subseteq> set xs"
  using dedup_key_subset [of f "sort_key f xs"] by (simp add: sort_dedup_key_def)

lemma map_sort_dedup_key: "map f (sort_dedup_key f xs) = sort_dedup (map f xs)"
proof -
  have "map f (sort_key f xs) = sort (map f xs)"
    by (rule properties_for_sort [symmetric]) simp_all
  then show ?thesis by (simp add: sort_dedup_key_def map_dedup_key sort_dedup_def)
qed

lemma sort_dedup_key_image: "f ` set (sort_dedup_key f xs) = f ` set xs"
  by (metis list.set_map map_sort_dedup_key set_sort_dedup)

lemma sort_dedup_key_represents:
  assumes "x \<in> set xs"
  shows "\<exists>y \<in> set (sort_dedup_key f xs). f y = f x"
  using assms sort_dedup_key_image [of f xs] by (metis imageE imageI)

lemma distinct_map_sort_dedup_key [simp]: "distinct (map f (sort_dedup_key f xs))"
  by (simp add: map_sort_dedup_key)

lemma sort_dedup_key_cong:
  assumes "set xs = set ys" and "inj_on f (set xs)"
  shows "sort_dedup_key f xs = sort_dedup_key f ys"
proof -
  have "map f (sort_dedup_key f xs) = map f (sort_dedup_key f ys)"
    using assms(1) by (simp add: map_sort_dedup_key sort_dedup_eq_sorted_list_of_set)
  moreover have "inj_on f (set (sort_dedup_key f xs) \<union> set (sort_dedup_key f ys))"
    using assms set_sort_dedup_key_subset [of f xs] set_sort_dedup_key_subset [of f ys]
    by (auto intro: inj_on_subset)
  ultimately show ?thesis by (rule map_inj_on)
qed

text \<open>Uniqueness check with a \<open>BTreeSet\<close> of the values seen so far.\<close>

fun insert_all_unique :: "'a list \<Rightarrow> 'a list \<Rightarrow> bool" where
  "insert_all_unique seen [] = True"
| "insert_all_unique seen (x # xs) = (x \<notin> set seen \<and> insert_all_unique (x # seen) xs)"

lemma insert_all_unique_iff:
  "insert_all_unique seen xs \<longleftrightarrow> distinct xs \<and> set xs \<inter> set seen = {}"
  by (induction xs arbitrary: seen) auto

section \<open>Paths\<close>

text \<open>
  \<open>std::path::Path\<close> on Unix. A path is its sequence of components, on which \<open>Path::eq\<close>,
  \<open>starts_with\<close>, \<open>strip_prefix\<close>, \<open>file_name\<close> and \<open>parent\<close> are defined.
\<close>

datatype component = RootDir | CurDir | ParentDir | Normal string

type_synonym path = "component list"

definition segment :: "string \<Rightarrow> component" where
  "segment s = (if s = ''..'' then ParentDir else Normal s)"

definition components :: "string \<Rightarrow> path" where
  "components s =
     (let segs = filter (\<lambda>x. x \<noteq> []) (split_on (CHR ''/'') s);
          body = map segment (filter (\<lambda>x. x \<noteq> ''.'') segs)
      in if starts_with s ''/'' then RootDir # body
         else (case segs of [] \<Rightarrow> [] | x # _ \<Rightarrow> (if x = ''.'' then CurDir # body else body)))"

fun component_str :: "component \<Rightarrow> string" where
  "component_str RootDir = ''/''"
| "component_str CurDir = ''.''"
| "component_str ParentDir = ''..''"
| "component_str (Normal s) = s"

definition to_str :: "path \<Rightarrow> string" where
  "to_str p =
     (case p of
        RootDir # q \<Rightarrow> CHR ''/'' # join ''/'' (map component_str q)
      | _ \<Rightarrow> join ''/'' (map component_str p))"

definition is_absolute :: "path \<Rightarrow> bool" where
  "is_absolute p \<longleftrightarrow> (case p of RootDir # _ \<Rightarrow> True | _ \<Rightarrow> False)"

definition file_name :: "path \<Rightarrow> string option" where
  "file_name p = (case rev p of Normal s # _ \<Rightarrow> Some s | _ \<Rightarrow> None)"

definition path_join :: "path \<Rightarrow> path \<Rightarrow> path" where
  "path_join a b =
     (if is_absolute b then b else if a = [] then b else a @ filter (\<lambda>c. c \<noteq> CurDir) b)"

text \<open>\<open>PathBuf::pop\<close>: \<open>None\<close> where it returns false and leaves the path unchanged.\<close>

definition path_pop :: "path \<Rightarrow> path option" where
  "path_pop p =
     (case rev p of [] \<Rightarrow> None | RootDir # _ \<Rightarrow> None | _ # q \<Rightarrow> Some (rev q))"

definition path_starts_with :: "path \<Rightarrow> path \<Rightarrow> bool" where
  "path_starts_with p base \<longleftrightarrow> prefix base p"

definition path_strip_prefix :: "path \<Rightarrow> path \<Rightarrow> path option" where
  "path_strip_prefix p base = (if prefix base p then Some (drop (length base) p) else None)"

text \<open>The last name of a program path, or the whole string when there is none.\<close>

definition basename :: "string \<Rightarrow> string" where
  "basename program =
     (case file_name (components program) of Some s \<Rightarrow> s | None \<Rightarrow> program)"

lemma path_pop_Some_iff:
  "path_pop p = Some q \<longleftrightarrow> (\<exists>c. p = q @ [c] \<and> c \<noteq> RootDir)"
proof (cases p rule: rev_cases)
  case (snoc ys y)
  then show ?thesis by (cases y) (auto simp: path_pop_def)
qed (simp add: path_pop_def)

lemma file_name_Some_iff: "file_name p = Some s \<longleftrightarrow> (\<exists>q. p = q @ [Normal s])"
proof (cases p rule: rev_cases)
  case (snoc ys y)
  then show ?thesis by (cases y) (auto simp: file_name_def)
qed (simp add: file_name_def)

lemma path_strip_prefix_Some_iff: "path_strip_prefix p base = Some r \<longleftrightarrow> p = base @ r"
  by (auto simp: path_strip_prefix_def prefix_def)

lemma is_absolute_iff: "is_absolute p \<longleftrightarrow> (\<exists>q. p = RootDir # q)"
  by (auto simp: is_absolute_def split: list.splits component.splits)

text \<open>\<open>Component\<close> is ordered by variant, then by name; \<open>Path::cmp\<close> compares component by component.\<close>

fun component_rank :: "component \<Rightarrow> nat \<times> string" where
  "component_rank RootDir = (0, [])"
| "component_rank CurDir = (1, [])"
| "component_rank ParentDir = (2, [])"
| "component_rank (Normal s) = (3, s)"

lemma component_rank_inj: "component_rank a = component_rank b \<Longrightarrow> a = b"
  by (cases a; cases b) auto

instantiation component :: linorder
begin

definition less_component :: "component \<Rightarrow> component \<Rightarrow> bool" where
  "less_component a b \<longleftrightarrow>
     fst (component_rank a) < fst (component_rank b) \<or>
     fst (component_rank a) = fst (component_rank b) \<and> snd (component_rank a) < snd (component_rank b)"

definition less_eq_component :: "component \<Rightarrow> component \<Rightarrow> bool" where
  "less_eq_component a b \<longleftrightarrow>
     fst (component_rank a) < fst (component_rank b) \<or>
     fst (component_rank a) = fst (component_rank b) \<and> snd (component_rank a) \<le> snd (component_rank b)"

instance
proof
  fix a b c :: component
  show "(a < b) = (a \<le> b \<and> \<not> b \<le> a)"
    by (auto simp: less_component_def less_eq_component_def)
  show "a \<le> a"
    by (simp add: less_eq_component_def)
  show "a \<le> b \<Longrightarrow> b \<le> c \<Longrightarrow> a \<le> c"
    by (auto simp: less_eq_component_def)
  show "a \<le> b \<Longrightarrow> b \<le> a \<Longrightarrow> a = b"
    by (rule component_rank_inj) (auto simp: less_eq_component_def prod_eq_iff)
  show "a \<le> b \<or> b \<le> a"
    by (auto simp: less_eq_component_def)
qed

end

section \<open>The file system\<close>

text \<open>
  What the code observes of the operating system: the kind of the object at a path, without and
  with following a symbolic link, and the canonical form of a path.
\<close>

datatype io_error = NotFound | OtherIo string

datatype file_kind = RegularFile | Directory | Symlink | SpecialFile

record fsys =
  symlink_metadata :: "path \<Rightarrow> (io_error, file_kind) result"
  metadata :: "path \<Rightarrow> (io_error, file_kind) result"
  canonicalize :: "path \<Rightarrow> (io_error, path) result"

lemmas path_op_defs [path_simps] = path_join_def path_pop_def path_starts_with_def
  path_strip_prefix_def is_absolute_def file_name_def

end
