(* ===== verification/Timestamp.thy ===== *)
theory Timestamp
  imports Takogami_Prelude
begin

text \<open>
  Timestamps of the durable command records: the strict RFC 3339 parser of
  \<open>contracts/timestamp.rs\<close>, the calendar arithmetic it uses, and the renderer of
  \<open>sessions/store.rs\<close> that produces the stored values. Integers are unbounded here;
  \<open>parse_rfc3339_bounds\<close> shows that no intermediate value of a successful parse leaves the range of
  \<open>i64\<close>. Slicing a string inside a multi-byte character panics in Rust; the model returns
  \<open>CharBoundaryPanic\<close> there.
\<close>

section \<open>The parser\<close>

datatype ts_error =
    TooShort
  | ExpectedDigits string
  | Truncated string
  | Missing string
  | Expected string
  | EmptyFraction
  | MissingOffset
  | TrailingContent
  | OutOfRange string
  | CharBoundaryPanic

fun decimal_value :: "int \<Rightarrow> string \<Rightarrow> int" where
  "decimal_value acc [] = acc"
| "decimal_value acc (c # cs) = decimal_value (10 * acc + (int (byte c) - 48)) cs"

definition digits :: "string \<Rightarrow> (ts_error, int) result" where
  "digits s =
     (if s = [] \<or> \<not> list_all is_ascii_digit s then Inl (ExpectedDigits s)
      else Inr (decimal_value 0 s))"

definition is_continuation :: "char \<Rightarrow> bool" where
  "is_continuation c \<longleftrightarrow> 0x80 \<le> byte c \<and> byte c < 0xC0"

text \<open>\<open>rest.split_at(n)\<close> behind its length guard.\<close>

definition take_str :: "string \<Rightarrow> nat \<Rightarrow> string \<Rightarrow> (ts_error, string \<times> string) result" where
  "take_str rest n ctx =
     (if length rest < n then Inl (Truncated ctx)
      else if n < length rest \<and> is_continuation (rest ! n) then Inl CharBoundaryPanic
      else Inr (take n rest, drop n rest))"

definition take_digits :: "string \<Rightarrow> nat \<Rightarrow> string \<Rightarrow> (ts_error, int \<times> string) result" where
  "take_digits rest n ctx =
     rbind (take_str rest n ctx) (\<lambda>(h, rest'). rbind (digits h) (\<lambda>v. Inr (v, rest')))"

definition expect :: "string \<Rightarrow> char list \<Rightarrow> string \<Rightarrow> (ts_error, string) result" where
  "expect rest options ctx =
     (case rest of
        [] \<Rightarrow> Inl (Missing ctx)
      | c # rest' \<Rightarrow> (if c \<in> set options then Inr rest' else Inl (Expected ctx)))"

definition skip_fraction :: "string \<Rightarrow> (ts_error, string) result" where
  "skip_fraction rest =
     (case strip_prefix rest ''.'' of
        None \<Rightarrow> Inr rest
      | Some stripped \<Rightarrow>
          (if takeWhile is_ascii_digit stripped = [] then Inl EmptyFraction
           else Inr (dropWhile is_ascii_digit stripped)))"

definition parse_offset :: "string \<Rightarrow> (ts_error, int) result" where
  "parse_offset rest =
     (if rest = ''Z'' \<or> rest = ''z'' then Inr 0
      else rbind
        (case rest of
           [] \<Rightarrow> Inl MissingOffset
         | c # off \<Rightarrow> (if c = CHR ''+'' then Inr (1, off)
                       else if c = CHR ''-'' then Inr (- 1, off) else Inl MissingOffset))
        (\<lambda>(sign :: int, off).
           rbind (take_digits off 2 ''offset hour'') (\<lambda>(oh, off).
           rbind (expect off '':'' ''offset separator'') (\<lambda>off.
           rbind (take_digits off 2 ''offset minute'') (\<lambda>(om, off).
             if off \<noteq> [] then Inl TrailingContent
             else if \<not> (0 \<le> oh \<and> oh \<le> 23) \<or> \<not> (0 \<le> om \<and> om \<le> 59)
                  then Inl (OutOfRange ''offset'')
             else Inr (sign * (oh * 3600 + om * 60)))))))"

definition is_leap_year :: "int \<Rightarrow> bool" where
  "is_leap_year year \<longleftrightarrow> year mod 4 = 0 \<and> year mod 100 \<noteq> 0 \<or> year mod 400 = 0"

definition days_in_month :: "int \<Rightarrow> int \<Rightarrow> int" where
  "days_in_month year month =
     (if month \<in> {1, 3, 5, 7, 8, 10, 12} then 31
      else if month \<in> {4, 6, 9, 11} then 30
      else if month = 2 then (if is_leap_year year then 29 else 28)
      else 0)"

text \<open>Rust's division truncates towards zero.\<close>

definition tdiv :: "int \<Rightarrow> int \<Rightarrow> int" where
  "tdiv a b = (if 0 \<le> a then a div b else - ((- a) div b))"

definition days_from_civil :: "int \<Rightarrow> int \<Rightarrow> int \<Rightarrow> int" where
  "days_from_civil y m d =
     (let y = (if m \<le> 2 then y - 1 else y);
          era = tdiv (if 0 \<le> y then y else y - 399) 400;
          yoe = y - era * 400;
          mp = (if 2 < m then m - 3 else m + 9);
          doy = (153 * mp + 2) div 5 + d - 1;
          doe = yoe * 365 + yoe div 4 - yoe div 100 + doy
      in era * 146097 + doe - 719468)"

definition valid_date :: "int \<Rightarrow> int \<Rightarrow> int \<Rightarrow> bool" where
  "valid_date y m d \<longleftrightarrow> 1 \<le> m \<and> m \<le> 12 \<and> 1 \<le> d \<and> d \<le> days_in_month y m"

definition parse_rfc3339_utc_seconds :: "string \<Rightarrow> (ts_error, int) result" where
  "parse_rfc3339_utc_seconds input =
     (if length input < 20 then Inl TooShort
      else
        rbind (take_digits input 4 ''year'') (\<lambda>(year, rest).
        rbind (expect rest ''-'' ''date separator'') (\<lambda>rest.
        rbind (take_digits rest 2 ''month'') (\<lambda>(month, rest).
        rbind (expect rest ''-'' ''date separator'') (\<lambda>rest.
        rbind (take_digits rest 2 ''day'') (\<lambda>(day, rest).
        rbind (expect rest ''Tt'' ''date/time separator'') (\<lambda>rest.
        rbind (take_digits rest 2 ''hour'') (\<lambda>(hour, rest).
        rbind (expect rest '':'' ''time separator'') (\<lambda>rest.
        rbind (take_digits rest 2 ''minute'') (\<lambda>(minute, rest).
        rbind (expect rest '':'' ''time separator'') (\<lambda>rest.
        rbind (take_digits rest 2 ''second'') (\<lambda>(second, rest).
        rbind (skip_fraction rest) (\<lambda>rest.
        rbind (parse_offset rest) (\<lambda>offset_seconds.
        rbind (ensure (1 \<le> year \<and> year \<le> 9999) (OutOfRange ''year'')) (\<lambda>_.
        rbind (ensure (1 \<le> month \<and> month \<le> 12) (OutOfRange ''month'')) (\<lambda>_.
        rbind (ensure (\<not> (day < 1 \<or> day > days_in_month year month)) (OutOfRange ''day'')) (\<lambda>_.
        rbind (ensure (0 \<le> hour \<and> hour \<le> 23) (OutOfRange ''hour'')) (\<lambda>_.
        rbind (ensure (0 \<le> minute \<and> minute \<le> 59) (OutOfRange ''minute'')) (\<lambda>_.
        rbind (ensure (0 \<le> second \<and> second \<le> 60) (OutOfRange ''second'')) (\<lambda>_.
          let days = days_from_civil year month day;
              local_seconds = days * 86400 + hour * 3600 + minute * 60 + min second 59
          in Inr (local_seconds - offset_seconds)))))))))))))))))))))"

section \<open>The renderer\<close>

definition wrap_i32 :: "int \<Rightarrow> int" where
  "wrap_i32 x = (x + 2 ^ 31) mod 2 ^ 32 - 2 ^ 31"

definition civil_from_days :: "int \<Rightarrow> int \<times> int \<times> int" where
  "civil_from_days days =
     (let z = days + 719468;
          era = tdiv (if 0 \<le> z then z else z - 146096) 146097;
          doe = z - era * 146097;
          yoe = (doe - doe div 1460 + doe div 36524 - doe div 146096) div 365;
          y = yoe + era * 400;
          doy = doe - (365 * yoe + yoe div 4 - yoe div 100);
          mp = (5 * doy + 2) div 153;
          d = doy - (153 * mp + 2) div 5 + 1;
          m = (if mp < 10 then mp + 3 else mp - 9);
          y = (if m \<le> 2 then y + 1 else y)
      in (wrap_i32 y, m, d))"

text \<open>\<open>{n:0w}\<close>: the decimal form, zero padded to width \<open>w\<close> after the sign.\<close>

definition pad :: "nat \<Rightarrow> int \<Rightarrow> string" where
  "pad w n =
     (let ds = show_nat (nat \<bar>n\<bar>); sign = (if n < 0 then ''-'' else [])
      in sign @ replicate (w - length sign - length ds) (CHR ''0'') @ ds)"

text \<open>\<open>utc_now_rfc3339\<close> of a clock reading in seconds since the epoch.\<close>

definition utc_now_rfc3339 :: "int \<Rightarrow> string" where
  "utc_now_rfc3339 secs =
     (let days = secs div 86400;
          tod = secs mod 86400;
          (y, m, d) = civil_from_days days;
          hh = tod div 3600;
          mm = tod mod 3600 div 60;
          ss = tod mod 60
      in pad 4 y @ ''-'' @ pad 2 m @ ''-'' @ pad 2 d @ ''T'' @
         pad 2 hh @ '':'' @ pad 2 mm @ '':'' @ pad 2 ss @ ''Z'')"

section \<open>Calendar arithmetic\<close>

text \<open>Days before the first of March of year \<open>y\<close>, in the Gregorian calendar started in March.\<close>

definition year_start :: "int \<Rightarrow> int" where
  "year_start y = 365 * y + y div 4 - y div 100 + y div 400"

definition month_start :: "int \<Rightarrow> int" where
  "month_start mp = (153 * mp + 2) div 5"

lemma era_floor: "tdiv (if 0 \<le> y then y else y - 399) 400 = y div 400"
proof (cases "0 \<le> y")
  case False
  then show ?thesis unfolding tdiv_def by auto
qed (simp add: tdiv_def)

lemma era_floor_days: "tdiv (if 0 \<le> z then z else z - 146096) 146097 = z div 146097"
proof (cases "0 \<le> z")
  case False
  then show ?thesis unfolding tdiv_def by auto
qed (simp add: tdiv_def)

lemma year_start_split:
  "y div 400 * 146097 + ((y - y div 400 * 400) * 365 + (y - y div 400 * 400) div 4 - (y - y div 400 * 400) div 100)
   = year_start y"
proof -
  define e where "e = y div 400"
  define r where "r = y mod 400"
  have y: "y = 400 * e + r" and r: "0 \<le> r" "r < 400"
    by (simp_all add: e_def r_def)
  have "y div 4 = 100 * e + r div 4" "y div 100 = 4 * e + r div 100" "y div 400 = e"
    using r by (simp_all add: y) 
  then show ?thesis
    by (simp add: year_start_def y)
qed

lemma days_from_civil_eq:
  "days_from_civil y m d =
     (if m \<le> 2 then year_start (y - 1) + month_start (m + 9) else year_start y + month_start (m - 3))
     + d - 1 - 719468"
  unfolding days_from_civil_def Let_def era_floor month_start_def
  using year_start_split [of y] year_start_split [of "y - 1"] by auto

lemma div_add_one: "0 < k \<Longrightarrow> (y + 1) div k = y div k + (if (y + 1) mod k = 0 then 1 else 0)" for k :: int
proof -
  assume k: "0 < k"
  show ?thesis
  proof (cases "(y + 1) mod k = 0")
    case True
    then obtain q where q: "y + 1 = k * q" by (meson mod_0_imp_dvd dvd_def)
    then have "y = k * (q - 1) + (k - 1)" by (simp add: algebra_simps)
    moreover have "(k * (q - 1) + (k - 1)) div k = q - 1"
      using k by (simp add: div_pos_pos_trivial)
    ultimately show ?thesis using True q k by simp
  next
    case False
    have "y + 1 = k * ((y + 1) div k) + (y + 1) mod k" by simp
    then have "y = k * ((y + 1) div k) + ((y + 1) mod k - 1)" by linarith
    moreover have "0 \<le> (y + 1) mod k - 1" "(y + 1) mod k - 1 < k"
      using False k pos_mod_sign [of k "y + 1"] pos_mod_bound [of k "y + 1"] by linarith+
    ultimately have "y div k = (y + 1) div k"
      by (metis div_pos_pos_trivial div_mult_self4 add.commute add_cancel_right_right k less_irrefl)
    with False show ?thesis by simp
  qed
qed

lemma year_start_Suc: "year_start (y + 1) = year_start y + (if is_leap_year (y + 1) then 366 else 365)"
proof -
  have "(y + 1) mod 400 = 0 \<Longrightarrow> (y + 1) mod 100 = 0" "(y + 1) mod 100 = 0 \<Longrightarrow> (y + 1) mod 4 = 0"
    by presburger+
  then show ?thesis
    by (auto simp: year_start_def is_leap_year_def div_add_one)
qed

lemma year_start_mono: "y \<le> y' \<Longrightarrow> year_start y + 365 * (y' - y) \<le> year_start y'"
proof (induction y' rule: int_ge_induct)
  case (step i)
  then show ?case using year_start_Suc [of i] by (auto split: if_splits)
qed simp

text \<open>Length of the month with March-based index \<open>mp\<close>, given whether February has 29 days.\<close>

lemma month_start_step:
  "m \<noteq> 2 \<Longrightarrow> 1 \<le> m \<Longrightarrow> m \<le> 12 \<Longrightarrow>
   month_start ((if m \<le> 2 then m + 9 else m - 3) + 1)
     = month_start (if m \<le> 2 then m + 9 else m - 3) + days_in_month y m"
proof -
  assume "m \<noteq> 2" "1 \<le> m" "m \<le> 12"
  then have "m \<in> {1, 3, 4, 5, 6, 7, 8, 9, 10, 11, 12}" by (simp, arith)
  then show ?thesis by (auto simp: month_start_def days_in_month_def)
qed


lemma month_start_mono: "a \<le> b \<Longrightarrow> month_start a \<le> month_start b"
  by (simp add: month_start_def zdiv_mono1)

definition shift_year :: "int \<Rightarrow> int \<Rightarrow> int" where
  "shift_year y m = (if m \<le> 2 then y - 1 else y)"

definition shift_month :: "int \<Rightarrow> int" where
  "shift_month m = (if m \<le> 2 then m + 9 else m - 3)"

lemma days_from_civil_shift:
  "days_from_civil y m d = year_start (shift_year y m) + (month_start (shift_month m) + d - 1) - 719468"
  by (simp add: days_from_civil_eq shift_year_def shift_month_def)

lemma month_end_bound:
  "valid_date y m d \<Longrightarrow> shift_month m \<noteq> 11 \<Longrightarrow>
   month_start (shift_month m) + d - 1 < month_start (shift_month m + 1)"
  using month_start_step [of m y] by (auto simp: valid_date_def shift_month_def split: if_splits)

lemma day_of_year_bounds:
  assumes "valid_date y m d"
  shows "0 \<le> month_start (shift_month m) + d - 1"
    and "month_start (shift_month m) + d - 1 < year_start (shift_year y m + 1) - year_start (shift_year y m)"
proof -
  have mp: "0 \<le> shift_month m" "shift_month m \<le> 11"
    using assms by (auto simp: valid_date_def shift_month_def)
  show "0 \<le> month_start (shift_month m) + d - 1"
    using assms month_start_mono [OF mp(1)] by (simp add: valid_date_def month_start_def)
  show "month_start (shift_month m) + d - 1 < year_start (shift_year y m + 1) - year_start (shift_year y m)"
  proof (cases "shift_month m = 11")
    case True
    then have "m = 2" using assms by (auto simp: shift_month_def valid_date_def split: if_splits)
    then show ?thesis
      using assms year_start_Suc [of "y - 1"]
      by (auto simp: shift_year_def shift_month_def valid_date_def days_in_month_def
          month_start_def split: if_splits)
  next
    case False
    then have "month_start (shift_month m) + d - 1 < month_start (shift_month m + 1)"
      using assms by (rule month_end_bound [rotated])
    also have "\<dots> \<le> month_start 11" using mp False by (intro month_start_mono) simp
    finally show ?thesis by (simp add: year_start_Suc month_start_def)
  qed
qed

lemma days_from_civil_less:
  assumes "valid_date y m d" and "valid_date y' m' d'"
    and "y < y' \<or> y = y' \<and> (m < m' \<or> m = m' \<and> d < d')"
  shows "days_from_civil y m d < days_from_civil y' m' d'"
proof -
  have m: "1 \<le> m" "m \<le> 12" "1 \<le> m'" "m' \<le> 12" using assms by (auto simp: valid_date_def)
  consider "shift_year y m < shift_year y' m'"
    | "shift_year y m = shift_year y' m'" "shift_month m < shift_month m'"
    | "shift_year y m = shift_year y' m'" "shift_month m = shift_month m'" "d < d'"
    using assms(3) m unfolding shift_year_def shift_month_def
    by (cases "m \<le> 2"; cases "m' \<le> 2"; simp; linarith)
  then show ?thesis
  proof cases
    case 1
    then have "year_start (shift_year y m + 1) \<le> year_start (shift_year y' m')"
      using year_start_mono [of "shift_year y m + 1" "shift_year y' m'"] by simp
    then show ?thesis
      using day_of_year_bounds [OF assms(1)] day_of_year_bounds(1) [OF assms(2)]
      by (simp add: days_from_civil_shift)
  next
    case 2
    then have "shift_month m \<noteq> 11" using m by (auto simp: shift_month_def split: if_splits)
    then have "month_start (shift_month m) + d - 1 < month_start (shift_month m + 1)"
      by (rule month_end_bound [OF assms(1)])
    also have "\<dots> \<le> month_start (shift_month m')" using 2 by (intro month_start_mono) simp
    finally show ?thesis using 2 assms(2) by (simp add: days_from_civil_shift valid_date_def)
  qed (simp add: days_from_civil_shift)
qed

section \<open>The calendar functions are inverse to each other\<close>

definition yoe_num :: "int \<Rightarrow> int" where
  "yoe_num doe = doe - doe div 1460 + doe div 36524 - doe div 146096"

lemma yoe_num_step: "0 \<le> x \<Longrightarrow> x < 146096 \<Longrightarrow> yoe_num x \<le> yoe_num (x + 1)"
proof -
  assume x: "0 \<le> x" "x < 146096"
  have "(x + 1) mod 146096 = (if x = 146095 then 0 else x + 1)"
    using x by (simp add: mod_pos_pos_trivial)
  then have "\<not> ((x + 1) mod 146096 = 0 \<and> (x + 1) mod 1460 = 0)" using x by auto
  then show ?thesis by (auto simp: yoe_num_def div_add_one)
qed

lemma yoe_num_mono: "a \<le> b \<Longrightarrow> 0 \<le> a \<Longrightarrow> b \<le> 146096 \<Longrightarrow> yoe_num a \<le> yoe_num b"
proof (induction b rule: int_ge_induct)
  case (step i)
  then show ?case using yoe_num_step [of i] by simp
qed simp

lemma yoe_endpoints:
  "list_all (\<lambda>y. yoe_num (year_start y) div 365 = y \<and> yoe_num (year_start (y + 1) - 1) div 365 = y) [0..399]"
  by code_simp

lemma year_start_cover:
  "0 \<le> n \<Longrightarrow> 0 \<le> x \<Longrightarrow> x < year_start n \<Longrightarrow> \<exists>y. 0 \<le> y \<and> y < n \<and> year_start y \<le> x \<and> x < year_start (y + 1)"
proof (induction n rule: int_ge_induct)
  case base
  then show ?case by (simp add: year_start_def)
next
  case (step i)
  then show ?case
  proof (cases "x < year_start i")
    case False
    with step show ?thesis by (intro exI [of _ i]) simp
  qed force
qed

lemma yoe_correct:
  assumes "0 \<le> doe" and "doe < 146097"
  defines "y \<equiv> yoe_num doe div 365"
  shows "0 \<le> y" and "y < 400" and "year_start y \<le> doe" and "doe < year_start (y + 1)"
proof -
  have "doe < year_start 400" using assms by (simp add: year_start_def)
  then obtain x where x: "0 \<le> x" "x < 400" "year_start x \<le> doe" "doe < year_start (x + 1)"
    using year_start_cover [of 400 doe] assms by auto
  have ends: "yoe_num (year_start x) div 365 = x" "yoe_num (year_start (x + 1) - 1) div 365 = x"
    using yoe_endpoints x by (auto simp: list_all_iff)
  have "0 \<le> year_start x"
    using year_start_mono [of 0 x] x by (simp add: year_start_def [of 0])
  then have "yoe_num (year_start x) \<le> yoe_num doe"
    using x assms by (intro yoe_num_mono) auto
  moreover have "year_start (x + 1) \<le> 146097"
    using year_start_mono [of "x + 1" 400] x by (simp add: year_start_def [of 400])
  then have "yoe_num doe \<le> yoe_num (year_start (x + 1) - 1)"
    using x assms by (intro yoe_num_mono) auto
  ultimately have "yoe_num doe div 365 = x"
    using ends by (metis order_antisym zdiv_mono1 zero_less_numeral)
  then show "0 \<le> y" "y < 400" "year_start y \<le> doe" "doe < year_start (y + 1)"
    using x by (simp_all add: y_def)
qed


lemma year_start_period: "year_start (y + 400 * e) = year_start y + 146097 * e"
proof -
  have "(y + 400 * e) div 4 = y div 4 + 100 * e" "(y + 400 * e) div 100 = y div 100 + 4 * e"
    "(y + 400 * e) div 400 = y div 400 + e"
    by simp_all
  then show ?thesis by (simp add: year_start_def)
qed

lemma month_of_day:
  assumes "0 \<le> doy" and "doy \<le> 365"
  defines "mp \<equiv> (5 * doy + 2) div 153"
  shows "0 \<le> mp" and "mp \<le> 11" and "month_start mp \<le> doy" and "doy < month_start (mp + 1)"
proof -
  have b: "153 * mp \<le> 5 * doy + 2" "5 * doy + 2 < 153 * mp + 153"
    unfolding mp_def by simp_all
  show "0 \<le> mp" "mp \<le> 11" using b assms(1,2) by linarith+
  show "month_start mp \<le> doy" "doy < month_start (mp + 1)"
    using b by (simp_all add: month_start_def)
qed

lemma civil_from_days_raw:
  obtains y m d where "civil_from_days days = (wrap_i32 y, m, d)"
    and "valid_date y m d" and "days_from_civil y m d = days"
proof -
  define z e doe where "z = days + 719468" and "e = z div 146097" and "doe = z mod 146097"
  define yoe where "yoe = yoe_num doe div 365"
  define Y where "Y = yoe + 400 * e"
  define doy where "doy = doe - year_start yoe"
  define mp where "mp = (5 * doy + 2) div 153"
  define m where "m = (if mp < 10 then mp + 3 else mp - 9)"
  define y where "y = (if m \<le> 2 then Y + 1 else Y)"
  define d where "d = doy - month_start mp + 1"
  have doe: "0 \<le> doe" "doe < 146097" by (simp_all add: doe_def)
  note yoe = yoe_correct [OF doe, folded yoe_def]
  have doy: "0 \<le> doy" "doy < year_start (Y + 1) - year_start Y"
    using yoe year_start_period [of "yoe + 1" e] year_start_period [of yoe e]
    by (simp_all add: doy_def Y_def algebra_simps)
  have doy365: "doy \<le> 365" using doy year_start_Suc [of Y] by (auto split: if_splits)
  note mp = month_of_day [OF doy(1) doy365, folded mp_def]
  have shift: "shift_year y m = Y" "shift_month m = mp" "1 \<le> m" "m \<le> 12"
    using mp by (auto simp: y_def m_def shift_year_def shift_month_def)
  have "d \<le> days_in_month y m"
  proof (cases "m = 2")
    case True
    then have "mp = 11" "y = Y + 1" using mp by (auto simp: m_def y_def split: if_splits)
    with True show ?thesis
      using doy year_start_Suc [of Y] by (auto simp: d_def days_in_month_def month_start_def split: if_splits)
  next
    case False
    with month_start_step [OF False shift(3,4), of y] mp shift show ?thesis
      by (simp add: d_def shift_month_def split: if_splits)
  qed
  then have valid: "valid_date y m d" using shift mp by (simp add: valid_date_def d_def)
  have "days_from_civil y m d = days"
    using year_start_period [of yoe e]
    by (simp add: days_from_civil_shift shift d_def doy_def Y_def doe_def e_def z_def
        minus_div_mult_eq_mod [symmetric] algebra_simps)
  moreover have "civil_from_days days = (wrap_i32 y, m, d)"
  proof -
    have D: "365 * yoe + yoe div 4 - yoe div 100 = year_start yoe"
      using yoe(1,2) by (simp add: year_start_def)
    show ?thesis
      unfolding civil_from_days_def era_floor_days
      apply (rule Let_eqI [of _ z], simp add: z_def)
      apply (rule Let_eqI [of _ e], simp only: era_floor_days e_def)
      apply (rule Let_eqI [of _ doe], simp add: doe_def e_def minus_div_mult_eq_mod)
      apply (rule Let_eqI [of _ yoe], simp only: yoe_def yoe_num_def)
      apply (rule Let_eqI [of _ Y], simp only: Y_def mult.commute)
      apply (rule Let_eqI [of _ doy], simp only: D doy_def)
      apply (rule Let_eqI [of _ mp], simp only: mp_def)
      apply (rule Let_eqI [of _ d], simp only: d_def month_start_def)
      apply (rule Let_eqI [of _ m], simp only: m_def)
      apply (rule Let_eqI [of _ y], simp only: y_def)
      by (rule refl)
  qed
  ultimately show thesis using that valid by blast
qed

lemma civil_from_days_range:
  assumes "0 \<le> days" and "days \<le> 2932896"
  obtains y m d where "civil_from_days days = (y, m, d)" and "1970 \<le> y" and "y \<le> 9999"
    and "valid_date y m d" and "days_from_civil y m d = days"
proof -
  obtain y m d where c: "civil_from_days days = (wrap_i32 y, m, d)"
    and v: "valid_date y m d" and eq: "days_from_civil y m d = days"
    by (rule civil_from_days_raw)
  have "\<not> y < 1970"
  proof
    assume "y < 1970"
    then have "days_from_civil y m d < days_from_civil 1970 1 1"
      by (intro days_from_civil_less [OF v]) (simp_all add: valid_date_def days_in_month_def)
    then show False using eq assms(1) by (simp add: days_from_civil_def tdiv_def)
  qed
  moreover have "\<not> 9999 < y"
  proof
    assume "9999 < y"
    then have "days_from_civil 9999 12 31 < days_from_civil y m d"
      by (intro days_from_civil_less [OF _ v]) (simp_all add: valid_date_def days_in_month_def)
    then show False using eq assms(2) by (simp add: days_from_civil_def tdiv_def)
  qed
  moreover from calculation have "wrap_i32 y = y" by (simp add: wrap_i32_def)
  ultimately show thesis using that c v eq by auto
qed


section \<open>Rendering and parsing\<close>

lemma byte_char_of [simp]: "n < 256 \<Longrightarrow> byte (char_of n) = n"
  by (simp add: byte_def)

lemma char_of_48: "char_of (48 :: nat) = CHR ''0''"
  by code_simp

lemma pad_2:
  assumes "0 \<le> n" and "n < 100"
  shows "pad 2 n = [char_of (48 + nat n div 10), char_of (48 + nat n mod 10)]"
proof (cases "n < 10")
  case True
  then have "nat n < 10" "nat n div 10 = 0" "nat n mod 10 = nat n" using assms by auto
  then show ?thesis using assms by (simp add: pad_def show_nat_digit char_of_48)
next
  case False
  then have "10 \<le> nat n" "nat n div 10 < 10" using assms by auto
  then show ?thesis using assms by (simp add: pad_def show_nat_step show_nat_digit)
qed


lemma pad_4:
  assumes "1000 \<le> n" and "n < 10000"
  shows "pad 4 n = [char_of (48 + nat n div 1000), char_of (48 + nat n div 100 mod 10),
    char_of (48 + nat n div 10 mod 10), char_of (48 + nat n mod 10)]"
proof -
  have n: "10 \<le> nat n" "10 \<le> nat n div 10" "10 \<le> nat n div 100" "nat n div 1000 < 10"
    using assms by auto
  have d: "nat n div 10 div 10 = nat n div 100" "nat n div 100 div 10 = nat n div 1000"
    by (simp_all add: div_mult2_eq [symmetric])
  have "show_nat (nat n) = [char_of (48 + nat n div 1000), char_of (48 + nat n div 100 mod 10),
    char_of (48 + nat n div 10 mod 10), char_of (48 + nat n mod 10)]"
    using n by (simp add: show_nat_step d show_nat_digit)
  then show ?thesis using assms by (simp add: pad_def)
qed

lemma is_ascii_digit_char_of: "k < 10 \<Longrightarrow> is_ascii_digit (char_of (48 + k :: nat))"
  by (simp add: is_ascii_digit_def)

lemma take_digits_2:
  assumes "a < 10" and "b < 10" and "\<not> is_continuation c"
  shows "take_digits ([char_of (48 + a :: nat), char_of (48 + b)] @ c # rest) 2 ctx
    = Inr (int (10 * a + b), c # rest)"
  using assms by (simp add: take_digits_def take_str_def digits_def is_ascii_digit_char_of)

lemma take_digits_4:
  assumes "a < 10" and "b < 10" and "e < 10" and "f < 10" and "\<not> is_continuation c"
  shows "take_digits ([char_of (48 + a :: nat), char_of (48 + b), char_of (48 + e), char_of (48 + f)] @ c # rest) 4 ctx
    = Inr (int (10 * (10 * (10 * a + b) + e) + f), c # rest)"
  using assms by (simp add: take_digits_def take_str_def digits_def is_ascii_digit_char_of)

lemma take_digits_pad_2:
  assumes "0 \<le> n" and "n < 100" and "\<not> is_continuation c"
  shows "take_digits (pad 2 n @ c # rest) 2 ctx = Inr (n, c # rest)"
proof -
  have b: "nat n div 10 < 10" "nat n mod 10 < 10" using assms by auto
  have "10 * (nat n div 10) + nat n mod 10 = nat n" by simp
  then have "int (10 * (nat n div 10) + nat n mod 10) = n" using assms(1) by simp
  then show ?thesis
    using take_digits_2 [OF b assms(3), of rest ctx] by (simp only: pad_2 [OF assms(1,2)])
qed

lemma take_digits_pad_4:
  assumes "1000 \<le> n" and "n < 10000" and "\<not> is_continuation c"
  shows "take_digits (pad 4 n @ c # rest) 4 ctx = Inr (n, c # rest)"
proof -
  have b: "nat n div 1000 < 10" "nat n div 100 mod 10 < 10" "nat n div 10 mod 10 < 10" "nat n mod 10 < 10"
    using assms by auto
  have "10 * (nat n div 1000) + nat n div 100 mod 10 = nat n div 100"
    "10 * (nat n div 100) + nat n div 10 mod 10 = nat n div 10"
    using mult_div_mod_eq [of 10 "nat n div 100"] mult_div_mod_eq [of 10 "nat n div 10"]
    by (simp_all add: div_mult2_eq [symmetric])
  then have "10 * (10 * (10 * (nat n div 1000) + nat n div 100 mod 10) + nat n div 10 mod 10) + nat n mod 10 = nat n"
    by simp
  then have "int (10 * (10 * (10 * (nat n div 1000) + nat n div 100 mod 10) + nat n div 10 mod 10) + nat n mod 10) = n"
    using assms(1) by simp
  then show ?thesis
    using take_digits_4 [OF b assms(3), of rest ctx] by (simp only: pad_4 [OF assms(1,2)])
qed

lemma length_pad: "1000 \<le> y \<Longrightarrow> y < 10000 \<Longrightarrow> length (pad 4 y) = 4"
  "0 \<le> n \<Longrightarrow> n < 100 \<Longrightarrow> length (pad 2 n) = 2"
  by (simp_all add: pad_2 pad_4)

lemma separators_not_continuation [simp]:
  "\<not> is_continuation (CHR ''-'')" "\<not> is_continuation (CHR '':'')" "\<not> is_continuation (CHR ''T'')"
  "\<not> is_continuation (CHR ''Z'')"
  by (simp_all add: is_continuation_def byte_def)

lemma expect_Cons [simp]: "c \<in> set opts \<Longrightarrow> expect (c # rest) opts ctx = Inr rest"
  by (simp add: expect_def)

lemma parse_rendered:
  assumes y: "1000 \<le> y" "y \<le> 9999" and v: "valid_date y m d"
    and hh: "0 \<le> hh" "hh \<le> 23" and mm: "0 \<le> mm" "mm \<le> 59" and ss: "0 \<le> ss" "ss \<le> 59"
  shows "parse_rfc3339_utc_seconds
      (pad 4 y @ ''-'' @ pad 2 m @ ''-'' @ pad 2 d @ ''T'' @ pad 2 hh @ '':'' @ pad 2 mm @ '':'' @ pad 2 ss @ ''Z'')
    = Inr (days_from_civil y m d * 86400 + hh * 3600 + mm * 60 + ss)"
proof -
  have m: "1 \<le> m" "m \<le> 12" and d: "1 \<le> d" "d \<le> days_in_month y m" "d \<le> 31"
    using v by (auto simp: valid_date_def days_in_month_def split: if_splits)
  have frac: "skip_fraction ''Z'' = Inr ''Z''"
    by (simp add: skip_fraction_def strip_prefix_def)
  have off: "parse_offset ''Z'' = Inr 0"
    by (simp add: parse_offset_def)
  show ?thesis
    unfolding parse_rfc3339_utc_seconds_def
    using y m d hh mm ss
    by (simp add: length_pad take_digits_pad_4 take_digits_pad_2 frac off)
qed

lemma parse_utc_now:
  assumes "0 \<le> secs" and "secs < 253402300800"
  shows "parse_rfc3339_utc_seconds (utc_now_rfc3339 secs) = Inr secs"
proof -
  have days: "0 \<le> secs div 86400" "secs div 86400 \<le> 2932896" using assms by auto
  obtain y m d where c: "civil_from_days (secs div 86400) = (y, m, d)" "1970 \<le> y" "y \<le> 9999"
    "valid_date y m d" "days_from_civil y m d = secs div 86400"
    by (rule civil_from_days_range [OF days])
  define tod where "tod = secs mod 86400"
  have t: "0 \<le> tod" "tod < 86400" by (simp_all add: tod_def)
  have f: "tod mod 3600 div 60 \<le> 59" "tod div 3600 \<le> 23" "0 \<le> tod div 3600"
    "tod mod 60 \<le> 59" "0 \<le> tod mod 3600 div 60" "0 \<le> tod mod 60"
    using t by auto
  have "tod div 3600 * 3600 + tod mod 3600 div 60 * 60 + tod mod 60 = tod"
  proof -
    have "tod mod 3600 mod 60 = tod mod 60" by (rule mod_mod_cancel) simp
    moreover have "tod div 3600 * 3600 + (tod mod 3600 div 60 * 60 + tod mod 3600 mod 60) = tod"
      by (simp only: div_mult_mod_eq)
    ultimately show ?thesis by (simp only: add.assoc)
  qed
  moreover have "secs div 86400 * 86400 + tod = secs" by (simp add: tod_def)
  ultimately have "secs div 86400 * 86400 + tod div 3600 * 3600 + tod mod 3600 div 60 * 60 + tod mod 60 = secs"
    by linarith
  moreover have "1000 \<le> y" using c(2) by simp
  note parse_rendered [OF this c(3) c(4) f(3) f(2) f(5) f(1) f(6) f(4)]
  moreover have "utc_now_rfc3339 secs =
    pad 4 y @ ''-'' @ pad 2 m @ ''-'' @ pad 2 d @ ''T'' @ pad 2 (tod div 3600) @ '':'' @
    pad 2 (tod mod 3600 div 60) @ '':'' @ pad 2 (tod mod 60) @ ''Z''"
    by (simp only: utc_now_rfc3339_def Let_def c(1) prod.case tod_def)
  ultimately show ?thesis by (simp only: c(5))
qed

text \<open>
  C39: every second of the years 1970 to 9999 that the controller renders is read back unchanged by
  the parser that validates and orders the records.
\<close>

theorem utc_now_rfc3339_roundtrip:
  assumes "0 \<le> secs" and "secs < 253402300800"
  shows "parse_rfc3339_utc_seconds (utc_now_rfc3339 secs) = Inr secs"
  using assms by (rule parse_utc_now)

section \<open>Range and panics\<close>

lemma parse_offset_range: "outcome (parse_offset rest) (\<lambda>_. True) (\<lambda>v. - 86340 \<le> v \<and> v \<le> 86340)"
proof -
  have b: "\<And>oh om :: int. 0 \<le> oh \<and> oh \<le> 23 \<Longrightarrow> 0 \<le> om \<and> om \<le> 59 \<Longrightarrow> oh * 3600 + om * 60 \<le> 86340 \<and> 0 \<le> oh * 3600 + om * 60"
    by auto
  show ?thesis
    unfolding parse_offset_def outcome_def
    by (auto split: list.splits sum.splits if_splits prod.splits simp: result_simps
        dest!: b)
qed

text \<open>The fields of a successful parse.\<close>

definition stamp_fields :: "int \<Rightarrow> int \<Rightarrow> int \<Rightarrow> int \<Rightarrow> int \<Rightarrow> int \<Rightarrow> int \<Rightarrow> bool" where
  "stamp_fields y m d hh mm ss off \<longleftrightarrow>
     1 \<le> y \<and> y \<le> 9999 \<and> valid_date y m d \<and> 0 \<le> hh \<and> hh \<le> 23 \<and> 0 \<le> mm \<and> mm \<le> 59 \<and>
     0 \<le> ss \<and> ss \<le> 60 \<and> - 86340 \<le> off \<and> off \<le> 86340"

lemma parse_rfc3339_fields:
  assumes "parse_rfc3339_utc_seconds input = Inr t"
  shows "\<exists>y m d hh mm ss off. stamp_fields y m d hh mm ss off \<and>
    t = days_from_civil y m d * 86400 + hh * 3600 + mm * 60 + min ss 59 - off"
proof -
  obtain y m d hh mm ss off where
    "t = days_from_civil y m d * 86400 + hh * 3600 + mm * 60 + min ss 59 - off"
    "1 \<le> y" "y \<le> 9999" "1 \<le> m" "m \<le> 12" "\<not> (d < 1 \<or> d > days_in_month y m)"
    "0 \<le> hh" "hh \<le> 23" "0 \<le> mm" "mm \<le> 59" "0 \<le> ss" "ss \<le> 60"
    "\<exists>rest. parse_offset rest = Inr off"
    using assms unfolding parse_rfc3339_utc_seconds_def Let_def
    by (auto simp: result_simps split: if_splits) blast
  then have "stamp_fields y m d hh mm ss off"
    using outcome_InrD [OF parse_offset_range]
    by (fastforce simp: stamp_fields_def valid_date_def)
  with \<open>t = _\<close> show ?thesis by blast
qed

text \<open>
  A successful parse lies between the first day of year 1 and the last day of year 9999,
  widened by the largest UTC offset, so the 64-bit arithmetic of the parser cannot overflow.
\<close>

theorem parse_rfc3339_bounds:
  assumes "parse_rfc3339_utc_seconds input = Inr t"
  shows "- 62135683140 \<le> t \<and> t \<le> 253402387139"
proof -
  obtain y m d hh mm ss off where f: "stamp_fields y m d hh mm ss off"
    and t: "t = days_from_civil y m d * 86400 + hh * 3600 + mm * 60 + min ss 59 - off"
    using parse_rfc3339_fields [OF assms] by blast
  have v: "valid_date y m d" "1 \<le> y" "y \<le> 9999" using f by (simp_all add: stamp_fields_def)
  have "valid_date 1 1 1" "valid_date 9999 12 31"
    by (simp_all add: valid_date_def days_in_month_def)
  note e = this
  have md: "1 \<le> m" "m \<le> 12" "1 \<le> d" "d \<le> 31"
    using v(1) by (auto simp: valid_date_def days_in_month_def split: if_splits)
  have "days_from_civil 1 1 1 \<le> days_from_civil y m d"
    using days_from_civil_less [OF e(1) v(1)] v(2) md(1,3)
    by (cases "y = 1 \<and> m = 1 \<and> d = 1") (fastforce simp: less_le)+
  moreover have "days_from_civil y m d \<le> days_from_civil 9999 12 31"
    using days_from_civil_less [OF v(1) e(2)] v(3) md(2,4)
    by (cases "y = 9999 \<and> m = 12 \<and> d = 31") (fastforce simp: less_le)+
  ultimately have "- 719162 \<le> days_from_civil y m d" "days_from_civil y m d \<le> 2932896"
    by (simp_all add: days_from_civil_def tdiv_def)
  then show ?thesis using f t by (auto simp: stamp_fields_def)
qed

theorem utc_now_rfc3339_roundtrip_witness:
  "parse_rfc3339_utc_seconds (utc_now_rfc3339 1784624400) = Inr 1784624400"
  using utc_now_rfc3339_roundtrip [of 1784624400] by simp

theorem parse_rfc3339_bounds_witness:
  "parse_rfc3339_utc_seconds ''2026-07-21T11:00:00+02:00'' = Inr 1784624400 \<and>
   - 62135683140 \<le> (1784624400 :: int) \<and> (1784624400 :: int) \<le> 253402387139"
proof -
  have "parse_rfc3339_utc_seconds ''2026-07-21T11:00:00+02:00'' = Inr 1784624400" by code_simp
  then show ?thesis using parse_rfc3339_bounds by blast
qed

text \<open>
  The day number of the parser is an order embedding of the valid dates: of two valid dates the
  earlier one has the smaller number.
\<close>

theorem days_from_civil_strict_mono:
  assumes "valid_date y m d" and "valid_date y' m' d'"
  shows "days_from_civil y m d < days_from_civil y' m' d' \<longleftrightarrow>
    y < y' \<or> y = y' \<and> (m < m' \<or> m = m' \<and> d < d')"
  using days_from_civil_less [OF assms] days_from_civil_less [OF assms(2,1)]
  by (cases "y = y' \<and> m = m' \<and> d = d'") (force, linarith)

theorem days_from_civil_strict_mono_witness:
  "days_from_civil 2026 2 28 < days_from_civil 2026 3 1"
  using days_from_civil_strict_mono [of 2026 2 28 2026 3 1]
  by (simp add: valid_date_def days_in_month_def is_leap_year_def)

lemma ascii_not_continuation: "is_ascii_string s \<Longrightarrow> n < length s \<Longrightarrow> \<not> is_continuation (s ! n)"
  by (fastforce simp: is_ascii_string_def is_continuation_def dest: nth_mem)

lemma ascii_drop: "is_ascii_string s \<Longrightarrow> is_ascii_string (drop n s)"
  by (auto simp: is_ascii_string_def dest: in_set_dropD)

abbreviation no_panic :: "ts_error \<Rightarrow> bool" where
  "no_panic e \<equiv> e \<noteq> CharBoundaryPanic"

lemma take_digits_ascii [outcome_intros]:
  "is_ascii_string s \<Longrightarrow> outcome (take_digits s n ctx) no_panic (\<lambda>(v, rest). is_ascii_string rest)"
  by (auto simp: take_digits_def take_str_def digits_def outcome_def ascii_not_continuation ascii_drop
      split: if_splits)

lemma expect_ascii [outcome_intros]:
  "is_ascii_string s \<Longrightarrow> outcome (expect s opts ctx) no_panic is_ascii_string"
  by (auto simp: expect_def outcome_def is_ascii_string_def split: list.splits)

lemma skip_fraction_ascii [outcome_intros]:
  "is_ascii_string s \<Longrightarrow> outcome (skip_fraction s) no_panic is_ascii_string"
  by (auto simp: skip_fraction_def outcome_def is_ascii_string_def strip_prefix_Some_iff
      split: option.splits dest: set_dropWhileD)

lemmas no_panic_steps = outcome_rbind_pair [OF take_digits_ascii] outcome_rbind [OF expect_ascii]
  outcome_rbind [OF skip_fraction_ascii]

lemma parse_offset_ascii:
  assumes "is_ascii_string s"
  shows "outcome (parse_offset s) no_panic (\<lambda>_. True)"
proof (cases "s = ''Z'' \<or> s = ''z''")
  case False
  have "outcome (case s of [] \<Rightarrow> Inl MissingOffset
       | c # off \<Rightarrow> if c = CHR ''+'' then Inr (1, off) else if c = CHR ''-'' then Inr (- 1, off) else Inl MissingOffset)
     no_panic (\<lambda>(sign :: int, off). is_ascii_string off)"
    using assms by (auto simp: is_ascii_string_def split: list.split)
  then show ?thesis
    unfolding parse_offset_def if_not_P [OF False]
    by (rule outcome_rbind_pair) (rule no_panic_steps | assumption | simp)+
qed (auto simp: parse_offset_def)

text \<open>On ASCII input the parser never slices inside a character, so it does not panic.\<close>

theorem parse_rfc3339_ascii_no_panic:
  assumes "is_ascii_string input"
  shows "parse_rfc3339_utc_seconds input \<noteq> Inl CharBoundaryPanic"
proof -
  have "outcome (parse_rfc3339_utc_seconds input) no_panic (\<lambda>_. True)"
    unfolding parse_rfc3339_utc_seconds_def Let_def using assms
    by (cases "length input < 20")
      (simp, simp only: if_False, (rule no_panic_steps outcome_rbind [OF parse_offset_ascii]
        outcome_rbind [OF outcome_ensure] | assumption | simp)+)
  then show ?thesis by (auto dest: outcome_InlD)
qed

theorem parse_rfc3339_ascii_no_panic_witness:
  "parse_rfc3339_utc_seconds ''2026-13-01T00:00:00Z'' \<noteq> Inl CharBoundaryPanic"
  using parse_rfc3339_ascii_no_panic [of "''2026-13-01T00:00:00Z''"]
  by (simp add: is_ascii_string_def byte_def)

text \<open>
  A stored timestamp with a multi-byte character in its year is not rejected with an error: the
  slice at byte 4 falls inside the character and the parser panics.
\<close>

theorem parse_rfc3339_non_ascii_panics:
  "parse_rfc3339_utc_seconds
     (''202'' @ [CHR 0xC3, CHR 0xA9] @ ''-07-21T09:00:00Z'') = Inl CharBoundaryPanic"
  by code_simp

end
