(* ===== verification/Entrypoint.thy ===== *)
theory Entrypoint
  imports Takogami_Prelude
begin

text \<open>
  The constrained tokeniser of command strings. \<open>contracts/entrypoint.rs\<close> parses legacy
  entrypoint strings with it and \<open>policy/command.rs\<close> parses command patterns; the two files carry
  the same \<open>split_argv\<close> loop and the same list of forbidden shell syntax, so the loop is modelled
  once, with its two error sites as constructors that each caller maps to its own error type.
\<close>

section \<open>The tokeniser\<close>

datatype split_error = TrailingBackslash | UnmatchedQuote

definition quote_char :: char where "quote_char = CHR 0x22"
definition backslash :: char where "backslash = CHR 0x5C"

fun split_loop ::
  "string list \<Rightarrow> string list \<Rightarrow> string \<Rightarrow> bool \<Rightarrow> (split_error, string list) result" where
  "split_loop [] out cur in_quotes =
     (if in_quotes then Inl UnmatchedQuote
      else Inr (if cur \<noteq> [] then out @ [cur] else out))"
| "split_loop (ch # cs) out cur in_quotes =
     (if ch = [quote_char] then split_loop cs out cur (\<not> in_quotes)
      else if ch = [backslash] \<and> in_quotes then
        (case cs of
           [] \<Rightarrow> Inl TrailingBackslash
         | escaped # cs' \<Rightarrow> split_loop cs' out (cur @ escaped) in_quotes)
      else if is_whitespace ch \<and> \<not> in_quotes then
        (if cur \<noteq> [] then split_loop cs (out @ [cur]) [] in_quotes
         else split_loop cs out cur in_quotes)
      else split_loop cs out (cur @ ch) in_quotes)"

definition split_argv :: "string \<Rightarrow> (split_error, string list) result" where
  "split_argv input = split_loop (chars input) [] [] False"

definition FORBIDDEN :: "string list" where
  "FORBIDDEN =
     [''|'', ''||'', ''&'', ''&&'', '';'', ''>'', ''>>'', ''<'', ''<<'', ''$('', [CHR 0x60],
      [CHR 0x24, CHR 0x7B], [CHR 0x0A], [CHR 0x0D]]"

section \<open>Legacy entrypoints\<close>

record diagnostic_record =
  diag_code :: string
  diag_message :: string

record legacy_entrypoint =
  le_program :: string
  le_args :: "string list"
  le_deprecation :: diagnostic_record

datatype legacy_parse_error =
    EmptyEntrypoint
  | ShellSyntax string
  | DollarSubstitution
  | MalformedQuoting split_error
  | EmptyProgram

definition parse_legacy_entrypoint ::
  "string \<Rightarrow> (legacy_parse_error, legacy_entrypoint) result" where
  "parse_legacy_entrypoint input =
     (let trimmed = trim input in
      if trimmed = [] then Inl EmptyEntrypoint
      else rbind (check_all (\<lambda>token. ensure (\<not> contains trimmed token) (ShellSyntax token)) FORBIDDEN)
        (\<lambda>_. if contains trimmed ''$'' then Inl DollarSubstitution
        else rbind (map_err MalformedQuoting (split_argv trimmed)) (\<lambda>argv.
          case argv of
            [] \<Rightarrow> Inl EmptyEntrypoint
          | program # rest \<Rightarrow>
              (if program = [] then Inl EmptyProgram
               else Inr \<lparr>le_program = program, le_args = rest,
                  le_deprecation = \<lparr>diag_code = ''legacy_entrypoint_deprecated'',
                    diag_message = ''string entrypoints are deprecated; use structured program/args''\<rparr>\<rparr>))))"

section \<open>What the tokeniser produces\<close>

text \<open>The characters that no accepted command string may contain.\<close>

definition shell_meta :: "char set" where
  "shell_meta = {CHR ''|'', CHR ''&'', CHR '';'', CHR ''>'', CHR ''<'', CHR 0x60, CHR ''$'',
     CHR 0x0A, CHR 0x0D}"

lemma forbidden_free:
  assumes "\<forall>token \<in> set FORBIDDEN. \<not> contains s token" and "\<not> contains s ''$''"
  shows "set s \<inter> shell_meta = {}"
proof -
  have "\<forall>c \<in> shell_meta. [c] \<in> set FORBIDDEN \<or> c = CHR ''$''"
    by (simp add: shell_meta_def FORBIDDEN_def)
  then show ?thesis using assms by (fastforce simp: contains_char_iff)
qed

lemma meta_free_forbidden:
  assumes "set s \<inter> shell_meta = {}"
  shows "\<forall>token \<in> set FORBIDDEN. \<not> contains s token" and "\<not> contains s ''$''"
proof -
  have hd: "\<forall>token \<in> set FORBIDDEN. \<exists>c rest. token = [c] @ rest \<and> c \<in> shell_meta"
    by (simp add: FORBIDDEN_def shell_meta_def)
  show "\<forall>token \<in> set FORBIDDEN. \<not> contains s token"
    using hd assms contains_mono contains_char_iff by (metis disjoint_iff)
  show "\<not> contains s ''$''" using assms by (auto simp: contains_char_iff shell_meta_def)
qed

lemma split_loop_tokens:
  "split_loop cs out cur q = Inr argv \<Longrightarrow> [] \<notin> set out \<Longrightarrow>
   [] \<notin> set argv \<and> set (concat argv) \<subseteq> set (concat out) \<union> set cur \<union> set (concat cs)"
proof (induction cs out cur q rule: split_loop.induct)
  case (1 out cur q)
  then show ?case by (auto split: if_splits)
next
  case (2 ch cs out cur q)
  show ?case
  proof (cases "ch = [quote_char] \<or> ch = [backslash] \<and> q")
    case True
    then show ?thesis
    proof (cases "ch = [quote_char]")
      case True
      with "2.IH"(1) "2.prems" show ?thesis by auto
    next
      case False
      with True "2.prems" obtain u us where "cs = u # us" by (cases cs) auto
      with False True "2.IH"(2) "2.prems" show ?thesis by auto
    qed
  next
    case False
    then have nq: "ch \<noteq> [quote_char]" "\<not> (ch = [backslash] \<and> q)" by auto
    show ?thesis
    proof (cases "is_whitespace ch \<and> \<not> q")
      case True
      with nq "2.IH"(3,4) "2.prems" show ?thesis by (cases "cur = []") auto
    next
      case False
      have "split_loop cs out (cur @ ch) q = Inr argv"
        using nq False "2.prems"(1) by auto
      from "2.IH"(5) [OF nq False this "2.prems"(2)] show ?thesis
        by (simp del: set_concat) blast
    qed
  qed
qed

lemma split_argv_tokens:
  assumes "split_argv input = Inr argv"
  shows "[] \<notin> set argv" and "set (concat argv) \<subseteq> set input"
  using split_loop_tokens [of "chars input" "[]" "[]" False argv] assms
  by (simp_all add: split_argv_def del: set_concat)

lemma dropWhile_subset: "set (dropWhile P xs) \<subseteq> set xs"
  by (auto dest: set_dropWhileD)

lemma trim_subset: "set (trim s) \<subseteq> set s"
proof -
  have "set (rev (dropWhile is_whitespace (rev (dropWhile is_whitespace (chars s))))) \<subseteq> set (chars s)"
    by (auto dest!: set_dropWhileD)
  then have "set (trim s) \<subseteq> set (concat (chars s))"
    unfolding trim_def by (auto simp del: concat_chars)
  then show ?thesis by simp
qed

section \<open>Quoting\<close>

text \<open>A writer for the quoted form the tokeniser reads.\<close>

definition escape_char :: "char \<Rightarrow> string" where
  "escape_char c = (if c = quote_char \<or> c = backslash then [backslash, c] else [c])"

definition quote_token :: "string \<Rightarrow> string" where
  "quote_token t = quote_char # concat (map escape_char t) @ [quote_char]"

definition quote_argv :: "string list \<Rightarrow> string" where
  "quote_argv argv = join '' '' (map quote_token argv)"

lemma quote_backslash_distinct [simp]: "backslash \<noteq> quote_char" "quote_char \<noteq> backslash"
  by (simp_all add: quote_char_def backslash_def)

abbreviation units :: "string \<Rightarrow> string list" where
  "units s \<equiv> map (\<lambda>c. [c]) s"

lemma split_loop_escaped:
  "split_loop (units (concat (map escape_char t)) @ cs) out cur True = split_loop cs out (cur @ t) True"
  by (induction t arbitrary: cur) (simp_all add: escape_char_def)

lemma split_loop_quoted:
  "split_loop (units (quote_token t) @ cs) out [] False = split_loop cs out t False"
  by (simp add: quote_token_def split_loop_escaped)

lemma space_is_whitespace: "is_whitespace '' ''"
  by (simp add: is_whitespace_def whitespace_encodings_def)

lemma quote_not_whitespace: "\<not> is_whitespace [quote_char]"
  by (simp add: is_whitespace_def whitespace_encodings_def quote_char_def)

lemma split_loop_quote_argv:
  "[] \<notin> set argv \<Longrightarrow> split_loop (units (quote_argv argv)) out [] False = Inr (out @ argv)"
proof (induction argv arbitrary: out)
  case Nil
  then show ?case by (simp add: quote_argv_def)
next
  case (Cons t ts)
  show ?case
  proof (cases ts)
    case Nil
    have "split_loop (units (quote_token t) @ []) out [] False = split_loop [] out t False"
      by (rule split_loop_quoted)
    with Cons.prems Nil show ?thesis by (simp add: quote_argv_def)
  next
    case (Cons u us)
    have sp: "CHR '' '' \<noteq> quote_char" "CHR '' '' \<noteq> backslash"
      by (simp_all add: quote_char_def backslash_def)
    have "split_loop (units (quote_argv (t # ts))) out [] False
      = split_loop (units (quote_token t) @ '' '' # units (quote_argv ts)) out [] False"
      using Cons by (simp add: quote_argv_def)
    also have "\<dots> = split_loop ('' '' # units (quote_argv ts)) out t False"
      by (rule split_loop_quoted)
    also have "\<dots> = split_loop (units (quote_argv ts)) (out @ [t]) [] False"
      using Cons.prems sp space_is_whitespace by auto
    finally show ?thesis using Cons.IH [of "out @ [t]"] Cons.prems by simp
  qed
qed

lemma set_quote_argv:
  "set (quote_argv argv) \<subseteq> set (concat argv) \<union> {quote_char, backslash, CHR '' ''}"
proof (induction argv rule: induct_list012)
  case (3 t u us)
  then show ?case by (auto simp: quote_argv_def quote_token_def escape_char_def split: if_splits)
qed (auto simp: quote_argv_def quote_token_def escape_char_def split: if_splits)

lemma quote_argv_ends:
  "argv \<noteq> [] \<Longrightarrow> \<exists>mid. quote_argv argv = quote_char # mid \<and> last (quote_argv argv) = quote_char"
proof (induction argv rule: induct_list012)
  case (3 t u us)
  then obtain mid where "quote_argv (u # us) = quote_char # mid" "last (quote_argv (u # us)) = quote_char"
    by auto
  then show ?case by (simp add: quote_argv_def quote_token_def)
qed (simp_all add: quote_argv_def quote_token_def)

lemma trim_id:
  assumes "is_ascii_string s" and "s \<noteq> []" and "\<not> is_whitespace [hd s]" and "\<not> is_whitespace [last s]"
  shows "trim s = s"
proof -
  have "dropWhile is_whitespace (units s) = units s"
    using assms(2,3) by (cases s) simp_all
  moreover have "dropWhile is_whitespace (rev (units s)) = rev (units s)"
    using assms(2,4) by (cases s rule: rev_cases) simp_all
  ultimately show ?thesis
    using assms(1) by (simp add: trim_def chars_ascii concat_map_singleton [where f = id, simplified])
qed

text \<open>
  C40: every argument vector of non-empty ASCII tokens without shell metacharacters can be written
  as a legacy entrypoint string, and the parser gives back exactly that program and those
  arguments: quoting and escaping lose nothing.
\<close>

theorem parse_legacy_entrypoint_roundtrip:
  assumes "\<forall>t \<in> set (program # args). t \<noteq> [] \<and> is_ascii_string t \<and> set t \<inter> shell_meta = {}"
  shows "\<exists>e. parse_legacy_entrypoint (quote_argv (program # args)) = Inr e \<and>
    le_program e = program \<and> le_args e = args"
proof -
  let ?s = "quote_argv (program # args)"
  obtain mid where mid: "?s = quote_char # mid" "last ?s = quote_char"
    using quote_argv_ends [of "program # args"] by auto
  have ascii: "is_ascii_string ?s"
    using set_quote_argv [of "program # args"] assms
    by (fastforce simp: is_ascii_string_def quote_char_def backslash_def byte_def)
  have meta: "set ?s \<inter> shell_meta = {}"
    using set_quote_argv [of "program # args"] assms
    by (fastforce simp: shell_meta_def quote_char_def backslash_def)
  have trim: "trim ?s = ?s"
    using ascii mid quote_not_whitespace by (intro trim_id) auto
  have "split_argv ?s = Inr (program # args)"
    using split_loop_quote_argv [of "program # args" "[]"] assms
    by (auto simp: split_argv_def chars_ascii [OF ascii])
  moreover have "check_all (\<lambda>token. ensure (\<not> contains ?s token) (ShellSyntax token)) FORBIDDEN = Inr ()"
    using meta_free_forbidden(1) [OF meta] by (simp add: result_simps)
  ultimately show ?thesis
    using trim mid(1) meta_free_forbidden(2) [OF meta] assms
    by (simp add: parse_legacy_entrypoint_def)
qed

theorem parse_legacy_entrypoint_roundtrip_witness:
  "\<exists>e. parse_legacy_entrypoint (quote_argv [''moon'', ''run it'', ''takogami:build'']) = Inr e \<and>
     le_program e = ''moon'' \<and> le_args e = [''run it'', ''takogami:build'']"
  by (rule parse_legacy_entrypoint_roundtrip)
    (simp add: is_ascii_string_def byte_def shell_meta_def)

text \<open>
  An accepted legacy entrypoint has a non-empty program and non-empty arguments, none of which
  contains a shell metacharacter, so no token can be read as an operator, a substitution, a
  redirection or a second line.
\<close>

theorem parse_legacy_entrypoint_no_shell:
  assumes "parse_legacy_entrypoint input = Inr e" and "t \<in> set (le_program e # le_args e)"
  shows "t \<noteq> [] \<and> set t \<inter> shell_meta = {} \<and> set t \<subseteq> set input"
proof -
  obtain argv where argv: "split_argv (trim input) = Inr argv" "argv = le_program e # le_args e"
    and free: "\<forall>token \<in> set FORBIDDEN. \<not> contains (trim input) token" "\<not> contains (trim input) ''$''"
    using assms(1)
    by (auto simp: parse_legacy_entrypoint_def Let_def result_simps)
  then have "set t \<subseteq> set (trim input)"
    using split_argv_tokens(2) [OF argv(1)] assms(2) by auto
  then show ?thesis
    using split_argv_tokens(1) [OF argv(1)] argv(2) assms(2) forbidden_free [OF free]
      trim_subset [of input] by auto
qed

theorem parse_legacy_entrypoint_no_shell_witness:
  "\<exists>e. parse_legacy_entrypoint ''moon run demo:build'' = Inr e \<and> ''run'' \<in> set (le_program e # le_args e) \<and>
     set ''run'' \<inter> shell_meta = {}"
proof -
  have p: "parse_legacy_entrypoint ''moon run demo:build'' =
    Inr \<lparr>le_program = ''moon'', le_args = [''run'', ''demo:build''],
      le_deprecation = \<lparr>diag_code = ''legacy_entrypoint_deprecated'',
        diag_message = ''string entrypoints are deprecated; use structured program/args''\<rparr>\<rparr>"
    by code_simp
  show ?thesis
    using p parse_legacy_entrypoint_no_shell [OF p, of "''run''"] by simp
qed

end
