(* ===== verification/Record_Contract.thy ===== *)
theory Record_Contract
  imports Timestamp Entrypoint
begin

text \<open>
  The durable machine contracts of \<open>contracts/types.rs\<close>: the command execution record with its
  embedded resolution, policy decision and execution summary, and the semantic validation every
  reader and writer of a record runs. The properties show that the validation accepts exactly the
  records of a declaratively stated contract, and what that contract gives for each outcome. The
  opaque runtime context (\<open>sessions/runtime_context.rs\<close>) is here because the contract restates its
  capture rules.
\<close>

section \<open>Wire records\<close>

definition SCHEMA_VERSION :: string where "SCHEMA_VERSION = ''0.1.0''"

datatype execution_class = Direct | InteractiveSession

fun execution_class_str :: "execution_class \<Rightarrow> string" where
  "execution_class_str Direct = ''direct''"
| "execution_class_str InteractiveSession = ''interactive_session''"

record source_fingerprint =
  fp_path :: string
  fp_algorithm :: string
  fp_digest :: string

record registry_generation =
  rg_generated_at :: string
  rg_source_fingerprints :: "source_fingerprint list"

record resolved_command =
  res_schema_version :: string
  res_session_id :: string
  res_unit_id :: string
  res_verb :: string
  res_descriptor_path :: string
  res_descriptor_fingerprint :: string
  res_native_manifests :: "string list"
  res_backend :: string
  res_adapter :: string
  res_program :: string
  res_argv :: "string list"
  res_cwd :: string
  res_env_keys :: "string list"
  res_profile_id :: string
  res_policy_ids :: "string list"
  res_registry_generation :: registry_generation
  res_execution_class :: execution_class
  res_runtime_provider :: "string option"

datatype policy_decision =
    Allow (matched_rules: "string list")
  | Gate (policy_id: string) (rule_id: string) (reason: string) (required_approval: string)
  | Deny (policy_id: string) (rule_id: string) (reason: string)

record request_record =
  rq_command :: string
  rq_unit_id :: "string option"
  rq_verb :: "string option"
  rq_flags :: "string list"

record execution_record =
  ex_started :: bool
  ex_pid :: "nat option"
  ex_exit_code :: "nat option"
  ex_signal :: "string option"
  ex_outcome :: string

record output_summary =
  os_stdout_bytes :: nat
  os_stderr_bytes :: nat
  os_truncated :: bool
  os_encoding :: string
  os_compressor :: string

record runtime_context =
  ctx_provider :: string
  ctx_workspace_id :: "string option"
  ctx_tab_id :: "string option"
  ctx_pane_id :: "string option"

record runtime_command_record =
  rc_schema_version :: string
  rc_record_kind :: string
  rc_session_id :: string
  rc_plan_digest :: string
  rc_parent_session_id :: "string option"
  rc_work_session_id :: "string option"
  rc_runtime_context :: "runtime_context option"
  rc_started_at :: string
  rc_ended_at :: "string option"
  rc_actor :: string
  rc_profile_id :: string
  rc_request :: request_record
  rc_resolution :: "resolved_command option"
  rc_policy_decision :: policy_decision
  rc_execution :: execution_record
  rc_source_fingerprints :: "source_fingerprint list"
  rc_output_summary :: output_summary
  rc_error :: "diagnostic_record option"

definition RECORD_KIND_COMMAND_EXECUTION :: string where
  "RECORD_KIND_COMMAND_EXECUTION = ''command_execution''"

definition MAX_ERROR_MESSAGE_BYTES :: nat where "MAX_ERROR_MESSAGE_BYTES = 4096"
definition MAX_ERROR_CODE_BYTES :: nat where "MAX_ERROR_CODE_BYTES = 128"
definition MAX_RUNTIME_CONTEXT_ID_BYTES :: nat where "MAX_RUNTIME_CONTEXT_ID_BYTES = 128"

definition KNOWN_SIGNAL_NAMES :: "string list" where
  "KNOWN_SIGNAL_NAMES = [''SIGINT'', ''SIGTERM'', ''SIGHUP'', ''SIGKILL'']"

section \<open>Validation\<close>

datatype record_error =
    SchemaMismatch string
  | RecordKindInvalid
  | ActorInvalid
  | PlanDigestInvalid
  | SessionIdEmpty
  | StartedAtInvalid ts_error
  | EndedAtInvalid ts_error
  | EndedBeforeStarted
  | ResolutionMismatch string
  | ProviderEmpty
  | RuntimeContextIdInvalid
  | PendingWithEndedAt
  | EndedAtMissing string
  | UnknownOutcome string
  | NotStartedWithPid string
  | NotStartedWithExit string
  | RejectedWithResolution
  | DecisionMismatch string string string
  | CompletedWithoutPid
  | CompletedWithoutExit
  | InterruptedWithoutPid
  | InterruptedWithoutSignal
  | UnknownSignalName string
  | PidWithoutStarted
  | ErrorCodeBounds
  | ErrorMessageBounds

definition require_schema_version :: "string \<Rightarrow> (record_error, unit) result" where
  "require_schema_version version = ensure (version = SCHEMA_VERSION) (SchemaMismatch version)"

definition is_valid_plan_digest :: "string \<Rightarrow> bool" where
  "is_valid_plan_digest digest =
     (case strip_prefix digest ''sha256:'' of
        Some hex \<Rightarrow> length hex = 64 \<and>
          list_all (\<lambda>c. is_ascii_digit c \<or> 97 \<le> byte c \<and> byte c \<le> 102) hex
      | None \<Rightarrow> False)"

definition is_valid_runtime_context_id :: "string \<Rightarrow> bool" where
  "is_valid_runtime_context_id i \<longleftrightarrow>
     i \<noteq> [] \<and> length i \<le> MAX_RUNTIME_CONTEXT_ID_BYTES \<and>
     \<not> contains i ''/'' \<and> \<not> contains i [CHR 0x5C] \<and> \<not> contains i [CHR 0x00] \<and>
     \<not> list_ex is_control (chars i)"

definition validate_header :: "runtime_command_record \<Rightarrow> (record_error, unit) result" where
  "validate_header r =
     rbind (require_schema_version (rc_schema_version r)) (\<lambda>_.
     rbind (ensure (rc_record_kind r = RECORD_KIND_COMMAND_EXECUTION) RecordKindInvalid) (\<lambda>_.
     rbind (ensure (rc_actor r = ''agent'') ActorInvalid) (\<lambda>_.
     rbind (ensure (is_valid_plan_digest (rc_plan_digest r)) PlanDigestInvalid) (\<lambda>_.
     ensure (rc_session_id r \<noteq> []) SessionIdEmpty))))"

definition validate_times :: "runtime_command_record \<Rightarrow> (record_error, unit) result" where
  "validate_times r =
     rbind (map_err StartedAtInvalid (parse_rfc3339_utc_seconds (rc_started_at r))) (\<lambda>started_at.
       case rc_ended_at r of
         None \<Rightarrow> Inr ()
       | Some ended \<Rightarrow>
           rbind (map_err EndedAtInvalid (parse_rfc3339_utc_seconds ended)) (\<lambda>ended_at.
             ensure (\<not> ended_at < started_at) EndedBeforeStarted))"

definition validate_resolution :: "runtime_command_record \<Rightarrow> (record_error, unit) result" where
  "validate_resolution r =
     (case rc_resolution r of
        None \<Rightarrow> Inr ()
      | Some res \<Rightarrow>
          rbind (ensure (res_session_id res = rc_session_id r) (ResolutionMismatch ''session_id'')) (\<lambda>_.
          rbind (ensure (res_schema_version res = rc_schema_version r) (ResolutionMismatch ''schema_version'')) (\<lambda>_.
          rbind (ensure (res_profile_id res = rc_profile_id r) (ResolutionMismatch ''profile_id'')) (\<lambda>_.
          rbind (ensure (Some (res_unit_id res) = rq_unit_id (rc_request r)) (ResolutionMismatch ''unit_id'')) (\<lambda>_.
          rbind (ensure (\<not> (Some (res_verb res) \<noteq> rq_verb (rc_request r) \<or>
                            res_verb res \<noteq> rq_command (rc_request r))) (ResolutionMismatch ''verb'')) (\<lambda>_.
          ensure (rg_source_fingerprints (res_registry_generation res) = rc_source_fingerprints r)
            (ResolutionMismatch ''source_fingerprints'')))))))"

definition flatten_options :: "'a option list \<Rightarrow> 'a list" where
  "flatten_options xs = List.map_filter (\<lambda>x. x) xs"

definition validate_context :: "runtime_command_record \<Rightarrow> (record_error, unit) result" where
  "validate_context r =
     (case rc_runtime_context r of
        None \<Rightarrow> Inr ()
      | Some ctx \<Rightarrow>
          rbind (ensure (ctx_provider ctx \<noteq> []) ProviderEmpty) (\<lambda>_.
          check_all (\<lambda>i. ensure (is_valid_runtime_context_id i) RuntimeContextIdInvalid)
            (flatten_options [ctx_workspace_id ctx, ctx_tab_id ctx, ctx_pane_id ctx])))"

definition terminal_outcomes :: "string list" where
  "terminal_outcomes = [''planned'', ''denied'', ''gated'', ''execution_unavailable'',
     ''failed_to_spawn'', ''completed'', ''interrupted'', ''controller_error'', ''abandoned'']"

definition not_started_outcomes :: "string list" where
  "not_started_outcomes =
     [''denied'', ''gated'', ''planned'', ''execution_unavailable'', ''failed_to_spawn'']"

definition validate_outcome :: "runtime_command_record \<Rightarrow> (record_error, unit) result" where
  "validate_outcome r =
     (let outc = ex_outcome (rc_execution r) in
      if outc = ''pending'' then ensure (rc_ended_at r = None) PendingWithEndedAt
      else if outc \<in> set terminal_outcomes then ensure (rc_ended_at r \<noteq> None) (EndedAtMissing outc)
      else Inl (UnknownOutcome outc))"

definition validate_not_started :: "runtime_command_record \<Rightarrow> (record_error, unit) result" where
  "validate_not_started r =
     (let ex = rc_execution r; outc = ex_outcome ex in
      if outc \<in> set not_started_outcomes then
        rbind (ensure (\<not> (ex_pid ex \<noteq> None \<or> ex_started ex)) (NotStartedWithPid outc)) (\<lambda>_.
        ensure (\<not> (ex_exit_code ex \<noteq> None \<or> ex_signal ex \<noteq> None)) (NotStartedWithExit outc))
      else Inr ())"

fun decision_kind :: "policy_decision \<Rightarrow> string" where
  "decision_kind (Allow _) = ''allow''"
| "decision_kind (Gate _ _ _ _) = ''gate''"
| "decision_kind (Deny _ _ _) = ''deny''"

definition required_decision :: "string \<Rightarrow> string option" where
  "required_decision outc =
     (if outc = ''denied'' then Some ''deny''
      else if outc = ''gated'' then Some ''gate''
      else if outc \<in> {''pending'', ''planned'', ''execution_unavailable'', ''failed_to_spawn'',
                     ''completed'', ''interrupted'', ''controller_error''} then Some ''allow''
      else None)"

definition validate_decision :: "runtime_command_record \<Rightarrow> (record_error, unit) result" where
  "validate_decision r =
     (let outc = ex_outcome (rc_execution r); kind = decision_kind (rc_policy_decision r) in
      rbind (ensure (\<not> ((outc = ''denied'' \<or> outc = ''gated'') \<and> rc_resolution r \<noteq> None))
          RejectedWithResolution) (\<lambda>_.
      case required_decision outc of
        None \<Rightarrow> Inr ()
      | Some required \<Rightarrow> ensure (kind = required) (DecisionMismatch outc required kind)))"

definition validate_exit :: "runtime_command_record \<Rightarrow> (record_error, unit) result" where
  "validate_exit r =
     (let ex = rc_execution r; outc = ex_outcome ex in
      rbind (if outc = ''completed'' then
               rbind (ensure (ex_started ex \<and> ex_pid ex \<noteq> None) CompletedWithoutPid) (\<lambda>_.
               ensure (ex_exit_code ex \<noteq> None \<and> ex_signal ex = None) CompletedWithoutExit)
             else Inr ()) (\<lambda>_.
      rbind (if outc = ''interrupted'' then
               rbind (ensure (ex_started ex \<and> ex_pid ex \<noteq> None) InterruptedWithoutPid) (\<lambda>_.
               case ex_signal ex of
                 None \<Rightarrow> Inl InterruptedWithoutSignal
               | Some s \<Rightarrow> ensure (s \<in> set KNOWN_SIGNAL_NAMES) (UnknownSignalName s))
             else Inr ()) (\<lambda>_.
      ensure (\<not> (ex_pid ex \<noteq> None \<and> \<not> ex_started ex \<and> outc \<noteq> ''pending'')) PidWithoutStarted)))"

definition validate_error :: "runtime_command_record \<Rightarrow> (record_error, unit) result" where
  "validate_error r =
     (case rc_error r of
        None \<Rightarrow> Inr ()
      | Some err \<Rightarrow>
          rbind (ensure (\<not> (diag_code err = [] \<or> length (diag_code err) > MAX_ERROR_CODE_BYTES))
            ErrorCodeBounds) (\<lambda>_.
          ensure (\<not> length (diag_message err) > MAX_ERROR_MESSAGE_BYTES) ErrorMessageBounds))"

definition validate :: "runtime_command_record \<Rightarrow> (record_error, unit) result" where
  "validate r =
     rbind (validate_header r) (\<lambda>_.
     rbind (validate_times r) (\<lambda>_.
     rbind (validate_resolution r) (\<lambda>_.
     rbind (validate_context r) (\<lambda>_.
     rbind (validate_outcome r) (\<lambda>_.
     rbind (validate_not_started r) (\<lambda>_.
     rbind (validate_decision r) (\<lambda>_.
     rbind (validate_exit r) (\<lambda>_.
     validate_error r))))))))"

section \<open>Capture of the runtime context\<close>

record runtime_context_env =
  env_herdr_workspace_id :: "string option"
  env_herdr_tab_id :: "string option"
  env_herdr_pane_id :: "string option"
  env_tmux :: "string option"
  env_tmux_pane :: "string option"

definition MAX_ID_BYTES :: nat where "MAX_ID_BYTES = 128"

definition normalize_id :: "string option \<Rightarrow> (unit, string option) result" where
  "normalize_id raw =
     (case raw of
        None \<Rightarrow> Inr None
      | Some v \<Rightarrow>
          (if v = [] then Inr None
           else if length v > MAX_ID_BYTES then Inl ()
           else if contains v ''/'' \<or> contains v [CHR 0x5C] \<or> contains v [CHR 0x00] then Inl ()
           else if list_ex is_control (chars v) then Inl ()
           else Inr (Some v)))"

definition context_invalid :: "string \<Rightarrow> diagnostic_record" where
  "context_invalid provider =
     \<lparr>diag_code = ''runtime_context_invalid'',
      diag_message = provider @ '' runtime context omitted: invalid opaque id''\<rparr>"

definition collect_runtime_context ::
  "runtime_context_env \<Rightarrow> runtime_context option \<times> diagnostic_record option" where
  "collect_runtime_context env =
     (if env_herdr_workspace_id env \<noteq> None \<or> env_herdr_tab_id env \<noteq> None \<or> env_herdr_pane_id env \<noteq> None
      then
        (case (normalize_id (env_herdr_workspace_id env), normalize_id (env_herdr_tab_id env),
               normalize_id (env_herdr_pane_id env)) of
           (Inr w, Inr t, Inr p) \<Rightarrow>
             (Some \<lparr>ctx_provider = ''herdr'', ctx_workspace_id = w, ctx_tab_id = t, ctx_pane_id = p\<rparr>, None)
         | _ \<Rightarrow> (None, Some (context_invalid ''herdr'')))
      else if (case env_tmux env of None \<Rightarrow> False | Some t \<Rightarrow> t \<noteq> [])
      then
        (case normalize_id (env_tmux_pane env) of
           Inr (Some p) \<Rightarrow>
             (Some \<lparr>ctx_provider = ''tmux'', ctx_workspace_id = None, ctx_tab_id = None,
                ctx_pane_id = Some p\<rparr>, None)
         | Inr None \<Rightarrow> (None, None)
         | Inl _ \<Rightarrow> (None, Some (context_invalid ''tmux'')))
      else (None, None))"

section \<open>The contract, stated declaratively\<close>

text \<open>
  The life cycle of a record, with for each outcome whether the record is closed, which decision
  it must carry (none for \<open>abandoned\<close>, which keeps that of the pending record), and what it may say
  about the child process.
\<close>

datatype phase = Pending | Planned | Denied | Gated | Unavailable | FailedToSpawn | Completed
  | Interrupted | ControllerErr | Abandoned

fun phase_name :: "phase \<Rightarrow> string" where
  "phase_name Pending = ''pending''"
| "phase_name Planned = ''planned''"
| "phase_name Denied = ''denied''"
| "phase_name Gated = ''gated''"
| "phase_name Unavailable = ''execution_unavailable''"
| "phase_name FailedToSpawn = ''failed_to_spawn''"
| "phase_name Completed = ''completed''"
| "phase_name Interrupted = ''interrupted''"
| "phase_name ControllerErr = ''controller_error''"
| "phase_name Abandoned = ''abandoned''"

fun phase_decision :: "phase \<Rightarrow> policy_decision \<Rightarrow> bool" where
  "phase_decision Denied d = is_Deny d"
| "phase_decision Gated d = is_Gate d"
| "phase_decision Abandoned d = True"
| "phase_decision _ d = is_Allow d"

definition never_ran :: "execution_record \<Rightarrow> bool" where
  "never_ran ex \<longleftrightarrow> \<not> ex_started ex \<and> ex_pid ex = None \<and> ex_exit_code ex = None \<and> ex_signal ex = None"

definition ran :: "execution_record \<Rightarrow> bool" where
  "ran ex \<longleftrightarrow> ex_started ex \<and> ex_pid ex \<noteq> None"

fun phase_execution :: "phase \<Rightarrow> execution_record \<Rightarrow> bool" where
  "phase_execution Pending ex = True"
| "phase_execution Completed ex = (ran ex \<and> ex_exit_code ex \<noteq> None \<and> ex_signal ex = None)"
| "phase_execution Interrupted ex = (ran ex \<and> (\<exists>s \<in> set KNOWN_SIGNAL_NAMES. ex_signal ex = Some s))"
| "phase_execution ControllerErr ex = (ex_pid ex \<noteq> None \<longrightarrow> ex_started ex)"
| "phase_execution Abandoned ex = (ex_pid ex \<noteq> None \<longrightarrow> ex_started ex)"
| "phase_execution _ ex = never_ran ex"

definition phase_ok :: "phase \<Rightarrow> runtime_command_record \<Rightarrow> bool" where
  "phase_ok p r \<longleftrightarrow>
     ex_outcome (rc_execution r) = phase_name p \<and>
     (rc_ended_at r = None \<longleftrightarrow> p = Pending) \<and>
     phase_decision p (rc_policy_decision r) \<and>
     phase_execution p (rc_execution r) \<and>
     (p \<in> {Denied, Gated} \<longrightarrow> rc_resolution r = None)"

definition times_ok :: "runtime_command_record \<Rightarrow> bool" where
  "times_ok r \<longleftrightarrow>
     (\<exists>s. parse_rfc3339_utc_seconds (rc_started_at r) = Inr s \<and>
        (\<forall>e. rc_ended_at r = Some e \<longrightarrow> (\<exists>t. parse_rfc3339_utc_seconds e = Inr t \<and> s \<le> t)))"

definition resolution_agrees :: "runtime_command_record \<Rightarrow> resolved_command \<Rightarrow> bool" where
  "resolution_agrees r res \<longleftrightarrow>
     res_session_id res = rc_session_id r \<and> res_schema_version res = rc_schema_version r \<and>
     res_profile_id res = rc_profile_id r \<and> rq_unit_id (rc_request r) = Some (res_unit_id res) \<and>
     rq_verb (rc_request r) = Some (res_verb res) \<and> rq_command (rc_request r) = res_verb res \<and>
     rg_source_fingerprints (res_registry_generation res) = rc_source_fingerprints r"

definition context_ok :: "runtime_context \<Rightarrow> bool" where
  "context_ok ctx \<longleftrightarrow>
     ctx_provider ctx \<noteq> [] \<and>
     (\<forall>i. Some i \<in> {ctx_workspace_id ctx, ctx_tab_id ctx, ctx_pane_id ctx} \<longrightarrow>
        is_valid_runtime_context_id i)"

definition error_ok :: "diagnostic_record \<Rightarrow> bool" where
  "error_ok err \<longleftrightarrow> length (diag_code err) \<in> {1..128} \<and> length (diag_message err) \<le> 4096"

definition record_contract :: "runtime_command_record \<Rightarrow> bool" where
  "record_contract r \<longleftrightarrow>
     rc_schema_version r = ''0.1.0'' \<and> rc_record_kind r = ''command_execution'' \<and>
     rc_actor r = ''agent'' \<and> is_valid_plan_digest (rc_plan_digest r) \<and> rc_session_id r \<noteq> [] \<and>
     times_ok r \<and> pred_option (resolution_agrees r) (rc_resolution r) \<and>
     pred_option context_ok (rc_runtime_context r) \<and> (\<exists>p. phase_ok p r) \<and>
     pred_option error_ok (rc_error r)"

lemma validate_header_iff:
  "validate_header r = Inr u \<longleftrightarrow>
     rc_schema_version r = ''0.1.0'' \<and> rc_record_kind r = ''command_execution'' \<and>
     rc_actor r = ''agent'' \<and> is_valid_plan_digest (rc_plan_digest r) \<and> rc_session_id r \<noteq> []"
  by (auto simp: validate_header_def require_schema_version_def result_simps SCHEMA_VERSION_def
      RECORD_KIND_COMMAND_EXECUTION_def)

lemma validate_times_iff: "validate_times r = Inr u \<longleftrightarrow> times_ok r"
  by (cases "rc_ended_at r") (auto simp: validate_times_def times_ok_def result_simps not_less)

lemma validate_resolution_iff:
  "validate_resolution r = Inr u \<longleftrightarrow> pred_option (resolution_agrees r) (rc_resolution r)"
  by (cases "rc_resolution r") (auto simp: validate_resolution_def resolution_agrees_def result_simps)

lemma validate_context_iff:
  "validate_context r = Inr u \<longleftrightarrow> pred_option context_ok (rc_runtime_context r)"
  by (cases "rc_runtime_context r")
    (auto simp: validate_context_def context_ok_def result_simps flatten_options_def
      List.map_filter_def split: if_splits)

lemma validate_error_iff: "validate_error r = Inr u \<longleftrightarrow> pred_option error_ok (rc_error r)"
proof (cases "rc_error r")
  case (Some err)
  have "\<not> (diag_code err = [] \<or> length (diag_code err) > 128) \<longleftrightarrow> length (diag_code err) \<in> {1..128}"
    by (cases "diag_code err") auto
  with Some show ?thesis
    by (auto simp: validate_error_def error_ok_def result_simps MAX_ERROR_CODE_BYTES_def
        MAX_ERROR_MESSAGE_BYTES_def)
qed (simp add: validate_error_def)

lemma phase_name_inj: "phase_name p = phase_name q \<longleftrightarrow> p = q"
  by (cases p; cases q) simp_all

lemma known_outcome_phase:
  "o' = ''pending'' \<or> o' \<in> set terminal_outcomes \<longleftrightarrow> (\<exists>p. o' = phase_name p)"
proof
  assume "o' = ''pending'' \<or> o' \<in> set terminal_outcomes"
  then have "o' \<in> set (map phase_name [Pending, Planned, Denied, Gated, Unavailable, FailedToSpawn,
      Completed, Interrupted, ControllerErr, Abandoned])"
    by (simp add: terminal_outcomes_def)
  then show "\<exists>p. o' = phase_name p" unfolding set_map by blast
next
  assume "\<exists>p. o' = phase_name p"
  then obtain p where "o' = phase_name p" ..
  then show "o' = ''pending'' \<or> o' \<in> set terminal_outcomes"
    by (cases p) (simp_all add: terminal_outcomes_def)
qed

lemma decision_kind_iff:
  "decision_kind d = ''allow'' \<longleftrightarrow> is_Allow d" "decision_kind d = ''gate'' \<longleftrightarrow> is_Gate d"
  "decision_kind d = ''deny'' \<longleftrightarrow> is_Deny d"
  by (cases d; simp)+

text \<open>For a record whose outcome names a phase, the last four checks say \<^const>\<open>phase_ok\<close>.\<close>

lemma validate_phase_iff:
  assumes "ex_outcome (rc_execution r) = phase_name p"
  shows "validate_outcome r = Inr () \<and> validate_not_started r = Inr () \<and>
     validate_decision r = Inr () \<and> validate_exit r = Inr () \<longleftrightarrow> phase_ok p r"
  using assms
  by (cases p)
    (auto simp: validate_outcome_def validate_not_started_def validate_decision_def validate_exit_def
      phase_ok_def terminal_outcomes_def not_started_outcomes_def required_decision_def never_ran_def
      ran_def decision_kind_iff result_simps Let_def)

lemma validate_outcome_phase:
  assumes "validate_outcome r = Inr u"
  obtains p where "ex_outcome (rc_execution r) = phase_name p"
proof -
  have "ex_outcome (rc_execution r) = ''pending'' \<or> ex_outcome (rc_execution r) \<in> set terminal_outcomes"
    using assms by (auto simp: validate_outcome_def Let_def split: if_splits)
  then show thesis using that unfolding known_outcome_phase by blast
qed

lemma validate_contract_iff: "validate r = Inr () \<longleftrightarrow> record_contract r"
proof -
  have "(validate_outcome r = Inr () \<and> validate_not_started r = Inr () \<and>
      validate_decision r = Inr () \<and> validate_exit r = Inr ()) \<longleftrightarrow> (\<exists>p. phase_ok p r)"
  proof
    assume *: "validate_outcome r = Inr () \<and> validate_not_started r = Inr () \<and>
      validate_decision r = Inr () \<and> validate_exit r = Inr ()"
    then obtain p where "ex_outcome (rc_execution r) = phase_name p"
      using validate_outcome_phase by blast
    with * show "\<exists>p. phase_ok p r" using validate_phase_iff by blast
  next
    assume "\<exists>p. phase_ok p r"
    then obtain p where p: "phase_ok p r" ..
    then have "ex_outcome (rc_execution r) = phase_name p" by (simp add: phase_ok_def)
    with p show "validate_outcome r = Inr () \<and> validate_not_started r = Inr () \<and>
      validate_decision r = Inr () \<and> validate_exit r = Inr ()"
      using validate_phase_iff by blast
  qed
  then show ?thesis
    by (auto simp: validate_def record_contract_def result_simps validate_header_iff
        validate_times_iff validate_resolution_iff validate_context_iff validate_error_iff)
qed

text \<open>
  C38: the record validation that every read and every write runs accepts a record exactly when it
  satisfies the contract stated above: header, ordered RFC 3339 times, a resolution that describes
  the audited request, a bounded runtime context, one of the ten outcomes with the policy decision
  and the process evidence that outcome calls for, and a bounded error.
\<close>

theorem validate_iff_contract: "validate r = Inr () \<longleftrightarrow> record_contract r"
  by (rule validate_contract_iff)


lemma normalize_id_valid: "normalize_id raw = Inr (Some i) \<Longrightarrow> is_valid_runtime_context_id i"
  by (auto simp: normalize_id_def is_valid_runtime_context_id_def MAX_ID_BYTES_def
      MAX_RUNTIME_CONTEXT_ID_BYTES_def split: option.splits if_splits)

text \<open>
  Whatever the environment holds, the captured runtime context satisfies the rules under which
  a stored record is later validated, and a context that is dropped is reported: capture and
  validation cannot disagree.
\<close>

theorem collect_runtime_context_valid:
  "pred_option context_ok (fst (collect_runtime_context env)) \<and>
   (snd (collect_runtime_context env) \<noteq> None \<longrightarrow> fst (collect_runtime_context env) = None)"
  by (auto simp: collect_runtime_context_def context_ok_def normalize_id_valid
      split: option.splits sum.splits if_splits)

theorem collect_runtime_context_valid_witness:
  "fst (collect_runtime_context \<lparr>env_herdr_workspace_id = Some ''a/b'', env_herdr_tab_id = None,
     env_herdr_pane_id = None, env_tmux = None, env_tmux_pane = None\<rparr>) = None"
proof -
  let ?env = "\<lparr>env_herdr_workspace_id = Some ''a/b'', env_herdr_tab_id = None,
     env_herdr_pane_id = None, env_tmux = None, env_tmux_pane = None\<rparr>"
  have "snd (collect_runtime_context ?env) \<noteq> None" by code_simp
  then show ?thesis using collect_runtime_context_valid [of ?env] by simp
qed

section \<open>A sample record\<close>

text \<open>A pending record of an allowed \<open>build\<close> request, used by the witnesses of the record theories.\<close>

definition sample_pending :: runtime_command_record where
  "sample_pending =
     \<lparr>rc_schema_version = ''0.1.0'', rc_record_kind = ''command_execution'', rc_session_id = ''tkg_1'',
      rc_plan_digest = ''sha256:'' @ replicate 64 (CHR ''a''), rc_parent_session_id = None,
      rc_work_session_id = None, rc_runtime_context = None, rc_started_at = ''2026-07-21T09:00:00Z'',
      rc_ended_at = None, rc_actor = ''agent'', rc_profile_id = ''workspace-dev'',
      rc_request = \<lparr>rq_command = ''build'', rq_unit_id = Some ''demo'', rq_verb = Some ''build'', rq_flags = []\<rparr>,
      rc_resolution = None, rc_policy_decision = Allow [''r''],
      rc_execution = \<lparr>ex_started = False, ex_pid = None, ex_exit_code = None, ex_signal = None,
        ex_outcome = ''pending''\<rparr>,
      rc_source_fingerprints = [],
      rc_output_summary = \<lparr>os_stdout_bytes = 0, os_stderr_bytes = 0, os_truncated = False,
        os_encoding = ''utf-8'', os_compressor = ''none''\<rparr>,
      rc_error = None\<rparr>"

definition sample_completed :: runtime_command_record where
  "sample_completed = sample_pending
     \<lparr>rc_ended_at := Some ''2026-07-21T09:00:05Z'',
      rc_execution := \<lparr>ex_started = True, ex_pid = Some 42, ex_exit_code = Some 0, ex_signal = None,
        ex_outcome = ''completed''\<rparr>\<rparr>"

lemma sample_pending_valid: "validate sample_pending = Inr ()"
  by code_simp

lemma sample_completed_valid: "validate sample_completed = Inr ()"
  by code_simp

end
