(* ===== verification/Session_Store.thy ===== *)
theory Session_Store
  imports Record_Contract "HOL-Library.Countable"
begin

text \<open>
  The store of command records (\<open>sessions/store.rs\<close>, \<open>sessions/recovery.rs\<close>): one file per session
  under the state home, written through a temporary file and a rename, guarded by per-session
  advisory locks. The state is the directory, the set of sessions whose lock a live writer holds,
  and the serialiser of the records, which is a library the code calls: a pair of functions in the
  state, whose round trip \<open>codec_ok\<close> assumes. A write takes the step at which the operating system
  fails, if any, as an argument.

  The interface \<open>record_writer\<close> states what the rest of the program relies on; its lemmas lift the
  one-step laws to every run, and the store is shown to implement it.
\<close>

section \<open>Session identifiers\<close>

definition SESSION_ID_MAX :: nat where "SESSION_ID_MAX = 128"

datatype contract_reason =
    RecordInvalid record_error
  | DecodeFailed string
  | FilenameMismatch
  | NoInstalledPending string
  | LockMismatch string string
  | RetainPlanDigest
  | RetainProfile
  | RetainDecision
  | RetainRequest
  | TerminalImmutable string
  | UnlockedPending
  | IdentityChanged
  | LimitOutOfRange

datatype store_error =
    InvalidSessionId
  | Contract contract_reason
  | RecordNotFound string
  | Collision string
  | PathRejected string
  | StoreIo io_error

fun store_error_code :: "store_error \<Rightarrow> string" where
  "store_error_code InvalidSessionId = ''invalid_session_id''"
| "store_error_code (Contract _) = ''record_contract_invalid''"
| "store_error_code (RecordNotFound _) = ''session_not_found''"
| "store_error_code (Collision _) = ''session_id_collision''"
| "store_error_code (PathRejected _) = ''state_path_rejected''"
| "store_error_code (StoreIo _) = ''state_io''"

definition is_session_char :: "char \<Rightarrow> bool" where
  "is_session_char c \<longleftrightarrow> is_ascii_alphanumeric c \<or> c = CHR ''_'' \<or> c = CHR ''-''"

definition validate_session_id :: "string \<Rightarrow> (store_error, unit) result" where
  "validate_session_id i =
     (if i = [] \<or> length i > SESSION_ID_MAX then Inl InvalidSessionId
      else if i = ''.'' \<or> i = ''..'' then Inl InvalidSessionId
      else if contains i ''/'' \<or> contains i [CHR 0x5C] \<or> contains i [CHR 0x00] then Inl InvalidSessionId
      else (case i of
              [] \<Rightarrow> Inl InvalidSessionId
            | first # rest \<Rightarrow>
                (if \<not> is_ascii_alphanumeric first then Inl InvalidSessionId
                 else if \<not> list_all is_session_char rest then Inl InvalidSessionId
                 else Inr ())))"

section \<open>The store\<close>

datatype dir_entry =
    FileEntry string
  | SymlinkEntry
  | OtherEntry
  | StatFails string
  | ReadFails string

record store =
  st_encode :: "runtime_command_record \<Rightarrow> string"
  st_decode :: "string \<Rightarrow> (string, runtime_command_record) result"
  st_entries :: "string \<rightharpoonup> dir_entry"
  st_locked :: "string set"
  st_lock_fault :: "string \<Rightarrow> io_error option"

text \<open>The lock token: it records the session it was acquired for.\<close>

record session_lock =
  lock_session_id :: string

datatype write_step = OpenTmp | WriteBody | SyncFile | SetMode | Rename | SyncDir

type_synonym 'a store_action = "store \<times> (store_error, 'a) result"

definition record_path :: "string \<Rightarrow> (store_error, string) result" where
  "record_path session_id = rbind (validate_session_id session_id) (\<lambda>_. Inr (session_id @ ''.json''))"

definition acquire_lock :: "store \<Rightarrow> string \<Rightarrow> (store_error, session_lock) result" where
  "acquire_lock st session_id =
     rbind (validate_session_id session_id) (\<lambda>_.
       case st_lock_fault st session_id of
         Some e \<Rightarrow> Inl (StoreIo e)
       | None \<Rightarrow> Inr \<lparr>lock_session_id = session_id\<rparr>)"

definition try_lock :: "store \<Rightarrow> string \<Rightarrow> (store_error, session_lock option) result" where
  "try_lock st session_id =
     rbind (validate_session_id session_id) (\<lambda>_.
       case st_lock_fault st session_id of
         Some e \<Rightarrow> Inl (StoreIo e)
       | None \<Rightarrow> Inr (if session_id \<in> st_locked st then None
                      else Some \<lparr>lock_session_id = session_id\<rparr>))"

definition path_present :: "store \<Rightarrow> string \<Rightarrow> (store_error, bool) result" where
  "path_present st path =
     (case st_entries st path of
        None \<Rightarrow> Inr False
      | Some (StatFails m) \<Rightarrow> Inl (StoreIo (OtherIo m))
      | Some _ \<Rightarrow> Inr True)"

definition read_path :: "store \<Rightarrow> string \<Rightarrow> string \<Rightarrow> (store_error, runtime_command_record) result" where
  "read_path st path expected_id =
     (case st_entries st path of
        None \<Rightarrow> Inl (RecordNotFound expected_id)
      | Some (StatFails m) \<Rightarrow> Inl (StoreIo (OtherIo m))
      | Some SymlinkEntry \<Rightarrow> Inl (PathRejected ''symlink records are rejected'')
      | Some OtherEntry \<Rightarrow> Inl (PathRejected ''record path is not a regular file'')
      | Some (ReadFails m) \<Rightarrow> Inl (StoreIo (OtherIo m))
      | Some (FileEntry bytes) \<Rightarrow>
          rbind (map_err (\<lambda>m. Contract (DecodeFailed m)) (st_decode st bytes)) (\<lambda>r.
          rbind (ensure (rc_session_id r = expected_id) (Contract FilenameMismatch)) (\<lambda>_.
          rbind (map_err (\<lambda>e. Contract (RecordInvalid e)) (validate r)) (\<lambda>_. Inr r))))"

definition read_raw :: "store \<Rightarrow> string \<Rightarrow> (store_error, runtime_command_record) result" where
  "read_raw st session_id = rbind (record_path session_id) (\<lambda>path. read_path st path session_id)"

definition validate_for_write :: "runtime_command_record \<Rightarrow> (store_error, unit) result" where
  "validate_for_write r =
     rbind (validate_session_id (rc_session_id r)) (\<lambda>_.
       map_err (\<lambda>e. Contract (RecordInvalid e)) (validate r))"

definition install :: "store \<Rightarrow> string \<Rightarrow> runtime_command_record \<Rightarrow> store" where
  "install st path r =
     st\<lparr>st_entries := (st_entries st)(path \<mapsto> FileEntry (st_encode st r @ [CHR 0x0A]))\<rparr>"

text \<open>
  \<open>atomic_replace\<close>: the rename is the step that installs the new file. A failure before it leaves the
  directory as it was; a failure of the directory sync after it is reported, with the file in place.
\<close>

definition atomic_replace ::
  "write_step option \<Rightarrow> store \<Rightarrow> string \<Rightarrow> runtime_command_record \<Rightarrow> unit store_action" where
  "atomic_replace fault st path r =
     (case fault of
        None \<Rightarrow> (install st path r, Inr ())
      | Some SyncDir \<Rightarrow> (install st path r, Inl (StoreIo (OtherIo ''sync_dir'')))
      | Some _ \<Rightarrow> (st, Inl (StoreIo (OtherIo ''write''))))"

definition check_lock_matches_record ::
  "session_lock \<Rightarrow> runtime_command_record \<Rightarrow> (store_error, unit) result" where
  "check_lock_matches_record lock r =
     ensure (lock_session_id lock = rc_session_id r)
       (Contract (LockMismatch (lock_session_id lock) (rc_session_id r)))"

definition is_pending :: "runtime_command_record \<Rightarrow> bool" where
  "is_pending r \<longleftrightarrow> ex_outcome (rc_execution r) = ''pending''"

definition check_legal_transition ::
  "runtime_command_record \<Rightarrow> runtime_command_record \<Rightarrow> (store_error, unit) result" where
  "check_legal_transition current new =
     (if rc_plan_digest current \<noteq> rc_plan_digest new then Inl (Contract RetainPlanDigest)
      else if rc_profile_id current \<noteq> rc_profile_id new then Inl (Contract RetainProfile)
      else if rc_policy_decision current \<noteq> rc_policy_decision new then Inl (Contract RetainDecision)
      else if rc_request current \<noteq> rc_request new then Inl (Contract RetainRequest)
      else if \<not> is_pending current then
        (if current = new then Inr ()
         else Inl (Contract (TerminalImmutable (ex_outcome (rc_execution current)))))
      else Inr ())"

text \<open>Runs the checks of a write, then the replacement.\<close>

definition guarded ::
  "store \<Rightarrow> (store_error, string) result \<Rightarrow> (string \<Rightarrow> unit store_action) \<Rightarrow> unit store_action" where
  "guarded st checks act = (case checks of Inl e \<Rightarrow> (st, Inl e) | Inr path \<Rightarrow> act path)"

definition write_pending ::
  "write_step option \<Rightarrow> store \<Rightarrow> runtime_command_record \<Rightarrow> session_lock \<Rightarrow> unit store_action" where
  "write_pending fault st r lock =
     guarded st
       (rbind (validate_for_write r) (\<lambda>_.
        rbind (check_lock_matches_record lock r) (\<lambda>_.
        rbind (record_path (rc_session_id r)) (\<lambda>path.
        rbind (path_present st path) (\<lambda>present.
          if present then Inl (Collision (rc_session_id r)) else Inr path)))))
       (\<lambda>path. atomic_replace fault st path r)"

definition write_final ::
  "write_step option \<Rightarrow> store \<Rightarrow> runtime_command_record \<Rightarrow> session_lock \<Rightarrow> unit store_action" where
  "write_final fault st r lock =
     guarded st
       (rbind (validate_for_write r) (\<lambda>_.
        rbind (check_lock_matches_record lock r) (\<lambda>_.
        rbind (record_path (rc_session_id r)) (\<lambda>path.
        rbind (map_err (\<lambda>err. case err of RecordNotFound i \<Rightarrow> Contract (NoInstalledPending i) | other \<Rightarrow> other)
                 (read_path st path (rc_session_id r))) (\<lambda>current.
        rbind (check_legal_transition current r) (\<lambda>_. Inr path))))))
       (\<lambda>path. atomic_replace fault st path r)"

definition write_terminal_unlocked ::
  "write_step option \<Rightarrow> store \<Rightarrow> runtime_command_record \<Rightarrow> unit store_action" where
  "write_terminal_unlocked fault st r =
     guarded st
       (rbind (validate_for_write r) (\<lambda>_.
        if is_pending r then Inl (Contract UnlockedPending)
        else
          rbind (record_path (rc_session_id r)) (\<lambda>path.
          rbind (path_present st path) (\<lambda>present.
            if present then Inl (Collision (rc_session_id r)) else Inr path))))
       (\<lambda>path. atomic_replace fault st path r)"

section \<open>Recovery of abandoned records\<close>

definition abandon :: "int \<Rightarrow> runtime_command_record \<Rightarrow> runtime_command_record" where
  "abandon now r =
     r\<lparr>rc_execution := (rc_execution r)\<lparr>ex_outcome := ''abandoned''\<rparr>,
       rc_ended_at := Some (utc_now_rfc3339 now),
       rc_error := Some \<lparr>diag_code = ''abandoned_pending'',
         diag_message = ''pending record recovered after writer lock released''\<rparr>\<rparr>"

text \<open>What recovery does once it holds the lock: re-read, and decide on what is there now.\<close>

definition recover_locked ::
  "write_step option \<Rightarrow> int \<Rightarrow> runtime_command_record \<Rightarrow> store \<Rightarrow> session_lock \<Rightarrow> string \<Rightarrow>
   runtime_command_record option store_action" where
  "recover_locked fault now pre st lock session_id =
     (case read_raw st session_id of
        Inl (RecordNotFound _) \<Rightarrow> (st, Inr None)
      | Inl err \<Rightarrow> (st, Inl err)
      | Inr current \<Rightarrow>
          if \<not> is_pending current then (st, Inr (Some current))
          else if rc_session_id current \<noteq> rc_session_id pre \<or>
                  rc_plan_digest current \<noteq> rc_plan_digest pre
          then (st, Inl (Contract IdentityChanged))
          else
            (let abandoned = abandon now current in
             case validate abandoned of
               Inl e \<Rightarrow> (st, Inl (Contract (RecordInvalid e)))
             | Inr _ \<Rightarrow>
                 (case write_final fault st abandoned lock of
                    (st', Inl e) \<Rightarrow> (st', Inl e)
                  | (st', Inr _) \<Rightarrow> (st', Inr (Some abandoned)))))"

text \<open>
  The hook stands for everything that happens between the first read and the lock attempt: any
  change of the store.
\<close>

definition recover_abandoned_pending_with_hook ::
  "write_step option \<Rightarrow> int \<Rightarrow> (store \<Rightarrow> store) \<Rightarrow> store \<Rightarrow> string \<Rightarrow>
   runtime_command_record option store_action" where
  "recover_abandoned_pending_with_hook fault now hook st session_id =
     (case read_raw st session_id of
        Inl (RecordNotFound _) \<Rightarrow> (st, Inr None)
      | Inl err \<Rightarrow> (st, Inl err)
      | Inr pre \<Rightarrow>
          if \<not> is_pending pre then (st, Inr (Some pre))
          else
            (let st = hook st in
             case try_lock st session_id of
               Inl err \<Rightarrow> (st, Inl err)
             | Inr None \<Rightarrow> (st, Inr (Some pre))
             | Inr (Some lock) \<Rightarrow> recover_locked fault now pre st lock session_id))"

definition recover_abandoned_pending ::
  "write_step option \<Rightarrow> int \<Rightarrow> store \<Rightarrow> string \<Rightarrow> runtime_command_record option store_action" where
  "recover_abandoned_pending fault now st session_id =
     recover_abandoned_pending_with_hook fault now (\<lambda>st. st) st session_id"


section \<open>The writer interface\<close>

definition same_identity :: "runtime_command_record \<Rightarrow> runtime_command_record \<Rightarrow> bool" where
  "same_identity r r' \<longleftrightarrow>
     rc_session_id r' = rc_session_id r \<and> rc_plan_digest r' = rc_plan_digest r \<and>
     rc_profile_id r' = rc_profile_id r \<and> rc_policy_decision r' = rc_policy_decision r \<and>
     rc_request r' = rc_request r"

lemma same_identity_refl [simp]: "same_identity r r"
  by (simp add: same_identity_def)

lemma same_identity_trans: "same_identity r s \<Longrightarrow> same_identity s t \<Longrightarrow> same_identity r t"
  by (simp add: same_identity_def)

text \<open>
  What the lifecycle coordination relies on (\<open>trait RecordWriter\<close>): every stored record is valid and
  filed under its own session, one operation moves a session only from pending to a record of the
  same identity, and a terminal record stays.
\<close>

locale record_writer =
  fixes stored :: "'st \<Rightarrow> string \<Rightarrow> runtime_command_record option"
    and ok :: "'st \<Rightarrow> bool"
    and step :: "'op \<Rightarrow> 'st \<Rightarrow> 'st"
  assumes ok_step: "ok st \<Longrightarrow> ok (step a st)"
    and stored_valid: "stored st i = Some r \<Longrightarrow> validate r = Inr () \<and> rc_session_id r = i"
    and pending_step: "ok st \<Longrightarrow> stored st i = Some r \<Longrightarrow> is_pending r \<Longrightarrow>
          \<exists>r'. stored (step a st) i = Some r' \<and> same_identity r r'"
    and terminal_step: "ok st \<Longrightarrow> stored st i = Some r \<Longrightarrow> \<not> is_pending r \<Longrightarrow>
          stored (step a st) i = Some r"
begin

lemma ok_run: "ok st \<Longrightarrow> ok (fold step as st)"
  by (induction as arbitrary: st) (simp_all add: ok_step)

lemma terminal_run:
  "ok st \<Longrightarrow> stored st i = Some r \<Longrightarrow> \<not> is_pending r \<Longrightarrow> stored (fold step as st) i = Some r"
  by (induction as arbitrary: st) (simp_all add: ok_step terminal_step)

lemma identity_run:
  "ok st \<Longrightarrow> stored st i = Some r \<Longrightarrow> \<exists>r'. stored (fold step as st) i = Some r' \<and> same_identity r r'"
proof (induction as arbitrary: st r)
  case (Cons a as)
  obtain r1 where r1: "stored (step a st) i = Some r1" "same_identity r r1"
    using Cons.prems pending_step terminal_step by (cases "is_pending r") fastforce+
  then obtain r2 where "stored (fold step as (step a st)) i = Some r2" "same_identity r1 r2"
    using Cons.IH [OF ok_step [OF Cons.prems(1)]] by blast
  then show ?case using same_identity_trans [OF r1(2)] by auto
qed simp

lemma settled_once:
  "ok st \<Longrightarrow> stored (fold step as st) i = Some r \<Longrightarrow> \<not> is_pending r \<Longrightarrow>
   stored (fold step (as @ bs) st) i = Some r \<and> validate r = Inr () \<and> rc_session_id r = i"
  using stored_valid by (auto simp: terminal_run ok_run)

end

section \<open>The store implements the interface\<close>

definition codec_ok :: "store \<Rightarrow> bool" where
  "codec_ok st \<longleftrightarrow> (\<forall>r. st_decode st (st_encode st r @ [CHR 0x0A]) = Inr r)"

definition stored :: "store \<Rightarrow> string \<Rightarrow> runtime_command_record option" where
  "stored st session_id = (case read_raw st session_id of Inr r \<Rightarrow> Some r | Inl _ \<Rightarrow> None)"

text \<open>The operations of the store, in any order, with any failure, and writers coming and going.\<close>

datatype store_op =
    OpPending runtime_command_record session_lock "write_step option"
  | OpFinal runtime_command_record session_lock "write_step option"
  | OpTerminal runtime_command_record "write_step option"
  | OpRecover string int "write_step option"
  | OpLock string
  | OpUnlock string

fun apply_op :: "store_op \<Rightarrow> store \<Rightarrow> store" where
  "apply_op (OpPending r lock fault) st = fst (write_pending fault st r lock)"
| "apply_op (OpFinal r lock fault) st = fst (write_final fault st r lock)"
| "apply_op (OpTerminal r fault) st = fst (write_terminal_unlocked fault st r)"
| "apply_op (OpRecover i now fault) st = fst (recover_abandoned_pending fault now st i)"
| "apply_op (OpLock i) st = st\<lparr>st_locked := insert i (st_locked st)\<rparr>"
| "apply_op (OpUnlock i) st = st\<lparr>st_locked := st_locked st - {i}\<rparr>"

lemma stored_Some_iff: "stored st i = Some r \<longleftrightarrow> read_raw st i = Inr r"
  by (simp add: stored_def split: sum.splits)

lemma record_path_iff: "record_path i = Inr p \<longleftrightarrow> validate_session_id i = Inr () \<and> p = i @ ''.json''"
  by (auto simp: record_path_def result_simps)

lemma read_path_Inr_iff:
  "read_path st p i = Inr r \<longleftrightarrow>
     (\<exists>bytes. st_entries st p = Some (FileEntry bytes) \<and> st_decode st bytes = Inr r \<and>
        rc_session_id r = i \<and> validate r = Inr ())"
proof (cases "st_entries st p")
  case (Some entry)
  then show ?thesis by (cases entry) (auto simp: read_path_def result_simps)
qed (simp add: read_path_def)

lemma read_raw_Inr_iff:
  "read_raw st i = Inr r \<longleftrightarrow>
     validate_session_id i = Inr () \<and> read_path st (i @ ''.json'') i = Inr r"
  by (auto simp: read_raw_def record_path_iff result_simps)

lemma read_install_same:
  assumes "codec_ok st" and "validate_for_write r = Inr ()"
  shows "read_raw (install st (rc_session_id r @ ''.json'') r) (rc_session_id r) = Inr r"
  using assms
  by (simp add: codec_ok_def validate_for_write_def result_simps read_raw_Inr_iff read_path_Inr_iff
      install_def)

lemma read_install_other:
  "i \<noteq> j \<Longrightarrow> read_raw (install st (j @ ''.json'') r) i = read_raw st i"
  by (cases "validate_session_id i")
    (auto simp: read_raw_def record_path_def read_path_def install_def
      split: option.split dir_entry.split)

lemma codec_install [simp]: "codec_ok (install st p r) = codec_ok st"
  by (simp add: codec_ok_def install_def)

text \<open>The effect of a guarded write: nothing, or the installation of a checked record.\<close>

lemma atomic_replace_cases:
  "fst (atomic_replace fault st path r) = st \<or> fst (atomic_replace fault st path r) = install st path r"
  by (auto simp: atomic_replace_def split: option.splits write_step.splits)

lemma guarded_effect:
  "fst (guarded st checks act) \<noteq> st \<Longrightarrow>
   \<exists>path. checks = Inr path \<and> fst (guarded st checks act) = fst (act path)"
  by (cases checks) (simp_all add: guarded_def)

lemma path_absent_stored: "path_present st (i @ ''.json'') = Inr False \<Longrightarrow> stored st i = None"
  by (cases "stored st i")
    (auto simp: path_present_def stored_Some_iff read_raw_Inr_iff read_path_Inr_iff)

lemma write_pending_effect:
  obtains "fst (write_pending fault st r lock) = st"
  | "fst (write_pending fault st r lock) = install st (rc_session_id r @ ''.json'') r"
    "validate_for_write r = Inr ()" "stored st (rc_session_id r) = None"
proof (cases "fst (write_pending fault st r lock) = st")
  case False
  then obtain path where "validate_for_write r = Inr ()" "path = rc_session_id r @ ''.json''"
    "path_present st path = Inr False"
    "fst (write_pending fault st r lock) = fst (atomic_replace fault st path r)"
    unfolding write_pending_def
    by (auto dest!: guarded_effect simp: result_simps record_path_iff)
  then show thesis
    using that(2) False atomic_replace_cases [of fault st path r] path_absent_stored by auto
qed (use that in blast)

lemma write_terminal_effect:
  obtains "fst (write_terminal_unlocked fault st r) = st"
  | "fst (write_terminal_unlocked fault st r) = install st (rc_session_id r @ ''.json'') r"
    "validate_for_write r = Inr ()" "stored st (rc_session_id r) = None"
proof (cases "fst (write_terminal_unlocked fault st r) = st")
  case False
  then obtain path where "validate_for_write r = Inr ()" "path = rc_session_id r @ ''.json''"
    "path_present st path = Inr False"
    "fst (write_terminal_unlocked fault st r) = fst (atomic_replace fault st path r)"
    unfolding write_terminal_unlocked_def
    by (auto dest!: guarded_effect simp: result_simps record_path_iff)
  then show thesis
    using that(2) False atomic_replace_cases [of fault st path r] path_absent_stored by auto
qed (use that in blast)

lemma write_final_effect:
  obtains "fst (write_final fault st r lock) = st"
  | current where "fst (write_final fault st r lock) = install st (rc_session_id r @ ''.json'') r"
    "validate_for_write r = Inr ()" "stored st (rc_session_id r) = Some current"
    "check_legal_transition current r = Inr ()"
proof (cases "fst (write_final fault st r lock) = st")
  case False
  then obtain path current where "validate_for_write r = Inr ()" "path = rc_session_id r @ ''.json''"
    "record_path (rc_session_id r) = Inr path"
    "read_path st path (rc_session_id r) = Inr current" "check_legal_transition current r = Inr ()"
    "fst (write_final fault st r lock) = fst (atomic_replace fault st path r)"
    unfolding write_final_def
    by (auto dest!: guarded_effect simp: result_simps record_path_iff)
  then show thesis
    using that(2) [of current] False atomic_replace_cases [of fault st path r]
    by (auto simp: stored_Some_iff read_raw_def)
qed (use that in blast)

lemma legal_transition_identity:
  "check_legal_transition current new = Inr () \<Longrightarrow> rc_session_id new = rc_session_id current \<Longrightarrow>
   same_identity current new"
  by (auto simp: check_legal_transition_def same_identity_def split: if_splits)

lemma legal_transition_terminal:
  "check_legal_transition current new = Inr () \<Longrightarrow> \<not> is_pending current \<Longrightarrow> new = current"
  by (auto simp: check_legal_transition_def split: if_splits)

text \<open>The two laws of the interface, for a store change that installs a checked record.\<close>

definition legal_change :: "store \<Rightarrow> store \<Rightarrow> bool" where
  "legal_change st st' \<longleftrightarrow>
     (\<forall>i r. stored st i = Some r \<longrightarrow>
        (\<exists>r'. stored st' i = Some r' \<and> same_identity r r' \<and> (\<not> is_pending r \<longrightarrow> r' = r)))"

lemma legal_change_refl [simp]: "legal_change st st"
  by (auto simp: legal_change_def)

lemma legal_change_install:
  assumes "codec_ok st" and "validate_for_write r = Inr ()"
    and "\<And>current. stored st (rc_session_id r) = Some current \<Longrightarrow> check_legal_transition current r = Inr ()"
  shows "legal_change st (install st (rc_session_id r @ ''.json'') r)"
  unfolding legal_change_def
proof (intro allI impI)
  fix i cur assume cur: "stored st i = Some cur"
  show "\<exists>r'. stored (install st (rc_session_id r @ ''.json'') r) i = Some r' \<and> same_identity cur r' \<and>
    (\<not> is_pending cur \<longrightarrow> r' = cur)"
  proof (cases "i = rc_session_id r")
    case True
    with cur assms(3) have t: "check_legal_transition cur r = Inr ()" by simp
    have "rc_session_id cur = i"
      using cur by (auto simp: stored_Some_iff read_raw_Inr_iff read_path_Inr_iff)
    then show ?thesis
      using True read_install_same [OF assms(1,2)] legal_transition_identity [OF t]
        legal_transition_terminal [OF t] by (simp add: stored_Some_iff)
  next
    case False
    with cur show ?thesis by (simp add: stored_Some_iff read_install_other)
  qed
qed

lemma recover_locked_effect:
  "fst (recover_locked fault now pre st lock i) = st \<or>
   (\<exists>cur. stored st i = Some cur \<and> is_pending cur \<and>
      fst (recover_locked fault now pre st lock i) = fst (write_final fault st (abandon now cur) lock))"
proof (cases "read_raw st i")
  case (Inl e)
  then show ?thesis by (cases e) (simp_all add: recover_locked_def)
next
  case (Inr cur)
  then show ?thesis
    by (auto simp: recover_locked_def stored_Some_iff Let_def split: sum.split prod.split)
qed

lemma try_lock_free: "try_lock st i = Inr (Some lock) \<Longrightarrow> i \<notin> st_locked st \<and> lock_session_id lock = i"
  by (auto simp: try_lock_def result_simps split: option.splits if_splits)

lemma recover_hook_effect:
  "fst (recover_abandoned_pending_with_hook fault now hook st i) \<in> {st, hook st} \<or>
   (\<exists>cur lock. stored (hook st) i = Some cur \<and> is_pending cur \<and> i \<notin> st_locked (hook st) \<and>
      fst (recover_abandoned_pending_with_hook fault now hook st i)
        = fst (write_final fault (hook st) (abandon now cur) lock))"
proof (cases "read_raw st i")
  case (Inl e)
  then show ?thesis by (cases e) (simp_all add: recover_abandoned_pending_with_hook_def)
next
  case (Inr pre)
  show ?thesis
  proof (cases "is_pending pre \<and> (\<exists>lock. try_lock (hook st) i = Inr (Some lock))")
    case True
    then obtain lock where l: "try_lock (hook st) i = Inr (Some lock)" by blast
    with True Inr have "recover_abandoned_pending_with_hook fault now hook st i =
        recover_locked fault now pre (hook st) lock i"
      by (simp add: recover_abandoned_pending_with_hook_def)
    then show ?thesis
      using recover_locked_effect [of fault now pre "hook st" lock i] try_lock_free [OF l] by auto
  next
    case False
    with Inr show ?thesis
      by (auto simp: recover_abandoned_pending_with_hook_def Let_def split: sum.split option.split)
  qed
qed

lemma recover_effect:
  "fst (recover_abandoned_pending fault now st i) = st \<or>
   (\<exists>r lock. fst (recover_abandoned_pending fault now st i) = fst (write_final fault st r lock))"
  using recover_hook_effect [of fault now "\<lambda>st. st" st i]
  by (auto simp: recover_abandoned_pending_def)

lemma write_final_legal:
  assumes "codec_ok st"
  shows "legal_change st (fst (write_final fault st r lock))"
  by (rule write_final_effect [of fault st r lock]) (auto intro: legal_change_install [OF assms])

lemma write_final_codec: "codec_ok (fst (write_final fault st r lock)) = codec_ok st"
  by (rule write_final_effect [of fault st r lock]) auto

lemma locks_irrelevant: "stored (st\<lparr>st_locked := L\<rparr>) i = stored st i"
proof -
  have "read_path (st\<lparr>st_locked := L\<rparr>) p j = read_path st p j" for p j
    by (simp add: read_path_def split: option.split dir_entry.split)
  then show ?thesis by (simp add: stored_def read_raw_def)
qed

lemma apply_op_legal:
  assumes "codec_ok st"
  shows "legal_change st (apply_op a st)"
proof (cases a)
  case (OpPending r lock fault)
  show ?thesis
    by (rule write_pending_effect [of fault st r lock])
      (auto simp: OpPending intro: legal_change_install [OF assms])
next
  case (OpTerminal r fault)
  show ?thesis
    by (rule write_terminal_effect [of fault st r])
      (auto simp: OpTerminal intro: legal_change_install [OF assms])
next
  case (OpRecover i now fault)
  show ?thesis
    using recover_effect [of fault now st i] write_final_legal [OF assms] by (auto simp: OpRecover)
next
  case (OpFinal r lock fault)
  then show ?thesis by (simp add: write_final_legal [OF assms])
qed (auto simp: legal_change_def locks_irrelevant)

lemma apply_op_codec: "codec_ok (apply_op a st) = codec_ok st"
proof (cases a)
  case (OpPending r lock fault)
  show ?thesis by (rule write_pending_effect [of fault st r lock]) (simp_all add: OpPending)
next
  case (OpTerminal r fault)
  show ?thesis by (rule write_terminal_effect [of fault st r]) (simp_all add: OpTerminal)
next
  case (OpRecover i now fault)
  show ?thesis
    using recover_effect [of fault now st i] write_final_codec by (auto simp: OpRecover)
next
  case (OpFinal r lock fault)
  then show ?thesis by (simp add: write_final_codec)
qed (simp_all add: codec_ok_def)

interpretation rstore: record_writer stored codec_ok apply_op
proof
  fix st a i r
  show "codec_ok st \<Longrightarrow> codec_ok (apply_op a st)" by (simp add: apply_op_codec)
  show "stored st i = Some r \<Longrightarrow> validate r = Inr () \<and> rc_session_id r = i"
    by (auto simp: stored_Some_iff read_raw_Inr_iff read_path_Inr_iff)
  show "codec_ok st \<Longrightarrow> stored st i = Some r \<Longrightarrow> is_pending r \<Longrightarrow>
      \<exists>r'. stored (apply_op a st) i = Some r' \<and> same_identity r r'"
    using apply_op_legal [of st a] by (fastforce simp: legal_change_def)
  show "codec_ok st \<Longrightarrow> stored st i = Some r \<Longrightarrow> \<not> is_pending r \<Longrightarrow> stored (apply_op a st) i = Some r"
    using apply_op_legal [of st a] by (fastforce simp: legal_change_def)
qed


section \<open>Example stores\<close>

text \<open>
  A serialiser with the assumed round trip, for the witnesses: the records are countable, and a
  record is written as the unary form of its number.
\<close>

instance policy_decision :: countable
  by countable_datatype

instance execution_class :: countable
  by countable_datatype

instance diagnostic_record_ext :: (countable) countable
  by (rule countable_classI [of "\<lambda>r. to_nat (diag_code r, diag_message r, diagnostic_record.more r)"])
    (auto intro: diagnostic_record.equality)

instance source_fingerprint_ext :: (countable) countable
  by (rule countable_classI [of "\<lambda>r. to_nat (fp_path r, fp_algorithm r, fp_digest r, source_fingerprint.more r)"])
    (auto intro: source_fingerprint.equality)

instance registry_generation_ext :: (countable) countable
  by (rule countable_classI [of "\<lambda>r. to_nat (rg_generated_at r, rg_source_fingerprints r, registry_generation.more r)"])
    (auto intro: registry_generation.equality)

instance resolved_command_ext :: (countable) countable
  by (rule countable_classI [of "\<lambda>r. to_nat (res_schema_version r, res_session_id r, res_unit_id r,
      res_verb r, res_descriptor_path r, res_descriptor_fingerprint r, res_native_manifests r,
      res_backend r, res_adapter r, res_program r, res_argv r, res_cwd r, res_env_keys r,
      res_profile_id r, res_policy_ids r, res_registry_generation r, res_execution_class r,
      res_runtime_provider r, resolved_command.more r)"])
    (auto intro: resolved_command.equality)

instance request_record_ext :: (countable) countable
  by (rule countable_classI [of "\<lambda>r. to_nat (rq_command r, rq_unit_id r, rq_verb r, rq_flags r, request_record.more r)"])
    (auto intro: request_record.equality)

instance execution_record_ext :: (countable) countable
  by (rule countable_classI [of "\<lambda>r. to_nat (ex_started r, ex_pid r, ex_exit_code r, ex_signal r,
      ex_outcome r, execution_record.more r)"])
    (auto intro: execution_record.equality)

instance output_summary_ext :: (countable) countable
  by (rule countable_classI [of "\<lambda>r. to_nat (os_stdout_bytes r, os_stderr_bytes r, os_truncated r,
      os_encoding r, os_compressor r, output_summary.more r)"])
    (auto intro: output_summary.equality)

instance runtime_context_ext :: (countable) countable
  by (rule countable_classI [of "\<lambda>r. to_nat (ctx_provider r, ctx_workspace_id r, ctx_tab_id r,
      ctx_pane_id r, runtime_context.more r)"])
    (auto intro: runtime_context.equality)

instance runtime_command_record_ext :: (countable) countable
  by (rule countable_classI [of "\<lambda>r. to_nat (rc_schema_version r, rc_record_kind r, rc_session_id r,
      rc_plan_digest r, rc_parent_session_id r, rc_work_session_id r, rc_runtime_context r,
      rc_started_at r, rc_ended_at r, rc_actor r, rc_profile_id r, rc_request r, rc_resolution r,
      rc_policy_decision r, rc_execution r, rc_source_fingerprints r, rc_output_summary r,
      rc_error r, runtime_command_record.more r)"])
    (auto intro: runtime_command_record.equality)

definition unary_store :: "(string \<rightharpoonup> dir_entry) \<Rightarrow> store" where
  "unary_store es =
     \<lparr>st_encode = (\<lambda>r. replicate (to_nat r) (CHR ''x'')), st_decode = (\<lambda>s. Inr (from_nat (length s - 1))),
      st_entries = es, st_locked = {}, st_lock_fault = (\<lambda>_. None)\<rparr>"

definition one_record_store :: "runtime_command_record \<Rightarrow> store" where
  "one_record_store r = install (unary_store Map.empty) (rc_session_id r @ ''.json'') r"

lemma codec_unary [simp]: "codec_ok (unary_store es)"
  by (simp add: codec_ok_def unary_store_def)

lemma codec_one_record [simp]: "codec_ok (one_record_store r)"
  by (simp add: one_record_store_def)

lemma stored_one_record:
  "validate_for_write r = Inr () \<Longrightarrow> stored (one_record_store r) (rc_session_id r) = Some r"
  by (simp add: one_record_store_def stored_Some_iff read_install_same)

lemma sample_for_write:
  "validate_for_write sample_pending = Inr ()" "validate_for_write sample_completed = Inr ()"
  by code_simp+

section \<open>Properties\<close>

text \<open>
  C32: once a session has a terminal record, no sequence of store operations -- pending and final
  writes with any lock, unlocked terminal writes, recoveries, each failing at any step -- changes
  it: every later read returns that record.
\<close>

theorem terminal_record_immutable:
  assumes "codec_ok st" and "stored st i = Some r" and "\<not> is_pending r"
  shows "stored (fold apply_op ops st) i = Some r"
  using assms by (rule rstore.terminal_run)

theorem terminal_record_immutable_witness:
  "stored (fold apply_op [OpPending sample_pending \<lparr>lock_session_id = ''tkg_1''\<rparr> None,
      OpFinal sample_pending \<lparr>lock_session_id = ''tkg_1''\<rparr> None, OpRecover ''tkg_1'' 1784624500 None]
      (one_record_store sample_completed)) ''tkg_1'' = Some sample_completed"
proof -
  have i: "rc_session_id sample_completed = ''tkg_1''" by code_simp
  have p: "\<not> is_pending sample_completed" by code_simp
  show ?thesis
    using terminal_record_immutable [OF codec_one_record stored_one_record [OF sample_for_write(2)] p]
    unfolding i .
qed

text \<open>
  Over any sequence of store operations a session that has a record keeps one, and it keeps its
  session id, plan digest, profile, policy decision and request; only its progress changes.
\<close>

theorem record_identity_retained:
  assumes "codec_ok st" and "stored st i = Some r"
  shows "\<exists>r'. stored (fold apply_op ops st) i = Some r' \<and> validate r' = Inr () \<and> same_identity r r'"
  using rstore.identity_run [OF assms, of ops] rstore.stored_valid by blast

theorem record_identity_retained_witness:
  "\<exists>r'. stored (fold apply_op [OpFinal sample_completed \<lparr>lock_session_id = ''tkg_1''\<rparr> (Some SyncDir)]
      (one_record_store sample_pending)) ''tkg_1'' = Some r' \<and> validate r' = Inr () \<and>
      same_identity sample_pending r'"
proof -
  have i: "rc_session_id sample_pending = ''tkg_1''" by code_simp
  show ?thesis
    using record_identity_retained [OF codec_one_record stored_one_record [OF sample_for_write(1)]]
    unfolding i .
qed

text \<open>
  Recovery never overwrites a record that was finalised between its first read and its lock: if
  the store then holds a terminal record for the session, recovery leaves the store as it found it.
\<close>

theorem recovery_respects_concurrent_finalize:
  assumes "stored (hook st) i = Some r" and "\<not> is_pending r"
  shows "fst (recover_abandoned_pending_with_hook fault now hook st i) \<in> {st, hook st}"
  using recover_hook_effect [of fault now hook st i] assms by auto

theorem recovery_respects_concurrent_finalize_witness:
  "fst (recover_abandoned_pending_with_hook None 1784624500 (\<lambda>_. one_record_store sample_completed)
      (one_record_store sample_pending) ''tkg_1'')
    \<in> {one_record_store sample_pending, one_record_store sample_completed}"
proof -
  have i: "rc_session_id sample_completed = ''tkg_1''" by code_simp
  have p: "\<not> is_pending sample_completed" by code_simp
  show ?thesis
    using recovery_respects_concurrent_finalize
      [of "\<lambda>_. one_record_store sample_completed", OF stored_one_record [OF sample_for_write(2)] p]
    unfolding i .
qed

text \<open>
  Recovery leaves the record of a session alone while a live writer holds its lock.
\<close>

theorem recovery_respects_live_writer:
  assumes "i \<in> st_locked (hook st)"
  shows "fst (recover_abandoned_pending_with_hook fault now hook st i) \<in> {st, hook st}"
  using recover_hook_effect [of fault now hook st i] assms by auto

theorem recovery_respects_live_writer_witness:
  "fst (recover_abandoned_pending_with_hook None 1784624500 (\<lambda>s. s)
      ((one_record_store sample_pending)\<lparr>st_locked := {''tkg_1''}\<rparr>) ''tkg_1'')
    = (one_record_store sample_pending)\<lparr>st_locked := {''tkg_1''}\<rparr>"
  using recovery_respects_live_writer
    [of "''tkg_1''" "\<lambda>s. s" "(one_record_store sample_pending)\<lparr>st_locked := {''tkg_1''}\<rparr>" None 1784624500]
  by simp

lemma resolution_agrees_abandon [simp]: "resolution_agrees (abandon now r) = resolution_agrees r"
  by (simp add: fun_eq_iff resolution_agrees_def abandon_def)

lemma abandon_contract:
  assumes "record_contract r" and "ex_pid (rc_execution r) \<noteq> None \<longrightarrow> ex_started (rc_execution r)"
    and "parse_rfc3339_utc_seconds (rc_started_at r) = Inr s" and "s \<le> now"
    and "parse_rfc3339_utc_seconds (utc_now_rfc3339 now) = Inr now"
  shows "record_contract (abandon now r)"
proof -
  have "phase_ok Abandoned (abandon now r)"
    using assms(2) by (simp add: phase_ok_def abandon_def)
  then have phase: "\<exists>p. phase_ok p (abandon now r)" ..
  have times: "times_ok (abandon now r)"
    using assms(3-5) by (simp add: times_ok_def abandon_def)
  have err: "pred_option error_ok (rc_error (abandon now r))"
    by (simp add: error_ok_def abandon_def)
  have same: "rc_schema_version (abandon now r) = rc_schema_version r"
    "rc_record_kind (abandon now r) = rc_record_kind r" "rc_actor (abandon now r) = rc_actor r"
    "rc_plan_digest (abandon now r) = rc_plan_digest r" "rc_session_id (abandon now r) = rc_session_id r"
    "rc_resolution (abandon now r) = rc_resolution r"
    "rc_runtime_context (abandon now r) = rc_runtime_context r"
    by (simp_all add: abandon_def)
  from assms(1) show ?thesis
    unfolding record_contract_def same by (simp only: phase times err resolution_agrees_abandon simp_thms)
qed

lemma abandon_transition: "is_pending r \<Longrightarrow> check_legal_transition r (abandon now r) = Inr ()"
  by (simp add: check_legal_transition_def abandon_def)

lemma write_final_ok:
  assumes "validate_for_write r = Inr ()" and "lock_session_id lock = rc_session_id r"
    and "stored st (rc_session_id r) = Some current" and "check_legal_transition current r = Inr ()"
  shows "write_final None st r lock = (install st (rc_session_id r @ ''.json'') r, Inr ())"
proof -
  have "record_path (rc_session_id r) = Inr (rc_session_id r @ ''.json'')"
    "read_path st (rc_session_id r @ ''.json'') (rc_session_id r) = Inr current"
    using assms(1,3)
    by (auto simp: record_path_iff stored_Some_iff read_raw_Inr_iff)
  with assms show ?thesis
    by (simp add: write_final_def guarded_def check_lock_matches_record_def atomic_replace_def)
qed

text \<open>
  Recovery makes progress. A pending record whose writer is gone (its lock is free and can be
  taken) and whose process id, if any, belongs to a started execution is replaced by its abandoned
  form, which is valid, returned to the caller and read back from then on.
\<close>

theorem recovery_abandons_orphan:
  assumes "codec_ok st" and "stored st i = Some r" and "is_pending r"
    and "i \<notin> st_locked st" and "st_lock_fault st i = None"
    and "ex_pid (rc_execution r) \<noteq> None \<longrightarrow> ex_started (rc_execution r)"
    and "parse_rfc3339_utc_seconds (rc_started_at r) = Inr s" and "s \<le> now"
    and "0 \<le> now" and "now < 253402300800"
  shows "snd (recover_abandoned_pending None now st i) = Inr (Some (abandon now r)) \<and>
    stored (fst (recover_abandoned_pending None now st i)) i = Some (abandon now r) \<and>
    validate (abandon now r) = Inr () \<and> \<not> is_pending (abandon now r)"
proof -
  have r: "read_raw st i = Inr r" "validate_session_id i = Inr ()" "rc_session_id r = i" "validate r = Inr ()"
    using assms(2) by (auto simp: stored_Some_iff read_raw_Inr_iff read_path_Inr_iff)
  have v: "validate (abandon now r) = Inr ()"
    using abandon_contract [OF _ assms(6-8) parse_utc_now [OF assms(9,10)]] r(4)
    by (simp add: validate_contract_iff)
  have w: "validate_for_write (abandon now r) = Inr ()" "rc_session_id (abandon now r) = i"
    using v r by (simp_all add: validate_for_write_def abandon_def)
  have l: "try_lock st i = Inr (Some \<lparr>lock_session_id = i\<rparr>)"
    using assms(4,5) r(2) by (simp add: try_lock_def)
  have f: "write_final None st (abandon now r) \<lparr>lock_session_id = i\<rparr>
      = (install st (i @ ''.json'') (abandon now r), Inr ())"
    using write_final_ok [OF w(1), of "\<lparr>lock_session_id = i\<rparr>" st r] w(2) assms(2)
      abandon_transition [OF assms(3)] by simp
  have "recover_abandoned_pending None now st i
      = (install st (i @ ''.json'') (abandon now r), Inr (Some (abandon now r)))"
    using r(1) assms(3) l v f
    by (simp add: recover_abandoned_pending_def recover_abandoned_pending_with_hook_def recover_locked_def Let_def)
  moreover have "stored (install st (i @ ''.json'') (abandon now r)) i = Some (abandon now r)"
    using read_install_same [OF assms(1) w(1)] w(2) by (simp add: stored_Some_iff)
  moreover have "\<not> is_pending (abandon now r)" by (simp add: is_pending_def abandon_def)
  ultimately show ?thesis using v by simp
qed

theorem recovery_abandons_orphan_witness:
  "stored (fst (recover_abandoned_pending None 1784624500 (one_record_store sample_pending) ''tkg_1'')) ''tkg_1''
     = Some (abandon 1784624500 sample_pending)"
proof -
  have i: "rc_session_id sample_pending = ''tkg_1''" by code_simp
  have p: "is_pending sample_pending"
    "ex_pid (rc_execution sample_pending) \<noteq> None \<longrightarrow> ex_started (rc_execution sample_pending)"
    "parse_rfc3339_utc_seconds (rc_started_at sample_pending) = Inr 1784624400" by code_simp+
  have "rc_session_id sample_pending \<notin> st_locked (one_record_store sample_pending)"
    "st_lock_fault (one_record_store sample_pending) (rc_session_id sample_pending) = None"
    by (simp_all add: one_record_store_def install_def unary_store_def)
  from recovery_abandons_orphan [OF codec_one_record stored_one_record [OF sample_for_write(1)] p(1) this p(2,3),
      of 1784624500]
  show ?thesis unfolding i by simp
qed

lemma guarded_snd: "snd (guarded st checks act) = Inr u \<Longrightarrow> \<exists>path. checks = Inr path \<and> guarded st checks act = act path"
  by (cases checks) (simp_all add: guarded_def)

lemma atomic_replace_ok: "snd (atomic_replace fault st path r) = Inr u \<Longrightarrow> fst (atomic_replace fault st path r) = install st path r"
  by (auto simp: atomic_replace_def split: option.splits write_step.splits)

lemma guarded_install:
  assumes "snd (guarded st checks (\<lambda>path. atomic_replace fault st path r)) = Inr ()"
    and "\<And>path. checks = Inr path \<Longrightarrow> validate_for_write r = Inr () \<and> path = rc_session_id r @ ''.json''"
  shows "fst (guarded st checks (\<lambda>path. atomic_replace fault st path r)) = install st (rc_session_id r @ ''.json'') r \<and>
    validate_for_write r = Inr ()"
  using guarded_snd [OF assms(1)] assms atomic_replace_ok by metis

lemma write_success:
  assumes "(st', Inr ()) \<in> {write_pending fault st r lock, write_final fault st r lock,
    write_terminal_unlocked fault st r}"
  shows "st' = install st (rc_session_id r @ ''.json'') r \<and> validate_for_write r = Inr ()"
proof -
  obtain checks where c: "(st', Inr ()) = guarded st checks (\<lambda>path. atomic_replace fault st path r)"
    "\<And>path. checks = Inr path \<Longrightarrow> validate_for_write r = Inr () \<and> path = rc_session_id r @ ''.json''"
    using assms unfolding write_pending_def write_final_def write_terminal_unlocked_def
    by (elim insertE emptyE) (erule meta_allE, erule meta_impE, assumption, erule meta_impE,
        force simp: result_simps record_path_iff split: if_splits, assumption)+
  then show ?thesis using guarded_install [of st checks fault r] by (metis fst_conv snd_conv)
qed

text \<open>
  A write that reports success took effect: the session reads back exactly the record that was
  written, and every other session reads as before.
\<close>

theorem successful_write_reads_back:
  assumes "codec_ok st"
    and "(st', Inr ()) \<in> {write_pending fault st r lock, write_final fault st r lock,
      write_terminal_unlocked fault st r}"
  shows "stored st' (rc_session_id r) = Some r \<and>
    (\<forall>j. j \<noteq> rc_session_id r \<longrightarrow> stored st' j = stored st j)"
  using write_success [OF assms(2)] read_install_same [OF assms(1), of r]
  by (simp add: stored_Some_iff) (simp add: stored_def read_install_other)

theorem successful_write_reads_back_witness:
  "stored (install (unary_store Map.empty) ''tkg_1.json'' sample_pending) ''tkg_1'' = Some sample_pending"
proof -
  have i: "rc_session_id sample_pending = ''tkg_1''" by code_simp
  have v: "validate_session_id ''tkg_1'' = Inr ()" by code_simp
  have "write_pending None (unary_store Map.empty) sample_pending \<lparr>lock_session_id = ''tkg_1''\<rparr>
      = (install (unary_store Map.empty) ''tkg_1.json'' sample_pending, Inr ())"
    using v by (simp add: write_pending_def guarded_def sample_for_write check_lock_matches_record_def i
        record_path_def path_present_def unary_store_def atomic_replace_def)
  then show ?thesis
    using successful_write_reads_back [of "unary_store Map.empty"
        "install (unary_store Map.empty) ''tkg_1.json'' sample_pending" None sample_pending
        "\<lparr>lock_session_id = ''tkg_1''\<rparr>"] i by simp
qed

text \<open>
  A session id that passes validation names exactly one entry of the records directory: the
  record path has a single ordinary component, so no id can address another directory.
\<close>

theorem record_path_single_component:
  assumes "record_path session_id = Inr path"
  shows "components path = [Normal path] \<and> path = session_id @ ''.json''"
proof -
  have p: "path = session_id @ ''.json''" and v: "validate_session_id session_id = Inr ()"
    using assms by (auto simp: record_path_iff)
  then obtain first rest where f: "session_id = first # rest" "is_ascii_alphanumeric first"
    "\<not> contains session_id ''/''"
    by (auto simp: validate_session_id_def split: if_splits list.splits)
  then have "CHR ''/'' \<notin> set path" "path \<noteq> []" "path \<noteq> ''.''" "path \<noteq> ''..''" "\<not> starts_with path ''/''"
    by (auto simp: p contains_char_iff starts_with_def)
  then show ?thesis
    by (simp add: components_def split_on_no_sep_id segment_def p)
qed

theorem record_path_single_component_witness:
  "components ''tkg_1.json'' = [Normal ''tkg_1.json'']"
proof -
  have "record_path ''tkg_1'' = Inr ''tkg_1.json''" by code_simp
  then show ?thesis using record_path_single_component by blast
qed

end
