(* ===== verification/Session_Query.thy ===== *)
theory Session_Query
  imports Session_Store "HOL-Library.Product_Lexorder"
begin

text \<open>
  Queries over the command records (\<open>sessions/query.rs\<close>): every regular record file of the state home
  is recovered if its writer is gone, the records are ordered by their parsed start instant, newest
  first, and a bounded prefix is returned. The directory listing is an argument, in the order the
  operating system gives it; the clock and the write failures of each recovery are functions of the
  session.
\<close>

definition DEFAULT_LIST_LIMIT :: nat where "DEFAULT_LIST_LIMIT = 50"
definition MAX_LIST_LIMIT :: nat where "MAX_LIST_LIMIT = 500"

record session_summary =
  sum_record_kind :: string
  sum_session_id :: string
  sum_started_at :: string
  sum_ended_at :: "string option"
  sum_profile_id :: string
  sum_plan_digest :: string
  sum_outcome :: string
  sum_started :: bool
  sum_pid :: "nat option"

definition summary_from :: "runtime_command_record \<Rightarrow> session_summary" where
  "summary_from r =
     \<lparr>sum_record_kind = rc_record_kind r, sum_session_id = rc_session_id r,
      sum_started_at = rc_started_at r, sum_ended_at = rc_ended_at r,
      sum_profile_id = rc_profile_id r, sum_plan_digest = rc_plan_digest r,
      sum_outcome = ex_outcome (rc_execution r), sum_started = ex_started (rc_execution r),
      sum_pid = ex_pid (rc_execution r)\<rparr>"

datatype skip_reason =
    InvalidId
  | NotRegular
  | BadStart ts_error
  | SkippedContract contract_reason
  | SkippedPath string

type_synonym query_diagnostics = "(string \<times> skip_reason) list"

definition parse_limit :: "nat option \<Rightarrow> (store_error, nat) result" where
  "parse_limit limit =
     (let n = (case limit of Some n \<Rightarrow> n | None \<Rightarrow> DEFAULT_LIST_LIMIT) in
      if \<not> (1 \<le> n \<and> n \<le> MAX_LIST_LIMIT) then Inl (Contract LimitOutOfRange) else Inr n)"

definition is_regular_record_file :: "store \<Rightarrow> string \<Rightarrow> bool" where
  "is_regular_record_file st path =
     (case st_entries st path of
        Some (FileEntry _) \<Rightarrow> True
      | Some (ReadFails _) \<Rightarrow> True
      | _ \<Rightarrow> False)"

definition strip_suffix :: "string \<Rightarrow> string \<Rightarrow> string option" where
  "strip_suffix s x = (if suffix x s then Some (take (length s - length x) s) else None)"

text \<open>
  The listing: whether the state home exists, and what \<open>read_dir\<close> yields, an entry being an error, a
  name that is not UTF-8 (\<open>None\<close>), or a name.
\<close>

record listing =
  root_exists :: bool
  read_dir :: "(io_error, (io_error, string option) result list) result"

record recovery_env =
  env_now :: "string \<Rightarrow> int"
  env_fault :: "string \<Rightarrow> write_step option"

datatype visit = Skip "(string \<times> skip_reason) option" | Found int runtime_command_record

text \<open>The body of the loop for one directory entry.\<close>

definition visit_session :: "recovery_env \<Rightarrow> store \<Rightarrow> string \<Rightarrow> visit store_action" where
  "visit_session env st session_id =
     (case recover_abandoned_pending (env_fault env session_id) (env_now env session_id) st session_id of
        (st, Inr (Some r)) \<Rightarrow>
          (st, Inr (case parse_rfc3339_utc_seconds (rc_started_at r) of
             Inr instant \<Rightarrow> Found instant r
           | Inl e \<Rightarrow> Skip (Some (session_id, BadStart e))))
      | (st, Inr None) \<Rightarrow> (st, Inr (Skip None))
      | (st, Inl (Contract m)) \<Rightarrow> (st, Inr (Skip (Some (session_id, SkippedContract m))))
      | (st, Inl (PathRejected m)) \<Rightarrow> (st, Inr (Skip (Some (session_id, SkippedPath m))))
      | (st, Inl e) \<Rightarrow> (st, Inl e))"

definition visit_entry :: "recovery_env \<Rightarrow> store \<Rightarrow> (io_error, string option) result \<Rightarrow> visit store_action" where
  "visit_entry env st entry =
     (case entry of
        Inl e \<Rightarrow> (st, Inl (StoreIo e))
      | Inr None \<Rightarrow> (st, Inr (Skip None))
      | Inr (Some name) \<Rightarrow>
          if starts_with name ''.'' \<or> \<not> ends_with name ''.json'' then (st, Inr (Skip None))
          else
            (case strip_suffix name ''.json'' of
               None \<Rightarrow> (st, Inr (Skip None))
             | Some session_id \<Rightarrow>
                 if validate_session_id session_id \<noteq> Inr () then (st, Inr (Skip (Some (session_id, InvalidId))))
                 else if \<not> is_regular_record_file st name then (st, Inr (Skip (Some (session_id, NotRegular))))
                 else visit_session env st session_id))"

fun load_loop ::
  "recovery_env \<Rightarrow> store \<Rightarrow> (io_error, string option) result list \<Rightarrow>
   ((int \<times> runtime_command_record) list \<times> query_diagnostics) store_action" where
  "load_loop env st [] = (st, Inr ([], []))"
| "load_loop env st (e # es) =
     (case visit_entry env st e of
        (st, Inl err) \<Rightarrow> (st, Inl err)
      | (st, Inr v) \<Rightarrow>
          (case load_loop env st es of
             (st, Inl err) \<Rightarrow> (st, Inl err)
           | (st, Inr (records, skipped)) \<Rightarrow>
               (st, Inr (case v of
                  Skip d \<Rightarrow> (records, (case d of None \<Rightarrow> skipped | Some x \<Rightarrow> x # skipped))
                | Found instant r \<Rightarrow> ((instant, r) # records, skipped)))))"

definition record_key :: "int \<times> runtime_command_record \<Rightarrow> int \<times> string" where
  "record_key x = (fst x, rc_session_id (snd x))"

text \<open>A stable sort in descending order of a key.\<close>

definition sort_desc :: "('a \<Rightarrow> 'k::linorder) \<Rightarrow> 'a list \<Rightarrow> 'a list" where
  "sort_desc key xs = rev (sort_key key (rev xs))"

definition load_sorted ::
  "recovery_env \<Rightarrow> listing \<Rightarrow> store \<Rightarrow> (runtime_command_record list \<times> query_diagnostics) store_action" where
  "load_sorted env ls st =
     (if \<not> root_exists ls then (st, Inr ([], []))
      else (case read_dir ls of
              Inl e \<Rightarrow> (st, Inl (StoreIo e))
            | Inr entries \<Rightarrow>
                (case load_loop env st entries of
                   (st, Inl err) \<Rightarrow> (st, Inl err)
                 | (st, Inr (records, skipped)) \<Rightarrow>
                     (st, Inr (map snd (sort_desc record_key records), skipped)))))"

definition list_sessions ::
  "recovery_env \<Rightarrow> listing \<Rightarrow> store \<Rightarrow> nat option \<Rightarrow> (session_summary list \<times> query_diagnostics) store_action" where
  "list_sessions env ls st limit =
     (case parse_limit limit of
        Inl e \<Rightarrow> (st, Inl e)
      | Inr n \<Rightarrow>
          (case load_sorted env ls st of
             (st, Inl e) \<Rightarrow> (st, Inl e)
           | (st, Inr (records, d)) \<Rightarrow> (st, Inr (map summary_from (take n records), d))))"

definition show_session :: "recovery_env \<Rightarrow> store \<Rightarrow> string \<Rightarrow> runtime_command_record store_action" where
  "show_session env st session_id =
     (case validate_session_id session_id of
        Inl e \<Rightarrow> (st, Inl e)
      | Inr _ \<Rightarrow>
          (case recover_abandoned_pending (env_fault env session_id) (env_now env session_id) st session_id of
             (st, Inl e) \<Rightarrow> (st, Inl e)
           | (st, Inr (Some r)) \<Rightarrow> (st, Inr r)
           | (st, Inr None) \<Rightarrow> (st, Inl (RecordNotFound session_id))))"

definition show_latest_with_diagnostics ::
  "recovery_env \<Rightarrow> listing \<Rightarrow> store \<Rightarrow> (runtime_command_record option \<times> query_diagnostics) store_action" where
  "show_latest_with_diagnostics env ls st =
     (case load_sorted env ls st of
        (st, Inl e) \<Rightarrow> (st, Inl e)
      | (st, Inr (records, d)) \<Rightarrow> (st, Inr (case records of [] \<Rightarrow> None | r # _ \<Rightarrow> Some r, d)))"

definition show_latest :: "recovery_env \<Rightarrow> listing \<Rightarrow> store \<Rightarrow> runtime_command_record store_action" where
  "show_latest env ls st =
     (case show_latest_with_diagnostics env ls st of
        (st, Inl e) \<Rightarrow> (st, Inl e)
      | (st, Inr (Some r, _)) \<Rightarrow> (st, Inr r)
      | (st, Inr (None, _)) \<Rightarrow> (st, Inl (RecordNotFound ''latest'')))"

section \<open>Locality of recovery\<close>

text \<open>Two stores that a visit of one file cannot tell apart.\<close>

definition same_view :: "string \<Rightarrow> store \<Rightarrow> store \<Rightarrow> bool" where
  "same_view p st st' \<longleftrightarrow>
     st_encode st' = st_encode st \<and> st_decode st' = st_decode st \<and> st_locked st' = st_locked st \<and>
     st_lock_fault st' = st_lock_fault st \<and> st_entries st' p = st_entries st p"

lemma same_view_refl [simp]: "same_view p st st"
  by (simp add: same_view_def)

lemma same_view_trans: "same_view p a b \<Longrightarrow> same_view p b c \<Longrightarrow> same_view p a c"
  by (simp add: same_view_def)

lemma same_view_install: "p \<noteq> q \<Longrightarrow> same_view p st (install st q r)"
  by (simp add: same_view_def install_def)

lemma read_path_view: "same_view p st st' \<Longrightarrow> read_path st' p j = read_path st p j"
  by (simp add: same_view_def read_path_def split: option.split dir_entry.split)

lemma read_raw_view: "same_view (i @ ''.json'') st st' \<Longrightarrow> read_raw st' i = read_raw st i"
  by (auto simp: read_raw_def record_path_iff read_path_view intro!: rbind_cong)

lemma stored_view: "same_view (i @ ''.json'') st st' \<Longrightarrow> stored st' i = stored st i"
  by (simp add: stored_def read_raw_view)

lemma try_lock_view: "same_view p st st' \<Longrightarrow> try_lock st' i = try_lock st i"
  by (simp add: same_view_def try_lock_def)

lemma guarded_snd_cong:
  "c = c' \<Longrightarrow> (\<And>p. snd (f p) = snd (g p)) \<Longrightarrow> snd (guarded st c f) = snd (guarded st' c' g)"
  by (cases c') (simp_all add: guarded_def)

lemma write_final_view:
  assumes "same_view (rc_session_id r @ ''.json'') st st'"
  shows "snd (write_final fault st' r lock) = snd (write_final fault st r lock)"
  unfolding write_final_def
proof (rule guarded_snd_cong)
  show "snd (atomic_replace fault st' p r) = snd (atomic_replace fault st p r)" for p
    by (simp add: atomic_replace_def split: option.split write_step.split)
qed (auto simp: record_path_iff read_path_view [OF assms] intro!: rbind_cong)

lemma write_final_frame:
  "p \<noteq> rc_session_id r @ ''.json'' \<Longrightarrow> same_view p st (fst (write_final fault st r lock))"
  by (rule write_final_effect [of fault st r lock]) (auto simp: same_view_install)

lemma abandon_session [simp]: "rc_session_id (abandon now r) = rc_session_id r"
  by (simp add: abandon_def)

text \<open>A recovery that finds the record it first read: the three ways it can go.\<close>

lemma recover_pending:
  assumes "read_raw st i = Inr r" and "is_pending r" and "try_lock st i = Inr (Some lock)"
  shows "recover_abandoned_pending fault now st i =
    (case validate (abandon now r) of
       Inl e \<Rightarrow> (st, Inl (Contract (RecordInvalid e)))
     | Inr _ \<Rightarrow> (case write_final fault st (abandon now r) lock of
                 (st', Inl e) \<Rightarrow> (st', Inl e)
               | (st', Inr _) \<Rightarrow> (st', Inr (Some (abandon now r)))))"
  using assms
  by (simp add: recover_abandoned_pending_def recover_abandoned_pending_with_hook_def recover_locked_def
      Let_def)

lemma recover_otherwise:
  assumes "\<nexists>r lock. read_raw st i = Inr r \<and> is_pending r \<and> try_lock st i = Inr (Some lock)"
  shows "recover_abandoned_pending fault now st i =
    (st, case read_raw st i of
       Inl (RecordNotFound _) \<Rightarrow> Inr None
     | Inl e \<Rightarrow> Inl e
     | Inr r \<Rightarrow> if is_pending r then (case try_lock st i of Inl e \<Rightarrow> Inl e | Inr _ \<Rightarrow> Inr (Some r))
               else Inr (Some r))"
  using assms
  by (auto simp: recover_abandoned_pending_def recover_abandoned_pending_with_hook_def Let_def
      split: sum.split store_error.split option.split)

lemma recover_view:
  assumes "same_view (i @ ''.json'') st st'"
  shows "snd (recover_abandoned_pending fault now st' i) = snd (recover_abandoned_pending fault now st i)"
proof (cases "\<exists>r lock. read_raw st i = Inr r \<and> is_pending r \<and> try_lock st i = Inr (Some lock)")
  case True
  then obtain r lock where r: "read_raw st i = Inr r" "is_pending r" "try_lock st i = Inr (Some lock)" by blast
  then have r': "read_raw st' i = Inr r" "try_lock st' i = Inr (Some lock)"
    by (simp_all add: read_raw_view [OF assms] try_lock_view [OF assms])
  have "rc_session_id r = i" using r(1) by (auto simp: read_raw_Inr_iff read_path_Inr_iff)
  then have "snd (write_final fault st' (abandon now r) lock) = snd (write_final fault st (abandon now r) lock)"
    using assms by (intro write_final_view) simp
  then show ?thesis
    unfolding recover_pending [OF r] recover_pending [OF r'(1) r(2) r'(2)]
    by (auto split: sum.split prod.split)
next
  case False
  then have "\<nexists>r lock. read_raw st' i = Inr r \<and> is_pending r \<and> try_lock st' i = Inr (Some lock)"
    by (simp add: read_raw_view [OF assms] try_lock_view [OF assms])
  then show ?thesis
    by (simp only: recover_otherwise False read_raw_view [OF assms] try_lock_view [OF assms] snd_conv
        not_False_eq_True)
qed

lemma recover_frame:
  assumes "p \<noteq> i @ ''.json''"
  shows "same_view p st (fst (recover_abandoned_pending fault now st i))"
proof (cases "\<exists>r lock. read_raw st i = Inr r \<and> is_pending r \<and> try_lock st i = Inr (Some lock)")
  case True
  then obtain r lock where r: "read_raw st i = Inr r" "is_pending r" "try_lock st i = Inr (Some lock)" by blast
  have "rc_session_id r = i" using r(1) by (auto simp: read_raw_Inr_iff read_path_Inr_iff)
  then have "same_view p st (fst (write_final fault st (abandon now r) lock))"
    using assms by (intro write_final_frame) simp
  then show ?thesis unfolding recover_pending [OF r] by (auto split: sum.split prod.split)
qed (simp add: recover_otherwise)

lemma recover_returned:
  assumes "codec_ok st" and "recover_abandoned_pending fault now st i = (st', Inr (Some r))"
  shows "stored st' i = Some r \<and> rc_session_id r = i \<and> codec_ok st'"
proof (cases "\<exists>r lock. read_raw st i = Inr r \<and> is_pending r \<and> try_lock st i = Inr (Some lock)")
  case True
  then obtain r0 lock where r0: "read_raw st i = Inr r0" "is_pending r0" "try_lock st i = Inr (Some lock)" by blast
  have i: "rc_session_id r0 = i" using r0(1) by (auto simp: read_raw_Inr_iff read_path_Inr_iff)
  from assms(2) have "write_final fault st (abandon now r0) lock = (st', Inr ())" "r = abandon now r0"
    unfolding recover_pending [OF r0] by (auto split: sum.splits prod.splits)
  then have "(st', Inr ()) \<in> {write_pending fault st r lock, write_final fault st r lock,
      write_terminal_unlocked fault st r}" by simp
  from write_success [OF this] show ?thesis
    using read_install_same [OF assms(1), of r] i \<open>r = abandon now r0\<close> assms(1)
    by (simp add: stored_Some_iff)
next
  case False
  with assms show ?thesis
    by (auto simp: recover_otherwise [OF False] stored_Some_iff read_raw_Inr_iff read_path_Inr_iff
        split: sum.splits store_error.splits if_splits)
qed

section \<open>The loop over the directory\<close>

definition entry_names :: "(io_error, string option) result list \<Rightarrow> string list" where
  "entry_names es = List.map_filter (\<lambda>e. case e of Inr (Some n) \<Rightarrow> Some n | _ \<Rightarrow> None) es"

lemma entry_names_simps [simp]:
  "entry_names [] = []" "entry_names (Inl e # es) = entry_names es"
  "entry_names (Inr None # es) = entry_names es" "entry_names (Inr (Some n) # es) = n # entry_names es"
  by (simp_all add: entry_names_def List.map_filter_simps)

lemma set_entry_names: "n \<in> set (entry_names es) \<longleftrightarrow> Inr (Some n) \<in> set es"
  by (induction es) (auto simp: entry_names_def List.map_filter_simps split: sum.splits option.splits)

lemma strip_suffix_Some_iff: "strip_suffix s x = Some t \<longleftrightarrow> s = t @ x"
  by (auto simp: strip_suffix_def suffix_def)

lemma visit_session_snd:
  "snd (visit_session env st i) =
     (case snd (recover_abandoned_pending (env_fault env i) (env_now env i) st i) of
        Inr (Some r) \<Rightarrow> Inr (case parse_rfc3339_utc_seconds (rc_started_at r) of
           Inr instant \<Rightarrow> Found instant r | Inl e \<Rightarrow> Skip (Some (i, BadStart e)))
      | Inr None \<Rightarrow> Inr (Skip None)
      | Inl (Contract m) \<Rightarrow> Inr (Skip (Some (i, SkippedContract m)))
      | Inl (PathRejected m) \<Rightarrow> Inr (Skip (Some (i, SkippedPath m)))
      | Inl e \<Rightarrow> Inl e)"
  by (auto simp: visit_session_def split: prod.split sum.split option.split store_error.split)

lemma visit_session_fst:
  "fst (visit_session env st i) = fst (recover_abandoned_pending (env_fault env i) (env_now env i) st i)"
  by (auto simp: visit_session_def split: prod.split sum.split option.split store_error.split)

lemma visit_entry_view:
  assumes "\<And>n. e = Inr (Some n) \<Longrightarrow> same_view n st st'"
  shows "snd (visit_entry env st' e) = snd (visit_entry env st e)"
proof (cases "\<exists>i. e = Inr (Some (i @ ''.json''))")
  case True
  then obtain i where e: "e = Inr (Some (i @ ''.json''))" by blast
  then have v: "same_view (i @ ''.json'') st st'" using assms by blast
  then have "is_regular_record_file st' (i @ ''.json'') = is_regular_record_file st (i @ ''.json'')"
    by (simp add: same_view_def is_regular_record_file_def)
  moreover have "snd (visit_session env st' i) = snd (visit_session env st i)"
    by (simp add: visit_session_snd recover_view [OF v])
  moreover have "strip_suffix (i @ ''.json'') ''.json'' = Some i" by (simp add: strip_suffix_Some_iff)
  ultimately show ?thesis by (simp add: visit_entry_def e)
next
  case False
  then show ?thesis
    by (auto simp: visit_entry_def strip_suffix_Some_iff ends_with_def suffix_def
        split: sum.split option.split)
qed

lemma visit_entry_frame:
  assumes "e \<noteq> Inr (Some p)"
  shows "same_view p st (fst (visit_entry env st e))"
proof (cases "\<exists>i. e = Inr (Some (i @ ''.json''))")
  case True
  then obtain i where e: "e = Inr (Some (i @ ''.json''))" by blast
  then have "same_view p st (fst (visit_session env st i))"
    using assms by (simp add: visit_session_fst recover_frame)
  moreover have "strip_suffix (i @ ''.json'') ''.json'' = Some i" by (simp add: strip_suffix_Some_iff)
  ultimately show ?thesis by (simp add: visit_entry_def e)
next
  case False
  then show ?thesis
    by (auto simp: visit_entry_def strip_suffix_Some_iff ends_with_def suffix_def
        split: sum.split option.split)
qed

lemma visit_entry_found:
  assumes "codec_ok st" and "visit_entry env st e = (st', Inr (Found t r))"
  shows "e = Inr (Some (rc_session_id r @ ''.json'')) \<and> stored st' (rc_session_id r) = Some r \<and>
    parse_rfc3339_utc_seconds (rc_started_at r) = Inr t"
proof -
  obtain i where i: "e = Inr (Some (i @ ''.json''))" "visit_session env st i = (st', Inr (Found t r))"
    using assms(2)
    by (auto simp: visit_entry_def strip_suffix_Some_iff split: sum.splits option.splits if_splits)
  then have rec: "recover_abandoned_pending (env_fault env i) (env_now env i) st i = (st', Inr (Some r))"
    and t: "parse_rfc3339_utc_seconds (rc_started_at r) = Inr t"
    by (auto simp: visit_session_def split: prod.splits sum.splits option.splits store_error.splits)
  show ?thesis using recover_returned [OF assms(1) rec] i(1) t by simp
qed

lemma visit_entry_codec: "codec_ok st \<Longrightarrow> codec_ok (fst (visit_entry env st e))"
  using visit_entry_frame [of e "if e = Inr (Some ''a'') then ''b'' else ''a''" st env]
  by (auto simp: codec_ok_def same_view_def split: if_splits)

text \<open>What the visits of a listing collect.\<close>

fun collect :: "visit list \<Rightarrow> (int \<times> runtime_command_record) list \<times> query_diagnostics" where
  "collect [] = ([], [])"
| "collect (Skip None # vs) = collect vs"
| "collect (Skip (Some x) # vs) = (let (rs, ds) = collect vs in (rs, x # ds))"
| "collect (Found t r # vs) = (let (rs, ds) = collect vs in ((t, r) # rs, ds))"

text \<open>
  The loop over a changing store is the visit of every entry in the store as it was at the start.
\<close>

lemma load_loop_refines:
  assumes "distinct (entry_names es)" and "\<And>n. n \<in> set (entry_names es) \<Longrightarrow> same_view n st0 st"
  shows "snd (load_loop env st es) =
    rbind (traverse (\<lambda>e. snd (visit_entry env st0 e)) es) (\<lambda>vs. Inr (collect vs))"
  using assms
proof (induction es arbitrary: st)
  case (Cons e es)
  obtain st1 v where v: "visit_entry env st e = (st1, v)" by fastforce
  have first: "snd (visit_entry env st0 e) = v"
    using visit_entry_view [of e st0 st env] Cons.prems(2) v by (cases e) (auto simp: set_entry_names)
  have "distinct (entry_names es)" and fresh: "n \<in> set (entry_names es) \<Longrightarrow> e \<noteq> Inr (Some n)" for n
    using Cons.prems(1) by (auto simp: entry_names_def List.map_filter_simps split: sum.splits option.splits)
  moreover have "same_view n st0 st1" if "n \<in> set (entry_names es)" for n
    using same_view_trans [OF Cons.prems(2) [of n]] visit_entry_frame [OF fresh [OF that], of st env] that v
    by (simp add: set_entry_names)
  ultimately have rest: "snd (load_loop env st1 es) =
      rbind (traverse (\<lambda>e. snd (visit_entry env st0 e)) es) (\<lambda>vs. Inr (collect vs))"
    using Cons.IH by blast
  show ?case
  proof (cases v)
    case (Inr x)
    obtain st2 w where w: "load_loop env st1 es = (st2, w)" by fastforce
    with rest show ?thesis
      by (cases "traverse (\<lambda>e. snd (visit_entry env st0 e)) es")
        (auto simp: first v Inr w split: visit.split option.split prod.split)
  qed (simp add: first v)
qed simp

lemma load_loop_frame:
  "p \<notin> set (entry_names es) \<Longrightarrow> same_view p st (fst (load_loop env st es))"
proof (induction es arbitrary: st)
  case (Cons e es)
  obtain st1 v where v: "visit_entry env st e = (st1, v)" by fastforce
  have "same_view p st st1"
    using visit_entry_frame [of e p st env] Cons.prems v by (force simp: set_entry_names)
  moreover have "same_view p st1 (fst (load_loop env st1 es))"
    using Cons by (simp add: set_entry_names)
  ultimately show ?case
    using same_view_trans v by (auto split: sum.split prod.split)
qed simp

lemma load_loop_stored:
  assumes "codec_ok st" and "distinct (entry_names es)" and "load_loop env st es = (st', Inr (rs, d))"
    and "(t, r) \<in> set rs"
  shows "stored st' (rc_session_id r) = Some r \<and> parse_rfc3339_utc_seconds (rc_started_at r) = Inr t \<and>
    Inr (Some (rc_session_id r @ ''.json'')) \<in> set es"
  using assms
proof (induction es arbitrary: st rs d)
  case (Cons e es)
  from Cons.prems(3) obtain st1 v rs1 d1 where v: "visit_entry env st e = (st1, Inr v)"
    and l: "load_loop env st1 es = (st', Inr (rs1, d1))"
    and rs: "rs = (case v of Skip _ \<Rightarrow> rs1 | Found t r \<Rightarrow> (t, r) # rs1)"
    by (auto split: prod.splits sum.splits visit.splits)
  have d: "distinct (entry_names es)" and fresh: "e = Inr (Some n) \<Longrightarrow> n \<notin> set (entry_names es)" for n
    using Cons.prems(2) by (auto simp: entry_names_def List.map_filter_simps split: sum.splits option.splits)
  show ?case
  proof (cases "(t, r) \<in> set rs1")
    case True
    then show ?thesis
      using Cons.IH [OF _ d l] visit_entry_codec [OF Cons.prems(1), of env e] v by simp
  next
    case False
    with rs Cons.prems(4) have "v = Found t r" by (cases v) auto
    with v have f: "e = Inr (Some (rc_session_id r @ ''.json''))" "stored st1 (rc_session_id r) = Some r"
      "parse_rfc3339_utc_seconds (rc_started_at r) = Inr t"
      using visit_entry_found [OF Cons.prems(1)] by auto
    then show ?thesis
      using load_loop_frame [OF fresh [OF f(1)], of st1 env] l stored_view by simp
  qed
qed simp

lemma collect_parts:
  "fst (collect vs) = List.map_filter (\<lambda>v. case v of Found t r \<Rightarrow> Some (t, r) | _ \<Rightarrow> None) vs"
  "snd (collect vs) = List.map_filter (\<lambda>v. case v of Skip d \<Rightarrow> d | _ \<Rightarrow> None) vs"
  by (induction vs rule: collect.induct) (auto simp: List.map_filter_simps split: prod.splits)

lemma mset_map_filter_cong: "mset xs = mset ys \<Longrightarrow> mset (List.map_filter f xs) = mset (List.map_filter f ys)"
  by (simp add: List.map_filter_def)

lemma collect_cong:
  "mset vs = mset vs' \<Longrightarrow> mset (fst (collect vs)) = mset (fst (collect vs')) \<and>
   mset (snd (collect vs)) = mset (snd (collect vs'))"
  unfolding collect_parts by (blast intro: mset_map_filter_cong)

lemma traverse_permute:
  assumes "traverse f xs = Inr vs" and "mset ys = mset xs"
  shows "\<exists>vs'. traverse f ys = Inr vs' \<and> mset vs' = mset vs"
proof -
  define g where "g x = (case f x of Inr v \<Rightarrow> v | Inl _ \<Rightarrow> undefined)" for x
  have g: "\<forall>x \<in> set xs. f x = Inr (g x)"
    using traverse_set_rev [OF assms(1)] by (fastforce simp: g_def)
  moreover have total: "\<forall>x \<in> set zs. f x = Inr (g x) \<Longrightarrow> traverse f zs = Inr (map g zs)" for zs
    by (induction zs) simp_all
  ultimately have "vs = map g xs" using assms(1) by simp
  then show ?thesis using total [of ys] g mset_eq_setD [OF assms(2)] assms(2) by simp
qed

lemma sort_desc_cong:
  assumes "mset xs = mset ys" and "inj_on key (set xs)"
  shows "sort_desc key xs = sort_desc key ys"
proof -
  have "sort_key key (rev xs) = sort_key key (rev ys)"
    using assms by (intro sort_key_inj_key_eq) simp_all
  then show ?thesis by (simp add: sort_desc_def)
qed

lemma sort_desc_sorted: "distinct (map key xs) \<Longrightarrow> sorted_wrt (\<lambda>x y. key y < key x) (sort_desc key xs)"
proof -
  assume "distinct (map key xs)"
  moreover have "mset (map key (sort_key key (rev xs))) = mset (map key xs)" by simp
  ultimately have "distinct (map key (sort_key key (rev xs)))"
    using mset_eq_imp_distinct_iff by blast
  then have "sorted_wrt (<) (map key (sort_key key (rev xs)))"
    by (simp add: strict_sorted_iff)
  then show ?thesis by (simp add: sort_desc_def sorted_wrt_rev sorted_wrt_map)
qed

lemma set_sort_desc [simp]: "set (sort_desc key xs) = set xs"
  by (simp add: sort_desc_def)

lemma loop_keys_distinct:
  assumes "codec_ok st" and "distinct (entry_names es)"
    and "list_all2 (\<lambda>e v. snd (visit_entry env st e) = Inr v) es vs"
  shows "distinct (map (rc_session_id \<circ> snd) (fst (collect vs))) \<and>
    (\<forall>x \<in> set (fst (collect vs)). rc_session_id (snd x) @ ''.json'' \<in> set (entry_names es))"
  using assms(3,2)
proof (induction es vs rule: list_all2_induct)
  case (Cons e es v vs)
  have d: "distinct (entry_names es)" and fresh: "e = Inr (Some n) \<Longrightarrow> n \<notin> set (entry_names es)" for n
    using Cons.prems by (auto simp: entry_names_def List.map_filter_simps split: sum.splits option.splits)
  show ?case
  proof (cases v)
    case (Found t r)
    then have e: "e = Inr (Some (rc_session_id r @ ''.json''))"
      using visit_entry_found [OF assms(1)] Cons.hyps(1) by (metis prod.collapse)
    then show ?thesis
      using Cons.IH [OF d] fresh [OF e] Found by (force split: prod.splits)
  next
    case (Skip x)
    then show ?thesis
      using Cons.IH [OF d] by (cases x) (auto simp: set_entry_names split: prod.splits)
  qed
qed simp

lemma loop_key_inj:
  assumes "distinct (map (rc_session_id \<circ> snd) rs)"
  shows "inj_on record_key (set rs)" "distinct (map record_key rs)"
proof -
  have "inj_on (rc_session_id \<circ> snd) (set rs)" "distinct rs" using assms by (simp_all add: distinct_map)
  then show "inj_on record_key (set rs)"
    by (auto simp: inj_on_def record_key_def)
  with \<open>distinct rs\<close> show "distinct (map record_key rs)" by (simp add: distinct_map)
qed

section \<open>Properties\<close>

text \<open>
  The answer of a query does not depend on the order in which the operating system lists the
  directory: for any permutation of the listing the same records come back in the same order, with
  the same diagnostics up to their order.
\<close>

theorem query_order_independent:
  assumes "codec_ok st" and "distinct (entry_names es)" and "mset es' = mset es"
    and "snd (load_sorted env \<lparr>root_exists = True, read_dir = Inr es\<rparr> st) = Inr (rs, d)"
  shows "\<exists>d'. snd (load_sorted env \<lparr>root_exists = True, read_dir = Inr es'\<rparr> st) = Inr (rs, d') \<and>
    mset d' = mset d"
proof -
  have names: "mset (entry_names es') = mset (entry_names es)"
    unfolding entry_names_def by (rule mset_map_filter_cong [OF assms(3)])
  have d': "distinct (entry_names es')" using assms(2) names mset_eq_imp_distinct_iff by blast
  have snds: "snd (load_sorted env \<lparr>root_exists = True, read_dir = Inr zs\<rparr> st) =
      rbind (snd (load_loop env st zs)) (\<lambda>x. Inr (map snd (sort_desc record_key (fst x)), snd x))" for zs
    by (simp add: load_sorted_def split: prod.split sum.split)
  let ?f = "\<lambda>e. snd (visit_entry env st e)"
  obtain vs where vs: "traverse ?f es = Inr vs" and rs: "rs = map snd (sort_desc record_key (fst (collect vs)))"
    and d: "d = snd (collect vs)"
    using assms(4) by (auto simp: snds load_loop_refines [OF assms(2), of st st] result_simps)
  obtain vs' where vs': "traverse ?f es' = Inr vs'" and m: "mset vs' = mset vs"
    using traverse_permute [OF vs assms(3)] by blast
  have "distinct (map (rc_session_id \<circ> snd) (fst (collect vs')))"
    using loop_keys_distinct [OF assms(1) d', of env vs'] vs' by (simp add: result_simps)
  then have "sort_desc record_key (fst (collect vs')) = sort_desc record_key (fst (collect vs))"
    using collect_cong [OF m] loop_key_inj(1) by (intro sort_desc_cong) auto
  then show ?thesis
    using collect_cong [OF m] by (simp add: snds load_loop_refines [OF d', of st st] vs' rs d)
qed

definition record_instant :: "runtime_command_record \<Rightarrow> int" where
  "record_instant r = (case parse_rfc3339_utc_seconds (rc_started_at r) of Inr t \<Rightarrow> t | Inl _ \<Rightarrow> 0)"

definition newer :: "runtime_command_record \<Rightarrow> runtime_command_record \<Rightarrow> bool" where
  "newer r r' \<longleftrightarrow> record_instant r' < record_instant r \<or>
     record_instant r' = record_instant r \<and> rc_session_id r' < rc_session_id r"

lemma load_loop_terminal_found:
  assumes "stored st i = Some r" and "\<not> is_pending r"
  shows "\<exists>t. snd (visit_entry env st (Inr (Some (i @ ''.json'')))) = Inr (Found t r)"
proof -
  have r: "read_raw st i = Inr r" "validate_session_id i = Inr ()" "validate r = Inr ()"
    and reg: "is_regular_record_file st (i @ ''.json'')"
    using assms(1)
    by (auto simp: stored_Some_iff read_raw_Inr_iff read_path_Inr_iff is_regular_record_file_def)
  have "recover_abandoned_pending fault now st i = (st, Inr (Some r))" for fault now
    using r(1) assms(2) by (subst recover_otherwise) auto
  moreover obtain t where "parse_rfc3339_utc_seconds (rc_started_at r) = Inr t"
    using r(3) by (auto simp: validate_contract_iff record_contract_def times_ok_def)
  ultimately have "snd (visit_session env st i) = Inr (Found t r)" by (simp add: visit_session_snd)
  moreover have "\<not> starts_with (i @ ''.json'') ''.''"
  proof -
    obtain c cs where "i = c # cs" "is_ascii_alphanumeric c"
      using r(2) by (auto simp: validate_session_id_def split: if_splits list.splits)
    then show ?thesis by (auto simp: starts_with_def ascii_class_defs)
  qed
  moreover have "strip_suffix (i @ ''.json'') ''.json'' = Some i" by (simp add: strip_suffix_Some_iff)
  ultimately show ?thesis
    using r(2) reg by (auto simp: visit_entry_def ends_with_def suffix_def)
qed

text \<open>
  C33: what \<open>list_sessions\<close> returns. The limit is between 1 and 500; the summaries are those of the
  first records of a sequence that is strictly ordered newest first (by instant, then by session id),
  holds only records that the store then holds under their own id, and misses no terminal record of
  the listing.
\<close>

theorem list_sessions_newest_first:
  assumes "codec_ok st" and "distinct (entry_names es)"
    and "list_sessions env \<lparr>root_exists = True, read_dir = Inr es\<rparr> st limit = (st', Inr (sums, d))"
  shows "\<exists>n recs. 1 \<le> n \<and> n \<le> 500 \<and> (limit = None \<longrightarrow> n = 50) \<and> (\<forall>m. limit = Some m \<longrightarrow> n = m) \<and>
    sums = map summary_from (take n recs) \<and> sorted_wrt newer recs \<and>
    (\<forall>r \<in> set recs. stored st' (rc_session_id r) = Some r) \<and>
    (\<forall>i r. Inr (Some (i @ ''.json'')) \<in> set es \<and> stored st i = Some r \<and> \<not> is_pending r \<longrightarrow> r \<in> set recs)"
proof -
  obtain n rs where n: "parse_limit limit = Inr n" and l: "load_loop env st es = (st', Inr (rs, d))"
    and sums: "sums = map summary_from (take n (map snd (sort_desc record_key rs)))"
    using assms(3) by (auto simp: list_sessions_def load_sorted_def split: sum.splits prod.splits)
  let ?recs = "map snd (sort_desc record_key rs)"
  obtain vs where vs: "traverse (\<lambda>e. snd (visit_entry env st e)) es = Inr vs" and c: "collect vs = (rs, d)"
  proof -
    have "rbind (traverse (\<lambda>e. snd (visit_entry env st e)) es) (\<lambda>vs. Inr (collect vs)) = Inr (rs, d)"
      using load_loop_refines [OF assms(2), of st st env] l by simp
    then show ?thesis using that by (auto simp: rbind_eq_Inr_iff)
  qed
  have st: "stored st' (rc_session_id (snd x)) = Some (snd x) \<and> record_instant (snd x) = fst x"
    if "x \<in> set rs" for x
    using load_loop_stored [OF assms(1,2) l, of "fst x" "snd x"] that by (simp add: record_instant_def)
  have "distinct (map (rc_session_id \<circ> snd) rs)"
    using loop_keys_distinct [OF assms(1,2), of env vs] vs c by (simp add: result_simps)
  then have "sorted_wrt (\<lambda>x y. record_key y < record_key x) (sort_desc record_key rs)"
    using loop_key_inj(2) sort_desc_sorted by blast
  then have "sorted_wrt newer ?recs"
    unfolding sorted_wrt_map using st
    by (elim sorted_wrt_mono_rel [rotated]) (auto simp: newer_def record_key_def less_prod_def)
  moreover have "r \<in> set ?recs"
    if e: "Inr (Some (i @ ''.json'')) \<in> set es" and r: "stored st i = Some r" "\<not> is_pending r" for i r
  proof -
    obtain t where "snd (visit_entry env st (Inr (Some (i @ ''.json'')))) = Inr (Found t r)"
      using load_loop_terminal_found [OF r] by blast
    then have "Found t r \<in> set vs" using traverse_set_rev [OF vs e] by auto
    then have "(t, r) \<in> set (fst (collect vs))"
      by (force simp: collect_parts List.map_filter_def)
    then show ?thesis using c by (auto simp: image_iff intro: bexI [of _ "(t, r)"])
  qed
  moreover have "1 \<le> n" "n \<le> 500" "limit = None \<longrightarrow> n = 50" "\<forall>m. limit = Some m \<longrightarrow> n = m"
    using n by (auto simp: parse_limit_def MAX_LIST_LIMIT_def DEFAULT_LIST_LIMIT_def Let_def
        split: if_splits)
  moreover have "\<forall>r \<in> set ?recs. stored st' (rc_session_id r) = Some r" using st by auto
  ultimately show ?thesis using sums by blast
qed

lemma sample_listing:
  assumes "es = [Inr (Some ''tkg_1.json''), Inr None] \<or> es = [Inr None, Inr (Some ''tkg_1.json'')]"
  shows "snd (load_sorted env \<lparr>root_exists = True, read_dir = Inr es\<rparr> (one_record_store sample_completed))
    = Inr ([sample_completed], [])"
    "entry_names es = [''tkg_1.json'']" "Inr (Some (''tkg_1'' @ ''.json'')) \<in> set es"
proof -
  have i: "rc_session_id sample_completed = ''tkg_1''" "\<not> is_pending sample_completed" by code_simp+
  obtain t where t: "snd (visit_entry env (one_record_store sample_completed) (Inr (Some ''tkg_1.json'')))
      = Inr (Found t sample_completed)"
    using load_loop_terminal_found [OF stored_one_record [OF sample_for_write(2)] i(2), of env]
    by (auto simp: i(1))
  show n: "entry_names es = [''tkg_1.json'']" "Inr (Some (''tkg_1'' @ ''.json'')) \<in> set es"
    using assms by auto
  have none: "snd (visit_entry env st (Inr None)) = Inr (Skip None)" for st
    by (simp add: visit_entry_def)
  have "snd (load_loop env (one_record_store sample_completed) es) = Inr ([(t, sample_completed)], [])"
    using load_loop_refines [of es "one_record_store sample_completed" "one_record_store sample_completed" env]
      assms n(1) t none by auto
  then show "snd (load_sorted env \<lparr>root_exists = True, read_dir = Inr es\<rparr> (one_record_store sample_completed))
      = Inr ([sample_completed], [])"
    by (auto simp: load_sorted_def sort_desc_def split: prod.splits)
qed

theorem query_order_independent_witness:
  "\<exists>d'. snd (load_sorted \<lparr>env_now = (\<lambda>_. 1784624500), env_fault = (\<lambda>_. None)\<rparr>
      \<lparr>root_exists = True, read_dir = Inr [Inr None, Inr (Some ''tkg_1.json'')]\<rparr>
      (one_record_store sample_completed)) = Inr ([sample_completed], d') \<and> mset d' = {#}"
proof -
  have "mset [Inr None, Inr (Some ''tkg_1.json'')] = mset [Inr (Some ''tkg_1.json''), Inr None]" by simp
  from query_order_independent [OF codec_one_record _ this sample_listing(1)]
  show ?thesis by simp
qed

theorem list_sessions_newest_first_witness:
  "\<exists>n recs. 1 \<le> n \<and> n \<le> 500 \<and> [summary_from sample_completed] = map summary_from (take n recs) \<and>
     sorted_wrt newer recs \<and> sample_completed \<in> set recs"
proof -
  let ?env = "\<lparr>env_now = (\<lambda>_. 1784624500), env_fault = (\<lambda>_. None)\<rparr>"
  let ?es = "[Inr (Some ''tkg_1.json''), Inr None] :: (io_error, string option) result list"
  let ?st = "one_record_store sample_completed"
  have i: "rc_session_id sample_completed = ''tkg_1''" "\<not> is_pending sample_completed" by code_simp+
  have "snd (list_sessions ?env \<lparr>root_exists = True, read_dir = Inr ?es\<rparr> ?st None)
      = Inr ([summary_from sample_completed], [])"
    using sample_listing(1) [of ?es ?env]
    by (auto simp: list_sessions_def parse_limit_def DEFAULT_LIST_LIMIT_def MAX_LIST_LIMIT_def split: prod.splits)
  then have "list_sessions ?env \<lparr>root_exists = True, read_dir = Inr ?es\<rparr> ?st None
      = (fst (list_sessions ?env \<lparr>root_exists = True, read_dir = Inr ?es\<rparr> ?st None),
         Inr ([summary_from sample_completed], []))"
    by (simp add: prod_eq_iff)
  note spec = list_sessions_newest_first [OF codec_one_record _ this]
  have "distinct (entry_names ?es)" by simp
  from spec [OF this] obtain n recs where s: "1 \<le> n" "n \<le> 500"
    "[summary_from sample_completed] = map summary_from (take n recs)" "sorted_wrt newer recs"
    and c: "\<forall>i r. Inr (Some (i @ ''.json'')) \<in> set ?es \<and> stored ?st i = Some r \<and> \<not> is_pending r \<longrightarrow> r \<in> set recs"
    by (elim exE conjE) (rule that)
  have "sample_completed \<in> set recs"
    using c [rule_format, of "''tkg_1''" sample_completed] stored_one_record [OF sample_for_write(2)] i by simp
  with s show ?thesis by (intro exI [of _ n] exI [of _ recs] conjI)
qed

end
