(* ===== verification/Registry_Types.thy ===== *)
theory Registry_Types
  imports Record_Contract
begin

text \<open>
  The registry documents (\<open>registry/types.rs\<close>): the JSON values the registry holds, the projected
  unit, scan, tool, profile and policy records, the authored descriptors, and the strict precedence
  by which a profile is selected. A \<open>BTreeMap\<close> with string keys is a map; where the code iterates over
  one, the iteration is over its keys in ascending order.
\<close>

section \<open>JSON values\<close>

datatype json =
    JNull
  | JBool bool
  | JNumber string
  | JString string
  | JArray "json list"
  | JObject "(string \<times> json) list"

type_synonym json_map = "string \<rightharpoonup> json"

fun json_as_str :: "json \<Rightarrow> string option" where
  "json_as_str (JString s) = Some s"
| "json_as_str _ = None"

section \<open>Registry files\<close>

datatype freshness = Hit | Miss | Stale

fun freshness_str :: "freshness \<Rightarrow> string" where
  "freshness_str Hit = ''hit''"
| "freshness_str Miss = ''miss''"
| "freshness_str Stale = ''stale''"

datatype registry_file_kind = Units | Scan | Tools | Profiles | Policies | Graph | Manifest

fun registry_file_name :: "registry_file_kind \<Rightarrow> string" where
  "registry_file_name Units = ''units.json''"
| "registry_file_name Scan = ''scan.json''"
| "registry_file_name Tools = ''tools.json''"
| "registry_file_name Profiles = ''profiles.json''"
| "registry_file_name Policies = ''policies.json''"
| "registry_file_name Graph = ''graph.json''"
| "registry_file_name Manifest = ''manifest.json''"

record structured_entrypoint =
  se_program :: string
  se_args :: "string list"
  se_cwd :: "string option"
  se_env_keys :: "string list"
  se_backend :: "string option"
  se_adapter :: "string option"
  se_source_manifests :: "string list"
  se_required_policies :: "string list"
  se_execution_class :: execution_class
  se_runtime_provider :: "string option"

datatype entrypoint_definition = Legacy string | Structured structured_entrypoint

record unit_record =
  ur_id :: string
  ur_kind :: "string option"
  ur_title :: "string option"
  ur_status :: "string option"
  ur_domain :: "string option"
  ur_layer :: "string option"
  ur_stack :: "string option"
  ur_owner :: "string option"
  ur_runtime :: "string option"
  ur_path :: "string option"
  ur_native_manifests :: "string list"
  ur_entrypoints :: "string \<rightharpoonup> entrypoint_definition"
  ur_cli :: "json option"
  ur_provides :: "string list"
  ur_requires :: "string list"
  ur_policy :: "json option"
  ur_source :: "string option"
  ur_provisional :: bool
  ur_routing_complete :: "bool option"

record units_document =
  ud_generated_at :: string
  ud_registry_generation :: "registry_generation option"
  ud_summary :: json
  ud_units :: "unit_record list"

record workspace_scan_entry =
  ws_path :: string
  ws_kind :: "string option"
  ws_git_root :: "string option"
  ws_native_manifests :: "string list"
  ws_lint_check_commands :: "json list"

record scan_document =
  sd_generated_at :: string
  sd_registry_generation :: "registry_generation option"
  sd_root :: "string option"
  sd_summary :: json
  sd_workspaces :: "workspace_scan_entry list"

record tool_record =
  tr_id :: string
  tr_module :: "string option"
  tr_installed :: "bool option"
  tr_default :: "bool option"
  tr_agent_safe :: "bool option"
  tr_detect :: "string option"
  tr_version :: "string option"

record tools_document =
  td_generated_at :: string
  td_summary :: json
  td_tools :: "tool_record list"

record provisional_unit =
  pu_unit :: unit_record
  pu_evidence :: "string list"

record profile_record =
  pf_id :: string
  pf_title :: "string option"
  pf_purpose :: "string option"
  pf_rails :: "string option"
  pf_rails_bin :: "string option"
  pf_isolation_mode :: "string option"
  pf_isolation_jj :: "string option"
  pf_session_state_home :: "string option"
  pf_rest :: json_map

record profiles_document =
  pd_generated_at :: string
  pd_profiles :: "profile_record list"

record policy_record =
  po_id :: string
  po_applies_to :: "string option"
  po_rest :: json_map

record policies_document =
  pol_generated_at :: string
  pol_policies :: "policy_record list"

record authored_unit_descriptor =
  au_id :: string
  au_root :: "string option"
  au_manifests :: "string list option"
  au_entrypoints :: "string \<rightharpoonup> entrypoint_definition"

record unit_definition =
  un_id :: string
  un_path :: "string option"
  un_root :: "string option"
  un_native_manifests :: "string list"
  un_entrypoints :: "string \<rightharpoonup> entrypoint_definition"
  un_descriptor_path :: string
  un_provisional :: bool
  un_routing_complete :: bool

section \<open>Profile selection\<close>

datatype profile_selection = ExplicitProfile string | DefaultProfile string | NoProfile

definition nonempty_option :: "string option \<Rightarrow> string option" where
  "nonempty_option x = (case x of Some s \<Rightarrow> (if s = [] then None else Some s) | None \<Rightarrow> None)"

definition resolve_profile_selection ::
  "profiles_document \<Rightarrow> string option \<Rightarrow> string option \<Rightarrow> profile_selection" where
  "resolve_profile_selection doc explicit env_profile =
     (case nonempty_option explicit of
        Some p \<Rightarrow> ExplicitProfile p
      | None \<Rightarrow>
          (case nonempty_option env_profile of
             Some p \<Rightarrow> ExplicitProfile p
           | None \<Rightarrow>
               (case find (\<lambda>p. pf_id p = ''workspace-dev'') (pd_profiles doc) of
                  Some p \<Rightarrow> DefaultProfile (pf_id p)
                | None \<Rightarrow> NoProfile)))"

lemma resolve_profile_selection_cases:
  "resolve_profile_selection doc explicit env_profile = ExplicitProfile p \<longleftrightarrow>
     nonempty_option explicit = Some p \<or> nonempty_option explicit = None \<and> nonempty_option env_profile = Some p"
  "resolve_profile_selection doc explicit env_profile = DefaultProfile p \<Longrightarrow>
     p = ''workspace-dev'' \<and> p \<in> pf_id ` set (pd_profiles doc)"
  by (auto simp: resolve_profile_selection_def find_Some_iff split: option.splits)

end
