(* ===== verification/Policy_Raw.thy ===== *)
theory Policy_Raw
  imports Registry_Types
begin

text \<open>
  Raw policy and profile shapes (\<open>policy/raw.rs\<close>): the strict enforcement record of a policy and the
  typed view of a profile, with the contract checks on both. The deserialiser of the policy body is a
  library: it is the parameter \<open>parse\<close>, from the JSON object the code builds to a record or a message.
\<close>

section \<open>Errors\<close>

datatype policy_contract_kind =
    PolicyContractInvalid
  | PolicyVersionUnsupported
  | PolicyRuleInvalid
  | PolicyPathPatternInvalid
  | PolicyInputMismatch

fun policy_contract_code :: "policy_contract_kind \<Rightarrow> string" where
  "policy_contract_code PolicyContractInvalid = ''policy_contract_invalid''"
| "policy_contract_code PolicyVersionUnsupported = ''policy_version_unsupported''"
| "policy_contract_code PolicyRuleInvalid = ''policy_rule_invalid''"
| "policy_contract_code PolicyPathPatternInvalid = ''policy_path_pattern_invalid''"
| "policy_contract_code PolicyInputMismatch = ''policy_input_mismatch''"

record raw_policy_error =
  rpe_kind :: policy_contract_kind
  rpe_message :: string
  rpe_policy_id :: "string option"
  rpe_field :: "string option"

definition raw_error ::
  "policy_contract_kind \<Rightarrow> string \<Rightarrow> string option \<Rightarrow> string option \<Rightarrow> raw_policy_error" where
  "raw_error kind message pol field =
     \<lparr>rpe_kind = kind, rpe_message = message, rpe_policy_id = pol, rpe_field = field\<rparr>"

definition backtick :: string where "backtick = [CHR 0x60]"

section \<open>Policy records\<close>

record agent_rules =
  ag_env_flag :: "string option"
  ag_allow :: "string list"
  ag_block :: "string list"

record rule_table =
  rt_commands :: "string list"
  rt_tools :: "string list"
  rt_paths :: "string list"
  rt_actions :: "string list"

record capability_gates =
  cg_no_global_install :: "bool option"
  cg_no_secret_read :: "bool option"
  cg_no_shell_mutation :: "bool option"

record secret_rules =
  sr_block_tools :: "string list"
  sr_rationale :: "string option"

datatype remote_write_policy = Blocked | LocalOnly | Elevated

fun remote_write_str :: "remote_write_policy \<Rightarrow> string" where
  "remote_write_str Blocked = ''blocked''"
| "remote_write_str LocalOnly = ''local-only''"
| "remote_write_str Elevated = ''elevated''"

record policy_enforcement_record =
  per_id :: string
  per_applies_to :: string
  per_version :: string
  per_agent :: "agent_rules option"
  per_allow :: "rule_table option"
  per_gate :: "rule_table option"
  per_block :: "rule_table option"
  per_gates :: "capability_gates option"
  per_secrets :: "secret_rules option"
  per_remote_writes :: "remote_write_policy option"
  per_rationale :: "string option"
  per_source :: "string option"

type_synonym policy_parser = "json_map \<Rightarrow> (string, policy_enforcement_record) result"

definition is_policy_id_char :: "char \<Rightarrow> bool" where
  "is_policy_id_char c \<longleftrightarrow> is_ascii_lowercase c \<or> is_ascii_digit c \<or> c \<in> {CHR ''.'', CHR ''_'', CHR ''-''}"

definition valid_policy_id :: "string \<Rightarrow> bool" where
  "valid_policy_id i =
     (case i of
        [] \<Rightarrow> False
      | first # rest \<Rightarrow>
          (is_ascii_lowercase first \<or> is_ascii_digit first) \<and> list_all is_policy_id_char rest)"

definition ensure_unique :: "string list \<Rightarrow> string \<Rightarrow> string \<Rightarrow> (raw_policy_error, unit) result" where
  "ensure_unique items pol field =
     ensure (insert_all_unique [] items)
       (raw_error PolicyRuleInvalid (field @ '' must have unique items'') (Some pol) (Some field))"

definition validate_version :: "policy_enforcement_record \<Rightarrow> (raw_policy_error, unit) result" where
  "validate_version r =
     ensure (per_version r = ''0.1'' \<or>
         (case strip_prefix (per_version r) ''0.1.'' of
            Some s \<Rightarrow> s \<noteq> [] \<and> list_all is_ascii_digit s
          | None \<Rightarrow> False))
       (raw_error PolicyVersionUnsupported
          (''unsupported policy version '' @ backtick @ per_version r @ backtick)
          (Some (per_id r)) (Some ''version''))"

text \<open>The fixed loops over the named tables.\<close>

definition on_table ::
  "(string \<Rightarrow> rule_table \<Rightarrow> (raw_policy_error, unit) result) \<Rightarrow> string \<times> rule_table option \<Rightarrow>
   (raw_policy_error, unit) result" where
  "on_table f nt = (case snd nt of None \<Rightarrow> Inr () | Some table \<Rightarrow> f (fst nt) table)"

definition validate_allow_gate_unsupported ::
  "policy_enforcement_record \<Rightarrow> (raw_policy_error, unit) result" where
  "validate_allow_gate_unsupported r =
     check_all (on_table (\<lambda>name table.
       if rt_paths table \<noteq> [] then
         Inl (raw_error PolicyRuleInvalid
           (name @ ''.paths is unsupported in v0 (must be empty or absent)'')
           (Some (per_id r)) (Some (name @ ''.paths'')))
       else if rt_actions table \<noteq> [] then
         Inl (raw_error PolicyRuleInvalid
           (name @ ''.actions is unsupported in v0 (must be empty or absent)'')
           (Some (per_id r)) (Some (name @ ''.actions'')))
       else Inr ()))
     [(''allow'', per_allow r), (''gate'', per_gate r)]"

definition validate_unique_items :: "policy_enforcement_record \<Rightarrow> (raw_policy_error, unit) result" where
  "validate_unique_items r =
     rbind (case per_agent r of
              None \<Rightarrow> Inr ()
            | Some agent \<Rightarrow>
                rbind (ensure_unique (ag_allow agent) (per_id r) ''agent.allow'') (\<lambda>_.
                  ensure_unique (ag_block agent) (per_id r) ''agent.block'')) (\<lambda>_.
     rbind (check_all (on_table (\<lambda>name table.
              rbind (ensure_unique (rt_commands table) (per_id r) (name @ ''.commands'')) (\<lambda>_.
              rbind (ensure_unique (rt_tools table) (per_id r) (name @ ''.tools'')) (\<lambda>_.
              rbind (ensure_unique (rt_paths table) (per_id r) (name @ ''.paths'')) (\<lambda>_.
                ensure_unique (rt_actions table) (per_id r) (name @ ''.actions''))))))
            [(''allow'', per_allow r), (''gate'', per_gate r), (''block'', per_block r)]) (\<lambda>_.
       case per_secrets r of
         None \<Rightarrow> Inr ()
       | Some secrets \<Rightarrow> ensure_unique (sr_block_tools secrets) (per_id r) ''secrets.block_tools''))"

definition validate_actions :: "policy_enforcement_record \<Rightarrow> (raw_policy_error, unit) result" where
  "validate_actions r =
     (case per_block r of
        None \<Rightarrow> Inr ()
      | Some block \<Rightarrow>
          check_all (\<lambda>action.
            ensure (action = ''delete untracked files'')
              (raw_error PolicyRuleInvalid (''unsupported action '' @ backtick @ action @ backtick)
                (Some (per_id r)) (Some ''block.actions'')))
            (rt_actions block))"

definition policy_from_registry ::
  "policy_parser \<Rightarrow> policy_record \<Rightarrow> (raw_policy_error, policy_enforcement_record) result" where
  "policy_from_registry parse rec =
     (if \<not> valid_policy_id (po_id rec) then
        Inl (raw_error PolicyContractInvalid
          (''policy id '' @ backtick @ po_id rec @ backtick @ '' does not match the closed v0 syntax'')
          (Some (po_id rec)) (Some ''id''))
      else
        (case po_applies_to rec of
           Some a \<Rightarrow>
             if trim a \<noteq> [] then
               rbind (map_err (\<lambda>e. raw_error PolicyRuleInvalid (''policy parse failed: '' @ e)
                         (Some (po_id rec)) None)
                 (parse ([''id'' \<mapsto> JString (po_id rec), ''applies_to'' \<mapsto> JString a] ++ po_rest rec)))
               (\<lambda>parsed.
                 rbind (validate_version parsed) (\<lambda>_.
                 rbind (validate_unique_items parsed) (\<lambda>_.
                 rbind (validate_allow_gate_unsupported parsed) (\<lambda>_.
                 rbind (validate_actions parsed) (\<lambda>_. Inr parsed)))))
             else Inl (raw_error PolicyContractInvalid ''policy missing applies_to''
                    (Some (po_id rec)) (Some ''applies_to''))
         | None \<Rightarrow> Inl (raw_error PolicyContractInvalid ''policy missing applies_to''
                    (Some (po_id rec)) (Some ''applies_to''))))"

section \<open>Profiles\<close>

record profile_enforcement =
  pe_id :: string
  pe_allowed_paths :: "string list"
  pe_blocked_paths :: "string list"
  pe_allowed_commands :: "string list"
  pe_gated_commands :: "string list"
  pe_blocked_commands :: "string list"
  pe_secret_access :: bool
  pe_remote_write_policy :: remote_write_policy
  pe_isolation_mode :: "string option"
  pe_isolation_jj :: "string option"

definition string_array :: "json_map \<Rightarrow> string \<Rightarrow> string \<Rightarrow> (raw_policy_error, string list) result" where
  "string_array m key profile_id =
     (case m key of
        None \<Rightarrow> Inr []
      | Some (JArray items) \<Rightarrow>
          traverse (\<lambda>item.
            case json_as_str item of
              Some s \<Rightarrow> Inr s
            | None \<Rightarrow> Inl (raw_error PolicyRuleInvalid (key @ '' items must be strings'')
                        (Some profile_id) (Some key))) items
      | Some _ \<Rightarrow> Inl (raw_error PolicyRuleInvalid (key @ '' must be an array of strings'')
                    (Some profile_id) (Some key)))"

definition bool_field :: "json_map \<Rightarrow> string \<Rightarrow> string \<Rightarrow> (raw_policy_error, bool option) result" where
  "bool_field m key profile_id =
     (case m key of
        None \<Rightarrow> Inr None
      | Some JNull \<Rightarrow> Inl (raw_error PolicyRuleInvalid (key @ '' must not be null'')
                        (Some profile_id) (Some key))
      | Some (JBool b) \<Rightarrow> Inr (Some b)
      | Some _ \<Rightarrow> Inl (raw_error PolicyRuleInvalid (key @ '' must be a boolean'')
                    (Some profile_id) (Some key)))"

definition remote_write_field :: "profile_record \<Rightarrow> (raw_policy_error, remote_write_policy) result" where
  "remote_write_field profile =
     (let bad = (\<lambda>m. Inl (raw_error PolicyRuleInvalid m (Some (pf_id profile)) (Some ''remote_write_policy'')))
      in case pf_rest profile ''remote_write_policy'' of
           None \<Rightarrow> Inr Blocked
         | Some JNull \<Rightarrow> bad ''remote_write_policy must not be null''
         | Some (JString s) \<Rightarrow>
             (if s = ''blocked'' then Inr Blocked
              else if s = ''local-only'' then Inr LocalOnly
              else if s = ''elevated'' then Inr Elevated
              else bad (''unsupported remote_write_policy '' @ backtick @ s @ backtick))
         | Some _ \<Rightarrow> bad ''remote_write_policy must be a string'')"

definition profile_from_record :: "profile_record \<Rightarrow> (raw_policy_error, profile_enforcement) result" where
  "profile_from_record profile =
     (let pid = pf_id profile; m = pf_rest profile in
      rbind (string_array m ''allowed_paths'' pid) (\<lambda>allowed_paths.
      rbind (ensure (allowed_paths \<noteq> [])
               (raw_error PolicyContractInvalid
                 ''profile allowed_paths must be non-empty for routed commands''
                 (Some pid) (Some ''allowed_paths''))) (\<lambda>_.
      rbind (string_array m ''blocked_paths'' pid) (\<lambda>blocked_paths.
      rbind (string_array m ''allowed_commands'' pid) (\<lambda>allowed_commands.
      rbind (string_array m ''gated_commands'' pid) (\<lambda>gated_commands.
      rbind (string_array m ''blocked_commands'' pid) (\<lambda>blocked_commands.
      rbind (check_all (\<lambda>(field, values). ensure_unique values pid field)
               [(''allowed_paths'', allowed_paths), (''blocked_paths'', blocked_paths),
                (''allowed_commands'', allowed_commands), (''gated_commands'', gated_commands),
                (''blocked_commands'', blocked_commands)]) (\<lambda>_.
      rbind (bool_field m ''secret_access'' pid) (\<lambda>secret_access.
      rbind (remote_write_field profile) (\<lambda>remote.
        Inr \<lparr>pe_id = pid, pe_allowed_paths = allowed_paths, pe_blocked_paths = blocked_paths,
             pe_allowed_commands = allowed_commands, pe_gated_commands = gated_commands,
             pe_blocked_commands = blocked_commands,
             pe_secret_access = (case secret_access of Some b \<Rightarrow> b | None \<Rightarrow> False),
             pe_remote_write_policy = remote, pe_isolation_mode = pf_isolation_mode profile,
             pe_isolation_jj = pf_isolation_jj profile\<rparr>))))))))))"

section \<open>What acceptance means\<close>

definition unsupported_free :: "rule_table option \<Rightarrow> bool" where
  "unsupported_free t \<longleftrightarrow> pred_option (\<lambda>t. rt_paths t = [] \<and> rt_actions t = []) t"

lemma validate_allow_gate_iff:
  "validate_allow_gate_unsupported r = Inr u \<longleftrightarrow> unsupported_free (per_allow r) \<and> unsupported_free (per_gate r)"
  by (cases "per_allow r"; cases "per_gate r")
    (auto simp: validate_allow_gate_unsupported_def on_table_def unsupported_free_def result_simps)

lemma validate_actions_iff:
  "validate_actions r = Inr u \<longleftrightarrow>
     pred_option (\<lambda>t. set (rt_actions t) \<subseteq> {''delete untracked files''}) (per_block r)"
  by (cases "per_block r") (auto simp: validate_actions_def result_simps)

lemma ensure_unique_iff: "ensure_unique items i f = Inr u \<longleftrightarrow> distinct items"
  by (simp add: ensure_unique_def result_simps insert_all_unique_iff)

lemma policy_from_registry_valid:
  assumes "policy_from_registry parse rec = Inr r"
  shows "valid_policy_id (po_id rec) \<and> unsupported_free (per_allow r) \<and> unsupported_free (per_gate r) \<and>
    pred_option (\<lambda>t. set (rt_actions t) \<subseteq> {''delete untracked files''}) (per_block r) \<and>
    (\<exists>a. po_applies_to rec = Some a \<and>
       parse ([''id'' \<mapsto> JString (po_id rec), ''applies_to'' \<mapsto> JString a] ++ po_rest rec) = Inr r)"
  using assms
  by (auto simp: policy_from_registry_def result_simps validate_allow_gate_iff validate_actions_iff
      split: if_splits option.splits)

lemma valid_policy_id_no_colon: "valid_policy_id i \<Longrightarrow> CHR '':'' \<notin> set i"
  by (auto simp: valid_policy_id_def is_policy_id_char_def list_all_iff ascii_class_defs split: list.splits)

lemma bool_field_default:
  "bool_field m key i = Inr b \<Longrightarrow> (case b of Some x \<Rightarrow> x | None \<Rightarrow> False) \<longleftrightarrow> m key = Some (JBool True)"
  by (auto simp: bool_field_def split: option.splits json.splits)

lemma profile_from_record_fields:
  assumes "profile_from_record profile = Inr p"
  shows "pe_id p = pf_id profile" "pe_allowed_paths p \<noteq> []"
    "pe_secret_access p \<longleftrightarrow> pf_rest profile ''secret_access'' = Some (JBool True)"
    "string_array (pf_rest profile) ''blocked_commands'' (pf_id profile) = Inr (pe_blocked_commands p)"
    "string_array (pf_rest profile) ''allowed_commands'' (pf_id profile) = Inr (pe_allowed_commands p)"
    "string_array (pf_rest profile) ''gated_commands'' (pf_id profile) = Inr (pe_gated_commands p)"
    "string_array (pf_rest profile) ''blocked_paths'' (pf_id profile) = Inr (pe_blocked_paths p)"
    "string_array (pf_rest profile) ''allowed_paths'' (pf_id profile) = Inr (pe_allowed_paths p)"
  using assms unfolding profile_from_record_def Let_def rbind_eq_Inr_iff ensure_eq_Inr_iff
  by (elim exE conjE; simp; (drule bool_field_default)?; auto simp: bool_field_default)+

end
