(* ===== verification/Policy_Command.thy ===== *)
theory Policy_Command
  imports Policy_Raw Entrypoint
begin

text \<open>
  Command patterns (\<open>policy/command.rs\<close>): the restricted pattern parser, which runs the tokeniser of
  \<open>Entrypoint\<close>, the token-prefix matcher, and the short digest of a matcher. SHA-256 is a library: its
  lowercase hexadecimal digest is the parameter \<open>sha256_hex\<close>.
\<close>

definition pattern_error :: "string \<Rightarrow> string \<Rightarrow> raw_policy_error" where
  "pattern_error origin_id message =
     raw_error PolicyRuleInvalid message (Some origin_id) (Some ''commands'')"

fun split_error_message :: "split_error \<Rightarrow> string" where
  "split_error_message TrailingBackslash = ''malformed quoting: trailing backslash''"
| "split_error_message UnmatchedQuote =
     ''malformed quoting: unmatched '' @ backtick @ [quote_char] @ backtick"

definition parse_command_pattern :: "string \<Rightarrow> string \<Rightarrow> (raw_policy_error, string list) result" where
  "parse_command_pattern input origin_id =
     (let trimmed = trim input in
      if trimmed = [] then Inl (pattern_error origin_id ''empty command pattern'')
      else rbind (check_all (\<lambda>token. ensure (\<not> contains trimmed token)
               (pattern_error origin_id
                 (''shell syntax rejected in command pattern: '' @ backtick @ token @ backtick))) FORBIDDEN)
        (\<lambda>_.
        if contains trimmed ''$'' then
          Inl (pattern_error origin_id
            (''shell syntax rejected in command pattern: '' @ backtick @ ''$'' @ backtick))
        else rbind (map_err (\<lambda>e. pattern_error origin_id (split_error_message e)) (split_argv trimmed)) (\<lambda>tokens.
          case tokens of
            [] \<Rightarrow> Inl (pattern_error origin_id ''command pattern has empty program token'')
          | program # _ \<Rightarrow>
              if program = [] then
                Inl (pattern_error origin_id ''command pattern has empty program token'')
              else if contains program ''..'' then
                Inl (pattern_error origin_id ''command pattern program must not contain path traversal'')
              else Inr tokens)))"

definition matches_token_prefix :: "string list \<Rightarrow> string list \<Rightarrow> bool" where
  "matches_token_prefix pattern argv =
     (if pattern = [] then True
      else if length argv < length pattern then False
      else list_all (\<lambda>(p, a). p = a) (zip pattern argv))"

definition program_matches :: "string \<Rightarrow> string \<Rightarrow> bool" where
  "program_matches pattern_program actual_program =
     (if pattern_program = actual_program then True
      else pattern_program = basename actual_program)"

definition matches_command :: "string list \<Rightarrow> string \<Rightarrow> string list \<Rightarrow> bool" where
  "matches_command pattern program args =
     (case pattern of
        [] \<Rightarrow> False
      | p # ps \<Rightarrow> if \<not> program_matches p program then False else matches_token_prefix ps args)"

definition matcher_digest :: "(string \<Rightarrow> string) \<Rightarrow> string \<Rightarrow> string" where
  "matcher_digest sha256_hex payload = take 12 (sha256_hex payload)"

section \<open>Lemmas\<close>

lemma matches_token_prefix_iff: "matches_token_prefix pattern argv \<longleftrightarrow> prefix pattern argv"
proof -
  have "length ps \<le> length as \<Longrightarrow> list_all (\<lambda>(p, a). p = a) (zip ps as) \<longleftrightarrow> prefix ps as" for ps as :: "string list"
  proof (induction ps arbitrary: as)
    case (Cons p ps)
    then show ?case by (cases as) auto
  qed simp
  then show ?thesis by (auto simp: matches_token_prefix_def dest: prefix_length_le)
qed

lemma matches_command_prefix:
  "matches_command pattern program args \<longleftrightarrow>
     (\<exists>p ps rest. pattern = p # ps \<and> (p = program \<or> p = basename program) \<and> args = ps @ rest)"
  by (cases pattern) (auto simp: matches_command_def program_matches_def matches_token_prefix_iff prefix_def)

lemma parse_command_pattern_tokens:
  assumes "parse_command_pattern input origin = Inr tokens"
  shows "tokens \<noteq> []" "[] \<notin> set tokens" "\<not> contains (hd tokens) ''..''"
    "\<And>t. t \<in> set tokens \<Longrightarrow> set t \<inter> shell_meta = {} \<and> set t \<subseteq> set input"
proof -
  obtain p ps where t: "tokens = p # ps" "p \<noteq> []" "\<not> contains p ''..''"
    and s: "split_argv (trim input) = Inr tokens"
    and free: "\<forall>token \<in> set FORBIDDEN. \<not> contains (trim input) token" "\<not> contains (trim input) ''$''"
    using assms by (auto simp: parse_command_pattern_def Let_def result_simps)
  show "tokens \<noteq> []" "[] \<notin> set tokens" "\<not> contains (hd tokens) ''..''"
    using t split_argv_tokens(1) [OF s] by auto
  show "set u \<inter> shell_meta = {} \<and> set u \<subseteq> set input" if "u \<in> set tokens" for u
    using that split_argv_tokens(2) [OF s] forbidden_free [OF free] trim_subset [of input] by auto
qed

section \<open>Properties\<close>

text \<open>
  A command pattern matches exactly the commands whose program is its first token, or has it as
  its last path component, and whose leading arguments are its other tokens; so a pattern that matches
  a command also matches every extension of it by further arguments.
\<close>

theorem matches_command_iff:
  "(matches_command pattern program args \<longleftrightarrow>
     (\<exists>p ps rest. pattern = p # ps \<and> (p = program \<or> p = basename program) \<and> args = ps @ rest)) \<and>
   (\<not> matches_command pattern program args \<or> matches_command pattern program (args @ extra))"
  by (auto simp: matches_command_prefix)

theorem matches_command_iff_witness:
  "matches_command [''git'', ''push''] ''/usr/bin/git'' ([''push''] @ [''--force''])"
proof -
  have "matches_command [''git'', ''push''] ''/usr/bin/git'' [''push'']" by code_simp
  then show ?thesis using matches_command_iff by blast
qed

text \<open>
  A parsed command pattern is a non-empty list of non-empty tokens without shell
  metacharacters, and its program token cannot climb out of a directory.
\<close>

theorem parse_command_pattern_safe:
  assumes "parse_command_pattern input origin = Inr tokens"
  shows "tokens \<noteq> [] \<and> \<not> contains (hd tokens) ''..'' \<and>
    (\<forall>t. t \<in> set tokens \<longrightarrow> t \<noteq> [] \<and> set t \<inter> shell_meta = {} \<and> set t \<subseteq> set input)"
  using parse_command_pattern_tokens [OF assms] by metis

theorem parse_command_pattern_safe_witness:
  "\<not> contains ''moon'' ''..'' \<and> set ''run'' \<inter> shell_meta = {}"
proof -
  have "parse_command_pattern ''moon run'' ''p'' = Inr [''moon'', ''run'']" by code_simp
  from parse_command_pattern_safe [OF this] show ?thesis by auto
qed

end
