(* ===== verification/Policy_Classify.thy ===== *)
theory Policy_Classify
  imports Takogami_Prelude
begin

text \<open>
  Semantic intents of a child command (\<open>policy/classify.rs\<close>): from a program and its arguments, the
  sorted list of the intents that capability, remote-write and semantic rules match on.
\<close>

section \<open>Intents\<close>

datatype intent =
    RemoteWriteIntent
  | DestructiveGit
  | LocalGitMutation
  | GitInspection
  | SecretTool
  | Install
  | BinMutation
  | BinReport
  | BinCleanupReportOnly
  | BinCleanupDryRun
  | BinCleanupArchive
  | BinCleanupDelete
  | ShellWrapper
  | ShellMutation
  | GhPublish
  | UnknownGh

fun intent_str :: "intent \<Rightarrow> string" where
  "intent_str RemoteWriteIntent = ''remote_write''"
| "intent_str DestructiveGit = ''destructive_git''"
| "intent_str LocalGitMutation = ''local_git_mutation''"
| "intent_str GitInspection = ''git_inspection''"
| "intent_str SecretTool = ''secret_tool''"
| "intent_str Install = ''install''"
| "intent_str BinMutation = ''bin_mutation''"
| "intent_str BinReport = ''bin_report''"
| "intent_str BinCleanupReportOnly = ''bin_cleanup_report_only''"
| "intent_str BinCleanupDryRun = ''bin_cleanup_dry_run''"
| "intent_str BinCleanupArchive = ''bin_cleanup_archive''"
| "intent_str BinCleanupDelete = ''bin_cleanup_delete''"
| "intent_str ShellWrapper = ''shell_wrapper''"
| "intent_str ShellMutation = ''shell_mutation''"
| "intent_str GhPublish = ''gh_publish''"
| "intent_str UnknownGh = ''unknown_gh''"

text \<open>The derived order: the order of declaration.\<close>

fun intent_rank :: "intent \<Rightarrow> nat" where
  "intent_rank RemoteWriteIntent = 0"
| "intent_rank DestructiveGit = 1"
| "intent_rank LocalGitMutation = 2"
| "intent_rank GitInspection = 3"
| "intent_rank SecretTool = 4"
| "intent_rank Install = 5"
| "intent_rank BinMutation = 6"
| "intent_rank BinReport = 7"
| "intent_rank BinCleanupReportOnly = 8"
| "intent_rank BinCleanupDryRun = 9"
| "intent_rank BinCleanupArchive = 10"
| "intent_rank BinCleanupDelete = 11"
| "intent_rank ShellWrapper = 12"
| "intent_rank ShellMutation = 13"
| "intent_rank GhPublish = 14"
| "intent_rank UnknownGh = 15"

lemma intent_rank_inj: "intent_rank a = intent_rank b \<Longrightarrow> a = b"
  by (cases a; cases b) simp_all

instantiation intent :: linorder
begin

definition less_intent :: "intent \<Rightarrow> intent \<Rightarrow> bool" where
  "less_intent a b \<longleftrightarrow> intent_rank a < intent_rank b"

definition less_eq_intent :: "intent \<Rightarrow> intent \<Rightarrow> bool" where
  "less_eq_intent a b \<longleftrightarrow> intent_rank a \<le> intent_rank b"

instance
  by standard (auto simp: less_intent_def less_eq_intent_def intro: intent_rank_inj)

end

section \<open>Classifiers\<close>

definition WRAPPERS :: "string list" where
  "WRAPPERS = [''sh'', ''bash'', ''zsh'', ''fish'', ''env'', ''sudo'', ''doas'', ''xargs'', ''command'', ''exec'']"

definition SECRET_TOOLS :: "string list" where
  "SECRET_TOOLS = [''pass'', ''age'', ''sops'']"

definition first_arg :: "string list \<Rightarrow> string option" where
  "first_arg args = (case args of [] \<Rightarrow> None | a # _ \<Rightarrow> Some a)"

definition looks_like_bin_path :: "string \<Rightarrow> bool" where
  "looks_like_bin_path token \<longleftrightarrow>
     contains token ''bin/'' \<or> contains token ''lib/'' \<or> token = ''bin'' \<or> token = ''lib''"

fun has_symlink_flag :: "string list \<Rightarrow> bool" where
  "has_symlink_flag [] = False"
| "has_symlink_flag (a # rest) =
     (if a = ''-s'' \<or> a = ''-sf'' \<or> a = ''--symbolic'' then True
      else if starts_with a ''-'' \<and> \<not> starts_with a ''--'' \<and> contains a ''s'' then True
      else has_symlink_flag rest)"

text \<open>The loop of \<open>transfer_destination\<close> over the remaining arguments.\<close>

fun transfer_loop :: "string list \<Rightarrow> string list \<Rightarrow> string option \<Rightarrow> bool \<Rightarrow> string option" where
  "transfer_loop [] operands target_directory options_done =
     (case target_directory of
        Some t \<Rightarrow> Some t
      | None \<Rightarrow> (if operands = [] then None else Some (last operands)))"
| "transfer_loop (arg # rest) operands target_directory options_done =
     (if \<not> options_done \<and> arg = ''--'' then transfer_loop rest operands target_directory True
      else if \<not> options_done \<and> (arg = ''-t'' \<or> arg = ''--target-directory'') then
        transfer_loop (drop 1 rest) operands (first_arg rest) options_done
      else if \<not> options_done \<and> strip_prefix arg ''--target-directory='' \<noteq> None then
        (case strip_prefix arg ''--target-directory='' of
           Some target \<Rightarrow>
             transfer_loop rest operands (if target \<noteq> [] then Some target else target_directory) options_done
         | None \<Rightarrow> None)
      else if \<not> options_done \<and> starts_with arg ''-'' \<and> arg \<noteq> ''-'' then
        transfer_loop rest operands target_directory options_done
      else transfer_loop rest (operands @ [arg]) target_directory options_done)"

definition transfer_destination :: "string list \<Rightarrow> string option" where
  "transfer_destination args = transfer_loop args [] None False"

definition looks_like_dotfile :: "string \<Rightarrow> bool" where
  "looks_like_dotfile path \<longleftrightarrow> starts_with path ''.'' \<or> contains path ''/.''"

definition transfer_dest_looks_like_dotfile :: "string list \<Rightarrow> bool" where
  "transfer_dest_looks_like_dotfile args =
     (case transfer_destination args of Some d \<Rightarrow> looks_like_dotfile d | None \<Rightarrow> False)"

fun chezmoi_subcommand :: "string list \<Rightarrow> (unit, string option) result" where
  "chezmoi_subcommand [] = Inr None"
| "chezmoi_subcommand (arg # rest) =
     (if arg = ''--'' then Inr (first_arg rest)
      else if arg \<in> {''--source'', ''-S'', ''--destination'', ''-D'', ''--config'', ''--cache''} then
        (if rest = [] then Inl () else chezmoi_subcommand (drop 1 rest))
      else if starts_with arg ''--source='' \<or> starts_with arg ''--destination='' \<or>
              starts_with arg ''--config='' \<or> starts_with arg ''--cache='' then
        (if ends_with arg ''='' then Inl () else chezmoi_subcommand rest)
      else if starts_with arg ''-'' then chezmoi_subcommand rest
      else Inr (Some arg))"

definition chezmoi_is_apply_or_ambiguous :: "string list \<Rightarrow> bool" where
  "chezmoi_is_apply_or_ambiguous args =
     (case chezmoi_subcommand args of
        Inr (Some command) \<Rightarrow> command = ''apply''
      | Inr None \<Rightarrow> False
      | Inl _ \<Rightarrow> True)"

definition is_shell_mutation :: "string \<Rightarrow> string list \<Rightarrow> bool" where
  "is_shell_mutation base args =
     (if base = ''ln'' then has_symlink_flag args
      else if base = ''chezmoi'' then chezmoi_is_apply_or_ambiguous args
      else if base = ''cp'' \<or> base = ''mv'' then transfer_dest_looks_like_dotfile args
      else False)"

fun first_git_subcommand :: "string list \<Rightarrow> string option" where
  "first_git_subcommand [] = None"
| "first_git_subcommand (a # rest) =
     (if a = ''-C'' \<or> a = ''-c'' \<or> a = ''--git-dir'' \<or> a = ''--work-tree'' then
        first_git_subcommand (drop 1 rest)
      else if starts_with a ''--git-dir='' \<or> starts_with a ''--work-tree='' \<or>
              starts_with a ''-c'' \<and> contains a ''='' then first_git_subcommand rest
      else if starts_with a ''-'' then first_git_subcommand rest
      else Some a)"

definition has_flag :: "string list \<Rightarrow> string \<Rightarrow> bool" where
  "has_flag args flag \<longleftrightarrow> flag \<in> set args"

definition classify_git :: "string list \<Rightarrow> intent list" where
  "classify_git args =
     (case first_git_subcommand args of
        None \<Rightarrow> []
      | Some sub \<Rightarrow>
          if sub = ''push'' then [RemoteWriteIntent]
          else if sub = ''reset'' \<and> has_flag args ''--hard'' then [DestructiveGit]
          else if sub = ''clean'' then [DestructiveGit]
          else if sub = ''commit'' \<or> sub = ''pull'' then [LocalGitMutation]
          else if sub = ''checkout'' \<and> ''-b'' \<in> set args then [LocalGitMutation]
          else if sub = ''switch'' \<and> (''-c'' \<in> set args \<or> ''--create'' \<in> set args) then [LocalGitMutation]
          else if sub = ''branch'' \<and> ''--show-current'' \<in> set args then [GitInspection]
          else if sub = ''worktree'' \<and> ''list'' \<in> set args then [GitInspection]
          else if sub \<in> {''status'', ''diff'', ''log'', ''fetch''} then [GitInspection]
          else [])"

definition classify_gh :: "string list \<Rightarrow> intent list" where
  "classify_gh args =
     (if prefix [''release'', ''create''] args \<or> prefix [''pr'', ''merge''] args
      then [GhPublish, RemoteWriteIntent] else [UnknownGh])"

fun mode_value :: "string list \<Rightarrow> string option" where
  "mode_value [] = None"
| "mode_value (a # rest) =
     (if a = ''--mode'' then first_arg rest
      else (case strip_prefix a ''--mode='' of Some r \<Rightarrow> Some r | None \<Rightarrow> mode_value rest))"

definition classify_ontarch :: "string list \<Rightarrow> intent list" where
  "classify_ontarch args =
     (if first_arg args = Some ''bin-report'' then [BinReport]
      else if first_arg args = Some ''bin-cleanup'' then
        (let mode = mode_value args in
         if mode = Some ''report-only'' then [BinCleanupReportOnly]
         else if mode = Some ''dry-run'' then [BinCleanupDryRun]
         else if mode = Some ''archive'' then [BinCleanupArchive, BinMutation]
         else if mode = Some ''delete-approved'' then [BinCleanupDelete, BinMutation]
         else [BinMutation])
      else [])"

definition classify_child :: "string \<Rightarrow> string list \<Rightarrow> intent list" where
  "classify_child program args =
     (let base = basename program in
      sort_dedup
       ((if base \<in> set WRAPPERS then [ShellWrapper] else []) @
        (if base \<in> set SECRET_TOOLS then [SecretTool] else []) @
        (if (base = ''brew'' \<or> base = ''mise'') \<and> first_arg args = Some ''install'' then [Install] else []) @
        (if base = ''panoply'' \<and> first_arg args = Some ''bootstrap'' then [Install] else []) @
        (if base = ''git'' then classify_git args else []) @
        (if base = ''gh'' then classify_gh args else []) @
        (if base = ''ontarch'' then classify_ontarch args else []) @
        (if base = ''rm'' \<or> base = ''mv'' then [BinMutation] else []) @
        (if base = ''git'' \<and> ''clean'' \<in> set args then
           (if list_ex looks_like_bin_path args then [BinMutation] else []) else []) @
        (if is_shell_mutation base args then [ShellMutation] else [])))"

section \<open>Properties\<close>

lemma classify_child_wrapper: "basename program \<in> set WRAPPERS \<Longrightarrow> ShellWrapper \<in> set (classify_child program args)"
  by (simp add: classify_child_def Let_def)

lemma classify_child_secret: "basename program \<in> set SECRET_TOOLS \<Longrightarrow> SecretTool \<in> set (classify_child program args)"
  by (simp add: classify_child_def Let_def)

text \<open>The global options of git the classifier knows, with their values.\<close>

inductive git_global :: "string list \<Rightarrow> bool" where
  none: "git_global []"
| with_value: "o' \<in> {''-C'', ''-c'', ''--git-dir'', ''--work-tree''} \<Longrightarrow> git_global rest \<Longrightarrow>
     git_global (o' # v # rest)"
| attached: "starts_with o' ''-'' \<Longrightarrow> o' \<notin> {''-C'', ''-c'', ''--git-dir'', ''--work-tree''} \<Longrightarrow>
     git_global rest \<Longrightarrow> git_global (o' # rest)"

lemma first_git_subcommand_skips:
  "git_global opts \<Longrightarrow> \<not> starts_with sub ''-'' \<Longrightarrow> first_git_subcommand (opts @ sub # rest) = Some sub"
proof (induction rule: git_global.induct)
  case none
  have "sub \<notin> {''-C'', ''-c'', ''--git-dir'', ''--work-tree''}" using none by (auto simp: starts_with_def)
  moreover have "\<not> starts_with sub (CHR ''-'' # cs)" for cs
    using none by (auto simp: starts_with_def prefix_def)
  ultimately show ?case using none by simp
qed auto

text \<open>
  The classifier sees through git's known global options: whatever such options precede the
  subcommand, a push is a remote write, a clean and a hard reset are destructive, and the intents are
  reported once each in a fixed order.
\<close>

theorem classify_git_sees_subcommand:
  assumes "basename program = ''git''" and "git_global opts"
  shows "RemoteWriteIntent \<in> set (classify_child program (opts @ ''push'' # rest)) \<and>
    DestructiveGit \<in> set (classify_child program (opts @ ''clean'' # rest)) \<and>
    DestructiveGit \<in> set (classify_child program (opts @ ''reset'' # rest @ [''--hard''])) \<and>
    sorted (classify_child program args) \<and> distinct (classify_child program args)"
  using first_git_subcommand_skips [OF assms(2)] assms(1)
  by (simp add: classify_child_def Let_def classify_git_def has_flag_def starts_with_def)

theorem classify_git_sees_subcommand_witness:
  "RemoteWriteIntent \<in> set (classify_child ''/usr/bin/git'' [''-C'', ''repo'', ''--no-pager'', ''push'', ''origin''])"
proof -
  have "git_global [''-C'', ''repo'', ''--no-pager'']"
    by (intro git_global.intros) (simp_all add: starts_with_def)
  moreover have "basename ''/usr/bin/git'' = ''git''" by code_simp
  ultimately show ?thesis
    using classify_git_sees_subcommand [of "''/usr/bin/git''" "[''-C'', ''repo'', ''--no-pager'']" "[''origin'']"]
    by simp
qed

text \<open>
  The classifier does not treat an unknown global option conservatively. An option that takes a
  separate value and is not in its list hides the subcommand: a push behind such an option has no
  intent at all.
\<close>

theorem classify_git_unknown_option_hides_push:
  "classify_child ''git'' [''--namespace'', ''ns'', ''push'', ''origin''] = []"
  by code_simp

end
