(* ===== verification/Policy_Paths.thy ===== *)
theory Policy_Paths
  imports Policy_Raw
begin

text \<open>
  Path scopes (\<open>policy/paths.rs\<close>): the pattern compiler and matcher, the normalisation of a path fact
  against the policy root with symbolic links resolved, the scope decision, and the extraction of
  path operands from an argument vector. The file system is the argument \<open>fs\<close>.
\<close>

section \<open>Patterns\<close>

datatype seg = Lit string | Star (star_prefix: string) (star_suffix: string) | GlobStar

record compiled_path_pattern =
  cpp_raw :: string
  cpp_rule_id :: string
  cpp_segments :: "seg list"

definition path_pattern_error :: "string \<Rightarrow> string \<Rightarrow> raw_policy_error" where
  "path_pattern_error origin_id message =
     raw_error PolicyPathPatternInvalid message (Some origin_id) (Some ''paths'')"

definition compile_part :: "string \<Rightarrow> string \<Rightarrow> (raw_policy_error, seg) result" where
  "compile_part origin_id part =
     (if part = ''**'' then Inr GlobStar
      else if part = ''*'' then Inr (Star [] [])
      else if contains part ''*'' then
        (if length (filter (\<lambda>c. c = CHR ''*'') part) \<noteq> 1 \<or> contains part ''**''
         then Inl (path_pattern_error origin_id ''unsupported path glob'')
         else (case split_once (CHR ''*'') part of
                 Some (p, s) \<Rightarrow> Inr (Star p s)
               | None \<Rightarrow> Inl (path_pattern_error origin_id ''unsupported path glob'')))
      else Inr (Lit part))"

definition compile_path_pattern ::
  "string \<Rightarrow> string \<Rightarrow> string \<Rightarrow> (raw_policy_error, compiled_path_pattern) result" where
  "compile_path_pattern raw origin_id rid =
     (if raw = [] then Inl (path_pattern_error origin_id ''empty path pattern'')
      else if list_ex (\<lambda>c. c \<in> {CHR ''['', CHR '']'', CHR 0x7B, CHR 0x7D, CHR 0x5C}) raw then
        Inl (path_pattern_error origin_id ''unsupported path pattern syntax'')
      else
        (let trimmed = dropWhile (\<lambda>c. c = CHR ''/'') raw;
             normalized = (if ends_with trimmed ''/'' \<and> \<not> ends_with trimmed ''**/''
                           then trimmed @ ''**'' else trimmed)
         in if ''..'' \<in> set (split_on (CHR ''/'') normalized) then
              Inl (path_pattern_error origin_id ''path pattern must not contain parent traversal'')
            else
              rbind (traverse (compile_part origin_id)
                       (filter (\<lambda>part. part \<noteq> []) (split_on (CHR ''/'') normalized)))
                (\<lambda>segments. Inr \<lparr>cpp_raw = raw, cpp_rule_id = rid, cpp_segments = segments\<rparr>)))"

definition adjust_pattern_for_root :: "string \<Rightarrow> path \<Rightarrow> string" where
  "adjust_pattern_for_root pattern policy_root =
     (let root_name = (case file_name policy_root of Some s \<Rightarrow> s | None \<Rightarrow> []) in
      if root_name = ''Workstreams'' \<and> strip_prefix pattern ''Workstreams/'' \<noteq> None
      then the (strip_prefix pattern ''Workstreams/'')
      else if root_name = ''Workstreams'' \<and> pattern = ''Workstreams'' then []
      else pattern)"

fun match_segs :: "seg list \<Rightarrow> string list \<Rightarrow> bool" where
  "match_segs [] path = (path = [])"
| "match_segs (GlobStar # pat) path =
     (if pat = [] then True
      else list_ex (\<lambda>consume. match_segs pat (drop consume path)) [0..<Suc (length path)])"
| "match_segs (Star pre suf # pat) path =
     (case path of
        [] \<Rightarrow> False
      | s # rest \<Rightarrow>
          (if \<not> (starts_with s pre \<and> ends_with s suf \<and> length s \<ge> length pre + length suf) then False
           else match_segs pat rest))"
| "match_segs (Lit lit # pat) path =
     (case path of
        [] \<Rightarrow> False
      | s # rest \<Rightarrow> (if s \<noteq> lit then False else match_segs pat rest))"

definition path_matches :: "compiled_path_pattern \<Rightarrow> string \<Rightarrow> bool" where
  "path_matches pattern rel =
     match_segs (cpp_segments pattern) (filter (\<lambda>s. s \<noteq> []) (split_on (CHR ''/'') rel))"

section \<open>Path facts\<close>

datatype path_fact_result =
    AllowPath "string list"
  | BlockedPath "string list"
  | OutOfScope
  | Escape

text \<open>The loop of \<open>lexical_normalize\<close>, with the path built so far.\<close>

fun lexical_loop :: "path \<Rightarrow> path \<Rightarrow> path option" where
  "lexical_loop out [] = Some out"
| "lexical_loop out (RootDir # cs) = lexical_loop [RootDir] cs"
| "lexical_loop out (CurDir # cs) = lexical_loop out cs"
| "lexical_loop out (ParentDir # cs) =
     (case path_pop out of None \<Rightarrow> None | Some out' \<Rightarrow> lexical_loop out' cs)"
| "lexical_loop out (Normal c # cs) = lexical_loop (out @ [Normal c]) cs"

definition lexical_normalize :: "path \<Rightarrow> path option" where
  "lexical_normalize p = lexical_loop [] p"

datatype path_existence = Present | Absent | Ambiguous

definition classify_existence :: "fsys \<Rightarrow> path \<Rightarrow> path_existence" where
  "classify_existence fs p =
     (case symlink_metadata fs p of
        Inr Symlink \<Rightarrow> (case metadata fs p of Inr _ \<Rightarrow> Present | Inl _ \<Rightarrow> Ambiguous)
      | Inr _ \<Rightarrow> Present
      | Inl NotFound \<Rightarrow> Absent
      | Inl _ \<Rightarrow> Ambiguous)"

function longest_existing ::
  "fsys \<Rightarrow> path \<Rightarrow> string list \<Rightarrow> (path_fact_result, path \<times> string list) result" where
  "longest_existing fs cur parts =
     (case classify_existence fs cur of
        Present \<Rightarrow> Inr (cur, parts)
      | Ambiguous \<Rightarrow> Inl Escape
      | Absent \<Rightarrow>
          (case file_name cur of
             None \<Rightarrow> Inl Escape
           | Some name \<Rightarrow>
               (case path_pop cur of
                  None \<Rightarrow> Inl Escape
                | Some cur' \<Rightarrow> longest_existing fs cur' (parts @ [name]))))"
  by pat_completeness auto
termination
  by (relation "measure (\<lambda>(fs, cur, parts). length cur)") (auto simp: path_pop_Some_iff)

declare longest_existing.simps [simp del]

definition within :: "path \<Rightarrow> path \<Rightarrow> bool" where
  "within root p \<longleftrightarrow> path_starts_with p root \<or> p = root"

definition canonicalize_longest :: "fsys \<Rightarrow> path \<Rightarrow> path \<Rightarrow> (path_fact_result, path) result" where
  "canonicalize_longest fs p root_canon =
     rbind (longest_existing fs p []) (\<lambda>(cur, parts).
     rbind (map_err (\<lambda>_. Escape) (canonicalize fs cur)) (\<lambda>canon.
       if \<not> within root_canon canon then Inl Escape
       else (case lexical_normalize (fold (\<lambda>part c. path_join c [Normal part]) (rev parts) canon) of
               None \<Rightarrow> Inl Escape
             | Some final_path \<Rightarrow> if \<not> within root_canon final_path then Inl Escape else Inr final_path)))"

text \<open>\<open>Path::to_str\<close> fails on a name that is not UTF-8.\<close>

fun valid_utf8 :: "string \<Rightarrow> bool" where
  "valid_utf8 [] = True"
| "valid_utf8 (c # cs) =
     (let cont = (\<lambda>lo hi d. lo \<le> byte d \<and> byte d \<le> hi) in
      if byte c < 0x80 then valid_utf8 cs
      else if 0xC2 \<le> byte c \<and> byte c \<le> 0xDF then
        (case cs of d # r \<Rightarrow> cont 0x80 0xBF d \<and> valid_utf8 r | _ \<Rightarrow> False)
      else if 0xE0 \<le> byte c \<and> byte c \<le> 0xEF then
        (case cs of
           d # e # r \<Rightarrow>
             cont (if byte c = 0xE0 then 0xA0 else 0x80) (if byte c = 0xED then 0x9F else 0xBF) d \<and>
             cont 0x80 0xBF e \<and> valid_utf8 r
         | _ \<Rightarrow> False)
      else if 0xF0 \<le> byte c \<and> byte c \<le> 0xF4 then
        (case cs of
           d # e # f # r \<Rightarrow>
             cont (if byte c = 0xF0 then 0x90 else 0x80) (if byte c = 0xF4 then 0x8F else 0xBF) d \<and>
             cont 0x80 0xBF e \<and> cont 0x80 0xBF f \<and> valid_utf8 r
         | _ \<Rightarrow> False)
      else False)"

definition replace_backslash :: "string \<Rightarrow> string" where
  "replace_backslash s = map (\<lambda>c. if c = CHR 0x5C then CHR ''/'' else c) s"

definition root_canon_of :: "fsys \<Rightarrow> path \<Rightarrow> path option" where
  "root_canon_of fs policy_root =
     (case canonicalize fs policy_root of Inr c \<Rightarrow> Some c | Inl _ \<Rightarrow> lexical_normalize policy_root)"

definition normalize_path_fact ::
  "fsys \<Rightarrow> path \<Rightarrow> path \<Rightarrow> path \<Rightarrow> (path_fact_result, string) result" where
  "normalize_path_fact fs p cwd policy_root =
     (let absolute = (if is_absolute p then p else path_join cwd p) in
      case lexical_normalize absolute of
        None \<Rightarrow> Inl Escape
      | Some lexical \<Rightarrow>
          (case root_canon_of fs policy_root of
             None \<Rightarrow> Inl Escape
           | Some root_canon \<Rightarrow>
               rbind (canonicalize_longest fs lexical root_canon) (\<lambda>canonical.
                 if \<not> within root_canon canonical then Inl Escape
                 else (case path_strip_prefix canonical root_canon of
                         None \<Rightarrow> Inl Escape
                       | Some rel \<Rightarrow>
                           if valid_utf8 (to_str rel) then Inr (replace_backslash (to_str rel))
                           else Inl Escape))))"

definition matching_rules :: "string \<Rightarrow> compiled_path_pattern list \<Rightarrow> string list" where
  "matching_rules rel patterns = map cpp_rule_id (filter (\<lambda>b. path_matches b rel) patterns)"

definition evaluate_path_against_scopes ::
  "string \<Rightarrow> compiled_path_pattern list \<Rightarrow> compiled_path_pattern list \<Rightarrow> path_fact_result" where
  "evaluate_path_against_scopes rel allowed blocked =
     (let matched_deny = matching_rules rel blocked in
      if matched_deny \<noteq> [] then BlockedPath (sort_dedup matched_deny)
      else
        (let matched_allow = matching_rules rel allowed in
         if matched_allow \<noteq> [] then AllowPath (sort_dedup matched_allow) else OutOfScope))"

section \<open>Operands\<close>

definition is_path_like :: "string \<Rightarrow> bool" where
  "is_path_like token \<longleftrightarrow>
     starts_with token ''/'' \<or> starts_with token ''./'' \<or> starts_with token ''../'' \<or> contains token ''/''"

definition is_moon_task_id :: "string \<Rightarrow> bool" where
  "is_moon_task_id token =
     (if contains token ''/'' \<or> contains token ''..'' then False
      else (case split_once (CHR '':'') token of
              None \<Rightarrow> False
            | Some (left, right) \<Rightarrow>
                if left = [] \<or> right = [] then False
                else list_all (\<lambda>c. is_ascii_alphanumeric c \<or> c = CHR ''_'' \<or> c = CHR ''-'') left \<and>
                  list_all (\<lambda>c. is_ascii_alphanumeric c \<or> c \<in> {CHR ''_'', CHR ''.'', CHR '':'', CHR ''-''}) right))"

definition ambiguous_attached_path_option :: "string \<Rightarrow> bool" where
  "ambiguous_attached_path_option arg =
     (case split_once (CHR ''='') arg of
        None \<Rightarrow> False
      | Some (name, value) \<Rightarrow>
          starts_with name ''--'' \<and> name \<noteq> ''--target-directory'' \<and> value \<noteq> [] \<and> is_path_like value)"

type_synonym operands = "(unit, path list) result"

text \<open>Puts an operand in front of those of the remaining arguments.\<close>

definition operand :: "string \<Rightarrow> operands \<Rightarrow> operands" where
  "operand s rest = rbind rest (\<lambda>ps. Inr (components s # ps))"

fun rm_operands :: "string list \<Rightarrow> bool \<Rightarrow> operands" where
  "rm_operands [] options_done = Inr []"
| "rm_operands (arg # rest) options_done =
     (if \<not> options_done \<and> arg = ''--'' then rm_operands rest True
      else if \<not> options_done \<and> starts_with arg ''-'' \<and> arg \<noteq> ''-'' then
        (if ambiguous_attached_path_option arg then Inl () else rm_operands rest options_done)
      else operand arg (rm_operands rest options_done))"

definition extract_rm_operands :: "string list \<Rightarrow> operands" where
  "extract_rm_operands args = rm_operands args False"

fun transfer_operands :: "string list \<Rightarrow> bool \<Rightarrow> operands" where
  "transfer_operands [] options_done = Inr []"
| "transfer_operands (arg # rest) options_done =
     (if \<not> options_done \<and> arg = ''--'' then transfer_operands rest True
      else if \<not> options_done \<and> (arg = ''-t'' \<or> arg = ''--target-directory'') then
        (case rest of
           [] \<Rightarrow> Inl ()
         | target # rest' \<Rightarrow>
             if target = [] then Inl () else operand target (transfer_operands rest' options_done))
      else if \<not> options_done \<and> strip_prefix arg ''--target-directory='' \<noteq> None then
        (let target = the (strip_prefix arg ''--target-directory='') in
         if target = [] then Inl () else operand target (transfer_operands rest options_done))
      else if \<not> options_done \<and> starts_with arg ''-'' \<and> arg \<noteq> ''-'' then
        (if ambiguous_attached_path_option arg then Inl () else transfer_operands rest options_done)
      else operand arg (transfer_operands rest options_done))"

definition extract_transfer_operands :: "string list \<Rightarrow> operands" where
  "extract_transfer_operands args = transfer_operands args False"

fun general_operands :: "string \<Rightarrow> string list \<Rightarrow> operands" where
  "general_operands base [] = Inr []"
| "general_operands base (a # rest) =
     (if base = ''git'' \<and> (a = ''-C'' \<or> a = ''--git-dir'' \<or> a = ''--work-tree'') then
        (case rest of [] \<Rightarrow> Inl () | p # rest' \<Rightarrow> operand p (general_operands base rest'))
      else if base = ''git'' \<and> strip_prefix a ''--git-dir='' \<noteq> None then
        operand (the (strip_prefix a ''--git-dir='')) (general_operands base rest)
      else if base = ''git'' \<and> strip_prefix a ''--work-tree='' \<noteq> None then
        operand (the (strip_prefix a ''--work-tree='')) (general_operands base rest)
      else if base = ''ontarch'' \<and> strip_prefix a ''--scope='' \<noteq> None then
        operand (the (strip_prefix a ''--scope='')) (general_operands base rest)
      else if base = ''ontarch'' \<and> a = ''--scope'' then
        (case rest of [] \<Rightarrow> Inl () | p # rest' \<Rightarrow> operand p (general_operands base rest'))
      else if is_path_like a \<and> \<not> is_moon_task_id a then operand a (general_operands base rest)
      else general_operands base rest)"

definition extract_path_operands :: "string \<Rightarrow> string list \<Rightarrow> operands" where
  "extract_path_operands program args =
     (let base = basename program in
      if base = ''rm'' then extract_rm_operands args
      else if base = ''mv'' \<or> base = ''cp'' then extract_transfer_operands args
      else general_operands base args)"

section \<open>The glob language\<close>

text \<open>What a compiled pattern means, independently of the matcher's search.\<close>

inductive glob :: "seg list \<Rightarrow> string list \<Rightarrow> bool" where
  glob_nil: "glob [] []"
| glob_lit: "glob pat path \<Longrightarrow> glob (Lit l # pat) (l # path)"
| glob_star: "glob pat path \<Longrightarrow> glob (Star pre suf # pat) ((pre @ mid @ suf) # path)"
| glob_globstar: "glob pat path \<Longrightarrow> glob (GlobStar # pat) (skipped @ path)"

inductive_simps glob_simps: "glob [] path" "glob (Lit l # pat) path" "glob (Star pre suf # pat) path"
  "glob (GlobStar # pat) path"

lemma star_segment_iff:
  "starts_with s pre \<and> ends_with s suf \<and> length s \<ge> length pre + length suf \<longleftrightarrow> (\<exists>mid. s = pre @ mid @ suf)"
proof
  assume a: "starts_with s pre \<and> ends_with s suf \<and> length s \<ge> length pre + length suf"
  then obtain r where r: "s = pre @ r" by (auto simp: starts_with_def prefix_def)
  with a have "suffix suf r"
    by (auto simp: ends_with_def suffix_append intro: suffix_length_suffix)
  with r show "\<exists>mid. s = pre @ mid @ suf" by (auto simp: suffix_def)
qed (auto simp: starts_with_def ends_with_def suffix_def)

lemma match_segs_glob: "match_segs pat path \<longleftrightarrow> glob pat path"
proof (induction pat path rule: match_segs.induct)
  case (2 pat path)
  have "(\<exists>k \<le> length path. glob pat (drop k path)) \<longleftrightarrow> (\<exists>skipped rest. path = skipped @ rest \<and> glob pat rest)"
    by (metis append_eq_conv_conj append_take_drop_id le_add1 length_append)
  moreover have "\<exists>skipped rest. path = skipped @ rest \<and> glob [] rest" by (intro exI [of _ path] exI [of _ "[]"]) (simp add: glob_simps)
  ultimately show ?case
    using 2 by (auto simp: glob_simps list_ex_iff less_Suc_eq_le simp del: upt_Suc)
next
  case (3 pre suf pat path)
  then show ?case
    by (cases path) (auto simp: glob_simps star_segment_iff simp del: not_le)
next
  case (4 lit pat path)
  then show ?case by (cases path) (auto simp: glob_simps)
qed (simp add: glob_simps)

section \<open>Containment\<close>

text \<open>Paths without \<open>.\<close> and \<open>..\<close>, and what \<open>fs::canonicalize\<close> documents of its result.\<close>

definition plain :: "path \<Rightarrow> bool" where
  "plain p \<longleftrightarrow> (\<exists>names. p = map Normal names \<or> p = RootDir # map Normal names)"

definition canonical_ok :: "fsys \<Rightarrow> bool" where
  "canonical_ok fs \<longleftrightarrow> (\<forall>p c. canonicalize fs p = Inr c \<longrightarrow> (\<exists>names. c = RootDir # map Normal names))"

lemma plain_simps [simp]: "plain []" "plain [RootDir]"
  by (auto simp: plain_def)

lemma plain_snoc: "plain p \<Longrightarrow> plain (p @ [Normal c])"
proof -
  have "map Normal ns @ [Normal c] = map Normal (ns @ [c])" for ns by simp
  then show "plain p \<Longrightarrow> plain (p @ [Normal c])" unfolding plain_def by (metis append_Cons)
qed

lemma plain_butlast: "plain (p @ [c]) \<Longrightarrow> plain p"
proof -
  have b: "q @ [c] = map Normal ns \<Longrightarrow> \<exists>ms. q = map Normal ms" for ns q
    by (metis butlast_snoc map_butlast)
  assume "plain (p @ [c])"
  then obtain ns where "p @ [c] = map Normal ns \<or> p @ [c] = RootDir # map Normal ns"
    unfolding plain_def by blast
  then show "plain p"
  proof
    assume "p @ [c] = map Normal ns"
    then show ?thesis using b plain_def by blast
  next
    assume "p @ [c] = RootDir # map Normal ns"
    then show ?thesis using b by (cases p) (auto simp: plain_def)
  qed
qed

lemma lexical_loop_plain: "lexical_loop out p = Some q \<Longrightarrow> plain out \<Longrightarrow> plain q"
  by (induction out p rule: lexical_loop.induct)
    (auto simp: plain_snoc path_pop_Some_iff split: option.splits dest: plain_butlast)

lemma lexical_loop_normals: "lexical_loop out (map Normal names) = Some (out @ map Normal names)"
  by (induction names arbitrary: out) simp_all

lemma lexical_normalize_canonical:
  "lexical_normalize (RootDir # map Normal names) = Some (RootDir # map Normal names)"
  by (simp add: lexical_normalize_def lexical_loop_normals)

lemma longest_existing_split:
  "longest_existing fs p parts = Inr (cur, parts') \<Longrightarrow>
   \<exists>below. parts' = parts @ rev below \<and> p = cur @ map Normal below \<and> classify_existence fs cur = Present"
proof (induction fs p parts rule: longest_existing.induct)
  case (1 fs p parts)
  show ?case
  proof (cases "classify_existence fs p")
    case Absent
    then obtain name q where q: "file_name p = Some name" "path_pop p = Some q"
      "longest_existing fs q (parts @ [name]) = Inr (cur, parts')"
      using "1.prems" by (subst (asm) longest_existing.simps) (auto split: option.splits)
    from "1.IH" [OF Absent q] obtain below where
      b: "parts' = (parts @ [name]) @ rev below" "q = cur @ map Normal below" "classify_existence fs cur = Present"
      by blast
    moreover have "p = q @ [Normal name]"
      using q(1,2) by (auto simp: file_name_Some_iff path_pop_Some_iff)
    ultimately show ?thesis by (intro exI [of _ "below @ [name]"]) simp
  qed (use "1.prems" in \<open>auto simp: longest_existing.simps [of fs p]\<close>)
qed

lemma push_parts: "canon \<noteq> [] \<Longrightarrow> fold (\<lambda>part c. path_join c [Normal part]) parts canon = canon @ map Normal parts"
  by (induction parts arbitrary: canon) (simp_all add: path_join_def is_absolute_def)

lemma canonicalize_longest_inside:
  assumes "canonical_ok fs" and "canonicalize_longest fs p root = Inr final"
  shows "\<exists>anc below canon. p = anc @ map Normal below \<and> classify_existence fs anc = Present \<and>
    canonicalize fs anc = Inr canon \<and> prefix root canon \<and> final = canon @ map Normal below"
proof -
  obtain cur parts canon where c: "longest_existing fs p [] = Inr (cur, parts)" "canonicalize fs cur = Inr canon"
    "within root canon"
    "lexical_normalize (fold (\<lambda>part c. path_join c [Normal part]) (rev parts) canon) = Some final"
    using assms(2) by (auto simp: canonicalize_longest_def result_simps split: if_splits option.splits)
  obtain names where n: "canon = RootDir # map Normal names"
    using c(2) assms(1) by (auto simp: canonical_ok_def)
  obtain below where b: "parts = rev below" "p = cur @ map Normal below" "classify_existence fs cur = Present"
    using longest_existing_split [OF c(1)] by auto
  have "final = canon @ map Normal below"
    using c(4) lexical_normalize_canonical [of "names @ below"] by (simp add: push_parts n b(1))
  moreover have "prefix root canon" using c(3) by (auto simp: within_def path_starts_with_def)
  ultimately show ?thesis using b c(2) by blast
qed

section \<open>Operand coverage\<close>

lemma operand_Inr: "operand s r = Inr ops \<longleftrightarrow> (\<exists>ps. r = Inr ps \<and> ops = components s # ps)"
  by (auto simp: operand_def result_simps)

lemma dash_prefixed: "starts_with (CHR ''-'' # cs) ''-''"
  by (simp add: starts_with_def)

lemma strip_dash: "strip_prefix a (CHR ''-'' # cs) = Some r \<Longrightarrow> starts_with a ''-''"
  by (auto simp: strip_prefix_Some_iff starts_with_def)

lemma rm_covers:
  "rm_operands args od = Inr ops \<Longrightarrow> a \<in> set args \<Longrightarrow> \<not> starts_with a ''-'' \<Longrightarrow> components a \<in> set ops"
  by (induction args od arbitrary: ops rule: rm_operands.induct)
    (auto simp: operand_Inr dash_prefixed split: if_splits)

lemma transfer_covers:
  "transfer_operands args od = Inr ops \<Longrightarrow> a \<in> set args \<Longrightarrow> \<not> starts_with a ''-'' \<Longrightarrow> components a \<in> set ops"
  by (induction args od arbitrary: ops rule: transfer_operands.induct)
    (auto simp: operand_Inr dash_prefixed Let_def dest: strip_dash split: if_splits list.splits)

lemma slash_is_operand: "contains a ''/'' \<Longrightarrow> is_path_like a \<and> \<not> is_moon_task_id a"
  by (simp add: is_path_like_def is_moon_task_id_def)

lemma if_eqE:
  "(if b then x else y) = r \<Longrightarrow> (b \<Longrightarrow> x = r \<Longrightarrow> P) \<Longrightarrow> (\<not> b \<Longrightarrow> y = r \<Longrightarrow> P) \<Longrightarrow> P"
  by (cases b) auto

text \<open>One step of the general extraction: an operand, taken from an option or not, or nothing.\<close>

lemma general_step:
  assumes "general_operands base (x # rest) = Inr ops"
  shows "(\<exists>s ps rest'. ops = components s # ps \<and> general_operands base rest' = Inr ps \<and>
      (rest' = rest \<and> (s = x \<or> starts_with x ''-'') \<or> rest = s # rest' \<and> starts_with x ''-'')) \<or>
    general_operands base rest = Inr ops \<and> \<not> contains x ''/''"
proof -
  have taken: ?thesis if "operand p (general_operands base q) = Inr ops"
    "q = rest \<and> (p = x \<or> starts_with x ''-'') \<or> rest = p # q \<and> starts_with x ''-''" for p q
    using that by (auto simp: operand_Inr)
  have separate: ?thesis
    if "(case rest of [] \<Rightarrow> Inl () | p # q \<Rightarrow> operand p (general_operands base q)) = Inr ops" "starts_with x ''-''"
    using that taken by (cases rest) auto
  have attached: "strip_prefix x (CHR ''-'' # cs) \<noteq> None \<Longrightarrow> starts_with x ''-''" for cs
    using strip_dash by blast
  have dash: "x = CHR ''-'' # cs \<Longrightarrow> starts_with x ''-''" for cs by (simp add: dash_prefixed)
  show ?thesis
    using assms unfolding general_operands.simps(2)
  proof (elim if_eqE, goal_cases)
    case 1
    then show ?case using separate dash by metis
  next
    case 2
    then show ?case using taken attached by metis
  next
    case 3
    then show ?case using taken attached by metis
  next
    case 4
    then show ?case using taken attached by metis
  next
    case 5
    then show ?case using separate dash by metis
  next
    case 6
    then show ?case using taken by metis
  next
    case 7
    then show ?case using slash_is_operand [of x] by metis
  qed
qed

lemma general_covers:
  "general_operands base args = Inr ops \<Longrightarrow> a \<in> set args \<Longrightarrow> \<not> starts_with a ''-'' \<Longrightarrow> contains a ''/'' \<Longrightarrow>
   components a \<in> set ops"
proof (induction "length args" arbitrary: args ops rule: less_induct)
  case less
  then obtain x rest where args: "args = x # rest" by (cases args) auto
  from general_step [OF less.prems(1) [unfolded args]] show ?case
  proof
    assume "\<exists>s ps rest'. ops = components s # ps \<and> general_operands base rest' = Inr ps \<and>
      (rest' = rest \<and> (s = x \<or> starts_with x ''-'') \<or> rest = s # rest' \<and> starts_with x ''-'')"
    then obtain s ps rest' where g: "ops = components s # ps" "general_operands base rest' = Inr ps"
      "rest' = rest \<and> (s = x \<or> starts_with x ''-'') \<or> rest = s # rest' \<and> starts_with x ''-''" by blast
    then have "length rest' < length args" "a = s \<or> a \<in> set rest'"
      using args less.prems(2,3) by auto
    then show ?thesis using less.hyps [OF _ g(2)] less.prems g(1) by auto
  next
    assume "general_operands base rest = Inr ops \<and> \<not> contains x ''/''"
    then show ?thesis using less.hyps [of rest ops] less.prems args by auto
  qed
qed

section \<open>Properties\<close>

text \<open>
  C30: the pattern matcher decides the glob language: a pattern matches a path exactly when the path
  can be cut into the pattern's literals, single-segment globs and arbitrary runs of segments.
\<close>

theorem path_matches_glob:
  "path_matches pattern rel \<longleftrightarrow>
     glob (cpp_segments pattern) (filter (\<lambda>s. s \<noteq> []) (split_on (CHR ''/'') rel))"
  by (simp add: path_matches_def match_segs_glob)

text \<open>
  C31: containment. A path fact that is accepted lies inside the policy root after every symbolic link
  is resolved: its longest existing ancestor, reached without \<open>.\<close> or \<open>..\<close>, resolves to a place at or
  below the canonical root, the rest of the path is made of ordinary names, and the reported relative
  path is the path from the root to there.
\<close>

theorem path_fact_contained:
  assumes "canonical_ok fs" and "normalize_path_fact fs p cwd policy_root = Inr rel"
  shows "\<exists>root anc below canon inside. root_canon_of fs policy_root = Some root \<and>
    lexical_normalize (if is_absolute p then p else path_join cwd p) = Some (anc @ map Normal below) \<and>
    plain (anc @ map Normal below) \<and>
    classify_existence fs anc = Present \<and> canonicalize fs anc = Inr canon \<and> canon = root @ inside \<and>
    rel = replace_backslash (to_str (inside @ map Normal below))"
proof -
  obtain lexical root canonical tail where n:
    "lexical_normalize (if is_absolute p then p else path_join cwd p) = Some lexical"
    "root_canon_of fs policy_root = Some root" "canonicalize_longest fs lexical root = Inr canonical"
    "path_strip_prefix canonical root = Some tail" "rel = replace_backslash (to_str tail)"
    using assms(2)
    by (auto simp: normalize_path_fact_def Let_def result_simps split: option.splits if_splits)
  obtain anc below canon where c: "lexical = anc @ map Normal below" "classify_existence fs anc = Present"
    "canonicalize fs anc = Inr canon" "prefix root canon" "canonical = canon @ map Normal below"
    using canonicalize_longest_inside [OF assms(1) n(3)] by blast
  obtain inside where i: "canon = root @ inside" using c(4) by (auto simp: prefix_def)
  then have "tail = inside @ map Normal below"
    using n(4) c(5) by (auto simp: path_strip_prefix_Some_iff)
  moreover have "plain lexical"
    using lexical_loop_plain n(1) by (simp add: lexical_normalize_def)
  ultimately show ?thesis using n c i by blast
qed

definition tree_fs :: "path list \<Rightarrow> fsys" where
  "tree_fs dirs =
     \<lparr>symlink_metadata = (\<lambda>p. if p \<in> set dirs then Inr Directory else Inl NotFound),
      metadata = (\<lambda>p. if p \<in> set dirs then Inr Directory else Inl NotFound),
      canonicalize = (\<lambda>p. if p \<in> set dirs then Inr p else Inl NotFound)\<rparr>"

definition sample_fs :: fsys where
  "sample_fs = tree_fs [[RootDir], [RootDir, Normal ''ws'']]"

lemma canonical_sample: "canonical_ok sample_fs"
proof -
  have "[RootDir] = RootDir # map Normal []" "[RootDir, Normal ''ws''] = RootDir # map Normal [''ws'']" by simp_all
  then show ?thesis unfolding canonical_ok_def sample_fs_def tree_fs_def
    by (auto split: if_splits simp del: list.map)
qed

theorem path_fact_contained_witness:
  "normalize_path_fact sample_fs [ParentDir, Normal ''ws'', Normal ''a''] [RootDir, Normal ''ws''] [RootDir, Normal ''ws'']
     = Inr ''a'' \<and>
   (\<exists>root anc below canon inside. root_canon_of sample_fs [RootDir, Normal ''ws''] = Some root \<and>
     canonicalize sample_fs anc = Inr canon \<and> canon = root @ inside \<and>
     ''a'' = replace_backslash (to_str (inside @ map Normal below)))"
proof -
  have "normalize_path_fact sample_fs [ParentDir, Normal ''ws'', Normal ''a''] [RootDir, Normal ''ws'']
      [RootDir, Normal ''ws''] = Inr ''a''" by code_simp
  then show ?thesis using path_fact_contained [OF canonical_sample] by blast
qed

text \<open>
  Scope decisions. A fact is blocked exactly when some blocked pattern matches it, it is allowed
  exactly when none does and some allowed pattern matches, and the reported rules are exactly those of
  the matching patterns, sorted and without repetition.
\<close>

theorem scope_decision:
  "(evaluate_path_against_scopes rel allowed blocked =
      (if \<exists>b \<in> set blocked. path_matches b rel
       then BlockedPath (sorted_list_of_set (cpp_rule_id ` {b \<in> set blocked. path_matches b rel})) else
       if \<exists>a \<in> set allowed. path_matches a rel
       then AllowPath (sorted_list_of_set (cpp_rule_id ` {a \<in> set allowed. path_matches a rel})) else
       OutOfScope))"
  by (simp add: evaluate_path_against_scopes_def Let_def matching_rules_def sort_dedup_eq_sorted_list_of_set
      filter_empty_conv)

text \<open>
  No operand is overlooked. When the extraction succeeds, every argument that is not an option and
  contains a slash is among the extracted paths, and for \<open>rm\<close>, \<open>mv\<close> and \<open>cp\<close> every argument that is not
  an option.
\<close>

theorem extract_path_operands_covers:
  assumes "extract_path_operands program args = Inr ops" and "a \<in> set args" and "\<not> starts_with a ''-''"
    and "contains a ''/'' \<or> basename program \<in> {''rm'', ''mv'', ''cp''}"
  shows "components a \<in> set ops"
  using assms rm_covers [of args False ops a] transfer_covers [of args False ops a]
    general_covers [of "basename program" args ops a]
  by (auto simp: extract_path_operands_def extract_rm_operands_def extract_transfer_operands_def Let_def
      split: if_splits)

theorem extract_path_operands_covers_witness:
  "components ''b'' \<in> set [components ''out'', components ''a/x'', components ''b'']"
proof -
  have e: "extract_path_operands ''/bin/cp'' [''-t'', ''out'', ''-v'', ''a/x'', ''b'']
      = Inr [components ''out'', components ''a/x'', components ''b'']" by code_simp
  have b: "basename ''/bin/cp'' \<in> {''rm'', ''mv'', ''cp''}" by code_simp
  show ?thesis
    by (rule extract_path_operands_covers [OF e]) (use b in \<open>simp_all add: starts_with_def\<close>)
qed

text \<open>
  A path attached to an option is not checked for other programs: the option string itself is taken
  as a relative path, which stays inside the working directory whatever the attached path names.
\<close>

theorem attached_path_not_checked:
  "extract_path_operands ''tar'' [''--directory=/etc''] = Inr [[Normal ''--directory='', Normal ''etc'']] \<and>
   normalize_path_fact sample_fs [Normal ''--directory='', Normal ''etc''] [RootDir, Normal ''ws'']
     [RootDir, Normal ''ws''] = Inr ''--directory=/etc''"
  by code_simp

end
