(* ===== verification/Policy_Normalize.thy ===== *)
theory Policy_Normalize
  imports Policy_Command Policy_Paths Policy_Classify
begin

text \<open>
  Normalisation (\<open>policy/normalize.rs\<close>): policies and profile become one list of canonical rules,
  sorted by rule identifier without repetition, and the compiled path patterns that carry the
  identifiers of their rules. \<open>parse\<close> and \<open>sha256_hex\<close> are the library parameters of the theories below.
\<close>

section \<open>Rules\<close>

datatype effect = EAllow | EGate | EDeny

fun effect_str :: "effect \<Rightarrow> string" where
  "effect_str EAllow = ''allow''"
| "effect_str EGate = ''gate''"
| "effect_str EDeny = ''deny''"

datatype origin_kind = OController | OPolicy | OProfile

fun origin_str :: "origin_kind \<Rightarrow> string" where
  "origin_str OController = ''controller''"
| "origin_str OPolicy = ''policy''"
| "origin_str OProfile = ''profile''"

datatype matcher_kind = MCommand | MPath | MCapability | MRemoteWrite | MSemanticAction

fun matcher_str :: "matcher_kind \<Rightarrow> string" where
  "matcher_str MCommand = ''command''"
| "matcher_str MPath = ''path''"
| "matcher_str MCapability = ''capability''"
| "matcher_str MRemoteWrite = ''remote_write''"
| "matcher_str MSemanticAction = ''semantic_action''"

datatype matcher_payload =
    PCommand "string list"
  | PPath string
  | PCapability string
  | PRemoteWrite remote_write_policy
  | PSemanticAction string

record canonical_rule =
  cr_rule_id :: string
  cr_origin_kind :: origin_kind
  cr_origin_id :: string
  cr_effect :: effect
  cr_matcher :: matcher_kind
  cr_payload :: matcher_payload
  cr_required_approval :: "string option"
  cr_safe_reason :: string

record normalized_policy_set =
  ns_rules :: "canonical_rule list"
  ns_profile :: profile_enforcement
  ns_allowed_path_patterns :: "compiled_path_pattern list"
  ns_blocked_path_patterns :: "compiled_path_pattern list"

text \<open>The libraries the policy code calls.\<close>

record policy_env =
  env_parse :: policy_parser
  env_sha256_hex :: "string \<Rightarrow> string"
  env_fs :: fsys

definition make_rule ::
  "policy_env \<Rightarrow> origin_kind \<Rightarrow> string \<Rightarrow> effect \<Rightarrow> matcher_kind \<Rightarrow> matcher_payload \<Rightarrow> string option \<Rightarrow>
   string \<Rightarrow> string \<Rightarrow> canonical_rule" where
  "make_rule env origin origin_id effect matcher payload approval why digest_src =
     (let dig = matcher_digest (env_sha256_hex env) digest_src in
      \<lparr>cr_rule_id = origin_str origin @ '':'' @ origin_id @ '':'' @ effect_str effect @ '':'' @
         matcher_str matcher @ '':'' @ dig,
       cr_origin_kind = origin, cr_origin_id = origin_id, cr_effect = effect, cr_matcher = matcher,
       cr_payload = payload, cr_required_approval = approval, cr_safe_reason = why\<rparr>)"

definition command_key :: "string list \<Rightarrow> string" where
  "command_key pattern = join [CHR 0x1F] pattern"

definition command_rule ::
  "policy_env \<Rightarrow> origin_kind \<Rightarrow> string \<Rightarrow> effect \<Rightarrow> string list \<Rightarrow> string option \<Rightarrow> string \<Rightarrow> canonical_rule" where
  "command_rule env origin origin_id effect pattern approval why =
     make_rule env origin origin_id effect MCommand (PCommand pattern) approval why (command_key pattern)"

text \<open>A loop that parses each command string and pushes its rule.\<close>

definition command_rules ::
  "policy_env \<Rightarrow> origin_kind \<Rightarrow> string \<Rightarrow> effect \<Rightarrow> string option \<Rightarrow> string \<Rightarrow> string list \<Rightarrow>
   (raw_policy_error, canonical_rule list) result" where
  "command_rules env origin origin_id effect approval why cmds =
     traverse (\<lambda>cmd. rbind (parse_command_pattern cmd origin_id) (\<lambda>pattern.
       Inr (command_rule env origin origin_id effect pattern approval why))) cmds"

definition emit_rule_table ::
  "policy_env \<Rightarrow> origin_kind \<Rightarrow> string \<Rightarrow> effect \<Rightarrow> rule_table option \<Rightarrow> string option \<Rightarrow>
   (raw_policy_error, canonical_rule list) result" where
  "emit_rule_table env origin origin_id effect table approval =
     (case table of
        None \<Rightarrow> Inr []
      | Some t \<Rightarrow>
          (let why = (case effect of EAllow \<Rightarrow> ''command_blocked'' | EGate \<Rightarrow> ''approval_required''
                      | EDeny \<Rightarrow> ''command_blocked'')
           in command_rules env origin origin_id effect approval why (rt_commands t @ rt_tools t)))"

definition wrapper_rule :: "policy_env \<Rightarrow> string \<Rightarrow> canonical_rule" where
  "wrapper_rule env digest_src =
     make_rule env OController ''hard-block'' EDeny MSemanticAction (PSemanticAction ''shell_wrapper'')
       None ''wrapper_blocked'' digest_src"

definition scope_rule :: "policy_env \<Rightarrow> canonical_rule" where
  "scope_rule env =
     make_rule env OController ''path-scope'' EDeny MPath (PPath ''__out_of_scope__'') None
       ''path_out_of_scope'' ''out_of_scope''"

definition controller_rules :: "policy_env \<Rightarrow> canonical_rule list" where
  "controller_rules env =
     (let rules = map (\<lambda>wrapper. wrapper_rule env (''wrapper:'' @ wrapper))
            [''sh'', ''bash'', ''zsh'', ''fish'', ''env'', ''sudo'', ''doas'', ''xargs'', ''command'', ''exec''];
          rules = filter (\<lambda>r. \<not> (cr_origin_kind r = OController \<and>
            cr_payload r = PSemanticAction ''shell_wrapper'')) rules
      in rules @ [wrapper_rule env ''wrapper''] @ [scope_rule env])"

definition agent_rules_of ::
  "policy_env \<Rightarrow> policy_enforcement_record \<Rightarrow> (raw_policy_error, canonical_rule list) result" where
  "agent_rules_of env enf =
     (case per_agent enf of
        None \<Rightarrow> Inr []
      | Some agent \<Rightarrow>
          (let pre = (if per_applies_to enf = ''panoply'' then ''panoply'' else per_applies_to enf);
               expand = map (\<lambda>cmd. pre @ '' '' @ cmd)
           in rbind (command_rules env OPolicy (per_id enf) EAllow None ''command_blocked''
                       (expand (ag_allow agent))) (\<lambda>allows.
              rbind (command_rules env OPolicy (per_id enf) EDeny None ''command_blocked''
                       (expand (ag_block agent))) (\<lambda>blocks. Inr (allows @ blocks)))))"

definition gate_rules_of :: "policy_env \<Rightarrow> policy_enforcement_record \<Rightarrow> canonical_rule list" where
  "gate_rules_of env enf =
     (let rule = (\<lambda>cap why. make_rule env OPolicy (per_id enf) EDeny MCapability (PCapability cap) None why cap)
      in case per_gates enf of
           None \<Rightarrow> []
         | Some gates \<Rightarrow>
             (if cg_no_global_install gates = Some True
              then [rule ''no_global_install'' ''install_blocked''] else []) @
             (if cg_no_secret_read gates = Some True
              then [rule ''no_secret_read'' ''secret_access_blocked''] else []) @
             (if cg_no_shell_mutation gates = Some True
              then [rule ''no_shell_mutation'' ''command_blocked''] else []))"

definition secret_rules_of ::
  "policy_env \<Rightarrow> policy_enforcement_record \<Rightarrow> (raw_policy_error, canonical_rule list) result" where
  "secret_rules_of env enf =
     (case per_secrets enf of
        None \<Rightarrow> Inr []
      | Some secrets \<Rightarrow>
          command_rules env OPolicy (per_id enf) EDeny None ''secret_access_blocked'' (sr_block_tools secrets))"

definition remote_rule :: "policy_env \<Rightarrow> origin_kind \<Rightarrow> string \<Rightarrow> remote_write_policy \<Rightarrow> canonical_rule" where
  "remote_rule env origin origin_id writes =
     (let (effect, approval, why) =
        (case writes of
           Elevated \<Rightarrow> (EGate, Some ''elevated_remote_write_approval'', ''approval_required'')
         | _ \<Rightarrow> (EDeny, None, ''remote_write_blocked''))
      in make_rule env origin origin_id effect MRemoteWrite (PRemoteWrite writes) approval why
           (remote_write_str writes))"

definition policy_rules ::
  "policy_env \<Rightarrow> policy_record \<Rightarrow> (raw_policy_error, canonical_rule list) result" where
  "policy_rules env policy =
     rbind (policy_from_registry (env_parse env) policy) (\<lambda>enf.
     rbind (agent_rules_of env enf) (\<lambda>agent.
     rbind (emit_rule_table env OPolicy (per_id enf) EAllow (per_allow enf) None) (\<lambda>allow.
     rbind (emit_rule_table env OPolicy (per_id enf) EGate (per_gate enf) (Some ''human_approval'')) (\<lambda>gate.
     rbind (emit_rule_table env OPolicy (per_id enf) EDeny (per_block enf) None) (\<lambda>block.
     rbind (secret_rules_of env enf) (\<lambda>secrets.
       Inr (agent @ allow @ gate @ block @ gate_rules_of env enf @ secrets @
         (case per_remote_writes enf of
            None \<Rightarrow> []
          | Some writes \<Rightarrow> [remote_rule env OPolicy (per_id enf) writes]))))))))"

definition profile_rules ::
  "policy_env \<Rightarrow> profile_enforcement \<Rightarrow> (raw_policy_error, canonical_rule list) result" where
  "profile_rules env p =
     rbind (command_rules env OProfile (pe_id p) EAllow None ''command_blocked'' (pe_allowed_commands p)) (\<lambda>allow.
     rbind (command_rules env OProfile (pe_id p) EGate (Some ''human_approval'') ''approval_required''
              (pe_gated_commands p)) (\<lambda>gate.
     rbind (command_rules env OProfile (pe_id p) EDeny None ''command_blocked'' (pe_blocked_commands p)) (\<lambda>block.
       Inr (allow @ gate @ block @
         (if \<not> pe_secret_access p
          then [make_rule env OProfile (pe_id p) EDeny MCapability (PCapability ''secret_access'') None
                  ''secret_access_blocked'' ''secret_access_false''] else []) @
         [remote_rule env OProfile (pe_id p) (pe_remote_write_policy p)]))))"

definition path_rule ::
  "policy_env \<Rightarrow> path \<Rightarrow> origin_kind \<Rightarrow> string \<Rightarrow> effect \<Rightarrow> string \<Rightarrow> string \<Rightarrow>
   (raw_policy_error, canonical_rule \<times> compiled_path_pattern) result" where
  "path_rule env policy_root origin origin_id effect why p =
     (let adjusted = adjust_pattern_for_root p policy_root;
          rule = make_rule env origin origin_id effect MPath (PPath adjusted) None why adjusted
      in rbind (compile_path_pattern adjusted origin_id (cr_rule_id rule)) (\<lambda>compiled. Inr (rule, compiled)))"

definition block_rules ::
  "policy_env \<Rightarrow> path \<Rightarrow> policy_record \<Rightarrow>
   (raw_policy_error, (canonical_rule \<times> compiled_path_pattern) list \<times> canonical_rule list) result" where
  "block_rules env policy_root policy =
     rbind (policy_from_registry (env_parse env) policy) (\<lambda>enf.
       case per_block enf of
         None \<Rightarrow> Inr ([], [])
       | Some block \<Rightarrow>
           rbind (traverse (path_rule env policy_root OPolicy (per_id enf) EDeny ''path_blocked'')
                    (rt_paths block)) (\<lambda>paths.
             Inr (paths,
               map (\<lambda>_. make_rule env OPolicy (per_id enf) EDeny MSemanticAction
                      (PSemanticAction ''destructive_git_cleanup'') None ''destructive_operation_blocked''
                      ''delete_untracked'')
                 (filter (\<lambda>action. action = ''delete untracked files'') (rt_actions block)))))"

definition duplicate_policy_error :: "string \<Rightarrow> raw_policy_error" where
  "duplicate_policy_error i =
     raw_error PolicyContractInvalid (''duplicate policy id '' @ backtick @ i @ backtick) (Some i) (Some ''id'')"

text \<open>The loop that looks for a repeated identifier.\<close>

fun check_policy_ids :: "string list \<Rightarrow> policy_record list \<Rightarrow> (raw_policy_error, unit) result" where
  "check_policy_ids seen [] = Inr ()"
| "check_policy_ids seen (p # ps) =
     (if po_id p \<in> set seen then Inl (duplicate_policy_error (po_id p))
      else check_policy_ids (po_id p # seen) ps)"

definition normalize_policies ::
  "policy_env \<Rightarrow> policy_record list \<Rightarrow> profile_record \<Rightarrow> path \<Rightarrow>
   (raw_policy_error, normalized_policy_set) result" where
  "normalize_policies env policies profile policy_root =
     rbind (check_policy_ids [] policies) (\<lambda>_.
     rbind (profile_from_record profile) (\<lambda>profile_enf.
       let policies_sorted = sort_key po_id policies in
       rbind (traverse (policy_rules env) policies_sorted) (\<lambda>from_policies.
       rbind (profile_rules env profile_enf) (\<lambda>from_profile.
       rbind (traverse (path_rule env policy_root OProfile (pe_id profile_enf) EAllow ''path_out_of_scope'')
                (pe_allowed_paths profile_enf)) (\<lambda>allowed.
       rbind (traverse (path_rule env policy_root OProfile (pe_id profile_enf) EDeny ''path_blocked'')
                (pe_blocked_paths profile_enf)) (\<lambda>blocked.
       rbind (traverse (block_rules env policy_root) policies_sorted) (\<lambda>blocks.
         let rules = controller_rules env @ concat from_policies @ from_profile @ map fst allowed @
               map fst blocked @ concat (map (\<lambda>(paths, actions). map fst paths @ actions) blocks)
         in Inr \<lparr>ns_rules = sort_dedup_key cr_rule_id rules, ns_profile = profile_enf,
              ns_allowed_path_patterns = map snd allowed,
              ns_blocked_path_patterns = map snd blocked @
                concat (map (\<lambda>(paths, _). map snd paths) blocks)\<rparr>)))))))"

section \<open>Rule identifiers\<close>

text \<open>What SHA-256 hex output guarantees and the identifiers rely on.\<close>

definition hex_ok :: "policy_env \<Rightarrow> bool" where
  "hex_ok env \<longleftrightarrow> (\<forall>s. CHR '':'' \<notin> set (env_sha256_hex env s))"

definition rule_identity :: "canonical_rule \<Rightarrow> origin_kind \<times> string \<times> effect \<times> matcher_kind" where
  "rule_identity r = (cr_origin_kind r, cr_origin_id r, cr_effect r, cr_matcher r)"

text \<open>A rule as \<open>make_rule\<close> builds it, with its digest.\<close>

definition rule_of :: "policy_env \<Rightarrow> string \<Rightarrow> canonical_rule \<Rightarrow> bool" where
  "rule_of env src r \<longleftrightarrow>
     cr_rule_id r = origin_str (cr_origin_kind r) @ '':'' @ cr_origin_id r @ '':'' @ effect_str (cr_effect r) @
       '':'' @ matcher_str (cr_matcher r) @ '':'' @ matcher_digest (env_sha256_hex env) src"

lemma rule_of_make_rule: "rule_of env src (make_rule env origin oid effect matcher payload approval why src)"
  by (simp add: rule_of_def make_rule_def Let_def)

lemma make_rule_sel [simp]:
  "cr_origin_kind (make_rule env origin oid eff matcher payload approval why src) = origin"
  "cr_origin_id (make_rule env origin oid eff matcher payload approval why src) = oid"
  "cr_effect (make_rule env origin oid eff matcher payload approval why src) = eff"
  "cr_matcher (make_rule env origin oid eff matcher payload approval why src) = matcher"
  "cr_payload (make_rule env origin oid eff matcher payload approval why src) = payload"
  "cr_required_approval (make_rule env origin oid eff matcher payload approval why src) = approval"
  "cr_safe_reason (make_rule env origin oid eff matcher payload approval why src) = why"
  by (simp_all add: make_rule_def Let_def)

lemma split_first_sep:
  "a @ c # b = a' @ c # b' \<Longrightarrow> c \<notin> set a \<Longrightarrow> c \<notin> set a' \<Longrightarrow> a = a' \<and> b = b'"
proof (induction a arbitrary: a')
  case Nil
  then show ?case by (cases a') auto
next
  case (Cons x a)
  then show ?case by (cases a') auto
qed

lemma split_last_sep:
  assumes "a @ c # b = a' @ c # b'" and "c \<notin> set b" and "c \<notin> set b'"
  shows "a = a' \<and> b = b'"
proof -
  have "rev b @ c # rev a = rev b' @ c # rev a'"
    using arg_cong [OF assms(1), of rev] by simp
  then show ?thesis using split_first_sep [of "rev b" c "rev a" "rev b'" "rev a'"] assms(2,3) by simp
qed

lemma label_inj:
  "origin_str o1 = origin_str o2 \<longleftrightarrow> o1 = o2" "effect_str e1 = effect_str e2 \<longleftrightarrow> e1 = e2"
  "matcher_str m1 = matcher_str m2 \<longleftrightarrow> m1 = m2"
proof -
  show "origin_str o1 = origin_str o2 \<longleftrightarrow> o1 = o2" by (cases o1; cases o2) simp_all
  show "effect_str e1 = effect_str e2 \<longleftrightarrow> e1 = e2" by (cases e1; cases e2) simp_all
  show "matcher_str m1 = matcher_str m2 \<longleftrightarrow> m1 = m2" by (cases m1; cases m2) simp_all
qed

lemma label_no_colon:
  "CHR '':'' \<notin> set (origin_str k)" "CHR '':'' \<notin> set (effect_str e)" "CHR '':'' \<notin> set (matcher_str m)"
proof -
  show "CHR '':'' \<notin> set (origin_str k)" by (cases k) simp_all
  show "CHR '':'' \<notin> set (effect_str e)" by (cases e) simp_all
  show "CHR '':'' \<notin> set (matcher_str m)" by (cases m) simp_all
qed

lemma digest_no_colon: "hex_ok env \<Longrightarrow> CHR '':'' \<notin> set (matcher_digest (env_sha256_hex env) src)"
  by (auto simp: hex_ok_def matcher_digest_def dest: in_set_takeD)

lemma rule_id_inj:
  assumes "hex_ok env" and "rule_of env s1 r1" and "rule_of env s2 r2" and "cr_rule_id r1 = cr_rule_id r2"
  shows "rule_identity r1 = rule_identity r2 \<and>
    matcher_digest (env_sha256_hex env) s1 = matcher_digest (env_sha256_hex env) s2"
proof -
  let ?d = "matcher_digest (env_sha256_hex env)"
  let ?p = "\<lambda>r. (((origin_str (cr_origin_kind r) @ CHR '':'' # cr_origin_id r) @ CHR '':'' # effect_str (cr_effect r)) @
      CHR '':'' # matcher_str (cr_matcher r))"
  have "?p r1 @ CHR '':'' # ?d s1 = ?p r2 @ CHR '':'' # ?d s2"
    using assms(2-4) by (simp add: rule_of_def)
  then have 1: "?p r1 = ?p r2" and d: "?d s1 = ?d s2"
    using split_last_sep digest_no_colon [OF assms(1)] by metis+
  from split_last_sep [OF 1 label_no_colon(3) label_no_colon(3)]
  have 2: "(origin_str (cr_origin_kind r1) @ CHR '':'' # cr_origin_id r1) @ CHR '':'' # effect_str (cr_effect r1) =
      (origin_str (cr_origin_kind r2) @ CHR '':'' # cr_origin_id r2) @ CHR '':'' # effect_str (cr_effect r2)"
    and m: "cr_matcher r1 = cr_matcher r2" by (simp_all add: label_inj)
  from split_last_sep [OF 2 label_no_colon(2) label_no_colon(2)]
  have 3: "origin_str (cr_origin_kind r1) @ CHR '':'' # cr_origin_id r1 =
      origin_str (cr_origin_kind r2) @ CHR '':'' # cr_origin_id r2"
    and e: "cr_effect r1 = cr_effect r2" by (simp_all add: label_inj)
  from split_first_sep [OF 3 label_no_colon(1) label_no_colon(1)] m e d show ?thesis
    by (simp add: rule_identity_def label_inj)
qed

section \<open>What normalisation emits\<close>

definition payload_ok :: "canonical_rule \<Rightarrow> string \<Rightarrow> bool" where
  "payload_ok r src =
     (case cr_payload r of
        PCommand p \<Rightarrow> cr_matcher r = MCommand \<and> src = command_key p
      | PPath p \<Rightarrow> cr_matcher r = MPath \<and> src = p
      | PCapability c \<Rightarrow> cr_matcher r = MCapability \<and> cr_effect r = EDeny \<and>
          (if cr_origin_kind r = OProfile then c = ''secret_access'' else src = c)
      | PRemoteWrite w \<Rightarrow> cr_matcher r = MRemoteWrite \<and> cr_effect r \<noteq> EAllow
      | PSemanticAction a \<Rightarrow> cr_matcher r = MSemanticAction \<and> cr_effect r = EDeny \<and>
          a = ''destructive_git_cleanup'')"

definition good_rule :: "policy_env \<Rightarrow> canonical_rule \<Rightarrow> bool" where
  "good_rule env r \<longleftrightarrow>
     r = wrapper_rule env ''wrapper'' \<or> r = scope_rule env \<or>
     cr_origin_kind r \<noteq> OController \<and> (\<exists>src. rule_of env src r \<and> payload_ok r src)"

lemma good_rule_of: "good_rule env r \<Longrightarrow> \<exists>src. rule_of env src r"
  unfolding good_rule_def wrapper_rule_def scope_rule_def by (blast intro: rule_of_make_rule)

lemma wrapper_rule_sel [simp]:
  "cr_origin_kind (wrapper_rule env s) = OController" "cr_effect (wrapper_rule env s) = EDeny"
  "cr_payload (wrapper_rule env s) = PSemanticAction ''shell_wrapper''"
  "cr_matcher (wrapper_rule env s) = MSemanticAction" "cr_origin_id (wrapper_rule env s) = ''hard-block''"
  by (simp_all add: wrapper_rule_def)

lemma scope_rule_sel [simp]:
  "cr_origin_kind (scope_rule env) = OController" "cr_effect (scope_rule env) = EDeny"
  "cr_matcher (scope_rule env) = MPath" "cr_safe_reason (scope_rule env) = ''path_out_of_scope''"
  "cr_payload (scope_rule env) = PPath ''__out_of_scope__''"
  by (simp_all add: scope_rule_def)

lemma rule_of_controller:
  "rule_of env s (wrapper_rule env s)" "rule_of env ''out_of_scope'' (scope_rule env)"
  unfolding wrapper_rule_def scope_rule_def by (rule rule_of_make_rule)+

lemma good_make_rule:
  "origin \<noteq> OController \<Longrightarrow> payload_ok (make_rule env origin oid eff matcher payload approval why src) src \<Longrightarrow>
   good_rule env (make_rule env origin oid eff matcher payload approval why src)"
  using rule_of_make_rule by (auto simp: good_rule_def)

lemma command_rules_shape:
  "command_rules env origin oid eff approval why cmds = Inr rs \<Longrightarrow> r \<in> set rs \<Longrightarrow>
   \<exists>cmd \<in> set cmds. \<exists>p. parse_command_pattern cmd oid = Inr p \<and> r = command_rule env origin oid eff p approval why"
  unfolding command_rules_def by (drule (1) traverse_set) (auto simp: result_simps)

lemma command_rules_complete:
  "command_rules env origin oid eff approval why cmds = Inr rs \<Longrightarrow> cmd \<in> set cmds \<Longrightarrow>
   \<exists>p. parse_command_pattern cmd oid = Inr p \<and> command_rule env origin oid eff p approval why \<in> set rs"
  unfolding command_rules_def by (drule (1) traverse_set_rev) (auto simp: result_simps)

lemma good_command_rules:
  "command_rules env origin oid eff approval why cmds = Inr rs \<Longrightarrow> origin \<noteq> OController \<Longrightarrow> r \<in> set rs \<Longrightarrow>
   good_rule env r"
  by (auto dest!: command_rules_shape simp: command_rule_def intro!: good_make_rule) (simp add: payload_ok_def)

lemma good_emit_rule_table:
  "emit_rule_table env OPolicy oid eff table approval = Inr rs \<Longrightarrow> r \<in> set rs \<Longrightarrow> good_rule env r"
  by (auto simp: emit_rule_table_def split: option.splits dest: good_command_rules)

lemma good_agent_rules: "agent_rules_of env enf = Inr rs \<Longrightarrow> r \<in> set rs \<Longrightarrow> good_rule env r"
  by (auto simp: agent_rules_of_def Let_def result_simps split: option.splits dest: good_command_rules)

lemma good_secret_rules: "secret_rules_of env enf = Inr rs \<Longrightarrow> r \<in> set rs \<Longrightarrow> good_rule env r"
  by (auto simp: secret_rules_of_def split: option.splits dest: good_command_rules)

lemma good_gate_rules: "r \<in> set (gate_rules_of env enf) \<Longrightarrow> good_rule env r"
  by (auto simp: gate_rules_of_def Let_def payload_ok_def intro!: good_make_rule split: option.splits if_splits)

lemma good_remote_rule: "origin \<noteq> OController \<Longrightarrow> good_rule env (remote_rule env origin oid w)"
  by (cases w) (auto simp: remote_rule_def payload_ok_def intro!: good_make_rule)

lemma good_policy_rules:
  assumes "policy_rules env policy = Inr rs" and "r \<in> set rs"
  shows "good_rule env r"
proof -
  obtain enf agent allow gate block secrets where
    e: "agent_rules_of env enf = Inr agent"
    "emit_rule_table env OPolicy (per_id enf) EAllow (per_allow enf) None = Inr allow"
    "emit_rule_table env OPolicy (per_id enf) EGate (per_gate enf) (Some ''human_approval'') = Inr gate"
    "emit_rule_table env OPolicy (per_id enf) EDeny (per_block enf) None = Inr block"
    "secret_rules_of env enf = Inr secrets"
    and rs: "rs = agent @ allow @ gate @ block @ gate_rules_of env enf @ secrets @
         (case per_remote_writes enf of
            None \<Rightarrow> []
          | Some writes \<Rightarrow> [remote_rule env OPolicy (per_id enf) writes])"
    using assms(1) unfolding policy_rules_def rbind_eq_Inr_iff sum.inject by metis
  from assms(2) consider "r \<in> set agent" | "r \<in> set allow" | "r \<in> set gate" | "r \<in> set block"
    | "r \<in> set (gate_rules_of env enf)" | "r \<in> set secrets" | w where "r = remote_rule env OPolicy (per_id enf) w"
    unfolding rs by (auto split: option.splits)
  then show ?thesis
    using good_agent_rules [OF e(1)] good_emit_rule_table [OF e(2)] good_emit_rule_table [OF e(3)]
      good_emit_rule_table [OF e(4)] good_gate_rules good_secret_rules [OF e(5)] good_remote_rule
    by cases blast+
qed

lemma good_profile_rules: "profile_rules env p = Inr rs \<Longrightarrow> r \<in> set rs \<Longrightarrow> good_rule env r"
  by (auto simp: profile_rules_def result_simps good_remote_rule payload_ok_def
      intro!: good_make_rule dest: good_command_rules split: if_splits)

lemma path_rule_shape:
  "path_rule env root origin oid eff why p = Inr (r, c) \<Longrightarrow>
   cpp_rule_id c = cr_rule_id r \<and> cr_effect r = eff \<and> cr_matcher r = MPath \<and> cr_origin_kind r = origin \<and>
   (origin \<noteq> OController \<longrightarrow> good_rule env r)"
  by (auto simp: path_rule_def Let_def result_simps compile_path_pattern_def payload_ok_def
      intro!: good_make_rule split: if_splits)

lemma good_block_rules:
  assumes "block_rules env root policy = Inr (paths, actions)"
  shows "(r, c) \<in> set paths \<Longrightarrow> cpp_rule_id c = cr_rule_id r \<and> cr_effect r = EDeny \<and> good_rule env r"
    "r \<in> set actions \<Longrightarrow> good_rule env r"
proof -
  obtain enf where enf: "policy_from_registry (env_parse env) policy = Inr enf"
    using assms by (auto simp: block_rules_def result_simps)
  show "(r, c) \<in> set paths \<Longrightarrow> cpp_rule_id c = cr_rule_id r \<and> cr_effect r = EDeny \<and> good_rule env r"
    using assms enf
    by (cases "per_block enf") (auto simp: block_rules_def rbind_eq_Inr_iff dest!: traverse_set path_rule_shape)
  show "r \<in> set actions \<Longrightarrow> good_rule env r"
    using assms enf
    by (cases "per_block enf")
      (auto simp: block_rules_def rbind_eq_Inr_iff payload_ok_def intro!: good_make_rule)
qed

lemma good_controller_rules: "r \<in> set (controller_rules env) \<Longrightarrow> good_rule env r"
  by (auto simp: controller_rules_def Let_def good_rule_def)

lemma controller_rules_members: "wrapper_rule env ''wrapper'' \<in> set (controller_rules env)"
  "scope_rule env \<in> set (controller_rules env)"
  by (simp_all add: controller_rules_def Let_def)

text \<open>The result of a successful normalisation, taken apart.\<close>

lemma normalize_policies_cases:
  assumes "normalize_policies env policies profile root = Inr ns"
  obtains from_policies from_profile allowed blocked blocks raw where
    "distinct (map po_id policies)" "profile_from_record profile = Inr (ns_profile ns)"
    "traverse (policy_rules env) (sort_key po_id policies) = Inr from_policies"
    "profile_rules env (ns_profile ns) = Inr from_profile"
    "traverse (path_rule env root OProfile (pe_id (ns_profile ns)) EAllow ''path_out_of_scope'')
       (pe_allowed_paths (ns_profile ns)) = Inr allowed"
    "traverse (path_rule env root OProfile (pe_id (ns_profile ns)) EDeny ''path_blocked'')
       (pe_blocked_paths (ns_profile ns)) = Inr blocked"
    "traverse (block_rules env root) (sort_key po_id policies) = Inr blocks"
    "raw = controller_rules env @ concat from_policies @ from_profile @ map fst allowed @
       map fst blocked @ concat (map (\<lambda>(paths, actions). map fst paths @ actions) blocks)"
    "ns_rules ns = sort_dedup_key cr_rule_id raw"
    "ns_allowed_path_patterns ns = map snd allowed"
    "ns_blocked_path_patterns ns = map snd blocked @ concat (map (\<lambda>(paths, _). map snd paths) blocks)"
proof -
  have ids: "check_policy_ids seen ps = Inr u \<longleftrightarrow> distinct (map po_id ps) \<and> set (map po_id ps) \<inter> set seen = {}"
    for seen ps u by (induction ps arbitrary: seen) auto
  obtain enf vb vc vd ve vf where n: "distinct (map po_id policies)" "profile_from_record profile = Inr enf"
    "traverse (policy_rules env) (sort_key po_id policies) = Inr vb" "profile_rules env enf = Inr vc"
    "traverse (path_rule env root OProfile (pe_id enf) EAllow ''path_out_of_scope'') (pe_allowed_paths enf) = Inr vd"
    "traverse (path_rule env root OProfile (pe_id enf) EDeny ''path_blocked'') (pe_blocked_paths enf) = Inr ve"
    "traverse (block_rules env root) (sort_key po_id policies) = Inr vf"
    and ns: "ns = \<lparr>ns_rules = sort_dedup_key cr_rule_id (controller_rules env @ concat vb @ vc @ map fst vd @
         map fst ve @ concat (map (\<lambda>(paths, actions). map fst paths @ actions) vf)), ns_profile = enf,
       ns_allowed_path_patterns = map snd vd,
       ns_blocked_path_patterns = map snd ve @ concat (map (\<lambda>(paths, _). map snd paths) vf)\<rparr>"
    using assms unfolding normalize_policies_def rbind_eq_Inr_iff ids Let_def by auto
  show thesis
    by (rule that [of vb vc vd ve vf]) (simp_all add: n ns)
qed

lemma raw_rules_good:
  assumes "normalize_policies env policies profile root = Inr ns" and "r \<in> set (ns_rules ns)"
  shows "good_rule env r"
proof -
  from assms(1) obtain from_policies from_profile allowed blocked blocks raw where n:
    "traverse (policy_rules env) (sort_key po_id policies) = Inr from_policies"
    "profile_rules env (ns_profile ns) = Inr from_profile"
    "traverse (path_rule env root OProfile (pe_id (ns_profile ns)) EAllow ''path_out_of_scope'')
       (pe_allowed_paths (ns_profile ns)) = Inr allowed"
    "traverse (path_rule env root OProfile (pe_id (ns_profile ns)) EDeny ''path_blocked'')
       (pe_blocked_paths (ns_profile ns)) = Inr blocked"
    "traverse (block_rules env root) (sort_key po_id policies) = Inr blocks"
    "raw = controller_rules env @ concat from_policies @ from_profile @ map fst allowed @
       map fst blocked @ concat (map (\<lambda>(paths, actions). map fst paths @ actions) blocks)"
    "ns_rules ns = sort_dedup_key cr_rule_id raw"
    by (rule normalize_policies_cases)
  have "r \<in> set raw" using assms(2) n(7) set_sort_dedup_key_subset by fastforce
  then consider "r \<in> set (controller_rules env)" | rs where "rs \<in> set from_policies" "r \<in> set rs"
    | "r \<in> set from_profile" | c where "(r, c) \<in> set allowed" | c where "(r, c) \<in> set blocked"
    | paths actions c where "(paths, actions) \<in> set blocks" "(r, c) \<in> set paths \<or> r \<in> set actions"
    unfolding n(6) by fastforce
  then show ?thesis
  proof cases
    case 2
    then show ?thesis using traverse_set [OF n(1)] good_policy_rules by blast
  next
    case 4
    then show ?thesis using traverse_set [OF n(3)] path_rule_shape by fastforce
  next
    case 5
    then show ?thesis using traverse_set [OF n(4)] path_rule_shape by fastforce
  next
    case 6
    then show ?thesis using traverse_set [OF n(5)] good_block_rules by blast
  qed (use good_controller_rules good_profile_rules [OF n(2)] in blast)+
qed

section \<open>What survives deduplication\<close>

lemma rule_retained:
  assumes "hex_ok env" and "normalize_policies env policies profile root = Inr ns"
    and "ns_rules ns = sort_dedup_key cr_rule_id raw" and "r \<in> set raw" and "rule_of env src r"
  shows "\<exists>r' \<in> set (ns_rules ns). cr_rule_id r' = cr_rule_id r \<and> rule_identity r' = rule_identity r \<and>
    good_rule env r' \<and>
    (\<forall>src'. rule_of env src' r' \<longrightarrow>
       matcher_digest (env_sha256_hex env) src' = matcher_digest (env_sha256_hex env) src)"
proof -
  obtain r' where r': "r' \<in> set (ns_rules ns)" "cr_rule_id r' = cr_rule_id r"
    using sort_dedup_key_represents [OF assms(4), of cr_rule_id] assms(3) by auto
  have g: "good_rule env r'" using raw_rules_good [OF assms(2) r'(1)] .
  obtain s' where "rule_of env s' r'" using good_rule_of [OF g] by blast
  with r' g show ?thesis using rule_id_inj [OF assms(1) _ assms(5) r'(2)] by blast
qed

lemma wrapper_rule_retained:
  assumes "hex_ok env" and "normalize_policies env policies profile root = Inr ns"
  shows "wrapper_rule env ''wrapper'' \<in> set (ns_rules ns)"
  using assms(2)
proof (rule normalize_policies_cases)
  fix fp fpr al bl bs raw
  assume "raw = controller_rules env @ concat fp @ fpr @ map fst al @ map fst bl @
      concat (map (\<lambda>(paths, actions). map fst paths @ actions) bs)"
    and rules: "ns_rules ns = sort_dedup_key cr_rule_id raw"
  then have "wrapper_rule env ''wrapper'' \<in> set raw" using controller_rules_members(1) by simp
  from rule_retained [OF assms rules this rule_of_controller(1)]
  obtain r' where "r' \<in> set (ns_rules ns)" "rule_identity r' = rule_identity (wrapper_rule env ''wrapper'')"
    "good_rule env r'" by blast
  then show ?thesis by (auto simp: good_rule_def rule_identity_def)
qed

lemma scope_rule_retained:
  assumes "hex_ok env" and "normalize_policies env policies profile root = Inr ns"
  shows "scope_rule env \<in> set (ns_rules ns)"
  using assms(2)
proof (rule normalize_policies_cases)
  fix fp fpr al bl bs raw
  assume "raw = controller_rules env @ concat fp @ fpr @ map fst al @ map fst bl @
      concat (map (\<lambda>(paths, actions). map fst paths @ actions) bs)"
    and rules: "ns_rules ns = sort_dedup_key cr_rule_id raw"
  then have "scope_rule env \<in> set raw" using controller_rules_members(2) by simp
  from rule_retained [OF assms rules this rule_of_controller(2)]
  obtain r' where "r' \<in> set (ns_rules ns)" "rule_identity r' = rule_identity (scope_rule env)"
    "good_rule env r'" by blast
  then show ?thesis by (auto simp: good_rule_def rule_identity_def)
qed

lemma secret_rule_retained:
  assumes "hex_ok env" and "normalize_policies env policies profile root = Inr ns"
    and "\<not> pe_secret_access (ns_profile ns)"
  shows "\<exists>r \<in> set (ns_rules ns). cr_payload r = PCapability ''secret_access'' \<and> cr_effect r = EDeny"
  using assms(2)
proof (rule normalize_policies_cases)
  fix fp fpr al bl bs raw
  assume "profile_rules env (ns_profile ns) = Inr fpr" and
    "raw = controller_rules env @ concat fp @ fpr @ map fst al @ map fst bl @
      concat (map (\<lambda>(paths, actions). map fst paths @ actions) bs)"
    and rules: "ns_rules ns = sort_dedup_key cr_rule_id raw"
  moreover define r where "r = make_rule env OProfile (pe_id (ns_profile ns)) EDeny MCapability
    (PCapability ''secret_access'') None ''secret_access_blocked'' ''secret_access_false''"
  ultimately have "r \<in> set raw" using assms(3) by (auto simp: profile_rules_def result_simps)
  have "rule_of env ''secret_access_false'' r" unfolding r_def by (rule rule_of_make_rule)
  from rule_retained [OF assms(1,2) rules \<open>r \<in> set raw\<close> this]
  obtain r' where r': "r' \<in> set (ns_rules ns)" "rule_identity r' = rule_identity r" "good_rule env r'" by blast
  then have "cr_origin_kind r' = OProfile" "cr_matcher r' = MCapability" "cr_effect r' = EDeny"
    by (simp_all add: rule_identity_def r_def)
  with r' show ?thesis
    by (intro bexI [of _ r']; cases "cr_payload r'") (auto simp: good_rule_def payload_ok_def)
qed

lemma path_patterns_retained:
  assumes "hex_ok env" and "normalize_policies env policies profile root = Inr ns"
  shows "b \<in> set (ns_blocked_path_patterns ns) \<Longrightarrow>
      \<exists>r \<in> set (ns_rules ns). cr_rule_id r = cpp_rule_id b \<and> cr_effect r = EDeny"
    "a \<in> set (ns_allowed_path_patterns ns) \<Longrightarrow>
      \<exists>r \<in> set (ns_rules ns). cr_rule_id r = cpp_rule_id a \<and> cr_effect r = EAllow \<and> cr_matcher r = MPath"
proof -
  from assms(2) obtain from_policies from_profile allowed blocked blocks raw where n:
    "traverse (path_rule env root OProfile (pe_id (ns_profile ns)) EAllow ''path_out_of_scope'')
       (pe_allowed_paths (ns_profile ns)) = Inr allowed"
    "traverse (path_rule env root OProfile (pe_id (ns_profile ns)) EDeny ''path_blocked'')
       (pe_blocked_paths (ns_profile ns)) = Inr blocked"
    "traverse (block_rules env root) (sort_key po_id policies) = Inr blocks"
    "raw = controller_rules env @ concat from_policies @ from_profile @ map fst allowed @
       map fst blocked @ concat (map (\<lambda>(paths, actions). map fst paths @ actions) blocks)"
    "ns_rules ns = sort_dedup_key cr_rule_id raw"
    "ns_allowed_path_patterns ns = map snd allowed"
    "ns_blocked_path_patterns ns = map snd blocked @ concat (map (\<lambda>(paths, _). map snd paths) blocks)"
    by (rule normalize_policies_cases)
  have keep: "\<exists>r' \<in> set (ns_rules ns). cr_rule_id r' = cr_rule_id r \<and> rule_identity r' = rule_identity r"
    if "r \<in> set raw" "good_rule env r" for r
    using rule_retained [OF assms n(5) that(1)] good_rule_of [OF that(2)] by blast
  show "\<exists>r \<in> set (ns_rules ns). cr_rule_id r = cpp_rule_id b \<and> cr_effect r = EDeny"
    if b: "b \<in> set (ns_blocked_path_patterns ns)"
  proof -
    obtain r where "(r, b) \<in> set blocked \<or> (\<exists>paths actions. (paths, actions) \<in> set blocks \<and> (r, b) \<in> set paths)"
      using b unfolding n(7) by fastforce
    then have r: "r \<in> set raw \<and> cpp_rule_id b = cr_rule_id r \<and> cr_effect r = EDeny \<and> good_rule env r"
    proof
      assume rb: "(r, b) \<in> set blocked"
      then obtain p where "path_rule env root OProfile (pe_id (ns_profile ns)) EDeny ''path_blocked'' p = Inr (r, b)"
        using traverse_set [OF n(2)] by blast
      from path_rule_shape [OF this] have "cpp_rule_id b = cr_rule_id r \<and> cr_effect r = EDeny \<and> good_rule env r"
        by simp
      moreover have "r \<in> fst ` set blocked" using rb by force
      then have "r \<in> set raw" unfolding n(4) by simp
      ultimately show ?thesis by simp
    next
      assume "\<exists>paths actions. (paths, actions) \<in> set blocks \<and> (r, b) \<in> set paths"
      then obtain paths actions where pa: "(paths, actions) \<in> set blocks" "(r, b) \<in> set paths" by blast
      then obtain pol where "block_rules env root pol = Inr (paths, actions)"
        using traverse_set [OF n(3) pa(1)] by blast
      note g = good_block_rules(1) [OF this pa(2)]
      have "r \<in> set (map fst paths @ actions)" using pa(2) by (auto intro: rev_image_eqI)
      then have "r \<in> set (concat (map (\<lambda>(paths, actions). map fst paths @ actions) blocks))"
        unfolding set_concat set_map by (intro UN_I [OF imageI [OF pa(1)]]) simp
      then have "r \<in> set raw" unfolding n(4) by simp
      with g show ?thesis by simp
    qed
    from keep [of r] r show ?thesis by (auto simp: rule_identity_def)
  qed
  show "\<exists>r \<in> set (ns_rules ns). cr_rule_id r = cpp_rule_id a \<and> cr_effect r = EAllow \<and> cr_matcher r = MPath"
    if a: "a \<in> set (ns_allowed_path_patterns ns)"
  proof -
    obtain r where "(r, a) \<in> set allowed" using a unfolding n(6) by fastforce
    then obtain p where "path_rule env root OProfile (pe_id (ns_profile ns)) EAllow ''path_out_of_scope'' p = Inr (r, a)"
      using traverse_set [OF n(1)] by blast
    from path_rule_shape [OF this] have r: "cpp_rule_id a = cr_rule_id r" "cr_effect r = EAllow"
      "cr_matcher r = MPath" "good_rule env r" by simp_all
    have "r \<in> fst ` set allowed" using \<open>(r, a) \<in> set allowed\<close> by force
    then have "r \<in> set raw" unfolding n(4) by simp
    from keep [OF this r(4)] r show ?thesis by (auto simp: rule_identity_def)
  qed
qed

lemma profile_command_retained:
  assumes "hex_ok env" and "normalize_policies env policies profile root = Inr ns"
    and "cmd \<in> set (pe_blocked_commands (ns_profile ns))"
    and fresh: "\<And>r q. r \<in> set (ns_rules ns) \<Longrightarrow> cr_payload r = PCommand q \<Longrightarrow>
      parse_command_pattern cmd (pe_id (ns_profile ns)) = Inr p \<Longrightarrow>
      matcher_digest (env_sha256_hex env) (command_key q) = matcher_digest (env_sha256_hex env) (command_key p) \<Longrightarrow>
      q = p"
    and p: "parse_command_pattern cmd (pe_id (ns_profile ns)) = Inr p"
  shows "\<exists>r \<in> set (ns_rules ns). cr_payload r = PCommand p \<and> cr_effect r = EDeny"
  using assms(2)
proof (rule normalize_policies_cases)
  fix fp fpr al bl bs raw
  assume pr: "profile_rules env (ns_profile ns) = Inr fpr" and
    raw: "raw = controller_rules env @ concat fp @ fpr @ map fst al @ map fst bl @
      concat (map (\<lambda>(paths, actions). map fst paths @ actions) bs)"
    and rules: "ns_rules ns = sort_dedup_key cr_rule_id raw"
  define r where "r = command_rule env OProfile (pe_id (ns_profile ns)) EDeny p None ''command_blocked''"
  have "r \<in> set fpr"
    using pr p command_rules_complete [OF _ assms(3), of env OProfile "pe_id (ns_profile ns)" EDeny None "''command_blocked''"]
    by (auto simp: profile_rules_def rbind_eq_Inr_iff r_def)
  then have "r \<in> set raw" by (simp add: raw)
  moreover have src: "rule_of env (command_key p) r" unfolding r_def command_rule_def by (rule rule_of_make_rule)
  ultimately obtain r' where r': "r' \<in> set (ns_rules ns)" "rule_identity r' = rule_identity r" "good_rule env r'"
    and dig: "\<And>s'. rule_of env s' r' \<Longrightarrow>
      matcher_digest (env_sha256_hex env) s' = matcher_digest (env_sha256_hex env) (command_key p)"
    using rule_retained [OF assms(1,2) rules] by blast
  have i: "cr_origin_kind r' = OProfile" "cr_matcher r' = MCommand" "cr_effect r' = EDeny"
    using r'(2) by (simp_all add: rule_identity_def r_def command_rule_def)
  obtain s' where s': "rule_of env s' r'" "payload_ok r' s'"
    using r'(3) i(1) by (auto simp: good_rule_def)
  then obtain q where q: "cr_payload r' = PCommand q" "s' = command_key q"
    using i by (cases "cr_payload r'") (auto simp: payload_ok_def)
  then have "q = p" using fresh [OF r'(1) q(1) p] dig [OF s'(1)] by simp
  then show ?thesis using r'(1) q(1) i(3) by blast
qed

lemma normalize_policies_permute:
  assumes "mset policies' = mset policies" and "distinct (map po_id policies)"
  shows "normalize_policies env policies' profile root = normalize_policies env policies profile root"
proof -
  have ids: "check_policy_ids seen ps = Inr u \<longleftrightarrow> distinct (map po_id ps) \<and> set (map po_id ps) \<inter> set seen = {}"
    for seen ps u by (induction ps arbitrary: seen) auto
  have "distinct (map po_id policies')"
    using assms mset_eq_imp_distinct_iff by (metis mset_map)
  then have "check_policy_ids [] policies' = Inr ()" "check_policy_ids [] policies = Inr ()"
    using assms(2) ids by auto
  moreover have "sort_key po_id policies' = sort_key po_id policies"
    using assms \<open>distinct (map po_id policies')\<close>
    by (intro sort_key_inj_key_eq) (simp_all add: distinct_map)
  ultimately show ?thesis by (simp add: normalize_policies_def)
qed

end
