(* ===== verification/Execution_Plan.thy ===== *)
theory Execution_Plan
  imports Registry_Types "HOL-Library.Product_Lexorder"
begin

text \<open>
  The sealed plan (\<open>resolution/plan.rs\<close>) and its explanation (\<open>resolution/explain.rs\<close>): the canonical
  form of a requested operation, the sealing of a resolved command, which sorts and deduplicates every
  unordered part before the digest is taken, and the explanation built from a sealed plan. SHA-256 and
  the JSON serialiser of the digest payload are libraries: the parameters \<open>sha256_hex\<close> and \<open>to_json\<close>.
\<close>

section \<open>Data\<close>

datatype actor = Agent

record requested_operation =
  ro_program :: string
  ro_argv :: "string list"
  ro_unit_id :: string
  ro_verb :: string
  ro_explain_requested :: bool
  ro_execute_requested :: bool

definition requested_from_resolution :: "string \<Rightarrow> string \<Rightarrow> bool \<Rightarrow> bool \<Rightarrow> requested_operation" where
  "requested_from_resolution unit_id verb explain execute =
     \<lparr>ro_program = ''takogami'',
      ro_argv = [verb, unit_id] @ (if explain then [''--explain''] else []) @
        (if execute then [''--execute''] else []),
      ro_unit_id = unit_id, ro_verb = verb, ro_explain_requested = explain, ro_execute_requested = execute\<rparr>"

datatype executable_selection_source = WorkspaceRelative | PanoplyDetect | PathSearch

fun selection_source_str :: "executable_selection_source \<Rightarrow> string" where
  "selection_source_str WorkspaceRelative = ''workspace_relative''"
| "selection_source_str PanoplyDetect = ''panoply_detect''"
| "selection_source_str PathSearch = ''path''"

record executable_provenance =
  ep_selection_source :: executable_selection_source
  ep_tool_id :: "string option"
  ep_path_index :: "nat option"
  ep_display_path :: "string option"

record sealed_execution_plan =
  sp_resolved :: resolved_command
  sp_executable_path :: path
  sp_cwd_path :: path
  sp_source_manifest_paths :: "path list"
  sp_executable_provenance :: executable_provenance
  sp_diagnostics :: "diagnostic_record list"
  sp_plan_digest :: string

definition DIGEST_PAYLOAD_VERSION :: string where "DIGEST_PAYLOAD_VERSION = ''s4.1-v1''"

record digest_payload =
  dp_version :: string
  dp_resolved :: resolved_command
  dp_canonical_executable :: string
  dp_canonical_cwd :: string
  dp_canonical_source_manifests :: "string list"
  dp_executable_provenance :: executable_provenance
  dp_diagnostics :: "diagnostic_record list"

record digest_env =
  de_sha256_hex :: "string \<Rightarrow> string"
  de_to_json :: "digest_payload \<Rightarrow> string"

section \<open>Sealing\<close>

definition hex_digit :: "nat \<Rightarrow> char" where
  "hex_digit n = char_of (if n < 10 then 48 + n else 87 + n)"

definition hex_byte :: "char \<Rightarrow> string" where
  "hex_byte c = [hex_digit (byte c div 16), hex_digit (byte c mod 16)]"

text \<open>\<open>path_identity\<close> on Unix: the bytes of the path in lowercase hexadecimal.\<close>

definition path_identity :: "path \<Rightarrow> string" where
  "path_identity p = concat (map hex_byte (to_str p))"

definition compute_plan_digest ::
  "digest_env \<Rightarrow> resolved_command \<Rightarrow> path \<Rightarrow> path \<Rightarrow> path list \<Rightarrow> executable_provenance \<Rightarrow>
   diagnostic_record list \<Rightarrow> string" where
  "compute_plan_digest env resolved executable_path cwd_path manifests provenance diagnostics =
     (let payload = \<lparr>dp_version = DIGEST_PAYLOAD_VERSION, dp_resolved = resolved,
            dp_canonical_executable = path_identity executable_path,
            dp_canonical_cwd = path_identity cwd_path,
            dp_canonical_source_manifests = map path_identity manifests,
            dp_executable_provenance = provenance, dp_diagnostics = diagnostics\<rparr>
      in ''sha256:'' @ de_sha256_hex env (de_to_json env payload))"

text \<open>\<open>sort_by\<close> on a key followed by \<open>dedup\<close> on the whole values.\<close>

definition sort_by_dedup :: "('a \<Rightarrow> 'k::linorder) \<Rightarrow> 'a list \<Rightarrow> 'a list" where
  "sort_by_dedup key xs = remdups_adj (sort_key key xs)"

definition fingerprint_key :: "source_fingerprint \<Rightarrow> string \<times> string \<times> string" where
  "fingerprint_key f = (fp_path f, fp_algorithm f, fp_digest f)"

definition diagnostic_key :: "diagnostic_record \<Rightarrow> string \<times> string" where
  "diagnostic_key d = (diag_code d, diag_message d)"

definition normalize_resolved :: "resolved_command \<Rightarrow> resolved_command" where
  "normalize_resolved r =
     r\<lparr>res_native_manifests := sort_dedup (res_native_manifests r),
       res_env_keys := sort_dedup (res_env_keys r),
       res_policy_ids := sort_dedup (res_policy_ids r),
       res_registry_generation := (res_registry_generation r)\<lparr>rg_source_fingerprints :=
         sort_by_dedup fingerprint_key (rg_source_fingerprints (res_registry_generation r))\<rparr>\<rparr>"

definition seal ::
  "digest_env \<Rightarrow> resolved_command \<Rightarrow> path \<Rightarrow> path \<Rightarrow> path list \<Rightarrow> executable_provenance \<Rightarrow>
   diagnostic_record list \<Rightarrow> sealed_execution_plan" where
  "seal env resolved executable_path cwd_path source_manifest_paths provenance diagnostics =
     (let resolved = normalize_resolved resolved;
          manifests = sort_dedup source_manifest_paths;
          diagnostics = sort_by_dedup diagnostic_key diagnostics
      in \<lparr>sp_resolved = resolved, sp_executable_path = executable_path, sp_cwd_path = cwd_path,
          sp_source_manifest_paths = manifests, sp_executable_provenance = provenance,
          sp_diagnostics = diagnostics,
          sp_plan_digest = compute_plan_digest env resolved executable_path cwd_path manifests provenance
            diagnostics\<rparr>)"

section \<open>Explanation\<close>

datatype resolution_step =
    CorrelationIdStep | RegistryStep | UnitStep | DescriptorStep | EntrypointStep | CwdStep
  | ManifestsStep | BackendStep | ExecutableStep | ProfileStep | PoliciesStep | PlanStep

fun resolution_step_str :: "resolution_step \<Rightarrow> string" where
  "resolution_step_str CorrelationIdStep = ''correlation_id''"
| "resolution_step_str RegistryStep = ''registry''"
| "resolution_step_str UnitStep = ''unit''"
| "resolution_step_str DescriptorStep = ''descriptor''"
| "resolution_step_str EntrypointStep = ''entrypoint''"
| "resolution_step_str CwdStep = ''cwd''"
| "resolution_step_str ManifestsStep = ''manifests''"
| "resolution_step_str BackendStep = ''backend''"
| "resolution_step_str ExecutableStep = ''executable''"
| "resolution_step_str ProfileStep = ''profile''"
| "resolution_step_str PoliciesStep = ''policies''"
| "resolution_step_str PlanStep = ''plan''"

record selected_profile =
  sel_profile :: profile_record
  sel_policies :: "policy_record list"
  sel_policy_ids :: "string list"
  sel_policy_origins :: "(string \<times> string) list"

record command_explanation =
  ce_backend :: string
  ce_adapter :: string
  ce_program :: string
  ce_arguments :: "string list"
  ce_cwd :: string
  ce_env_keys :: "string list"
  ce_executable :: executable_provenance

record resolution_explanation =
  rx_session_id :: string
  rx_mode :: string
  rx_unit_id :: string
  rx_unit_verb :: string
  rx_descriptor :: string
  rx_descriptor_fingerprint :: string
  rx_native_manifests :: "string list"
  rx_command :: command_explanation
  rx_execution_class :: string
  rx_runtime_provider :: "string option"
  rx_profile_id :: string
  rx_policies :: "(string \<times> string) list"
  rx_registry_cache :: string
  rx_isolation_mode :: "string option"
  rx_isolation_jj :: "string option"
  rx_isolation_enforced :: bool
  rx_plan_digest :: "string option"
  rx_completed_steps :: "resolution_step list"
  rx_diagnostics :: "diagnostic_record list"

record partial_request_view =
  pq_unit_id :: string
  pq_verb :: string
  pq_requested_profile :: "string option"

record safe_entrypoint_view =
  sv_program :: string
  sv_execution_class :: string
  sv_runtime_provider :: "string option"

record partial_resolution_trace =
  pt_session_id :: string
  pt_mode :: string
  pt_request :: partial_request_view
  pt_completed_steps :: "resolution_step list"
  pt_freshness :: "string option"
  pt_unit :: "string option"
  pt_descriptor :: "string option"
  pt_entrypoint :: "safe_entrypoint_view option"
  pt_manifests :: "string list"
  pt_executable :: "executable_provenance option"
  pt_profile_id :: "string option"
  pt_policy_ids :: "string list"

definition explanation_from_plan ::
  "sealed_execution_plan \<Rightarrow> selected_profile \<Rightarrow> freshness \<Rightarrow> resolution_explanation" where
  "explanation_from_plan plan selected fresh =
     (let r = sp_resolved plan in
      \<lparr>rx_session_id = res_session_id r, rx_mode = ''plan_only'', rx_unit_id = res_unit_id r,
       rx_unit_verb = res_verb r, rx_descriptor = res_descriptor_path r,
       rx_descriptor_fingerprint = res_descriptor_fingerprint r,
       rx_native_manifests = res_native_manifests r,
       rx_command = \<lparr>ce_backend = res_backend r, ce_adapter = res_adapter r, ce_program = res_program r,
         ce_arguments = res_argv r, ce_cwd = res_cwd r, ce_env_keys = res_env_keys r,
         ce_executable = sp_executable_provenance plan\<rparr>,
       rx_execution_class = execution_class_str (res_execution_class r),
       rx_runtime_provider = res_runtime_provider r, rx_profile_id = pf_id (sel_profile selected),
       rx_policies = sel_policy_origins selected, rx_registry_cache = freshness_str fresh,
       rx_isolation_mode = pf_isolation_mode (sel_profile selected),
       rx_isolation_jj = pf_isolation_jj (sel_profile selected), rx_isolation_enforced = False,
       rx_plan_digest = Some (sp_plan_digest plan),
       rx_completed_steps = [CorrelationIdStep, RegistryStep, UnitStep, DescriptorStep, EntrypointStep,
         CwdStep, ManifestsStep, BackendStep, ExecutableStep, ProfileStep, PoliciesStep, PlanStep],
       rx_diagnostics = sp_diagnostics plan\<rparr>)"

definition bullet_list :: "string list \<Rightarrow> string list" where
  "bullet_list xs = (if xs = [] then [''  (none)''] else map (\<lambda>x. ''  - '' @ x) xs)"

definition or_none :: "string option \<Rightarrow> string" where
  "or_none x = (case x of Some s \<Rightarrow> s | None \<Rightarrow> ''none'')"

definition plan_only_line :: string where
  "plan_only_line = ''Plan only '' @ [CHR 0xE2, CHR 0x80, CHR 0x94] @ '' no process started''"

definition render_human_explanation :: "resolution_explanation \<Rightarrow> string" where
  "render_human_explanation ex =
     join [CHR 0x0A]
       ([plan_only_line, ''Session: '' @ rx_session_id ex, ''Unit: '' @ rx_unit_id ex,
         ''Verb: '' @ rx_unit_verb ex, ''Descriptor: '' @ rx_descriptor ex,
         ''Descriptor fingerprint: '' @ rx_descriptor_fingerprint ex,
         ''Registry freshness: '' @ rx_registry_cache ex, ''Native manifests:''] @
        bullet_list (rx_native_manifests ex) @
        [''Backend: '' @ ce_backend (rx_command ex), ''Adapter: '' @ ce_adapter (rx_command ex),
         ''Execution class: '' @ rx_execution_class ex,
         ''Runtime provider: '' @ or_none (rx_runtime_provider ex),
         ''Program: '' @ ce_program (rx_command ex),
         ''Executable selection: '' @
           selection_source_str (ep_selection_source (ce_executable (rx_command ex))),
         ''Arguments:''] @
        map (\<lambda>(i, a). ''  ['' @ show_nat i @ ''] '' @ a) (enumerate 0 (ce_arguments (rx_command ex))) @
        [''Working directory: '' @ ce_cwd (rx_command ex), ''Environment keys:''] @
        bullet_list (ce_env_keys (rx_command ex)) @
        [''Profile: '' @ rx_profile_id ex, ''Policies:''] @
        bullet_list (map (\<lambda>(i, origin). i @ '' ('' @ origin @ '')'') (rx_policies ex)) @
        [''Declared isolation: '' @ or_none (rx_isolation_mode ex) @ ''; jj='' @
           or_none (rx_isolation_jj ex) @ ''; enforced='' @
           (if rx_isolation_enforced ex then ''true'' else ''false'')] @
        (case rx_plan_digest ex of Some d \<Rightarrow> [''Plan digest: '' @ d] | None \<Rightarrow> []) @
        (if rx_diagnostics ex = [] then [''Diagnostics: none'']
         else ''Diagnostics:'' # map (\<lambda>d. ''  - '' @ diag_code d @ '': '' @ diag_message d) (rx_diagnostics ex)))"

definition optional_line :: "string \<Rightarrow> string option \<Rightarrow> string list" where
  "optional_line label x = (case x of Some s \<Rightarrow> [label @ s] | None \<Rightarrow> [])"

definition render_human_partial_explanation :: "partial_resolution_trace \<Rightarrow> string" where
  "render_human_partial_explanation ex =
     join [CHR 0x0A]
       ([''Resolution trace: '' @ pt_session_id ex,
         ''Request: '' @ pq_verb (pt_request ex) @ '' '' @ pq_unit_id (pt_request ex),
         ''Completed steps: '' @ join '', '' (map resolution_step_str (pt_completed_steps ex))] @
        optional_line ''Registry freshness: '' (pt_freshness ex) @
        optional_line ''Descriptor: '' (pt_descriptor ex) @
        (if pt_manifests ex \<noteq> [] then [''Manifests: '' @ join '', '' (pt_manifests ex)] else []) @
        optional_line ''Profile: '' (pt_profile_id ex))"

section \<open>Properties\<close>

lemma fingerprint_key_inj: "inj fingerprint_key"
  by (auto simp: inj_def fingerprint_key_def intro: source_fingerprint.equality)

lemma diagnostic_key_inj: "inj diagnostic_key"
  by (auto simp: inj_def diagnostic_key_def intro: diagnostic_record.equality)

lemma map_remdups_adj_inj: "inj f \<Longrightarrow> map f (remdups_adj xs) = remdups_adj (map f xs)"
  by (induction xs rule: remdups_adj.induct) (auto simp: inj_eq)

lemma sort_by_dedup_set:
  assumes "inj key" and "set xs = set ys"
  shows "sort_by_dedup key xs = sort_by_dedup key ys"
proof -
  have "map key (sort_by_dedup key zs) = sort_dedup (map key zs)" for zs
  proof -
    have "map key (sort_key key zs) = sort (map key zs)"
      by (rule properties_for_sort [symmetric]) simp_all
    then show ?thesis by (simp add: sort_by_dedup_def sort_dedup_def map_remdups_adj_inj [OF assms(1)])
  qed
  then have "map key (sort_by_dedup key xs) = map key (sort_by_dedup key ys)"
    using assms(2) sort_dedup_cong [of "map key xs" "map key ys"] by simp
  then show ?thesis using inj_map_eq_map [OF assms(1)] by blast
qed

text \<open>
  Sealing is insensitive to the order and the repetition of everything that has none: two
  resolutions that agree on their ordered parts and have the same sets of manifests, environment keys,
  policies, fingerprints, manifest paths and diagnostics seal to the same plan with the same digest.
\<close>

theorem seal_canonical:
  assumes "set (res_native_manifests r') = set (res_native_manifests r)"
    and "set (res_env_keys r') = set (res_env_keys r)" and "set (res_policy_ids r') = set (res_policy_ids r)"
    and "set (rg_source_fingerprints (res_registry_generation r')) =
      set (rg_source_fingerprints (res_registry_generation r))"
    and "rg_generated_at (res_registry_generation r') = rg_generated_at (res_registry_generation r)"
    and "r'\<lparr>res_native_manifests := [], res_env_keys := [], res_policy_ids := [],
         res_registry_generation := g\<rparr> =
       r\<lparr>res_native_manifests := [], res_env_keys := [], res_policy_ids := [], res_registry_generation := g\<rparr>"
    and "set manifests' = set manifests" and "set diagnostics' = set diagnostics"
  shows "seal env r' exe cwd manifests' prov diagnostics' = seal env r exe cwd manifests prov diagnostics"
proof -
  have gen: "(res_registry_generation r')\<lparr>rg_source_fingerprints := fs\<rparr> =
      (res_registry_generation r)\<lparr>rg_source_fingerprints := fs\<rparr>" for fs
    using assms(5) by (intro registry_generation.equality) simp_all
  have "normalize_resolved r' = normalize_resolved r"
    using assms(6) sort_dedup_cong [OF assms(1)] sort_dedup_cong [OF assms(2)] sort_dedup_cong [OF assms(3)]
      sort_by_dedup_set [OF fingerprint_key_inj assms(4)]
    unfolding normalize_resolved_def gen
    by (cases r; cases r') simp
  then show ?thesis
    by (simp add: seal_def sort_dedup_cong [OF assms(7)] sort_by_dedup_set [OF diagnostic_key_inj assms(8)])
qed

definition hex_encode :: "string \<Rightarrow> string" where
  "hex_encode s = concat (map hex_byte s)"

definition sample_digest_env :: digest_env where
  "sample_digest_env = \<lparr>de_sha256_hex = hex_encode, de_to_json = (\<lambda>p. dp_canonical_executable p)\<rparr>"

definition sample_resolved :: resolved_command where
  "sample_resolved =
     \<lparr>res_schema_version = ''0.1.0'', res_session_id = ''tkg_1'', res_unit_id = ''demo'', res_verb = ''build'',
      res_descriptor_path = ''demo/unit.toml'', res_descriptor_fingerprint = ''sha256:00'',
      res_native_manifests = [], res_backend = ''moon'', res_adapter = ''moon'', res_program = ''moon'',
      res_argv = [''run'', ''demo:build''], res_cwd = ''/ws'', res_env_keys = [], res_profile_id = ''dev'',
      res_policy_ids = [], res_registry_generation = \<lparr>rg_generated_at = ''t'', rg_source_fingerprints = []\<rparr>,
      res_execution_class = Direct, res_runtime_provider = None\<rparr>"

definition sample_provenance :: executable_provenance where
  "sample_provenance = \<lparr>ep_selection_source = PathSearch, ep_tool_id = None, ep_path_index = Some 0,
     ep_display_path = None\<rparr>"

theorem seal_canonical_witness:
  "seal sample_digest_env (sample_resolved\<lparr>res_policy_ids := [''b'', ''a'', ''b'']\<rparr>) [RootDir] [RootDir] []
     sample_provenance [] =
   seal sample_digest_env (sample_resolved\<lparr>res_policy_ids := [''a'', ''b'']\<rparr>) [RootDir] [RootDir] []
     sample_provenance []"
  by (rule seal_canonical [where g = "res_registry_generation sample_resolved"]) auto

fun hex_value :: "char \<Rightarrow> nat" where
  "hex_value c = (if byte c < 58 then byte c - 48 else byte c - 87)"

fun hex_decode :: "string \<Rightarrow> string" where
  "hex_decode (a # b # rest) = char_of (16 * hex_value a + hex_value b) # hex_decode rest"
| "hex_decode _ = []"

lemma hex_value_digit: "n < 16 \<Longrightarrow> hex_value (hex_digit n) = n"
  by (simp add: hex_digit_def byte_def)

lemma hex_decode_encode: "hex_decode (concat (map hex_byte s)) = s"
proof (induction s)
  case (Cons c s)
  have "byte c < 256" by (simp add: byte_def)
  then have "16 * hex_value (hex_digit (byte c div 16)) + hex_value (hex_digit (byte c mod 16)) = byte c"
    by (simp add: hex_value_digit del: hex_value.simps)
  with Cons show ?case by (simp add: hex_byte_def byte_def del: hex_value.simps)
qed simp

text \<open>
  The identity of a path in the digest payload is reversible: the path string can be decoded from it,
  so distinct paths have distinct identities.
\<close>

theorem path_identity_reversible:
  "hex_decode (path_identity p) = to_str p \<and> (path_identity p = path_identity q \<longleftrightarrow> to_str p = to_str q)"
  unfolding path_identity_def using hex_decode_encode by metis

end
