(* ===== verification/Policy_Evaluate.thy ===== *)
theory Policy_Evaluate
  imports Policy_Normalize Execution_Plan
begin

text \<open>
  Policy evaluation (\<open>policy/evaluate.rs\<close>, \<open>policy/explain.rs\<close>): the consistency check of the handoff,
  the request layer and the child layer, their reduction with deny over gate over allow and deny by
  default, and the merge into one decision. Only a decision that both layers allow yields an
  authorised plan.
\<close>

section \<open>Data\<close>

record policy_evaluation_input =
  pin_actor :: actor
  pin_request :: requested_operation
  pin_plan :: sealed_execution_plan
  pin_profile :: profile_record
  pin_policies :: "policy_record list"
  pin_policy_origins :: "(string \<times> string) list"
  pin_policy_root :: path

datatype policy_layer = RequestLayer | ChildLayer

record policy_layer_result =
  lr_layer :: policy_layer
  lr_decision :: string
  lr_command_authorized :: bool
  lr_matched_rules :: "string list"
  lr_primary_rule :: "string option"
  lr_intents :: "string list"

record policy_evaluation_explanation =
  px_actor :: string
  px_profile_id :: string
  px_plan_digest :: string
  px_precedence :: string
  px_request :: policy_layer_result
  px_child :: policy_layer_result
  px_effective_decision :: policy_decision
  px_execution_authorized :: bool
  px_approval_transport :: string

record policy_contract_error =
  pce_kind :: policy_contract_kind
  pce_message :: string
  pce_policy_id :: "string option"
  pce_field :: "string option"
  pce_session_id :: string
  pce_plan_digest :: string

definition contract_error_from :: "raw_policy_error \<Rightarrow> string \<Rightarrow> string \<Rightarrow> policy_contract_error" where
  "contract_error_from e session_id plan_digest =
     \<lparr>pce_kind = rpe_kind e, pce_message = rpe_message e, pce_policy_id = rpe_policy_id e,
      pce_field = rpe_field e, pce_session_id = session_id, pce_plan_digest = plan_digest\<rparr>"

record authorized_execution_plan =
  ap_plan :: sealed_execution_plan
  ap_request :: requested_operation
  ap_profile_id :: string
  ap_policy_decision :: policy_decision
  ap_policy_explanation :: policy_evaluation_explanation
  ap_policy_root :: path

record rejected_policy_outcome =
  rj_plan :: sealed_execution_plan
  rj_decision :: policy_decision
  rj_explanation :: policy_evaluation_explanation
  rj_execution_requested :: bool

datatype policy_evaluation_result =
    ContractFailure policy_contract_error
  | Rejected rejected_policy_outcome
  | Authorized authorized_execution_plan

section \<open>Consistency of the handoff\<close>

definition mismatch :: "string \<Rightarrow> string \<Rightarrow> raw_policy_error" where
  "mismatch message field = raw_error PolicyInputMismatch message None (Some field)"

definition assert_input_consistency :: "fsys \<Rightarrow> policy_evaluation_input \<Rightarrow> (raw_policy_error, unit) result" where
  "assert_input_consistency fs input =
     (let resolved = sp_resolved (pin_plan input);
          request = pin_request input;
          has_explain = ''--explain'' \<in> set (ro_argv request);
          has_execute = ''--execute'' \<in> set (ro_argv request);
          canonical = requested_from_resolution (res_unit_id resolved) (res_verb resolved)
            (ro_explain_requested request) (ro_execute_requested request);
          selected_ids = map po_id (pin_policies input);
          origin_ids = map fst (pin_policy_origins input);
          root = pin_policy_root input
      in
      if pin_actor input \<noteq> Agent then Inl (mismatch ''actor must be agent'' ''actor'')
      else if ro_program request \<noteq> ''takogami'' then
        Inl (mismatch ''request program must be takogami'' ''request.program'')
      else if ro_unit_id request \<noteq> res_unit_id resolved then
        Inl (mismatch ''request unit_id mismatch between plan and handoff'' ''request.unit_id'')
      else if ro_verb request \<noteq> res_verb resolved then
        Inl (mismatch ''request verb mismatch between plan and handoff'' ''request.verb'')
      else if ro_explain_requested request \<noteq> has_explain \<or> ro_execute_requested request \<noteq> has_execute then
        Inl (mismatch ''request boolean flags disagree with argv tokens'' ''request.argv'')
      else if ro_argv request \<noteq> ro_argv canonical then
        Inl (mismatch ''request argv is not the canonical [verb, unit_id, --explain?, --execute?] view''
          ''request.argv'')
      else if pf_id (pin_profile input) \<noteq> res_profile_id resolved then
        Inl (mismatch ''profile id mismatch between plan and handoff'' ''profile_id'')
      else if \<not> insert_all_unique [] selected_ids then
        Inl (mismatch ''selected policy record IDs are not unique'' ''policies'')
      else if \<not> insert_all_unique [] origin_ids then
        Inl (mismatch ''policy origin IDs are not unique'' ''policy_origins'')
      else if sort selected_ids \<noteq> sort (res_policy_ids resolved) \<or> sort selected_ids \<noteq> sort origin_ids then
        Inl (mismatch ''resolved.policy_ids, selected policy IDs, and origin IDs must be byte-equal after sorting''
          ''policy_ids'')
      else if root = [] \<or> \<not> is_absolute root then
        Inl (mismatch ''policy_root must be a non-empty absolute path'' ''policy_root'')
      else if canonicalize fs root \<noteq> Inr root then
        Inl (mismatch ''policy_root must remain the canonical resolver root'' ''policy_root'')
      else Inr ())"

section \<open>Layers\<close>

definition min_id :: "string list \<Rightarrow> string option" where
  "min_id ids = (case ids of [] \<Rightarrow> None | x # xs \<Rightarrow> Some (fold min xs x))"

definition reduce_layer ::
  "policy_layer \<Rightarrow> canonical_rule list \<Rightarrow> string list \<Rightarrow> policy_layer_result" where
  "reduce_layer layer matched_in intents =
     (let matched = sort_dedup_key cr_rule_id matched_in;
          has_deny = list_ex (\<lambda>r. cr_effect r = EDeny) matched;
          has_gate = list_ex (\<lambda>r. cr_effect r = EGate) matched;
          has_command_allow = list_ex (\<lambda>r. cr_effect r = EAllow \<and> cr_matcher r = MCommand) matched;
          (decision, primary) =
            (if has_deny then
               (''deny'', min_id (map cr_rule_id (filter (\<lambda>r. cr_effect r = EDeny) matched)))
             else if has_gate then
               (''gate'', min_id (map cr_rule_id (filter (\<lambda>r. cr_effect r = EGate) matched)))
             else if has_command_allow then
               (''allow'', min_id (map cr_rule_id
                  (filter (\<lambda>r. cr_effect r = EAllow \<and> cr_matcher r = MCommand) matched)))
             else (''deny'', Some ''default_deny''))
      in \<lparr>lr_layer = layer, lr_decision = decision, lr_command_authorized = has_command_allow,
          lr_matched_rules = map cr_rule_id matched, lr_primary_rule = primary, lr_intents = intents\<rparr>)"

definition command_matches :: "canonical_rule \<Rightarrow> string \<Rightarrow> string list \<Rightarrow> bool" where
  "command_matches r program args =
     (case cr_payload r of PCommand pattern \<Rightarrow> matches_command pattern program args | _ \<Rightarrow> False)"

definition request_matched :: "requested_operation \<Rightarrow> canonical_rule list \<Rightarrow> canonical_rule list" where
  "request_matched request rules =
     filter (\<lambda>r. cr_matcher r = MCommand \<and> command_matches r (ro_program request) (ro_argv request)) rules"

definition evaluate_request_layer :: "requested_operation \<Rightarrow> canonical_rule list \<Rightarrow> policy_layer_result" where
  "evaluate_request_layer request rules = reduce_layer RequestLayer (request_matched request rules) []"

definition push_semantic :: "canonical_rule list \<Rightarrow> string \<Rightarrow> canonical_rule list" where
  "push_semantic rules action = filter (\<lambda>r. cr_payload r = PSemanticAction action) rules"

definition push_capability :: "canonical_rule list \<Rightarrow> string \<Rightarrow> canonical_rule list" where
  "push_capability rules cap = filter (\<lambda>r. cr_payload r = PCapability cap) rules"

definition push_remote :: "canonical_rule list \<Rightarrow> canonical_rule list" where
  "push_remote rules = filter (\<lambda>r. cr_matcher r = MRemoteWrite) rules"

definition push_rules_by_id :: "canonical_rule list \<Rightarrow> string list \<Rightarrow> canonical_rule list" where
  "push_rules_by_id rules ids =
     concat (map (\<lambda>i. case find (\<lambda>r. cr_rule_id r = i) rules of Some r \<Rightarrow> [r] | None \<Rightarrow> []) ids)"

definition push_controller_path_deny :: "canonical_rule list \<Rightarrow> canonical_rule list" where
  "push_controller_path_deny rules =
     filter (\<lambda>r. cr_matcher r = MPath \<and> cr_effect r = EDeny \<and> cr_safe_reason r = ''path_out_of_scope'') rules"

fun intent_rules :: "canonical_rule list \<Rightarrow> intent \<Rightarrow> canonical_rule list" where
  "intent_rules rules ShellWrapper = push_semantic rules ''shell_wrapper''"
| "intent_rules rules SecretTool =
     push_capability rules ''no_secret_read'' @ push_capability rules ''secret_access''"
| "intent_rules rules Install = push_capability rules ''no_global_install''"
| "intent_rules rules ShellMutation = push_capability rules ''no_shell_mutation''"
| "intent_rules rules RemoteWriteIntent = push_remote rules"
| "intent_rules rules GhPublish = push_remote rules"
| "intent_rules rules DestructiveGit = push_semantic rules ''destructive_git_cleanup''"
| "intent_rules rules _ = []"

definition path_fact_rules ::
  "fsys \<Rightarrow> policy_evaluation_input \<Rightarrow> normalized_policy_set \<Rightarrow> path \<Rightarrow> canonical_rule list" where
  "path_fact_rules fs input ns p =
     (case normalize_path_fact fs p (sp_cwd_path (pin_plan input)) (pin_policy_root input) of
        Inr rel \<Rightarrow>
          (case evaluate_path_against_scopes rel (ns_allowed_path_patterns ns) (ns_blocked_path_patterns ns) of
             AllowPath ids \<Rightarrow> push_rules_by_id (ns_rules ns) ids
           | BlockedPath ids \<Rightarrow> push_rules_by_id (ns_rules ns) ids
           | _ \<Rightarrow> push_controller_path_deny (ns_rules ns))
      | Inl Escape \<Rightarrow> push_controller_path_deny (ns_rules ns)
      | Inl OutOfScope \<Rightarrow> push_controller_path_deny (ns_rules ns)
      | Inl _ \<Rightarrow> [])"

definition path_facts :: "policy_evaluation_input \<Rightarrow> path list" where
  "path_facts input =
     [sp_cwd_path (pin_plan input)] @ sp_source_manifest_paths (pin_plan input) @
     (case extract_path_operands (res_program (sp_resolved (pin_plan input)))
             (res_argv (sp_resolved (pin_plan input))) of
        Inr ops \<Rightarrow> ops
      | Inl _ \<Rightarrow> [])"

definition child_matched ::
  "fsys \<Rightarrow> policy_evaluation_input \<Rightarrow> normalized_policy_set \<Rightarrow> canonical_rule list" where
  "child_matched fs input ns =
     (let resolved = sp_resolved (pin_plan input);
          program = res_program resolved;
          args = res_argv resolved;
          rules = ns_rules ns
      in filter (\<lambda>r. command_matches r program args) rules @
         concat (map (intent_rules rules) (classify_child program args)) @
         (case extract_path_operands program args of
            Inr _ \<Rightarrow> []
          | Inl _ \<Rightarrow> push_controller_path_deny rules) @
         concat (map (path_fact_rules fs input ns) (path_facts input)))"

definition evaluate_child_layer ::
  "fsys \<Rightarrow> policy_evaluation_input \<Rightarrow> normalized_policy_set \<Rightarrow> policy_layer_result" where
  "evaluate_child_layer fs input ns =
     reduce_layer ChildLayer (child_matched fs input ns)
       (map intent_str (sort_dedup (classify_child (res_program (sp_resolved (pin_plan input)))
          (res_argv (sp_resolved (pin_plan input))))))"

section \<open>The decision\<close>

definition effect_from_decision :: "string \<Rightarrow> effect" where
  "effect_from_decision d = (if d = ''allow'' then EAllow else if d = ''gate'' then EGate else EDeny)"

definition strongest :: "effect list \<Rightarrow> effect" where
  "strongest effects =
     (if EDeny \<in> set effects then EDeny else if EGate \<in> set effects then EGate else EAllow)"

definition primary_candidate :: "string \<Rightarrow> policy_layer_result \<Rightarrow> string list" where
  "primary_candidate want l =
     (if lr_decision l = want then (case lr_primary_rule l of Some p \<Rightarrow> [p] | None \<Rightarrow> []) else [])"

definition pick_primary :: "effect \<Rightarrow> policy_layer_result \<Rightarrow> policy_layer_result \<Rightarrow> string" where
  "pick_primary eff request child =
     (let want = effect_str eff in
      case sort (primary_candidate want request @ primary_candidate want child) of
        [] \<Rightarrow> ''default_deny''
      | p # _ \<Rightarrow> p)"

definition lookup_rule ::
  "canonical_rule list \<Rightarrow> string \<Rightarrow> string \<Rightarrow> string \<Rightarrow> string \<times> string \<times> string \<times> string" where
  "lookup_rule rules primary default_reason default_approval =
     (case find (\<lambda>r. cr_rule_id r = primary) rules of
        Some r \<Rightarrow> (cr_origin_id r, cr_rule_id r,
          (case cr_required_approval r of Some a \<Rightarrow> a | None \<Rightarrow> default_approval), cr_safe_reason r)
      | None \<Rightarrow> (''controller'', primary, default_approval, default_reason))"

definition build_public_decision ::
  "effect \<Rightarrow> policy_layer_result \<Rightarrow> policy_layer_result \<Rightarrow> canonical_rule list \<Rightarrow> policy_decision" where
  "build_public_decision eff request child rules =
     (let all_matched = sort_dedup (lr_matched_rules request @ lr_matched_rules child) in
      case eff of
        EAllow \<Rightarrow> Allow all_matched
      | EGate \<Rightarrow>
          (let primary = pick_primary EGate request child;
               (pid, rid, approval, why) = lookup_rule rules primary ''approval_required'' ''human_approval''
           in Gate pid rid why approval)
      | EDeny \<Rightarrow>
          (let primary = pick_primary EDeny request child in
           if primary = ''default_deny'' then Deny ''controller'' ''default_deny'' ''no_matching_allow''
           else (let (pid, rid, _, why) = lookup_rule rules primary ''command_blocked'' ''human_approval''
                 in Deny pid rid why)))"

definition evaluate_normalized ::
  "policy_env \<Rightarrow> policy_evaluation_input \<Rightarrow> normalized_policy_set \<Rightarrow> policy_evaluation_result" where
  "evaluate_normalized env input ns =
     (let request_layer = evaluate_request_layer (pin_request input) (ns_rules ns);
          child_layer = evaluate_child_layer (env_fs env) input ns;
          effective = strongest [effect_from_decision (lr_decision request_layer),
            effect_from_decision (lr_decision child_layer)];
          decision = build_public_decision effective request_layer child_layer (ns_rules ns);
          dual_allow = (lr_decision request_layer = ''allow'' \<and> lr_decision child_layer = ''allow'' \<and>
            is_Allow decision);
          allow_matched = (case decision of Allow ms \<Rightarrow> (if dual_allow then ms else []) | _ \<Rightarrow> []);
          explanation = \<lparr>px_actor = ''agent'', px_profile_id = pf_id (pin_profile input),
            px_plan_digest = sp_plan_digest (pin_plan input), px_precedence = ''deny>gate>allow'',
            px_request = request_layer, px_child = child_layer, px_effective_decision = decision,
            px_execution_authorized = dual_allow, px_approval_transport = ''unavailable''\<rparr>
      in if dual_allow then
           Authorized \<lparr>ap_plan = pin_plan input, ap_request = pin_request input,
             ap_profile_id = pf_id (pin_profile input), ap_policy_decision = Allow allow_matched,
             ap_policy_explanation = explanation, ap_policy_root = pin_policy_root input\<rparr>
         else
           Rejected \<lparr>rj_plan = pin_plan input, rj_decision = decision, rj_explanation = explanation,
             rj_execution_requested = ro_execute_requested (pin_request input)\<rparr>)"

definition evaluate_policy :: "policy_env \<Rightarrow> policy_evaluation_input \<Rightarrow> policy_evaluation_result" where
  "evaluate_policy env input =
     (let session_id = res_session_id (sp_resolved (pin_plan input));
          plan_digest = sp_plan_digest (pin_plan input)
      in case assert_input_consistency (env_fs env) input of
           Inl e \<Rightarrow> ContractFailure (contract_error_from e session_id plan_digest)
         | Inr _ \<Rightarrow>
             (case normalize_policies env (pin_policies input) (pin_profile input) (pin_policy_root input) of
                Inl e \<Rightarrow> ContractFailure (contract_error_from e session_id plan_digest)
              | Inr ns \<Rightarrow> evaluate_normalized env input ns))"

definition decision_word :: "policy_decision \<Rightarrow> string" where
  "decision_word d = (case d of Allow _ \<Rightarrow> ''allow'' | Gate _ _ _ _ \<Rightarrow> ''gate'' | Deny _ _ _ \<Rightarrow> ''deny'')"

definition render_human_policy_section :: "policy_evaluation_explanation \<Rightarrow> string" where
  "render_human_policy_section ex =
     (let rules = sort_dedup (lr_matched_rules (px_request ex) @ lr_matched_rules (px_child ex)) in
      join [CHR 0x0A]
        ([''Policy:'', ''  actor: '' @ px_actor ex, ''  profile: '' @ px_profile_id ex,
          ''  precedence: deny > gate > allow'', ''  request: '' @ lr_decision (px_request ex),
          ''  child: '' @ lr_decision (px_child ex),
          ''  effective: '' @ decision_word (px_effective_decision ex)] @
         (if rules \<noteq> [] then [''  matched rules: '' @ join '', '' rules] else []) @
         [''  execution authorized: '' @ (if px_execution_authorized ex then ''yes'' else ''no''),
          ''  approval transport: '' @ px_approval_transport ex]))"

section \<open>Reduction refines a verdict on sets of rules\<close>

text \<open>The specification: deny over gate over an explicit command allow, deny by default.\<close>

definition verdict :: "canonical_rule set \<Rightarrow> effect" where
  "verdict R =
     (if \<exists>r \<in> R. cr_effect r = EDeny then EDeny
      else if \<exists>r \<in> R. cr_effect r = EGate then EGate
      else if \<exists>r \<in> R. cr_effect r = EAllow \<and> cr_matcher r = MCommand then EAllow
      else EDeny)"

lemma reduce_layer_matched:
  assumes "inj_on cr_rule_id (set matched)"
  shows "set (sort_dedup_key cr_rule_id matched) = set matched"
proof
  show "set (sort_dedup_key cr_rule_id matched) \<subseteq> set matched" by (rule set_sort_dedup_key_subset)
  show "set matched \<subseteq> set (sort_dedup_key cr_rule_id matched)"
  proof
    fix r assume r: "r \<in> set matched"
    obtain r' where r': "r' \<in> set (sort_dedup_key cr_rule_id matched)" "cr_rule_id r' = cr_rule_id r"
      using sort_dedup_key_represents [OF r, of cr_rule_id] by (elim bexE)
    then have "r' \<in> set matched" using set_sort_dedup_key_subset [of cr_rule_id matched] by (elim subsetD)
    then have "r' = r" using inj_onD [OF assms r'(2)] r by blast
    with r' show "r \<in> set (sort_dedup_key cr_rule_id matched)" by simp
  qed
qed

lemma reduce_layer_decision:
  assumes "inj_on cr_rule_id (set matched)"
  shows "lr_decision (reduce_layer layer matched intents) = effect_str (verdict (set matched))"
  unfolding reduce_layer_def Let_def verdict_def list_ex_iff reduce_layer_matched [OF assms]
  by auto

lemma reduce_layer_rules:
  "lr_matched_rules (reduce_layer layer matched intents) = sort_dedup (map cr_rule_id matched)"
  by (simp add: reduce_layer_def Let_def map_sort_dedup_key split: prod.split)

lemma effect_from_decision_str [simp]: "effect_from_decision (effect_str e) = e"
  by (cases e) (simp_all add: effect_from_decision_def)

lemma is_Allow_build: "is_Allow (build_public_decision eff request child rules) \<longleftrightarrow> eff = EAllow"
  by (cases eff) (simp_all add: build_public_decision_def Let_def split: prod.split)

lemma effect_str_allow [simp]: "effect_str e = ''allow'' \<longleftrightarrow> e = EAllow"
  by (cases e) simp_all

lemma verdict_allow_iff:
  "verdict R = EAllow \<longleftrightarrow>
     (\<forall>r \<in> R. cr_effect r = EAllow) \<and> (\<exists>r \<in> R. cr_effect r = EAllow \<and> cr_matcher r = MCommand)"
  using effect.exhaust by (auto simp: verdict_def)

lemma verdict_denyI: "r \<in> R \<Longrightarrow> cr_effect r = EDeny \<Longrightarrow> verdict R = EDeny"
  by (auto simp: verdict_def)

lemma find_in_set: "find P xs = Some x \<Longrightarrow> x \<in> set xs \<and> P x"
  by (auto simp: find_Some_iff)

lemma push_rules_by_id_subset: "set (push_rules_by_id rules ids) \<subseteq> set rules"
proof
  fix r assume "r \<in> set (push_rules_by_id rules ids)"
  then obtain i where "find (\<lambda>r. cr_rule_id r = i) rules = Some r"
    by (auto simp: push_rules_by_id_def split: option.split_asm)
  then show "r \<in> set rules" using find_in_set by fast
qed

lemma intent_rules_subset: "set (intent_rules rules i) \<subseteq> set rules"
  by (cases i) (auto simp: push_semantic_def push_capability_def push_remote_def)

lemma controller_deny_subset: "set (push_controller_path_deny rules) \<subseteq> set rules"
  by (auto simp: push_controller_path_deny_def)

lemma path_fact_rules_subset: "set (path_fact_rules fs input ns p) \<subseteq> set (ns_rules ns)"
  unfolding path_fact_rules_def
  by (simp add: push_rules_by_id_subset controller_deny_subset split: sum.split path_fact_result.split)

text \<open>The sources of a match in the child layer.\<close>

lemma child_matched_iff:
  "r \<in> set (child_matched fs input ns) \<longleftrightarrow>
     (let program = res_program (sp_resolved (pin_plan input)); args = res_argv (sp_resolved (pin_plan input)) in
      r \<in> set (ns_rules ns) \<and> command_matches r program args \<or>
      (\<exists>i \<in> set (classify_child program args). r \<in> set (intent_rules (ns_rules ns) i)) \<or>
      extract_path_operands program args = Inl () \<and> r \<in> set (push_controller_path_deny (ns_rules ns)) \<or>
      (\<exists>p \<in> set (path_facts input). r \<in> set (path_fact_rules fs input ns p)))"
  unfolding child_matched_def Let_def by (auto split: sum.splits)

lemma child_matched_subset: "set (child_matched fs input ns) \<subseteq> set (ns_rules ns)"
  using intent_rules_subset [of "ns_rules ns"] path_fact_rules_subset [of fs input ns]
    controller_deny_subset [of "ns_rules ns"]
  unfolding subset_iff child_matched_iff Let_def by blast

lemma intent_matched:
  "i \<in> set (classify_child (res_program (sp_resolved (pin_plan input))) (res_argv (sp_resolved (pin_plan input)))) \<Longrightarrow>
   r \<in> set (intent_rules (ns_rules ns) i) \<Longrightarrow> r \<in> set (child_matched fs input ns)"
  unfolding child_matched_iff Let_def by blast

lemma longest_existing_error: "longest_existing fs p parts = Inl e \<Longrightarrow> e = Escape"
proof (induction fs p parts rule: longest_existing.induct)
  case (1 fs p parts)
  then show ?case
    by (subst (asm) (2) longest_existing.simps) (auto split: path_existence.splits option.splits)
qed

lemma normalize_path_fact_error: "normalize_path_fact fs p cwd root = Inl e \<Longrightarrow> e = Escape"
  by (auto simp: normalize_path_fact_def canonicalize_longest_def Let_def rbind_eq_Inl_iff map_err_def
      split: option.splits if_splits sum.splits dest: longest_existing_error)

section \<open>The interface of the normaliser\<close>

text \<open>
  What the evaluator relies on of the rules it is given: identifiers are unique, the controller's
  wrapper and scope denials are there, a profile without secret access denies secret tools, and the
  identifier of a blocked pattern leads to a denial.
\<close>

locale rule_provider =
  fixes provide :: "policy_env \<Rightarrow> policy_record list \<Rightarrow> profile_record \<Rightarrow> path \<Rightarrow>
      (raw_policy_error, normalized_policy_set) result"
  assumes ids: "provide env ps pf root = Inr ns \<Longrightarrow> distinct (map cr_rule_id (ns_rules ns))"
    and wrapper: "hex_ok env \<Longrightarrow> provide env ps pf root = Inr ns \<Longrightarrow>
      \<exists>r \<in> set (ns_rules ns). cr_payload r = PSemanticAction ''shell_wrapper'' \<and> cr_effect r = EDeny"
    and scope: "hex_ok env \<Longrightarrow> provide env ps pf root = Inr ns \<Longrightarrow>
      \<exists>r \<in> set (ns_rules ns). cr_matcher r = MPath \<and> cr_effect r = EDeny \<and> cr_safe_reason r = ''path_out_of_scope''"
    and secret: "hex_ok env \<Longrightarrow> provide env ps pf root = Inr ns \<Longrightarrow>
      pf_rest pf ''secret_access'' \<noteq> Some (JBool True) \<Longrightarrow>
      \<exists>r \<in> set (ns_rules ns). cr_payload r = PCapability ''secret_access'' \<and> cr_effect r = EDeny"
    and blocked: "hex_ok env \<Longrightarrow> provide env ps pf root = Inr ns \<Longrightarrow> b \<in> set (ns_blocked_path_patterns ns) \<Longrightarrow>
      \<exists>r \<in> set (ns_rules ns). cr_rule_id r = cpp_rule_id b \<and> cr_effect r = EDeny"
begin

lemma matched_inj:
  assumes "provide env ps pf root = Inr ns" and "set matched \<subseteq> set (ns_rules ns)"
  shows "inj_on cr_rule_id (set matched)"
proof -
  have "inj_on cr_rule_id (set (ns_rules ns))" using ids [OF assms(1)] by (simp add: distinct_map)
  then show ?thesis using assms(2) by (rule inj_on_subset)
qed

lemma request_decision:
  "provide env ps pf root = Inr ns \<Longrightarrow>
   lr_decision (evaluate_request_layer request (ns_rules ns)) =
     effect_str (verdict (set (request_matched request (ns_rules ns))))"
  unfolding evaluate_request_layer_def
  by (intro reduce_layer_decision matched_inj) (auto simp: request_matched_def)

lemma child_decision:
  assumes "provide env ps pf root = Inr ns"
  shows "lr_decision (evaluate_child_layer fs input ns) = effect_str (verdict (set (child_matched fs input ns)))"
  unfolding evaluate_child_layer_def
  by (rule reduce_layer_decision [OF matched_inj [OF assms child_matched_subset]])

lemma wrapper_denied:
  assumes "hex_ok env" and "provide env ps pf root = Inr ns"
    and "basename (res_program (sp_resolved (pin_plan input))) \<in> set WRAPPERS"
  shows "verdict (set (child_matched fs input ns)) = EDeny"
proof -
  obtain r where "r \<in> set (ns_rules ns)" "cr_payload r = PSemanticAction ''shell_wrapper''" "cr_effect r = EDeny"
    using wrapper [OF assms(1,2)] by blast
  moreover from this have "r \<in> set (intent_rules (ns_rules ns) ShellWrapper)" by (simp add: push_semantic_def)
  ultimately show ?thesis
    using intent_matched classify_child_wrapper [OF assms(3)] verdict_denyI by blast
qed

lemma secret_denied:
  assumes "hex_ok env" and "provide env ps pf root = Inr ns"
    and "pf_rest pf ''secret_access'' \<noteq> Some (JBool True)"
    and "basename (res_program (sp_resolved (pin_plan input))) \<in> set SECRET_TOOLS"
  shows "verdict (set (child_matched fs input ns)) = EDeny"
proof -
  obtain r where "r \<in> set (ns_rules ns)" "cr_payload r = PCapability ''secret_access''" "cr_effect r = EDeny"
    using secret [OF assms(1-3)] by blast
  moreover from this have "r \<in> set (intent_rules (ns_rules ns) SecretTool)" by (simp add: push_capability_def)
  ultimately show ?thesis
    using intent_matched classify_child_secret [OF assms(4)] verdict_denyI by blast
qed

lemma scope_denied:
  assumes "hex_ok env" and "provide env ps pf root = Inr ns"
    and "set (push_controller_path_deny (ns_rules ns)) \<subseteq> R"
  shows "verdict R = EDeny"
proof -
  obtain r where "r \<in> set (push_controller_path_deny (ns_rules ns))" "cr_effect r = EDeny"
    using scope [OF assms(1,2)] by (auto simp: push_controller_path_deny_def)
  then show ?thesis using assms(3) verdict_denyI by blast
qed

lemma operands_required:
  assumes "hex_ok env" and "provide env ps pf root = Inr ns"
    and "verdict (set (child_matched fs input ns)) \<noteq> EDeny"
  shows "\<exists>ops. extract_path_operands (res_program (sp_resolved (pin_plan input)))
      (res_argv (sp_resolved (pin_plan input))) = Inr ops"
proof (rule ccontr)
  assume "\<not> ?thesis"
  then obtain u where "extract_path_operands (res_program (sp_resolved (pin_plan input)))
      (res_argv (sp_resolved (pin_plan input))) = Inl u" by (meson sum.exhaust)
  then have "set (push_controller_path_deny (ns_rules ns)) \<subseteq> set (child_matched fs input ns)"
    by (auto simp: child_matched_iff Let_def)
  then show False using scope_denied [OF assms(1,2)] assms(3) by blast
qed

lemma blocked_found:
  assumes "hex_ok env" and "provide env ps pf root = Inr ns" and "b \<in> set (ns_blocked_path_patterns ns)"
    and "cpp_rule_id b \<in> set found"
  shows "\<exists>r \<in> set (push_rules_by_id (ns_rules ns) found). cr_effect r = EDeny"
proof -
  obtain r where r: "r \<in> set (ns_rules ns)" "cr_rule_id r = cpp_rule_id b" "cr_effect r = EDeny"
    using blocked [OF assms(1-3)] by blast
  then obtain r' where r': "find (\<lambda>r. cr_rule_id r = cpp_rule_id b) (ns_rules ns) = Some r'"
    by (cases "find (\<lambda>r. cr_rule_id r = cpp_rule_id b) (ns_rules ns)") (auto simp: find_None_iff)
  then have "r' = r"
    using r ids [OF assms(2)] find_in_set [OF r'] inj_onD unfolding distinct_map by metis
  then show ?thesis using r(3) r' assms(4) by (force simp: push_rules_by_id_def)
qed

lemma facts_confined:
  assumes "hex_ok env" and "provide env ps pf root = Inr ns"
    and "verdict (set (child_matched fs input ns)) \<noteq> EDeny" and "p \<in> set (path_facts input)"
  shows "\<exists>rel. normalize_path_fact fs p (sp_cwd_path (pin_plan input)) (pin_policy_root input) = Inr rel \<and>
    (\<exists>a \<in> set (ns_allowed_path_patterns ns). path_matches a rel) \<and>
    \<not> (\<exists>b \<in> set (ns_blocked_path_patterns ns). path_matches b rel)"
proof -
  let ?n = "normalize_path_fact fs p (sp_cwd_path (pin_plan input)) (pin_policy_root input)"
  have sub: "set (path_fact_rules fs input ns p) \<subseteq> set (child_matched fs input ns)"
    using assms(4) by (auto simp: child_matched_iff Let_def)
  have nodeny: "\<not> set (push_controller_path_deny (ns_rules ns)) \<subseteq> set (path_fact_rules fs input ns p)"
    using scope_denied [OF assms(1,2)] sub assms(3) by (meson order_trans)
  obtain rel where rel: "?n = Inr rel"
  proof (cases ?n)
    case (Inl e)
    then have "?n = Inl Escape" using normalize_path_fact_error by blast
    then show ?thesis using nodeny by (simp add: path_fact_rules_def)
  qed (rule that)
  have nb: "\<not> path_matches b rel" if b: "b \<in> set (ns_blocked_path_patterns ns)" for b
  proof
    assume m: "path_matches b rel"
    let ?ids = "matching_rules rel (ns_blocked_path_patterns ns)"
    have "cpp_rule_id b \<in> set ?ids" using b m by (simp add: matching_rules_def)
    moreover from this have "path_fact_rules fs input ns p = push_rules_by_id (ns_rules ns) (sort_dedup ?ids)"
      by (auto simp: path_fact_rules_def rel evaluate_path_against_scopes_def Let_def)
    ultimately obtain r where "r \<in> set (path_fact_rules fs input ns p)" "cr_effect r = EDeny"
      using blocked_found [OF assms(1,2) b, of "sort_dedup ?ids"] by auto
    then show False using sub verdict_denyI assms(3) by blast
  qed
  have "\<exists>a \<in> set (ns_allowed_path_patterns ns). path_matches a rel"
  proof (rule ccontr)
    assume "\<not> ?thesis"
    then have "evaluate_path_against_scopes rel (ns_allowed_path_patterns ns) (ns_blocked_path_patterns ns) = OutOfScope"
      using nb by (auto simp: evaluate_path_against_scopes_def matching_rules_def filter_empty_conv)
    then show False using nodeny by (simp add: path_fact_rules_def rel)
  qed
  with rel nb show ?thesis by blast
qed

end

lemma normalize_ids: "normalize_policies env ps pf root = Inr ns \<Longrightarrow> distinct (map cr_rule_id (ns_rules ns))"
  by (erule normalize_policies_cases) simp

interpretation np: rule_provider normalize_policies
proof
  fix env ps pf root ns b
  assume n: "normalize_policies env ps pf root = Inr ns"
  show "distinct (map cr_rule_id (ns_rules ns))" by (rule normalize_ids [OF n])
  assume h: "hex_ok env"
  show "\<exists>r \<in> set (ns_rules ns). cr_payload r = PSemanticAction ''shell_wrapper'' \<and> cr_effect r = EDeny"
    using wrapper_rule_retained [OF h n] by force
  show "\<exists>r \<in> set (ns_rules ns). cr_matcher r = MPath \<and> cr_effect r = EDeny \<and> cr_safe_reason r = ''path_out_of_scope''"
    using scope_rule_retained [OF h n] by force
  show "\<exists>r \<in> set (ns_rules ns). cr_rule_id r = cpp_rule_id b \<and> cr_effect r = EDeny"
    if "b \<in> set (ns_blocked_path_patterns ns)"
    using path_patterns_retained(1) [OF h n that] .
  show "\<exists>r \<in> set (ns_rules ns). cr_payload r = PCapability ''secret_access'' \<and> cr_effect r = EDeny"
    if "pf_rest pf ''secret_access'' \<noteq> Some (JBool True)"
  proof -
    have "profile_from_record pf = Inr (ns_profile ns)" using n by (rule normalize_policies_cases)
    then show ?thesis
      using profile_from_record_fields(3) that secret_rule_retained [OF h n] by blast
  qed
qed

section \<open>Properties\<close>

lemma evaluate_normalized_cases:
  assumes "normalize_policies env ps pf root = Inr ns"
  shows "(\<exists>a. evaluate_normalized env input ns = Authorized a) \<longleftrightarrow>
    verdict (set (request_matched (pin_request input) (ns_rules ns))) = EAllow \<and>
    verdict (set (child_matched (env_fs env) input ns)) = EAllow"
  unfolding evaluate_normalized_def Let_def np.request_decision [OF assms] np.child_decision [OF assms]
    is_Allow_build effect_from_decision_str
  by (auto simp: strongest_def)

lemma evaluate_policy_authorized:
  assumes "evaluate_policy env input = Authorized a"
  obtains ns where "assert_input_consistency (env_fs env) input = Inr ()"
    "normalize_policies env (pin_policies input) (pin_profile input) (pin_policy_root input) = Inr ns"
    "verdict (set (request_matched (pin_request input) (ns_rules ns))) = EAllow"
    "verdict (set (child_matched (env_fs env) input ns)) = EAllow"
proof -
  obtain ns where ns: "assert_input_consistency (env_fs env) input = Inr ()"
    "normalize_policies env (pin_policies input) (pin_profile input) (pin_policy_root input) = Inr ns"
    "evaluate_normalized env input ns = Authorized a"
    using assms by (auto simp: evaluate_policy_def Let_def split: sum.splits)
  then show thesis using that evaluate_normalized_cases [OF ns(2), of input] by blast
qed

text \<open>
  C1: authorisation is exactly dual explicit allow. A plan is authorised if and only if the handoff is
  consistent, the policies normalise, and in the request layer and in the child layer alike every
  matched rule allows and some matched rule is an explicit command allow.
\<close>

theorem authorized_iff_dual_allow:
  "(\<exists>a. evaluate_policy env input = Authorized a) \<longleftrightarrow>
     assert_input_consistency (env_fs env) input = Inr () \<and>
     (\<exists>ns. normalize_policies env (pin_policies input) (pin_profile input) (pin_policy_root input) = Inr ns \<and>
       (\<forall>R. R = set (request_matched (pin_request input) (ns_rules ns)) \<or>
            R = set (child_matched (env_fs env) input ns) \<longrightarrow>
          (\<forall>r \<in> R. cr_effect r = EAllow) \<and> (\<exists>r \<in> R. cr_effect r = EAllow \<and> cr_matcher r = MCommand)))"
proof (cases "assert_input_consistency (env_fs env) input")
  case (Inr u)
  show ?thesis
  proof (cases "normalize_policies env (pin_policies input) (pin_profile input) (pin_policy_root input)")
    case (Inr ns)
    with \<open>assert_input_consistency (env_fs env) input = Inr u\<close> show ?thesis
      using evaluate_normalized_cases [OF Inr, of input]
      by (simp add: evaluate_policy_def Let_def verdict_allow_iff) blast
  qed (simp add: evaluate_policy_def Let_def Inr)
qed (simp add: evaluate_policy_def Let_def)

text \<open>
  C3: a shell wrapper is never authorised, whatever the policies and the profile allow: when the last
  component of the resolved program is a wrapper, evaluation does not yield an authorised plan.
\<close>

theorem shell_wrapper_never_authorized:
  assumes "hex_ok env" and "basename (res_program (sp_resolved (pin_plan input))) \<in> set WRAPPERS"
  shows "evaluate_policy env input \<noteq> Authorized a"
proof
  assume "evaluate_policy env input = Authorized a"
  then obtain ns where
    "normalize_policies env (pin_policies input) (pin_profile input) (pin_policy_root input) = Inr ns"
    "verdict (set (child_matched (env_fs env) input ns)) = EAllow"
    by (rule evaluate_policy_authorized)
  then show False using np.wrapper_denied [OF assms(1) _ assms(2), of _ _ _ ns "env_fs env"] by simp
qed

text \<open>
  A secret tool is never authorised under a profile that does not grant secret access.
\<close>

theorem secret_tool_needs_access:
  assumes "hex_ok env" and "pf_rest (pin_profile input) ''secret_access'' \<noteq> Some (JBool True)"
    and "basename (res_program (sp_resolved (pin_plan input))) \<in> set SECRET_TOOLS"
  shows "evaluate_policy env input \<noteq> Authorized a"
proof
  assume "evaluate_policy env input = Authorized a"
  then obtain ns where
    "normalize_policies env (pin_policies input) (pin_profile input) (pin_policy_root input) = Inr ns"
    "verdict (set (child_matched (env_fs env) input ns)) = EAllow"
    by (rule evaluate_policy_authorized)
  then show False using np.secret_denied [OF assms(1) _ assms(2,3), of _ _ ns "env_fs env"] by simp
qed


text \<open>No other pattern among the retained command rules has the short digest of this one.\<close>

definition clash_free :: "policy_env \<Rightarrow> canonical_rule list \<Rightarrow> string list \<Rightarrow> bool" where
  "clash_free env rules p =
     list_all (\<lambda>r. case cr_payload r of
         PCommand q \<Rightarrow> matcher_digest (env_sha256_hex env) (command_key q)
             = matcher_digest (env_sha256_hex env) (command_key p) \<longrightarrow> q = p
       | _ \<Rightarrow> True) rules"

text \<open>
  A command the profile blocks is never authorised, provided that no other retained command rule
  has the short digest of its pattern.
\<close>

theorem blocked_command_never_authorized:
  assumes "hex_ok env"
    and "normalize_policies env (pin_policies input) (pin_profile input) (pin_policy_root input) = Inr ns"
    and "cmd \<in> set (pe_blocked_commands (ns_profile ns))"
    and "parse_command_pattern cmd (pe_id (ns_profile ns)) = Inr p"
    and "matches_command p (res_program (sp_resolved (pin_plan input))) (res_argv (sp_resolved (pin_plan input)))"
    and "clash_free env (ns_rules ns) p"
  shows "evaluate_policy env input \<noteq> Authorized a"
proof
  assume "evaluate_policy env input = Authorized a"
  then have v: "verdict (set (child_matched (env_fs env) input ns)) = EAllow"
    using assms(2) by (elim evaluate_policy_authorized) simp
  obtain r where "r \<in> set (ns_rules ns)" "cr_payload r = PCommand p" "cr_effect r = EDeny"
    using profile_command_retained [OF assms(1-3) _ assms(4)] assms(6)
    by (fastforce simp: clash_free_def list_all_iff)
  then have "r \<in> set (child_matched (env_fs env) input ns)"
    using assms(5) by (simp add: child_matched_iff Let_def command_matches_def)
  then show False using v \<open>cr_effect r = EDeny\<close> verdict_denyI by fastforce
qed



section \<open>Examples\<close>

text \<open>A small workspace: one profile, no policies, and a request to build a unit.\<close>

definition sample_env :: policy_env where
  "sample_env = \<lparr>env_parse = (\<lambda>_. Inl ''no policies''), env_sha256_hex = hex_encode, env_fs = sample_fs\<rparr>"

definition sample_profile :: "string list \<Rightarrow> profile_record" where
  "sample_profile allowed =
     \<lparr>pf_id = ''dev'', pf_title = None, pf_purpose = None, pf_rails = None, pf_rails_bin = None,
      pf_isolation_mode = None, pf_isolation_jj = None, pf_session_state_home = None,
      pf_rest = [''allowed_paths'' \<mapsto> JArray [JString ''**''],
        ''allowed_commands'' \<mapsto> JArray (map JString allowed),
        ''blocked_commands'' \<mapsto> JArray [JString ''git push'']]\<rparr>"

definition sample_input :: "string \<Rightarrow> string list \<Rightarrow> string list \<Rightarrow> policy_evaluation_input" where
  "sample_input program args allowed =
     \<lparr>pin_actor = Agent, pin_request = requested_from_resolution ''demo'' ''build'' False True,
      pin_plan = seal sample_digest_env (sample_resolved\<lparr>res_program := program, res_argv := args\<rparr>)
        [RootDir, Normal ''bin''] [RootDir, Normal ''ws''] [] sample_provenance [],
      pin_profile = sample_profile allowed, pin_policies = [], pin_policy_origins = [],
      pin_policy_root = [RootDir, Normal ''ws'']\<rparr>"

lemma hex_sample: "hex_ok sample_env"
proof -
  have "CHR '':'' \<noteq> hex_digit n" if "n < 16" for n
  proof -
    have "of_char (hex_digit n) \<noteq> (58 :: nat)" using that by (auto simp: hex_digit_def)
    moreover have "of_char (CHR '':'') = (58 :: nat)" by simp
    ultimately show ?thesis by metis
  qed
  note no_colon = this
  have "byte c < 256" for c by (simp add: byte_def)
  then have "byte c div 16 < 16" for c by (simp add: less_mult_imp_div_less)
  then show ?thesis
    using no_colon [of "byte c div 16" for c] no_colon [of "byte c mod 16" for c]
    by (auto simp: hex_ok_def sample_env_def hex_encode_def hex_byte_def)
qed

fun authorizes :: "policy_evaluation_result \<Rightarrow> bool" where
  "authorizes (Authorized _) = True"
| "authorizes _ = False"

lemma authorizes_iff: "authorizes r \<longleftrightarrow> (\<exists>a. r = Authorized a)"
  by (cases r) simp_all

abbreviation build_input :: policy_evaluation_input where
  "build_input \<equiv> sample_input ''moon'' [''run'', ''demo:build''] [''takogami build'', ''moon run'']"

lemma sample_authorized: "\<exists>a. evaluate_policy sample_env build_input = Authorized a"
  unfolding authorizes_iff [symmetric] by code_simp

theorem authorized_iff_dual_allow_witness:
  "assert_input_consistency (env_fs sample_env) build_input = Inr () \<and>
   (\<exists>ns. normalize_policies sample_env (pin_policies build_input) (pin_profile build_input)
       (pin_policy_root build_input) = Inr ns \<and>
     (\<forall>r \<in> set (child_matched (env_fs sample_env) build_input ns). cr_effect r = EAllow))"
  using sample_authorized unfolding authorized_iff_dual_allow by blast

theorem shell_wrapper_never_authorized_witness:
  "\<forall>a. evaluate_policy sample_env (sample_input ''/usr/bin/env'' [''moon''] [''takogami build'', ''env'']) \<noteq> Authorized a"
proof -
  have "basename (res_program (sp_resolved (pin_plan
      (sample_input ''/usr/bin/env'' [''moon''] [''takogami build'', ''env''])))) \<in> set WRAPPERS"
    by code_simp
  from shell_wrapper_never_authorized [OF hex_sample this] show ?thesis by blast
qed

theorem secret_tool_needs_access_witness:
  "\<forall>a. evaluate_policy sample_env (sample_input ''sops'' [] [''takogami build'', ''sops'']) \<noteq> Authorized a"
proof -
  have "basename (res_program (sp_resolved (pin_plan
      (sample_input ''sops'' [] [''takogami build'', ''sops''])))) \<in> set SECRET_TOOLS"
    by code_simp
  moreover have "pf_rest (pin_profile (sample_input ''sops'' [] [''takogami build'', ''sops''])) ''secret_access''
      \<noteq> Some (JBool True)"
    by (simp add: sample_input_def sample_profile_def)
  ultimately show ?thesis using secret_tool_needs_access [OF hex_sample] by blast
qed



abbreviation push_input :: policy_evaluation_input where
  "push_input \<equiv> sample_input ''git'' [''push'', ''origin''] [''takogami build'', ''git'']"

lemma push_normalized:
  "\<exists>ns. normalize_policies sample_env (pin_policies push_input) (pin_profile push_input) (pin_policy_root push_input)
      = Inr ns \<and> ''git push'' \<in> set (pe_blocked_commands (ns_profile ns)) \<and>
    clash_free sample_env (ns_rules ns) [''git'', ''push''] \<and>
    parse_command_pattern ''git push'' (pe_id (ns_profile ns)) = Inr [''git'', ''push'']"
proof -
  have "(case normalize_policies sample_env (pin_policies push_input) (pin_profile push_input) (pin_policy_root push_input)
      of Inl _ \<Rightarrow> False
       | Inr ns \<Rightarrow> ''git push'' \<in> set (pe_blocked_commands (ns_profile ns)) \<and>
           clash_free sample_env (ns_rules ns) [''git'', ''push''] \<and>
           parse_command_pattern ''git push'' (pe_id (ns_profile ns)) = Inr [''git'', ''push''])"
    by code_simp
  then show ?thesis by (auto split: sum.splits)
qed

theorem blocked_command_never_authorized_witness: "\<forall>a. evaluate_policy sample_env push_input \<noteq> Authorized a"
proof -
  obtain ns where "normalize_policies sample_env (pin_policies push_input) (pin_profile push_input)
      (pin_policy_root push_input) = Inr ns" "''git push'' \<in> set (pe_blocked_commands (ns_profile ns))"
    "parse_command_pattern ''git push'' (pe_id (ns_profile ns)) = Inr [''git'', ''push'']"
    "clash_free sample_env (ns_rules ns) [''git'', ''push'']"
    using push_normalized by blast
  moreover have "matches_command [''git'', ''push''] (res_program (sp_resolved (pin_plan push_input)))
      (res_argv (sp_resolved (pin_plan push_input)))" by code_simp
  ultimately show ?thesis using blocked_command_never_authorized [OF hex_sample] by blast
qed


end
