(* ===== verification/Controller_Error.thy ===== *)
theory Controller_Error
  imports Policy_Evaluate "HOL-Library.Word"
begin

text \<open>
  Errors and exit codes of the controller (\<open>error.rs\<close>, \<open>exit_codes.rs\<close>): every error of a command, its
  message, its diagnostic code, the session and plan it belongs to, and the exit code the process ends
  with. An exit code is a \<open>u8\<close>. The error another library raised, which a usage error may carry, is kept
  as its text; a serialised resolution trace is a JSON value.
\<close>

section \<open>Exit codes\<close>

definition SUCCESS :: "8 word" where "SUCCESS = 0"
definition INTERNAL :: "8 word" where "INTERNAL = 1"
definition USAGE :: "8 word" where "USAGE = 2"
definition CONTRACT :: "8 word" where "CONTRACT = 3"
definition RESOLUTION :: "8 word" where "RESOLUTION = 4"
definition POLICY_DENY :: "8 word" where "POLICY_DENY = 5"
definition POLICY_GATE :: "8 word" where "POLICY_GATE = 6"
definition STATE_IO :: "8 word" where "STATE_IO = 7"
definition EXECUTION_IO :: "8 word" where "EXECUTION_IO = 8"
definition NOT_IMPLEMENTED :: "8 word" where "NOT_IMPLEMENTED = 10"

lemmas exit_code_defs = SUCCESS_def INTERNAL_def USAGE_def CONTRACT_def RESOLUTION_def POLICY_DENY_def
  POLICY_GATE_def STATE_IO_def EXECUTION_IO_def NOT_IMPLEMENTED_def

definition exit_code_name :: "8 word \<Rightarrow> string" where
  "exit_code_name code =
     (if code = SUCCESS then ''success''
      else if code = INTERNAL then ''internal''
      else if code = USAGE then ''usage''
      else if code = CONTRACT then ''contract''
      else if code = RESOLUTION then ''resolution''
      else if code = POLICY_DENY then ''policy_deny''
      else if code = POLICY_GATE then ''policy_gate''
      else if code = STATE_IO then ''state_io''
      else if code = EXECUTION_IO then ''execution_io''
      else if code = NOT_IMPLEMENTED then ''not_implemented''
      else ''unknown'')"

text \<open>\<open>i32::saturating_add\<close> on the integers an \<open>i32\<close> holds.\<close>

definition saturating_add_i32 :: "int \<Rightarrow> int \<Rightarrow> int" where
  "saturating_add_i32 a b = max (- (2 ^ 31)) (min (2 ^ 31 - 1) (a + b))"

definition exit_from_signal_number :: "int \<Rightarrow> 8 word" where
  "exit_from_signal_number signal =
     (let code = saturating_add_i32 128 signal in word_of_int (max 0 (min 255 code)))"

definition exit_from_signal_name :: "string \<Rightarrow> 8 word" where
  "exit_from_signal_name name =
     (let n = (if name = ''SIGINT'' then 2 else if name = ''SIGTERM'' then 15
               else if name = ''SIGHUP'' then 1 else if name = ''SIGKILL'' then 9 else 15)
      in exit_from_signal_number n)"

section \<open>Errors\<close>

record policy_contract_details =
  pcd_code :: string
  pcd_message :: string
  pcd_session_id :: string
  pcd_plan_digest :: string
  pcd_policy_id :: "string option"
  pcd_field :: "string option"

record policy_outcome_details =
  pod_session_id :: string
  pod_plan_digest :: string
  pod_explanation :: policy_evaluation_explanation

record execution_deferred_details =
  edd_session_id :: string
  edd_plan_digest :: string
  edd_policy_decision :: policy_decision
  edd_policy_explanation :: policy_evaluation_explanation
  edd_execution_requested :: bool

definition outcome_from_rejected :: "rejected_policy_outcome \<Rightarrow> policy_outcome_details" where
  "outcome_from_rejected rejected =
     \<lparr>pod_session_id = res_session_id (sp_resolved (rj_plan rejected)),
      pod_plan_digest = sp_plan_digest (rj_plan rejected), pod_explanation = rj_explanation rejected\<rparr>"

definition deferred_from_authorized :: "authorized_execution_plan \<Rightarrow> execution_deferred_details" where
  "deferred_from_authorized authorized =
     \<lparr>edd_session_id = res_session_id (sp_resolved (ap_plan authorized)),
      edd_plan_digest = sp_plan_digest (ap_plan authorized),
      edd_policy_decision = ap_policy_decision authorized,
      edd_policy_explanation = ap_policy_explanation authorized,
      edd_execution_requested = ro_execute_requested (ap_request authorized)\<rparr>"

datatype controller_error =
    UsageError string "string option"
  | NotImplementedError string
  | ContractError string
  | NotFoundError string
  | AmbiguousError string
  | InvalidRegistry string
  | InvalidFilter string
  | UnavailableSource string
  | ResolutionError string string "string option" "json option"
  | PolicyContractFailed string string policy_contract_details
  | PolicyDenied string policy_outcome_details
  | PolicyGated string policy_outcome_details
  | ExecutionUnavailable string execution_deferred_details
  | ExecutionClassUnavailable string execution_deferred_details
  | StateIo string string
  | ExecutionIo string string
  | GraphContract string string
  | InternalError string

text \<open>The \<open>Display\<close> of an error: the format strings of its \<open>#[error]\<close> attributes.\<close>

fun error_display :: "controller_error \<Rightarrow> string" where
  "error_display (UsageError message _) = ''invalid usage: '' @ message"
| "error_display (NotImplementedError command) = ''command not implemented: '' @ command"
| "error_display (ContractError message) = ''contract error: '' @ message"
| "error_display (NotFoundError message) = ''not found: '' @ message"
| "error_display (AmbiguousError message) = ''ambiguous: '' @ message"
| "error_display (InvalidRegistry message) = ''invalid registry: '' @ message"
| "error_display (InvalidFilter message) = ''invalid filter: '' @ message"
| "error_display (UnavailableSource message) = ''unavailable source: '' @ message"
| "error_display (ResolutionError code message _ _) = ''resolution failed ('' @ code @ ''): '' @ message"
| "error_display (PolicyContractFailed code message _) =
     ''policy contract invalid ('' @ code @ ''): '' @ message"
| "error_display (PolicyDenied why _) = ''policy deny: '' @ why"
| "error_display (PolicyGated why _) = ''policy gate: '' @ why"
| "error_display (ExecutionUnavailable session_id _) =
     ''execution unavailable in S5 (plan-only): session='' @ session_id"
| "error_display (ExecutionClassUnavailable message _) = ''execution class unavailable: '' @ message"
| "error_display (StateIo message _) = ''state I/O error: '' @ message"
| "error_display (ExecutionIo message _) = ''execution I/O error: '' @ message"
| "error_display (GraphContract code message) = ''graph contract error ('' @ code @ ''): '' @ message"
| "error_display (InternalError message) = ''internal error: '' @ message"

definition em_dash :: string where "em_dash = [CHR 0xE2, CHR 0x80, CHR 0x94]"

definition graph_missing :: controller_error where
  "graph_missing = ResolutionError ''graph_missing''
     (''registry/graph.json is missing '' @ em_dash @ '' run '' @ backtick @ ''ontarch sync'' @ backtick @
      '' to generate it'') None None"

definition graph_stale :: "string \<Rightarrow> controller_error" where
  "graph_stale message = ResolutionError ''graph_stale''
     (message @ '' '' @ em_dash @ '' run '' @ backtick @ ''ontarch sync'' @ backtick @
      '' to refresh the graph'') None None"

definition graph_contract_invalid :: "string \<Rightarrow> controller_error" where
  "graph_contract_invalid message = GraphContract ''graph_contract_invalid'' message"

definition graph_endpoint_invalid :: "string \<Rightarrow> controller_error" where
  "graph_endpoint_invalid message = GraphContract ''graph_endpoint_invalid'' message"

definition graph_limit_exceeded :: "string \<Rightarrow> controller_error" where
  "graph_limit_exceeded message = GraphContract ''graph_limit_exceeded'' message"

definition from_policy_contract :: "policy_contract_error \<Rightarrow> controller_error" where
  "from_policy_contract err =
     (let code = policy_contract_code (pce_kind err) in
      PolicyContractFailed code (pce_message err)
        \<lparr>pcd_code = code, pcd_message = pce_message err, pcd_session_id = pce_session_id err,
         pcd_plan_digest = pce_plan_digest err, pcd_policy_id = pce_policy_id err,
         pcd_field = pce_field err\<rparr>)"

fun error_session_id :: "controller_error \<Rightarrow> string option" where
  "error_session_id (ResolutionError _ _ session_id _) = session_id"
| "error_session_id (PolicyContractFailed _ _ details) = Some (pcd_session_id details)"
| "error_session_id (PolicyDenied _ details) = Some (pod_session_id details)"
| "error_session_id (PolicyGated _ details) = Some (pod_session_id details)"
| "error_session_id (ExecutionUnavailable session_id _) = Some session_id"
| "error_session_id (ExecutionClassUnavailable _ details) = Some (edd_session_id details)"
| "error_session_id _ = None"

fun error_plan_digest :: "controller_error \<Rightarrow> string option" where
  "error_plan_digest (PolicyContractFailed _ _ details) = Some (pcd_plan_digest details)"
| "error_plan_digest (PolicyDenied _ details) = Some (pod_plan_digest details)"
| "error_plan_digest (PolicyGated _ details) = Some (pod_plan_digest details)"
| "error_plan_digest (ExecutionUnavailable _ details) = Some (edd_plan_digest details)"
| "error_plan_digest (ExecutionClassUnavailable _ details) = Some (edd_plan_digest details)"
| "error_plan_digest _ = None"

fun exit_code :: "controller_error \<Rightarrow> 8 word" where
  "exit_code (UsageError _ _) = USAGE"
| "exit_code (NotImplementedError _) = NOT_IMPLEMENTED"
| "exit_code (ExecutionUnavailable _ _) = NOT_IMPLEMENTED"
| "exit_code (ExecutionClassUnavailable _ _) = NOT_IMPLEMENTED"
| "exit_code (ContractError _) = CONTRACT"
| "exit_code (InvalidRegistry _) = CONTRACT"
| "exit_code (PolicyContractFailed _ _ _) = CONTRACT"
| "exit_code (GraphContract _ _) = CONTRACT"
| "exit_code (NotFoundError _) = USAGE"
| "exit_code (AmbiguousError _) = USAGE"
| "exit_code (InvalidFilter _) = USAGE"
| "exit_code (ResolutionError _ _ _ _) = RESOLUTION"
| "exit_code (PolicyDenied _ _) = POLICY_DENY"
| "exit_code (PolicyGated _ _) = POLICY_GATE"
| "exit_code (StateIo _ _) = STATE_IO"
| "exit_code (ExecutionIo _ _) = EXECUTION_IO"
| "exit_code (UnavailableSource _) = INTERNAL"
| "exit_code (InternalError _) = INTERNAL"

fun diagnostic_code :: "controller_error \<Rightarrow> string" where
  "diagnostic_code (UsageError _ _) = ''usage''"
| "diagnostic_code (NotImplementedError _) = ''not_implemented''"
| "diagnostic_code (ContractError _) = ''contract''"
| "diagnostic_code (NotFoundError _) = ''not_found''"
| "diagnostic_code (AmbiguousError _) = ''ambiguous''"
| "diagnostic_code (InvalidRegistry _) = ''invalid_registry''"
| "diagnostic_code (InvalidFilter _) = ''invalid_filter''"
| "diagnostic_code (UnavailableSource _) = ''unavailable_source''"
| "diagnostic_code (ResolutionError code _ _ _) = code"
| "diagnostic_code (PolicyContractFailed code _ _) = code"
| "diagnostic_code (GraphContract code _) = code"
| "diagnostic_code (PolicyDenied _ _) = ''policy_deny''"
| "diagnostic_code (PolicyGated _ _) = ''policy_gate''"
| "diagnostic_code (ExecutionUnavailable _ _) = ''execution_unavailable''"
| "diagnostic_code (ExecutionClassUnavailable _ _) = ''execution_class_unavailable''"
| "diagnostic_code (StateIo _ code) = code"
| "diagnostic_code (ExecutionIo _ code) = code"
| "diagnostic_code (InternalError _) = ''internal''"

section \<open>Properties\<close>

lemma exit_code_bounds: "1 \<le> unat (exit_code e) \<and> unat (exit_code e) \<le> 10"
  by (cases e) (simp_all add: exit_code_defs)

lemma exit_from_signal_bounds:
  assumes "1 \<le> signal" and "signal < 2 ^ 31"
  shows "unat (exit_from_signal_number signal) = nat (min 255 (128 + signal))"
  using assms by (simp add: exit_from_signal_number_def saturating_add_i32_def Let_def unat_eq_nat_uint
      uint_word_of_int take_bit_eq_mod)

text \<open>
  The exit codes keep the outcomes apart. An error never ends the process with success, a policy
  refusal is told from every other error by its code, and the exit code of a child killed by a signal
  lies above every code of the controller, whatever the signal number is.
\<close>

theorem exit_codes_separate:
  "exit_code e \<noteq> SUCCESS \<and>
   (exit_code e = POLICY_DENY \<longleftrightarrow> (\<exists>why d. e = PolicyDenied why d)) \<and>
   (exit_code e = POLICY_GATE \<longleftrightarrow> (\<exists>why d. e = PolicyGated why d)) \<and>
   (1 \<le> signal \<and> signal < 2 ^ 31 \<longrightarrow>
      exit_code e < exit_from_signal_number signal \<and> exit_code_name (exit_from_signal_number signal) = ''unknown'')"
proof -
  have "exit_code e \<noteq> SUCCESS" "exit_code e = POLICY_DENY \<longleftrightarrow> (\<exists>why d. e = PolicyDenied why d)"
    "exit_code e = POLICY_GATE \<longleftrightarrow> (\<exists>why d. e = PolicyGated why d)"
    by (cases e; simp add: exit_code_defs)+
  moreover have "exit_code e < exit_from_signal_number signal \<and>
      exit_code_name (exit_from_signal_number signal) = ''unknown''"
    if "1 \<le> signal \<and> signal < 2 ^ 31"
  proof -
    have big: "129 \<le> unat (exit_from_signal_number signal)"
      using exit_from_signal_bounds [of signal] that by (simp add: le_nat_iff)
    then have "exit_from_signal_number signal \<noteq> w" if "unat w < 129" for w
      using that by auto
    from this [of 0] this [of 1] this [of 2] this [of 3] this [of 4] this [of 5] this [of 6] this [of 7]
      this [of 8] this [of 10]
    have "exit_code_name (exit_from_signal_number signal) = ''unknown''"
      by (simp add: exit_code_name_def exit_code_defs)
    moreover have "exit_code e < exit_from_signal_number signal"
      using big exit_code_bounds [of e] by (simp add: word_less_nat_alt)
    ultimately show ?thesis by blast
  qed
  ultimately show ?thesis by blast
qed

theorem exit_codes_separate_witness:
  "exit_code (InternalError ''x'') < exit_from_signal_number 9 \<and>
   exit_code_name (exit_from_signal_number 9) = ''unknown''"
  using exit_codes_separate [of "InternalError ''x''" 9] by simp

end
