(* ===== verification/Std_Collections.thy ===== *)
theory Std_Collections
  imports Takogami_Prelude "HOL-Library.Word"
begin

text \<open>
  Standard-library collections the registry and resolution code uses. A \<open>BTreeMap\<close> that is iterated is
  an association list with strictly ascending keys, a \<open>BTreeSet\<close> the strictly ascending list of its
  elements. \<open>lines\<close>, \<open>extension\<close> and the file system with file contents, directory listings and
  permission bits complete the vocabulary.
\<close>

named_theorems btree_simps \<open>lookup and key laws of the ordered maps\<close>

section \<open>Ordered maps\<close>

type_synonym ('k, 'v) btree = "('k \<times> 'v) list"

fun btree_insert :: "'k::linorder \<Rightarrow> 'v \<Rightarrow> ('k, 'v) btree \<Rightarrow> ('k, 'v) btree" where
  "btree_insert k v [] = [(k, v)]"
| "btree_insert k v ((k', v') # m) =
     (if k < k' then (k, v) # (k', v') # m
      else if k = k' then (k, v) # m
      else (k', v') # btree_insert k v m)"

definition btree_keys :: "('k, 'v) btree \<Rightarrow> 'k list" where
  "btree_keys m = map fst m"

definition btree_values :: "('k, 'v) btree \<Rightarrow> 'v list" where
  "btree_values m = map snd m"

text \<open>The representation invariant: keys strictly ascend.\<close>

definition btree_ok :: "('k::linorder, 'v) btree \<Rightarrow> bool" where
  "btree_ok m \<longleftrightarrow> sorted_wrt (<) (btree_keys m)"

definition btree_of_list :: "('k::linorder \<times> 'v) list \<Rightarrow> ('k, 'v) btree" where
  "btree_of_list kvs = fold (\<lambda>(k, v) m. btree_insert k v m) kvs []"

lemma btree_ok_Nil [simp]: "btree_ok []"
  by (simp add: btree_ok_def btree_keys_def)

lemma btree_keys_insert [btree_simps]: "set (btree_keys (btree_insert k v m)) = insert k (set (btree_keys m))"
  by (induction k v m rule: btree_insert.induct) (auto simp: btree_keys_def)

lemma btree_ok_insert [simp]: "btree_ok m \<Longrightarrow> btree_ok (btree_insert k v m)"
proof (induction k v m rule: btree_insert.induct)
  case (2 k v k' v' m)
  then show ?case using btree_keys_insert [of k v m] by (auto simp: btree_ok_def btree_keys_def)
qed (simp add: btree_ok_def btree_keys_def)

lemma btree_lookup_insert [btree_simps]:
  "btree_ok m \<Longrightarrow> map_of (btree_insert k v m) = (map_of m)(k \<mapsto> v)"
proof (induction k v m rule: btree_insert.induct)
  case (2 k v k' v' m)
  then show ?case by (auto simp: btree_ok_def btree_keys_def fun_eq_iff)
qed simp

lemma btree_keys_distinct: "btree_ok m \<Longrightarrow> distinct (btree_keys m)"
  by (simp add: btree_ok_def strict_sorted_iff)

lemma btree_keys_sorted: "btree_ok m \<Longrightarrow> sorted (btree_keys m)"
  by (simp add: btree_ok_def strict_sorted_iff)

lemma btree_keys_dom: "set (btree_keys m) = dom (map_of m)"
  by (simp add: btree_keys_def dom_map_of_conv_image_fst)

lemma btree_member_iff: "btree_ok m \<Longrightarrow> (k, v) \<in> set m \<longleftrightarrow> map_of m k = Some v"
  using btree_keys_distinct [of m] by (simp add: btree_keys_def)

lemma btree_fold_ok:
  "btree_ok m \<Longrightarrow> btree_ok (fold (\<lambda>(k, v) m. btree_insert k v m) kvs m)"
  by (induction kvs arbitrary: m) auto

lemma btree_fold_lookup:
  "btree_ok m \<Longrightarrow> map_of (fold (\<lambda>(k, v) m. btree_insert k v m) kvs m) = map_of m ++ map_of (rev kvs)"
proof (induction kvs arbitrary: m)
  case (Cons kv kvs)
  obtain k v where [simp]: "kv = (k, v)" by (cases kv)
  show ?case using Cons by (simp add: btree_simps map_add_def fun_eq_iff split: option.splits)
qed simp

lemma btree_of_list_ok [simp]: "btree_ok (btree_of_list kvs)"
  by (simp add: btree_of_list_def btree_fold_ok)

lemma btree_of_list_lookup [btree_simps]: "map_of (btree_of_list kvs) = map_of (rev kvs)"
  by (simp add: btree_of_list_def btree_fold_lookup)

lemma btree_of_list_keys: "set (btree_keys (btree_of_list kvs)) = fst ` set kvs"
  by (simp add: btree_keys_dom btree_of_list_lookup dom_map_of_conv_image_fst)

section \<open>Ordered sets\<close>

definition btree_set :: "'a::linorder list \<Rightarrow> 'a list" where
  "btree_set xs = fold insort_insert xs []"

lemma btree_set_fold: "set (fold insort_insert xs ys) = set xs \<union> set ys"
  by (induction xs arbitrary: ys) (auto simp: set_insort_insert)

lemma sorted_distinct_insort_insert_fold:
  "sorted ys \<and> distinct ys \<Longrightarrow> sorted (fold insort_insert xs ys) \<and> distinct (fold insort_insert xs ys)"
  by (induction xs arbitrary: ys) (auto simp: sorted_insort_insert distinct_insort_insert)

lemma btree_set_eq: "btree_set xs = sorted_list_of_set (set xs)"
  using btree_set_fold [of xs "[]"] sorted_distinct_insort_insert_fold [of "[]" xs]
  by (metis btree_set_def distinct.simps(1) list.set(1) sorted_list_of_set.idem_if_sorted_distinct sorted0 sup_bot_right)

lemma set_btree_set [simp]: "set (btree_set xs) = set xs"
  by (simp add: btree_set_eq)

section \<open>Text\<close>

definition strip_cr :: "string \<Rightarrow> string" where
  "strip_cr s = (case rev s of CHR 0x0D # r \<Rightarrow> rev r | _ \<Rightarrow> s)"

text \<open>\<open>str::lines\<close>: a final empty piece is not a line, and a carriage return before the newline is dropped.\<close>

definition str_lines :: "string \<Rightarrow> string list" where
  "str_lines s =
     (let ps = split_on (CHR 0x0A) s in
      case rev ps of
        [] \<Rightarrow> []
      | l # q \<Rightarrow> map strip_cr (rev q) @ (if l = [] then [] else [l]))"

definition trim_start_matches :: "char \<Rightarrow> string \<Rightarrow> string" where
  "trim_start_matches c s = dropWhile (\<lambda>x. x = c) s"

definition str_strip_suffix :: "string \<Rightarrow> string \<Rightarrow> string option" where
  "str_strip_suffix s x = (if suffix x s then Some (take (length s - length x) s) else None)"

text \<open>\<open>Path::extension\<close>: what follows the last dot of the file name, unless the dot is its first character.\<close>

definition extension :: "path \<Rightarrow> string option" where
  "extension p =
     (case file_name p of
        None \<Rightarrow> None
      | Some name \<Rightarrow>
          (case split_once (CHR ''.'') (rev name) of
             None \<Rightarrow> None
           | Some (r, before) \<Rightarrow> (if before = [] then None else Some (rev r))))"

section \<open>Lossy text\<close>

text \<open>
  \<open>String::from_utf8_lossy\<close>, which \<open>to_string_lossy\<close> and \<open>display\<close> use: every maximal invalid piece becomes
  the replacement character. \<open>utf8_chunk\<close> says whether the bytes start with a scalar value, and how many
  bytes that value or the invalid piece has.
\<close>

definition cont_at :: "nat \<Rightarrow> nat \<Rightarrow> string \<Rightarrow> nat \<Rightarrow> bool" where
  "cont_at lo hi cs i \<longleftrightarrow> i < length cs \<and> lo \<le> byte (cs ! i) \<and> byte (cs ! i) \<le> hi"

definition utf8_chunk :: "char \<Rightarrow> string \<Rightarrow> bool \<times> nat" where
  "utf8_chunk c cs =
     (if byte c < 0x80 then (True, 1)
      else if 0xC2 \<le> byte c \<and> byte c \<le> 0xDF then
        (if cont_at 0x80 0xBF cs 0 then (True, 2) else (False, 1))
      else if 0xE0 \<le> byte c \<and> byte c \<le> 0xEF then
        (if \<not> cont_at (if byte c = 0xE0 then 0xA0 else 0x80) (if byte c = 0xED then 0x9F else 0xBF) cs 0 then (False, 1)
         else if \<not> cont_at 0x80 0xBF cs 1 then (False, 2) else (True, 3))
      else if 0xF0 \<le> byte c \<and> byte c \<le> 0xF4 then
        (if \<not> cont_at (if byte c = 0xF0 then 0x90 else 0x80) (if byte c = 0xF4 then 0x8F else 0xBF) cs 0 then (False, 1)
         else if \<not> cont_at 0x80 0xBF cs 1 then (False, 2)
         else if \<not> cont_at 0x80 0xBF cs 2 then (False, 3) else (True, 4))
      else (False, 1))"

definition replacement_character :: string where
  "replacement_character = [CHR 0xEF, CHR 0xBF, CHR 0xBD]"

fun utf8_lossy :: "string \<Rightarrow> string" where
  "utf8_lossy [] = []"
| "utf8_lossy (c # cs) =
     (let (ok, n) = utf8_chunk c cs in
      (if ok then take n (c # cs) else replacement_character) @ utf8_lossy (drop (n - 1) cs))"

definition path_display :: "path \<Rightarrow> string" where
  "path_display p = utf8_lossy (to_str p)"

lemma utf8_lossy_ascii: "is_ascii_string s \<Longrightarrow> utf8_lossy s = s"
  by (induction s) (simp_all add: is_ascii_string_def utf8_chunk_def)

section \<open>Files\<close>

text \<open>\<open>mode_bits\<close> is the mode \<open>metadata\<close> reports; on a path that is no symbolic link \<open>symlink_metadata\<close> reports the same.\<close>

record rfsys = fsys +
  read_bytes :: "path \<Rightarrow> (io_error, string) result"
  read_dir :: "path \<Rightarrow> (io_error, (io_error, path) result list) result"
  mode_bits :: "path \<Rightarrow> 32 word"

abbreviation path_exists :: "('a fsys_scheme) \<Rightarrow> path \<Rightarrow> bool" where
  "path_exists fs p \<equiv> (case metadata fs p of Inr _ \<Rightarrow> True | Inl _ \<Rightarrow> False)"

abbreviation path_is_file :: "('a fsys_scheme) \<Rightarrow> path \<Rightarrow> bool" where
  "path_is_file fs p \<equiv> metadata fs p = Inr RegularFile"

abbreviation path_is_dir :: "('a fsys_scheme) \<Rightarrow> path \<Rightarrow> bool" where
  "path_is_dir fs p \<equiv> metadata fs p = Inr Directory"

definition unwrap_or :: "('e, 'a) result \<Rightarrow> 'a \<Rightarrow> 'a" where
  "unwrap_or r d = (case r of Inr v \<Rightarrow> v | Inl _ \<Rightarrow> d)"

definition entries_ok :: "('e, 'a) result list \<Rightarrow> 'a list" where
  "entries_ok es = concat (map (\<lambda>e. case e of Inr v \<Rightarrow> [v] | Inl _ \<Rightarrow> []) es)"

end
