(* ===== verification/Registry_Access.thy ===== *)
theory Registry_Access
  imports Controller_Error Std_Collections
begin

text \<open>
  Access to the registry (\<open>registry/access.rs\<close>), its queries (\<open>registry/query.rs\<close>) and the discovery from
  a workspace scan (\<open>registry/scan.rs\<close>), with the fingerprints of \<open>contracts/fingerprint.rs\<close>: where the
  registry lies, how its documents are loaded, when a cached document is fresh, the provisional units
  read from authored descriptors, and the filters of the list commands.

  The decoders of JSON and TOML and SHA-256 are libraries: they are the fields of \<open>registry_env\<close>.
\<close>

record registry_env =
  rv_io_text :: "io_error \<Rightarrow> string"
  rv_sha256_hex :: "string \<Rightarrow> string"
  rv_units :: "string \<Rightarrow> (string, units_document) result"
  rv_scan :: "string \<Rightarrow> (string, scan_document) result"
  rv_tools :: "string \<Rightarrow> (string, tools_document) result"
  rv_profiles :: "string \<Rightarrow> (string, profiles_document) result"
  rv_policies :: "string \<Rightarrow> (string, policies_document) result"
  rv_descriptor :: "string \<Rightarrow> (string, authored_unit_descriptor) result"

section \<open>Locations\<close>

record registry_paths =
  rp_registry_root :: path
  rp_workspace_root :: path

text \<open>The loop of \<open>find_registry_from_cwd\<close>, which walks from a directory to the root.\<close>

function find_registry_loop :: "rfsys \<Rightarrow> path \<Rightarrow> (controller_error, path) result" where
  "find_registry_loop fs dir =
     (let candidate = path_join dir (components ''packages/ontarch/registry'');
          alt = path_join dir (components ''Build/src/workspaces/wfos/packages/ontarch/registry'')
      in if path_is_dir fs candidate then Inr candidate
         else if path_is_dir fs alt then Inr alt
         else (case path_pop dir of
                 Some parent \<Rightarrow> find_registry_loop fs parent
               | None \<Rightarrow> Inl (UnavailableSource
                   ''Ontarch registry not found; set TAKOGAMI_ONTARCH_REGISTRY or run from the wfos workspace'')))"
  by pat_completeness auto
termination
  by (relation "measure (\<lambda>(fs, dir). length dir)") (auto simp: path_pop_Some_iff)

declare find_registry_loop.simps [simp del]

definition find_registry_from_cwd ::
  "registry_env \<Rightarrow> rfsys \<Rightarrow> (io_error, path) result \<Rightarrow> (controller_error, path) result" where
  "find_registry_from_cwd env fs current_dir =
     rbind (map_err (\<lambda>e. UnavailableSource (''cannot resolve cwd: '' @ rv_io_text env e)) current_dir)
       (find_registry_loop fs)"

text \<open>At most eight parents are tried; then the current directory, or \<open>.\<close>, is the workspace.\<close>

fun infer_loop :: "rfsys \<Rightarrow> nat \<Rightarrow> path \<Rightarrow> path option" where
  "infer_loop fs 0 p = None"
| "infer_loop fs (Suc n) p =
     (case path_pop p of
        None \<Rightarrow> None
      | Some p \<Rightarrow>
          (if path_is_dir fs (path_join p (components ''Build'')) \<or>
              path_is_dir fs (path_join p (components ''.agents''))
           then Some p else infer_loop fs n p))"

definition infer_workspace_root :: "rfsys \<Rightarrow> (io_error, path) result \<Rightarrow> path \<Rightarrow> path" where
  "infer_workspace_root fs current_dir registry_root =
     (case infer_loop fs 8 registry_root of
        Some p \<Rightarrow> p
      | None \<Rightarrow> unwrap_or current_dir (components ''.''))"

definition resolve_registry_paths ::
  "registry_env \<Rightarrow> rfsys \<Rightarrow> (io_error, path) result \<Rightarrow> string option \<Rightarrow> string option \<Rightarrow>
   (controller_error, registry_paths) result" where
  "resolve_registry_paths env fs current_dir var_registry var_workspace =
     rbind (case var_registry of
              Some p \<Rightarrow> Inr (components p)
            | None \<Rightarrow> find_registry_from_cwd env fs current_dir) (\<lambda>registry_root.
       Inr \<lparr>rp_registry_root = registry_root,
            rp_workspace_root = (case var_workspace of
               Some p \<Rightarrow> components p
             | None \<Rightarrow> infer_workspace_root fs current_dir registry_root)\<rparr>)"

definition file_path :: "registry_paths \<Rightarrow> registry_file_kind \<Rightarrow> path" where
  "file_path paths kind = path_join (rp_registry_root paths) (components (registry_file_name kind))"

section \<open>Fingerprints and freshness\<close>

definition fingerprint_bytes :: "registry_env \<Rightarrow> string \<Rightarrow> source_fingerprint" where
  "fingerprint_bytes env data =
     \<lparr>fp_path = '''', fp_algorithm = ''sha256'', fp_digest = rv_sha256_hex env data\<rparr>"

definition fingerprint_file ::
  "registry_env \<Rightarrow> rfsys \<Rightarrow> path \<Rightarrow> string \<Rightarrow> (io_error, source_fingerprint) result" where
  "fingerprint_file env fs p display_path =
     rbind (read_bytes fs p) (\<lambda>data. Inr ((fingerprint_bytes env data)\<lparr>fp_path := display_path\<rparr>))"

definition resolve_fingerprint_path :: "path \<Rightarrow> string \<Rightarrow> path" where
  "resolve_fingerprint_path workspace_root recorded =
     (let p = components recorded in if is_absolute p then p else path_join workspace_root p)"

fun freshness_loop ::
  "registry_env \<Rightarrow> rfsys \<Rightarrow> path \<Rightarrow> source_fingerprint list \<Rightarrow> (controller_error, freshness) result" where
  "freshness_loop env fs root [] = Inr Hit"
| "freshness_loop env fs root (fp # fps) =
     (let p = resolve_fingerprint_path root (fp_path fp) in
      if \<not> path_is_file fs p then Inr Stale
      else rbind (map_err (\<lambda>e. InvalidRegistry (''cannot fingerprint '' @ path_display p @ '': '' @ rv_io_text env e))
                    (fingerprint_file env fs p (fp_path fp))) (\<lambda>current.
             if fp_digest current \<noteq> fp_digest fp \<or> fp_algorithm current \<noteq> fp_algorithm fp then Inr Stale
             else freshness_loop env fs root fps))"

definition evaluate_freshness ::
  "registry_env \<Rightarrow> rfsys \<Rightarrow> registry_generation option \<Rightarrow> path \<Rightarrow> (controller_error, freshness) result" where
  "evaluate_freshness env fs generation workspace_root =
     (case generation of
        None \<Rightarrow> Inr Stale
      | Some meta \<Rightarrow>
          (if rg_source_fingerprints meta = [] then Inr Stale
           else freshness_loop env fs workspace_root (rg_source_fingerprints meta)))"

section \<open>Documents\<close>

text \<open>\<open>fs::read_to_string\<close>: the bytes must be UTF-8.\<close>

definition read_to_string :: "rfsys \<Rightarrow> path \<Rightarrow> (io_error, string) result" where
  "read_to_string fs p =
     rbind (read_bytes fs p) (\<lambda>s.
       if valid_utf8 s then Inr s else Inl (OtherIo ''stream did not contain valid UTF-8''))"

text \<open>Reads and decodes one registry file; \<open>label\<close> is its name in the message of a malformed document.\<close>

definition read_document ::
  "registry_env \<Rightarrow> rfsys \<Rightarrow> path \<Rightarrow> string \<Rightarrow> (string \<Rightarrow> (string, 'd) result) \<Rightarrow> (controller_error, 'd) result" where
  "read_document env fs p label decode =
     rbind (map_err (\<lambda>e. InvalidRegistry (''cannot read '' @ path_display p @ '': '' @ rv_io_text env e))
              (read_to_string fs p)) (\<lambda>text.
       map_err (\<lambda>e. InvalidRegistry (''malformed '' @ label @ '': '' @ e)) (decode text))"

definition load_units ::
  "registry_env \<Rightarrow> rfsys \<Rightarrow> registry_paths \<Rightarrow> (controller_error, units_document \<times> freshness) result" where
  "load_units env fs paths =
     (let p = file_path paths Units in
      if \<not> path_exists fs p then
        Inr (\<lparr>ud_generated_at = '''', ud_registry_generation = None,
              ud_summary = JObject [(''total'', JNumber ''0'')], ud_units = []\<rparr>, Miss)
      else rbind (read_document env fs p ''units.json'' (rv_units env)) (\<lambda>doc.
           rbind (evaluate_freshness env fs (ud_registry_generation doc) (rp_workspace_root paths)) (\<lambda>fresh.
             Inr (doc, fresh))))"

definition load_scan ::
  "registry_env \<Rightarrow> rfsys \<Rightarrow> registry_paths \<Rightarrow> (controller_error, scan_document \<times> freshness) result" where
  "load_scan env fs paths =
     (let p = file_path paths Scan in
      if \<not> path_exists fs p then
        Inr (\<lparr>sd_generated_at = '''', sd_registry_generation = None, sd_root = None,
              sd_summary = JObject [], sd_workspaces = []\<rparr>, Miss)
      else rbind (read_document env fs p ''scan.json'' (rv_scan env)) (\<lambda>doc.
           rbind (evaluate_freshness env fs (sd_registry_generation doc) (rp_workspace_root paths)) (\<lambda>fresh.
             Inr (doc, fresh))))"

definition load_tools ::
  "registry_env \<Rightarrow> rfsys \<Rightarrow> registry_paths \<Rightarrow> (controller_error, tools_document \<times> freshness) result" where
  "load_tools env fs paths =
     (let p = file_path paths Tools in
      if \<not> path_exists fs p then
        Inr (\<lparr>td_generated_at = '''', td_summary = JObject [], td_tools = []\<rparr>, Miss)
      else rbind (read_document env fs p ''tools.json'' (rv_tools env)) (\<lambda>doc. Inr (doc, Hit)))"

definition load_profiles ::
  "registry_env \<Rightarrow> rfsys \<Rightarrow> registry_paths \<Rightarrow> (controller_error, profiles_document) result" where
  "load_profiles env fs paths =
     (let p = file_path paths Profiles in
      if \<not> path_exists fs p then Inl (InvalidRegistry (''profiles.json missing at '' @ path_display p))
      else read_document env fs p ''profiles.json'' (rv_profiles env))"

definition load_policies ::
  "registry_env \<Rightarrow> rfsys \<Rightarrow> registry_paths \<Rightarrow> (controller_error, policies_document) result" where
  "load_policies env fs paths =
     (let p = file_path paths Policies in
      if \<not> path_exists fs p then Inl (InvalidRegistry (''policies.json missing at '' @ path_display p))
      else read_document env fs p ''policies.json'' (rv_policies env))"

definition load_authored_unit_descriptor ::
  "registry_env \<Rightarrow> rfsys \<Rightarrow> path \<Rightarrow> (controller_error, authored_unit_descriptor) result" where
  "load_authored_unit_descriptor env fs p =
     rbind (map_err (\<lambda>e. InvalidRegistry (''cannot read authored descriptor '' @ path_display p @ '': '' @ rv_io_text env e))
              (read_to_string fs p)) (\<lambda>text.
       map_err (\<lambda>e. InvalidRegistry (''invalid authored descriptor '' @ path_display p @ '': '' @ e))
         (rv_descriptor env text))"

definition contracts_readable :: "registry_env \<Rightarrow> rfsys \<Rightarrow> registry_paths \<Rightarrow> bool \<times> string" where
  "contracts_readable env fs paths =
     (let units = file_path paths Units in
      if path_exists fs units then
        (case rbind (map_err (rv_io_text env) (read_to_string fs units)) (rv_units env) of
           Inr _ \<Rightarrow> (True, ''units.json readable at '' @ path_display units)
         | Inl e \<Rightarrow> (False, ''units.json unreadable: '' @ e))
      else (False, ''units.json missing at '' @ path_display units))"

section \<open>Provisional units\<close>

fun extract_lines :: "string \<Rightarrow> string list \<Rightarrow> string option" where
  "extract_lines key [] = None"
| "extract_lines key (raw # more_lines) =
     (let line = trim raw in
      if starts_with line ''#'' then extract_lines key more_lines
      else
        (case (case strip_prefix line (key @ '' '') of Some r \<Rightarrow> Some r | None \<Rightarrow> strip_prefix line (key @ ''='')) of
           None \<Rightarrow> extract_lines key more_lines
         | Some r \<Rightarrow>
             (case Option.bind (strip_prefix (trim (trim_start_matches (CHR ''='') (trim r))) [CHR 0x22])
                     (\<lambda>r. str_strip_suffix r [CHR 0x22]) of
                Some s \<Rightarrow> Some s
              | None \<Rightarrow> extract_lines key more_lines)))"

definition extract_toml_string :: "string \<Rightarrow> string \<Rightarrow> string option" where
  "extract_toml_string text key = extract_lines key (str_lines text)"

definition provisional_from_descriptor :: "rfsys \<Rightarrow> path \<Rightarrow> unit_record option" where
  "provisional_from_descriptor fs p =
     (case read_to_string fs p of
        Inl _ \<Rightarrow> None
      | Inr text \<Rightarrow>
          (case extract_toml_string text ''id'' of
             None \<Rightarrow> None
           | Some i \<Rightarrow>
               Some \<lparr>ur_id = i, ur_kind = extract_toml_string text ''kind'',
                 ur_title = extract_toml_string text ''title'', ur_status = extract_toml_string text ''status'',
                 ur_domain = extract_toml_string text ''domain'', ur_layer = extract_toml_string text ''layer'',
                 ur_stack = None, ur_owner = None, ur_runtime = None, ur_path = Some (path_display p),
                 ur_native_manifests = [], ur_entrypoints = Map.empty, ur_cli = None, ur_provides = [],
                 ur_requires = [], ur_policy = None, ur_source = Some ''source-fallback'',
                 ur_provisional = True, ur_routing_complete = Some False\<rparr>))"

definition fallback_roots :: "rfsys \<Rightarrow> registry_paths \<Rightarrow> path list" where
  "fallback_roots fs paths =
     (let colocated = path_join (rp_workspace_root paths)
            (components ''Build/src/workspaces/wfos/packages/ontarch/descriptors'');
          roots = (if path_is_dir fs colocated then [colocated] else []);
          roots = (case path_pop (rp_registry_root paths) of
                     Some parent \<Rightarrow>
                       (let central = path_join parent (components ''descriptors'') in
                        if path_is_dir fs central \<and> central \<notin> set roots then roots @ [central] else roots)
                   | None \<Rightarrow> roots);
          fixture = path_join (rp_registry_root paths) (components ''sources/descriptors'')
      in if path_is_dir fs fixture then roots @ [fixture] else roots)"

definition toml_entries :: "(io_error, path) result list \<Rightarrow> path list" where
  "toml_entries es = filter (\<lambda>p. extension p = Some ''toml'') (entries_ok es)"

definition source_fallback_units :: "rfsys \<Rightarrow> registry_paths \<Rightarrow> unit_record list" where
  "source_fallback_units fs paths =
     (let files = concat (map (\<lambda>root. case read_dir fs root of Inr es \<Rightarrow> toml_entries es | Inl _ \<Rightarrow> [])
            (fallback_roots fs paths));
          found = List.map_filter (provisional_from_descriptor fs) files
      in btree_values (btree_of_list (map (\<lambda>u. (ur_id u, u)) found)))"

section \<open>Properties\<close>

lemma freshness_loop_Hit_iff:
  "freshness_loop env fs root fps = Inr Hit \<longleftrightarrow>
     (\<forall>fp \<in> set fps. path_is_file fs (resolve_fingerprint_path root (fp_path fp)) \<and>
        (\<exists>data. read_bytes fs (resolve_fingerprint_path root (fp_path fp)) = Inr data \<and>
           fp_digest fp = rv_sha256_hex env data \<and> fp_algorithm fp = ''sha256''))"
proof (induction fps)
  case (Cons fp fps)
  then show ?case
    by (cases "read_bytes fs (resolve_fingerprint_path root (fp_path fp))")
      (auto simp: Let_def fingerprint_file_def fingerprint_bytes_def)
qed simp

text \<open>
  A cached registry document counts as fresh exactly when it records at least one source fingerprint
  and every recorded source is still a regular file whose bytes have the recorded SHA-256 digest. One
  changed, missing or unreadable source is enough to make the document stale or an error.
\<close>

theorem evaluate_freshness_hit_iff:
  "evaluate_freshness env fs generation root = Inr Hit \<longleftrightarrow>
     (\<exists>meta. generation = Some meta \<and> rg_source_fingerprints meta \<noteq> [] \<and>
        (\<forall>fp \<in> set (rg_source_fingerprints meta).
           path_is_file fs (resolve_fingerprint_path root (fp_path fp)) \<and>
           (\<exists>data. read_bytes fs (resolve_fingerprint_path root (fp_path fp)) = Inr data \<and>
              fp_digest fp = rv_sha256_hex env data \<and> fp_algorithm fp = ''sha256'')))"
  by (simp add: evaluate_freshness_def freshness_loop_Hit_iff split: option.splits)

text \<open>The registry a directory holds, if it holds one.\<close>

definition registry_at :: "rfsys \<Rightarrow> path \<Rightarrow> path option" where
  "registry_at fs dir =
     find (path_is_dir fs)
       [dir @ components ''packages/ontarch/registry'',
        dir @ components ''Build/src/workspaces/wfos/packages/ontarch/registry'']"

lemma registry_components:
  "path_join (RootDir # q) (components ''packages/ontarch/registry'') =
     (RootDir # q) @ components ''packages/ontarch/registry''"
  "path_join (RootDir # q) (components ''Build/src/workspaces/wfos/packages/ontarch/registry'') =
     (RootDir # q) @ components ''Build/src/workspaces/wfos/packages/ontarch/registry''"
proof -
  have "components ''packages/ontarch/registry'' = map Normal [''packages'', ''ontarch'', ''registry'']"
    "components ''Build/src/workspaces/wfos/packages/ontarch/registry'' =
       map Normal [''Build'', ''src'', ''workspaces'', ''wfos'', ''packages'', ''ontarch'', ''registry'']"
    by code_simp+
  then show
    "path_join (RootDir # q) (components ''packages/ontarch/registry'') =
       (RootDir # q) @ components ''packages/ontarch/registry''"
    "path_join (RootDir # q) (components ''Build/src/workspaces/wfos/packages/ontarch/registry'') =
       (RootDir # q) @ components ''Build/src/workspaces/wfos/packages/ontarch/registry''"
    by (simp_all add: path_simps)
qed

lemma find_registry_loop_step:
  "find_registry_loop fs (RootDir # q) =
     (case registry_at fs (RootDir # q) of
        Some r \<Rightarrow> Inr r
      | None \<Rightarrow>
          (case path_pop (RootDir # q) of
             Some parent \<Rightarrow> find_registry_loop fs parent
           | None \<Rightarrow> Inl (UnavailableSource
               ''Ontarch registry not found; set TAKOGAMI_ONTARCH_REGISTRY or run from the wfos workspace'')))"
  by (subst find_registry_loop.simps) (simp add: Let_def registry_components registry_at_def)

text \<open>
  The search for the registry terminates with the nearest one. From an absolute working directory it
  returns the registry of the deepest ancestor that has one, and it fails, with the documented message,
  exactly when no ancestor up to the root has one.
\<close>

theorem find_registry_nearest:
  assumes "current_dir = Inr (RootDir # map Normal segs)"
  shows "find_registry_from_cwd env fs current_dir =
    (case filter (\<lambda>n. registry_at fs (RootDir # map Normal (take n segs)) \<noteq> None) (rev [0..<Suc (length segs)]) of
       [] \<Rightarrow> Inl (UnavailableSource
         ''Ontarch registry not found; set TAKOGAMI_ONTARCH_REGISTRY or run from the wfos workspace'')
     | n # _ \<Rightarrow> Inr (the (registry_at fs (RootDir # map Normal (take n segs)))))"
proof -
  have "find_registry_loop fs (RootDir # map Normal segs) =
    (case filter (\<lambda>n. registry_at fs (RootDir # map Normal (take n segs)) \<noteq> None) (rev [0..<Suc (length segs)]) of
       [] \<Rightarrow> Inl (UnavailableSource
         ''Ontarch registry not found; set TAKOGAMI_ONTARCH_REGISTRY or run from the wfos workspace'')
     | n # _ \<Rightarrow> Inr (the (registry_at fs (RootDir # map Normal (take n segs)))))"
  proof (induction segs rule: rev_induct)
    case Nil
    show ?case by (subst find_registry_loop_step) (simp add: path_pop_def split: option.splits)
  next
    case (snoc x xs)
    let ?at = "\<lambda>segs n. registry_at fs (RootDir # map Normal (take n segs))"
    have pop: "path_pop (RootDir # map Normal (xs @ [x])) = Some (RootDir # map Normal xs)"
      by (simp add: path_pop_Some_iff)
    have same: "?at (xs @ [x]) n = ?at xs n" if "n \<in> set (rev [0..<Suc (length xs)])" for n
      using that by auto
    have filt: "filter (\<lambda>n. ?at (xs @ [x]) n \<noteq> None) (rev [0..<Suc (length xs)]) =
      filter (\<lambda>n. ?at xs n \<noteq> None) (rev [0..<Suc (length xs)])" (is "?l = ?r")
      by (rule filter_cong) (simp_all only: same)
    have hd: "?at (xs @ [x]) n = ?at xs n" if "?r = n # ns" for n ns
    proof (rule same)
      have "n \<in> set ?r" using that by (simp only: list.set_intros)
      then show "n \<in> set (rev [0..<Suc (length xs)])" by (simp only: set_filter mem_Collect_eq)
    qed
    have "[0..<Suc (length (xs @ [x]))] = [0..<Suc (length xs)] @ [Suc (length xs)]" by simp
    then have split: "rev [0..<Suc (length (xs @ [x]))] = Suc (length xs) # rev [0..<Suc (length xs)]"
      by (simp only: rev_append rev.simps append_Nil append_Cons)
    have all: "take (Suc (length xs)) (xs @ [x]) = xs @ [x]" by simp
    show ?case
    proof (cases "registry_at fs (RootDir # map Normal (xs @ [x]))")
      case None
      then have "find_registry_loop fs (RootDir # map Normal (xs @ [x])) =
          find_registry_loop fs (RootDir # map Normal xs)"
        by (subst find_registry_loop_step) (simp only: pop option.case)
      moreover have "filter (\<lambda>n. ?at (xs @ [x]) n \<noteq> None) (rev [0..<Suc (length (xs @ [x]))]) = ?r"
        unfolding split filter.simps all None by (simp only: filt simp_thms if_False)
      ultimately show ?thesis unfolding snoc.IH using hd
        by (cases ?r) (simp_all only: list.case)
    next
      case (Some r)
      then have "find_registry_loop fs (RootDir # map Normal (xs @ [x])) = Inr r"
        by (subst find_registry_loop_step) (simp only: option.case)
      then show ?thesis unfolding split filter.simps all using Some by simp
    qed
  qed
  then show ?thesis by (simp add: find_registry_from_cwd_def assms)
qed

definition registry_tree_fs :: "path list \<Rightarrow> rfsys" where
  "registry_tree_fs dirs =
     \<lparr>symlink_metadata = (\<lambda>p. if p \<in> set dirs then Inr Directory else Inl NotFound),
      metadata = (\<lambda>p. if p \<in> set dirs then Inr Directory else Inl NotFound),
      canonicalize = (\<lambda>p. if p \<in> set dirs then Inr p else Inl NotFound),
      read_bytes = (\<lambda>p. Inl NotFound), read_dir = (\<lambda>p. Inl NotFound), mode_bits = (\<lambda>p. 0)\<rparr>"

theorem find_registry_nearest_witness:
  "\<forall>env. find_registry_from_cwd env
     (registry_tree_fs [RootDir # map Normal [''w'', ''packages'', ''ontarch'', ''registry'']])
     (Inr (RootDir # map Normal [''w'', ''a'', ''b''])) =
   Inr (RootDir # map Normal [''w'', ''packages'', ''ontarch'', ''registry''])"
proof
  fix env :: registry_env
  let ?fs = "registry_tree_fs [RootDir # map Normal [''w'', ''packages'', ''ontarch'', ''registry'']]"
  have "filter (\<lambda>n. registry_at ?fs (RootDir # map Normal (take n [''w'', ''a'', ''b''])) \<noteq> None)
      (rev [0..<Suc (length [''w'', ''a'', ''b''])]) = [1]"
    "registry_at ?fs (RootDir # map Normal (take 1 [''w'', ''a'', ''b''])) =
      Some (RootDir # map Normal [''w'', ''packages'', ''ontarch'', ''registry''])"
    by code_simp+
  then show "find_registry_from_cwd env ?fs (Inr (RootDir # map Normal [''w'', ''a'', ''b''])) =
      Inr (RootDir # map Normal [''w'', ''packages'', ''ontarch'', ''registry''])"
    unfolding find_registry_nearest [OF refl] by (simp only: list.case option.sel)
qed

end
