(* ===== verification/Registry_Query.thy ===== *)
theory Registry_Query
  imports Registry_Access
begin

text \<open>
  The list filters and lookups (\<open>registry/query.rs\<close>) and the discovery from a scan (\<open>registry/scan.rs\<close>).
  The order in which a \<open>HashMap\<close> is iterated is unspecified: \<open>discover_from_scan\<close> takes it as the
  parameter \<open>order\<close>, a rearrangement of the keys.
\<close>

section \<open>Filters\<close>

definition UNIT_FILTER_KEYS :: "string list" where
  "UNIT_FILTER_KEYS =
     [''kind'', ''domain'', ''layer'', ''stack'', ''owner'', ''runtime'', ''status'', ''provides'', ''requires'',
      ''module'', ''id'', ''installed'', ''default'']"

type_synonym unit_filters = "(string \<times> string) list"

definition filter_shape_error :: "string \<Rightarrow> controller_error" where
  "filter_shape_error item = InvalidFilter (''filter must be FIELD=VALUE, got '' @ backtick @ item @ backtick)"

definition parse_filter :: "string \<Rightarrow> (controller_error, string \<times> string) result" where
  "parse_filter item =
     (case split_once (CHR ''='') item of
        None \<Rightarrow> Inl (filter_shape_error item)
      | Some (key, val) \<Rightarrow>
          (let key = trim key; val = trim val in
           if key = [] \<or> val = [] then Inl (filter_shape_error item)
           else if key \<notin> set UNIT_FILTER_KEYS then
             Inl (InvalidFilter (''unsupported filter field '' @ backtick @ key @ backtick @ ''; allowed: '' @
               join '', '' UNIT_FILTER_KEYS))
           else Inr (key, val)))"

definition parse_filters :: "string list \<Rightarrow> (controller_error, unit_filters) result" where
  "parse_filters raw = traverse parse_filter raw"

definition unit_matches :: "unit_record \<Rightarrow> string \<Rightarrow> string \<Rightarrow> bool" where
  "unit_matches u key val =
     (if key = ''kind'' then ur_kind u = Some val
      else if key = ''domain'' then ur_domain u = Some val
      else if key = ''layer'' then ur_layer u = Some val
      else if key = ''stack'' then ur_stack u = Some val
      else if key = ''owner'' then ur_owner u = Some val
      else if key = ''runtime'' then ur_runtime u = Some val
      else if key = ''status'' then ur_status u = Some val
      else if key = ''provides'' then val \<in> set (ur_provides u)
      else if key = ''requires'' then val \<in> set (ur_requires u)
      else False)"

definition filter_units :: "unit_record list \<Rightarrow> unit_filters \<Rightarrow> unit_record list" where
  "filter_units us filters = filter (\<lambda>u. list_all (\<lambda>(k, v). unit_matches u k v) filters) us"

definition find_unit :: "unit_record list \<Rightarrow> string \<Rightarrow> (controller_error, unit_record) result" where
  "find_unit us i =
     (case filter (\<lambda>u. ur_id u = i) us of
        [] \<Rightarrow> Inl (NotFoundError (''unit '' @ backtick @ i @ backtick @ '' not found''))
      | [one] \<Rightarrow> Inr one
      | many \<Rightarrow> Inl (AmbiguousError (''unit id '' @ backtick @ i @ backtick @ '' matches '' @
          show_nat (length many) @ '' records: '' @
          join '', '' (map (\<lambda>u. case ur_path u of Some p \<Rightarrow> p | None \<Rightarrow> ur_id u) many))))"

definition bool_to_string :: "bool \<Rightarrow> string" where
  "bool_to_string b = (if b then ''true'' else ''false'')"

definition tool_matches :: "tool_record \<Rightarrow> string \<Rightarrow> string \<Rightarrow> bool" where
  "tool_matches t k v =
     (if k = ''module'' then tr_module t = Some v
      else if k = ''id'' then tr_id t = v
      else if k = ''installed'' then map_option bool_to_string (tr_installed t) = Some v
      else if k = ''default'' then map_option bool_to_string (tr_default t) = Some v
      else False)"

definition filter_tools :: "tool_record list \<Rightarrow> unit_filters \<Rightarrow> tool_record list" where
  "filter_tools ts filters = filter (\<lambda>t. list_all (\<lambda>(k, v). tool_matches t k v) filters) ts"

section \<open>Discovery from a scan\<close>

record scan_discovery =
  sc_freshness :: freshness
  sc_workspaces :: "json list"
  sc_units :: "unit_record list"
  sc_provisional :: "unit_record list"
  sc_lint_check_commands_evidence_only :: bool

fun normalize_parts :: "path \<Rightarrow> string list \<Rightarrow> string list" where
  "normalize_parts [] parts = parts"
| "normalize_parts (CurDir # cs) parts = normalize_parts cs parts"
| "normalize_parts (ParentDir # cs) parts = normalize_parts cs (butlast parts)"
| "normalize_parts (Normal s # cs) parts = normalize_parts cs (parts @ [s])"
| "normalize_parts (RootDir # cs) parts = normalize_parts cs []"

definition normalize_root :: "string \<Rightarrow> string" where
  "normalize_root p = join ''/'' (normalize_parts (components p) [])"

definition provisional_id_from_path :: "string \<Rightarrow> string" where
  "provisional_id_from_path p =
     map (\<lambda>c. if c = CHR '' '' \<or> c = CHR ''/'' then CHR ''-'' else c)
       (case file_name (components p) of Some s \<Rightarrow> s | None \<Rightarrow> ''unknown'')"

definition unit_root_key :: "unit_record \<Rightarrow> string" where
  "unit_root_key u = normalize_root (case ur_path u of Some p \<Rightarrow> p | None \<Rightarrow> ur_id u)"

text \<open>The first loop: units by normalised root, and the roots of every unit id in the order met.\<close>

fun index_units ::
  "unit_record list \<Rightarrow> (string \<rightharpoonup> unit_record) \<Rightarrow> string list \<Rightarrow> (string \<rightharpoonup> string list) \<Rightarrow> string list \<Rightarrow>
   (controller_error, (string \<rightharpoonup> unit_record) \<times> string list \<times> (string \<rightharpoonup> string list) \<times> string list) result" where
  "index_units [] by_path roots id_paths ids = Inr (by_path, roots, id_paths, ids)"
| "index_units (u # us) by_path roots id_paths ids =
     (let key = unit_root_key u in
      case by_path key of
        Some existing \<Rightarrow>
          (if ur_id existing \<noteq> ur_id u then
             Inl (AmbiguousError (''normalized root '' @ backtick @ key @ backtick @ '' maps to both '' @ backtick @
               ur_id existing @ backtick @ '' and '' @ backtick @ ur_id u @ backtick))
           else index_units us (by_path(key \<mapsto> u)) roots
             (id_paths(ur_id u \<mapsto> (case id_paths (ur_id u) of Some ks \<Rightarrow> ks | None \<Rightarrow> []) @ [key]))
             (List.insert (ur_id u) ids))
      | None \<Rightarrow>
          index_units us (by_path(key \<mapsto> u)) (key # roots)
            (id_paths(ur_id u \<mapsto> (case id_paths (ur_id u) of Some ks \<Rightarrow> ks | None \<Rightarrow> []) @ [key]))
            (List.insert (ur_id u) ids))"

definition check_single_root :: "(string \<rightharpoonup> string list) \<Rightarrow> string \<Rightarrow> (controller_error, unit) result" where
  "check_single_root id_paths i =
     (case id_paths i of
        None \<Rightarrow> Inr ()
      | Some paths \<Rightarrow>
          (if length (remdups paths) > 1 then
             Inl (AmbiguousError (''unit id '' @ backtick @ i @ backtick @ '' appears under multiple roots: '' @
               join '', '' paths))
           else Inr ()))"

definition provisional_unit_of :: "workspace_scan_entry \<Rightarrow> unit_record" where
  "provisional_unit_of ws =
     (let i = provisional_id_from_path (ws_path ws) in
      \<lparr>ur_id = i, ur_kind = (case ws_kind ws of Some k \<Rightarrow> Some k | None \<Rightarrow> Some ''workspace''),
       ur_title = Some (''provisional:'' @ i), ur_status = Some ''discovered'', ur_domain = None, ur_layer = None,
       ur_stack = None, ur_owner = None, ur_runtime = None, ur_path = Some (ws_path ws),
       ur_native_manifests = ws_native_manifests ws, ur_entrypoints = Map.empty, ur_cli = None,
       ur_provides = [], ur_requires = [], ur_policy = None, ur_source = Some ''scan-provisional'',
       ur_provisional = True, ur_routing_complete = Some False\<rparr>)"

definition json_opt_string :: "string option \<Rightarrow> json" where
  "json_opt_string x = (case x of Some s \<Rightarrow> JString s | None \<Rightarrow> JNull)"

definition workspace_json :: "workspace_scan_entry \<Rightarrow> bool \<Rightarrow> json" where
  "workspace_json ws backed =
     JObject [(''path'', JString (ws_path ws)), (''kind'', json_opt_string (ws_kind ws)),
       (''native_manifests'', JArray (map JString (ws_native_manifests ws))),
       (''lint_check_commands'', JArray (ws_lint_check_commands ws)), (''descriptor_backed'', JBool backed)]"

definition discover_from_scan ::
  "(string list \<Rightarrow> string list) \<Rightarrow> scan_document \<Rightarrow> units_document \<Rightarrow> freshness \<Rightarrow>
   (controller_error, scan_discovery) result" where
  "discover_from_scan order scan us fresh =
     rbind (index_units (ud_units us) Map.empty [] Map.empty []) (\<lambda>(by_path, roots, id_paths, ids).
     rbind (check_all (check_single_root id_paths) (order ids)) (\<lambda>_.
       let backed = (\<lambda>ws. by_path (normalize_root (ws_path ws)) \<noteq> None) in
       Inr \<lparr>sc_freshness = fresh,
            sc_workspaces = map (\<lambda>ws. workspace_json ws (backed ws)) (sd_workspaces scan),
            sc_units = List.map_filter by_path (order roots),
            sc_provisional = map provisional_unit_of (filter (\<lambda>ws. \<not> backed ws) (sd_workspaces scan)),
            sc_lint_check_commands_evidence_only = True\<rparr>))"

section \<open>Properties\<close>

text \<open>What the first loop maintains: an index by root, without loss, and the roots of every id.\<close>

definition indexed ::
  "unit_record list \<Rightarrow> (string \<rightharpoonup> unit_record) \<Rightarrow> string list \<Rightarrow> (string \<rightharpoonup> string list) \<Rightarrow> string list \<Rightarrow> bool" where
  "indexed seen by_path roots id_paths ids \<longleftrightarrow>
     dom by_path = set roots \<and> distinct roots \<and> unit_root_key ` set seen = set roots \<and>
     (\<forall>k u. by_path k = Some u \<longrightarrow> u \<in> set seen \<and> unit_root_key u = k) \<and>
     set ids = dom id_paths \<and>
     (\<forall>u \<in> set seen. \<exists>ks. id_paths (ur_id u) = Some ks \<and> unit_root_key u \<in> set ks)"

lemma indexed_step:
  assumes "indexed seen by_path roots id_paths ids" and "key = unit_root_key u"
  shows "indexed (seen @ [u]) (by_path(key \<mapsto> u)) (if by_path key = None then key # roots else roots)
    (id_paths(ur_id u \<mapsto> (case id_paths (ur_id u) of Some ks \<Rightarrow> ks | None \<Rightarrow> []) @ [key]))
    (List.insert (ur_id u) ids)"
proof -
  let ?id = "id_paths(ur_id u \<mapsto> (case id_paths (ur_id u) of Some ks \<Rightarrow> ks | None \<Rightarrow> []) @ [key])"
  have d: "dom by_path = set roots" "distinct roots" "unit_root_key ` set seen = set roots"
    "\<And>k u. by_path k = Some u \<Longrightarrow> u \<in> set seen \<and> unit_root_key u = k" "set ids = dom id_paths"
    "\<And>u. u \<in> set seen \<Longrightarrow> \<exists>ks. id_paths (ur_id u) = Some ks \<and> unit_root_key u \<in> set ks"
    using assms(1) by (auto simp: indexed_def)
  have "\<exists>ks. ?id (ur_id v) = Some ks \<and> unit_root_key v \<in> set ks" if "v \<in> set (seen @ [u])" for v
    using that d(6) [of v] assms(2) by (auto split: option.splits)
  moreover have "key \<in> set roots \<longleftrightarrow> by_path key \<noteq> None" using d(1) by (auto simp: dom_def)
  ultimately show ?thesis unfolding indexed_def using d(1,2,3,5) d(4) assms(2)
    by (auto simp: in_set_insert)
qed

lemma index_units_indexed:
  assumes "index_units us by_path roots id_paths ids = Inr (b, r, p, i)" and "indexed seen by_path roots id_paths ids"
  shows "indexed (seen @ us) b r p i"
  using assms
proof (induction us arbitrary: seen by_path roots id_paths ids)
  case (Cons u us)
  note step = indexed_step [OF Cons.prems(2) refl, of u]
  show ?case
  proof (cases "by_path (unit_root_key u)")
    case None
    then show ?thesis using Cons.prems(1) Cons.IH [OF _ step] by (simp add: Let_def del: fun_upd_apply)
  next
    case (Some e)
    then show ?thesis using Cons.prems(1) Cons.IH [OF _ step]
      by (simp add: Let_def del: fun_upd_apply split: if_splits)
  qed
qed simp

lemma length_remdups_le_1: "\<not> length (remdups xs) > 1 \<Longrightarrow> x \<in> set xs \<Longrightarrow> y \<in> set xs \<Longrightarrow> x = y"
  by (metis One_nat_def card_le_Suc0_iff_eq finite_set length_remdups_card_conv linorder_not_less)

text \<open>
  A successful discovery lists every unit root once. The units it returns have distinct normalised
  roots and distinct ids, their roots are exactly the roots of the registered units, and the provisional
  units are exactly the scanned workspaces whose root no registered unit has; all of this for every order
  in which the hash maps are iterated.
\<close>

theorem discover_from_scan_partition:
  assumes "discover_from_scan order scan us fresh = Inr d" and "\<And>xs. mset (order xs) = mset xs"
  shows "distinct (map unit_root_key (sc_units d)) \<and> distinct (map ur_id (sc_units d)) \<and>
    set (sc_units d) \<subseteq> set (ud_units us) \<and>
    unit_root_key ` set (sc_units d) = unit_root_key ` set (ud_units us) \<and>
    map ur_path (sc_provisional d) = map (Some \<circ> ws_path)
      (filter (\<lambda>ws. normalize_root (ws_path ws) \<notin> unit_root_key ` set (ud_units us)) (sd_workspaces scan))"
proof -
  obtain b r p i where idx: "index_units (ud_units us) Map.empty [] Map.empty [] = Inr (b, r, p, i)"
    and chk: "check_all (check_single_root p) (order i) = Inr ()"
    and d: "d = \<lparr>sc_freshness = fresh,
      sc_workspaces = map (\<lambda>ws. workspace_json ws (b (normalize_root (ws_path ws)) \<noteq> None)) (sd_workspaces scan),
      sc_units = List.map_filter b (order r),
      sc_provisional = map provisional_unit_of (filter (\<lambda>ws. \<not> b (normalize_root (ws_path ws)) \<noteq> None) (sd_workspaces scan)),
      sc_lint_check_commands_evidence_only = True\<rparr>"
    using assms(1) unfolding discover_from_scan_def Let_def
    by (auto simp: rbind_eq_Inr_iff)
  have ix: "indexed (ud_units us) b r p i"
    using index_units_indexed [OF idx, of "[]"] by (simp add: indexed_def)
  have so: "set (order xs) = set xs" "distinct (order xs) = distinct xs" for xs
    using assms(2) mset_eq_setD mset_eq_imp_distinct_iff by blast+
  have dom: "dom b = set r" and key: "\<And>k u. b k = Some u \<Longrightarrow> u \<in> set (ud_units us) \<and> unit_root_key u = k"
    and roots: "unit_root_key ` set (ud_units us) = set r" and ids: "set i = dom p"
    and paths: "\<And>u. u \<in> set (ud_units us) \<Longrightarrow> \<exists>ks. p (ur_id u) = Some ks \<and> unit_root_key u \<in> set ks"
    using ix by (auto simp: indexed_def)
  have some: "\<exists>u. b k = Some u" if "k \<in> set (order r)" for k
    using that dom so(1) by (auto simp: dom_def)
  define f where "f = (\<lambda>k. the (b k))"
  have us: "sc_units d = map f (order r)"
  proof -
    have "List.map_filter b ks = map f ks" if "set ks \<subseteq> dom b" for ks
      using that by (induction ks) (auto simp: f_def)
    then show ?thesis using dom so(1) by (simp add: d)
  qed
  have k: "unit_root_key (f x) = x" "f x \<in> set (ud_units us)" if "x \<in> set (order r)" for x
    using some [OF that] key by (auto simp: f_def)
  have keys: "map unit_root_key (sc_units d) = order r"
    using k(1) by (simp add: us map_idI)
  have one: "unit_root_key u = unit_root_key v"
    if uv: "u \<in> set (ud_units us)" "v \<in> set (ud_units us)" "ur_id u = ur_id v" for u v
  proof -
    obtain ks where ks: "p (ur_id u) = Some ks" "unit_root_key u \<in> set ks" "unit_root_key v \<in> set ks"
      using paths [OF uv(1)] paths [OF uv(2)] uv(3) by auto
    have "ur_id u \<in> set (order i)" using ks(1) ids so(1) by auto
    then have "check_single_root p (ur_id u) = Inr ()" using chk by (simp add: check_all_eq_Inr_iff)
    then show ?thesis using length_remdups_le_1 ks by (auto simp: check_single_root_def split: if_splits)
  qed
  have dr: "distinct (order r)" using ix so(2) by (simp add: indexed_def)
  have "distinct (map ur_id (sc_units d))"
    unfolding us map_map distinct_map
  proof
    show "inj_on (ur_id \<circ> f) (set (order r))"
      using one k by (intro inj_onI) (metis comp_def)
  qed (rule dr)
  moreover have "set (sc_units d) \<subseteq> set (ud_units us)" using k(2) us by auto
  moreover have "unit_root_key ` set (sc_units d) = unit_root_key ` set (ud_units us)"
    using keys roots so(1) by (metis image_set)
  moreover have "map ur_path (sc_provisional d) = map (Some \<circ> ws_path)
      (filter (\<lambda>ws. normalize_root (ws_path ws) \<notin> unit_root_key ` set (ud_units us)) (sd_workspaces scan))"
  proof -
    have "b x = None \<longleftrightarrow> x \<notin> unit_root_key ` set (ud_units us)" for x
      unfolding roots dom [symmetric] by (simp add: dom_def)
    moreover have "ur_path \<circ> provisional_unit_of = Some \<circ> ws_path"
      by (simp add: fun_eq_iff provisional_unit_of_def Let_def)
    ultimately show ?thesis by (simp add: d)
  qed
  ultimately show ?thesis using keys dr by simp
qed

definition sample_unit :: "string \<Rightarrow> string \<Rightarrow> unit_record" where
  "sample_unit i p = (provisional_unit_of \<lparr>ws_path = p, ws_kind = None, ws_git_root = None,
     ws_native_manifests = [], ws_lint_check_commands = []\<rparr>)\<lparr>ur_id := i\<rparr>"

definition sample_scan :: scan_document where
  "sample_scan = \<lparr>sd_generated_at = ''t'', sd_registry_generation = None, sd_root = None, sd_summary = JNull,
     sd_workspaces = [\<lparr>ws_path = ''a/./x'', ws_kind = None, ws_git_root = None, ws_native_manifests = [],
       ws_lint_check_commands = []\<rparr>, \<lparr>ws_path = ''b'', ws_kind = None, ws_git_root = None,
       ws_native_manifests = [], ws_lint_check_commands = []\<rparr>]\<rparr>"

definition sample_units :: units_document where
  "sample_units = \<lparr>ud_generated_at = ''t'', ud_registry_generation = None, ud_summary = JNull,
     ud_units = [sample_unit ''ax'' ''a/x'', sample_unit ''c'' ''c'']\<rparr>"

theorem discover_from_scan_partition_witness:
  "\<exists>d. discover_from_scan rev sample_scan sample_units Hit = Inr d \<and> distinct (map ur_id (sc_units d)) \<and>
    map ur_path (sc_provisional d) = map (Some \<circ> ws_path)
      (filter (\<lambda>ws. normalize_root (ws_path ws) \<notin> unit_root_key ` set (ud_units sample_units)) (sd_workspaces sample_scan))"
proof -
  have "(case discover_from_scan rev sample_scan sample_units Hit of Inr _ \<Rightarrow> True | Inl _ \<Rightarrow> False)"
    by code_simp
  then obtain d where "discover_from_scan rev sample_scan sample_units Hit = Inr d"
    by (auto split: sum.splits)
  then show ?thesis using discover_from_scan_partition [of rev sample_scan sample_units Hit d] by auto
qed

end
