(* ===== verification/Resolution_Entry.thy ===== *)
theory Resolution_Entry
  imports Registry_Access Entrypoint Session_Store
begin

text \<open>
  The vocabulary of resolution: the resolution codes (\<open>resolution/resolver.rs\<close>), requests and correlation
  ids (\<open>resolution/request.rs\<close>), and the normalisation of structured and legacy entrypoints
  (\<open>resolution/entrypoint.rs\<close>). The clock and the process id behind a correlation id are arguments.
\<close>

section \<open>Resolution codes\<close>

datatype resolution_code =
    RegistryUnavailable string
  | UnitNotFound string
  | UnitAmbiguous string "string list"
  | RoutingIncomplete string
  | DescriptorUnavailable string
  | DescriptorAmbiguous string "string list"
  | InvalidDescriptor string
  | MissingEntrypoint string
  | UnsafeLegacyEntrypoint string
  | InvalidCwd string
  | MissingManifest string
  | ManifestAmbiguous "string list"
  | UnsupportedBackend string
  | MissingExecutable string
  | ExecutableAmbiguous "string list"
  | ProfileRequired
  | ProfileNotFound string
  | ProfileAmbiguous string
  | PolicyNotFound string
  | PolicyDuplicate string
  | InvalidPolicyRoot string

fun resolution_code_str :: "resolution_code \<Rightarrow> string" where
  "resolution_code_str (RegistryUnavailable _) = ''registry_unavailable''"
| "resolution_code_str (UnitNotFound _) = ''unit_not_found''"
| "resolution_code_str (UnitAmbiguous _ _) = ''unit_ambiguous''"
| "resolution_code_str (RoutingIncomplete _) = ''routing_incomplete''"
| "resolution_code_str (DescriptorUnavailable _) = ''descriptor_unavailable''"
| "resolution_code_str (DescriptorAmbiguous _ _) = ''descriptor_ambiguous''"
| "resolution_code_str (InvalidDescriptor _) = ''invalid_descriptor''"
| "resolution_code_str (MissingEntrypoint _) = ''missing_entrypoint''"
| "resolution_code_str (UnsafeLegacyEntrypoint _) = ''unsafe_legacy_entrypoint''"
| "resolution_code_str (InvalidCwd _) = ''invalid_cwd''"
| "resolution_code_str (MissingManifest _) = ''missing_manifest''"
| "resolution_code_str (ManifestAmbiguous _) = ''manifest_ambiguous''"
| "resolution_code_str (UnsupportedBackend _) = ''unsupported_backend''"
| "resolution_code_str (MissingExecutable _) = ''missing_executable''"
| "resolution_code_str (ExecutableAmbiguous _) = ''executable_ambiguous''"
| "resolution_code_str ProfileRequired = ''profile_required''"
| "resolution_code_str (ProfileNotFound _) = ''profile_not_found''"
| "resolution_code_str (ProfileAmbiguous _) = ''profile_ambiguous''"
| "resolution_code_str (PolicyNotFound _) = ''policy_not_found''"
| "resolution_code_str (PolicyDuplicate _) = ''policy_duplicate''"
| "resolution_code_str (InvalidPolicyRoot _) = ''invalid_policy_root''"

abbreviation quoted :: "string \<Rightarrow> string" where
  "quoted s \<equiv> backtick @ s @ backtick"

fun resolution_code_message :: "resolution_code \<Rightarrow> string" where
  "resolution_code_message (RegistryUnavailable message) = message"
| "resolution_code_message (DescriptorUnavailable message) = message"
| "resolution_code_message (InvalidDescriptor message) = message"
| "resolution_code_message (UnsafeLegacyEntrypoint message) = message"
| "resolution_code_message (InvalidCwd message) = message"
| "resolution_code_message (MissingManifest message) = message"
| "resolution_code_message (UnsupportedBackend message) = message"
| "resolution_code_message (MissingExecutable message) = message"
| "resolution_code_message (InvalidPolicyRoot message) = message"
| "resolution_code_message (UnitNotFound i) = ''unit '' @ quoted i @ '' not found''"
| "resolution_code_message (UnitAmbiguous i candidates) =
     ''unit '' @ quoted i @ '' ambiguous: '' @ join '', '' candidates"
| "resolution_code_message (RoutingIncomplete i) = ''unit '' @ quoted i @ '' has incomplete routing metadata''"
| "resolution_code_message (DescriptorAmbiguous i candidates) =
     ''descriptor for '' @ quoted i @ '' ambiguous: '' @ join '', '' candidates"
| "resolution_code_message (MissingEntrypoint verb) = ''missing entrypoint for verb '' @ quoted verb"
| "resolution_code_message (ManifestAmbiguous candidates) = ''manifest ambiguous: '' @ join '', '' candidates"
| "resolution_code_message (ExecutableAmbiguous candidates) = ''executable ambiguous: '' @ join '', '' candidates"
| "resolution_code_message ProfileRequired =
     ''profile required (pass --profile, set TAKOGAMI_PROFILE, or define workspace-dev)''"
| "resolution_code_message (ProfileNotFound i) = ''profile '' @ quoted i @ '' not found''"
| "resolution_code_message (ProfileAmbiguous i) = ''profile '' @ quoted i @ '' ambiguous''"
| "resolution_code_message (PolicyNotFound i) = ''policy '' @ quoted i @ '' not found''"
| "resolution_code_message (PolicyDuplicate i) = ''duplicate policy id '' @ quoted i"

fun sort_candidates :: "resolution_code \<Rightarrow> resolution_code" where
  "sort_candidates (UnitAmbiguous i candidates) = UnitAmbiguous i (sort_dedup candidates)"
| "sort_candidates (DescriptorAmbiguous i candidates) = DescriptorAmbiguous i (sort_dedup candidates)"
| "sort_candidates (ManifestAmbiguous candidates) = ManifestAmbiguous (sort_dedup candidates)"
| "sort_candidates (ExecutableAmbiguous candidates) = ExecutableAmbiguous (sort_dedup candidates)"
| "sort_candidates code = code"

text \<open>\<open>to_value\<close> is the serialiser of the trace.\<close>

definition into_error ::
  "(partial_resolution_trace \<Rightarrow> json option) \<Rightarrow> resolution_code \<Rightarrow> partial_resolution_trace \<Rightarrow> controller_error" where
  "into_error to_value code trace =
     (let code = sort_candidates code in
      ResolutionError (resolution_code_str code) (resolution_code_message code)
        (Some (pt_session_id trace)) (to_value trace))"

section \<open>Requests\<close>

datatype lifecycle_verb = Dev | Build | Check

fun verb_str :: "lifecycle_verb \<Rightarrow> string" where
  "verb_str Dev = ''dev''"
| "verb_str Build = ''build''"
| "verb_str Check = ''check''"

record resolution_request =
  rr_session_id :: string
  rr_unit_id :: string
  rr_verb :: lifecycle_verb
  rr_explicit_profile :: "string option"
  rr_explain :: bool
  rr_execute_requested :: bool

text \<open>
  \<open>DefaultIdGenerator::next_id\<close>: milliseconds since the epoch (0 when the clock is before it), process
  id and a wrapping 64-bit counter.
\<close>

definition next_id :: "nat option \<Rightarrow> 32 word \<Rightarrow> 64 word \<Rightarrow> string \<times> 64 word" where
  "next_id ms pid counter =
     (''tkg_'' @ show_nat (case ms of Some m \<Rightarrow> m | None \<Rightarrow> 0) @ ''_'' @ show_nat (unat pid) @ ''_'' @
        show_nat (unat counter),
      counter + 1)"

section \<open>Entrypoints\<close>

record normalized_entrypoint =
  ne_program :: string
  ne_args :: "string list"
  ne_cwd :: "string option"
  ne_env_keys :: "string list"
  ne_backend :: "string option"
  ne_adapter :: "string option"
  ne_source_manifests :: "string list"
  ne_required_policies :: "string list"
  ne_execution_class :: execution_class
  ne_runtime_provider :: "string option"
  ne_diagnostics :: "diagnostic_record list"

definition validate_token :: "string \<Rightarrow> (resolution_code, unit) result" where
  "validate_token s =
     ensure (\<not> (s = [] \<or> contains s [CHR 0x00])) (InvalidDescriptor ''empty or NUL token in entrypoint'')"

definition validate_env_key :: "string \<Rightarrow> (resolution_code, unit) result" where
  "validate_env_key k =
     ensure (\<not> (k = [] \<or> contains k [CHR 0x00] \<or> contains k ''='' \<or>
                \<not> list_all (\<lambda>c. is_ascii_alphanumeric c \<or> c = CHR ''_'') k))
       (InvalidDescriptor (''invalid env key name '' @ quoted k))"

definition validate_execution_class :: "execution_class \<Rightarrow> string option \<Rightarrow> (resolution_code, unit) result" where
  "validate_execution_class cls provider =
     (case cls of
        Direct \<Rightarrow>
          (if provider \<noteq> None then
             Inl (InvalidDescriptor ''execution_class=direct requires runtime_provider null/absent'')
           else Inr ())
      | InteractiveSession \<Rightarrow>
          (case map_option trim provider of
             Some s \<Rightarrow>
               (if s = [] then
                  Inl (InvalidDescriptor ''execution_class=interactive_session requires non-empty runtime_provider'')
                else Inr ())
           | None \<Rightarrow>
               Inl (InvalidDescriptor ''execution_class=interactive_session requires non-empty runtime_provider'')))"

definition normalize_structured :: "structured_entrypoint \<Rightarrow> (resolution_code, normalized_entrypoint) result" where
  "normalize_structured s =
     rbind (validate_token (se_program s)) (\<lambda>_.
     rbind (check_all validate_token (se_args s)) (\<lambda>_.
     rbind (check_all validate_env_key (se_env_keys s)) (\<lambda>_.
     rbind (validate_execution_class (se_execution_class s) (se_runtime_provider s)) (\<lambda>_.
       Inr \<lparr>ne_program = se_program s, ne_args = se_args s, ne_cwd = se_cwd s, ne_env_keys = se_env_keys s,
            ne_backend = se_backend s, ne_adapter = se_adapter s,
            ne_source_manifests = se_source_manifests s, ne_required_policies = se_required_policies s,
            ne_execution_class = se_execution_class s, ne_runtime_provider = se_runtime_provider s,
            ne_diagnostics = []\<rparr>))))"

fun legacy_error_message :: "legacy_parse_error \<Rightarrow> string" where
  "legacy_error_message EmptyEntrypoint = ''empty entrypoint''"
| "legacy_error_message (ShellSyntax token) = ''shell syntax rejected: contains '' @ quoted token"
| "legacy_error_message DollarSubstitution = ''shell syntax rejected: contains '' @ quoted ''$'' @ '' substitution''"
| "legacy_error_message (MalformedQuoting e) = split_error_message e"
| "legacy_error_message EmptyProgram = ''empty program''"

definition normalize_legacy :: "string \<Rightarrow> (resolution_code, normalized_entrypoint) result" where
  "normalize_legacy raw =
     rbind (map_err (UnsafeLegacyEntrypoint \<circ> legacy_error_message) (parse_legacy_entrypoint raw)) (\<lambda>parsed.
       Inr \<lparr>ne_program = le_program parsed, ne_args = le_args parsed, ne_cwd = None, ne_env_keys = [],
            ne_backend = None, ne_adapter = None, ne_source_manifests = [], ne_required_policies = [],
            ne_execution_class = Direct, ne_runtime_provider = None,
            ne_diagnostics = [le_deprecation parsed]\<rparr>)"

fun normalize_entrypoint :: "entrypoint_definition \<Rightarrow> (resolution_code, normalized_entrypoint) result" where
  "normalize_entrypoint (Structured s) = normalize_structured s"
| "normalize_entrypoint (Legacy raw) = normalize_legacy raw"

section \<open>Properties\<close>

lemma show_nat_digits: "c \<in> set (show_nat n) \<Longrightarrow> is_ascii_digit c"
proof (induction n arbitrary: c rule: show_nat.induct)
  case (1 n)
  have "is_ascii_digit (char_of (48 + m))" if "m < 10" for m :: nat
    using that by (simp add: is_ascii_digit_def byte_def)
  then show ?case using 1 by (cases "n < 10") (auto simp: show_nat_digit show_nat_step)
qed

lemma show_nat_nonempty [simp]: "show_nat n \<noteq> []"
  by (subst show_nat.simps) simp

text \<open>The value a decimal numeral denotes, a left inverse of the rendering.\<close>

definition nat_of_digits :: "string \<Rightarrow> nat" where
  "nat_of_digits s = fold (\<lambda>c v. 10 * v + (byte c - 48)) s 0"

lemma nat_of_digits_show_nat [simp]: "nat_of_digits (show_nat n) = n"
proof (induction n rule: show_nat.induct)
  case (1 n)
  then show ?case
    by (cases "n < 10") (simp_all add: nat_of_digits_def show_nat_digit show_nat_step byte_def)
qed

lemma show_nat_inj: "show_nat m = show_nat n \<longleftrightarrow> m = n"
  by (metis nat_of_digits_show_nat)

lemma length_show_nat: "n < 10 ^ k \<Longrightarrow> 0 < k \<Longrightarrow> length (show_nat n) \<le> k"
proof (induction n arbitrary: k rule: show_nat.induct)
  case (1 n)
  show ?case
  proof (cases "n < 10")
    case False
    then obtain j where k: "k = Suc j" "0 < j" using 1(2,3) by (cases k; cases "k - 1") auto
    have "n div 10 < 10 ^ j" using 1(2) k(1) by (simp add: less_mult_imp_div_less mult.commute)
    then show ?thesis using 1(1) [OF False _ k(2)] False k(1) by (simp add: show_nat_step)
  qed (use 1(3) in \<open>simp add: show_nat_digit\<close>)
qed

lemma digit_not_underscore: "is_ascii_digit c \<Longrightarrow> c \<noteq> CHR ''_''"
  by (auto simp: is_ascii_digit_def byte_def)

lemma show_nat_no_underscore: "CHR ''_'' \<notin> set (show_nat n)"
  using show_nat_digits digit_not_underscore by blast

lemma next_id_parts:
  "split_on (CHR ''_'') (join [CHR ''_''] [''tkg'', show_nat a, show_nat b, show_nat c]) =
     [''tkg'', show_nat a, show_nat b, show_nat c]"
  by (rule split_on_join) (simp_all add: show_nat_no_underscore)

lemma next_id_split:
  "split_on (CHR ''_'') (fst (next_id ms pid c)) =
     [''tkg'', show_nat (case ms of Some m \<Rightarrow> m | None \<Rightarrow> 0), show_nat (unat pid), show_nat (unat c)]"
proof -
  have "fst (next_id ms pid c) = join [CHR ''_'']
     [''tkg'', show_nat (case ms of Some m \<Rightarrow> m | None \<Rightarrow> 0), show_nat (unat pid), show_nat (unat c)]"
    by (simp add: next_id_def)
  then show ?thesis
    by (simp only: next_id_parts)
qed

lemma validate_session_idI:
  assumes "i = x # xs" and "length i \<le> SESSION_ID_MAX" and "is_ascii_alphanumeric x" and "list_all is_session_char xs"
  shows "validate_session_id i = Inr ()"
proof -
  have "is_session_char x" using assms(3) by (simp add: is_session_char_def)
  then have ok: "\<forall>c \<in> set i. is_session_char c" using assms(1,4) by (auto simp: list_all_iff)
  have "\<not> is_session_char (CHR ''.'')" "\<not> is_session_char (CHR ''/'')" "\<not> is_session_char (CHR 0x5C)"
    "\<not> is_session_char (CHR 0x00)" by code_simp+
  then have "i \<noteq> ''.''" "i \<noteq> ''..''" "CHR ''/'' \<notin> set i" "CHR 0x5C \<notin> set i" "CHR 0x00 \<notin> set i"
    using ok by (metis list.set_intros(1))+
  then show ?thesis using assms by (simp add: validate_session_id_def contains_char_iff)
qed

text \<open>
  The correlation ids of one process are valid session ids and pairwise distinct: as long as the
  64-bit counter has not wrapped around to the same value, two generated ids differ, whatever the clock
  reads, and every generated id passes the validation of the record store.
\<close>

theorem next_id_valid_and_fresh:
  assumes "case ms of Some m \<Rightarrow> m < 2 ^ 128 | None \<Rightarrow> True"
  shows "validate_session_id (fst (next_id ms pid c)) = Inr () \<and>
    (c \<noteq> c' \<longrightarrow> fst (next_id ms pid c) \<noteq> fst (next_id ms' pid c'))"
proof
  let ?m = "case ms of Some m \<Rightarrow> m | None \<Rightarrow> 0"
  have i: "fst (next_id ms pid c) =
      CHR ''t'' # ''kg_'' @ show_nat ?m @ ''_'' @ show_nat (unat pid) @ ''_'' @ show_nat (unat c)"
    by (simp add: next_id_def)
  have "?m < 10 ^ 40" using assms by (cases ms) auto
  then have "length (show_nat ?m) \<le> 40" by (rule length_show_nat) simp
  moreover have "unat pid < 10 ^ 10" using unsigned_less [of pid, where 'a = nat] by simp
  then have "length (show_nat (unat pid)) \<le> 10" by (rule length_show_nat) simp
  moreover have "unat c < 10 ^ 20" using unsigned_less [of c, where 'a = nat] by simp
  then have "length (show_nat (unat c)) \<le> 20" by (rule length_show_nat) simp
  ultimately have len: "length (fst (next_id ms pid c)) \<le> SESSION_ID_MAX"
    unfolding i by (simp add: SESSION_ID_MAX_def)
  have "is_session_char d" if "d \<in> set (show_nat n)" for d n
    using show_nat_digits [OF that] by (simp add: is_session_char_def is_ascii_alphanumeric_def is_ascii_digit_def)
  then have "list_all is_session_char
      (''kg_'' @ show_nat ?m @ ''_'' @ show_nat (unat pid) @ ''_'' @ show_nat (unat c))"
    by (auto simp: list_all_iff is_session_char_def ascii_class_defs)
  moreover have "is_ascii_alphanumeric (CHR ''t'')" by code_simp
  ultimately show "validate_session_id (fst (next_id ms pid c)) = Inr ()"
    using validate_session_idI [OF i len] by blast
next
  show "c \<noteq> c' \<longrightarrow> fst (next_id ms pid c) \<noteq> fst (next_id ms' pid c')"
    using next_id_split [of ms pid c] next_id_split [of ms' pid c']
    by (metis list.inject show_nat_inj unsigned_word_eqI)
qed

theorem next_id_valid_and_fresh_witness:
  "fst (next_id (Some 5) 7 0) = ''tkg_5_7_0'' \<and> validate_session_id ''tkg_5_7_0'' = Inr () \<and>
   fst (next_id (Some 5) 7 0) \<noteq> fst (next_id (Some 5) 7 1)"
proof -
  have "fst (next_id (Some 5) 7 0) = ''tkg_5_7_0''"
    by code_simp
  then show ?thesis using next_id_valid_and_fresh [of "Some 5" 7 0 1 "Some 5"] by simp
qed

text \<open>What a normalised entrypoint guarantees to the resolver.\<close>

definition entry_ok :: "normalized_entrypoint \<Rightarrow> bool" where
  "entry_ok e \<longleftrightarrow>
     ne_program e \<noteq> [] \<and> [] \<notin> set (ne_args e) \<and>
     (\<forall>k \<in> set (ne_env_keys e). k \<noteq> [] \<and> list_all (\<lambda>c. is_ascii_alphanumeric c \<or> c = CHR ''_'') k) \<and>
     (ne_execution_class e = Direct \<longleftrightarrow> ne_runtime_provider e = None)"

lemma validate_execution_class_ok:
  "validate_execution_class cls provider = Inr () \<Longrightarrow> cls = Direct \<longleftrightarrow> provider = None"
  by (cases cls; cases provider) (auto simp: validate_execution_class_def)

lemma normalize_structured_ok:
  assumes "normalize_structured s = Inr e"
  shows "entry_ok e"
proof -
  have v: "validate_token (se_program s) = Inr ()" "\<forall>a \<in> set (se_args s). validate_token a = Inr ()"
    "\<forall>k \<in> set (se_env_keys s). validate_env_key k = Inr ()"
    "validate_execution_class (se_execution_class s) (se_runtime_provider s) = Inr ()"
    and e: "ne_program e = se_program s" "ne_args e = se_args s" "ne_env_keys e = se_env_keys s"
      "ne_execution_class e = se_execution_class s" "ne_runtime_provider e = se_runtime_provider s"
    using assms by (auto simp: normalize_structured_def rbind_eq_Inr_iff check_all_eq_Inr_iff)
  have "validate_token t = Inr () \<Longrightarrow> t \<noteq> []" for t
    by (simp add: validate_token_def ensure_eq_Inr_iff)
  moreover have "validate_env_key k = Inr () \<Longrightarrow> k \<noteq> [] \<and> list_all (\<lambda>c. is_ascii_alphanumeric c \<or> c = CHR ''_'') k" for k
    by (simp add: validate_env_key_def ensure_eq_Inr_iff)
  ultimately show ?thesis
    using v(1-3) validate_execution_class_ok [OF v(4)] unfolding entry_ok_def e by blast
qed

lemma normalize_legacy_ok:
  assumes "normalize_legacy raw = Inr e"
  shows "entry_ok e"
proof -
  obtain p where p: "parse_legacy_entrypoint raw = Inr p"
    and e: "ne_program e = le_program p" "ne_args e = le_args p" "ne_env_keys e = []"
      "ne_execution_class e = Direct" "ne_runtime_provider e = None"
    using assms by (auto simp: normalize_legacy_def result_simps)
  obtain argv where "split_argv (trim raw) = Inr argv" "argv = le_program p # le_args p"
    using p by (auto simp: parse_legacy_entrypoint_def Let_def result_simps)
  then show ?thesis using split_argv_tokens(1) e by (fastforce simp: entry_ok_def)
qed

lemma normalize_entrypoint_ok: "normalize_entrypoint d = Inr e \<Longrightarrow> entry_ok e"
  by (cases d) (auto dest: normalize_structured_ok normalize_legacy_ok)

end
