(* ===== verification/Resolution_Profile.thy ===== *)
theory Resolution_Profile
  imports Resolution_Entry
begin

text \<open>
  Profile selection and the collection of policy references (\<open>resolution/profile.rs\<close>): which profile a
  request runs under, and which policies apply to it, each with the reasons for its selection.
\<close>

section \<open>Selection\<close>

definition select_profile ::
  "profiles_document \<Rightarrow> string option \<Rightarrow> string option \<Rightarrow> (resolution_code, profile_record) result" where
  "select_profile docs explicit env_profile =
     rbind (case resolve_profile_selection docs explicit env_profile of
              ExplicitProfile i \<Rightarrow> Inr i
            | DefaultProfile i \<Rightarrow> Inr i
            | NoProfile \<Rightarrow> Inl ProfileRequired) (\<lambda>i.
       case filter (\<lambda>p. pf_id p = i) (pd_profiles docs) of
         [] \<Rightarrow> Inl (ProfileNotFound i)
       | [one] \<Rightarrow> Inr one
       | _ \<Rightarrow> Inl (ProfileAmbiguous i))"

section \<open>Policy references\<close>

type_synonym origins = "(string, string list) btree"

definition push_origin :: "string \<Rightarrow> string \<Rightarrow> origins \<Rightarrow> origins" where
  "push_origin i label m =
     btree_insert i (insort_insert label (case map_of m i of Some labels \<Rightarrow> labels | None \<Rightarrow> [])) m"

fun first_duplicate :: "string list \<Rightarrow> string list \<Rightarrow> string option" where
  "first_duplicate seen [] = None"
| "first_duplicate seen (x # xs) = (if x \<in> set seen then Some x else first_duplicate (x # seen) xs)"

definition push_all :: "(string \<times> string) list \<Rightarrow> origins \<Rightarrow> origins" where
  "push_all refs m = fold (\<lambda>(i, label). push_origin i label) refs m"

definition applying :: "string \<Rightarrow> string \<Rightarrow> policy_record list \<Rightarrow> (string \<times> string) list" where
  "applying target label policies =
     map (\<lambda>p. (po_id p, label)) (filter (\<lambda>p. po_applies_to p = Some target) policies)"

definition rail :: "string option \<Rightarrow> string \<Rightarrow> (string \<times> string) list" where
  "rail x label = (case x of Some i \<Rightarrow> [(i, label)] | None \<Rightarrow> [])"

text \<open>The references both functions collect, in the order they are pushed.\<close>

definition profile_refs :: "policy_record list \<Rightarrow> profile_record \<Rightarrow> (string \<times> string) list" where
  "profile_refs policies profile =
     applying ''agent'' ''global agent policy'' policies @
     rail (pf_rails profile) ''profile rails'' @ rail (pf_rails_bin profile) ''profile rails_bin''"

text \<open>The common tail: look every reference up, and list ids, records and origins in key order.\<close>

definition select_refs ::
  "policy_record list \<Rightarrow> profile_record \<Rightarrow> origins \<Rightarrow> (resolution_code, selected_profile) result" where
  "select_refs policies profile origins =
     (let by_id = map_of (map (\<lambda>p. (po_id p, p)) (rev policies)) in
      rbind (check_all (\<lambda>i. ensure (by_id i \<noteq> None) (PolicyNotFound i)) (btree_keys origins)) (\<lambda>_.
        let policy_ids = btree_keys origins in
        Inr \<lparr>sel_profile = profile, sel_policies = List.map_filter by_id policy_ids,
             sel_policy_ids = policy_ids,
             sel_policy_origins = map (\<lambda>(i, labels). (i, join '', '' (sort labels))) origins\<rparr>))"

definition collect_policy_refs ::
  "policies_document \<Rightarrow> profile_record \<Rightarrow> normalized_entrypoint \<Rightarrow> string \<Rightarrow>
   (resolution_code, selected_profile) result" where
  "collect_policy_refs doc profile entry unit_id =
     (let policies = pol_policies doc in
      case first_duplicate [] (map po_id policies) of
        Some i \<Rightarrow> Inl (PolicyDuplicate i)
      | None \<Rightarrow>
          select_refs policies profile
            (push_all (profile_refs policies profile @
               map (\<lambda>i. (i, ''entrypoint'')) (ne_required_policies entry) @
               applying unit_id ''unit policy'' policies) []))"

definition collect_bin_policy_refs ::
  "policies_document \<Rightarrow> profile_record \<Rightarrow> (resolution_code, selected_profile) result" where
  "collect_bin_policy_refs doc profile =
     (let policies = pol_policies doc in
      case first_duplicate [] (map po_id policies) of
        Some i \<Rightarrow> Inl (PolicyDuplicate i)
      | None \<Rightarrow> select_refs policies profile (push_all (profile_refs policies profile) []))"

section \<open>Properties\<close>

lemma push_all_ok: "btree_ok m \<Longrightarrow> btree_ok (push_all refs m)"
  by (induction refs arbitrary: m) (auto simp: push_all_def push_origin_def)

lemma push_all_keys: "set (btree_keys (push_all refs m)) = fst ` set refs \<union> set (btree_keys m)"
  by (induction refs arbitrary: m) (auto simp: push_all_def push_origin_def btree_keys_insert)

lemma applying_fst:
  "fst ` set (applying target label policies) = {po_id p |p. p \<in> set policies \<and> po_applies_to p = Some target}"
  by (auto simp: applying_def image_image)

lemma rail_fst: "fst ` set (rail x label) = set_option x"
  by (cases x) (simp_all add: rail_def)

lemma first_duplicate_None_iff:
  "first_duplicate seen xs = None \<longleftrightarrow> distinct xs \<and> set xs \<inter> set seen = {}"
  by (induction seen xs rule: first_duplicate.induct) auto

lemma map_filter_total: "(\<And>x. x \<in> set xs \<Longrightarrow> f x \<noteq> None) \<Longrightarrow> List.map_filter f xs = map (the \<circ> f) xs"
  by (induction xs) (auto split: option.splits)

lemma by_id_Some:
  assumes "map_of (map (\<lambda>p. (po_id p, p)) ps) i = Some p"
  shows "po_id p = i \<and> p \<in> set ps"
  using map_of_SomeD [OF assms] by auto

lemma select_refs_exact:
  assumes "select_refs policies profile origins = Inr sel" and "btree_ok origins"
  shows "sel_profile sel = profile" "sel_policy_ids sel = btree_keys origins"
    "map po_id (sel_policies sel) = btree_keys origins" "set (sel_policies sel) \<subseteq> set policies"
    "map fst (sel_policy_origins sel) = btree_keys origins"
proof -
  define by_id where "by_id = map_of (map (\<lambda>p. (po_id p, p)) (rev policies))"
  have found: "\<forall>i \<in> set (btree_keys origins). by_id i \<noteq> None"
    and sel: "sel = \<lparr>sel_profile = profile, sel_policies = List.map_filter by_id (btree_keys origins),
      sel_policy_ids = btree_keys origins,
      sel_policy_origins = map (\<lambda>(i, labels). (i, join '', '' (sort labels))) origins\<rparr>"
    using assms(1) by (auto simp: select_refs_def Let_def by_id_def rbind_eq_Inr_iff check_all_eq_Inr_iff ensure_eq_Inr_iff)
  have f: "List.map_filter by_id (btree_keys origins) = map (the \<circ> by_id) (btree_keys origins)"
    by (rule map_filter_total) (use found in blast)
  have k: "po_id (the (by_id i)) = i \<and> the (by_id i) \<in> set policies" if mem: "i \<in> set (btree_keys origins)" for i
  proof -
    obtain p where p: "by_id i = Some p" using bspec [OF found mem] by (cases "by_id i") simp_all
    show ?thesis using by_id_Some [OF p [unfolded by_id_def]] p by simp
  qed
  show "map po_id (sel_policies sel) = btree_keys origins" "set (sel_policies sel) \<subseteq> set policies"
    unfolding sel selected_profile.simps f using k by (auto simp: comp_def intro!: map_idI)
  show "sel_profile sel = profile" "sel_policy_ids sel = btree_keys origins"
    "map fst (sel_policy_origins sel) = btree_keys origins"
    by (simp_all only: sel selected_profile.simps btree_keys_def case_prod_unfold map_map comp_def fst_conv)
qed

lemma collect_policy_refs_select:
  assumes "collect_policy_refs doc profile entry unit_id = Inr sel"
  shows "distinct (map po_id (pol_policies doc))"
    and "select_refs (pol_policies doc) profile
      (push_all (profile_refs (pol_policies doc) profile @
         map (\<lambda>i. (i, ''entrypoint'')) (ne_required_policies entry) @
         applying unit_id ''unit policy'' (pol_policies doc)) []) = Inr sel"
  using assms by (auto simp: collect_policy_refs_def Let_def first_duplicate_None_iff split: option.splits)

text \<open>
  No policy that applies is left out and none is added. The selected ids are, in ascending order and
  without repetition, exactly the ids of the policies that apply to agents, the profile's rails, the
  policies the entrypoint requires and the policies that apply to the unit; the selected records are the
  registered records of these ids, and every id has exactly one list of origins.
\<close>

theorem collect_policy_refs_exact:
  assumes "collect_policy_refs doc profile entry unit_id = Inr sel"
  shows "sel_policy_ids sel = sorted_list_of_set
      ({po_id p |p. p \<in> set (pol_policies doc) \<and> po_applies_to p \<in> {Some ''agent'', Some unit_id}} \<union>
       set_option (pf_rails profile) \<union> set_option (pf_rails_bin profile) \<union> set (ne_required_policies entry)) \<and>
    map po_id (sel_policies sel) = sel_policy_ids sel \<and> set (sel_policies sel) \<subseteq> set (pol_policies doc) \<and>
    map fst (sel_policy_origins sel) = sel_policy_ids sel \<and> sel_profile sel = profile"
proof -
  let ?refs = "profile_refs (pol_policies doc) profile @
    map (\<lambda>i. (i, ''entrypoint'')) (ne_required_policies entry) @ applying unit_id ''unit policy'' (pol_policies doc)"
  have ok: "btree_ok (push_all ?refs [])" by (simp add: push_all_ok)
  note ex = select_refs_exact [OF collect_policy_refs_select(2) [OF assms] ok]
  have keys: "set (btree_keys (push_all ?refs [])) =
      {po_id p |p. p \<in> set (pol_policies doc) \<and> po_applies_to p \<in> {Some ''agent'', Some unit_id}} \<union>
      set_option (pf_rails profile) \<union> set_option (pf_rails_bin profile) \<union> set (ne_required_policies entry)"
  proof -
    have "set (btree_keys (push_all ?refs [])) = fst ` set ?refs"
      unfolding push_all_keys by (simp add: btree_keys_def)
    also have "\<dots> = fst ` set (applying ''agent'' ''global agent policy'' (pol_policies doc)) \<union>
        fst ` set (rail (pf_rails profile) ''profile rails'') \<union>
        fst ` set (rail (pf_rails_bin profile) ''profile rails_bin'') \<union> set (ne_required_policies entry) \<union>
        fst ` set (applying unit_id ''unit policy'' (pol_policies doc))"
      by (simp add: profile_refs_def image_Un image_image Un_assoc)
    finally show ?thesis unfolding applying_fst rail_fst by blast
  qed
  have "sel_policy_ids sel = sorted_list_of_set (set (btree_keys (push_all ?refs [])))"
    using ex(2) btree_keys_sorted [OF ok] btree_keys_distinct [OF ok]
    by (simp add: sorted_list_of_set.idem_if_sorted_distinct)
  then show ?thesis using ex unfolding keys by simp
qed

definition sample_policy :: "string \<Rightarrow> string option \<Rightarrow> policy_record" where
  "sample_policy i target = \<lparr>po_id = i, po_applies_to = target, po_rest = Map.empty\<rparr>"

definition sample_entry :: normalized_entrypoint where
  "sample_entry = \<lparr>ne_program = ''moon'', ne_args = [], ne_cwd = None, ne_env_keys = [], ne_backend = None,
     ne_adapter = None, ne_source_manifests = [], ne_required_policies = [''r''], ne_execution_class = Direct,
     ne_runtime_provider = None, ne_diagnostics = []\<rparr>"

definition rails_profile :: profile_record where
  "rails_profile = \<lparr>pf_id = ''p'', pf_title = None, pf_purpose = None, pf_rails = Some ''g'', pf_rails_bin = None,
     pf_isolation_mode = None, pf_isolation_jj = None, pf_session_state_home = None, pf_rest = Map.empty\<rparr>"

theorem collect_policy_refs_exact_witness:
  "\<exists>sel. collect_policy_refs \<lparr>pol_generated_at = ''t'', pol_policies = [sample_policy ''r'' None,
      sample_policy ''g'' (Some ''agent''), sample_policy ''u'' (Some ''demo''), sample_policy ''x'' None]\<rparr>
      rails_profile sample_entry ''demo'' = Inr sel \<and>
    sel_policy_ids sel = [''g'', ''r'', ''u''] \<and> map po_id (sel_policies sel) = sel_policy_ids sel"
proof -
  let ?c = "collect_policy_refs \<lparr>pol_generated_at = ''t'', pol_policies = [sample_policy ''r'' None,
      sample_policy ''g'' (Some ''agent''), sample_policy ''u'' (Some ''demo''), sample_policy ''x'' None]\<rparr>
      rails_profile sample_entry ''demo''"
  have "(case ?c of Inr sel \<Rightarrow> sel_policy_ids sel = [''g'', ''r'', ''u''] | Inl _ \<Rightarrow> False)" by code_simp
  then obtain sel where "?c = Inr sel" "sel_policy_ids sel = [''g'', ''r'', ''u'']" by (auto split: sum.splits)
  then show ?thesis using collect_policy_refs_exact [of _ rails_profile sample_entry "''demo''" sel] by blast
qed

end
