(* ===== verification/Resolution_Paths.thy ===== *)
theory Resolution_Paths
  imports Resolution_Entry "HOL-Library.Option_ord"
begin

unbundle bit_operations_syntax

text \<open>
  Working directory, manifests and executables (\<open>resolution/paths.rs\<close>, \<open>resolution/executable.rs\<close>): every
  path a plan names is canonicalised and checked against the workspace root, and the executable is found
  on the file system, without a shell, with a record of how it was found.
\<close>

section \<open>Paths of the workspace\<close>

datatype backend_kind = NativeDirect | PanoplyTool | MoonTask

fun wire_labels :: "backend_kind \<Rightarrow> string \<times> string" where
  "wire_labels NativeDirect = (''native'', ''direct'')"
| "wire_labels PanoplyTool = (''panoply'', ''native-tool'')"
| "wire_labels MoonTask = (''moon'', ''moon-task'')"

record resolved_cwd =
  rcw_display :: string
  rcw_canonical :: path

fun normalize_components_loop :: "path \<Rightarrow> path \<Rightarrow> path" where
  "normalize_components_loop [] out = out"
| "normalize_components_loop (CurDir # cs) out = normalize_components_loop cs out"
| "normalize_components_loop (ParentDir # cs) out =
     normalize_components_loop cs (case path_pop out of Some q \<Rightarrow> q | None \<Rightarrow> out)"
| "normalize_components_loop (c # cs) out = normalize_components_loop cs (path_join out [c])"

definition normalize_components :: "path \<Rightarrow> string" where
  "normalize_components p = replace_backslash (path_display (normalize_components_loop p []))"

definition workspace_relative_display :: "path \<Rightarrow> path \<Rightarrow> string" where
  "workspace_relative_display root p =
     (case path_strip_prefix p root of Some r \<Rightarrow> normalize_components r | None \<Rightarrow> path_display p)"

definition canonical_root :: "rfsys \<Rightarrow> path \<Rightarrow> path" where
  "canonical_root fs workspace_root = unwrap_or (canonicalize fs workspace_root) workspace_root"

definition first_some :: "'a option list \<Rightarrow> 'a option" where
  "first_some xs = (case List.map_filter (\<lambda>x. x) xs of [] \<Rightarrow> None | x # _ \<Rightarrow> Some x)"

definition resolve_cwd ::
  "registry_env \<Rightarrow> rfsys \<Rightarrow> path \<Rightarrow> unit_definition \<Rightarrow> normalized_entrypoint \<Rightarrow> (resolution_code, resolved_cwd) result" where
  "resolve_cwd env fs workspace_root unit entry =
     (case first_some [ne_cwd entry, un_root unit, un_path unit] of
        None \<Rightarrow> Inl (InvalidCwd ''no cwd from entrypoint or unit paths'')
      | Some raw \<Rightarrow>
          (let candidate = (if is_absolute (components raw) then components raw
                            else path_join workspace_root (components raw)) in
           rbind (map_err (\<lambda>e. InvalidCwd (''cwd '' @ quoted raw @ '' cannot be resolved: '' @ rv_io_text env e))
                    (canonicalize fs candidate)) (\<lambda>canonical.
             if \<not> path_is_dir fs canonical then
               Inl (InvalidCwd (''cwd '' @ quoted (path_display canonical) @ '' is not a directory''))
             else
               (let root_canon = canonical_root fs workspace_root in
                if \<not> path_starts_with canonical root_canon then
                  Inl (InvalidCwd ''cwd escapes configured workspace root'')
                else Inr \<lparr>rcw_display = workspace_relative_display root_canon canonical,
                          rcw_canonical = canonical\<rparr>))))"

definition resolve_manifest_path :: "rfsys \<Rightarrow> path \<Rightarrow> path \<Rightarrow> string \<Rightarrow> path" where
  "resolve_manifest_path fs workspace_root cwd name =
     (let p = components name; from_cwd = path_join cwd p in
      if is_absolute p then p else if path_exists fs from_cwd then from_cwd else path_join workspace_root p)"

definition canonical_manifest ::
  "rfsys \<Rightarrow> path \<Rightarrow> path \<Rightarrow> path \<Rightarrow> string \<Rightarrow> string \<Rightarrow> (resolution_code, path) result" where
  "canonical_manifest fs workspace_root cwd root_canon name role =
     rbind (map_err (\<lambda>_. MissingManifest (role @ '' manifest '' @ quoted name @ '' not found''))
              (canonicalize fs (resolve_manifest_path fs workspace_root cwd name))) (\<lambda>canonical.
       if \<not> path_is_file fs canonical then
         Inl (MissingManifest (role @ '' manifest '' @ quoted name @ '' is not a regular file''))
       else if \<not> path_starts_with canonical root_canon then
         Inl (MissingManifest (role @ '' manifest escapes configured workspace root''))
       else Inr canonical)"

definition selected_manifests ::
  "unit_definition \<Rightarrow> normalized_entrypoint \<Rightarrow> backend_kind \<Rightarrow> (resolution_code, string list) result" where
  "selected_manifests unit entry backend =
     (if ne_source_manifests entry \<noteq> [] then Inr (ne_source_manifests entry)
      else if backend = MoonTask then Inr [''moon.yml'']
      else if length (un_native_manifests unit) = 1 then Inr (un_native_manifests unit)
      else if un_native_manifests unit = [] then Inr []
      else Inl (ManifestAmbiguous (sort (un_native_manifests unit))))"

definition resolve_manifests ::
  "rfsys \<Rightarrow> path \<Rightarrow> path \<Rightarrow> unit_definition \<Rightarrow> normalized_entrypoint \<Rightarrow> backend_kind \<Rightarrow>
   (resolution_code, string list \<times> path list) result" where
  "resolve_manifests fs workspace_root cwd unit entry backend =
     rbind (selected_manifests unit entry backend) (\<lambda>selected.
     rbind (map_err (\<lambda>_. MissingManifest ''configured workspace root cannot be resolved'')
              (canonicalize fs workspace_root)) (\<lambda>root_canon.
     rbind (traverse (\<lambda>name. canonical_manifest fs workspace_root cwd root_canon name ''declared'')
              (un_native_manifests unit)) (\<lambda>declared.
     rbind (traverse (\<lambda>name.
              rbind (canonical_manifest fs workspace_root cwd root_canon name ''selected'') (\<lambda>canonical.
                let display = workspace_relative_display root_canon canonical in
                if declared \<noteq> [] \<and> canonical \<notin> set declared then
                  Inl (MissingManifest (''manifest '' @ quoted display @ '' is not authorized by the unit''))
                else Inr (canonical, display))) selected) (\<lambda>pairs.
       let selected_by_identity = btree_of_list pairs in
       if backend = MoonTask \<and> \<not> list_ex (\<lambda>p. file_name p = Some ''moon.yml'') (btree_keys selected_by_identity) then
         Inl (MissingManifest ''Moon plan requires an authorized moon.yml'')
       else Inr (btree_values selected_by_identity, btree_keys selected_by_identity)))))"

section \<open>Executables\<close>

record resolved_executable =
  rex_canonical :: path
  rex_provenance :: executable_provenance

text \<open>A regular file (after symbolic links) with an execute bit; the result is its canonical path.\<close>

definition accept_file :: "rfsys \<Rightarrow> path \<Rightarrow> path option" where
  "accept_file fs p =
     (if \<not> path_is_file fs p then None
      else if mode_bits fs p AND 0x49 = 0 then None
      else (case canonicalize fs p of Inr c \<Rightarrow> Some c | Inl _ \<Rightarrow> None))"

definition safe_display_path :: "path \<Rightarrow> path \<Rightarrow> string option" where
  "safe_display_path workspace_root canonical =
     (if path_starts_with canonical workspace_root
      then Some (workspace_relative_display workspace_root canonical) else None)"

definition workspace_provenance :: "path \<Rightarrow> path \<Rightarrow> executable_provenance" where
  "workspace_provenance workspace_root canonical =
     \<lparr>ep_selection_source = WorkspaceRelative, ep_tool_id = None, ep_path_index = None,
      ep_display_path = safe_display_path workspace_root canonical\<rparr>"

definition claims_program :: "string \<Rightarrow> tool_record \<Rightarrow> bool" where
  "claims_program program t \<longleftrightarrow>
     tr_installed t = Some True \<and>
     (tr_id t = program \<or> Option.bind (tr_detect t) (\<lambda>d. file_name (components d)) = Some program)"

definition absolute_detect :: "rfsys \<Rightarrow> tool_record \<Rightarrow> path option" where
  "absolute_detect fs t =
     (case tr_detect t of
        None \<Rightarrow> None
      | Some d \<Rightarrow> (if is_absolute (components d) then accept_file fs (components d) else None))"

definition accept_absolute ::
  "rfsys \<Rightarrow> path \<Rightarrow> tool_record list \<Rightarrow> path \<Rightarrow> (resolution_code, resolved_executable) result" where
  "accept_absolute fs p tools workspace_root =
     (case accept_file fs p of
        None \<Rightarrow> Inl (MissingExecutable ''absolute program is not an executable file'')
      | Some canonical \<Rightarrow>
          (if path_starts_with canonical workspace_root then
             Inr \<lparr>rex_canonical = canonical, rex_provenance = workspace_provenance workspace_root canonical\<rparr>
           else
             (case btree_set (map tr_id (filter (\<lambda>t. tr_installed t = Some True \<and>
                     absolute_detect fs t = Some canonical) tools)) of
                tool_id # _ \<Rightarrow>
                  Inr \<lparr>rex_canonical = canonical,
                    rex_provenance = \<lparr>ep_selection_source = PanoplyDetect, ep_tool_id = Some tool_id,
                      ep_path_index = None, ep_display_path = None\<rparr>\<rparr>
              | [] \<Rightarrow>
                  Inl (MissingExecutable ''absolute program outside workspace and not a Panoply detect path''))))"

fun ordered_dirs :: "rfsys \<Rightarrow> path list \<Rightarrow> path list \<Rightarrow> path list" where
  "ordered_dirs fs [] seen = []"
| "ordered_dirs fs (dir # dirs) seen =
     (case canonicalize fs dir of
        Inl _ \<Rightarrow> ordered_dirs fs dirs seen
      | Inr canonical \<Rightarrow>
          (if path_is_dir fs canonical \<and> canonical \<notin> set seen
           then canonical # ordered_dirs fs dirs (canonical # seen)
           else ordered_dirs fs dirs seen))"

fun first_on_path :: "rfsys \<Rightarrow> string \<Rightarrow> nat \<Rightarrow> path list \<Rightarrow> (nat \<times> path) option" where
  "first_on_path fs program i [] = None"
| "first_on_path fs program i (dir # dirs) =
     (case accept_file fs (path_join dir (components program)) of
        Some canonical \<Rightarrow> Some (i, canonical)
      | None \<Rightarrow> first_on_path fs program (Suc i) dirs)"

definition locate_on_ordered_path ::
  "rfsys \<Rightarrow> string \<Rightarrow> path list \<Rightarrow> path \<Rightarrow> string option \<Rightarrow> (resolution_code, resolved_executable) result" where
  "locate_on_ordered_path fs program path_dirs workspace_root tool_id =
     (case first_on_path fs program 0 (ordered_dirs fs path_dirs []) of
        Some (path_index, canonical) \<Rightarrow>
          Inr \<lparr>rex_canonical = canonical,
            rex_provenance = \<lparr>ep_selection_source = PathSearch, ep_tool_id = tool_id,
              ep_path_index = Some path_index, ep_display_path = safe_display_path workspace_root canonical\<rparr>\<rparr>
      | None \<Rightarrow> Inl (MissingExecutable (''executable '' @ quoted program @ '' not found on PATH snapshot'')))"

text \<open>\<open>detected\<close>: canonical detect paths with the ids of the tools that claim them.\<close>

definition detected_tools :: "rfsys \<Rightarrow> tool_record list \<Rightarrow> (path, string list) btree" where
  "detected_tools fs claims =
     fold (\<lambda>t m. case absolute_detect fs t of
             None \<Rightarrow> m
           | Some canonical \<Rightarrow>
               btree_insert canonical
                 (insort_insert (tr_id t) (case map_of m canonical of Some ids \<Rightarrow> ids | None \<Rightarrow> [])) m)
       claims []"

definition candidate_label :: "path \<Rightarrow> nat \<times> path \<times> string list \<Rightarrow> string" where
  "candidate_label workspace_root c =
     (case c of (index, p, ids) \<Rightarrow>
        join ''+'' ids @ '' ('' @
          (case safe_display_path workspace_root p of
             Some display \<Rightarrow> display
           | None \<Rightarrow> ''external-candidate-'' @ show_nat (index + 1)) @ '')'')"

definition locate_panoply ::
  "rfsys \<Rightarrow> string \<Rightarrow> path list \<Rightarrow> tool_record list \<Rightarrow> path \<Rightarrow> (resolution_code, resolved_executable) result" where
  "locate_panoply fs program path_dirs tools workspace_root =
     (let claims = sort_key (\<lambda>t. (tr_id t, tr_detect t)) (filter (claims_program program) tools) in
      if claims = [] then
        Inl (MissingExecutable (''Panoply has no installed tool projection for '' @ quoted program))
      else
        (case detected_tools fs claims of
           [(canonical, ids)] \<Rightarrow>
             Inr \<lparr>rex_canonical = canonical,
               rex_provenance = \<lparr>ep_selection_source = PanoplyDetect,
                 ep_tool_id = (case ids of [] \<Rightarrow> None | i # _ \<Rightarrow> Some i), ep_path_index = None,
                 ep_display_path = safe_display_path workspace_root canonical\<rparr>\<rparr>
         | d # e # ds \<Rightarrow>
             Inl (ExecutableAmbiguous (map (candidate_label workspace_root) (enumerate 0 (d # e # ds))))
         | [] \<Rightarrow>
             (case btree_set (map tr_id claims) of
                [tool_id] \<Rightarrow> locate_on_ordered_path fs program path_dirs workspace_root (Some tool_id)
              | claim_ids \<Rightarrow> Inl (ExecutableAmbiguous claim_ids))))"

definition locate_executable ::
  "rfsys \<Rightarrow> string \<Rightarrow> path \<Rightarrow> path list \<Rightarrow> backend_kind \<Rightarrow> tool_record list \<Rightarrow> path \<Rightarrow>
   (resolution_code, resolved_executable) result" where
  "locate_executable fs program cwd path_dirs backend tools workspace_root =
     (let root = canonical_root fs workspace_root; prog = components program in
      if is_absolute prog then accept_absolute fs prog tools root
      else if contains program ''/'' \<or> contains program [CHR 0x5C] then
        (case accept_file fs (path_join cwd prog) of
           None \<Rightarrow> Inl (MissingExecutable (''relative program '' @ quoted program @ '' not found under cwd''))
         | Some canonical \<Rightarrow>
             (if \<not> path_starts_with canonical root then
                Inl (MissingExecutable ''relative program escapes configured workspace root'')
              else Inr \<lparr>rex_canonical = canonical, rex_provenance = workspace_provenance root canonical\<rparr>))
      else if backend = PanoplyTool then locate_panoply fs program path_dirs tools root
      else locate_on_ordered_path fs program path_dirs root None)"

section \<open>Properties\<close>

text \<open>
  The working directory of a plan is a directory inside the workspace. It is the canonical form of
  the entrypoint's or the unit's path, it exists as a directory, it lies under the canonical workspace
  root, and its display is the relative path below that root.
\<close>

lemma resolve_cwd_contained:
  assumes "resolve_cwd env fs workspace_root unit entry = Inr c"
  shows "path_is_dir fs (rcw_canonical c) \<and>
    (\<exists>raw below. first_some [ne_cwd entry, un_root unit, un_path unit] = Some raw \<and>
       canonicalize fs (path_join workspace_root (components raw)) = Inr (rcw_canonical c) \<and>
       rcw_canonical c = canonical_root fs workspace_root @ below \<and>
       rcw_display c = normalize_components below)"
proof -
  obtain raw where raw: "first_some [ne_cwd entry, un_root unit, un_path unit] = Some raw"
    and can: "canonicalize fs (if is_absolute (components raw) then components raw
        else path_join workspace_root (components raw)) = Inr (rcw_canonical c)"
    and dir: "path_is_dir fs (rcw_canonical c)"
    and pre: "path_starts_with (rcw_canonical c) (canonical_root fs workspace_root)"
    and dis: "rcw_display c = workspace_relative_display (canonical_root fs workspace_root) (rcw_canonical c)"
    using assms unfolding resolve_cwd_def Let_def
    by (auto simp: rbind_eq_Inr_iff map_err_eq_Inr_iff split: option.splits if_splits)
  obtain below where b: "rcw_canonical c = canonical_root fs workspace_root @ below"
    using pre by (auto simp: path_starts_with_def prefix_def)
  have "canonicalize fs (path_join workspace_root (components raw)) = Inr (rcw_canonical c)"
    using can by (auto simp: path_join_def split: if_splits)
  moreover have "rcw_display c = normalize_components below"
    by (simp add: dis b workspace_relative_display_def path_strip_prefix_def)
  ultimately show ?thesis using raw dir b by blast
qed

lemma canonical_manifest_ok:
  assumes "canonical_manifest fs workspace_root cwd root_canon name role = Inr p"
  shows "path_is_file fs p" "path_starts_with p root_canon"
  using assms by (auto simp: canonical_manifest_def rbind_eq_Inr_iff map_err_eq_Inr_iff split: if_splits)

text \<open>
  Every manifest of a plan is a regular file inside the workspace and, when the unit declares
  manifests, one of those; the displayed and the absolute manifests correspond, the absolute ones are
  sorted without repetition, and a Moon plan has a \<open>moon.yml\<close> among them.
\<close>

lemma resolve_manifests_authorized:
  assumes "resolve_manifests fs workspace_root cwd unit entry backend = Inr (display, absolute)"
  shows "\<exists>root. canonicalize fs workspace_root = Inr root \<and>
    sorted absolute \<and> distinct absolute \<and> display = map (workspace_relative_display root) absolute \<and>
    (\<forall>p \<in> set absolute. path_is_file fs p \<and> path_starts_with p root \<and>
      (un_native_manifests unit \<noteq> [] \<longrightarrow>
         (\<exists>name \<in> set (un_native_manifests unit).
            canonical_manifest fs workspace_root cwd root name ''declared'' = Inr p))) \<and>
    (backend = MoonTask \<longrightarrow> (\<exists>p \<in> set absolute. file_name p = Some ''moon.yml''))"
proof -
  let ?pick = "\<lambda>root declared name.
    rbind (canonical_manifest fs workspace_root cwd root name ''selected'') (\<lambda>canonical.
      if declared \<noteq> [] \<and> canonical \<notin> set declared then
        Inl (MissingManifest (''manifest '' @ quoted (workspace_relative_display root canonical) @
          '' is not authorized by the unit''))
      else Inr (canonical, workspace_relative_display root canonical))"
  obtain selected root declared pairs where root: "canonicalize fs workspace_root = Inr root"
    and decl: "traverse (\<lambda>name. canonical_manifest fs workspace_root cwd root name ''declared'')
      (un_native_manifests unit) = Inr declared"
    and pairs: "traverse (?pick root declared) selected = Inr pairs"
    and moon: "\<not> (backend = MoonTask \<and> \<not> list_ex (\<lambda>p. file_name p = Some ''moon.yml'') (btree_keys (btree_of_list pairs)))"
    and out: "display = btree_values (btree_of_list pairs)" "absolute = btree_keys (btree_of_list pairs)"
    using assms unfolding resolve_manifests_def Let_def
    by (auto simp only: rbind_eq_Inr_iff map_err_eq_Inr_iff branch_eq_Inr_iff sum.inject prod.inject
        simp_thms split: if_splits)
  have pick: "path_is_file fs p \<and> path_starts_with p root \<and> (declared \<noteq> [] \<longrightarrow> p \<in> set declared) \<and>
      d = workspace_relative_display root p" if mem: "(p, d) \<in> set pairs" for p d
  proof -
    obtain name where "?pick root declared name = Inr (p, d)"
      using traverse_set [OF pairs mem] by blast
    then show ?thesis using canonical_manifest_ok by (auto simp: rbind_eq_Inr_iff split: if_splits)
  qed
  let ?m = "btree_of_list pairs"
  have sub: "(p, d) \<in> set pairs" if "(p, d) \<in> set ?m" for p d
    using that by (auto simp: btree_member_iff btree_of_list_lookup dest: map_of_SomeD)
  have ok: "btree_ok ?m" by simp
  have "display = map (workspace_relative_display root) absolute"
    using sub pick by (auto simp: out btree_values_def btree_keys_def)
  moreover have "sorted absolute" "distinct absolute"
    using btree_keys_sorted [OF ok] btree_keys_distinct [OF ok] by (simp_all add: out)
  moreover have "\<exists>d. (p, d) \<in> set pairs" if mem: "p \<in> set absolute" for p
  proof -
    have "p \<in> fst ` set pairs" using mem unfolding out btree_of_list_keys .
    then obtain x where "x \<in> set pairs" "p = fst x" by (rule imageE)
    then show ?thesis by (metis prod.collapse)
  qed
  moreover have "\<exists>name \<in> set (un_native_manifests unit).
      canonical_manifest fs workspace_root cwd root name ''declared'' = Inr p" if "p \<in> set declared" for p
    using traverse_set [OF decl that] by blast
  moreover have "declared \<noteq> []" if "un_native_manifests unit \<noteq> []"
    using decl that by (auto simp: traverse_eq_Inr_iff)
  moreover have "backend = MoonTask \<longrightarrow> (\<exists>p \<in> set absolute. file_name p = Some ''moon.yml'')"
    using moon by (auto simp: out list_ex_iff)
  ultimately show ?thesis using root pick by blast
qed

lemma accept_file_Some:
  "accept_file fs p = Some c \<longleftrightarrow>
     path_is_file fs p \<and> mode_bits fs p AND 0x49 \<noteq> 0 \<and> canonicalize fs p = Inr c"
  by (auto simp: accept_file_def split: sum.splits)

lemma first_on_path_Some:
  assumes "first_on_path fs program i dirs = Some (j, c)"
  shows "i \<le> j \<and> j - i < length dirs \<and> accept_file fs (path_join (dirs ! (j - i)) (components program)) = Some c \<and>
    (\<forall>k < j - i. accept_file fs (path_join (dirs ! k) (components program)) = None)"
  using assms
proof (induction fs program i dirs rule: first_on_path.induct)
  case (2 fs program i dir dirs)
  show ?case
  proof (cases "accept_file fs (path_join dir (components program))")
    case None
    with 2 have "Suc i \<le> j \<and> j - Suc i < length dirs \<and>
        accept_file fs (path_join (dirs ! (j - Suc i)) (components program)) = Some c \<and>
        (\<forall>k < j - Suc i. accept_file fs (path_join (dirs ! k) (components program)) = None)" by simp
    moreover have "(dir # dirs) ! (j - i) = dirs ! (j - Suc i)" if "Suc i \<le> j"
      using that by (simp add: nth_Cons')
    moreover have "accept_file fs (path_join ((dir # dirs) ! k) (components program)) = None"
      if "k < j - i" "Suc i \<le> j" "\<forall>k < j - Suc i. accept_file fs (path_join (dirs ! k) (components program)) = None" for k
      using None that by (cases k) auto
    ultimately show ?thesis by auto
  qed (use 2(2) in simp)
qed simp

lemma insort_insert_nonempty: "insort_insert x xs \<noteq> []"
  by (metis insertI1 list.set(1) empty_iff set_insort_insert)

lemma detected_tools_sound:
  assumes "(c, ids) \<in> set (detected_tools fs claims)"
  shows "ids \<noteq> [] \<and> (\<forall>i \<in> set ids. \<exists>t \<in> set claims. tr_id t = i \<and> absolute_detect fs t = Some c)"
proof -
  define step where "step = (\<lambda>t m. case absolute_detect fs t of
      None \<Rightarrow> m
    | Some canonical \<Rightarrow> btree_insert canonical
        (insort_insert (tr_id t) (case map_of m canonical of Some ids \<Rightarrow> ids | None \<Rightarrow> [])) m)"
  define good where "good = (\<lambda>m. btree_ok m \<and> (\<forall>c ids. map_of m c = Some ids \<longrightarrow> ids \<noteq> [] \<and>
      (\<forall>i \<in> set ids. \<exists>t \<in> set claims. tr_id t = i \<and> absolute_detect fs t = Some c)))"
  have step: "good (step t m)" if "good m" "t \<in> set claims" for t m
  proof (cases "absolute_detect fs t")
    case (Some c)
    have "\<forall>i \<in> set (case map_of m c of Some ids \<Rightarrow> ids | None \<Rightarrow> []). \<exists>t \<in> set claims. tr_id t = i \<and> absolute_detect fs t = Some c"
      using that(1) by (cases "map_of m c") (auto simp: good_def)
    then show ?thesis using that Some
      by (auto simp: step_def good_def btree_lookup_insert set_insort_insert insort_insert_nonempty)
  qed (use that in \<open>simp add: step_def\<close>)
  have "good (fold step ts m)" if "good m" "set ts \<subseteq> set claims" for ts m
    using that
  proof (induction ts arbitrary: m)
    case (Cons t ts)
    have "good (step t m)" by (rule step) (use Cons.prems in simp_all)
    from Cons.IH [OF this] show ?case using Cons.prems(2) by simp
  qed simp
  moreover have "good []" by (simp add: good_def)
  ultimately have "good (fold step claims [])" by blast
  then have "good (detected_tools fs claims)" unfolding detected_tools_def step_def .
  then have "btree_ok (detected_tools fs claims)" "\<forall>c ids. map_of (detected_tools fs claims) c = Some ids \<longrightarrow> ids \<noteq> [] \<and>
      (\<forall>i \<in> set ids. \<exists>t \<in> set claims. tr_id t = i \<and> absolute_detect fs t = Some c)"
    unfolding good_def by blast+
  moreover from this(1) have "map_of (detected_tools fs claims) c = Some ids"
    using assms by (simp only: btree_member_iff)
  ultimately show ?thesis by (elim allE impE)
qed

text \<open>What the recorded provenance of an executable claims.\<close>

definition provenance_ok ::
  "rfsys \<Rightarrow> string \<Rightarrow> path list \<Rightarrow> tool_record list \<Rightarrow> path \<Rightarrow> resolved_executable \<Rightarrow> bool" where
  "provenance_ok fs program path_dirs tools root x \<longleftrightarrow>
     (case ep_selection_source (rex_provenance x) of
        WorkspaceRelative \<Rightarrow> path_starts_with (rex_canonical x) root
      | PanoplyDetect \<Rightarrow>
          (\<exists>t \<in> set tools. tr_installed t = Some True \<and> ep_tool_id (rex_provenance x) = Some (tr_id t) \<and>
             absolute_detect fs t = Some (rex_canonical x))
      | PathSearch \<Rightarrow>
          (let dirs = ordered_dirs fs path_dirs [] in
           \<exists>i < length dirs. ep_path_index (rex_provenance x) = Some i \<and>
             accept_file fs (path_join (dirs ! i) (components program)) = Some (rex_canonical x) \<and>
             (\<forall>k < i. accept_file fs (path_join (dirs ! k) (components program)) = None)))"

lemma locate_on_ordered_path_ok:
  assumes "locate_on_ordered_path fs program path_dirs root tool_id = Inr x"
  shows "provenance_ok fs program path_dirs tools root x" and "\<exists>p. accept_file fs p = Some (rex_canonical x)"
proof -
  obtain i c where f: "first_on_path fs program 0 (ordered_dirs fs path_dirs []) = Some (i, c)"
    and x: "rex_canonical x = c" "ep_selection_source (rex_provenance x) = PathSearch"
      "ep_path_index (rex_provenance x) = Some i"
    using assms by (auto simp: locate_on_ordered_path_def split: option.splits)
  from first_on_path_Some [OF f]
  show "provenance_ok fs program path_dirs tools root x" "\<exists>p. accept_file fs p = Some (rex_canonical x)"
    by (auto simp: provenance_ok_def x Let_def)
qed

lemma accept_absolute_ok:
  assumes "accept_absolute fs p tools root = Inr x"
  shows "provenance_ok fs program path_dirs tools root x" and "\<exists>p. accept_file fs p = Some (rex_canonical x)"
proof -
  obtain c where c: "accept_file fs p = Some c" "rex_canonical x = c"
    using assms by (auto simp: accept_absolute_def split: option.splits if_splits list.splits)
  show "\<exists>p. accept_file fs p = Some (rex_canonical x)" using c by blast
  let ?ids = "btree_set (map tr_id (filter (\<lambda>t. tr_installed t = Some True \<and> absolute_detect fs t = Some c) tools))"
  show "provenance_ok fs program path_dirs tools root x"
  proof (cases "path_starts_with c root")
    case True
    then show ?thesis using assms c
      by (auto simp: accept_absolute_def provenance_ok_def workspace_provenance_def)
  next
    case False
    then obtain i js where i: "?ids = i # js"
      and prov: "ep_selection_source (rex_provenance x) = PanoplyDetect" "ep_tool_id (rex_provenance x) = Some i"
      using assms c
      by (cases ?ids) (auto simp: accept_absolute_def)
    have "i \<in> set ?ids" unfolding i by simp
    then obtain t where "t \<in> set tools" "tr_installed t = Some True" "absolute_detect fs t = Some c" "tr_id t = i"
      by auto
    then show ?thesis using prov c(2) by (auto simp: provenance_ok_def)
  qed
qed

lemma locate_panoply_ok:
  assumes "locate_panoply fs program path_dirs tools root = Inr x"
  shows "provenance_ok fs program path_dirs tools root x \<and> (\<exists>p. accept_file fs p = Some (rex_canonical x))"
proof -
  let ?claims = "sort_key (\<lambda>t. (tr_id t, tr_detect t)) (filter (claims_program program) tools)"
  consider (one) c ids where "detected_tools fs ?claims = [(c, ids)]" | (none) "detected_tools fs ?claims = []"
    using assms by (auto simp: locate_panoply_def Let_def split: if_splits list.splits)
  then show ?thesis
  proof cases
    case one
    then have "(c, ids) \<in> set (detected_tools fs ?claims)" by simp
    from detected_tools_sound [OF this] obtain i js where ids: "ids = i # js"
      and "\<exists>t \<in> set ?claims. tr_id t = i \<and> absolute_detect fs t = Some c" by (cases ids) auto
    then obtain t where t: "t \<in> set tools" "tr_installed t = Some True" "tr_id t = i" "absolute_detect fs t = Some c"
      by (auto simp: claims_program_def)
    moreover have "rex_canonical x = c" "ep_selection_source (rex_provenance x) = PanoplyDetect"
      "ep_tool_id (rex_provenance x) = Some i"
      using assms one ids by (auto simp: locate_panoply_def Let_def split: if_splits)
    moreover have "\<exists>p. accept_file fs p = Some c"
      using t(4) by (auto simp: absolute_detect_def split: option.splits if_splits)
    ultimately show ?thesis by (auto simp: provenance_ok_def)
  next
    case none
    then obtain i where "locate_on_ordered_path fs program path_dirs root (Some i) = Inr x"
      using assms by (auto simp: locate_panoply_def Let_def split: if_splits list.splits)
    then show ?thesis using locate_on_ordered_path_ok by blast
  qed
qed

text \<open>
  An executable is what its provenance says. The located file is the canonical path of a regular file
  with an execute bit. A workspace executable lies under the canonical workspace root; a detected one is
  the file an installed tool with the recorded id declares by an absolute path; one found on the search
  path is in the directory of the recorded index, and no earlier directory has the program. In
  particular no program given by a path, absolute or relative, is accepted from outside the workspace
  unless an installed tool declares it.
\<close>

lemma locate_executable_sound:
  assumes "locate_executable fs program cwd path_dirs backend tools workspace_root = Inr x"
  shows "(\<exists>p. path_is_file fs p \<and> mode_bits fs p AND 0x49 \<noteq> 0 \<and> canonicalize fs p = Inr (rex_canonical x)) \<and>
    provenance_ok fs program path_dirs tools (canonical_root fs workspace_root) x \<and>
    (is_absolute (components program) \<or> contains program ''/'' \<longrightarrow>
       path_starts_with (rex_canonical x) (canonical_root fs workspace_root) \<or>
       (\<exists>t \<in> set tools. tr_installed t = Some True \<and> absolute_detect fs t = Some (rex_canonical x)))"
proof -
  let ?root = "canonical_root fs workspace_root"
  have "provenance_ok fs program path_dirs tools ?root x \<and> (\<exists>p. accept_file fs p = Some (rex_canonical x)) \<and>
    (is_absolute (components program) \<or> contains program ''/'' \<longrightarrow>
       ep_selection_source (rex_provenance x) \<noteq> PathSearch)"
  proof (cases "is_absolute (components program)")
    case True
    then have a: "accept_absolute fs (components program) tools ?root = Inr x"
      using assms by (simp add: locate_executable_def Let_def)
    then have "ep_selection_source (rex_provenance x) \<noteq> PathSearch"
      by (auto simp: accept_absolute_def workspace_provenance_def split: option.splits if_splits list.splits)
    then show ?thesis using accept_absolute_ok [OF a] by blast
  next
    case rel: False
    show ?thesis
    proof (cases "contains program ''/'' \<or> contains program [CHR 0x5C]")
      case True
      then obtain c where "accept_file fs (path_join cwd (components program)) = Some c" "path_starts_with c ?root"
        "x = \<lparr>rex_canonical = c, rex_provenance = workspace_provenance ?root c\<rparr>"
        using assms rel by (auto simp: locate_executable_def Let_def split: option.splits if_splits)
      then show ?thesis by (auto simp: provenance_ok_def workspace_provenance_def)
    next
      case False
      show ?thesis
      proof (cases "backend = PanoplyTool")
        case True
        then have "locate_panoply fs program path_dirs tools ?root = Inr x"
          using assms rel False by (simp add: locate_executable_def Let_def)
        from locate_panoply_ok [OF this] show ?thesis using rel False by blast
      next
        case no: False
        then have "locate_on_ordered_path fs program path_dirs ?root None = Inr x"
          using assms rel False by (simp add: locate_executable_def Let_def)
        from locate_on_ordered_path_ok [OF this] show ?thesis using rel False by blast
      qed
    qed
  qed
  then show ?thesis
    by (auto simp: accept_file_Some provenance_ok_def split: executable_selection_source.splits)
qed

definition tree_rfsys :: "path list \<Rightarrow> (path \<times> 32 word \<times> string) list \<Rightarrow> rfsys" where
  "tree_rfsys dirs files =
     (let kind = (\<lambda>p. if p \<in> set dirs then Inr Directory
            else if p \<in> set (map fst files) then Inr RegularFile else Inl NotFound) in
      \<lparr>symlink_metadata = kind, metadata = kind,
       canonicalize = (\<lambda>p. rbind (kind p) (\<lambda>_. Inr p)),
       read_bytes = (\<lambda>p. case map_of files p of Some (_, text) \<Rightarrow> Inr text | None \<Rightarrow> Inl NotFound),
       read_dir = (\<lambda>p. rbind (kind p) (\<lambda>_. Inr (map Inr (filter (\<lambda>q. butlast q = p) (map fst files))))),
       mode_bits = (\<lambda>p. case map_of files p of Some (mode, _) \<Rightarrow> mode | None \<Rightarrow> 0)\<rparr>)"

end
