(* ===== verification/Resolver.thy ===== *)
theory Resolver
  imports Resolution_Profile Resolution_Paths
begin

text \<open>
  The resolution pipeline (\<open>resolution/resolver.rs\<close>): from a lifecycle request to a sealed plan, its
  explanation and the handoff to policy evaluation. The trace of completed steps is threaded through the
  pipeline; a failure carries the trace reached. The registry, the file system, the search path, the
  environment's profile and the id the generator would give are arguments.
\<close>

section \<open>Units and descriptors\<close>

definition select_unit :: "unit_record list \<Rightarrow> string \<Rightarrow> (resolution_code, unit_record) result" where
  "select_unit us i =
     (case filter (\<lambda>u. ur_id u = i) us of
        [] \<Rightarrow> Inl (UnitNotFound i)
      | [one] \<Rightarrow> Inr one
      | many \<Rightarrow> Inl (UnitAmbiguous i (sort (map (\<lambda>u.
          case ur_path u of Some p \<Rightarrow> p | None \<Rightarrow> (case ur_source u of Some s \<Rightarrow> s | None \<Rightarrow> ur_id u)) many))))"

definition placeholder_unit :: "string \<Rightarrow> unit_record" where
  "placeholder_unit i =
     \<lparr>ur_id = i, ur_kind = None, ur_title = None, ur_status = None, ur_domain = None, ur_layer = None,
      ur_stack = None, ur_owner = None, ur_runtime = None, ur_path = None, ur_native_manifests = [],
      ur_entrypoints = Map.empty, ur_cli = None, ur_provides = [], ur_requires = [], ur_policy = None,
      ur_source = None, ur_provisional = True, ur_routing_complete = Some False\<rparr>"

text \<open>On a missing or stale registry an unknown unit may still be resolved from its descriptor.\<close>

definition unit_or_placeholder :: "unit_record list \<Rightarrow> string \<Rightarrow> freshness \<Rightarrow> (resolution_code, unit_record) result" where
  "unit_or_placeholder us i fresh =
     (case select_unit us i of
        Inr u \<Rightarrow> Inr u
      | Inl (UnitNotFound j) \<Rightarrow> (if fresh = Miss \<or> fresh = Stale then Inr (placeholder_unit i) else Inl (UnitNotFound j))
      | Inl e \<Rightarrow> Inl e)"

definition safe_workspace_path :: "rfsys \<Rightarrow> path \<Rightarrow> path \<Rightarrow> string" where
  "safe_workspace_path fs workspace_root p =
     (let root = canonical_root fs workspace_root;
          candidate = (if is_absolute p then p else path_join root p);
          normalized = unwrap_or (canonicalize fs candidate) candidate
      in if path_starts_with normalized root then workspace_relative_display root normalized
         else (case file_name normalized of
                 Some name \<Rightarrow> (if valid_utf8 name then ''external/'' @ name else ''external/descriptor'')
               | None \<Rightarrow> ''external/descriptor''))"

fun probe_lines :: "string list \<Rightarrow> string option" where
  "probe_lines [] = None"
| "probe_lines (raw # more_lines) =
     (let line = trim raw in
      if starts_with line ''['' then None
      else if line = [] \<or> starts_with line ''#'' then probe_lines more_lines
      else (case split_once (CHR ''='') line of
              None \<Rightarrow> probe_lines more_lines
            | Some (key, val) \<Rightarrow>
                (if trim key \<noteq> ''id'' then probe_lines more_lines
                 else Option.bind (strip_prefix (trim val) [CHR 0x22]) (\<lambda>r.
                        map_option fst (split_once (CHR 0x22) r)))))"

definition probe_top_level_id :: "string \<Rightarrow> string option" where
  "probe_top_level_id text = probe_lines (str_lines text)"

definition descriptor_roots :: "rfsys \<Rightarrow> registry_paths \<Rightarrow> path list" where
  "descriptor_roots fs paths =
     (let colocated = path_join (rp_workspace_root paths)
            (components ''Build/src/workspaces/wfos/packages/ontarch/descriptors'');
          central = map_option (\<lambda>parent. path_join parent (components ''descriptors''))
            (path_pop (rp_registry_root paths));
          fixture = path_join (rp_registry_root paths) (components ''sources/descriptors'')
      in sort_dedup (filter (path_is_dir fs)
           ([colocated] @ (case central of Some c \<Rightarrow> [c] | None \<Rightarrow> []) @ [fixture])))"

definition descriptor_files :: "rfsys \<Rightarrow> path \<Rightarrow> path \<Rightarrow> (resolution_code, path list) result" where
  "descriptor_files fs workspace_root root =
     rbind (map_err (\<lambda>_. InvalidDescriptor (''cannot read descriptor directory '' @
              quoted (safe_workspace_path fs workspace_root root))) (read_dir fs root)) (\<lambda>entries.
     rbind (traverse (map_err (\<lambda>_. InvalidDescriptor (''cannot inspect descriptor directory '' @
              quoted (safe_workspace_path fs workspace_root root)))) entries) (\<lambda>ps.
       Inr (filter (\<lambda>p. extension p = Some ''toml'') ps)))"

text \<open>The descriptors of a unit, each file once, in path order; a broken file that may be the unit's is an error.\<close>

fun find_descriptor_loop ::
  "registry_env \<Rightarrow> rfsys \<Rightarrow> path \<Rightarrow> string \<Rightarrow> path list \<Rightarrow> path list \<Rightarrow>
   (resolution_code, (path \<times> authored_unit_descriptor) list) result" where
  "find_descriptor_loop env fs workspace_root unit_id [] seen = Inr []"
| "find_descriptor_loop env fs workspace_root unit_id (p # ps) seen =
     (let display = safe_workspace_path fs workspace_root p in
      rbind (map_err (\<lambda>_. InvalidDescriptor (''cannot read authored descriptor '' @ quoted display))
               (read_to_string fs p)) (\<lambda>text.
        let probed = probe_top_level_id text in
        case rv_descriptor env text of
          Inl _ \<Rightarrow>
            (if probed = Some unit_id \<or> probed = None then
               Inl (InvalidDescriptor (''invalid authored descriptor '' @ quoted display))
             else find_descriptor_loop env fs workspace_root unit_id ps seen)
        | Inr authored \<Rightarrow>
            (let key = unwrap_or (canonicalize fs p) p in
             if au_id authored = unit_id \<and> key \<notin> set seen then
               rbind (find_descriptor_loop env fs workspace_root unit_id ps (key # seen)) (\<lambda>found.
                 Inr ((p, authored) # found))
             else find_descriptor_loop env fs workspace_root unit_id ps seen)))"

definition find_authored_descriptors ::
  "registry_env \<Rightarrow> rfsys \<Rightarrow> registry_paths \<Rightarrow> string \<Rightarrow>
   (resolution_code, (path \<times> authored_unit_descriptor) list) result" where
  "find_authored_descriptors env fs paths unit_id =
     rbind (traverse (descriptor_files fs (rp_workspace_root paths)) (descriptor_roots fs paths)) (\<lambda>files.
       find_descriptor_loop env fs (rp_workspace_root paths) unit_id (sort (concat files)) [])"

definition unit_def_from_authored :: "path \<Rightarrow> authored_unit_descriptor \<Rightarrow> unit_definition" where
  "unit_def_from_authored p authored =
     \<lparr>un_id = au_id authored, un_path = Some (path_display p), un_root = au_root authored,
      un_native_manifests = (case au_manifests authored of Some ms \<Rightarrow> ms | None \<Rightarrow> []),
      un_entrypoints = au_entrypoints authored, un_descriptor_path = path_display p,
      un_provisional = False, un_routing_complete = True\<rparr>"

definition ambiguous_descriptors ::
  "rfsys \<Rightarrow> registry_paths \<Rightarrow> string \<Rightarrow> (path \<times> authored_unit_descriptor) list \<Rightarrow> resolution_code" where
  "ambiguous_descriptors fs paths i many =
     DescriptorAmbiguous i (sort (map (\<lambda>(p, _). safe_workspace_path fs (rp_workspace_root paths) p) many))"

definition load_unit_definition ::
  "registry_env \<Rightarrow> rfsys \<Rightarrow> registry_paths \<Rightarrow> unit_record \<Rightarrow> freshness \<Rightarrow> (resolution_code, unit_definition) result" where
  "load_unit_definition env fs paths u fresh =
     (let use_authored = fresh = Miss \<or> fresh = Stale \<or> ur_provisional u \<or> ur_routing_complete u = Some False in
      rbind (find_authored_descriptors env fs paths (ur_id u)) (\<lambda>authored.
        if \<not> use_authored then
          (case authored of
             [] \<Rightarrow> Inl (DescriptorUnavailable (''hit projection for '' @ quoted (ur_id u) @
                     '' lacks readable authored descriptor''))
           | [(p, _)] \<Rightarrow>
               (if \<not> path_is_file fs p then
                  Inl (DescriptorUnavailable (''descriptor missing at '' @
                    safe_workspace_path fs (rp_workspace_root paths) p))
                else Inr \<lparr>un_id = ur_id u, un_path = ur_path u, un_root = ur_path u,
                       un_native_manifests = ur_native_manifests u, un_entrypoints = ur_entrypoints u,
                       un_descriptor_path = path_display p, un_provisional = ur_provisional u,
                       un_routing_complete = (case ur_routing_complete u of Some b \<Rightarrow> b | None \<Rightarrow> True)\<rparr>)
           | many \<Rightarrow> Inl (ambiguous_descriptors fs paths (ur_id u) many))
        else
          (case authored of
             [] \<Rightarrow> Inl (DescriptorUnavailable (''authored descriptor for '' @ quoted (ur_id u) @
                     '' not found; try '' @ quoted ''takogami scan --refresh''))
           | [(p, a)] \<Rightarrow>
               (if au_id a \<noteq> ur_id u then
                  Inl (InvalidDescriptor (''descriptor id '' @ quoted (au_id a) @ '' != requested '' @ quoted (ur_id u)))
                else Inr (unit_def_from_authored p a))
           | many \<Rightarrow> Inl (ambiguous_descriptors fs paths (ur_id u) many))))"

section \<open>Backends\<close>

definition classify_backend :: "normalized_entrypoint \<Rightarrow> tool_record list \<Rightarrow> (resolution_code, backend_kind) result" where
  "classify_backend entry tools =
     (case (ne_backend entry, ne_adapter entry) of
        (None, None) \<Rightarrow>
          (if ne_program entry = ''moon'' \<and> (case ne_args entry of a # _ \<Rightarrow> a = ''run'' | [] \<Rightarrow> False) then Inr MoonTask
           else if list_ex (claims_program (ne_program entry)) tools then Inr PanoplyTool
           else Inr NativeDirect)
      | (Some b, Some a) \<Rightarrow>
          (if (b = ''native'' \<or> b = ''direct'') \<and> a = ''direct'' then Inr NativeDirect
           else if b = ''panoply'' \<and> a = ''native-tool'' then Inr PanoplyTool
           else if b = ''moon'' \<and> a = ''moon-task'' then Inr MoonTask
           else Inl (UnsupportedBackend (''unsupported backend/adapter pair: '' @ b @ ''/'' @ a)))
      | _ \<Rightarrow> Inl (UnsupportedBackend ''backend and adapter must both be set or both absent''))"

definition authored_or_wire_labels :: "normalized_entrypoint \<Rightarrow> backend_kind \<Rightarrow> string \<times> string" where
  "authored_or_wire_labels entry backend =
     (case wire_labels backend of (wb, wa) \<Rightarrow>
        (case ne_backend entry of Some b \<Rightarrow> b | None \<Rightarrow> wb, case ne_adapter entry of Some a \<Rightarrow> a | None \<Rightarrow> wa))"

definition validate_backend_contract ::
  "normalized_entrypoint \<Rightarrow> backend_kind \<Rightarrow> tool_record list \<Rightarrow> (resolution_code, unit) result" where
  "validate_backend_contract entry backend tools =
     (case backend of
        MoonTask \<Rightarrow>
          (if ne_program entry \<noteq> ''moon'' then Inl (UnsupportedBackend (''MoonTask requires program '' @ quoted ''moon''))
           else (case ne_args entry of
                   r # task # _ \<Rightarrow>
                     (if r \<noteq> ''run'' \<or> task = [] then
                        Inl (UnsupportedBackend (''MoonTask argv must begin with '' @ quoted ''run'' @ '' and a non-empty task''))
                      else Inr ())
                 | _ \<Rightarrow>
                     Inl (UnsupportedBackend (''MoonTask argv must begin with '' @ quoted ''run'' @ '' and a non-empty task''))))
      | PanoplyTool \<Rightarrow>
          (if \<not> list_ex (claims_program (ne_program entry)) tools then
             Inl (MissingExecutable (''program '' @ quoted (ne_program entry) @
               '' not an installed Panoply/Ontarch tool projection''))
           else Inr ())
      | NativeDirect \<Rightarrow> Inr ())"

section \<open>The pipeline\<close>

record resolver_inputs =
  ri_env :: registry_env
  ri_digest :: digest_env
  ri_fs :: rfsys
  ri_paths :: registry_paths
  ri_path_dirs :: "path list"
  ri_env_profile :: "string option"
  ri_next_id :: string

record resolve_success =
  rs_plan :: sealed_execution_plan
  rs_explanation :: resolution_explanation
  rs_freshness :: freshness
  rs_policy_input :: policy_evaluation_input

type_synonym 'a traced = "(resolution_code \<times> partial_resolution_trace, 'a) result"

text \<open>A step of the pipeline that may fail, at a trace; and the trace after a completed step.\<close>

definition at :: "partial_resolution_trace \<Rightarrow> (resolution_code, 'a) result \<Rightarrow> 'a traced" where
  "at trace r = map_err (\<lambda>c. (c, trace)) r"

definition completed :: "resolution_step \<Rightarrow> partial_resolution_trace \<Rightarrow> partial_resolution_trace" where
  "completed s trace = trace\<lparr>pt_completed_steps := pt_completed_steps trace @ [s]\<rparr>"

definition unavailable :: "string \<Rightarrow> (controller_error, 'a) result \<Rightarrow> (resolution_code, 'a) result" where
  "unavailable message r = map_err (\<lambda>_. RegistryUnavailable message) r"

record resolved_target =
  rt_units :: units_document
  rt_freshness :: freshness
  rt_definition :: unit_definition

definition resolve_target ::
  "resolver_inputs \<Rightarrow> resolution_request \<Rightarrow> partial_resolution_trace \<Rightarrow>
   (resolved_target \<times> partial_resolution_trace) traced" where
  "resolve_target inp request trace =
     (let env = ri_env inp; fs = ri_fs inp; paths = ri_paths inp in
      rbind (at trace (ensure (path_is_dir fs (rp_registry_root paths))
        (RegistryUnavailable ''configured registry root is missing''))) (\<lambda>_.
      let trace = completed RegistryStep trace in
      rbind (at trace (unavailable ''units registry is unavailable or invalid'' (load_units env fs paths))) (\<lambda>(doc, fresh).
      let us = (if fresh = Miss then source_fallback_units fs paths else ud_units doc);
          trace = trace\<lparr>pt_freshness := Some (freshness_str fresh)\<rparr> in
      rbind (at trace (unit_or_placeholder us (rr_unit_id request) fresh)) (\<lambda>u.
      rbind (at trace (ensure (\<not> (fresh = Hit \<and> (ur_provisional u \<or> ur_routing_complete u = Some False)))
        (RoutingIncomplete (rr_unit_id request)))) (\<lambda>_.
      let trace = completed UnitStep (trace\<lparr>pt_unit := Some (ur_id u)\<rparr>) in
      rbind (at trace (load_unit_definition env fs paths u fresh)) (\<lambda>d.
      let trace = completed DescriptorStep (trace\<lparr>pt_descriptor :=
            Some (safe_workspace_path fs (rp_workspace_root paths) (components (un_descriptor_path d)))\<rparr>) in
      Inr (\<lparr>rt_units = doc, rt_freshness = fresh, rt_definition = d\<rparr>, trace)))))))"

record resolved_invocation =
  iv_entry :: normalized_entrypoint
  iv_labels :: "string \<times> string"
  iv_cwd :: resolved_cwd
  iv_manifest_display :: "string list"
  iv_manifest_paths :: "path list"
  iv_executable :: resolved_executable

definition resolve_invocation ::
  "resolver_inputs \<Rightarrow> resolution_request \<Rightarrow> unit_definition \<Rightarrow> partial_resolution_trace \<Rightarrow>
   (resolved_invocation \<times> partial_resolution_trace) traced" where
  "resolve_invocation inp request d trace =
     (let env = ri_env inp; fs = ri_fs inp; paths = ri_paths inp; root = rp_workspace_root paths;
          verb = verb_str (rr_verb request) in
      rbind (at trace (case un_entrypoints d verb of Some e \<Rightarrow> Inr e | None \<Rightarrow> Inl (MissingEntrypoint verb))) (\<lambda>def.
      rbind (at trace (normalize_entrypoint def)) (\<lambda>entry.
      let trace = completed EntrypointStep (trace\<lparr>pt_entrypoint := Some \<lparr>sv_program = ne_program entry,
            sv_execution_class = execution_class_str (ne_execution_class entry),
            sv_runtime_provider = ne_runtime_provider entry\<rparr>\<rparr>) in
      rbind (at trace (unavailable ''tool registry is unavailable or invalid'' (load_tools env fs paths))) (\<lambda>(tools_doc, _).
      rbind (at trace (classify_backend entry (td_tools tools_doc))) (\<lambda>backend.
      rbind (at trace (resolve_cwd env fs root d entry)) (\<lambda>cwd.
      let trace = completed CwdStep trace in
      rbind (at trace (resolve_manifests fs root (rcw_canonical cwd) d entry backend)) (\<lambda>(display, manifests).
      let trace = completed ManifestsStep (trace\<lparr>pt_manifests := display\<rparr>) in
      rbind (at trace (validate_backend_contract entry backend (td_tools tools_doc))) (\<lambda>_.
      let trace = completed BackendStep trace in
      rbind (at trace (locate_executable fs (ne_program entry) (rcw_canonical cwd) (ri_path_dirs inp) backend
        (td_tools tools_doc) root)) (\<lambda>executable.
      let trace = completed ExecutableStep (trace\<lparr>pt_executable := Some (rex_provenance executable)\<rparr>) in
      Inr (\<lparr>iv_entry = entry, iv_labels = authored_or_wire_labels entry backend, iv_cwd = cwd,
            iv_manifest_display = display, iv_manifest_paths = manifests, iv_executable = executable\<rparr>, trace))))))))))"

definition resolve_selection ::
  "resolver_inputs \<Rightarrow> resolution_request \<Rightarrow> normalized_entrypoint \<Rightarrow> partial_resolution_trace \<Rightarrow>
   (selected_profile \<times> partial_resolution_trace) traced" where
  "resolve_selection inp request entry trace =
     (let env = ri_env inp; fs = ri_fs inp; paths = ri_paths inp in
      rbind (at trace (unavailable ''profile registry is unavailable or invalid'' (load_profiles env fs paths))) (\<lambda>profiles.
      rbind (at trace (select_profile profiles (rr_explicit_profile request) (ri_env_profile inp))) (\<lambda>profile.
      let trace = completed ProfileStep (trace\<lparr>pt_profile_id := Some (pf_id profile)\<rparr>) in
      rbind (at trace (unavailable ''policy registry is unavailable or invalid'' (load_policies env fs paths))) (\<lambda>policies.
      rbind (at trace (collect_policy_refs policies profile entry (rr_unit_id request))) (\<lambda>selected.
      Inr (selected, completed PoliciesStep (trace\<lparr>pt_policy_ids := sel_policy_ids selected\<rparr>)))))))"

definition descriptor_fingerprint ::
  "resolver_inputs \<Rightarrow> unit_definition \<Rightarrow> string \<Rightarrow> (resolution_code, source_fingerprint) result" where
  "descriptor_fingerprint inp d display =
     (let p = components (un_descriptor_path d) in
      map_err (\<lambda>_. DescriptorUnavailable ''cannot fingerprint selected descriptor'')
        (case fingerprint_file (ri_env inp) (ri_fs inp) p display of
           Inr fp \<Rightarrow> Inr fp
         | Inl _ \<Rightarrow> fingerprint_file (ri_env inp) (ri_fs inp) (path_join (rp_workspace_root (ri_paths inp)) p) display))"

definition resolved_command_of ::
  "resolution_request \<Rightarrow> resolved_target \<Rightarrow> resolved_invocation \<Rightarrow> selected_profile \<Rightarrow> string \<Rightarrow> source_fingerprint \<Rightarrow>
   resolved_command" where
  "resolved_command_of request target iv selected descriptor_path fp =
     (let entry = iv_entry iv in
      \<lparr>res_schema_version = SCHEMA_VERSION, res_session_id = rr_session_id request,
       res_unit_id = rr_unit_id request, res_verb = verb_str (rr_verb request),
       res_descriptor_path = descriptor_path, res_descriptor_fingerprint = ''sha256:'' @ fp_digest fp,
       res_native_manifests = iv_manifest_display iv, res_backend = fst (iv_labels iv),
       res_adapter = snd (iv_labels iv), res_program = ne_program entry, res_argv = ne_args entry,
       res_cwd = rcw_display (iv_cwd iv), res_env_keys = sort_dedup (ne_env_keys entry),
       res_profile_id = pf_id (sel_profile selected), res_policy_ids = sel_policy_ids selected,
       res_registry_generation = (case ud_registry_generation (rt_units target) of
          Some g \<Rightarrow> g
        | None \<Rightarrow> \<lparr>rg_generated_at = ud_generated_at (rt_units target), rg_source_fingerprints = [fp]\<rparr>),
       res_execution_class = ne_execution_class entry, res_runtime_provider = ne_runtime_provider entry\<rparr>)"

definition from_resolved_selection ::
  "requested_operation \<Rightarrow> sealed_execution_plan \<Rightarrow> selected_profile \<Rightarrow> path \<Rightarrow> policy_evaluation_input" where
  "from_resolved_selection request plan selected policy_root =
     \<lparr>pin_actor = Agent, pin_request = request, pin_plan = plan, pin_profile = sel_profile selected,
      pin_policies = sel_policies selected, pin_policy_origins = sel_policy_origins selected,
      pin_policy_root = policy_root\<rparr>"

definition seal_resolution ::
  "resolver_inputs \<Rightarrow> resolution_request \<Rightarrow> resolved_target \<Rightarrow> resolved_invocation \<Rightarrow> selected_profile \<Rightarrow>
   partial_resolution_trace \<Rightarrow> resolve_success traced" where
  "seal_resolution inp request target iv selected trace =
     (let fs = ri_fs inp; root = rp_workspace_root (ri_paths inp);
          descriptor_path = workspace_relative_display (canonical_root fs root)
            (components (un_descriptor_path (rt_definition target))) in
      rbind (at trace (descriptor_fingerprint inp (rt_definition target) descriptor_path)) (\<lambda>fp.
      let plan = seal (ri_digest inp) (resolved_command_of request target iv selected descriptor_path fp)
            (rex_canonical (iv_executable iv)) (rcw_canonical (iv_cwd iv)) (iv_manifest_paths iv)
            (rex_provenance (iv_executable iv)) (sort_key diagnostic_key (ne_diagnostics (iv_entry iv)));
          trace = completed PlanStep trace;
          explanation = (explanation_from_plan plan selected (rt_freshness target))
            \<lparr>rx_completed_steps := pt_completed_steps trace\<rparr> in
      rbind (at trace (map_err (\<lambda>e. InvalidPolicyRoot (''cannot canonicalize policy root: '' @
          rv_io_text (ri_env inp) e)) (canonicalize fs root))) (\<lambda>policy_root.
      Inr \<lparr>rs_plan = plan, rs_explanation = explanation, rs_freshness = rt_freshness target,
           rs_policy_input = from_resolved_selection
             (requested_from_resolution (rr_unit_id request) (verb_str (rr_verb request)) (rr_explain request)
               (rr_execute_requested request))
             plan selected policy_root\<rparr>)))"

definition resolve_inner ::
  "resolver_inputs \<Rightarrow> resolution_request \<Rightarrow> partial_resolution_trace \<Rightarrow> resolve_success traced" where
  "resolve_inner inp request trace =
     rbind (resolve_target inp request trace) (\<lambda>(target, trace).
     rbind (resolve_invocation inp request (rt_definition target) trace) (\<lambda>(iv, trace).
     rbind (resolve_selection inp request (iv_entry iv) trace) (\<lambda>(selected, trace).
       seal_resolution inp request target iv selected trace)))"

definition initial_trace :: "resolution_request \<Rightarrow> partial_resolution_trace" where
  "initial_trace request =
     \<lparr>pt_session_id = rr_session_id request, pt_mode = ''plan_only'',
      pt_request = \<lparr>pq_unit_id = rr_unit_id request, pq_verb = verb_str (rr_verb request),
        pq_requested_profile = rr_explicit_profile request\<rparr>,
      pt_completed_steps = [CorrelationIdStep], pt_freshness = None, pt_unit = None, pt_descriptor = None,
      pt_entrypoint = None, pt_manifests = [], pt_executable = None, pt_profile_id = None, pt_policy_ids = []\<rparr>"

definition with_session_id :: "resolver_inputs \<Rightarrow> resolution_request \<Rightarrow> resolution_request" where
  "with_session_id inp request =
     (if rr_session_id request = [] then request\<lparr>rr_session_id := ri_next_id inp\<rparr> else request)"

definition resolve ::
  "(partial_resolution_trace \<Rightarrow> json option) \<Rightarrow> resolver_inputs \<Rightarrow> resolution_request \<Rightarrow>
   (controller_error, resolve_success) result" where
  "resolve to_value inp request =
     (let request = with_session_id inp request in
      map_err (\<lambda>(code, trace). into_error to_value code trace)
        (resolve_inner inp request (initial_trace request)))"

section \<open>Properties\<close>

lemma outcome_at_bind [outcome_intros]:
  "(\<And>c. r = Inl c \<Longrightarrow> E (c, tr)) \<Longrightarrow> (\<And>v. r = Inr v \<Longrightarrow> outcome (f v) E P) \<Longrightarrow>
   outcome (rbind (at tr r) f) E P"
  by (cases r) (simp_all add: at_def)

lemma outcome_at_bind_pair [outcome_intros]:
  "(\<And>c. r = Inl c \<Longrightarrow> E (c, tr)) \<Longrightarrow> (\<And>a b. r = Inr (a, b) \<Longrightarrow> outcome (f a b) E P) \<Longrightarrow>
   outcome (rbind (at tr r) (\<lambda>(a, b). f a b)) E P"
  by (cases r) (auto simp: at_def)

lemma completed_simps [simp]:
  "pt_completed_steps (completed s tr) = pt_completed_steps tr @ [s]"
  "pt_session_id (completed s tr) = pt_session_id tr"
  by (simp_all add: completed_def)

text \<open>A trace that continues another one by the first \<open>k\<close> of the given steps.\<close>

definition continues :: "partial_resolution_trace \<Rightarrow> resolution_step list \<Rightarrow> nat \<Rightarrow> partial_resolution_trace \<Rightarrow> bool" where
  "continues tr steps k tr' \<longleftrightarrow>
     pt_completed_steps tr' = pt_completed_steps tr @ take k steps \<and> pt_session_id tr' = pt_session_id tr"

abbreviation "target_steps \<equiv> [RegistryStep, UnitStep, DescriptorStep]"
abbreviation "invocation_steps \<equiv> [EntrypointStep, CwdStep, ManifestsStep, BackendStep, ExecutableStep]"
abbreviation "selection_steps \<equiv> [ProfileStep, PoliciesStep]"

lemma resolve_target_outcome:
  "outcome (resolve_target inp rq tr)
     (\<lambda>(c, tr'). \<exists>k < 3. continues tr target_steps k tr')
     (\<lambda>(t, tr'). continues tr target_steps 3 tr')"
  unfolding resolve_target_def Let_def
  apply (rule outcome_at_bind, force simp: continues_def intro: exI [of _ 0])
  apply (rule outcome_at_bind_pair, force simp: continues_def intro: exI [of _ 1])
  apply (rule outcome_at_bind, force simp: continues_def intro: exI [of _ 1])
  apply (rule outcome_at_bind, force simp: continues_def intro: exI [of _ 1])
  apply (rule outcome_at_bind, force simp: continues_def intro: exI [of _ 2])
  apply (simp add: continues_def)
  done

lemma resolve_invocation_outcome:
  "outcome (resolve_invocation inp rq d tr)
     (\<lambda>(c, tr'). \<exists>k < 5. continues tr invocation_steps k tr')
     (\<lambda>(iv, tr'). continues tr invocation_steps 5 tr' \<and> entry_ok (iv_entry iv) \<and>
        resolve_cwd (ri_env inp) (ri_fs inp) (rp_workspace_root (ri_paths inp)) d (iv_entry iv) = Inr (iv_cwd iv) \<and>
        (\<exists>backend tools.
           resolve_manifests (ri_fs inp) (rp_workspace_root (ri_paths inp)) (rcw_canonical (iv_cwd iv)) d (iv_entry iv)
             backend = Inr (iv_manifest_display iv, iv_manifest_paths iv) \<and>
           locate_executable (ri_fs inp) (ne_program (iv_entry iv)) (rcw_canonical (iv_cwd iv)) (ri_path_dirs inp)
             backend tools (rp_workspace_root (ri_paths inp)) = Inr (iv_executable iv)))"
  unfolding resolve_invocation_def Let_def
  apply (rule outcome_at_bind, force simp: continues_def intro: exI [of _ 0])
  apply (rule outcome_at_bind, force simp: continues_def intro: exI [of _ 0])
  apply (rule outcome_at_bind_pair, force simp: continues_def intro: exI [of _ 1])
  apply (rule outcome_at_bind, force simp: continues_def intro: exI [of _ 1])
  apply (rule outcome_at_bind, force simp: continues_def intro: exI [of _ 1])
  apply (rule outcome_at_bind_pair, force simp: continues_def intro: exI [of _ 2])
  apply (rule outcome_at_bind, force simp: continues_def intro: exI [of _ 3])
  apply (rule outcome_at_bind, force simp: continues_def intro: exI [of _ 4])
  apply (auto simp: continues_def dest: normalize_entrypoint_ok)
  done

lemma resolve_selection_outcome:
  "outcome (resolve_selection inp rq entry tr)
     (\<lambda>(c, tr'). \<exists>k < 2. continues tr selection_steps k tr')
     (\<lambda>(selected, tr'). continues tr selection_steps 2 tr' \<and>
        (\<exists>doc profile. collect_policy_refs doc profile entry (rr_unit_id rq) = Inr selected))"
  unfolding resolve_selection_def Let_def
  apply (rule outcome_at_bind, force simp: continues_def intro: exI [of _ 0])
  apply (rule outcome_at_bind, force simp: continues_def intro: exI [of _ 0])
  apply (rule outcome_at_bind, force simp: continues_def intro: exI [of _ 1])
  apply (rule outcome_at_bind, force simp: continues_def intro: exI [of _ 1])
  apply (auto simp: continues_def)
  done

text \<open>The pipeline in its order.\<close>

definition pipeline_steps :: "resolution_step list" where
  "pipeline_steps = CorrelationIdStep # target_steps @ invocation_steps @ selection_steps @ [PlanStep]"

lemma continues_trans:
  assumes "continues tr steps n tr'" and "continues tr' steps' k tr''" and "length steps = n"
  shows "continues tr (steps @ steps') (n + k) tr''"
  using assms by (simp add: continues_def)

text \<open>What the stages of a successful run produced.\<close>

definition resolved_by ::
  "resolver_inputs \<Rightarrow> resolution_request \<Rightarrow> resolve_success \<Rightarrow> unit_definition \<Rightarrow> resolved_invocation \<Rightarrow> backend_kind \<Rightarrow>
   tool_record list \<Rightarrow> selected_profile \<Rightarrow> bool" where
  "resolved_by inp rq s d iv backend tools selected \<longleftrightarrow>
     (let fs = ri_fs inp; root = rp_workspace_root (ri_paths inp); plan = rs_plan s; pin = rs_policy_input s in
      resolve_cwd (ri_env inp) fs root d (iv_entry iv) = Inr (iv_cwd iv) \<and>
      resolve_manifests fs root (rcw_canonical (iv_cwd iv)) d (iv_entry iv) backend =
        Inr (iv_manifest_display iv, iv_manifest_paths iv) \<and>
      locate_executable fs (ne_program (iv_entry iv)) (rcw_canonical (iv_cwd iv)) (ri_path_dirs inp) backend tools root =
        Inr (iv_executable iv) \<and>
      entry_ok (iv_entry iv) \<and>
      (\<exists>doc profile. collect_policy_refs doc profile (iv_entry iv) (rr_unit_id rq) = Inr selected) \<and>
      sp_cwd_path plan = rcw_canonical (iv_cwd iv) \<and> sp_executable_path plan = rex_canonical (iv_executable iv) \<and>
      set (sp_source_manifest_paths plan) = set (iv_manifest_paths iv) \<and>
      res_program (sp_resolved plan) = ne_program (iv_entry iv) \<and> res_argv (sp_resolved plan) = ne_args (iv_entry iv) \<and>
      res_session_id (sp_resolved plan) = rr_session_id rq \<and> res_unit_id (sp_resolved plan) = rr_unit_id rq \<and>
      res_verb (sp_resolved plan) = verb_str (rr_verb rq) \<and>
      res_profile_id (sp_resolved plan) = pf_id (sel_profile selected) \<and>
      res_policy_ids (sp_resolved plan) = sort_dedup (sel_policy_ids selected) \<and>
      pin_actor pin = Agent \<and> pin_plan pin = plan \<and> pin_profile pin = sel_profile selected \<and>
      pin_policies pin = sel_policies selected \<and> pin_policy_origins pin = sel_policy_origins selected \<and>
      pin_request pin = requested_from_resolution (rr_unit_id rq) (verb_str (rr_verb rq)) (rr_explain rq)
        (rr_execute_requested rq) \<and>
      canonicalize fs root = Inr (pin_policy_root pin) \<and>
      rx_completed_steps (rs_explanation s) = pipeline_steps)"

lemma outcome_stage:
  assumes "outcome r (\<lambda>(c, tr'). \<exists>k < n. continues tr steps k tr') (\<lambda>(v, tr'). continues tr steps n tr' \<and> Q v)"
    and "\<And>c k tr'. continues tr steps k tr' \<Longrightarrow> E (c, tr')"
    and "\<And>v tr'. continues tr steps n tr' \<Longrightarrow> Q v \<Longrightarrow> outcome (g v tr') E P"
  shows "outcome (rbind r (\<lambda>(v, tr'). g v tr')) E P"
  using assms by (cases r) (auto simp: outcome_def)

lemma seal_fields:
  "sp_cwd_path (seal denv r exe cwd ms prov ds) = cwd" "sp_executable_path (seal denv r exe cwd ms prov ds) = exe"
  "set (sp_source_manifest_paths (seal denv r exe cwd ms prov ds)) = set ms"
  "sp_resolved (seal denv r exe cwd ms prov ds) = normalize_resolved r"
  by (simp_all add: seal_def Let_def)

lemma normalize_resolved_fields:
  "res_program (normalize_resolved r) = res_program r" "res_argv (normalize_resolved r) = res_argv r"
  "res_session_id (normalize_resolved r) = res_session_id r" "res_unit_id (normalize_resolved r) = res_unit_id r"
  "res_verb (normalize_resolved r) = res_verb r" "res_profile_id (normalize_resolved r) = res_profile_id r"
  "res_policy_ids (normalize_resolved r) = sort_dedup (res_policy_ids r)"
  by (simp_all add: normalize_resolved_def)

lemma resolved_command_of_fields:
  "res_program (resolved_command_of rq t iv sel dp fp) = ne_program (iv_entry iv)"
  "res_argv (resolved_command_of rq t iv sel dp fp) = ne_args (iv_entry iv)"
  "res_session_id (resolved_command_of rq t iv sel dp fp) = rr_session_id rq"
  "res_unit_id (resolved_command_of rq t iv sel dp fp) = rr_unit_id rq"
  "res_verb (resolved_command_of rq t iv sel dp fp) = verb_str (rr_verb rq)"
  "res_profile_id (resolved_command_of rq t iv sel dp fp) = pf_id (sel_profile sel)"
  "res_policy_ids (resolved_command_of rq t iv sel dp fp) = sel_policy_ids sel"
  by (simp_all add: resolved_command_of_def Let_def)

lemmas resolved_fields = seal_fields normalize_resolved_fields resolved_command_of_fields

lemma seal_resolution_outcome:
  assumes "pt_completed_steps tr @ [PlanStep] = pipeline_steps"
    and "resolve_cwd (ri_env inp) (ri_fs inp) (rp_workspace_root (ri_paths inp)) d (iv_entry iv) = Inr (iv_cwd iv)"
    and "resolve_manifests (ri_fs inp) (rp_workspace_root (ri_paths inp)) (rcw_canonical (iv_cwd iv)) d (iv_entry iv)
       backend = Inr (iv_manifest_display iv, iv_manifest_paths iv)"
    and "locate_executable (ri_fs inp) (ne_program (iv_entry iv)) (rcw_canonical (iv_cwd iv)) (ri_path_dirs inp)
       backend tools (rp_workspace_root (ri_paths inp)) = Inr (iv_executable iv)"
    and "entry_ok (iv_entry iv)"
    and "\<exists>doc profile. collect_policy_refs doc profile (iv_entry iv) (rr_unit_id rq) = Inr selected"
    and "\<And>c. E (c, tr)" and "\<And>c. E (c, completed PlanStep tr)"
  shows "outcome (seal_resolution inp rq t iv selected tr) E
    (\<lambda>s. resolved_by inp rq s d iv backend tools selected)"
  unfolding seal_resolution_def Let_def
  using assms
  by (intro outcome_at_bind)
    (simp_all add: resolved_by_def Let_def resolved_fields from_resolved_selection_def map_err_eq_Inr_iff)

text \<open>The trace a failure reports: a prefix of the pipeline, for the request's session.\<close>

definition trace_ok :: "resolution_request \<Rightarrow> resolution_code \<times> partial_resolution_trace \<Rightarrow> bool" where
  "trace_ok rq ct \<longleftrightarrow>
     prefix (pt_completed_steps (snd ct)) pipeline_steps \<and> pt_session_id (snd ct) = rr_session_id rq"

lemma trace_okI:
  assumes "continues (initial_trace rq) steps k tr'" and "prefix steps (tl pipeline_steps)"
  shows "trace_ok rq (c, tr')"
proof -
  have "prefix (take k steps) (tl pipeline_steps)" using assms(2) take_is_prefix prefix_order.trans by blast
  then show ?thesis using assms(1) by (simp add: trace_ok_def continues_def pipeline_steps_def initial_trace_def)
qed

text \<open>The result of a run from some stage on.\<close>

abbreviation succeeds :: "resolver_inputs \<Rightarrow> resolution_request \<Rightarrow> resolve_success traced \<Rightarrow> bool" where
  "succeeds inp rq r \<equiv> outcome r (trace_ok rq)
     (\<lambda>s. \<exists>d iv backend tools selected. resolved_by inp rq s d iv backend tools selected)"

definition invoked :: "resolver_inputs \<Rightarrow> unit_definition \<Rightarrow> resolved_invocation \<Rightarrow> bool" where
  "invoked inp d iv \<longleftrightarrow>
     entry_ok (iv_entry iv) \<and>
     resolve_cwd (ri_env inp) (ri_fs inp) (rp_workspace_root (ri_paths inp)) d (iv_entry iv) = Inr (iv_cwd iv) \<and>
     (\<exists>backend tools.
        resolve_manifests (ri_fs inp) (rp_workspace_root (ri_paths inp)) (rcw_canonical (iv_cwd iv)) d (iv_entry iv)
          backend = Inr (iv_manifest_display iv, iv_manifest_paths iv) \<and>
        locate_executable (ri_fs inp) (ne_program (iv_entry iv)) (rcw_canonical (iv_cwd iv)) (ri_path_dirs inp)
          backend tools (rp_workspace_root (ri_paths inp)) = Inr (iv_executable iv))"

lemma succeeds_from_selection:
  assumes c2: "continues (initial_trace rq) (target_steps @ invocation_steps) 8 tr2"
    and iv: "invoked inp (rt_definition t) iv"
  shows "succeeds inp rq (rbind (resolve_selection inp rq (iv_entry iv) tr2) (\<lambda>(selected, trace).
    seal_resolution inp rq t iv selected trace))"
proof (rule outcome_stage [OF resolve_selection_outcome])
  fix c k tr'
  assume "continues tr2 selection_steps k tr'"
  from continues_trans [OF c2 this] show "trace_ok rq (c, tr')" by (rule trace_okI) (simp_all add: pipeline_steps_def)
next
  fix selected :: selected_profile and tr3 :: partial_resolution_trace
  assume "continues tr2 selection_steps 2 tr3"
    and sel: "\<exists>doc profile. collect_policy_refs doc profile (iv_entry iv) (rr_unit_id rq) = Inr selected"
  from continues_trans [OF c2 this(1)]
  have c3: "continues (initial_trace rq) (target_steps @ invocation_steps @ selection_steps) 10 tr3" by simp
  have c4: "continues (initial_trace rq) (target_steps @ invocation_steps @ selection_steps @ [PlanStep]) 11
      (completed PlanStep tr3)"
    using c3 by (simp add: continues_def)
  have steps: "pt_completed_steps tr3 @ [PlanStep] = pipeline_steps"
    using c3 by (simp add: continues_def pipeline_steps_def initial_trace_def)
  have ok: "trace_ok rq (c, tr3)" "trace_ok rq (c, completed PlanStep tr3)" for c
    by (rule trace_okI [OF c3], simp add: pipeline_steps_def) (rule trace_okI [OF c4], simp add: pipeline_steps_def)
  from iv obtain backend tools where
    "resolve_manifests (ri_fs inp) (rp_workspace_root (ri_paths inp)) (rcw_canonical (iv_cwd iv))
       (rt_definition t) (iv_entry iv) backend = Inr (iv_manifest_display iv, iv_manifest_paths iv)"
    "locate_executable (ri_fs inp) (ne_program (iv_entry iv)) (rcw_canonical (iv_cwd iv)) (ri_path_dirs inp)
       backend tools (rp_workspace_root (ri_paths inp)) = Inr (iv_executable iv)"
    "entry_ok (iv_entry iv)"
    "resolve_cwd (ri_env inp) (ri_fs inp) (rp_workspace_root (ri_paths inp)) (rt_definition t) (iv_entry iv) =
       Inr (iv_cwd iv)"
    unfolding invoked_def by blast
  from seal_resolution_outcome [where E = "trace_ok rq", OF steps this(4,1,2,3) sel ok]
  show "succeeds inp rq (seal_resolution inp rq t iv selected tr3)"
    by (rule outcome_mono) blast
qed

lemma resolve_inner_outcome: "succeeds inp rq (resolve_inner inp rq (initial_trace rq))"
  unfolding resolve_inner_def
proof (rule outcome_stage [where Q = "\<lambda>_. True" and tr = "initial_trace rq" and steps = target_steps and n = 3])
  fix t :: resolved_target and tr1 :: partial_resolution_trace
  assume c1: "continues (initial_trace rq) target_steps 3 tr1"
  show "succeeds inp rq (rbind (resolve_invocation inp rq (rt_definition t) tr1) (\<lambda>(iv, trace).
      rbind (resolve_selection inp rq (iv_entry iv) trace) (\<lambda>(selected, trace).
        seal_resolution inp rq t iv selected trace)))"
  proof (rule outcome_stage [OF resolve_invocation_outcome [folded invoked_def]])
    fix c k tr'
    assume "continues tr1 invocation_steps k tr'"
    from continues_trans [OF c1 this] show "trace_ok rq (c, tr')"
      by (rule trace_okI) (simp_all add: pipeline_steps_def)
  next
    fix iv :: resolved_invocation and tr2 :: partial_resolution_trace
    assume "continues tr1 invocation_steps 5 tr2" and iv: "invoked inp (rt_definition t) iv"
    from continues_trans [OF c1 this(1)] show "succeeds inp rq (rbind (resolve_selection inp rq (iv_entry iv) tr2)
        (\<lambda>(selected, trace). seal_resolution inp rq t iv selected trace))"
      by (intro succeeds_from_selection iv) simp
  qed
qed (use resolve_target_outcome trace_okI in \<open>auto simp: pipeline_steps_def\<close>)

lemma resolve_cases:
  assumes "rq' = with_session_id inp rq"
  shows "resolve to_value inp rq = Inl e \<Longrightarrow> \<exists>code trace. trace_ok rq' (code, trace) \<and> e = into_error to_value code trace"
    and "resolve to_value inp rq = Inr s \<Longrightarrow>
      \<exists>d iv backend tools selected. resolved_by inp rq' s d iv backend tools selected"
proof -
  have out: "succeeds inp rq' (resolve_inner inp rq' (initial_trace rq'))" by (rule resolve_inner_outcome)
  then show "resolve to_value inp rq = Inl e \<Longrightarrow> \<exists>code trace. trace_ok rq' (code, trace) \<and> e = into_error to_value code trace"
    by (cases "resolve_inner inp rq' (initial_trace rq')") (auto simp: resolve_def Let_def assms [symmetric])
  show "resolve to_value inp rq = Inr s \<Longrightarrow>
      \<exists>d iv backend tools selected. resolved_by inp rq' s d iv backend tools selected"
    using out by (cases "resolve_inner inp rq' (initial_trace rq')") (auto simp: resolve_def Let_def assms [symmetric])
qed

text \<open>
  C9: a failed resolution says how far it got. Every failure is a resolution error with the exit code of
  resolution, carries the session id of the request (generated when the request had none), and its trace
  lists the completed steps as a prefix of the pipeline in its fixed order.
\<close>

theorem resolve_failure_trace:
  assumes "resolve to_value inp rq = Inl e"
  shows "exit_code e = RESOLUTION \<and> error_session_id e = Some (rr_session_id (with_session_id inp rq)) \<and>
    (\<exists>code trace. e = into_error to_value code trace \<and> diagnostic_code e = resolution_code_str code \<and>
       prefix (pt_completed_steps trace) pipeline_steps)"
proof -
  obtain code trace where t: "trace_ok (with_session_id inp rq) (code, trace)" "e = into_error to_value code trace"
    using resolve_cases(1) [OF refl assms] by blast
  have "resolution_code_str (sort_candidates code) = resolution_code_str code" by (cases code) simp_all
  moreover from this t have "exit_code e = RESOLUTION \<and>
      error_session_id e = Some (rr_session_id (with_session_id inp rq)) \<and> diagnostic_code e = resolution_code_str code"
    by (simp add: into_error_def Let_def trace_ok_def)
  moreover have "prefix (pt_completed_steps trace) pipeline_steps" using t(1) by (simp add: trace_ok_def)
  ultimately show ?thesis using t(2) by blast
qed

text \<open>What \<open>fs::canonicalize\<close> documents: the result is absolute, and canonical itself.\<close>

definition canonical_idem :: "rfsys \<Rightarrow> bool" where
  "canonical_idem fs \<longleftrightarrow>
     (\<forall>p c. canonicalize fs p = Inr c \<longrightarrow> is_absolute c \<and> canonicalize fs c = Inr c)"

lemma truncate_canonicalize [simp]: "canonicalize (fsys.truncate fs) = canonicalize fs"
  by (simp add: fsys.truncate_def)

lemma request_flags:
  assumes "unit_id \<noteq> ''--explain''" and "unit_id \<noteq> ''--execute''"
  shows "''--explain'' \<in> set (ro_argv (requested_from_resolution unit_id (verb_str v) explain execute)) \<longleftrightarrow> explain"
    and "''--execute'' \<in> set (ro_argv (requested_from_resolution unit_id (verb_str v) explain execute)) \<longleftrightarrow> execute"
  using assms by (cases v; auto simp: requested_from_resolution_def)+

text \<open>
  C8: the handoff of a successful resolution is always consistent: every check that policy evaluation
  makes on its input passes, so a mismatch error can only come from an input that no resolution produced.
  The unit id must not be one of the two flags themselves, which the command line cannot give as a
  positional argument.
\<close>

theorem resolve_handoff_consistent:
  assumes "resolve to_value inp rq = Inr s" and "canonical_idem (ri_fs inp)"
    and "rr_unit_id rq \<noteq> ''--explain''" and "rr_unit_id rq \<noteq> ''--execute''"
  shows "assert_input_consistency (fsys.truncate (ri_fs inp)) (rs_policy_input s) = Inr ()"
proof -
  let ?rq = "with_session_id inp rq"
  have unit: "rr_unit_id ?rq = rr_unit_id rq" by (simp add: with_session_id_def)
  obtain d iv backend tools selected where r: "resolved_by inp ?rq s d iv backend tools selected"
    using resolve_cases(2) [OF refl assms(1)] by blast
  then obtain doc profile where c: "collect_policy_refs doc profile (iv_entry iv) (rr_unit_id ?rq) = Inr selected"
    unfolding resolved_by_def Let_def by blast
  have ok: "btree_ok (push_all refs [])" for refs by (simp add: push_all_ok)
  note ex = select_refs_exact [OF collect_policy_refs_select(2) [OF c] ok]
  have ids: "map po_id (sel_policies selected) = sel_policy_ids selected"
    "map fst (sel_policy_origins selected) = sel_policy_ids selected"
    "sorted (sel_policy_ids selected)" "distinct (sel_policy_ids selected)"
    using ex(2,3,5) btree_keys_sorted [OF ok] btree_keys_distinct [OF ok] by simp_all
  have sd: "sort_dedup (sel_policy_ids selected) = sel_policy_ids selected"
    using ids(3,4) by (simp add: sort_dedup_eq_sorted_list_of_set sorted_list_of_set.idem_if_sorted_distinct)
  have root: "is_absolute (pin_policy_root (rs_policy_input s))"
    "canonicalize (ri_fs inp) (pin_policy_root (rs_policy_input s)) = Inr (pin_policy_root (rs_policy_input s))"
    using r assms(2) unfolding resolved_by_def Let_def canonical_idem_def by blast+
  then have "pin_policy_root (rs_policy_input s) \<noteq> []" by (auto simp: is_absolute_def)
  moreover have "insert_all_unique [] (sel_policy_ids selected)"
    using ids(4) by (simp add: insert_all_unique_iff)
  ultimately show ?thesis
    using r ids root sd request_flags [OF assms(3,4)]
    unfolding assert_input_consistency_def resolved_by_def Let_def truncate_canonicalize
    by (simp add: unit requested_from_resolution_def)
qed


section \<open>A resolution\<close>

definition sample_authored :: authored_unit_descriptor where
  "sample_authored = \<lparr>au_id = ''demo'', au_root = Some ''app'', au_manifests = Some [''moon.yml''],
     au_entrypoints = [''build'' \<mapsto> Structured \<lparr>se_program = ''moon'', se_args = [''run'', ''demo:build''], se_cwd = None,
       se_env_keys = [''CI''], se_backend = None, se_adapter = None, se_source_manifests = [],
       se_required_policies = [], se_execution_class = Direct, se_runtime_provider = None\<rparr>]\<rparr>"

definition sample_registry_env :: registry_env where
  "sample_registry_env =
     \<lparr>rv_io_text = (\<lambda>_. ''io''), rv_sha256_hex = (\<lambda>_. ''ab''), rv_units = (\<lambda>_. Inl ''none''),
      rv_scan = (\<lambda>_. Inl ''none''),
      rv_tools = (\<lambda>_. Inr \<lparr>td_generated_at = ''t'', td_summary = JNull, td_tools = []\<rparr>),
      rv_profiles = (\<lambda>_. Inr \<lparr>pd_generated_at = ''t'', pd_profiles = [rails_profile]\<rparr>),
      rv_policies = (\<lambda>_. Inr \<lparr>pol_generated_at = ''t'', pol_policies = [sample_policy ''g'' (Some ''agent'')]\<rparr>),
      rv_descriptor = (\<lambda>_. Inr sample_authored)\<rparr>"

definition sample_resolver_inputs :: resolver_inputs where
  "sample_resolver_inputs =
     \<lparr>ri_env = sample_registry_env, ri_digest = sample_digest_env,
      ri_fs = tree_rfsys (map components [''/'', ''/ws'', ''/ws/app'', ''/reg'', ''/reg/sources/descriptors'', ''/usr/bin''])
        [(components ''/ws/app/moon.yml'', 0x1A4, ''x''), (components ''/usr/bin/moon'', 0x1ED, ''elf''),
         (components ''/reg/tools.json'', 0x1A4, ''{}''), (components ''/reg/profiles.json'', 0x1A4, ''{}''),
         (components ''/reg/policies.json'', 0x1A4, ''{}''),
         (components ''/reg/sources/descriptors/demo.toml'', 0x1A4, ''id'')],
      ri_paths = \<lparr>rp_registry_root = components ''/reg'', rp_workspace_root = components ''/ws''\<rparr>,
      ri_path_dirs = [components ''/usr/bin''], ri_env_profile = None, ri_next_id = ''tkg_1''\<rparr>"

definition sample_request :: "lifecycle_verb \<Rightarrow> resolution_request" where
  "sample_request verb = \<lparr>rr_session_id = '''', rr_unit_id = ''demo'', rr_verb = verb,
     rr_explicit_profile = Some ''p'', rr_explain = False, rr_execute_requested = True\<rparr>"

lemma sample_resolves: "\<exists>s. resolve (\<lambda>_. None) sample_resolver_inputs (sample_request Build) = Inr s"
proof -
  have "(case resolve (\<lambda>_. None) sample_resolver_inputs (sample_request Build) of Inr _ \<Rightarrow> True | Inl _ \<Rightarrow> False)"
    by code_simp
  then show ?thesis by (auto split: sum.splits)
qed

lemma sample_idem: "canonical_idem (ri_fs sample_resolver_inputs)"
proof -
  have "\<forall>p \<in> set (map components [''/'', ''/ws'', ''/ws/app'', ''/reg'', ''/reg/sources/descriptors'', ''/usr/bin'',
     ''/ws/app/moon.yml'', ''/usr/bin/moon'', ''/reg/tools.json'', ''/reg/profiles.json'', ''/reg/policies.json'',
     ''/reg/sources/descriptors/demo.toml'']). is_absolute p" by code_simp
  then show ?thesis
    by (auto simp: canonical_idem_def sample_resolver_inputs_def tree_rfsys_def Let_def rbind_eq_Inr_iff split: if_splits)
qed


theorem resolve_handoff_consistent_witness:
  "\<exists>s. resolve (\<lambda>_. None) sample_resolver_inputs (sample_request Build) = Inr s \<and>
     assert_input_consistency (fsys.truncate (ri_fs sample_resolver_inputs)) (rs_policy_input s) = Inr ()"
proof -
  obtain s where s: "resolve (\<lambda>_. None) sample_resolver_inputs (sample_request Build) = Inr s"
    using sample_resolves by blast
  then show ?thesis using resolve_handoff_consistent [OF s sample_idem] by (simp add: sample_request_def)
qed

theorem resolve_failure_trace_witness:
  "\<exists>e. resolve (\<lambda>_. None) sample_resolver_inputs (sample_request Dev) = Inl e \<and> exit_code e = RESOLUTION \<and>
     error_session_id e = Some ''tkg_1''"
proof -
  have "(case resolve (\<lambda>_. None) sample_resolver_inputs (sample_request Dev) of Inr _ \<Rightarrow> False | Inl _ \<Rightarrow> True)"
    by code_simp
  then obtain e where e: "resolve (\<lambda>_. None) sample_resolver_inputs (sample_request Dev) = Inl e"
    by (auto split: sum.splits)
  then show ?thesis using resolve_failure_trace [OF e]
    by (simp add: with_session_id_def sample_request_def sample_resolver_inputs_def)
qed

end
