(* ===== verification/Secure_File.thy ===== *)
theory Secure_File
  imports Registry_Access
begin

text \<open>
  Secured file access (\<open>contracts/secure_file.rs\<close>), the no-follow fingerprint (\<open>contracts/fingerprint.rs\<close>)
  and the location of the operational state (\<open>contracts/state.rs\<close>). The file system gains the outcome of
  opening a path without following symbolic links: the error of the open, or the result of the \<open>fstat\<close>
  on the open file, which need not agree with what the path was a moment before.
\<close>

record sfsys = rfsys +
  open_nofollow :: "path \<Rightarrow> (io_error, (io_error, file_kind \<times> nat) result) result"

section \<open>Opening and reading\<close>

datatype secure_file_operation = OpOpen | OpFstat | OpRead | OpHash

fun secure_operation_str :: "secure_file_operation \<Rightarrow> string" where
  "secure_operation_str OpOpen = ''open''"
| "secure_operation_str OpFstat = ''fstat''"
| "secure_operation_str OpRead = ''read''"
| "secure_operation_str OpHash = ''hash''"

datatype secure_file_error =
    SecureMissing
  | SecureSymlink
  | SecureNonRegular
  | SecureLimit nat
  | SecureIo secure_file_operation string io_error

fun public_message :: "secure_file_error \<Rightarrow> string" where
  "public_message SecureMissing = ''missing path''"
| "public_message SecureSymlink = ''path must not be a symlink''"
| "public_message SecureNonRegular = ''path must be a regular non-symlink file''"
| "public_message (SecureLimit limit) = ''exceeds '' @ show_nat limit @ '' byte limit''"
| "public_message (SecureIo operation display _) =
     ''cannot '' @ secure_operation_str operation @ '' '' @ display"

definition require_regular :: "file_kind \<Rightarrow> (secure_file_error, unit) result" where
  "require_regular k =
     (if k = Symlink then Inl SecureSymlink else if k = Directory \<or> k \<noteq> RegularFile then Inl SecureNonRegular else Inr ())"

definition classify_open_err :: "sfsys \<Rightarrow> path \<Rightarrow> string \<Rightarrow> io_error \<Rightarrow> secure_file_error" where
  "classify_open_err fs p display e =
     (if e = NotFound then SecureMissing
      else (case symlink_metadata fs p of
              Inr k \<Rightarrow> (case require_regular k of Inl err \<Rightarrow> err | Inr _ \<Rightarrow> SecureIo OpOpen display e)
            | Inl _ \<Rightarrow> SecureIo OpOpen display e))"

text \<open>The result is what \<open>fstat\<close> reports on the opened file.\<close>

definition open_regular_nofollow_inner ::
  "sfsys \<Rightarrow> path \<Rightarrow> string \<Rightarrow> (secure_file_error, (io_error, file_kind \<times> nat) result) result" where
  "open_regular_nofollow_inner fs p display =
     rbind (case symlink_metadata fs p of
              Inl NotFound \<Rightarrow> Inl SecureMissing
            | Inl e \<Rightarrow> Inl (SecureIo OpOpen display e)
            | Inr k \<Rightarrow> require_regular k) (\<lambda>_.
       map_err (classify_open_err fs p display) (open_nofollow fs p))"

definition open_regular_nofollow :: "sfsys \<Rightarrow> path \<Rightarrow> string \<Rightarrow> (secure_file_error, nat) result" where
  "open_regular_nofollow fs p display =
     rbind (open_regular_nofollow_inner fs p display) (\<lambda>fstat.
     rbind (map_err (SecureIo OpFstat display) fstat) (\<lambda>(kind, len).
     rbind (require_regular kind) (\<lambda>_. Inr len)))"

text \<open>At most \<open>limit\<close> bytes, with one more read as a sentinel; the limit is a \<open>u64\<close>.\<close>

definition read_bounded_nofollow :: "sfsys \<Rightarrow> path \<Rightarrow> string \<Rightarrow> nat \<Rightarrow> (secure_file_error, string) result" where
  "read_bounded_nofollow fs p display limit =
     rbind (open_regular_nofollow fs p display) (\<lambda>len.
     rbind (ensure (\<not> len > limit) (SecureLimit limit)) (\<lambda>_.
     rbind (map_err (SecureIo OpRead display) (read_bytes fs p)) (\<lambda>data.
       let take_limit = min (2 ^ 64 - 1) (limit + 1); buf = take take_limit data in
       if length buf > limit then Inl (SecureLimit limit) else Inr buf)))"

definition sha256_hex_regular_nofollow ::
  "registry_env \<Rightarrow> sfsys \<Rightarrow> path \<Rightarrow> string \<Rightarrow> (secure_file_error, string) result" where
  "sha256_hex_regular_nofollow env fs p display =
     rbind (open_regular_nofollow fs p display) (\<lambda>_.
     rbind (map_err (SecureIo OpHash display) (read_bytes fs p)) (\<lambda>data.
       Inr (rv_sha256_hex env data)))"

datatype secure_io_kind = NotFoundKind | InvalidInputKind | SourceKind io_error

definition secure_to_io :: "secure_file_error \<Rightarrow> secure_io_kind \<times> string" where
  "secure_to_io err =
     (case err of
        SecureMissing \<Rightarrow> NotFoundKind
      | SecureIo _ _ e \<Rightarrow> SourceKind e
      | _ \<Rightarrow> InvalidInputKind,
      case err of
        SecureSymlink \<Rightarrow> ''source must not be a symlink''
      | SecureNonRegular \<Rightarrow> ''source must be a regular file''
      | other \<Rightarrow> public_message other)"

definition fingerprint_regular_file_nofollow ::
  "registry_env \<Rightarrow> sfsys \<Rightarrow> path \<Rightarrow> string \<Rightarrow> (secure_io_kind \<times> string, source_fingerprint) result" where
  "fingerprint_regular_file_nofollow env fs p display_path =
     rbind (map_err secure_to_io (sha256_hex_regular_nofollow env fs p display_path)) (\<lambda>digest.
       Inr \<lparr>fp_path = display_path, fp_algorithm = ''sha256'', fp_digest = digest\<rparr>)"

section \<open>The state home\<close>

record state_home_inputs =
  sh_cli_state_home :: "path option"
  sh_env_takogami_state_home :: "string option"
  sh_profile_session_state_home :: "string option"
  sh_env_xdg_state_home :: "string option"
  sh_home_dir :: "path option"

definition resolve_session_state_home :: "state_home_inputs \<Rightarrow> path" where
  "resolve_session_state_home inputs =
     (case sh_cli_state_home inputs of
        Some p \<Rightarrow> p
      | None \<Rightarrow>
          (case nonempty_option (sh_env_takogami_state_home inputs) of
             Some p \<Rightarrow> components p
           | None \<Rightarrow>
               (case nonempty_option (sh_profile_session_state_home inputs) of
                  Some p \<Rightarrow> components p
                | None \<Rightarrow>
                    (case nonempty_option (sh_env_xdg_state_home inputs) of
                       Some xdg \<Rightarrow> path_join (path_join (components xdg) (components ''takogami'')) (components ''sessions'')
                     | None \<Rightarrow>
                         (let home = (case sh_home_dir inputs of Some h \<Rightarrow> h | None \<Rightarrow> components ''/'') in
                          foldl (\<lambda>p s. path_join p (components s)) home
                            [''.local'', ''state'', ''takogami'', ''sessions''])))))"

datatype state_home_error = StateHomeSymlink | StateHomeNotDirectory | StateHomeIo io_error

definition validate_state_home :: "sfsys \<Rightarrow> path \<Rightarrow> (state_home_error, unit) result" where
  "validate_state_home fs p =
     (case symlink_metadata fs p of
        Inr k \<Rightarrow>
          (if k = Symlink then Inl StateHomeSymlink
           else if k \<noteq> Directory then Inl StateHomeNotDirectory
           else Inr ())
      | Inl NotFound \<Rightarrow> Inr ()
      | Inl e \<Rightarrow> Inl (StateHomeIo e))"

section \<open>Properties\<close>

lemma require_regular_iff: "require_regular k = Inr u \<longleftrightarrow> k = RegularFile"
  by (cases k) (simp_all add: require_regular_def)

lemma open_regular_nofollow_ok:
  assumes "open_regular_nofollow fs p display = Inr len"
  shows "symlink_metadata fs p = Inr RegularFile" and "open_nofollow fs p = Inr (Inr (RegularFile, len))"
  using assms
  by (auto simp: open_regular_nofollow_def open_regular_nofollow_inner_def rbind_eq_Inr_iff map_err_eq_Inr_iff
      require_regular_iff split: sum.splits io_error.splits)

text \<open>
  A bounded read returns the whole file or fails. It succeeds only on a path that is a regular file,
  not a symbolic link, both before and after it was opened; what it returns is the complete content,
  never a truncation, and is no longer than the limit.
\<close>

theorem read_bounded_nofollow_complete:
  assumes "read_bounded_nofollow fs p display limit = Inr data" and "limit < 2 ^ 64 - 1"
  shows "symlink_metadata fs p = Inr RegularFile \<and> read_bytes fs p = Inr data \<and> length data \<le> limit"
proof -
  obtain len whole where o: "open_regular_nofollow fs p display = Inr len"
    and r: "read_bytes fs p = Inr whole" and data: "data = take (min (2 ^ 64 - 1) (limit + 1)) whole"
      "\<not> length data > limit"
    using assms(1) unfolding read_bounded_nofollow_def Let_def
    by (auto simp: rbind_eq_Inr_iff map_err_eq_Inr_iff split: if_splits)
  have "min (2 ^ 64 - 1) (limit + 1) = limit + 1" using assms(2) by simp
  then have "length whole \<le> limit" "data = whole" using data by auto
  then show ?thesis using open_regular_nofollow_ok(1) [OF o] r by simp
qed

definition one_file_fs :: "path \<Rightarrow> string \<Rightarrow> sfsys" where
  "one_file_fs f text =
     \<lparr>symlink_metadata = (\<lambda>p. if p = f then Inr RegularFile else Inl NotFound),
      metadata = (\<lambda>p. if p = f then Inr RegularFile else Inl NotFound),
      canonicalize = (\<lambda>p. if p = f then Inr p else Inl NotFound),
      read_bytes = (\<lambda>p. if p = f then Inr text else Inl NotFound),
      read_dir = (\<lambda>p. Inl NotFound), mode_bits = (\<lambda>p. 0x1A4),
      open_nofollow = (\<lambda>p. if p = f then Inr (Inr (RegularFile, length text)) else Inl NotFound)\<rparr>"

theorem read_bounded_nofollow_complete_witness:
  "\<exists>data. read_bounded_nofollow (one_file_fs (components ''/f'') ''abc'') (components ''/f'') ''f'' 3 = Inr data \<and>
     read_bytes (one_file_fs (components ''/f'') ''abc'') (components ''/f'') = Inr data \<and> length data \<le> 3"
proof -
  have "read_bounded_nofollow (one_file_fs (components ''/f'') ''abc'') (components ''/f'') ''f'' 3 = Inr ''abc''"
    by (simp add: read_bounded_nofollow_def open_regular_nofollow_def open_regular_nofollow_inner_def
        one_file_fs_def require_regular_def Let_def)
  then show ?thesis using read_bounded_nofollow_complete [of _ _ _ 3] by fastforce
qed

text \<open>A fingerprint taken without following links is the digest of the content of a regular file.\<close>

lemma fingerprint_nofollow_ok:
  assumes "fingerprint_regular_file_nofollow env fs p display = Inr fp"
  shows "symlink_metadata fs p = Inr RegularFile \<and>
    (\<exists>data. read_bytes fs p = Inr data \<and>
       fp = \<lparr>fp_path = display, fp_algorithm = ''sha256'', fp_digest = rv_sha256_hex env data\<rparr>)"
  using assms open_regular_nofollow_ok(1)
  by (fastforce simp: fingerprint_regular_file_nofollow_def sha256_hex_regular_nofollow_def rbind_eq_Inr_iff
      map_err_eq_Inr_iff)

end
