(* ===== verification/Child_Environment.thy ===== *)
theory Child_Environment
  imports Secure_File
begin

text \<open>
  The environment of a child process (\<open>execution/environment.rs\<close>): controller-fixed values, inherited
  keys by exact name, no key whose name looks like a secret, and a search path of real directories. The
  process environment is the argument \<open>getenv\<close>.
\<close>

section \<open>Keys and values\<close>

definition SECRET_INDICATORS :: "string list" where
  "SECRET_INDICATORS =
     [''SECRET'', ''TOKEN'', ''PASSWORD'', ''PASSWD'', ''CREDENTIAL'', ''PRIVATE_KEY'', ''ACCESS_KEY'', ''AUTH'']"

datatype env_error = SecretKeyName string | EnvConflict string

fun env_error_diagnostic :: "env_error \<Rightarrow> diagnostic_record" where
  "env_error_diagnostic (SecretKeyName key) =
     \<lparr>diag_code = ''execution_contract'',
      diag_message = ''refusing secret-named environment key '' @ backtick @ key @ backtick\<rparr>"
| "env_error_diagnostic (EnvConflict key) =
     \<lparr>diag_code = ''execution_contract'', diag_message = ''environment key conflict for '' @ backtick @ key @ backtick\<rparr>"

record env_snapshot =
  es_pairs :: "(string \<times> string) list"
  es_diagnostics :: "diagnostic_record list"

datatype env_var = VarPresent string | VarNotPresent | VarNotUnicode

definition ascii_upper :: "char \<Rightarrow> char" where
  "ascii_upper c = (if is_ascii_lowercase c then char_of (byte c - 32) else c)"

definition is_secret_key_name :: "string \<Rightarrow> bool" where
  "is_secret_key_name key \<longleftrightarrow> list_ex (contains (map ascii_upper key)) SECRET_INDICATORS"

fun snapshot_env :: "(string \<Rightarrow> env_var) \<Rightarrow> string list \<Rightarrow> (env_error, env_snapshot) result" where
  "snapshot_env getenv [] = Inr \<lparr>es_pairs = [], es_diagnostics = []\<rparr>"
| "snapshot_env getenv (key # keys) =
     (if is_secret_key_name key then Inl (SecretKeyName key)
      else rbind (snapshot_env getenv keys) (\<lambda>rest.
        case getenv key of
          VarPresent val \<Rightarrow> Inr (rest\<lparr>es_pairs := (key, val) # es_pairs rest\<rparr>)
        | VarNotPresent \<Rightarrow> Inr (rest\<lparr>es_diagnostics := \<lparr>diag_code = ''env_key_missing'',
            diag_message = ''declared environment key '' @ backtick @ key @ backtick @ '' is not set''\<rparr> # es_diagnostics rest\<rparr>)
        | VarNotUnicode \<Rightarrow> Inr (rest\<lparr>es_diagnostics := \<lparr>diag_code = ''env_key_invalid'',
            diag_message = ''declared environment key '' @ backtick @ key @ backtick @ '' is not valid Unicode''\<rparr> #
            es_diagnostics rest\<rparr>)))"

section \<open>The search path\<close>

definition relative_component :: "string \<Rightarrow> bool" where
  "relative_component part \<longleftrightarrow>
     contains part ''/./'' \<or> contains part ''/../'' \<or> ends_with part ''/.'' \<or> ends_with part ''/..'' \<or>
     part = ''.'' \<or> part = ''..''"

fun validate_path_parts :: "('z fsys_scheme) \<Rightarrow> string list \<Rightarrow> string list \<Rightarrow> (string, unit) result" where
  "validate_path_parts fs [] seen = Inr ()"
| "validate_path_parts fs (part # parts) seen =
     (let p = components part in
      if part = [] then Inl ''PATH must not contain empty components''
      else if \<not> is_absolute p then Inl ''PATH components must be absolute''
      else if relative_component part then Inl ''PATH must not contain relative components''
      else (case symlink_metadata fs p of
              Inl _ \<Rightarrow> Inl ''PATH component must be an existing directory''
            | Inr k \<Rightarrow>
                (if k = Symlink then Inl ''PATH must not contain symlink directory aliases''
                 else if k \<noteq> Directory then Inl ''PATH components must be directories''
                 else (case canonicalize fs p of
                         Inl _ \<Rightarrow> Inl ''PATH component must canonicalize''
                       | Inr canonical \<Rightarrow>
                           (let key = path_display canonical in
                            if key \<in> set seen then Inl ''PATH must not contain duplicate directories''
                            else validate_path_parts fs parts (key # seen))))))"

definition validate_controller_path :: "('z fsys_scheme) \<Rightarrow> string \<Rightarrow> (string, unit) result" where
  "validate_controller_path fs p =
     (if p = [] then Inl ''PATH must not be empty'' else validate_path_parts fs (split_on (CHR '':'') p) [])"

section \<open>The child environment\<close>

definition check_fixed :: "('z fsys_scheme) \<Rightarrow> string \<times> string \<Rightarrow> (env_error, unit) result" where
  "check_fixed fs kv =
     (case kv of (k, v) \<Rightarrow>
        if is_secret_key_name k \<and> k \<notin> {''PANOPLY_AGENT'', ''NO_COLOR'', ''WS_ROOT'', ''PATH''} then Inl (SecretKeyName k)
        else if k = ''PATH'' then map_err (\<lambda>msg. EnvConflict (''PATH ('' @ msg @ '')'')) (validate_controller_path fs v)
        else Inr ())"

fun check_inherited :: "string list \<Rightarrow> string list \<Rightarrow> string list \<Rightarrow> (env_error, unit) result" where
  "check_inherited fixed_keys [] seen = Inr ()"
| "check_inherited fixed_keys (key # keys) seen =
     (if key \<in> set fixed_keys then Inl (EnvConflict key)
      else if key \<in> set seen then Inl (EnvConflict key)
      else if is_secret_key_name key then Inl (SecretKeyName key)
      else check_inherited fixed_keys keys (key # seen))"

text \<open>\<open>fixed\<close> is an ordered map, so its keys cannot repeat.\<close>

definition build_child_env ::
  "('z fsys_scheme) \<Rightarrow> (string \<Rightarrow> env_var) \<Rightarrow> (string, string) btree \<Rightarrow> string list \<Rightarrow> (env_error, env_snapshot) result" where
  "build_child_env fs getenv fixed inherited_keys =
     rbind (check_all (check_fixed fs) fixed) (\<lambda>_.
     rbind (check_inherited (btree_keys fixed) inherited_keys []) (\<lambda>_.
     rbind (snapshot_env getenv inherited_keys) (\<lambda>inherited.
       Inr \<lparr>es_pairs = sort_key fst (fixed @ es_pairs inherited), es_diagnostics = es_diagnostics inherited\<rparr>)))"

section \<open>Properties\<close>

lemma snapshot_env_pairs:
  assumes "snapshot_env getenv keys = Inr s"
  shows "es_pairs s = List.map_filter (\<lambda>k. case getenv k of VarPresent v \<Rightarrow> Some (k, v) | _ \<Rightarrow> None) keys"
  using assms
proof (induction keys arbitrary: s)
  case (Cons k ks)
  then obtain rest where "snapshot_env getenv ks = Inr rest" by (auto simp: rbind_eq_Inr_iff split: if_splits)
  with Cons show ?case by (cases "getenv k") (auto split: if_splits)
qed simp

lemma check_inherited_iff:
  "check_inherited fixed_keys keys seen = Inr () \<longleftrightarrow>
     distinct keys \<and> set keys \<inter> set seen = {} \<and> set keys \<inter> set fixed_keys = {} \<and>
     (\<forall>k \<in> set keys. \<not> is_secret_key_name k)"
  by (induction fixed_keys keys seen rule: check_inherited.induct) auto

lemma map_fst_map_filter:
  "map fst (List.map_filter (\<lambda>k. case g k of VarPresent v \<Rightarrow> Some (k, v) | _ \<Rightarrow> None) keys) =
     filter (\<lambda>k. case g k of VarPresent v \<Rightarrow> True | _ \<Rightarrow> False) keys"
  by (induction keys) (auto split: env_var.splits)

text \<open>
  C27: a child sees exactly the environment the controller built. Every name occurs once, the
  controller's fixed values are all there and none is overridden, every other value is that of a
  requested key in the controller's own environment, and no inherited name looks like a secret.
\<close>

theorem build_child_env_exact:
  assumes "build_child_env fs getenv fixed inherited_keys = Inr s" and "btree_ok fixed"
  shows "distinct (map fst (es_pairs s)) \<and> sorted (map fst (es_pairs s)) \<and>
    map_of (es_pairs s) =
      (\<lambda>k. case map_of fixed k of
             Some v \<Rightarrow> Some v
           | None \<Rightarrow> (if k \<in> set inherited_keys then (case getenv k of VarPresent v \<Rightarrow> Some v | _ \<Rightarrow> None) else None)) \<and>
    (\<forall>k \<in> fst ` set (es_pairs s) - set (btree_keys fixed). \<not> is_secret_key_name k)"
proof -
  let ?pick = "\<lambda>k. case getenv k of VarPresent v \<Rightarrow> Some (k, v) | _ \<Rightarrow> None"
  obtain inh where inh: "check_inherited (btree_keys fixed) inherited_keys [] = Inr ()"
    "snapshot_env getenv inherited_keys = Inr inh" "es_pairs s = sort_key fst (fixed @ es_pairs inh)"
    using assms(1) by (auto simp: build_child_env_def rbind_eq_Inr_iff)
  note pairs = snapshot_env_pairs [OF inh(2)]
  have ci: "distinct inherited_keys" "set inherited_keys \<inter> set (btree_keys fixed) = {}"
    "\<forall>k \<in> set inherited_keys. \<not> is_secret_key_name k"
    using inh(1) by (simp_all add: check_inherited_iff)
  have keys: "map fst (es_pairs inh) = filter (\<lambda>k. case getenv k of VarPresent v \<Rightarrow> True | _ \<Rightarrow> False) inherited_keys"
    unfolding pairs by (rule map_fst_map_filter)
  have d: "distinct (map fst (fixed @ es_pairs inh))"
    using ci(1,2) btree_keys_distinct [OF assms(2)] by (auto simp: keys btree_keys_def)
  have perm: "mset (map fst (es_pairs s)) = mset (map fst (fixed @ es_pairs inh))"
    by (simp add: inh(3))
  have d': "distinct (map fst (es_pairs s))" using d perm mset_eq_imp_distinct_iff by blast
  have set: "set (es_pairs s) = set fixed \<union> set (es_pairs inh)" by (simp add: inh(3))
  have "map_of (es_pairs s) = map_of (fixed @ es_pairs inh)"
    by (rule map_of_inject_set [THEN iffD2]) (simp_all only: d d' set set_append)
  moreover have "map_of (es_pairs inh) k =
      (if k \<in> set inherited_keys then (case getenv k of VarPresent v \<Rightarrow> Some v | _ \<Rightarrow> None) else None)" for k
    unfolding pairs by (induction inherited_keys) (auto split: env_var.splits)
  ultimately have "map_of (es_pairs s) =
      (\<lambda>k. case map_of fixed k of
             Some v \<Rightarrow> Some v
           | None \<Rightarrow> (if k \<in> set inherited_keys then (case getenv k of VarPresent v \<Rightarrow> Some v | _ \<Rightarrow> None) else None))"
    by (intro ext) (simp only: map_of_append map_add_def)
  moreover have "fst ` set (es_pairs inh) \<subseteq> set inherited_keys"
    using keys by (metis filter_is_subset image_set)
  then have "\<forall>k \<in> fst ` set (es_pairs s) - set (btree_keys fixed). \<not> is_secret_key_name k"
    using ci(3) by (auto simp: set btree_keys_def)
  ultimately show ?thesis using d' by (simp add: inh(3))
qed

theorem build_child_env_exact_witness:
  "\<exists>s. build_child_env (one_file_fs (components ''/f'') ''x'') (\<lambda>k. if k = ''HOME'' then VarPresent ''/h'' else VarNotPresent)
      [(''NO_COLOR'', ''1'')] [''HOME'', ''LANG''] = Inr s \<and> distinct (map fst (es_pairs s)) \<and>
    map_of (es_pairs s) ''HOME'' = Some ''/h'' \<and> map_of (es_pairs s) ''LANG'' = None"
proof -
  let ?e = "build_child_env (one_file_fs (components ''/f'') ''x'') (\<lambda>k. if k = ''HOME'' then VarPresent ''/h'' else VarNotPresent)
      [(''NO_COLOR'', ''1'')] [''HOME'', ''LANG'']"
  have "(case ?e of Inr _ \<Rightarrow> True | Inl _ \<Rightarrow> False)" by code_simp
  then obtain s where s: "?e = Inr s" by (auto split: sum.splits)
  have "btree_ok [(''NO_COLOR'', ''1'')]" by (simp add: btree_ok_def btree_keys_def)
  from build_child_env_exact [OF s this] s show ?thesis by simp
qed

text \<open>A validated search path names existing, distinct, real directories by absolute paths.\<close>

lemma validate_path_parts_ok:
  "validate_path_parts fs parts seen = Inr () \<Longrightarrow>
     (\<forall>part \<in> set parts. is_absolute (components part) \<and> symlink_metadata fs (components part) = Inr Directory \<and>
        (\<exists>c. canonicalize fs (components part) = Inr c \<and> path_display c \<notin> set seen))"
proof (induction fs parts seen rule: validate_path_parts.induct)
  case (2 fs part parts seen)
  obtain c where c: "part \<noteq> []" "is_absolute (components part)" "\<not> relative_component part"
    "symlink_metadata fs (components part) = Inr Directory" "canonicalize fs (components part) = Inr c"
    "path_display c \<notin> set seen" "validate_path_parts fs parts (path_display c # seen) = Inr ()"
    using 2(2) by (auto simp: Let_def split: if_splits sum.splits)
  have "\<forall>part \<in> set parts. is_absolute (components part) \<and> symlink_metadata fs (components part) = Inr Directory \<and>
      (\<exists>d. canonicalize fs (components part) = Inr d \<and> path_display d \<notin> set (path_display c # seen))"
    by (rule 2(1) [OF refl _ _ _ c(4)]) (use c in simp_all)
  then show ?case using c by auto
qed simp

end
