(* ===== verification/Projection_Plan.thy ===== *)
theory Projection_Plan
  imports Child_Environment Execution_Plan
begin

unbundle bit_operations_syntax

text \<open>
  Projection operations, scopes and sealed projection plans (\<open>projection/op.rs\<close>, \<open>projection/scope.rs\<close>,
  \<open>projection/plan.rs\<close>): the closed set of bin operations, the validated cleanup scope, the helpers a
  child may find on its search path, and the plan that binds executable, directory, helpers and sources
  by digest, with the checks that are repeated before the child is spawned.
\<close>

section \<open>Scopes\<close>

datatype scope_error = ScopeInvalid

definition scope_error_code :: "scope_error \<Rightarrow> string" where
  "scope_error_code e = ''bin_scope_invalid''"

definition scope_error_message :: "scope_error \<Rightarrow> string" where
  "scope_error_message e =
     ''invalid bin cleanup --scope (require namespace/bin/<segment>+; reject absolute, traversal, namespace roots, lib/src)''"

definition is_segment_char :: "char \<Rightarrow> bool" where
  "is_segment_char c \<longleftrightarrow> is_ascii_alphanumeric c \<or> c = CHR ''.'' \<or> c = CHR ''_'' \<or> c = CHR ''-''"

definition is_segment :: "string \<Rightarrow> bool" where
  "is_segment s = (case s of [] \<Rightarrow> False | first # rest \<Rightarrow> is_ascii_alphanumeric first \<and> list_all is_segment_char rest)"

definition matches_phase1_grammar :: "string \<Rightarrow> bool" where
  "matches_phase1_grammar p =
     (let parts = split_on (CHR ''/'') p in
      if length parts < 3 \<or> parts ! 1 \<noteq> ''bin'' then False else list_all is_segment parts)"

record validated_bin_scope =
  vs_normalized :: string

fun scope_segments :: "path \<Rightarrow> (scope_error, string list) result" where
  "scope_segments [] = Inr []"
| "scope_segments (Normal s # cs) =
     (if \<not> valid_utf8 s then Inl ScopeInvalid
      else if s = [] \<or> s = ''.'' \<or> s = ''..'' then Inl ScopeInvalid
      else if \<not> is_segment s then Inl ScopeInvalid
      else rbind (scope_segments cs) (\<lambda>rest. Inr (s # rest)))"
| "scope_segments (_ # cs) = Inl ScopeInvalid"

definition parse_bin_scope :: "string \<Rightarrow> (scope_error, validated_bin_scope) result" where
  "parse_bin_scope raw =
     (if raw = [] \<or> raw = ''.'' \<or> raw = ''..'' \<or> raw = ''~'' then Inl ScopeInvalid
      else if contains raw [CHR 0x5C] \<or> list_ex is_control (chars raw) then Inl ScopeInvalid
      else if is_absolute (components raw) \<or> starts_with raw ''/'' \<or> starts_with raw ''~'' then Inl ScopeInvalid
      else rbind (scope_segments (components raw)) (\<lambda>segments.
        if length segments < 3 \<or> segments ! 1 \<noteq> ''bin'' then Inl ScopeInvalid
        else if segments ! 0 = ''lib'' \<or> segments ! 0 = ''src'' then Inl ScopeInvalid
        else (let normalized = join ''/'' segments in
              if \<not> matches_phase1_grammar normalized then Inl ScopeInvalid
              else Inr \<lparr>vs_normalized = normalized\<rparr>)))"

section \<open>Operations\<close>

datatype projection_operation =
    BinReport | BinCleanupReportOnly | BinCleanupDryRun | BinCleanupArchive | BinCleanupDeleteApproved

fun request_command_name :: "projection_operation \<Rightarrow> string" where
  "request_command_name BinReport = ''bin report''"
| "request_command_name BinCleanupReportOnly = ''bin cleanup --mode report-only''"
| "request_command_name BinCleanupDryRun = ''bin cleanup --mode dry-run''"
| "request_command_name BinCleanupArchive = ''bin cleanup --mode archive''"
| "request_command_name BinCleanupDeleteApproved = ''bin cleanup --mode delete-approved''"

fun request_argv :: "projection_operation \<Rightarrow> string list" where
  "request_argv BinReport = [''bin'', ''report'']"
| "request_argv BinCleanupReportOnly = [''bin'', ''cleanup'', ''--mode'', ''report-only'']"
| "request_argv BinCleanupDryRun = [''bin'', ''cleanup'', ''--mode'', ''dry-run'']"
| "request_argv BinCleanupArchive = [''bin'', ''cleanup'', ''--mode'', ''archive'']"
| "request_argv BinCleanupDeleteApproved = [''bin'', ''cleanup'', ''--mode'', ''delete-approved'']"

fun cleanup_mode :: "projection_operation \<Rightarrow> string option" where
  "cleanup_mode BinReport = None"
| "cleanup_mode BinCleanupReportOnly = Some ''report-only''"
| "cleanup_mode BinCleanupDryRun = Some ''dry-run''"
| "cleanup_mode BinCleanupArchive = Some ''archive''"
| "cleanup_mode BinCleanupDeleteApproved = Some ''delete-approved''"

definition child_argv :: "projection_operation \<Rightarrow> validated_bin_scope option \<Rightarrow> string list" where
  "child_argv op scope =
     (case cleanup_mode op of
        None \<Rightarrow> [''bin-report'', ''--json'']
      | Some mode \<Rightarrow>
          [''bin-cleanup'', ''--mode'', mode] @
          (case scope of Some s \<Rightarrow> [''--scope'', vs_normalized s] | None \<Rightarrow> []) @ [''--json''])"

definition child_supported :: "projection_operation \<Rightarrow> bool" where
  "child_supported op \<longleftrightarrow> op = BinReport \<or> op = BinCleanupReportOnly"

definition mutation_deferred :: "projection_operation \<Rightarrow> bool" where
  "mutation_deferred op \<longleftrightarrow> op = BinCleanupArchive \<or> op = BinCleanupDeleteApproved"

definition mode_flag :: "projection_operation \<Rightarrow> string option" where
  "mode_flag op = map_option (\<lambda>mode. ''mode='' @ mode) (cleanup_mode op)"

section \<open>Errors of sealing\<close>

datatype projection_seal_error =
    OntarchMissing | OntarchNotFile | OntarchSymlink | OntarchNotExecutable | CwdMissing | CwdNotDir
  | FingerprintFailed string | IdentityFailed string | ToolPathFailed string

fun seal_error_code :: "projection_seal_error \<Rightarrow> string" where
  "seal_error_code OntarchMissing = ''projection_tool_unavailable''"
| "seal_error_code OntarchNotFile = ''projection_tool_unavailable''"
| "seal_error_code OntarchSymlink = ''projection_tool_unavailable''"
| "seal_error_code OntarchNotExecutable = ''projection_tool_unavailable''"
| "seal_error_code CwdMissing = ''projection_contract_changed''"
| "seal_error_code CwdNotDir = ''projection_contract_changed''"
| "seal_error_code (FingerprintFailed _) = ''projection_contract_changed''"
| "seal_error_code (IdentityFailed _) = ''projection_contract_changed''"
| "seal_error_code (ToolPathFailed _) = ''execution_contract''"

fun seal_error_message :: "projection_seal_error \<Rightarrow> string" where
  "seal_error_message OntarchMissing = ''canonical package Ontarch executable not found''"
| "seal_error_message OntarchNotFile = ''canonical Ontarch path is not a regular file''"
| "seal_error_message OntarchSymlink = ''canonical Ontarch executable must not be a symlink''"
| "seal_error_message OntarchNotExecutable = ''canonical Ontarch is not executable''"
| "seal_error_message CwdMissing = ''sealed workspace cwd missing''"
| "seal_error_message CwdNotDir = ''sealed workspace cwd is not a directory''"
| "seal_error_message (FingerprintFailed m) = m"
| "seal_error_message (IdentityFailed m) = m"
| "seal_error_message (ToolPathFailed m) = m"

section \<open>Helpers\<close>

definition CONTROLLER_SEARCH_DIRS :: "string list" where
  "CONTROLLER_SEARCH_DIRS =
     [''/usr/bin'', ''/bin'', ''/usr/sbin'', ''/sbin'', ''/opt/homebrew/bin'', ''/usr/local/bin'']"

definition REPORT_HELPERS :: "string list" where
  "REPORT_HELPERS =
     [''bash'', ''jq'', ''dirname'', ''basename'', ''readlink'', ''date'', ''du'', ''awk'', ''wc'', ''tr'', ''stat'',
      ''mkdir'', ''mktemp'', ''rm'', ''cat'', ''cp'', ''mv'']"

definition CLEANUP_EXTRA_HELPERS :: "string list" where
  "CLEANUP_EXTRA_HELPERS = [''grep'', ''sed'', ''head'']"

record helper_identity =
  hi_name :: string
  hi_lookup_path :: path
  hi_canonical_path :: path
  hi_algorithm :: string
  hi_digest :: string

datatype helper_candidate = NoShellMatch | Trusted helper_identity | Untrusted string

definition is_world_writable :: "sfsys \<Rightarrow> path \<Rightarrow> bool" where
  "is_world_writable fs p \<longleftrightarrow> mode_bits fs p AND 0x2 \<noteq> 0"

definition has_execute_bit :: "sfsys \<Rightarrow> path \<Rightarrow> bool" where
  "has_execute_bit fs p \<longleftrightarrow> mode_bits fs p AND 0x49 \<noteq> 0"

text \<open>Trust of the directory that holds a candidate: \<open>None\<close> when it passes.\<close>

definition parent_distrust :: "sfsys \<Rightarrow> path \<Rightarrow> string option" where
  "parent_distrust fs candidate =
     (case path_pop candidate of
        None \<Rightarrow> None
      | Some parent \<Rightarrow>
          (case symlink_metadata fs parent of
             Inl _ \<Rightarrow> Some ''parent missing''
           | Inr k \<Rightarrow>
               (if k = Symlink then Some ''parent must not be a symlink directory''
                else if is_world_writable fs parent then Some ''parent directory is world-writable''
                else None)))"

definition trust_target :: "registry_env \<Rightarrow> sfsys \<Rightarrow> string \<Rightarrow> path \<Rightarrow> helper_candidate" where
  "trust_target env fs name candidate =
     (case canonicalize fs candidate of
        Inl _ \<Rightarrow> Untrusted ''does not resolve''
      | Inr canonical \<Rightarrow>
          (case symlink_metadata fs canonical of
             Inl _ \<Rightarrow> Untrusted ''target missing''
           | Inr k \<Rightarrow>
               (if k = Symlink then Untrusted ''resolved to a symlink''
                else if k \<noteq> RegularFile then Untrusted ''is not a regular file''
                else if \<not> has_execute_bit fs canonical then Untrusted ''is not executable''
                else if is_world_writable fs canonical then Untrusted ''target is world-writable''
                else (case sha256_hex_regular_nofollow env fs canonical name of
                        Inl e \<Rightarrow> Untrusted (''fingerprint failed: '' @ public_message e)
                      | Inr digest \<Rightarrow>
                          Trusted \<lparr>hi_name = name, hi_lookup_path = candidate, hi_canonical_path = canonical,
                            hi_algorithm = ''sha256'', hi_digest = digest\<rparr>))))"

definition classify_helper_candidate :: "registry_env \<Rightarrow> sfsys \<Rightarrow> string \<Rightarrow> path \<Rightarrow> helper_candidate" where
  "classify_helper_candidate env fs name candidate =
     (case metadata fs candidate of
        Inl NotFound \<Rightarrow> NoShellMatch
      | Inl _ \<Rightarrow> Untrusted ''candidate eligibility could not be determined safely''
      | Inr k \<Rightarrow>
          (if k \<noteq> RegularFile then NoShellMatch
           else if \<not> has_execute_bit fs candidate then NoShellMatch
           else if \<not> is_absolute candidate then Untrusted ''lookup path must be absolute''
           else (case parent_distrust fs candidate of
                   Some why \<Rightarrow> Untrusted why
                 | None \<Rightarrow> trust_target env fs name candidate)))"

text \<open>
  The search loop of \<open>resolve_named_helper\<close> and \<open>resolve_helper_first_match\<close>, which differ in the error
  they give when no directory has the helper.
\<close>

fun search_helper ::
  "registry_env \<Rightarrow> sfsys \<Rightarrow> projection_seal_error \<Rightarrow> string \<Rightarrow> path list \<Rightarrow> (projection_seal_error, helper_identity) result" where
  "search_helper env fs absent name [] = Inl absent"
| "search_helper env fs absent name (dir # dirs) =
     (case classify_helper_candidate env fs name (path_join dir (components name)) of
        NoShellMatch \<Rightarrow> search_helper env fs absent name dirs
      | Trusted h \<Rightarrow> Inr h
      | Untrusted why \<Rightarrow>
          Inl (IdentityFailed (''helper '' @ name @ '' first PATH match failed controller trust: '' @ why)))"

definition resolve_named_helper ::
  "registry_env \<Rightarrow> sfsys \<Rightarrow> string \<Rightarrow> path list \<Rightarrow> (projection_seal_error, helper_identity) result" where
  "resolve_named_helper env fs name search_dirs =
     search_helper env fs (ToolPathFailed (''required helper '' @ name @ '' not found'')) name search_dirs"

definition resolve_helper_first_match ::
  "registry_env \<Rightarrow> sfsys \<Rightarrow> string \<Rightarrow> path list \<Rightarrow> (projection_seal_error, helper_identity) result" where
  "resolve_helper_first_match env fs name path_dirs =
     search_helper env fs (IdentityFailed (''helper '' @ name @ '' has no executable first-match under sealed PATH''))
       name path_dirs"

fun controller_dirs_loop :: "sfsys \<Rightarrow> string list \<Rightarrow> path list \<Rightarrow> (projection_seal_error, path list) result" where
  "controller_dirs_loop fs [] dirs = Inr dirs"
| "controller_dirs_loop fs (cand # cands) dirs =
     (let p = components cand in
      if \<not> is_absolute p \<or> cand = [] then
        Inl (ToolPathFailed ''helper search directory must be absolute and non-empty'')
      else if relative_component cand then
        Inl (ToolPathFailed ''helper search directory must not contain relative components'')
      else if symlink_metadata fs p \<noteq> Inr Directory \<or> is_world_writable fs p then controller_dirs_loop fs cands dirs
      else (case canonicalize fs p of
              Inl _ \<Rightarrow> controller_dirs_loop fs cands dirs
            | Inr canonical \<Rightarrow>
                (if canonical \<in> set dirs then controller_dirs_loop fs cands dirs
                 else controller_dirs_loop fs cands (dirs @ [canonical]))))"

definition resolve_controller_search_dirs :: "sfsys \<Rightarrow> string list \<Rightarrow> (projection_seal_error, path list) result" where
  "resolve_controller_search_dirs fs candidates =
     rbind (controller_dirs_loop fs candidates []) (\<lambda>dirs.
       if dirs = [] then Inl (ToolPathFailed ''no approved absolute tool directories available'') else Inr dirs)"

definition required_helper_names :: "projection_operation \<Rightarrow> string list" where
  "required_helper_names op =
     REPORT_HELPERS @ (if op = BinReport then [] else CLEANUP_EXTRA_HELPERS)"

text \<open>Parents of the helpers in the order of the search directories, then any other.\<close>

definition build_child_path_dirs :: "path list \<Rightarrow> helper_identity list \<Rightarrow> (projection_seal_error, path list) result" where
  "build_child_path_dirs search_dirs helpers =
     rbind (traverse (\<lambda>h. case path_pop (hi_lookup_path h) of
              Some parent \<Rightarrow> Inr parent
            | None \<Rightarrow> Inl (ToolPathFailed ''helper missing parent directory'')) helpers) (\<lambda>parents.
       let selected_parents = rev (remdups (rev parents));
           path_dirs = rev (remdups (rev (filter (\<lambda>d. d \<in> set selected_parents) search_dirs)))
       in Inr (path_dirs @ filter (\<lambda>p. p \<notin> set path_dirs) selected_parents))"

definition prove_helpers_are_path_first_match ::
  "registry_env \<Rightarrow> sfsys \<Rightarrow> helper_identity list \<Rightarrow> path list \<Rightarrow> (projection_seal_error, unit) result" where
  "prove_helpers_are_path_first_match env fs helpers path_dirs =
     check_all (\<lambda>h.
       rbind (resolve_helper_first_match env fs (hi_name h) path_dirs) (\<lambda>matched.
         if hi_lookup_path matched \<noteq> hi_lookup_path h then
           Inl (IdentityFailed (''helper '' @ hi_name h @ '' PATH first-match diverged from sealed lookup''))
         else Inr ())) helpers"

definition find_helper ::
  "registry_env \<Rightarrow> sfsys \<Rightarrow> path list \<Rightarrow> (projection_seal_error, helper_identity) result" where
  "find_helper env fs search_dirs =
     (case resolve_named_helper env fs ''fd'' search_dirs of
        Inr h \<Rightarrow> Inr h
      | Inl (ToolPathFailed _) \<Rightarrow>
          map_err (\<lambda>_. ToolPathFailed ''required helper fd or find not found'')
            (resolve_named_helper env fs ''find'' search_dirs)
      | Inl e \<Rightarrow> Inl e)"

definition resolve_helper_authority ::
  "registry_env \<Rightarrow> sfsys \<Rightarrow> projection_operation \<Rightarrow> path list \<Rightarrow>
   (projection_seal_error, helper_identity list \<times> string) result" where
  "resolve_helper_authority env fs op search_candidates =
     rbind (resolve_controller_search_dirs fs (filter valid_utf8 (map to_str search_candidates))) (\<lambda>search_dirs.
     rbind (traverse (\<lambda>name. resolve_named_helper env fs name search_dirs) (required_helper_names op)) (\<lambda>helpers.
     rbind (find_helper env fs search_dirs) (\<lambda>lookup.
     rbind (build_child_path_dirs search_dirs (helpers @ [lookup])) (\<lambda>path_dirs.
     rbind (prove_helpers_are_path_first_match env fs (helpers @ [lookup]) path_dirs) (\<lambda>_.
       Inr (sort_key hi_name (helpers @ [lookup]), join '':'' (map path_display path_dirs)))))))"

definition parse_sealed_path_dirs :: "string \<Rightarrow> (projection_seal_error, path list) result" where
  "parse_sealed_path_dirs path =
     traverse (\<lambda>part.
       if part = [] then Inl (ToolPathFailed ''sealed PATH contains empty component'')
       else if \<not> is_absolute (components part) then Inl (ToolPathFailed ''sealed PATH component must be absolute'')
       else Inr (components part)) (split_on (CHR '':'') path)"

definition seal_helper_at_path ::
  "registry_env \<Rightarrow> sfsys \<Rightarrow> string \<Rightarrow> path \<Rightarrow> (projection_seal_error, helper_identity) result" where
  "seal_helper_at_path env fs name p =
     (let fail = (\<lambda>why. Inl (IdentityFailed (''helper '' @ name @ why))) in
      case symlink_metadata fs p of
        Inl _ \<Rightarrow> fail '' missing before spawn''
      | Inr k \<Rightarrow>
          (if k = Symlink then fail '' must not be a symlink''
           else if k \<noteq> RegularFile then fail '' is not a regular file''
           else if \<not> has_execute_bit fs p then fail '' is not executable''
           else (case canonicalize fs p of
                   Inl _ \<Rightarrow> fail '' canonical identity drifted''
                 | Inr canonical \<Rightarrow>
                     (if canonical \<noteq> p then fail '' canonical identity drifted''
                      else (case sha256_hex_regular_nofollow env fs canonical name of
                              Inl e \<Rightarrow> fail ('' fingerprint failed: '' @ public_message e)
                            | Inr digest \<Rightarrow>
                                Inr \<lparr>hi_name = name, hi_lookup_path = p, hi_canonical_path = canonical,
                                  hi_algorithm = ''sha256'', hi_digest = digest\<rparr>)))))"

definition controller_search_dirs :: "path list" where
  "controller_search_dirs = map components CONTROLLER_SEARCH_DIRS"

definition build_controller_tool_path :: "registry_env \<Rightarrow> sfsys \<Rightarrow> (projection_seal_error, string) result" where
  "build_controller_tool_path env fs =
     rbind (resolve_helper_authority env fs BinReport controller_search_dirs) (\<lambda>(_, path). Inr path)"

section \<open>The executable, the directory and the sources\<close>

definition resolve_and_seal_ontarch :: "registry_env \<Rightarrow> sfsys \<Rightarrow> path \<Rightarrow> (projection_seal_error, path) result" where
  "resolve_and_seal_ontarch env fs ontarch_pkg =
     (let p = path_join ontarch_pkg (components ''bin/ontarch'') in
      if \<not> path_exists fs p then Inl OntarchMissing
      else (case symlink_metadata fs p of
              Inl _ \<Rightarrow> Inl OntarchMissing
            | Inr k \<Rightarrow>
                (if k = Symlink then Inl OntarchSymlink
                 else if k \<noteq> RegularFile then Inl OntarchNotFile
                 else if \<not> has_execute_bit fs p then Inl OntarchNotExecutable
                 else map_err (\<lambda>e. IdentityFailed (''canonicalize ontarch: '' @ rv_io_text env e)) (canonicalize fs p))))"

definition seal_cwd :: "registry_env \<Rightarrow> sfsys \<Rightarrow> path \<Rightarrow> (projection_seal_error, path) result" where
  "seal_cwd env fs workspace_root =
     (if \<not> path_exists fs workspace_root then Inl CwdMissing
      else (case metadata fs workspace_root of
              Inl _ \<Rightarrow> Inl CwdMissing
            | Inr k \<Rightarrow>
                (if k \<noteq> Directory then Inl CwdNotDir
                 else map_err (\<lambda>e. IdentityFailed (''canonicalize cwd: '' @ rv_io_text env e))
                   (canonicalize fs workspace_root))))"

definition preflight_path_identity ::
  "registry_env \<Rightarrow> sfsys \<Rightarrow> path \<Rightarrow> bool \<Rightarrow> (projection_seal_error, unit) result" where
  "preflight_path_identity env fs p must_be_file =
     (case symlink_metadata fs p of
        Inl _ \<Rightarrow> Inl (IdentityFailed ''sealed path missing before spawn'')
      | Inr k \<Rightarrow>
          rbind (if must_be_file then
                   (if k = Symlink then Inl OntarchSymlink
                    else if k \<noteq> RegularFile then Inl OntarchNotFile
                    else if \<not> has_execute_bit fs p then Inl OntarchNotExecutable
                    else Inr ())
                 else if k \<noteq> Directory then Inl CwdNotDir else Inr ()) (\<lambda>_.
          rbind (map_err (\<lambda>e. IdentityFailed (''identity drift canonicalize: '' @ rv_io_text env e)) (canonicalize fs p)) (\<lambda>canonical.
            if canonical \<noteq> p then Inl (IdentityFailed ''sealed path canonical identity drifted'') else Inr ())))"

definition required_source_rels :: "projection_operation \<Rightarrow> string list" where
  "required_source_rels op =
     (if op = BinReport then
        [''bin/ontarch'', ''bin/ontarch-bin-report'', ''lib/common.sh'', ''lib/registry.sh'',
         ''policies/takogami.agent.policy.toml'', ''policies/agent-bin.policy.toml'',
         ''schemas/bin-inventory.schema.json'']
      else
        [''bin/ontarch'', ''bin/ontarch-bin-report'', ''bin/ontarch-bin-cleanup'', ''lib/common.sh'', ''lib/registry.sh'',
         ''policies/takogami.agent.policy.toml'', ''policies/agent-bin.policy.toml'',
         ''schemas/bin-inventory.schema.json'', ''schemas/bin-cleanup-plan.schema.json''])"

definition fingerprint_projection_sources ::
  "registry_env \<Rightarrow> sfsys \<Rightarrow> projection_operation \<Rightarrow> path \<Rightarrow>
   (projection_seal_error, source_fingerprint list \<times> path list) result" where
  "fingerprint_projection_sources env fs op ontarch_pkg =
     rbind (traverse (\<lambda>rel.
       let abs_path = path_join ontarch_pkg (components rel); display = ''packages/ontarch/'' @ rel in
       rbind (map_err (\<lambda>e. FingerprintFailed (''required source '' @ display @ '': '' @ snd e))
                (fingerprint_regular_file_nofollow env fs abs_path display)) (\<lambda>fp. Inr (fp, abs_path)))
       (required_source_rels op)) (\<lambda>sources. Inr (map fst sources, map snd sources))"

section \<open>The digest\<close>

text \<open>The serialised form of a helper: its paths are hexadecimal (\<open>serialize_path_hex\<close>).\<close>

record helper_payload =
  hp_name :: string
  hp_lookup_path :: string
  hp_canonical_path :: string
  hp_algorithm :: string
  hp_digest :: string

definition serialize_helper :: "helper_identity \<Rightarrow> helper_payload" where
  "serialize_helper h =
     \<lparr>hp_name = hi_name h, hp_lookup_path = path_identity (hi_lookup_path h),
      hp_canonical_path = path_identity (hi_canonical_path h), hp_algorithm = hi_algorithm h, hp_digest = hi_digest h\<rparr>"

record projection_payload =
  pd_version :: string
  pd_operation :: string
  pd_canonical_executable :: string
  pd_canonical_cwd :: string
  pd_argv :: "string list"
  pd_fixed_env :: "(string, string) btree"
  pd_inherited_env_keys :: "string list"
  pd_source_fingerprints :: "source_fingerprint list"
  pd_helper_identities :: "helper_payload list"
  pd_safe_request :: request_record
  pd_scope :: "string option"
  pd_session_id :: string
  pd_profile_id :: string
  pd_policy_ids :: "string list"

definition projection_payload_version :: string where
  "projection_payload_version = ''s7-projection-v1''"

text \<open>The JSON serialiser of the payload is the parameter \<open>to_json\<close>.\<close>

definition compute_projection_digest ::
  "registry_env \<Rightarrow> (projection_payload \<Rightarrow> string) \<Rightarrow> projection_operation \<Rightarrow> path \<Rightarrow> path \<Rightarrow> string list \<Rightarrow>
   (string, string) btree \<Rightarrow> string list \<Rightarrow> source_fingerprint list \<Rightarrow> helper_identity list \<Rightarrow> request_record \<Rightarrow>
   string option \<Rightarrow> string \<Rightarrow> string \<Rightarrow> string list \<Rightarrow> string" where
  "compute_projection_digest env to_json op executable cwd argv fixed_env inherited sources helpers request scope
     session_id profile_id policy_ids =
     ''sha256:'' @ rv_sha256_hex env (to_json
       \<lparr>pd_version = projection_payload_version, pd_operation = request_command_name op,
        pd_canonical_executable = path_identity executable, pd_canonical_cwd = path_identity cwd,
        pd_argv = argv, pd_fixed_env = fixed_env, pd_inherited_env_keys = inherited,
        pd_source_fingerprints = sources, pd_helper_identities = map serialize_helper helpers,
        pd_safe_request = request, pd_scope = scope, pd_session_id = session_id, pd_profile_id = profile_id,
        pd_policy_ids = policy_ids\<rparr>)"

section \<open>Sealing and preflight\<close>

record sealed_projection_plan =
  pp_operation :: projection_operation
  pp_executable_path :: path
  pp_cwd_path :: path
  pp_argv :: "string list"
  pp_fixed_env :: "(string, string) btree"
  pp_inherited_env_keys :: "string list"
  pp_source_fingerprints :: "source_fingerprint list"
  pp_source_abs_paths :: "path list"
  pp_helper_identities :: "helper_identity list"
  pp_safe_request :: request_record
  pp_safe_scope :: "validated_bin_scope option"
  pp_session_id :: string
  pp_profile_id :: string
  pp_policy_ids :: "string list"
  pp_plan_digest :: string

definition projection_fixed_env :: "path \<Rightarrow> string \<Rightarrow> (string, string) btree" where
  "projection_fixed_env workspace_root path =
     btree_insert ''PATH'' path
       (btree_insert ''WS_ROOT'' (path_display workspace_root)
         (btree_insert ''NO_COLOR'' ''1'' (btree_insert ''PANOPLY_AGENT'' ''1'' [])))"

definition projection_request :: "projection_operation \<Rightarrow> validated_bin_scope option \<Rightarrow> request_record" where
  "projection_request op scope =
     \<lparr>rq_command = request_command_name op, rq_unit_id = None, rq_verb = None,
      rq_flags = (case mode_flag op of Some mode \<Rightarrow> [mode] | None \<Rightarrow> []) @
        (if scope \<noteq> None then [''scope_provided''] else [])\<rparr>"

definition seal_with_search_dirs ::
  "registry_env \<Rightarrow> (projection_payload \<Rightarrow> string) \<Rightarrow> sfsys \<Rightarrow> projection_operation \<Rightarrow> path \<Rightarrow> path \<Rightarrow>
   validated_bin_scope option \<Rightarrow> string \<Rightarrow> string \<Rightarrow> string list \<Rightarrow> path list \<Rightarrow>
   (projection_seal_error, sealed_projection_plan) result" where
  "seal_with_search_dirs env to_json fs op registry_root workspace_root scope session_id profile_id policy_ids search_dirs =
     rbind (case path_pop registry_root of Some p \<Rightarrow> Inr p | None \<Rightarrow> Inl OntarchMissing) (\<lambda>ontarch_pkg.
     rbind (resolve_and_seal_ontarch env fs ontarch_pkg) (\<lambda>executable.
     rbind (seal_cwd env fs workspace_root) (\<lambda>cwd.
     rbind (resolve_helper_authority env fs op search_dirs) (\<lambda>(helpers, path).
     rbind (map_err ToolPathFailed (validate_controller_path fs path)) (\<lambda>_.
     rbind (fingerprint_projection_sources env fs op ontarch_pkg) (\<lambda>(sources, abs_paths).
       let argv = child_argv op scope;
           fixed_env = projection_fixed_env workspace_root path;
           request = projection_request op scope;
           policy_ids = sort_dedup policy_ids
       in Inr \<lparr>pp_operation = op, pp_executable_path = executable, pp_cwd_path = cwd, pp_argv = argv,
            pp_fixed_env = fixed_env, pp_inherited_env_keys = [], pp_source_fingerprints = sources,
            pp_source_abs_paths = abs_paths, pp_helper_identities = helpers, pp_safe_request = request,
            pp_safe_scope = scope, pp_session_id = session_id, pp_profile_id = profile_id,
            pp_policy_ids = policy_ids,
            pp_plan_digest = compute_projection_digest env to_json op executable cwd argv fixed_env [] sources helpers
              request (map_option vs_normalized scope) session_id profile_id policy_ids\<rparr>))))))"

definition seal_projection ::
  "registry_env \<Rightarrow> (projection_payload \<Rightarrow> string) \<Rightarrow> sfsys \<Rightarrow> projection_operation \<Rightarrow> path \<Rightarrow> path \<Rightarrow>
   validated_bin_scope option \<Rightarrow> string \<Rightarrow> string \<Rightarrow> string list \<Rightarrow> (projection_seal_error, sealed_projection_plan) result" where
  "seal_projection env to_json fs op registry_root workspace_root scope session_id profile_id policy_ids =
     seal_with_search_dirs env to_json fs op registry_root workspace_root scope session_id profile_id policy_ids
       controller_search_dirs"

definition preflight_identities :: "registry_env \<Rightarrow> sfsys \<Rightarrow> sealed_projection_plan \<Rightarrow> (projection_seal_error, unit) result" where
  "preflight_identities env fs plan =
     rbind (preflight_path_identity env fs (pp_executable_path plan) True) (\<lambda>_.
       preflight_path_identity env fs (pp_cwd_path plan) False)"

definition preflight_helper :: "registry_env \<Rightarrow> sfsys \<Rightarrow> helper_identity \<Rightarrow> (projection_seal_error, unit) result" where
  "preflight_helper env fs h =
     rbind (map_err (\<lambda>_. IdentityFailed (''helper '' @ hi_name h @ '' lookup missing before spawn''))
              (canonicalize fs (hi_lookup_path h))) (\<lambda>resolved.
       if resolved \<noteq> hi_canonical_path h then
         Inl (IdentityFailed (''helper '' @ hi_name h @ '' lookup identity drifted''))
       else rbind (seal_helper_at_path env fs (hi_name h) (hi_canonical_path h)) (\<lambda>fresh.
         if hi_digest fresh \<noteq> hi_digest h \<or> hi_algorithm fresh \<noteq> hi_algorithm h \<or>
            hi_canonical_path fresh \<noteq> hi_canonical_path h then
           Inl (IdentityFailed (''helper identity drifted: '' @ hi_name h))
         else Inr ()))"

definition preflight_helpers :: "registry_env \<Rightarrow> sfsys \<Rightarrow> sealed_projection_plan \<Rightarrow> (projection_seal_error, unit) result" where
  "preflight_helpers env fs plan =
     rbind (case map_of (pp_fixed_env plan) ''PATH'' of
              Some path \<Rightarrow> Inr path
            | None \<Rightarrow> Inl (ToolPathFailed ''sealed PATH missing'')) (\<lambda>path.
     rbind (map_err ToolPathFailed (validate_controller_path fs path)) (\<lambda>_.
     rbind (parse_sealed_path_dirs path) (\<lambda>path_dirs.
     rbind (prove_helpers_are_path_first_match env fs (pp_helper_identities plan) path_dirs) (\<lambda>_.
       check_all (preflight_helper env fs) (pp_helper_identities plan)))))"

definition preflight_source ::
  "registry_env \<Rightarrow> sfsys \<Rightarrow> source_fingerprint \<times> path \<Rightarrow> (projection_seal_error, unit) result" where
  "preflight_source env fs src =
     (case src of (fp, abs_path) \<Rightarrow>
        rbind (map_err (\<lambda>e. FingerprintFailed (''source preflight '' @ fp_path fp @ '': '' @ snd e))
                 (fingerprint_regular_file_nofollow env fs abs_path (fp_path fp))) (\<lambda>fresh.
          if fp_digest fresh \<noteq> fp_digest fp \<or> fp_algorithm fresh \<noteq> fp_algorithm fp then
            Inl (FingerprintFailed (''source digest drifted: '' @ fp_path fp))
          else Inr ()))"

definition preflight_sources :: "registry_env \<Rightarrow> sfsys \<Rightarrow> sealed_projection_plan \<Rightarrow> (projection_seal_error, unit) result" where
  "preflight_sources env fs plan =
     (if length (pp_source_fingerprints plan) \<noteq> length (pp_source_abs_paths plan) then
        Inl (FingerprintFailed ''source fingerprint set length mismatch'')
      else check_all (preflight_source env fs) (zip (pp_source_fingerprints plan) (pp_source_abs_paths plan)))"

section \<open>Properties: scopes\<close>

lemma scope_segments_ok:
  "scope_segments p = Inr segs \<Longrightarrow> p = map Normal segs \<and> (\<forall>s \<in> set segs. is_segment s)"
proof (induction p arbitrary: segs rule: scope_segments.induct)
  case (2 s cs)
  then show ?case by (auto simp: rbind_eq_Inr_iff split: if_splits)
qed auto

lemma segment_no_slash: "is_segment s \<Longrightarrow> CHR ''/'' \<notin> set s \<and> s \<noteq> [] \<and> s \<noteq> ''.'' \<and> s \<noteq> ''..''"
  by (auto simp: is_segment_def is_segment_char_def ascii_class_defs list_all_iff split: list.splits)

lemma components_of_segments:
  assumes "segs \<noteq> []" and "\<forall>s \<in> set segs. is_segment s"
  shows "components (join ''/'' segs) = map Normal segs"
proof -
  have split: "split_on (CHR ''/'') (join ''/'' segs) = segs"
    by (rule split_on_join) (use assms segment_no_slash in auto)
  have "\<not> starts_with (join ''/'' segs) ''/''"
  proof
    assume "starts_with (join ''/'' segs) ''/''"
    then obtain r where "join ''/'' segs = CHR ''/'' # r" by (auto simp: starts_with_def prefix_def)
    then have "[] \<in> set segs" using split by auto
    then show False using assms(2) segment_no_slash by blast
  qed
  moreover have "filter (\<lambda>x. x \<noteq> []) segs = segs" "filter (\<lambda>x. x \<noteq> ''.'') segs = segs"
    "map segment segs = map Normal segs" "hd segs \<noteq> ''.''"
    using assms segment_no_slash by (auto simp: segment_def intro!: filter_True)
  ultimately show ?thesis using assms(1) split
    by (cases segs) (simp_all only: components_def split Let_def if_False list.simps list.sel)
qed

lemma parse_bin_scope_ok:
  assumes "parse_bin_scope raw = Inr v"
  shows "\<exists>segs. vs_normalized v = join ''/'' segs \<and> components raw = map Normal segs \<and> 3 \<le> length segs \<and>
    segs ! 1 = ''bin'' \<and> segs ! 0 \<notin> {''lib'', ''src''} \<and> (\<forall>s \<in> set segs. is_segment s)"
  using assms scope_segments_ok unfolding parse_bin_scope_def Let_def
  by (fastforce simp: rbind_eq_Inr_iff split: if_splits)

lemma join_chars: "c \<in> set (join sep xs) \<Longrightarrow> c \<in> set sep \<or> (\<exists>x \<in> set xs. c \<in> set x)"
  by (induction sep xs rule: join.induct) auto

lemma segment_chars: "is_segment s \<Longrightarrow> c \<in> set s \<Longrightarrow> is_segment_char c"
  by (auto simp: is_segment_def is_segment_char_def list_all_iff split: list.splits)

lemma scope_segments_segments: "\<forall>s \<in> set segs. is_segment s \<and> valid_utf8 s \<Longrightarrow> scope_segments (map Normal segs) = Inr segs"
  using segment_no_slash by (induction segs) auto

lemma valid_utf8_ascii: "is_ascii_string s \<Longrightarrow> valid_utf8 s"
  by (induction s) (auto simp: is_ascii_string_def)

lemma segment_char_class:
  "is_segment_char c \<Longrightarrow> byte c < 128 \<and> 0x20 \<le> byte c \<and> byte c \<noteq> 0x7F \<and> c \<noteq> CHR 0x5C \<and> c \<noteq> CHR ''~'' \<and> c \<noteq> CHR ''/''"
  by (auto simp: is_segment_char_def ascii_class_defs)

lemma components_body:
  "set (components s) - {RootDir, CurDir} = segment ` {x \<in> set (split_on (CHR ''/'') s). x \<noteq> [] \<and> x \<noteq> ''.''}"
proof -
  define segs where "segs = filter (\<lambda>x. x \<noteq> []) (split_on (CHR ''/'') s)"
  define body where "body = map segment (filter (\<lambda>x. x \<noteq> ''.'') segs)"
  have "components s = (if starts_with s ''/'' then RootDir # body
      else (case segs of [] \<Rightarrow> [] | x # _ \<Rightarrow> (if x = ''.'' then CurDir # body else body)))"
    by (simp only: components_def Let_def segs_def body_def)
  then have "components s \<in> {RootDir # body, CurDir # body, body}"
    by (cases segs) (simp_all add: body_def)
  moreover have "RootDir \<notin> set body" "CurDir \<notin> set body" by (auto simp: body_def segment_def)
  ultimately have "set (components s) - {RootDir, CurDir} = set body" by auto
  then show ?thesis by (auto simp: body_def segs_def)
qed

lemma normal_components:
  assumes "s \<noteq> []" "s \<noteq> ''.''" "s \<noteq> ''..''"
  shows "Normal s \<in> set (components p) \<longleftrightarrow> s \<in> set (split_on (CHR ''/'') p)"
proof -
  have "Normal s \<in> set (components p) \<longleftrightarrow> Normal s \<in> set (components p) - {RootDir, CurDir}" by simp
  also have "\<dots> \<longleftrightarrow> s \<in> set (split_on (CHR ''/'') p)"
    unfolding components_body using assms by (auto simp: segment_def split: if_splits)
  finally show ?thesis .
qed

lemma chars_of_components:
  assumes "components raw = map Normal segs" and "c \<in> set raw"
  shows "c = CHR ''/'' \<or> c = CHR ''.'' \<or> (\<exists>s \<in> set segs. c \<in> set s)"
proof -
  have "c \<in> set (join ''/'' (split_on (CHR ''/'') raw))" using assms(2) by (simp add: join_split_on)
  then consider "c = CHR ''/''" | s where "s \<in> set (split_on (CHR ''/'') raw)" "c \<in> set s"
    using join_chars by fastforce
  then show ?thesis
  proof cases
    case 2
    show ?thesis
    proof (cases "s = ''.'' \<or> s = ''..''")
      case True
      then show ?thesis using 2(2) by auto
    next
      case False
      moreover have "s \<noteq> []" using 2(2) by auto
      ultimately have "Normal s \<in> set (components raw)" using 2(1) normal_components by blast
      then show ?thesis using assms(1) 2(2) by auto
    qed
  qed simp
qed

lemma parse_bin_scope_components:
  assumes comps: "components raw = map Normal segs" and "3 \<le> length segs" and "segs ! 1 = ''bin''"
    and "segs ! 0 \<notin> {''lib'', ''src''}" and segs: "\<forall>s \<in> set segs. is_segment s"
  shows "parse_bin_scope raw = Inr \<lparr>vs_normalized = join ''/'' segs\<rparr>"
proof -
  have ne: "segs \<noteq> []" using assms(2) by auto
  have chr: "byte c < 128 \<and> 0x20 \<le> byte c \<and> byte c \<noteq> 0x7F \<and> c \<noteq> CHR 0x5C \<and> c \<noteq> CHR ''~''" if "c \<in> set raw" for c
    using chars_of_components [OF comps that] segs segment_chars segment_char_class
    by (fastforce simp: byte_def)
  have ascii: "is_ascii_string raw" using chr by (simp add: is_ascii_string_def)
  have ctl: "\<not> list_ex is_control (chars raw)"
    unfolding chars_ascii [OF ascii] using chr by (fastforce simp: list_ex_iff is_control_def)
  have utf: "\<forall>s \<in> set segs. is_segment s \<and> valid_utf8 s"
    using segs segment_chars segment_char_class valid_utf8_ascii unfolding is_ascii_string_def by blast
  have "raw \<noteq> x" if "length (components x) < 3" for x using that comps assms(2) by auto
  then have short: "raw \<noteq> []" "raw \<noteq> ''.''" "raw \<noteq> ''..''" "raw \<noteq> ''~''"
    by (auto simp: components_def starts_with_def segment_def Let_def)
  have "RootDir \<in> set (components raw)" if "starts_with raw ''/''" using that by (simp add: components_def Let_def)
  then have "\<not> starts_with raw ''/''" using comps by auto
  moreover have "\<not> starts_with raw ''~''" using chr [of "CHR ''~''"] by (auto simp: starts_with_def prefix_def)
  moreover have "\<not> contains raw [CHR 0x5C]" using chr by (auto simp: contains_char_iff)
  moreover have "\<not> is_absolute (map Normal segs)" by (cases segs) (auto simp: is_absolute_def)
  moreover have "split_on (CHR ''/'') (join ''/'' segs) = segs"
    by (rule split_on_join) (use ne segs segment_no_slash in auto)
  then have "matches_phase1_grammar (join ''/'' segs)"
    using assms by (auto simp: matches_phase1_grammar_def list_all_iff)
  ultimately show ?thesis
    using short ctl assms(2-4) by (simp add: parse_bin_scope_def comps scope_segments_segments [OF utf] Let_def)
qed

lemma parse_bin_scope_segments:
  assumes "3 \<le> length segs" and "segs ! 1 = ''bin''" and "segs ! 0 \<notin> {''lib'', ''src''}"
    and "\<forall>s \<in> set segs. is_segment s"
  shows "parse_bin_scope (join ''/'' segs) = Inr \<lparr>vs_normalized = join ''/'' segs\<rparr>"
proof -
  have "segs \<noteq> []" using assms(1) by auto
  from parse_bin_scope_components [OF components_of_segments [OF this assms(4)] assms] show ?thesis .
qed

lemma parse_bin_scope_iff:
  "(\<exists>v. parse_bin_scope raw = Inr v) \<longleftrightarrow>
   (\<exists>segs. components raw = map Normal segs \<and> 3 \<le> length segs \<and> segs ! 1 = ''bin'' \<and>
      segs ! 0 \<notin> {''lib'', ''src''} \<and> (\<forall>s \<in> set segs. is_segment s))"
  using parse_bin_scope_ok parse_bin_scope_components by metis

section \<open>Properties: helpers\<close>

text \<open>What a trusted candidate has been checked for.\<close>

definition trusted_at :: "registry_env \<Rightarrow> sfsys \<Rightarrow> helper_identity \<Rightarrow> bool" where
  "trusted_at env fs h \<longleftrightarrow>
     is_absolute (hi_lookup_path h) \<and> metadata fs (hi_lookup_path h) = Inr RegularFile \<and>
     has_execute_bit fs (hi_lookup_path h) \<and>
     canonicalize fs (hi_lookup_path h) = Inr (hi_canonical_path h) \<and>
     symlink_metadata fs (hi_canonical_path h) = Inr RegularFile \<and> has_execute_bit fs (hi_canonical_path h) \<and>
     \<not> is_world_writable fs (hi_canonical_path h) \<and> hi_algorithm h = ''sha256'' \<and>
     sha256_hex_regular_nofollow env fs (hi_canonical_path h) (hi_name h) = Inr (hi_digest h)"

lemma trust_target_ok:
  assumes "trust_target env fs name cand = Trusted h"
  shows "hi_name h = name \<and> hi_lookup_path h = cand \<and> canonicalize fs cand = Inr (hi_canonical_path h) \<and>
    symlink_metadata fs (hi_canonical_path h) = Inr RegularFile \<and> has_execute_bit fs (hi_canonical_path h) \<and>
    \<not> is_world_writable fs (hi_canonical_path h) \<and> hi_algorithm h = ''sha256'' \<and>
    sha256_hex_regular_nofollow env fs (hi_canonical_path h) name = Inr (hi_digest h)"
  using assms unfolding trust_target_def by (auto split: sum.splits if_splits)

lemma classify_trusted:
  assumes "classify_helper_candidate env fs name cand = Trusted h"
  shows "hi_name h = name" and "hi_lookup_path h = cand" and "trusted_at env fs h"
  using assms trust_target_ok [of env fs name cand h] unfolding classify_helper_candidate_def trusted_at_def
  by (auto split: sum.splits if_splits io_error.splits option.splits)

text \<open>The first executable on the search path, as \<open>execvp\<close> finds it, and it is trusted.\<close>

definition helper_first_on_path :: "registry_env \<Rightarrow> sfsys \<Rightarrow> path list \<Rightarrow> helper_identity \<Rightarrow> bool" where
  "helper_first_on_path env fs dirs h \<longleftrightarrow>
     (\<exists>i < length dirs. hi_lookup_path h = path_join (dirs ! i) (components (hi_name h)) \<and>
        (\<forall>j < i. classify_helper_candidate env fs (hi_name h) (path_join (dirs ! j) (components (hi_name h))) = NoShellMatch))"

lemma search_helper_first:
  "search_helper env fs absent name dirs = Inr h \<Longrightarrow>
     \<exists>i < length dirs. classify_helper_candidate env fs name (path_join (dirs ! i) (components name)) = Trusted h \<and>
       (\<forall>j < i. classify_helper_candidate env fs name (path_join (dirs ! j) (components name)) = NoShellMatch)"
proof (induction dirs)
  case (Cons d ds)
  show ?case
  proof (cases "classify_helper_candidate env fs name (path_join d (components name))")
    case NoShellMatch
    then obtain i where "i < length ds" "classify_helper_candidate env fs name (path_join (ds ! i) (components name)) = Trusted h"
      "\<forall>j < i. classify_helper_candidate env fs name (path_join (ds ! j) (components name)) = NoShellMatch"
      using Cons by auto
    then show ?thesis using NoShellMatch by (intro exI [of _ "Suc i"]) (auto simp: less_Suc_eq_0_disj)
  qed (use Cons in auto)
qed simp

lemma search_helper_ok:
  assumes "search_helper env fs absent name dirs = Inr h"
  shows "hi_name h = name" and "trusted_at env fs h" and "helper_first_on_path env fs dirs h"
    and "classify_helper_candidate env fs name (hi_lookup_path h) = Trusted h"
proof -
  obtain i where i: "i < length dirs" "classify_helper_candidate env fs name (path_join (dirs ! i) (components name)) = Trusted h"
    "\<forall>j < i. classify_helper_candidate env fs name (path_join (dirs ! j) (components name)) = NoShellMatch"
    using search_helper_first [OF assms] by blast
  note c = classify_trusted [OF i(2)]
  show "hi_name h = name" "trusted_at env fs h" by (fact c)+
  show "helper_first_on_path env fs dirs h" unfolding helper_first_on_path_def using i c by auto
  show "classify_helper_candidate env fs name (hi_lookup_path h) = Trusted h" using i(2) c(2) by simp
qed

lemma first_match_of_trusted:
  assumes "resolve_helper_first_match env fs (hi_name h) dirs = Inr m" and "hi_lookup_path m = hi_lookup_path h"
    and "classify_helper_candidate env fs (hi_name h) (hi_lookup_path h) = Trusted h"
  shows "m = h"
  using search_helper_ok(4) [OF assms(1) [unfolded resolve_helper_first_match_def]] assms(2,3) by simp

lemma find_helper_named:
  assumes "find_helper env fs dirs = Inr h"
  shows "\<exists>name \<in> {''fd'', ''find''}. resolve_named_helper env fs name dirs = Inr h"
  using assms unfolding find_helper_def
  by (auto simp: map_err_eq_Inr_iff split: sum.splits projection_seal_error.splits)

definition selected_helpers :: "projection_operation \<Rightarrow> helper_identity list \<Rightarrow> bool" where
  "selected_helpers op helpers \<longleftrightarrow>
     (\<exists>last \<in> {''fd'', ''find''}. set (map hi_name helpers) = insert last (set (required_helper_names op)))"

lemma resolve_helper_authority_ok:
  assumes "resolve_helper_authority env fs op cands = Inr (helpers, path)"
  obtains search_dirs hs path_dirs where
    "resolve_controller_search_dirs fs (filter valid_utf8 (map to_str cands)) = Inr search_dirs"
    "build_child_path_dirs search_dirs hs = Inr path_dirs" "path = join '':'' (map path_display path_dirs)"
    "helpers = sort_key hi_name hs" "selected_helpers op helpers"
    "\<forall>h \<in> set hs. resolve_named_helper env fs (hi_name h) search_dirs = Inr h"
    "\<forall>h \<in> set hs. resolve_helper_first_match env fs (hi_name h) path_dirs = Inr h"
proof -
  obtain search_dirs named lookup path_dirs where
    s: "resolve_controller_search_dirs fs (filter valid_utf8 (map to_str cands)) = Inr search_dirs" and
    n: "traverse (\<lambda>name. resolve_named_helper env fs name search_dirs) (required_helper_names op) = Inr named" and
    l: "find_helper env fs search_dirs = Inr lookup" and
    b: "build_child_path_dirs search_dirs (named @ [lookup]) = Inr path_dirs" and
    p: "prove_helpers_are_path_first_match env fs (named @ [lookup]) path_dirs = Inr ()" and
    res: "helpers = sort_key hi_name (named @ [lookup])" "path = join '':'' (map path_display path_dirs)"
    using assms by (auto simp: resolve_helper_authority_def rbind_eq_Inr_iff)
  obtain last where last: "last \<in> {''fd'', ''find''}" "resolve_named_helper env fs last search_dirs = Inr lookup"
    using find_helper_named [OF l] by blast
  have name: "hi_name h = n \<and> classify_helper_candidate env fs n (hi_lookup_path h) = Trusted h"
    if "resolve_named_helper env fs n search_dirs = Inr h" for n h
    using search_helper_ok(1,4) [OF that [unfolded resolve_named_helper_def]] by simp
  have named: "resolve_named_helper env fs (hi_name h) search_dirs = Inr h" if "h \<in> set (named @ [lookup])" for h
    using that traverse_set [OF n] last(2) name by fastforce
  have "resolve_helper_first_match env fs (hi_name h) path_dirs = Inr h" if h: "h \<in> set (named @ [lookup])" for h
  proof -
    obtain m where "resolve_helper_first_match env fs (hi_name h) path_dirs = Inr m" "hi_lookup_path m = hi_lookup_path h"
      using p h by (auto simp: prove_helpers_are_path_first_match_def check_all_eq_Inr_iff rbind_eq_Inr_iff split: if_splits)
    with first_match_of_trusted name [OF named [OF h]] show ?thesis by metis
  qed
  moreover have "map hi_name named = required_helper_names op"
    using n name unfolding traverse_eq_Inr_iff list_all2_conv_all_nth by (auto intro!: nth_equalityI)
  then have "selected_helpers op helpers"
    using last name unfolding selected_helpers_def res by (intro bexI [of _ last]) (metis list.set_map set_append Un_insert_right list.simps(15) empty_set sup_bot_right set_sort image_Un list.set(1) image_insert image_empty, simp)
  ultimately show thesis using that [of search_dirs "named @ [lookup]" path_dirs] s b res named by blast
qed

section \<open>Properties: sealed plans\<close>

lemma seal_ok:
  assumes "seal_with_search_dirs env to_json fs op registry_root ws scope sid pid pols dirs = Inr plan"
  obtains pkg path where
    "path_pop registry_root = Some pkg" "resolve_and_seal_ontarch env fs pkg = Inr (pp_executable_path plan)"
    "seal_cwd env fs ws = Inr (pp_cwd_path plan)"
    "resolve_helper_authority env fs op dirs = Inr (pp_helper_identities plan, path)"
    "validate_controller_path fs path = Inr ()" "map_of (pp_fixed_env plan) ''PATH'' = Some path"
    "fingerprint_projection_sources env fs op pkg = Inr (pp_source_fingerprints plan, pp_source_abs_paths plan)"
  using assms unfolding seal_with_search_dirs_def Let_def
  by (auto simp: rbind_eq_Inr_iff map_err_eq_Inr_iff projection_fixed_env_def split: option.splits)

lemma fingerprint_sources_ok:
  assumes "fingerprint_projection_sources env fs op pkg = Inr (fps, abs_paths)"
  shows "length fps = length abs_paths"
    and "\<forall>src \<in> set (zip fps abs_paths). fingerprint_regular_file_nofollow env fs (snd src) (fp_path (fst src)) = Inr (fst src)"
proof -
  obtain ps where ps: "fps = map fst ps" "abs_paths = map snd ps"
    and t: "\<forall>x \<in> set ps. \<exists>display. fingerprint_regular_file_nofollow env fs (snd x) display = Inr (fst x)"
  proof -
    obtain ps where "fps = map fst ps" "abs_paths = map snd ps" and t: "traverse (\<lambda>rel.
       let abs_path = path_join pkg (components rel); display = ''packages/ontarch/'' @ rel in
       rbind (map_err (\<lambda>e. FingerprintFailed (''required source '' @ display @ '': '' @ snd e))
                (fingerprint_regular_file_nofollow env fs abs_path display)) (\<lambda>fp. Inr (fp, abs_path)))
       (required_source_rels op) = Inr ps"
      using assms unfolding fingerprint_projection_sources_def by (auto simp: rbind_eq_Inr_iff)
    moreover have "\<forall>x \<in> set ps. \<exists>display. fingerprint_regular_file_nofollow env fs (snd x) display = Inr (fst x)"
      using traverse_set [OF t] by (fastforce simp: Let_def rbind_eq_Inr_iff map_err_eq_Inr_iff)
    ultimately show thesis using that by blast
  qed
  have "zip fps abs_paths = ps" by (simp add: ps zip_map_fst_snd)
  moreover have "fp_path (fst x) = display" if "fingerprint_regular_file_nofollow env fs (snd x) display = Inr (fst x)" for x display
    using fingerprint_nofollow_ok [OF that] by fastforce
  ultimately show "\<forall>src \<in> set (zip fps abs_paths). fingerprint_regular_file_nofollow env fs (snd src) (fp_path (fst src)) = Inr (fst src)"
    using t by metis
  show "length fps = length abs_paths" by (simp add: ps)
qed


text \<open>
  What the code relies on of the file system: canonicalisation yields a fixed point that names the same
  object and is no symbolic link, and \<open>stat\<close> agrees with \<open>lstat\<close> where there is no link.
\<close>

definition canonical_laws :: "sfsys \<Rightarrow> bool" where
  "canonical_laws fs \<longleftrightarrow>
     (\<forall>p c. canonicalize fs p = Inr c \<longrightarrow>
        canonicalize fs c = Inr c \<and> symlink_metadata fs c = metadata fs p \<and> mode_bits fs c = mode_bits fs p) \<and>
     (\<forall>p k. symlink_metadata fs p = Inr k \<and> k \<noteq> Symlink \<longrightarrow> metadata fs p = Inr k)"

text \<open>A directory that a search path can name: its text has no colon and reads back as the same path.\<close>

definition path_nameable :: "path \<Rightarrow> bool" where
  "path_nameable d \<longleftrightarrow> CHR '':'' \<notin> set (path_display d) \<and> components (path_display d) = d"

lemma controller_dirs_loop_canonical:
  "controller_dirs_loop fs cands dirs = Inr out \<Longrightarrow>
     d \<in> set out \<Longrightarrow> d \<in> set dirs \<or> (\<exists>cand \<in> set cands. canonicalize fs (components cand) = Inr d)"
  by (induction fs cands dirs rule: controller_dirs_loop.induct) (auto simp: Let_def split: if_splits sum.splits)

lemma build_child_path_dirs_ok:
  assumes "build_child_path_dirs search_dirs hs = Inr path_dirs" and "d \<in> set path_dirs"
  shows "\<exists>h \<in> set hs. path_pop (hi_lookup_path h) = Some d"
proof -
  obtain parents where t: "traverse (\<lambda>h. case path_pop (hi_lookup_path h) of
              Some parent \<Rightarrow> Inr parent
            | None \<Rightarrow> Inl (ToolPathFailed ''helper missing parent directory'')) hs = Inr parents"
    and d: "d \<in> set parents"
    using assms unfolding build_child_path_dirs_def Let_def by (auto simp: rbind_eq_Inr_iff)
  show ?thesis
    using traverse_set [OF t d] by (auto split: option.splits)
qed

lemma helper_names_plain:
  "selected_helpers op hs \<Longrightarrow> h \<in> set hs \<Longrightarrow> components (hi_name h) = [Normal (hi_name h)]"
proof -
  have plain: "list_all (\<lambda>n. components n = [Normal n]) (''fd'' # ''find'' # REPORT_HELPERS @ CLEANUP_EXTRA_HELPERS)"
    by code_simp
  assume "selected_helpers op hs" "h \<in> set hs"
  then have "hi_name h \<in> set (''fd'' # ''find'' # REPORT_HELPERS @ CLEANUP_EXTRA_HELPERS)"
    unfolding selected_helpers_def required_helper_names_def by (auto split: if_splits)
  with plain show ?thesis unfolding list_all_iff by blast
qed

lemma path_dirs_searched:
  assumes "build_child_path_dirs search_dirs hs = Inr path_dirs" and "d \<in> set path_dirs"
    and "\<forall>h \<in> set hs. resolve_named_helper env fs (hi_name h) search_dirs = Inr h"
    and "\<forall>h \<in> set hs. components (hi_name h) = [Normal (hi_name h)]"
  shows "d \<in> set search_dirs \<and> is_absolute d"
proof -
  obtain h where h: "h \<in> set hs" "path_pop (hi_lookup_path h) = Some d"
    using build_child_path_dirs_ok [OF assms(1,2)] by blast
  note s = search_helper_ok [OF assms(3) [rule_format, OF h(1), unfolded resolve_named_helper_def]]
  obtain i where i: "i < length search_dirs" "hi_lookup_path h = path_join (search_dirs ! i) [Normal (hi_name h)]"
    using s(3) assms(4) h(1) unfolding helper_first_on_path_def by auto
  have "is_absolute (hi_lookup_path h)" using s(2) by (simp add: trusted_at_def)
  then have "search_dirs ! i = d \<and> is_absolute d"
    using h(2) unfolding i(2) path_pop_Some_iff
    by (cases "search_dirs ! i") (auto simp: path_join_def is_absolute_def split: if_splits)
  then show ?thesis using i(1) by force
qed

lemma parse_sealed_path_dirs_join:
  assumes "dirs \<noteq> []" and "\<forall>d \<in> set dirs. path_nameable d \<and> is_absolute d"
  shows "parse_sealed_path_dirs (join '':'' (map path_display dirs)) = Inr dirs"
proof -
  have "split_on (CHR '':'') (join '':'' (map path_display dirs)) = map path_display dirs"
    by (rule split_on_join) (use assms in \<open>auto simp: path_nameable_def\<close>)
  moreover have "path_display d \<noteq> [] \<and> components (path_display d) = d" if "d \<in> set dirs" for d
    using assms(2) that by (auto simp: path_nameable_def is_absolute_iff components_def starts_with_def)
  ultimately show ?thesis using assms(2)
    unfolding parse_sealed_path_dirs_def traverse_eq_Inr_iff by (simp add: list.rel_map list.rel_refl_strong)
qed

lemma preflight_helper_unchanged:
  "canonical_laws fs \<Longrightarrow> trusted_at env fs h \<Longrightarrow> preflight_helper env fs h = Inr ()"
  by (auto simp: preflight_helper_def trusted_at_def canonical_laws_def seal_helper_at_path_def)

lemma preflight_executable_unchanged:
  assumes "canonical_laws fs" and "resolve_and_seal_ontarch env fs pkg = Inr e"
  shows "preflight_path_identity env fs e True = Inr ()"
proof -
  obtain p where p: "symlink_metadata fs p = Inr RegularFile" "has_execute_bit fs p" "canonicalize fs p = Inr e"
    using assms(2) unfolding resolve_and_seal_ontarch_def Let_def
    by (auto simp: map_err_eq_Inr_iff split: if_splits sum.splits)
  then have "metadata fs p = Inr RegularFile" using assms(1) by (auto simp: canonical_laws_def)
  then have "symlink_metadata fs e = Inr RegularFile" "canonicalize fs e = Inr e" "mode_bits fs e = mode_bits fs p"
    using p(3) assms(1) by (auto simp: canonical_laws_def)
  then show ?thesis using p(2) by (simp add: preflight_path_identity_def has_execute_bit_def)
qed

lemma preflight_cwd_unchanged:
  assumes "canonical_laws fs" and "seal_cwd env fs ws = Inr c"
  shows "preflight_path_identity env fs c False = Inr ()"
  using assms unfolding seal_cwd_def canonical_laws_def
  by (auto simp: preflight_path_identity_def map_err_eq_Inr_iff split: if_splits sum.splits)

text \<open>
  The checks before the spawn agree with the sealing. When nothing has changed since a plan was
  sealed, the checks of its identities, its helpers and its sources all pass, provided the search
  directories have names a search path can hold.
\<close>

theorem seal_then_preflight:
  assumes "seal_with_search_dirs env to_json fs op registry_root ws scope sid pid pols dirs = Inr plan"
    and "canonical_laws fs"
    and "\<forall>d \<in> set dirs. \<forall>c. canonicalize fs (components (to_str d)) = Inr c \<longrightarrow> path_nameable c"
  shows "preflight_identities env fs plan = Inr () \<and> preflight_helpers env fs plan = Inr () \<and>
    preflight_sources env fs plan = Inr ()"
proof -
  obtain pkg path where s: "resolve_and_seal_ontarch env fs pkg = Inr (pp_executable_path plan)"
    "seal_cwd env fs ws = Inr (pp_cwd_path plan)"
    "resolve_helper_authority env fs op dirs = Inr (pp_helper_identities plan, path)"
    "validate_controller_path fs path = Inr ()" "map_of (pp_fixed_env plan) ''PATH'' = Some path"
    "fingerprint_projection_sources env fs op pkg = Inr (pp_source_fingerprints plan, pp_source_abs_paths plan)"
    using seal_ok [OF assms(1)] by metis
  obtain search_dirs hs path_dirs where
    a: "resolve_controller_search_dirs fs (filter valid_utf8 (map to_str dirs)) = Inr search_dirs"
    "build_child_path_dirs search_dirs hs = Inr path_dirs" "path = join '':'' (map path_display path_dirs)"
    "pp_helper_identities plan = sort_key hi_name hs" "selected_helpers op (pp_helper_identities plan)"
    "\<forall>h \<in> set hs. resolve_named_helper env fs (hi_name h) search_dirs = Inr h"
    "\<forall>h \<in> set hs. resolve_helper_first_match env fs (hi_name h) path_dirs = Inr h"
    by (rule resolve_helper_authority_ok [OF s(3)])
  have hs: "set hs = set (pp_helper_identities plan)" using a(4) by simp
  have plain: "\<forall>h \<in> set hs. components (hi_name h) = [Normal (hi_name h)]"
    using helper_names_plain [OF a(5)] hs by blast
  have "path_dirs \<noteq> []"
  proof
    assume "path_dirs = []"
    then have "hs = []" using a(7) by (cases hs) (auto simp: resolve_helper_first_match_def)
    then show False using a(5) by (auto simp: selected_helpers_def a(4))
  qed
  moreover have "path_nameable d \<and> is_absolute d" if "d \<in> set path_dirs" for d
    using path_dirs_searched [OF a(2) that a(6) plain] a(1) assms(3) controller_dirs_loop_canonical [of fs _ "[]"]
    unfolding resolve_controller_search_dirs_def by (fastforce simp: rbind_eq_Inr_iff split: if_splits)
  ultimately have parse: "parse_sealed_path_dirs path = Inr path_dirs"
    unfolding a(3) using parse_sealed_path_dirs_join by blast
  have prove: "prove_helpers_are_path_first_match env fs (pp_helper_identities plan) path_dirs = Inr ()"
    unfolding prove_helpers_are_path_first_match_def check_all_eq_Inr_iff using a(7) hs by simp
  have "trusted_at env fs h" if "h \<in> set (pp_helper_identities plan)" for h
    using search_helper_ok(2) a(7) that unfolding hs resolve_helper_first_match_def by blast
  then have "check_all (preflight_helper env fs) (pp_helper_identities plan) = Inr ()"
    unfolding check_all_eq_Inr_iff using preflight_helper_unchanged [OF assms(2)] by blast
  then have "preflight_helpers env fs plan = Inr ()"
    using s(4,5) parse prove by (simp add: preflight_helpers_def)
  moreover have "preflight_identities env fs plan = Inr ()"
    using preflight_executable_unchanged [OF assms(2) s(1)] preflight_cwd_unchanged [OF assms(2) s(2)]
    by (simp add: preflight_identities_def)
  moreover have "preflight_sources env fs plan = Inr ()"
    using fingerprint_sources_ok [OF s(6)]
    by (auto simp: preflight_sources_def check_all_eq_Inr_iff preflight_source_def)
  ultimately show ?thesis by blast
qed

lemma seal_helper_at_path_ok:
  assumes "seal_helper_at_path env fs name p = Inr h"
  shows "hi_canonical_path h = p \<and> canonicalize fs p = Inr p \<and> symlink_metadata fs p = Inr RegularFile \<and>
    (\<exists>content. read_bytes fs p = Inr content \<and> hi_digest h = rv_sha256_hex env content)"
  using assms unfolding seal_helper_at_path_def Let_def sha256_hex_regular_nofollow_def
  by (auto simp: rbind_eq_Inr_iff rbind_eq_Inl_iff map_err_eq_Inr_iff split: sum.splits if_splits)

definition same_content :: "registry_env \<Rightarrow> sfsys \<Rightarrow> sfsys \<Rightarrow> path \<Rightarrow> bool" where
  "same_content env fs fs' p \<longleftrightarrow>
     (\<exists>old new. read_bytes fs p = Inr old \<and> read_bytes fs' p = Inr new \<and> rv_sha256_hex env old = rv_sha256_hex env new)"

lemma preflight_helper_drift:
  assumes "trusted_at env fs h" and "preflight_helper env fs' h = Inr ()"
  shows "same_content env fs fs' (hi_canonical_path h) \<and> canonicalize fs' (hi_lookup_path h) = Inr (hi_canonical_path h)"
proof -
  obtain fresh where f: "seal_helper_at_path env fs' (hi_name h) (hi_canonical_path h) = Inr fresh"
    "hi_digest fresh = hi_digest h" "canonicalize fs' (hi_lookup_path h) = Inr (hi_canonical_path h)"
    using assms(2) unfolding preflight_helper_def by (auto simp: rbind_eq_Inr_iff map_err_eq_Inr_iff split: if_splits)
  moreover obtain old where "read_bytes fs (hi_canonical_path h) = Inr old" "hi_digest h = rv_sha256_hex env old"
    using assms(1) unfolding trusted_at_def sha256_hex_regular_nofollow_def
    by (auto simp: rbind_eq_Inr_iff map_err_eq_Inr_iff)
  ultimately show ?thesis using seal_helper_at_path_ok [OF f(1)] unfolding same_content_def by auto
qed

text \<open>
  C26: a change between sealing and spawn is detected. If the three checks pass in the file system of
  the spawn, whatever happened to it since the plan was sealed, then the executable is still a regular
  executable file and the directory a directory, both at their sealed canonical paths, every helper
  still resolves to its sealed target, and every helper and every source has content with the sealed
  digest.
\<close>

theorem preflight_detects_drift:
  assumes "seal_with_search_dirs env to_json fs op registry_root ws scope sid pid pols dirs = Inr plan"
    and "preflight_identities env fs' plan = Inr ()" and "preflight_helpers env fs' plan = Inr ()"
    and "preflight_sources env fs' plan = Inr ()"
  shows "symlink_metadata fs' (pp_executable_path plan) = Inr RegularFile \<and>
    has_execute_bit fs' (pp_executable_path plan) \<and>
    canonicalize fs' (pp_executable_path plan) = Inr (pp_executable_path plan) \<and>
    symlink_metadata fs' (pp_cwd_path plan) = Inr Directory \<and> canonicalize fs' (pp_cwd_path plan) = Inr (pp_cwd_path plan) \<and>
    (\<forall>h \<in> set (pp_helper_identities plan).
       same_content env fs fs' (hi_canonical_path h) \<and>
       canonicalize fs' (hi_lookup_path h) = Inr (hi_canonical_path h)) \<and>
    list_all (same_content env fs fs') (pp_source_abs_paths plan)"
proof -
  obtain pkg path where s:
    "resolve_helper_authority env fs op dirs = Inr (pp_helper_identities plan, path)"
    "fingerprint_projection_sources env fs op pkg = Inr (pp_source_fingerprints plan, pp_source_abs_paths plan)"
    using seal_ok [OF assms(1)] by metis
  obtain hs path_dirs where hs: "pp_helper_identities plan = sort_key hi_name hs"
    "\<forall>h \<in> set hs. resolve_helper_first_match env fs (hi_name h) path_dirs = Inr h"
    using resolve_helper_authority_ok [OF s(1)] by metis
  have "preflight_helper env fs' h = Inr ()" if "h \<in> set (pp_helper_identities plan)" for h
    using assms(3) that unfolding preflight_helpers_def
    by (auto simp: rbind_eq_Inr_iff check_all_eq_Inr_iff split: option.splits)
  moreover have "trusted_at env fs h" if "h \<in> set (pp_helper_identities plan)" for h
    using search_helper_ok(2) hs(2) that unfolding resolve_helper_first_match_def hs(1) set_sort by blast
  ultimately have h: "\<forall>h \<in> set (pp_helper_identities plan).
       same_content env fs fs' (hi_canonical_path h) \<and> canonicalize fs' (hi_lookup_path h) = Inr (hi_canonical_path h)"
    using preflight_helper_drift by blast
  note fp = fingerprint_sources_ok [OF s(2)]
  have "same_content env fs fs' p" if "(f, p) \<in> set (zip (pp_source_fingerprints plan) (pp_source_abs_paths plan))" for f p
  proof -
    have "preflight_source env fs' (f, p) = Inr ()"
      using assms(4) that unfolding preflight_sources_def by (auto simp: check_all_eq_Inr_iff split: if_splits)
    then obtain g where "fingerprint_regular_file_nofollow env fs' p (fp_path f) = Inr g" "fp_digest g = fp_digest f"
      by (auto simp: preflight_source_def rbind_eq_Inr_iff map_err_eq_Inr_iff split: if_splits)
    moreover have "fingerprint_regular_file_nofollow env fs p (fp_path f) = Inr f" using fp(2) that by auto
    ultimately show ?thesis unfolding same_content_def by (metis fingerprint_nofollow_ok source_fingerprint.select_convs(3))
  qed
  then have "list_all (same_content env fs fs') (pp_source_abs_paths plan)"
    using fp(1) unfolding list_all_iff by (metis in_set_impl_in_set_zip2)
  with h show ?thesis
    using assms(2) unfolding preflight_identities_def preflight_path_identity_def
    by (auto simp: rbind_eq_Inr_iff map_err_eq_Inr_iff split: sum.splits if_splits)
qed

text \<open>
  Parsing a scope accepts only the paths of a projection. The normalised scope is at least three
  plain segments, the second of them bin and the first neither lib nor src, so it names neither a parent
  nor an absolute path; and it is a fixed point: parsing it again gives the same scope.
\<close>

theorem parse_bin_scope_canonical:
  assumes "parse_bin_scope raw = Inr v"
  shows "(\<exists>segs. vs_normalized v = join ''/'' segs \<and> components raw = map Normal segs \<and> 3 \<le> length segs \<and>
      segs ! 1 = ''bin'' \<and> segs ! 0 \<notin> {''lib'', ''src''} \<and> (\<forall>s \<in> set segs. is_segment s)) \<and>
    parse_bin_scope (vs_normalized v) = Inr v"
proof -
  obtain segs where segs: "vs_normalized v = join ''/'' segs" "components raw = map Normal segs" "3 \<le> length segs"
    "segs ! 1 = ''bin''" "segs ! 0 \<notin> {''lib'', ''src''}" "\<forall>s \<in> set segs. is_segment s"
    using parse_bin_scope_ok [OF assms] by blast
  have "parse_bin_scope (join ''/'' segs) = Inr \<lparr>vs_normalized = join ''/'' segs\<rparr>"
    by (rule parse_bin_scope_segments) (use segs in auto)
  then show ?thesis using segs by (metis validated_bin_scope.surjective unit.exhaust)
qed

section \<open>Witnesses\<close>

text \<open>A machine with one search directory in which every path is an executable file, or one of three directories.\<close>

definition tool_fs :: sfsys where
  "tool_fs =
     (let kind = (\<lambda>p. if p \<in> {components ''/usr/bin'', components ''/ws''} then Directory else RegularFile) in
      \<lparr>symlink_metadata = (\<lambda>p. Inr (kind p)), metadata = (\<lambda>p. Inr (kind p)), canonicalize = Inr,
       read_bytes = (\<lambda>p. Inr (to_str p)), read_dir = (\<lambda>p. Inl NotFound), mode_bits = (\<lambda>p. 0x1ED),
       open_nofollow = (\<lambda>p. Inr (Inr (kind p, length (to_str p))))\<rparr>)"

definition tool_env :: registry_env where
  "tool_env =
     \<lparr>rv_io_text = (\<lambda>_. ''io''), rv_sha256_hex = id, rv_units = (\<lambda>_. Inl ''''), rv_scan = (\<lambda>_. Inl ''''),
      rv_tools = (\<lambda>_. Inl ''''), rv_profiles = (\<lambda>_. Inl ''''), rv_policies = (\<lambda>_. Inl ''''),
      rv_descriptor = (\<lambda>_. Inl '''')\<rparr>"

definition tool_seal :: "(projection_seal_error, sealed_projection_plan) result" where
  "tool_seal = seal_with_search_dirs tool_env (\<lambda>_. ''j'') tool_fs BinReport (components ''/o/reg'') (components ''/ws'')
     None ''s'' ''p'' [] [components ''/usr/bin'']"

lemma tool_seal_ok: "\<exists>plan. tool_seal = Inr plan"
proof -
  have "(case tool_seal of Inr _ \<Rightarrow> True | Inl _ \<Rightarrow> False)" by code_simp
  then show ?thesis by (auto split: sum.splits)
qed

lemma tool_laws: "canonical_laws tool_fs"
  by (simp add: canonical_laws_def tool_fs_def Let_def)

lemma tool_dirs:
  "\<forall>d \<in> set [components ''/usr/bin'']. \<forall>c. canonicalize tool_fs (components (to_str d)) = Inr c \<longrightarrow> path_nameable c"
proof -
  have "path_nameable (components (to_str (components ''/usr/bin'')))" by code_simp
  then show ?thesis by (simp add: tool_fs_def Let_def)
qed


theorem seal_then_preflight_witness:
  "\<exists>plan. tool_seal = Inr plan \<and> preflight_helpers tool_env tool_fs plan = Inr ()"
proof -
  obtain plan where p: "tool_seal = Inr plan" using tool_seal_ok by blast
  with seal_then_preflight [OF p [unfolded tool_seal_def] tool_laws tool_dirs] show ?thesis by blast
qed

theorem preflight_detects_drift_witness:
  "\<exists>plan. tool_seal = Inr plan \<and> list_all (same_content tool_env tool_fs tool_fs) (pp_source_abs_paths plan)"
proof -
  let ?ok = "\<lambda>plan. preflight_identities tool_env tool_fs plan = Inr () \<and> preflight_helpers tool_env tool_fs plan = Inr () \<and>
    preflight_sources tool_env tool_fs plan = Inr ()"
  have "(case tool_seal of Inr plan \<Rightarrow> ?ok plan | Inl _ \<Rightarrow> False)" by code_simp
  then obtain plan where p: "tool_seal = Inr plan" "?ok plan" by (auto split: sum.splits)
  with preflight_detects_drift [OF p(1) [unfolded tool_seal_def]] show ?thesis by blast
qed

theorem parse_bin_scope_canonical_witness:
  "\<exists>v. parse_bin_scope ''local//bin/tool'' = Inr v \<and> parse_bin_scope (vs_normalized v) = Inr v"
proof -
  have "parse_bin_scope ''local//bin/tool'' = Inr \<lparr>vs_normalized = ''local/bin/tool''\<rparr>" by code_simp
  then show ?thesis using parse_bin_scope_canonical by blast
qed

end
