(* ===== verification/Projection_Policy.thy ===== *)
theory Projection_Policy
  imports Policy_Evaluate Projection_Plan
begin

text \<open>
  Authorisation of a projection (\<open>policy/projection_eval.rs\<close>): the consistency of the handoff, the layer
  of the request and the layer of the child, the path fact of a cleanup scope, and the merge. A sealed
  projection plan is authorised only when both layers allow and the operation may have a child.
\<close>

section \<open>Data\<close>

record projection_evaluation_input =
  pj_plan :: sealed_projection_plan
  pj_profile :: profile_record
  pj_policies :: "policy_record list"
  pj_policy_origins :: "(string \<times> string) list"
  pj_policy_root :: path

record authorized_projection_plan =
  aj_plan :: sealed_projection_plan
  aj_profile_id :: string
  aj_policy_decision :: policy_decision
  aj_policy_explanation :: policy_evaluation_explanation
  aj_policy_root :: path

record rejected_projection_outcome =
  ro_plan :: sealed_projection_plan
  ro_decision :: policy_decision
  ro_explanation :: policy_evaluation_explanation
  ro_deferred_unavailable :: bool

datatype projection_evaluation_result =
    ProjectionContract policy_contract_error
  | ProjectionRejected rejected_projection_outcome
  | ProjectionAuthorized authorized_projection_plan

section \<open>Consistency\<close>

definition assert_projection_consistency :: "projection_evaluation_input \<Rightarrow> (raw_policy_error, unit) result" where
  "assert_projection_consistency input =
     (if pf_id (pj_profile input) \<noteq> pp_profile_id (pj_plan input) then Inl (mismatch ''profile id mismatch'' ''profile_id'')
      else if sort (map po_id (pj_policies input)) \<noteq> sort (pp_policy_ids (pj_plan input)) then
        Inl (mismatch ''policy id set mismatch'' ''policy_ids'')
      else if pj_policy_root input = [] \<or> \<not> is_absolute (pj_policy_root input) then
        Inl (mismatch ''policy_root must be absolute'' ''policy_root'')
      else Inr ())"

section \<open>Layers\<close>

definition match_commands :: "string \<Rightarrow> string list \<Rightarrow> canonical_rule list \<Rightarrow> canonical_rule list" where
  "match_commands program args rules =
     filter (\<lambda>r. cr_matcher r = MCommand \<and> command_matches r program args) rules"

definition reduce_matched ::
  "policy_layer \<Rightarrow> canonical_rule list \<Rightarrow> string list \<Rightarrow> policy_layer_result" where
  "reduce_matched layer matched_in intents =
     (let matched = sort_dedup_key cr_rule_id matched_in;
          has_deny = list_ex (\<lambda>r. cr_effect r = EDeny) matched;
          has_gate = list_ex (\<lambda>r. cr_effect r = EGate) matched;
          has_command_allow = list_ex (\<lambda>r. cr_effect r = EAllow \<and> cr_matcher r = MCommand) matched;
          (decision, primary, command_authorized) =
            (if has_deny then
               (''deny'', min_id (map cr_rule_id (filter (\<lambda>r. cr_effect r = EDeny) matched)), False)
             else if has_gate then
               (''gate'', min_id (map cr_rule_id (filter (\<lambda>r. cr_effect r = EGate) matched)), False)
             else if has_command_allow then
               (''allow'', min_id (map cr_rule_id
                  (filter (\<lambda>r. cr_effect r = EAllow \<and> cr_matcher r = MCommand) matched)), True)
             else (''deny'', None, False))
      in \<lparr>lr_layer = layer, lr_decision = decision, lr_command_authorized = command_authorized,
          lr_matched_rules = map cr_rule_id matched, lr_primary_rule = primary, lr_intents = intents\<rparr>)"

definition reduce_command_layer ::
  "policy_layer \<Rightarrow> string \<Rightarrow> string list \<Rightarrow> canonical_rule list \<Rightarrow> string list \<Rightarrow> policy_layer_result" where
  "reduce_command_layer layer program args rules intents =
     reduce_matched layer (match_commands program args rules) intents"

text \<open>
  The rules a cleanup scope adds: only an explicitly blocked scope denies, and a scope that cannot be
  normalised takes the controller's denial.
\<close>

definition scope_rules ::
  "fsys \<Rightarrow> projection_evaluation_input \<Rightarrow> normalized_policy_set \<Rightarrow> canonical_rule list" where
  "scope_rules fs input ns =
     (case pp_safe_scope (pj_plan input) of
        None \<Rightarrow> []
      | Some scope \<Rightarrow>
          (case normalize_path_fact fs (components (vs_normalized scope)) (pp_cwd_path (pj_plan input)) (pj_policy_root input) of
             Inr rel \<Rightarrow>
               (case evaluate_path_against_scopes rel (ns_allowed_path_patterns ns) (ns_blocked_path_patterns ns) of
                  BlockedPath ids \<Rightarrow> push_rules_by_id (ns_rules ns) ids
                | _ \<Rightarrow> [])
           | Inl _ \<Rightarrow> push_controller_path_deny (ns_rules ns)))"

definition projection_request_matched :: "projection_evaluation_input \<Rightarrow> canonical_rule list \<Rightarrow> canonical_rule list" where
  "projection_request_matched input rules =
     match_commands ''takogami'' (request_argv (pp_operation (pj_plan input))) rules"

definition projection_child_matched ::
  "fsys \<Rightarrow> projection_evaluation_input \<Rightarrow> normalized_policy_set \<Rightarrow> canonical_rule list" where
  "projection_child_matched fs input ns =
     match_commands ''ontarch'' (pp_argv (pj_plan input)) (ns_rules ns) @ scope_rules fs input ns"

section \<open>The decision\<close>

definition strongest_effect :: "effect list \<Rightarrow> effect" where
  "strongest_effect effects =
     foldl (\<lambda>best e. if best = EDeny \<or> e = EDeny then EDeny
                     else if best = EGate \<or> e = EGate then EGate else EAllow) EAllow effects"

definition effect_of :: "string \<Rightarrow> effect" where
  "effect_of decision = (if decision = ''deny'' then EDeny else if decision = ''gate'' then EGate else EAllow)"

definition pick ::
  "policy_layer_result \<Rightarrow> policy_layer_result \<Rightarrow> canonical_rule list \<Rightarrow> effect \<Rightarrow> string \<times> string \<times> string" where
  "pick request child rules want =
     (let found = concat (map (\<lambda>i. case find (\<lambda>r. cr_rule_id r = i \<and> cr_effect r = want) rules of
            Some r \<Rightarrow> [r] | None \<Rightarrow> []) (lr_matched_rules request @ lr_matched_rules child))
      in case found of
           r # _ \<Rightarrow> (cr_origin_id r, cr_rule_id r, cr_safe_reason r)
         | [] \<Rightarrow> (''controller'', ''default'', ''denied by default''))"

definition public_decision ::
  "effect \<Rightarrow> policy_layer_result \<Rightarrow> policy_layer_result \<Rightarrow> canonical_rule list \<Rightarrow> policy_decision" where
  "public_decision eff request child rules =
     (case eff of
        EAllow \<Rightarrow> Allow (sort_dedup (lr_matched_rules request @ lr_matched_rules child))
      | EGate \<Rightarrow> (let (pid, rid, why) = pick request child rules EGate in Gate pid rid why ''human'')
      | EDeny \<Rightarrow> (let (pid, rid, why) = pick request child rules EDeny in Deny pid rid why))"

definition projection_normalized ::
  "policy_env \<Rightarrow> projection_evaluation_input \<Rightarrow> normalized_policy_set \<Rightarrow> projection_evaluation_result" where
  "projection_normalized env input ns =
     (let op = pp_operation (pj_plan input);
          request_layer = reduce_command_layer RequestLayer ''takogami'' (request_argv op) (ns_rules ns) [];
          intent_names = map intent_str (classify_child ''ontarch'' (pp_argv (pj_plan input)));
          child_layer = reduce_matched ChildLayer (projection_child_matched (env_fs env) input ns) intent_names;
          effective = strongest_effect [effect_of (lr_decision request_layer), effect_of (lr_decision child_layer)];
          decision = public_decision effective request_layer child_layer (ns_rules ns);
          dual_allow = (lr_decision request_layer = ''allow'' \<and> lr_decision child_layer = ''allow'' \<and>
            is_Allow decision \<and> lr_command_authorized request_layer \<and> lr_command_authorized child_layer);
          explanation = \<lparr>px_actor = ''agent'', px_profile_id = pf_id (pj_profile input),
            px_plan_digest = pp_plan_digest (pj_plan input), px_precedence = ''deny>gate>allow'',
            px_request = request_layer, px_child = child_layer, px_effective_decision = decision,
            px_execution_authorized = dual_allow, px_approval_transport = ''unavailable''\<rparr>
      in if dual_allow then
           (if \<not> child_supported op \<or> mutation_deferred op then
              ProjectionRejected \<lparr>ro_plan = pj_plan input,
                ro_decision = Deny ''controller'' ''deferred_unavailable'' ''deferred_unavailable'',
                ro_explanation = explanation, ro_deferred_unavailable = True\<rparr>
            else
              ProjectionAuthorized \<lparr>aj_plan = pj_plan input, aj_profile_id = pf_id (pj_profile input),
                aj_policy_decision = Allow (case decision of Allow ms \<Rightarrow> ms | _ \<Rightarrow> []),
                aj_policy_explanation = explanation, aj_policy_root = pj_policy_root input\<rparr>)
         else
           ProjectionRejected \<lparr>ro_plan = pj_plan input, ro_decision = decision, ro_explanation = explanation,
             ro_deferred_unavailable =
               (mutation_deferred op \<and> (case decision of Deny _ _ _ \<Rightarrow> True | _ \<Rightarrow> False))\<rparr>)"

definition evaluate_projection_policy ::
  "policy_env \<Rightarrow> projection_evaluation_input \<Rightarrow> projection_evaluation_result" where
  "evaluate_projection_policy env input =
     (let session_id = pp_session_id (pj_plan input); plan_digest = pp_plan_digest (pj_plan input)
      in case assert_projection_consistency input of
           Inl e \<Rightarrow> ProjectionContract (contract_error_from e session_id plan_digest)
         | Inr _ \<Rightarrow>
             (case normalize_policies env (pj_policies input) (pj_profile input) (pj_policy_root input) of
                Inl e \<Rightarrow> ProjectionContract (contract_error_from e session_id plan_digest)
              | Inr ns \<Rightarrow> projection_normalized env input ns))"

section \<open>Reduction refines the verdict\<close>

lemma reduce_matched_layer:
  assumes "inj_on cr_rule_id (set matched)"
  shows "lr_decision (reduce_matched layer matched intents) = effect_str (verdict (set matched))"
    and "lr_command_authorized (reduce_matched layer matched intents) \<longleftrightarrow> verdict (set matched) = EAllow"
  unfolding reduce_matched_def Let_def verdict_def list_ex_iff reduce_layer_matched [OF assms] by auto

lemma effect_of_str [simp]: "effect_of (effect_str e) = e"
  by (cases e) (simp_all add: effect_of_def)

lemma is_Allow_public: "is_Allow (public_decision eff request child rules) \<longleftrightarrow> eff = EAllow"
  by (cases eff) (simp_all add: public_decision_def split: prod.split)

lemma strongest_effect_pair: "strongest_effect [a, b] = EAllow \<longleftrightarrow> a = EAllow \<and> b = EAllow"
  by (cases a; cases b) (simp_all add: strongest_effect_def)

lemma scope_rules_subset: "set (scope_rules fs input ns) \<subseteq> set (ns_rules ns)"
proof (cases "pp_safe_scope (pj_plan input)")
  case (Some scope)
  let ?n = "normalize_path_fact fs (components (vs_normalized scope)) (pp_cwd_path (pj_plan input)) (pj_policy_root input)"
  show ?thesis
  proof (cases ?n)
    case (Inl e)
    then show ?thesis using Some controller_deny_subset by (simp add: scope_rules_def)
  next
    case (Inr rel)
    then show ?thesis using Some push_rules_by_id_subset
      by (cases "evaluate_path_against_scopes rel (ns_allowed_path_patterns ns) (ns_blocked_path_patterns ns)")
        (simp_all add: scope_rules_def)
  qed
qed (simp add: scope_rules_def)

lemma projection_matched_subset:
  "set (projection_request_matched input (ns_rules ns)) \<subseteq> set (ns_rules ns)"
  "set (projection_child_matched fs input ns) \<subseteq> set (ns_rules ns)"
  using scope_rules_subset [of fs input ns]
  by (auto simp: projection_request_matched_def projection_child_matched_def match_commands_def)

lemma child_not_deferred: "\<not> child_supported op \<or> mutation_deferred op \<longleftrightarrow> \<not> child_supported op"
  by (cases op) (simp_all add: child_supported_def mutation_deferred_def)

lemma projection_normalized_cases:
  assumes "normalize_policies env ps pf root = Inr ns"
  shows "(\<exists>a. projection_normalized env input ns = ProjectionAuthorized a) \<longleftrightarrow>
    child_supported (pp_operation (pj_plan input)) \<and>
    verdict (set (projection_request_matched input (ns_rules ns))) = EAllow \<and>
    verdict (set (projection_child_matched (env_fs env) input ns)) = EAllow"
proof -
  note inj = np.matched_inj [OF assms]
  note q = reduce_matched_layer [OF inj [OF projection_matched_subset(1)], unfolded projection_request_matched_def]
  note c = reduce_matched_layer [OF inj [OF projection_matched_subset(2)]]
  show ?thesis
    unfolding projection_normalized_def Let_def reduce_command_layer_def q c is_Allow_public effect_of_str
      strongest_effect_pair child_not_deferred projection_request_matched_def
    by auto
qed

section \<open>Properties\<close>

lemma both_sets: "(\<forall>R. R = A \<or> R = B \<longrightarrow> Q R) \<longleftrightarrow> Q A \<and> Q B"
  by blast

lemma pull_conj: "(\<exists>x. N x \<and> S \<and> P x) \<longleftrightarrow> S \<and> (\<exists>x. N x \<and> P x)"
  by blast

text \<open>
  C24: a projection is authorised exactly by dual explicit allow of an operation that may have a child.
  The plan is authorised if and only if the handoff is consistent, the policies normalise, the operation
  is one of the two that only report, and in the request layer and in the child layer alike every
  matched rule allows and some matched rule is an explicit command allow. An operation that changes
  files is never authorised, whatever the policies allow.
\<close>

theorem projection_authorized_iff:
  "(\<exists>a. evaluate_projection_policy env input = ProjectionAuthorized a) \<longleftrightarrow>
     assert_projection_consistency input = Inr () \<and>
     pp_operation (pj_plan input) \<in> {BinReport, BinCleanupReportOnly} \<and>
     (\<exists>ns. normalize_policies env (pj_policies input) (pj_profile input) (pj_policy_root input) = Inr ns \<and>
       (\<forall>R. R = set (projection_request_matched input (ns_rules ns)) \<or>
            R = set (projection_child_matched (env_fs env) input ns) \<longrightarrow>
          (\<forall>r \<in> R. cr_effect r = EAllow) \<and> (\<exists>r \<in> R. cr_effect r = EAllow \<and> cr_matcher r = MCommand)))"
proof -
  have "(\<exists>a. evaluate_projection_policy env input = ProjectionAuthorized a) \<longleftrightarrow>
      assert_projection_consistency input = Inr () \<and>
      (\<exists>ns. normalize_policies env (pj_policies input) (pj_profile input) (pj_policy_root input) = Inr ns \<and>
         (\<exists>a. projection_normalized env input ns = ProjectionAuthorized a))"
    by (auto simp: evaluate_projection_policy_def Let_def split: sum.splits)
  also have "\<dots> \<longleftrightarrow> assert_projection_consistency input = Inr () \<and>
      (\<exists>ns. normalize_policies env (pj_policies input) (pj_profile input) (pj_policy_root input) = Inr ns \<and>
         child_supported (pp_operation (pj_plan input)) \<and>
         verdict (set (projection_request_matched input (ns_rules ns))) = EAllow \<and>
         verdict (set (projection_child_matched (env_fs env) input ns)) = EAllow)"
    using projection_normalized_cases by (simp cong: conj_cong)
  finally show ?thesis
    unfolding verdict_allow_iff child_supported_def both_sets insert_iff empty_iff by (simp only: pull_conj simp_thms)
qed

text \<open>
  An authorised projection carries the plan that was sealed and stays in scope. The plan of the
  authorisation is the plan that was evaluated, its public decision allows, and a cleanup scope denotes
  a path below the policy root that no blocked pattern matches.
\<close>

theorem projection_scope_confined:
  assumes "hex_ok env" and "evaluate_projection_policy env input = ProjectionAuthorized a"
  shows "aj_plan a = pj_plan input \<and> is_Allow (aj_policy_decision a) \<and>
    (\<forall>scope. pp_safe_scope (pj_plan input) = Some scope \<longrightarrow>
       (\<exists>rel ns. normalize_path_fact (env_fs env) (components (vs_normalized scope)) (pp_cwd_path (pj_plan input))
            (pj_policy_root input) = Inr rel \<and>
          normalize_policies env (pj_policies input) (pj_profile input) (pj_policy_root input) = Inr ns \<and>
          \<not> (\<exists>b \<in> set (ns_blocked_path_patterns ns). path_matches b rel)))"
proof -
  obtain ns where n: "normalize_policies env (pj_policies input) (pj_profile input) (pj_policy_root input) = Inr ns"
    and a: "projection_normalized env input ns = ProjectionAuthorized a"
    using assms(2) by (auto simp: evaluate_projection_policy_def Let_def split: sum.splits)
  have v: "verdict (set (projection_child_matched (env_fs env) input ns)) = EAllow"
    using projection_normalized_cases [OF n] a by blast
  have plan: "aj_plan a = pj_plan input" "is_Allow (aj_policy_decision a)"
    using a unfolding projection_normalized_def Let_def by (auto split: if_splits)
  have nodeny: "cr_effect r \<noteq> EDeny" if "r \<in> set (scope_rules (env_fs env) input ns)" for r
  proof -
    have "r \<in> set (projection_child_matched (env_fs env) input ns)" using that by (simp add: projection_child_matched_def)
    then show ?thesis using v verdict_denyI by force
  qed
  have "\<exists>rel. normalize_path_fact (env_fs env) (components (vs_normalized scope)) (pp_cwd_path (pj_plan input))
            (pj_policy_root input) = Inr rel \<and>
          \<not> (\<exists>b \<in> set (ns_blocked_path_patterns ns). path_matches b rel)"
    if s: "pp_safe_scope (pj_plan input) = Some scope" for scope
  proof -
    let ?n = "normalize_path_fact (env_fs env) (components (vs_normalized scope)) (pp_cwd_path (pj_plan input)) (pj_policy_root input)"
    show ?thesis
    proof (cases ?n)
      case (Inl e)
      then have "scope_rules (env_fs env) input ns = push_controller_path_deny (ns_rules ns)"
        by (simp add: scope_rules_def s)
      then have "set (push_controller_path_deny (ns_rules ns)) \<subseteq> set (projection_child_matched (env_fs env) input ns)"
        by (simp add: projection_child_matched_def)
      then show ?thesis using np.scope_denied [OF assms(1) n] v by simp
    next
      case (Inr rel)
      have "\<not> path_matches b rel" if b: "b \<in> set (ns_blocked_path_patterns ns)" for b
      proof
        assume m: "path_matches b rel"
        let ?ids = "matching_rules rel (ns_blocked_path_patterns ns)"
        have "cpp_rule_id b \<in> set ?ids" using b m by (simp add: matching_rules_def)
        moreover from this have "scope_rules (env_fs env) input ns = push_rules_by_id (ns_rules ns) (sort_dedup ?ids)"
          by (auto simp: scope_rules_def s Inr evaluate_path_against_scopes_def Let_def)
        ultimately show False
          using np.blocked_found [OF assms(1) n b, of "sort_dedup ?ids"] nodeny by auto
      qed
      then show ?thesis using Inr by blast
    qed
  qed
  then show ?thesis using plan n by blast
qed

section \<open>Examples\<close>

definition projection_input :: "sealed_projection_plan \<Rightarrow> projection_evaluation_input" where
  "projection_input plan =
     \<lparr>pj_plan = plan, pj_profile = sample_profile [''takogami bin cleanup'', ''ontarch bin-cleanup''],
      pj_policies = [], pj_policy_origins = [], pj_policy_root = components ''/ws''\<rparr>"

definition cleanup_plan :: sealed_projection_plan where
  "cleanup_plan =
     (let scope = Some \<lparr>vs_normalized = ''local/bin/tool''\<rparr> in
      \<lparr>pp_operation = BinCleanupReportOnly, pp_executable_path = components ''/o/bin/ontarch'',
       pp_cwd_path = components ''/ws'', pp_argv = child_argv BinCleanupReportOnly scope, pp_fixed_env = [],
       pp_inherited_env_keys = [], pp_source_fingerprints = [], pp_source_abs_paths = [], pp_helper_identities = [],
       pp_safe_request = projection_request BinCleanupReportOnly scope, pp_safe_scope = scope, pp_session_id = ''s'',
       pp_profile_id = ''dev'', pp_policy_ids = [], pp_plan_digest = ''sha256:d''\<rparr>)"

fun authorizes_projection :: "projection_evaluation_result \<Rightarrow> bool" where
  "authorizes_projection (ProjectionAuthorized _) = True"
| "authorizes_projection _ = False"

lemma sample_projection_authorized:
  "\<exists>a. evaluate_projection_policy sample_env (projection_input cleanup_plan) = ProjectionAuthorized a"
proof -
  have "authorizes_projection (evaluate_projection_policy sample_env (projection_input cleanup_plan))" by code_simp
  then show ?thesis by (cases "evaluate_projection_policy sample_env (projection_input cleanup_plan)") auto
qed

theorem projection_authorized_iff_witness:
  "assert_projection_consistency (projection_input cleanup_plan) = Inr ()"
  using sample_projection_authorized unfolding projection_authorized_iff by blast

theorem projection_scope_confined_witness:
  "\<exists>rel. normalize_path_fact (env_fs sample_env) (components ''local/bin/tool'') (components ''/ws'') (components ''/ws'') = Inr rel"
proof -
  obtain a where "evaluate_projection_policy sample_env (projection_input cleanup_plan) = ProjectionAuthorized a"
    using sample_projection_authorized by blast
  from projection_scope_confined [OF hex_sample this]
  have "\<forall>scope. pp_safe_scope cleanup_plan = Some scope \<longrightarrow>
      (\<exists>rel. normalize_path_fact (env_fs sample_env) (components (vs_normalized scope)) (pp_cwd_path cleanup_plan)
         (components ''/ws'') = Inr rel)"
    by (auto simp: projection_input_def)
  then show ?thesis by (simp add: cleanup_plan_def Let_def)
qed

end
