(* ===== verification/Graph_Document.thy ===== *)
theory Graph_Document
  imports Registry_Access Secure_File Timestamp "HOL-Library.Product_Lexorder"
begin

text \<open>
  The knowledge graph (\<open>graph/types.rs\<close>, \<open>graph/io.rs\<close>, \<open>graph/validate.rs\<close>, \<open>graph/render.rs\<close>): the closed
  document, its validation and canonical order, the two layers of freshness, and the text and DOT
  renderings. The JSON decoders of the graph and of the units metadata are parameters.
\<close>

section \<open>Documents\<close>

definition GRAPH_FILE_LIMIT_BYTES :: nat where "GRAPH_FILE_LIMIT_BYTES = 8 * 1024 * 1024"

definition GRAPH_NODE_LIMIT :: nat where "GRAPH_NODE_LIMIT = 20000"

definition GRAPH_EDGE_LIMIT :: nat where "GRAPH_EDGE_LIMIT = 100000"

definition GRAPH_ID_LIMIT_BYTES :: nat where "GRAPH_ID_LIMIT_BYTES = 512"

definition GRAPH_FRESHNESS_METADATA_LIMIT_BYTES :: nat where
  "GRAPH_FRESHNESS_METADATA_LIMIT_BYTES = 32 * 1024 * 1024"

datatype graph_node_kind =
    WorkspaceKind | NativeToolchain | MetadataPlane | RuntimeController | PackageTranslator
  | PortableComponentRuntime | PackageKind | AppKind | SiteKind | PatternKind | ToolKind | RuntimeKind
  | AgentKind | PolicyKind | CapabilityKind | ActorKind | ProfileKind | SkillKind

fun node_kind_str :: "graph_node_kind \<Rightarrow> string" where
  "node_kind_str WorkspaceKind = ''workspace''"
| "node_kind_str NativeToolchain = ''native-toolchain''"
| "node_kind_str MetadataPlane = ''metadata-plane''"
| "node_kind_str RuntimeController = ''runtime-controller''"
| "node_kind_str PackageTranslator = ''package-translator''"
| "node_kind_str PortableComponentRuntime = ''portable-component-runtime''"
| "node_kind_str PackageKind = ''package''"
| "node_kind_str AppKind = ''app''"
| "node_kind_str SiteKind = ''site''"
| "node_kind_str PatternKind = ''pattern''"
| "node_kind_str ToolKind = ''tool''"
| "node_kind_str RuntimeKind = ''runtime''"
| "node_kind_str AgentKind = ''agent''"
| "node_kind_str PolicyKind = ''policy''"
| "node_kind_str CapabilityKind = ''capability''"
| "node_kind_str ActorKind = ''actor''"
| "node_kind_str ProfileKind = ''profile''"
| "node_kind_str SkillKind = ''skill''"

text \<open>The derived order of the kinds is the order of their declaration.\<close>

definition node_kinds :: "graph_node_kind list" where
  "node_kinds =
     [WorkspaceKind, NativeToolchain, MetadataPlane, RuntimeController, PackageTranslator,
      PortableComponentRuntime, PackageKind, AppKind, SiteKind, PatternKind, ToolKind, RuntimeKind,
      AgentKind, PolicyKind, CapabilityKind, ActorKind, ProfileKind, SkillKind]"

definition kind_rank :: "graph_node_kind \<Rightarrow> nat" where
  "kind_rank k = length (takeWhile (\<lambda>x. x \<noteq> k) node_kinds)"

lemma nth_takeWhile_neq: "x \<in> set xs \<Longrightarrow> xs ! length (takeWhile (\<lambda>y. y \<noteq> x) xs) = x"
  by (induction xs) auto

lemma nth_kind_rank: "node_kinds ! kind_rank k = k"
proof -
  have "k \<in> set node_kinds" unfolding node_kinds_def list.set by (cases k) blast+
  then show ?thesis unfolding kind_rank_def by (rule nth_takeWhile_neq)
qed

instantiation graph_node_kind :: linorder
begin

definition less_eq_graph_node_kind :: "graph_node_kind \<Rightarrow> graph_node_kind \<Rightarrow> bool" where
  "less_eq_graph_node_kind a b \<longleftrightarrow> kind_rank a \<le> kind_rank b"

definition less_graph_node_kind :: "graph_node_kind \<Rightarrow> graph_node_kind \<Rightarrow> bool" where
  "less_graph_node_kind a b \<longleftrightarrow> kind_rank a < kind_rank b"

instance
proof
  fix a b c :: graph_node_kind
  show "a = b" if "a \<le> b" and "b \<le> a"
  proof -
    have "kind_rank a = kind_rank b" using that by (simp add: less_eq_graph_node_kind_def)
    then show ?thesis using nth_kind_rank by metis
  qed
qed (auto simp: less_eq_graph_node_kind_def less_graph_node_kind_def)

end

datatype graph_relation =
    Provides | Requires | Uses | GovernedBy | BlockedBy | PackagedBy | RunsOn | Selects | CanInvoke

fun relation_str :: "graph_relation \<Rightarrow> string" where
  "relation_str Provides = ''provides''"
| "relation_str Requires = ''requires''"
| "relation_str Uses = ''uses''"
| "relation_str GovernedBy = ''governed-by''"
| "relation_str BlockedBy = ''blocked-by''"
| "relation_str PackagedBy = ''packaged-by''"
| "relation_str RunsOn = ''runs-on''"
| "relation_str Selects = ''selects''"
| "relation_str CanInvoke = ''can-invoke''"

record graph_node =
  gn_id :: string
  gn_kind :: graph_node_kind

record graph_edge =
  ge_from :: string
  ge_rel :: graph_relation
  ge_to :: string

text \<open>The generation envelope and its fingerprints have the fields of the registry's.\<close>

record graph_document =
  gd_generated_at :: string
  gd_generation :: registry_generation
  gd_nodes :: "graph_node list"
  gd_edges :: "graph_edge list"

record graph_env =
  ge_registry :: registry_env
  ge_decode_graph :: "string \<Rightarrow> (string, graph_document) result"
  ge_decode_units_view :: "string \<Rightarrow> (string, registry_generation option) result"

section \<open>Lexical checks\<close>

definition GRAPH_UPSTREAM_PATHS :: "string list" where
  "GRAPH_UPSTREAM_PATHS =
     [''registry/policies.json'', ''registry/profiles.json'', ''registry/skills.json'', ''registry/units.json'']"

definition digits_at :: "string \<Rightarrow> nat \<Rightarrow> nat \<Rightarrow> bool" where
  "digits_at ts lo hi \<longleftrightarrow> list_all is_ascii_digit (take (hi - lo) (drop lo ts))"

definition graph_utc_lexical :: "string \<Rightarrow> bool" where
  "graph_utc_lexical ts \<longleftrightarrow>
     length ts = 20 \<and> ts ! 4 = CHR ''-'' \<and> ts ! 7 = CHR ''-'' \<and> ts ! 10 = CHR ''T'' \<and> ts ! 13 = CHR '':'' \<and>
     ts ! 16 = CHR '':'' \<and> ends_with ts ''Z'' \<and> digits_at ts 0 4 \<and> digits_at ts 5 7 \<and> digits_at ts 8 10 \<and>
     digits_at ts 11 13 \<and> digits_at ts 14 16 \<and> digits_at ts 17 19"

definition require_graph_utc_seconds :: "string \<Rightarrow> string \<Rightarrow> (controller_error, unit) result" where
  "require_graph_utc_seconds ts field =
     (if \<not> graph_utc_lexical ts then Inl (graph_contract_invalid (''invalid '' @ field @ '' timestamp''))
      else (case parse_rfc3339_utc_seconds ts of
              Inl _ \<Rightarrow> Inl (graph_contract_invalid (''invalid '' @ field @ '' timestamp''))
            | Inr _ \<Rightarrow> Inr ()))"

definition graph_control :: "string \<Rightarrow> bool" where
  "graph_control u \<longleftrightarrow> (case u of [c] \<Rightarrow> byte c < 32 \<or> byte c = 127 | _ \<Rightarrow> False)"

definition check_id :: "string \<Rightarrow> string \<Rightarrow> (controller_error, unit) result" where
  "check_id i label =
     (if i = [] then Inl (graph_contract_invalid (label @ '' must be non-empty''))
      else if length i > GRAPH_ID_LIMIT_BYTES then
        Inl (graph_limit_exceeded (label @ '' exceeds '' @ show_nat GRAPH_ID_LIMIT_BYTES @ '' byte limit''))
      else if list_ex graph_control (chars i) then
        Inl (graph_contract_invalid (label @ '' contains control characters''))
      else Inr ())"

definition is_sha256_hex :: "string \<Rightarrow> bool" where
  "is_sha256_hex s \<longleftrightarrow> length s = 64 \<and> list_all (\<lambda>c. is_ascii_digit c \<or> 97 \<le> byte c \<and> byte c \<le> 102) s"

definition truncate_id :: "string \<Rightarrow> string" where
  "truncate_id i =
     (let cs = chars i in
      if length cs > 60 then concat (take 60 cs) @ [CHR 0xE2, CHR 0x80, CHR 0xA6] else concat (take 60 cs))"

section \<open>Validation\<close>

fun fingerprint_shape_loop :: "string list \<Rightarrow> source_fingerprint list \<Rightarrow> (controller_error, unit) result" where
  "fingerprint_shape_loop seen [] = Inr ()"
| "fingerprint_shape_loop seen (fp # fps) =
     (if fp_algorithm fp \<noteq> ''sha256'' then Inl (graph_contract_invalid ''unsupported fingerprint algorithm'')
      else if \<not> is_sha256_hex (fp_digest fp) then Inl (graph_contract_invalid ''malformed fingerprint digest'')
      else if starts_with (fp_path fp) ''/'' \<or> contains (fp_path fp) [CHR 0x5C] \<or> contains (fp_path fp) ''..'' then
        Inl (graph_contract_invalid ''fingerprint path must be relative and non-traversing'')
      else if fp_path fp \<in> set seen then Inl (graph_contract_invalid ''duplicate fingerprint path'')
      else fingerprint_shape_loop (fp_path fp # seen) fps)"

definition validate_fingerprint_shape :: "registry_generation \<Rightarrow> (controller_error, unit) result" where
  "validate_fingerprint_shape generation =
     (let fps = rg_source_fingerprints generation; paths = map fp_path fps in
      if length fps \<noteq> 4 then Inl (graph_contract_invalid ''graph fingerprint count must be exactly 4'')
      else rbind (fingerprint_shape_loop [] fps) (\<lambda>_.
        if paths \<noteq> GRAPH_UPSTREAM_PATHS then
          (if sort paths = GRAPH_UPSTREAM_PATHS then Inl (graph_contract_invalid ''fingerprint paths unsorted'')
           else Inl (graph_contract_invalid ''fingerprint path set must be policies/profiles/skills/units''))
        else Inr ()))"

fun check_nodes :: "string list \<Rightarrow> graph_node list \<Rightarrow> (controller_error, string list) result" where
  "check_nodes seen [] = Inr seen"
| "check_nodes seen (n # ns) =
     rbind (check_id (gn_id n) ''node id'') (\<lambda>_.
       if gn_id n \<in> set seen then
         Inl (graph_contract_invalid (''duplicate node id '' @ [CHR 0x27] @ truncate_id (gn_id n) @ [CHR 0x27]))
       else check_nodes (gn_id n # seen) ns)"

definition edge_key :: "graph_edge \<Rightarrow> string \<times> string \<times> string" where
  "edge_key e = (ge_from e, relation_str (ge_rel e), ge_to e)"

fun check_edges ::
  "string list \<Rightarrow> (string \<times> string \<times> string) list \<Rightarrow> graph_edge list \<Rightarrow> (controller_error, unit) result" where
  "check_edges ids seen [] = Inr ()"
| "check_edges ids seen (e # es) =
     rbind (check_id (ge_from e) ''edge from'') (\<lambda>_.
     rbind (check_id (ge_to e) ''edge to'') (\<lambda>_.
     rbind (check_id (relation_str (ge_rel e)) ''edge rel'') (\<lambda>_.
       if ge_from e \<notin> set ids then
         Inl (graph_endpoint_invalid (''missing edge source '' @ [CHR 0x27] @ truncate_id (ge_from e) @ [CHR 0x27]))
       else if ge_to e \<notin> set ids then
         Inl (graph_endpoint_invalid (''missing edge target '' @ [CHR 0x27] @ truncate_id (ge_to e) @ [CHR 0x27]))
       else if edge_key e \<in> set seen then Inl (graph_contract_invalid ''duplicate edge tuple'')
       else check_edges ids (edge_key e # seen) es)))"

definition node_key :: "graph_node \<Rightarrow> graph_node_kind \<times> string" where
  "node_key n = (gn_kind n, gn_id n)"

definition canonicalize_graph :: "graph_document \<Rightarrow> graph_document" where
  "canonicalize_graph doc =
     doc\<lparr>gd_nodes := sort_key node_key (gd_nodes doc), gd_edges := sort_key edge_key (gd_edges doc)\<rparr>"

definition validate_graph_document :: "graph_document \<Rightarrow> (controller_error, graph_document) result" where
  "validate_graph_document doc =
     rbind (require_graph_utc_seconds (gd_generated_at doc) ''generated_at'') (\<lambda>_.
     rbind (require_graph_utc_seconds (rg_generated_at (gd_generation doc)) ''registry_generation.generated_at'') (\<lambda>_.
     rbind (validate_fingerprint_shape (gd_generation doc)) (\<lambda>_.
       if length (gd_nodes doc) > GRAPH_NODE_LIMIT then
         Inl (graph_limit_exceeded (''node count '' @ show_nat (length (gd_nodes doc)) @ '' exceeds limit '' @
           show_nat GRAPH_NODE_LIMIT))
       else if length (gd_edges doc) > GRAPH_EDGE_LIMIT then
         Inl (graph_limit_exceeded (''edge count '' @ show_nat (length (gd_edges doc)) @ '' exceeds limit '' @
           show_nat GRAPH_EDGE_LIMIT))
       else rbind (check_nodes [] (gd_nodes doc)) (\<lambda>seen_ids.
            rbind (check_edges seen_ids [] (gd_edges doc)) (\<lambda>_. Inr (canonicalize_graph doc))))))"

section \<open>Freshness\<close>

definition map_graph_file_err :: "secure_file_error \<Rightarrow> controller_error" where
  "map_graph_file_err e =
     (case e of
        SecureMissing \<Rightarrow> graph_missing
      | SecureLimit limit \<Rightarrow>
          graph_limit_exceeded (''registry/graph.json exceeds '' @ show_nat limit @ '' byte limit'')
      | SecureSymlink \<Rightarrow> graph_contract_invalid ''registry/graph.json must not be a symlink''
      | SecureNonRegular \<Rightarrow> graph_contract_invalid ''registry/graph.json must be a regular non-symlink file''
      | SecureIo _ _ _ \<Rightarrow> graph_contract_invalid (''registry/graph.json: '' @ public_message e))"

definition map_freshness_hash_err :: "secure_file_error \<Rightarrow> string \<Rightarrow> (controller_error, unit) result" where
  "map_freshness_hash_err e non_regular_msg =
     (case e of
        SecureMissing \<Rightarrow> Inr ()
      | SecureSymlink \<Rightarrow> Inl (graph_contract_invalid non_regular_msg)
      | SecureNonRegular \<Rightarrow> Inl (graph_contract_invalid non_regular_msg)
      | SecureLimit _ \<Rightarrow> Inl (graph_contract_invalid (non_regular_msg @ '': '' @ public_message e))
      | SecureIo _ _ _ \<Rightarrow> Inl (graph_contract_invalid (public_message e)))"

definition map_units_metadata_err :: "secure_file_error \<Rightarrow> (controller_error, freshness) result" where
  "map_units_metadata_err e =
     (case e of
        SecureMissing \<Rightarrow> Inr Stale
      | SecureLimit limit \<Rightarrow>
          Inl (graph_limit_exceeded (''registry/units.json exceeds '' @ show_nat limit @ '' byte limit''))
      | SecureSymlink \<Rightarrow> Inl (graph_contract_invalid ''registry/units.json must not be a symlink'')
      | SecureNonRegular \<Rightarrow>
          Inl (graph_contract_invalid ''registry/units.json must be a regular non-symlink file'')
      | SecureIo _ _ _ \<Rightarrow> Inl (graph_contract_invalid (''registry/units.json: '' @ public_message e)))"

definition sha256_regular_nofollow ::
  "registry_env \<Rightarrow> sfsys \<Rightarrow> path \<Rightarrow> string \<Rightarrow> (secure_file_error, source_fingerprint) result" where
  "sha256_regular_nofollow env fs physical display =
     rbind (sha256_hex_regular_nofollow env fs physical display) (\<lambda>digest.
       Inr \<lparr>fp_path = display, fp_algorithm = ''sha256'', fp_digest = digest\<rparr>)"

definition upstream_names :: "string list" where
  "upstream_names = [''policies.json'', ''profiles.json'', ''skills.json'', ''units.json'']"

definition resolve_graph_upstream :: "path \<Rightarrow> string \<Rightarrow> (controller_error, path) result" where
  "resolve_graph_upstream registry_root recorded =
     (case strip_prefix recorded ''registry/'' of
        None \<Rightarrow> Inl (graph_contract_invalid ''graph upstream fingerprint path must start with registry/'')
      | Some name \<Rightarrow>
          (if name \<notin> set upstream_names then
             Inl (graph_contract_invalid
               ''graph upstream fingerprint path set must be policies/profiles/skills/units'')
           else if contains name ''/'' \<or> contains name [CHR 0x5C] \<or> contains name ''..'' then
             Inl (graph_contract_invalid ''fingerprint path must be relative and non-traversing'')
           else Inr (path_join registry_root (components name))))"

definition resolve_confined :: "sfsys \<Rightarrow> path \<Rightarrow> string \<Rightarrow> (controller_error, path) result" where
  "resolve_confined fs workspace_root recorded =
     (if recorded = [] \<or> starts_with recorded ''/'' \<or> contains recorded [CHR 0x5C] \<or> contains recorded ''..'' then
        Inl (graph_contract_invalid ''fingerprint path must be relative and non-traversing'')
      else
        (let joined = path_join workspace_root (components recorded);
             root = unwrap_or (canonicalize fs workspace_root) workspace_root;
             escapes = (case path_pop joined of
                None \<Rightarrow> False
              | Some parent \<Rightarrow>
                  (case canonicalize fs parent of
                     Inl _ \<Rightarrow> False
                   | Inr canon_parent \<Rightarrow> \<not> path_starts_with canon_parent root))
         in if escapes then Inl (graph_contract_invalid ''fingerprint path escapes workspace root'')
            else Inr joined))"

text \<open>
  One loop over recorded fingerprints: \<open>locate\<close> resolves a recorded path, \<open>same\<close> compares the current
  digest with the recorded one. The result says whether every source is current.
\<close>

fun upstream_loop :: "graph_env \<Rightarrow> sfsys \<Rightarrow> path \<Rightarrow> source_fingerprint list \<Rightarrow> (controller_error, bool) result" where
  "upstream_loop env fs registry_root [] = Inr True"
| "upstream_loop env fs registry_root (fp # fps) =
     rbind (resolve_graph_upstream registry_root (fp_path fp)) (\<lambda>abs_path.
       case sha256_regular_nofollow (ge_registry env) fs abs_path (fp_path fp) of
         Inl e \<Rightarrow>
           rbind (map_freshness_hash_err e
              (''upstream fingerprint target must be a regular non-symlink file ('' @ fp_path fp @ '')''))
             (\<lambda>_. Inr False)
       | Inr current \<Rightarrow>
           (if fp_digest current \<noteq> fp_digest fp \<or> fp_algorithm current \<noteq> fp_algorithm fp then Inr False
            else upstream_loop env fs registry_root fps))"

fun authored_loop :: "graph_env \<Rightarrow> sfsys \<Rightarrow> path \<Rightarrow> source_fingerprint list \<Rightarrow> (controller_error, bool) result" where
  "authored_loop env fs workspace_root [] = Inr True"
| "authored_loop env fs workspace_root (fp # fps) =
     (if fp_algorithm fp \<noteq> ''sha256'' \<or> \<not> is_sha256_hex (fp_digest fp) then
        Inl (graph_contract_invalid ''authored fingerprint metadata invalid'')
      else rbind (resolve_confined fs workspace_root (fp_path fp)) (\<lambda>abs_path.
        case sha256_regular_nofollow (ge_registry env) fs abs_path (fp_path fp) of
          Inl e \<Rightarrow>
            rbind (map_freshness_hash_err e
               (''authored source must be a regular non-symlink file ('' @ fp_path fp @ '')''))
              (\<lambda>_. Inr False)
        | Inr current \<Rightarrow>
            (if fp_digest current \<noteq> fp_digest fp then Inr False
             else authored_loop env fs workspace_root fps)))"

definition authored_freshness ::
  "graph_env \<Rightarrow> sfsys \<Rightarrow> path \<Rightarrow> registry_generation option \<Rightarrow> (controller_error, freshness) result" where
  "authored_freshness env fs workspace_root view =
     (case view of
        None \<Rightarrow> Inr Stale
      | Some authored \<Rightarrow>
          rbind (require_graph_utc_seconds (rg_generated_at authored) ''units.registry_generation.generated_at'') (\<lambda>_.
            if rg_source_fingerprints authored = [] then Inr Stale
            else rbind (authored_loop env fs workspace_root (rg_source_fingerprints authored)) (\<lambda>fresh.
              Inr (if fresh then Hit else Stale))))"

definition evaluate_graph_freshness ::
  "graph_env \<Rightarrow> sfsys \<Rightarrow> registry_paths \<Rightarrow> graph_document \<Rightarrow> (controller_error, freshness) result" where
  "evaluate_graph_freshness env fs paths doc =
     rbind (upstream_loop env fs (rp_registry_root paths) (rg_source_fingerprints (gd_generation doc))) (\<lambda>fresh.
       if \<not> fresh then Inr Stale
       else (case read_bounded_nofollow fs (file_path paths Units) ''registry/units.json''
                    GRAPH_FRESHNESS_METADATA_LIMIT_BYTES of
               Inl e \<Rightarrow> map_units_metadata_err e
             | Inr units_bytes \<Rightarrow>
                 rbind (map_err (\<lambda>e. graph_contract_invalid (''malformed units.json: '' @ e))
                          (ge_decode_units_view env units_bytes)) (\<lambda>view.
                   authored_freshness env fs (rp_workspace_root paths) view)))"

definition load_graph ::
  "graph_env \<Rightarrow> sfsys \<Rightarrow> registry_paths \<Rightarrow> (controller_error, graph_document) result" where
  "load_graph env fs paths =
     rbind (map_err map_graph_file_err
              (read_bounded_nofollow fs (file_path paths Graph) ''registry/graph.json'' GRAPH_FILE_LIMIT_BYTES)) (\<lambda>buf.
     rbind (map_err (\<lambda>e. graph_contract_invalid (''malformed graph.json: '' @ e)) (ge_decode_graph env buf)) (\<lambda>raw.
     rbind (validate_graph_document raw) (\<lambda>doc.
     rbind (evaluate_graph_freshness env fs paths doc) (\<lambda>freshness.
       case freshness of
         Hit \<Rightarrow> Inr doc
       | Stale \<Rightarrow> Inl (graph_stale ''graph upstream or authored unit fingerprints are stale'')
       | Miss \<Rightarrow> Inl graph_missing))))"

section \<open>Rendering\<close>

definition TEXT_EDGE_LINE_LIMIT :: nat where "TEXT_EDGE_LINE_LIMIT = 10000"

definition nl :: string where "nl = [CHR 0x0A]"

definition text_edge_line :: "graph_edge \<Rightarrow> string" where
  "text_edge_line e = ge_from e @ '' -'' @ relation_str (ge_rel e) @ ''-> '' @ ge_to e @ nl"

definition render_text :: "graph_document \<Rightarrow> string \<Rightarrow> string" where
  "render_text doc freshness =
     (let shown = min (length (gd_edges doc)) TEXT_EDGE_LINE_LIMIT;
          omitted = length (gd_edges doc) - shown
      in ''Graph freshness: '' @ freshness @ nl @ ''Generated at: '' @ gd_generated_at doc @ nl @
         ''Nodes: '' @ show_nat (length (gd_nodes doc)) @ nl @ ''Edges: '' @ show_nat (length (gd_edges doc)) @ nl @ nl @
         concat (map text_edge_line (take shown (gd_edges doc))) @
         (if omitted > 0 then
            nl @ [CHR 0xE2, CHR 0x80, CHR 0xA6, CHR '' ''] @ show_nat omitted @ '' edge line(s) omitted (limit '' @
            show_nat TEXT_EDGE_LINE_LIMIT @ '')'' @ nl
          else []))"

definition escape_char :: "char \<Rightarrow> string" where
  "escape_char c =
     (if c = CHR 0x5C then [CHR 0x5C, CHR 0x5C] else if c = CHR 0x22 then [CHR 0x5C, CHR 0x22] else [c])"

text \<open>Works on bytes: the two escaped characters are ASCII, so no other scalar value contains their bytes.\<close>

definition escape_dot :: "string \<Rightarrow> string" where
  "escape_dot s = concat (map escape_char s)"

definition dot_quoted :: "string \<Rightarrow> string" where
  "dot_quoted s = [CHR 0x22] @ escape_dot s @ [CHR 0x22]"

definition dot_node :: "graph_node \<Rightarrow> string" where
  "dot_node n = ''  '' @ dot_quoted (gn_id n) @ '';'' @ nl"

definition dot_edge :: "graph_edge \<Rightarrow> string" where
  "dot_edge e =
     ''  '' @ dot_quoted (ge_from e) @ '' -> '' @ dot_quoted (ge_to e) @ '' [label='' @
     dot_quoted (relation_str (ge_rel e)) @ ''];'' @ nl"

definition render_dot :: "graph_document \<Rightarrow> string" where
  "render_dot doc =
     ''digraph {'' @ nl @ concat (map dot_node (gd_nodes doc)) @ concat (map dot_edge (gd_edges doc)) @ ''}'' @ nl"

section \<open>Properties: validation\<close>

definition timestamp_ok :: "string \<Rightarrow> bool" where
  "timestamp_ok ts \<longleftrightarrow> graph_utc_lexical ts \<and> (\<exists>t. parse_rfc3339_utc_seconds ts = Inr t)"

definition id_ok :: "string \<Rightarrow> bool" where
  "id_ok i \<longleftrightarrow> i \<noteq> [] \<and> length i \<le> GRAPH_ID_LIMIT_BYTES \<and> (\<forall>u \<in> set (chars i). \<not> graph_control u)"

definition fingerprint_ok :: "source_fingerprint \<Rightarrow> bool" where
  "fingerprint_ok fp \<longleftrightarrow> fp_algorithm fp = ''sha256'' \<and> is_sha256_hex (fp_digest fp)"

text \<open>The contract of a graph document, without the order of the checks.\<close>

definition graph_wf :: "graph_document \<Rightarrow> bool" where
  "graph_wf doc \<longleftrightarrow>
     timestamp_ok (gd_generated_at doc) \<and> timestamp_ok (rg_generated_at (gd_generation doc)) \<and>
     map fp_path (rg_source_fingerprints (gd_generation doc)) = GRAPH_UPSTREAM_PATHS \<and>
     list_all fingerprint_ok (rg_source_fingerprints (gd_generation doc)) \<and>
     length (gd_nodes doc) \<le> GRAPH_NODE_LIMIT \<and> length (gd_edges doc) \<le> GRAPH_EDGE_LIMIT \<and>
     list_all (\<lambda>n. id_ok (gn_id n)) (gd_nodes doc) \<and> distinct (map gn_id (gd_nodes doc)) \<and>
     list_all (\<lambda>e. ge_from e \<in> gn_id ` set (gd_nodes doc) \<and> ge_to e \<in> gn_id ` set (gd_nodes doc)) (gd_edges doc) \<and>
     distinct (gd_edges doc)"

lemma require_graph_utc_seconds_iff: "require_graph_utc_seconds ts field = Inr u \<longleftrightarrow> timestamp_ok ts"
  by (auto simp: require_graph_utc_seconds_def timestamp_ok_def split: sum.splits)

lemma check_id_iff: "check_id i label = Inr u \<longleftrightarrow> id_ok i"
  by (auto simp: check_id_def id_ok_def list_ex_iff)

lemma relation_id_ok: "id_ok (relation_str r)"
proof -
  have "list_all id_ok (map relation_str [Provides, Requires, Uses, GovernedBy, BlockedBy, PackagedBy, RunsOn, Selects, CanInvoke])"
    by code_simp
  then show ?thesis by (cases r) simp_all
qed

lemma relation_str_inj: "relation_str a = relation_str b \<longleftrightarrow> a = b"
  by (cases a; cases b) simp_all

lemma edge_key_inj: "inj edge_key"
  by (auto simp: inj_def edge_key_def relation_str_inj intro: graph_edge.equality)

lemma distinct_edge_keys: "distinct (map edge_key es) \<longleftrightarrow> distinct es"
  using inj_on_subset [OF edge_key_inj] by (simp add: distinct_map)

lemma fingerprint_shape_loop_iff:
  "fingerprint_shape_loop seen fps = Inr u \<longleftrightarrow>
     list_all fingerprint_ok fps \<and>
     list_all (\<lambda>p. \<not> starts_with p ''/'' \<and> \<not> contains p [CHR 0x5C] \<and> \<not> contains p ''..'') (map fp_path fps) \<and>
     distinct (map fp_path fps) \<and> set (map fp_path fps) \<inter> set seen = {}"
  by (induction seen fps rule: fingerprint_shape_loop.induct) (auto simp: fingerprint_ok_def)

lemma upstream_paths_plain:
  "list_all (\<lambda>p. \<not> starts_with p ''/'' \<and> \<not> contains p [CHR 0x5C] \<and> \<not> contains p ''..'') GRAPH_UPSTREAM_PATHS"
  "distinct GRAPH_UPSTREAM_PATHS" "length GRAPH_UPSTREAM_PATHS = 4"
  by code_simp+

lemma validate_fingerprint_shape_iff:
  "validate_fingerprint_shape g = Inr u \<longleftrightarrow>
     map fp_path (rg_source_fingerprints g) = GRAPH_UPSTREAM_PATHS \<and> list_all fingerprint_ok (rg_source_fingerprints g)"
proof -
  have "length (rg_source_fingerprints g) = 4" if "map fp_path (rg_source_fingerprints g) = GRAPH_UPSTREAM_PATHS"
    using arg_cong [OF that, of length] upstream_paths_plain(3) by simp
  then show ?thesis
    using upstream_paths_plain(1,2)
    by (auto simp: validate_fingerprint_shape_def Let_def rbind_eq_Inr_iff fingerprint_shape_loop_iff)
qed

lemma check_nodes_iff:
  "check_nodes seen ns = Inr out \<longleftrightarrow>
     list_all (\<lambda>n. id_ok (gn_id n)) ns \<and> distinct (map gn_id ns) \<and> gn_id ` set ns \<inter> set seen = {} \<and>
     out = rev (map gn_id ns) @ seen"
  by (induction seen ns rule: check_nodes.induct) (auto simp: rbind_eq_Inr_iff check_id_iff)

lemma check_edges_iff:
  assumes "\<forall>i \<in> set ids. id_ok i"
  shows "check_edges ids seen es = Inr u \<longleftrightarrow>
     list_all (\<lambda>e. ge_from e \<in> set ids \<and> ge_to e \<in> set ids) es \<and> distinct (map edge_key es) \<and>
     edge_key ` set es \<inter> set seen = {}"
  using assms
  by (induction ids seen es rule: check_edges.induct) (auto simp: rbind_eq_Inr_iff check_id_iff relation_id_ok)

lemma validate_graph_exact:
  "validate_graph_document doc = Inr doc' \<longleftrightarrow> graph_wf doc \<and> doc' = canonicalize_graph doc"
proof -
  have nodes: "(\<exists>ids. check_nodes [] (gd_nodes doc) = Inr ids \<and> check_edges ids [] (gd_edges doc) = Inr ()) \<longleftrightarrow>
      list_all (\<lambda>n. id_ok (gn_id n)) (gd_nodes doc) \<and> distinct (map gn_id (gd_nodes doc)) \<and>
      list_all (\<lambda>e. ge_from e \<in> gn_id ` set (gd_nodes doc) \<and> ge_to e \<in> gn_id ` set (gd_nodes doc)) (gd_edges doc) \<and>
      distinct (gd_edges doc)"
    using check_edges_iff [of "rev (map gn_id (gd_nodes doc))" "[]" "gd_edges doc"]
    by (auto simp: check_nodes_iff distinct_edge_keys list_all_iff)
  show ?thesis
    unfolding validate_graph_document_def graph_wf_def rbind_eq_Inr_iff require_graph_utc_seconds_iff
      validate_fingerprint_shape_iff branch_eq_Inr_iff
    by (simp add: not_less nodes [symmetric]) blast
qed

lemma validated_graph_wf: "validate_graph_document doc = Inr doc' \<Longrightarrow> graph_wf doc'"
  by (auto simp: validate_graph_exact graph_wf_def canonicalize_graph_def list_all_iff distinct_map)

text \<open>
  C36: the validator accepts exactly the documents of the contract, and returns their canonical form:
  two valid timestamps, the four upstream fingerprints in order with SHA-256 digests, at most 20000 nodes
  and 100000 edges, identifiers that are non-empty, at most 512 bytes, free of control characters and
  unique, and edges that are distinct and join nodes of the document.
\<close>

theorem validate_graph_iff:
  "validate_graph_document doc = Inr doc' \<longleftrightarrow> graph_wf doc \<and> doc' = canonicalize_graph doc"
  by (rule validate_graph_exact)

text \<open>
  Validation gives a normal form. Two accepted documents with the same timestamps and fingerprints and
  the same nodes and edges in any order become the same document, with nodes in order of kind and
  identifier and edges in order of source, relation and target; validating it again changes nothing.
\<close>

theorem validated_graph_normal_form:
  assumes "validate_graph_document doc = Inr doc'"
  shows "sorted (map node_key (gd_nodes doc')) \<and> sorted (map edge_key (gd_edges doc')) \<and>
    validate_graph_document doc' = Inr doc' \<and>
    (\<forall>other out. validate_graph_document other = Inr out \<and> gd_generated_at other = gd_generated_at doc \<and>
       gd_generation other = gd_generation doc \<and> set (gd_nodes other) = set (gd_nodes doc) \<and>
       set (gd_edges other) = set (gd_edges doc) \<longrightarrow> out = doc')"
proof -
  have wf: "graph_wf doc" and d: "doc' = canonicalize_graph doc" using assms by (simp_all add: validate_graph_exact)
  have nd: "distinct (gd_nodes x) \<and> distinct (gd_edges x)" if "graph_wf x" for x :: graph_document
    using that by (auto simp: graph_wf_def distinct_map)
  have inj: "inj_on node_key A" for A :: "graph_node set"
    by (auto simp: inj_on_def node_key_def intro: graph_node.equality)
  have same: "sort_key f xs = sort_key f ys" if "distinct xs" "distinct ys" "set xs = set ys" "inj_on f (set xs)"
    for f :: "'a \<Rightarrow> 'k :: linorder" and xs ys :: "'a list"
    using that by (intro sort_key_inj_key_eq) (simp_all add: set_eq_iff_mset_eq_distinct)
  have "gd_nodes doc' = sort_key node_key (gd_nodes doc)" "gd_edges doc' = sort_key edge_key (gd_edges doc)"
    by (simp_all add: d canonicalize_graph_def)
  then have sorted: "sorted (map node_key (gd_nodes doc'))" "sorted (map edge_key (gd_edges doc'))" by simp_all
  have "graph_wf doc'"
    by (rule validated_graph_wf [OF assms])
  moreover have "canonicalize_graph doc' = doc'"
    using sorted by (simp add: canonicalize_graph_def sort_key_id_if_sorted)
  ultimately have again: "validate_graph_document doc' = Inr doc'" by (simp add: validate_graph_exact)
  have "out = doc'"
    if "validate_graph_document other = Inr out" "gd_generated_at other = gd_generated_at doc"
      "gd_generation other = gd_generation doc" "set (gd_nodes other) = set (gd_nodes doc)"
      "set (gd_edges other) = set (gd_edges doc)" for other out
  proof -
    have "graph_wf other" "out = canonicalize_graph other" using that(1) by (simp_all add: validate_graph_exact)
    then have "sort_key node_key (gd_nodes other) = sort_key node_key (gd_nodes doc)"
      "sort_key edge_key (gd_edges other) = sort_key edge_key (gd_edges doc)"
      using nd wf that(4,5) inj inj_on_subset [OF edge_key_inj] by (auto intro!: same)
    then show ?thesis
      using \<open>out = canonicalize_graph other\<close> that(2,3) by (simp add: d canonicalize_graph_def)
  qed
  with sorted again show ?thesis by blast
qed

section \<open>Properties: freshness\<close>

text \<open>A regular file, not a link, whose content has the recorded digest.\<close>

definition current_source :: "registry_env \<Rightarrow> sfsys \<Rightarrow> path \<Rightarrow> source_fingerprint \<Rightarrow> bool" where
  "current_source env fs p fp \<longleftrightarrow>
     symlink_metadata fs p = Inr RegularFile \<and>
     (\<exists>data. read_bytes fs p = Inr data \<and> fp_digest fp = rv_sha256_hex env data)"

lemma sha256_regular_nofollow_ok:
  assumes "sha256_regular_nofollow env fs p display = Inr c" and "fp_digest c = fp_digest fp"
  shows "current_source env fs p fp"
  using assms open_regular_nofollow_ok(1)
  unfolding sha256_regular_nofollow_def sha256_hex_regular_nofollow_def current_source_def
  by (fastforce simp: rbind_eq_Inr_iff map_err_eq_Inr_iff)

lemma resolve_graph_upstream_ok:
  "resolve_graph_upstream root recorded = Inr p \<Longrightarrow>
     \<exists>name \<in> set upstream_names. recorded = ''registry/'' @ name \<and> p = path_join root (components name)"
  by (auto simp: resolve_graph_upstream_def strip_prefix_Some_iff split: option.splits if_splits)

lemma upstream_loop_fresh:
  "upstream_loop env fs root fps = Inr True \<Longrightarrow> fp \<in> set fps \<Longrightarrow>
     \<exists>name \<in> set upstream_names. fp_path fp = ''registry/'' @ name \<and>
       current_source (ge_registry env) fs (path_join root (components name)) fp"
proof (induction env fs root fps rule: upstream_loop.induct)
  case (2 env fs root g gs)
  then obtain p c where p: "resolve_graph_upstream root (fp_path g) = Inr p"
    "sha256_regular_nofollow (ge_registry env) fs p (fp_path g) = Inr c" "fp_digest c = fp_digest g"
    "fp_algorithm c = fp_algorithm g" "upstream_loop env fs root gs = Inr True"
    by (auto simp: rbind_eq_Inr_iff case_sum_eq_Inr_iff split: if_splits)
  show ?case
  proof (cases "fp = g")
    case True
    then show ?thesis using resolve_graph_upstream_ok [OF p(1)] sha256_regular_nofollow_ok [OF p(2,3)] by blast
  next
    case False
    then show ?thesis using 2 p by auto
  qed
qed simp

text \<open>A recorded authored path is relative, and the directory of its file is below the workspace root.\<close>

definition confined_source :: "sfsys \<Rightarrow> path \<Rightarrow> string \<Rightarrow> bool" where
  "confined_source fs workspace_root recorded \<longleftrightarrow>
     recorded \<noteq> [] \<and> \<not> starts_with recorded ''/'' \<and> \<not> contains recorded ''..'' \<and>
     (\<forall>parent c. path_pop (path_join workspace_root (components recorded)) = Some parent \<and>
        canonicalize fs parent = Inr c \<longrightarrow> prefix (unwrap_or (canonicalize fs workspace_root) workspace_root) c)"

lemma resolve_confined_ok:
  "resolve_confined fs root recorded = Inr p \<Longrightarrow> confined_source fs root recorded \<and> p = path_join root (components recorded)"
  by (auto simp: resolve_confined_def confined_source_def path_starts_with_def Let_def split: if_splits option.splits sum.splits)

lemma authored_loop_fresh:
  "authored_loop env fs root fps = Inr True \<Longrightarrow> fp \<in> set fps \<Longrightarrow>
     fingerprint_ok fp \<and> confined_source fs root (fp_path fp) \<and>
     current_source (ge_registry env) fs (path_join root (components (fp_path fp))) fp"
proof (induction env fs root fps rule: authored_loop.induct)
  case (2 env fs root g gs)
  then obtain p c where p: "fingerprint_ok g" "resolve_confined fs root (fp_path g) = Inr p"
    "sha256_regular_nofollow (ge_registry env) fs p (fp_path g) = Inr c" "fp_digest c = fp_digest g"
    "authored_loop env fs root gs = Inr True"
    by (auto simp: rbind_eq_Inr_iff case_sum_eq_Inr_iff fingerprint_ok_def split: if_splits)
  show ?case
  proof (cases "fp = g")
    case True
    then show ?thesis using p(1) resolve_confined_ok [OF p(2)] sha256_regular_nofollow_ok [OF p(3,4)] by blast
  next
    case False
    then show ?thesis using 2 p by (auto simp: fingerprint_ok_def)
  qed
qed simp

lemma graph_limits: "GRAPH_FRESHNESS_METADATA_LIMIT_BYTES < 2 ^ 64 - 1" "GRAPH_FILE_LIMIT_BYTES < 2 ^ 64 - 1"
  by (simp_all add: GRAPH_FRESHNESS_METADATA_LIMIT_BYTES_def GRAPH_FILE_LIMIT_BYTES_def)

lemma map_units_metadata_err_not_hit: "map_units_metadata_err e \<noteq> Inr Hit"
  by (cases e) (simp_all add: map_units_metadata_err_def)

lemma graph_freshness_hit:
  assumes "evaluate_graph_freshness env fs paths doc = Inr Hit"
  obtains units authored where "upstream_loop env fs (rp_registry_root paths) (rg_source_fingerprints (gd_generation doc)) = Inr True"
    "read_bytes fs (file_path paths Units) = Inr units" "ge_decode_units_view env units = Inr (Some authored)"
    "rg_source_fingerprints authored \<noteq> []"
    "authored_loop env fs (rp_workspace_root paths) (rg_source_fingerprints authored) = Inr True"
proof -
  have up: "upstream_loop env fs (rp_registry_root paths) (rg_source_fingerprints (gd_generation doc)) = Inr True"
    using assms by (auto simp: evaluate_graph_freshness_def rbind_eq_Inr_iff split: if_splits)
  then obtain units view where u:
    "read_bounded_nofollow fs (file_path paths Units) ''registry/units.json'' GRAPH_FRESHNESS_METADATA_LIMIT_BYTES = Inr units"
    "ge_decode_units_view env units = Inr view" "authored_freshness env fs (rp_workspace_root paths) view = Inr Hit"
    using assms map_units_metadata_err_not_hit
    by (auto simp: evaluate_graph_freshness_def rbind_eq_Inr_iff map_err_eq_Inr_iff case_sum_eq_Inr_iff)
  obtain authored where "view = Some authored" "rg_source_fingerprints authored \<noteq> []"
    "authored_loop env fs (rp_workspace_root paths) (rg_source_fingerprints authored) = Inr True"
    using u(3) by (auto simp: authored_freshness_def rbind_eq_Inr_iff split: option.splits if_splits)
  then show thesis using that up read_bounded_nofollow_complete [OF u(1) graph_limits(1)] u(2) by blast
qed

text \<open>
  A graph that is loaded is valid and current. It satisfies the contract; each of its four upstream
  fingerprints is the digest of the registry file it names, which is a regular file and no link; and the
  units metadata lists at least one authored source, every one of which is named by a relative path
  without parent components, lies in a directory below the workspace root and has the recorded digest.
\<close>

theorem loaded_graph_current:
  assumes "load_graph env fs paths = Inr doc"
  shows "graph_wf doc \<and>
    (\<forall>fp \<in> set (rg_source_fingerprints (gd_generation doc)). \<exists>name \<in> set upstream_names.
       fp_path fp = ''registry/'' @ name \<and>
       current_source (ge_registry env) fs (path_join (rp_registry_root paths) (components name)) fp) \<and>
    (\<exists>units authored. read_bytes fs (file_path paths Units) = Inr units \<and>
       ge_decode_units_view env units = Inr (Some authored) \<and> rg_source_fingerprints authored \<noteq> [] \<and>
       (\<forall>fp \<in> set (rg_source_fingerprints authored).
          confined_source fs (rp_workspace_root paths) (fp_path fp) \<and>
          current_source (ge_registry env) fs (path_join (rp_workspace_root paths) (components (fp_path fp))) fp))"
proof -
  obtain raw where v: "validate_graph_document raw = Inr doc" "evaluate_graph_freshness env fs paths doc = Inr Hit"
    using assms unfolding load_graph_def by (elim rbind_InrE) (auto split: freshness.split_asm)
  have "graph_wf doc" using validated_graph_wf [OF v(1)] .
  moreover obtain units authored where f:
    "upstream_loop env fs (rp_registry_root paths) (rg_source_fingerprints (gd_generation doc)) = Inr True"
    "read_bytes fs (file_path paths Units) = Inr units" "ge_decode_units_view env units = Inr (Some authored)"
    "rg_source_fingerprints authored \<noteq> []"
    "authored_loop env fs (rp_workspace_root paths) (rg_source_fingerprints authored) = Inr True"
    by (rule graph_freshness_hit [OF v(2)])
  ultimately show ?thesis using upstream_loop_fresh [OF f(1)] authored_loop_fresh [OF f(5)] by blast
qed

section \<open>Properties: DOT\<close>

text \<open>A reader of the DOT statements: quoted strings in which a backslash takes the next byte as it is.\<close>

fun read_quoted :: "string \<Rightarrow> (string \<times> string) option" where
  "read_quoted [] = None"
| "read_quoted (c # cs) =
     (if c = CHR 0x22 then Some ([], cs)
      else if c = CHR 0x5C then
        (case cs of [] \<Rightarrow> None | d # ds \<Rightarrow> map_option (\<lambda>(s, r). (d # s, r)) (read_quoted ds))
      else map_option (\<lambda>(s, r). (c # s, r)) (read_quoted cs))"

datatype dot_statement = DotNode string | DotEdge string string string

definition quoted_at :: "string \<Rightarrow> string \<Rightarrow> (string \<times> string) option" where
  "quoted_at before s = Option.bind (strip_prefix s (before @ [CHR 0x22])) read_quoted"

definition read_statement :: "string \<Rightarrow> (dot_statement \<times> string) option" where
  "read_statement s =
     Option.bind (quoted_at ''  '' s) (\<lambda>(a, r).
       case strip_prefix r ('';'' @ nl) of
         Some rest \<Rightarrow> Some (DotNode a, rest)
       | None \<Rightarrow>
           Option.bind (quoted_at '' -> '' r) (\<lambda>(b, r).
           Option.bind (quoted_at '' [label='' r) (\<lambda>(l, r).
             map_option (\<lambda>rest. (DotEdge a b l, rest)) (strip_prefix r (''];'' @ nl)))))"

fun read_statements :: "nat \<Rightarrow> string \<Rightarrow> dot_statement list option" where
  "read_statements 0 s = None"
| "read_statements (Suc fuel) s =
     (if s = ''}'' @ nl then Some []
      else Option.bind (read_statement s) (\<lambda>(st, r). map_option ((#) st) (read_statements fuel r)))"

definition read_dot :: "string \<Rightarrow> dot_statement list option" where
  "read_dot s = Option.bind (strip_prefix s (''digraph {'' @ nl)) (\<lambda>r. read_statements (length r) r)"

lemma read_quoted_escape: "read_quoted (escape_dot s @ CHR 0x22 # rest) = Some (s, rest)"
  by (induction s) (auto simp: escape_dot_def escape_char_def)

lemma strip_prefix_append [simp]: "strip_prefix (p @ r) p = Some r"
  by (simp add: strip_prefix_def)

lemma quoted_at_dot: "quoted_at before (before @ dot_quoted s @ rest) = Some (s, rest)"
proof -
  have "before @ dot_quoted s @ rest = (before @ [CHR 0x22]) @ (escape_dot s @ CHR 0x22 # rest)"
    by (simp add: dot_quoted_def)
  then show ?thesis unfolding quoted_at_def by (simp only: strip_prefix_append Option.bind.simps read_quoted_escape)
qed

lemma read_statement_node: "read_statement (dot_node n @ rest) = Some (DotNode (gn_id n), rest)"
proof -
  have "quoted_at ''  '' (dot_node n @ rest) = Some (gn_id n, ('';'' @ nl) @ rest)"
    unfolding dot_node_def append_assoc by (rule quoted_at_dot)
  then show ?thesis unfolding read_statement_def by (simp only: Option.bind.simps prod.case strip_prefix_append option.case)
qed

lemma read_statement_edge:
  "read_statement (dot_edge e @ rest) = Some (DotEdge (ge_from e) (ge_to e) (relation_str (ge_rel e)), rest)"
proof -
  let ?l = "'' [label='' @ dot_quoted (relation_str (ge_rel e)) @ (''];'' @ nl) @ rest"
  let ?t = "'' -> '' @ dot_quoted (ge_to e) @ ?l"
  have "quoted_at ''  '' (dot_edge e @ rest) = Some (ge_from e, ?t)"
    unfolding dot_edge_def append_assoc by (rule quoted_at_dot)
  moreover have "strip_prefix ?t ('';'' @ nl) = None" by (simp add: strip_prefix_def)
  moreover have "quoted_at '' -> '' ?t = Some (ge_to e, ?l)" by (rule quoted_at_dot)
  moreover have "quoted_at '' [label='' ?l = Some (relation_str (ge_rel e), (''];'' @ nl) @ rest)" by (rule quoted_at_dot)
  ultimately show ?thesis
    unfolding read_statement_def
    by (simp only: Option.bind.simps prod.case option.case strip_prefix_append option.map)
qed

definition dot_statements :: "graph_document \<Rightarrow> dot_statement list" where
  "dot_statements doc =
     map (\<lambda>n. DotNode (gn_id n)) (gd_nodes doc) @
     map (\<lambda>e. DotEdge (ge_from e) (ge_to e) (relation_str (ge_rel e))) (gd_edges doc)"

lemma read_statements_render:
  assumes "\<And>x rest. x \<in> set xs \<Longrightarrow> read_statement (show_item x @ rest) = Some (item x, rest)"
    and "\<And>x. x \<in> set xs \<Longrightarrow> \<exists>r. show_item x = CHR '' '' # r"
  shows "read_statements (length xs + fuel) (concat (map show_item xs) @ rest) =
    map_option ((@) (map item xs)) (read_statements fuel rest)"
  using assms
proof (induction xs)
  case (Cons x xs)
  obtain r where r: "show_item x = CHR '' '' # r" using Cons.prems(2) by fastforce
  have "read_statements (length xs + fuel) (concat (map show_item xs) @ rest) =
      map_option ((@) (map item xs)) (read_statements fuel rest)"
    using Cons by simp
  moreover have "show_item x @ concat (map show_item xs) @ rest \<noteq> ''}'' @ nl" by (simp add: r)
  moreover have "read_statement (show_item x @ concat (map show_item xs) @ rest) = Some (item x, concat (map show_item xs) @ rest)"
    by (rule Cons.prems(1)) simp
  ultimately show ?case
    by (simp only: list.size add_Suc read_statements.simps if_False list.map concat.simps append_assoc
        Option.bind.simps prod.case option.map_comp o_def append_Cons)
      (simp add: option.map_comp o_def)
next
  case Nil
  show ?case by (cases "read_statements fuel rest") simp_all
qed

lemma length_concat_ge: "(\<And>x. x \<in> set xs \<Longrightarrow> f x \<noteq> []) \<Longrightarrow> length xs \<le> length (concat (map f xs))"
proof (induction xs)
  case (Cons x xs)
  then have "length xs \<le> length (concat (map f xs))" "f x \<noteq> []" by simp_all
  then show ?case by (cases "f x") simp_all
qed simp

text \<open>
  The DOT rendering cannot be broken out of. Whatever bytes the identifiers hold, quotation marks and
  backslashes included, reading the rendering back statement by statement gives one node statement per
  node and one edge statement per edge, in order, with the identifiers and relations unchanged.
\<close>

theorem render_dot_reads_back: "read_dot (render_dot doc) = Some (dot_statements doc)"
proof -
  let ?ns = "concat (map dot_node (gd_nodes doc))" and ?es = "concat (map dot_edge (gd_edges doc))"
  let ?body = "?ns @ ?es @ ''}'' @ nl"
  have lens: "length (gd_nodes doc) \<le> length ?ns" "length (gd_edges doc) \<le> length ?es"
    by (rule length_concat_ge; simp add: dot_node_def dot_edge_def)+
  obtain k where k: "length ?body = length (gd_nodes doc) + (length (gd_edges doc) + Suc k)"
  proof
    show "length ?body = length (gd_nodes doc) + (length (gd_edges doc) +
        Suc (length ?ns - length (gd_nodes doc) + (length ?es - length (gd_edges doc)) + 1))"
      using lens by (simp add: nl_def)
  qed
  have "read_statements (length ?body) ?body =
      map_option ((@) (map (\<lambda>n. DotNode (gn_id n)) (gd_nodes doc)))
        (read_statements (length (gd_edges doc) + Suc k) (?es @ ''}'' @ nl))"
    unfolding k by (rule read_statements_render [OF read_statement_node]) (simp add: dot_node_def)
  also have "read_statements (length (gd_edges doc) + Suc k) (?es @ ''}'' @ nl) =
      map_option ((@) (map (\<lambda>e. DotEdge (ge_from e) (ge_to e) (relation_str (ge_rel e))) (gd_edges doc)))
        (read_statements (Suc k) (''}'' @ nl))"
    by (rule read_statements_render [OF read_statement_edge]) (simp add: dot_edge_def)
  finally have "read_statements (length ?body) ?body = Some (dot_statements doc)" by (simp add: dot_statements_def)
  moreover have "render_dot doc = (''digraph {'' @ nl) @ ?body" by (simp add: render_dot_def)
  ultimately show ?thesis unfolding read_dot_def by (simp only: strip_prefix_append Option.bind.simps)
qed

section \<open>Examples\<close>

definition sample_digest :: string where "sample_digest = replicate 64 (CHR ''a'')"

definition sample_fingerprint :: "string \<Rightarrow> source_fingerprint" where
  "sample_fingerprint p = \<lparr>fp_path = p, fp_algorithm = ''sha256'', fp_digest = sample_digest\<rparr>"

definition sample_graph :: graph_document where
  "sample_graph =
     \<lparr>gd_generated_at = ''2026-07-25T00:00:00Z'',
      gd_generation = \<lparr>rg_generated_at = ''2026-07-25T00:00:00Z'',
        rg_source_fingerprints = map sample_fingerprint GRAPH_UPSTREAM_PATHS\<rparr>,
      gd_nodes = [\<lparr>gn_id = ''b'', gn_kind = PolicyKind\<rparr>, \<lparr>gn_id = ''a'', gn_kind = PackageKind\<rparr>],
      gd_edges = [\<lparr>ge_from = ''a'', ge_rel = GovernedBy, ge_to = ''b''\<rparr>]\<rparr>"

text \<open>A file system in which every path is a regular file, and decoders that give the sample.\<close>

definition flat_fs :: sfsys where
  "flat_fs =
     \<lparr>symlink_metadata = (\<lambda>p. Inr RegularFile), metadata = (\<lambda>p. Inr RegularFile), canonicalize = Inr,
      read_bytes = (\<lambda>p. Inr ''x''), read_dir = (\<lambda>p. Inl NotFound), mode_bits = (\<lambda>p. 0x1A4),
      open_nofollow = (\<lambda>p. Inr (Inr (RegularFile, 1)))\<rparr>"

definition sample_graph_env :: graph_env where
  "sample_graph_env =
     \<lparr>ge_registry = \<lparr>rv_io_text = (\<lambda>_. ''io''), rv_sha256_hex = (\<lambda>_. sample_digest), rv_units = (\<lambda>_. Inl ''''),
        rv_scan = (\<lambda>_. Inl ''''), rv_tools = (\<lambda>_. Inl ''''), rv_profiles = (\<lambda>_. Inl ''''),
        rv_policies = (\<lambda>_. Inl ''''), rv_descriptor = (\<lambda>_. Inl '''')\<rparr>,
      ge_decode_graph = (\<lambda>_. Inr sample_graph),
      ge_decode_units_view = (\<lambda>_. Inr (Some \<lparr>rg_generated_at = ''2026-07-25T00:00:00Z'',
        rg_source_fingerprints = [sample_fingerprint ''app/unit.toml'']\<rparr>))\<rparr>"

definition sample_registry_paths :: registry_paths where
  "sample_registry_paths = \<lparr>rp_registry_root = components ''/reg'', rp_workspace_root = components ''/ws''\<rparr>"

lemma sample_graph_wf: "graph_wf sample_graph"
proof -
  have "graph_utc_lexical ''2026-07-25T00:00:00Z''" by code_simp
  moreover have "(case parse_rfc3339_utc_seconds ''2026-07-25T00:00:00Z'' of Inr _ \<Rightarrow> True | Inl _ \<Rightarrow> False)" by code_simp
  ultimately have ts: "timestamp_ok ''2026-07-25T00:00:00Z''" by (auto simp: timestamp_ok_def split: sum.splits)
  have "list_all fingerprint_ok (map sample_fingerprint GRAPH_UPSTREAM_PATHS)" by code_simp
  moreover have "list_all (\<lambda>c. \<not> graph_control [c]) ''ab''" by code_simp
  ultimately show ?thesis
    by (simp add: graph_wf_def sample_graph_def ts sample_fingerprint_def o_def GRAPH_NODE_LIMIT_def GRAPH_EDGE_LIMIT_def
        id_ok_def GRAPH_ID_LIMIT_BYTES_def utf8_width_def)
qed

lemma sample_graph_validates: "validate_graph_document sample_graph = Inr (canonicalize_graph sample_graph)"
  by (simp add: validate_graph_exact sample_graph_wf)

lemma read_flat: "0 < limit \<Longrightarrow> read_bounded_nofollow flat_fs p display limit = Inr ''x''"
  by (simp add: read_bounded_nofollow_def open_regular_nofollow_def open_regular_nofollow_inner_def flat_fs_def
      require_regular_def Let_def)

lemma sample_graph_loads:
  "load_graph sample_graph_env flat_fs sample_registry_paths = Inr (canonicalize_graph sample_graph)"
proof -
  let ?env = sample_graph_env and ?paths = sample_registry_paths
  have "upstream_loop ?env flat_fs (rp_registry_root ?paths) (map sample_fingerprint GRAPH_UPSTREAM_PATHS) = Inr True"
    by code_simp
  moreover have "authored_freshness ?env flat_fs (rp_workspace_root ?paths)
      (Some \<lparr>rg_generated_at = ''2026-07-25T00:00:00Z'', rg_source_fingerprints = [sample_fingerprint ''app/unit.toml'']\<rparr>) = Inr Hit"
    by code_simp
  moreover have "gd_generation (canonicalize_graph sample_graph) = gd_generation sample_graph"
    by (simp add: canonicalize_graph_def)
  ultimately have "evaluate_graph_freshness ?env flat_fs ?paths (canonicalize_graph sample_graph) = Inr Hit"
    by (simp add: evaluate_graph_freshness_def sample_graph_def read_flat GRAPH_FRESHNESS_METADATA_LIMIT_BYTES_def)
      (simp add: sample_graph_env_def)
  then show ?thesis
    by (simp add: load_graph_def read_flat GRAPH_FILE_LIMIT_BYTES_def sample_graph_validates)
      (simp add: sample_graph_env_def sample_graph_validates)
qed

theorem loaded_graph_current_witness:
  "\<exists>doc. load_graph sample_graph_env flat_fs sample_registry_paths = Inr doc \<and> graph_wf doc"
  using loaded_graph_current [OF sample_graph_loads] sample_graph_loads by blast

theorem validated_graph_normal_form_witness:
  "\<exists>doc. validate_graph_document sample_graph = Inr doc \<and> validate_graph_document doc = Inr doc \<and>
     gd_nodes doc \<noteq> gd_nodes sample_graph"
proof -
  have "gd_nodes (canonicalize_graph sample_graph) \<noteq> gd_nodes sample_graph" by code_simp
  then show ?thesis using validated_graph_normal_form [OF sample_graph_validates] sample_graph_validates by blast
qed

end
