(* ===== verification/Stream_Capture.thy ===== *)
theory Stream_Capture
  imports Policy_Paths Std_Collections Record_Contract
begin

text \<open>
  Output streams of a child (\<open>execution/streams.rs\<close>, the limits and summaries of \<open>execution/mod.rs\<close>): a pipe
  is the list of what its reads return, a destination records what it was sent and may fail at any write.
\<close>

section \<open>Pipes\<close>

definition DEFAULT_CAPTURE_LIMIT :: nat where "DEFAULT_CAPTURE_LIMIT = 256 * 1024"

datatype stream_encoding = Utf8 | LossyUtf8 | Binary

fun encoding_str :: "stream_encoding \<Rightarrow> string" where
  "encoding_str Utf8 = ''utf-8''"
| "encoding_str LossyUtf8 = ''lossy-utf-8''"
| "encoding_str Binary = ''binary''"

record stream_capture =
  cap_bytes :: string
  cap_total_bytes :: nat
  cap_truncated :: bool
  cap_encoding :: stream_encoding
  cap_broken_pipe :: bool
  cap_read_error :: "string option"

definition empty_capture :: stream_capture where
  "empty_capture =
     \<lparr>cap_bytes = [], cap_total_bytes = 0, cap_truncated = False, cap_encoding = Utf8, cap_broken_pipe = False,
      cap_read_error = None\<rparr>"

definition classify_bytes :: "string \<Rightarrow> stream_encoding" where
  "classify_bytes bytes =
     (if CHR 0x00 \<in> set bytes then Binary else if valid_utf8 bytes then Utf8 else LossyUtf8)"

text \<open>What one read returns; the end of the list and an empty chunk are the end of the stream.\<close>

datatype read_event = Chunk string | ReadFailed string

definition U64_MAX :: nat where "U64_MAX = 2 ^ 64 - 1"

definition saturating_add :: "nat \<Rightarrow> nat \<Rightarrow> nat" where
  "saturating_add a b = min U64_MAX (a + b)"

text \<open>Appends a chunk to what is retained: the new bytes, and whether some were left out.\<close>

definition retain :: "nat \<Rightarrow> string \<Rightarrow> string \<Rightarrow> string \<times> bool" where
  "retain limit retained chunk =
     (if length retained < limit then
        (let room = limit - length retained; taken = min (length chunk) room in
         (retained @ take taken chunk, taken < length chunk))
      else (retained, True))"

fun capture_loop ::
  "nat \<Rightarrow> read_event list \<Rightarrow> string \<Rightarrow> nat \<Rightarrow> bool \<Rightarrow> string \<times> nat \<times> bool \<times> string option" where
  "capture_loop limit [] retained seen_bytes truncated = (retained, seen_bytes, truncated, None)"
| "capture_loop limit (ReadFailed err # _) retained seen_bytes truncated =
     (retained, seen_bytes, truncated, Some (''stream read failed: '' @ err))"
| "capture_loop limit (Chunk chunk # events) retained seen_bytes truncated =
     (if chunk = [] then (retained, seen_bytes, truncated, None)
      else (let (retained', cut) = retain limit retained chunk in
            capture_loop limit events retained' (saturating_add seen_bytes (length chunk)) (truncated \<or> cut)))"

definition capture_pipe :: "read_event list \<Rightarrow> nat \<Rightarrow> stream_capture" where
  "capture_pipe events limit =
     (let (retained, seen_bytes, truncated, err) = capture_loop limit events [] 0 False in
      \<lparr>cap_bytes = retained, cap_total_bytes = seen_bytes, cap_truncated = truncated,
       cap_encoding = classify_bytes retained, cap_broken_pipe = False, cap_read_error = err\<rparr>)"

section \<open>Human streaming\<close>

datatype stream_dest = DestNone | DestStdout | DestStderr

text \<open>The outcome of one write: all bytes, or the first \<open>n\<close> and a closed pipe or another failure.\<close>

datatype write_outcome = WroteAll | PipeClosed nat | WriteFailed nat

record sink =
  sk_written :: string
  sk_broken :: bool
  sk_outcomes :: "write_outcome list"

definition write_dest :: "stream_dest \<Rightarrow> string \<Rightarrow> sink \<Rightarrow> sink" where
  "write_dest dest bytes s =
     (if sk_broken s \<or> bytes = [] \<or> dest = DestNone then s
      else (case sk_outcomes s of
              [] \<Rightarrow> s\<lparr>sk_written := sk_written s @ bytes\<rparr>
            | WroteAll # os \<Rightarrow> s\<lparr>sk_written := sk_written s @ bytes, sk_outcomes := os\<rparr>
            | PipeClosed n # os \<Rightarrow>
                s\<lparr>sk_written := sk_written s @ take n bytes, sk_broken := True, sk_outcomes := os\<rparr>
            | WriteFailed n # os \<Rightarrow> s\<lparr>sk_written := sk_written s @ take n bytes, sk_outcomes := os\<rparr>))"

record stream_state =
  st_retained :: string
  st_total :: nat
  st_truncated :: bool
  st_buffering :: bool
  st_sink :: sink

definition stream_chunk :: "stream_dest \<Rightarrow> nat \<Rightarrow> string \<Rightarrow> stream_state \<Rightarrow> stream_state" where
  "stream_chunk dest limit chunk s =
     (let retained = st_retained s; n = length chunk; s = s\<lparr>st_total := saturating_add (st_total s) n\<rparr> in
      if st_buffering s then
        (if saturating_add (length retained) n \<le> limit then s\<lparr>st_retained := retained @ chunk\<rparr>
         else
           (let room = limit - length retained;
                kept = (if room > 0 then retained @ take (min room n) chunk else retained);
                flushed = write_dest dest kept (st_sink s);
                sent = (if room < n then write_dest dest (drop room chunk) flushed else flushed)
            in s\<lparr>st_truncated := True, st_buffering := False, st_retained := take limit kept, st_sink := sent\<rparr>))
      else
        (let (retained', cut) = retain limit retained chunk in
         s\<lparr>st_retained := retained', st_truncated := st_truncated s \<or> cut,
           st_sink := write_dest dest chunk (st_sink s)\<rparr>))"

fun stream_loop :: "stream_dest \<Rightarrow> nat \<Rightarrow> read_event list \<Rightarrow> stream_state \<Rightarrow> stream_state \<times> string option" where
  "stream_loop dest limit [] s = (s, None)"
| "stream_loop dest limit (ReadFailed err # _) s = (s, Some (''stream read failed: '' @ err))"
| "stream_loop dest limit (Chunk chunk # events) s =
     (if chunk = [] then (s, None) else stream_loop dest limit events (stream_chunk dest limit chunk s))"

definition stream_or_buffer ::
  "read_event list \<Rightarrow> stream_dest \<Rightarrow> nat \<Rightarrow> bool \<Rightarrow> bool \<Rightarrow> sink \<Rightarrow> stream_capture \<times> sink" where
  "stream_or_buffer events dest limit buffer_first flush_at_eof out =
     (let start = \<lparr>st_retained = [], st_total = 0, st_truncated = False, st_buffering = buffer_first,
                   st_sink = out\<lparr>sk_broken := False\<rparr>\<rparr>;
          (s, err) = stream_loop dest limit events start;
          out' = (if st_buffering s \<and> flush_at_eof then write_dest dest (st_retained s) (st_sink s) else st_sink s)
      in (\<lparr>cap_bytes = st_retained s, cap_total_bytes = st_total s, cap_truncated = st_truncated s,
           cap_encoding = classify_bytes (st_retained s), cap_broken_pipe = sk_broken out', cap_read_error = err\<rparr>, out'))"

section \<open>Summaries\<close>

record stream_summary =
  sum_text :: "string option"
  sum_encoding :: string
  sum_truncated :: bool
  sum_total_bytes :: nat
  sum_captured_bytes :: nat
  sum_bytes :: string

definition empty_stream_summary :: stream_summary where
  "empty_stream_summary =
     \<lparr>sum_text = None, sum_encoding = ''utf-8'', sum_truncated = False, sum_total_bytes = 0, sum_captured_bytes = 0,
      sum_bytes = []\<rparr>"

definition summary_from_capture :: "stream_capture \<Rightarrow> stream_summary" where
  "summary_from_capture c =
     \<lparr>sum_text = (case cap_encoding c of Binary \<Rightarrow> None | _ \<Rightarrow> Some (utf8_lossy (cap_bytes c))),
      sum_encoding = encoding_str (cap_encoding c), sum_truncated = cap_truncated c,
      sum_total_bytes = cap_total_bytes c, sum_captured_bytes = length (cap_bytes c), sum_bytes = cap_bytes c\<rparr>"

section \<open>What a capture is\<close>

text \<open>The bytes a pipe delivers before its end, and the error that ended it.\<close>

fun delivered :: "read_event list \<Rightarrow> string \<times> string option" where
  "delivered [] = ([], None)"
| "delivered (ReadFailed err # _) = ([], Some (''stream read failed: '' @ err))"
| "delivered (Chunk chunk # events) =
     (if chunk = [] then ([], None) else map_prod ((@) chunk) id (delivered events))"

definition capture_of :: "nat \<Rightarrow> string \<Rightarrow> string option \<Rightarrow> bool \<Rightarrow> stream_capture" where
  "capture_of limit data err broken =
     \<lparr>cap_bytes = take limit data, cap_total_bytes = min U64_MAX (length data), cap_truncated = (length data > limit),
      cap_encoding = classify_bytes (take limit data), cap_broken_pipe = broken, cap_read_error = err\<rparr>"

lemma saturating_add_min: "saturating_add (min U64_MAX a) b = min U64_MAX (a + b)"
  by (simp add: saturating_add_def)

lemma retain_take:
  assumes "chunk \<noteq> []"
  shows "retain limit (take limit p) chunk = (take limit (p @ chunk), length (p @ chunk) > limit)"
  using assms by (cases "length p < limit") (auto simp: retain_def Let_def min_def)

lemma capture_loop_exact:
  "capture_loop limit events (take limit p) (min U64_MAX (length p)) (length p > limit) =
     (case delivered events of (d, err) \<Rightarrow>
        (take limit (p @ d), min U64_MAX (length (p @ d)), length (p @ d) > limit, err))"
proof (induction events arbitrary: p rule: delivered.induct)
  case (3 chunk events)
  show ?case
  proof (cases "chunk = []")
    case False
    have "(length p > limit \<or> length (p @ chunk) > limit) = (length (p @ chunk) > limit)" by auto
    then show ?thesis
      using 3 [OF False, of "p @ chunk"] False retain_take [OF False, of limit p]
      by (simp add: saturating_add_min Let_def split: prod.splits)
  qed simp
qed simp_all

text \<open>
  A capture is exact. It retains the first bytes of what the pipe delivered up to the limit, counts
  every byte (saturating at 64 bits), says it was truncated exactly when more was delivered than the limit,
  classifies the retained bytes, and carries the error that ended the stream.
\<close>

lemma capture_pipe_exact:
  "capture_pipe events limit = capture_of limit (fst (delivered events)) (snd (delivered events)) False"
  using capture_loop_exact [of limit events "[]"]
  by (simp add: capture_pipe_def capture_of_def split: prod.splits)

section \<open>Every byte once\<close>

text \<open>
  \<open>sent out s x\<close>: from \<open>out\<close> on, the bytes \<open>x\<close> were sent and \<open>s\<close> is the state now. What arrived is a prefix of
  \<open>x\<close>, and all of it while the pipe is open.
\<close>

definition sent :: "stream_dest \<Rightarrow> sink \<Rightarrow> sink \<Rightarrow> string \<Rightarrow> bool" where
  "sent dest out s x \<longleftrightarrow>
     prefix (sk_written s) (sk_written out @ x) \<and> prefix (sk_written out) (sk_written s) \<and>
     (\<not> sk_broken s \<and> dest \<noteq> DestNone \<longrightarrow> sk_written s = sk_written out @ x) \<and>
     (\<forall>n. WriteFailed n \<notin> set (sk_outcomes s))"

lemma sent_write:
  assumes "sent dest out s x"
  shows "sent dest out (write_dest dest y s) (x @ y)"
proof -
  have p: "prefix (sk_written s) (sk_written out @ x @ y)"
    using assms unfolding sent_def by (metis append_assoc prefix_append)
  show ?thesis
  proof (cases "sk_broken s \<or> y = [] \<or> dest = DestNone")
    case True
    then show ?thesis using assms p by (auto simp: write_dest_def sent_def)
  next
    case False
    then have w: "sk_written s = sk_written out @ x" using assms by (simp add: sent_def)
    have "prefix (take n y) y" for n by (simp add: take_is_prefix)
    then show ?thesis
      using assms False w
      by (cases "sk_outcomes s") (auto simp: write_dest_def sent_def split: write_outcome.splits)
  qed
qed

definition stream_inv :: "stream_dest \<Rightarrow> nat \<Rightarrow> bool \<Rightarrow> sink \<Rightarrow> string \<Rightarrow> stream_state \<Rightarrow> bool" where
  "stream_inv dest limit buffer_first out p s \<longleftrightarrow>
     st_retained s = take limit p \<and> st_total s = min U64_MAX (length p) \<and> (st_truncated s \<longleftrightarrow> length p > limit) \<and>
     (st_buffering s \<longleftrightarrow> buffer_first \<and> length p \<le> limit) \<and>
     sent dest out (st_sink s) (if st_buffering s then [] else p)"

lemma stream_chunk_inv:
  assumes inv: "stream_inv dest limit buffer_first out p s" and "chunk \<noteq> []" and small: "limit < U64_MAX"
  shows "stream_inv dest limit buffer_first out (p @ chunk) (stream_chunk dest limit chunk s)"
proof (cases "st_buffering s")
  case True
  then have b: "buffer_first" "length p \<le> limit" "st_retained s = p" "sent dest out (st_sink s) []"
    using inv by (auto simp: stream_inv_def)
  show ?thesis
  proof (cases "length (p @ chunk) \<le> limit")
    case True
    then show ?thesis
      using inv b small \<open>st_buffering s\<close>
      by (simp add: stream_chunk_def Let_def stream_inv_def saturating_add_min) (simp add: saturating_add_def)
  next
    case False
    let ?room = "limit - length p"
    have kept: "(if ?room > 0 then p @ take (min ?room (length chunk)) chunk else p) = take limit (p @ chunk)"
      using b(2) False by (auto simp: min_def)
    have over: "\<not> saturating_add (length p) (length chunk) \<le> limit"
      using False small by (auto simp: saturating_add_def)
    have all: "take limit (p @ chunk) @ drop ?room chunk = p @ chunk" using b(2) by simp
    have "sent dest out (write_dest dest (drop ?room chunk) (write_dest dest (take limit (p @ chunk)) (st_sink s))) (p @ chunk)"
      using sent_write [OF sent_write [OF b(4), of "take limit (p @ chunk)"], of "drop ?room chunk"] all by simp
    moreover have "?room < length chunk" using False b(2) by simp
    ultimately show ?thesis
      using inv b False over \<open>st_buffering s\<close> unfolding stream_chunk_def Let_def stream_inv_def
      by (auto simp: kept saturating_add_min)
  qed
next
  case False
  then have "sent dest out (write_dest dest chunk (st_sink s)) (p @ chunk)"
    using inv sent_write by (fastforce simp: stream_inv_def)
  then show ?thesis
    using inv False retain_take [OF assms(2), of limit p]
    by (auto simp: stream_chunk_def Let_def stream_inv_def saturating_add_min)
qed

lemma stream_loop_inv:
  assumes "stream_inv dest limit buffer_first out p s" and "limit < U64_MAX"
  shows "stream_inv dest limit buffer_first out (p @ fst (delivered events)) (fst (stream_loop dest limit events s)) \<and>
    snd (stream_loop dest limit events s) = snd (delivered events)"
  using assms(1)
proof (induction events arbitrary: p s rule: delivered.induct)
  case (3 chunk events)
  show ?case
  proof (cases "chunk = []")
    case False
    show ?thesis
      using 3(1) [OF False stream_chunk_inv [OF 3(2) False assms(2)]] False by (cases "delivered events") simp
  qed (use 3 in simp)
qed simp_all

text \<open>
  Streaming to a terminal and buffering for compression lose nothing and repeat nothing. The capture is
  the capture of the bytes the pipe delivered, as in the other mode, whether or not the stream outgrew the
  buffer. What reaches the destination is always a prefix of those bytes; as long as the destination does
  not close it is all of them, exactly once, unless they were kept back for the compressor, when it is
  nothing and all of them are in the capture.
\<close>

lemma stream_or_buffer_exactly_once:
  assumes "stream_or_buffer events dest limit buffer_first flush_at_eof out = (c, out')"
    and "limit < U64_MAX" and "\<forall>n. WriteFailed n \<notin> set (sk_outcomes out)"
  shows "c = capture_of limit (fst (delivered events)) (snd (delivered events)) (sk_broken out') \<and>
    (let data = fst (delivered events);
         shown = (if buffer_first \<and> length data \<le> limit \<and> \<not> flush_at_eof then [] else data)
     in (\<exists>sofar. prefix sofar shown \<and> sk_written out' = sk_written out @ sofar \<and>
           (\<not> sk_broken out' \<and> dest \<noteq> DestNone \<longrightarrow> sofar = shown)) \<and>
        (shown \<noteq> data \<longrightarrow> cap_bytes c = data))"
proof -
  let ?start = "\<lparr>st_retained = [], st_total = 0, st_truncated = False, st_buffering = buffer_first,
                   st_sink = out\<lparr>sk_broken := False\<rparr>\<rparr>"
  let ?d = "fst (delivered events)"
  obtain s err where l: "stream_loop dest limit events ?start = (s, err)" by fastforce
  have "stream_inv dest limit buffer_first out [] ?start"
    using assms(3) by (auto simp: stream_inv_def sent_def)
  from stream_loop_inv [OF this assms(2), of events]
  have inv: "stream_inv dest limit buffer_first out ?d s" and err: "err = snd (delivered events)" by (simp_all add: l)
  let ?shown = "if buffer_first \<and> length ?d \<le> limit \<and> \<not> flush_at_eof then [] else ?d"
  have out': "out' = (if st_buffering s \<and> flush_at_eof then write_dest dest (st_retained s) (st_sink s) else st_sink s)"
    and c: "c = capture_of limit ?d (snd (delivered events)) (sk_broken out')"
    using assms(1) inv err unfolding stream_or_buffer_def Let_def l
    by (auto simp: capture_of_def stream_inv_def)
  have "sent dest out out' ?shown"
  proof (cases "st_buffering s")
    case True
    then show ?thesis
      using inv sent_write [of dest out "st_sink s" "[]" "st_retained s"] unfolding out' stream_inv_def by auto
  next
    case False
    then show ?thesis using inv unfolding out' stream_inv_def by auto
  qed
  moreover from this obtain sofar where "sk_written out' = sk_written out @ sofar"
    by (auto simp: sent_def elim: prefixE)
  ultimately have "\<exists>sofar. prefix sofar ?shown \<and> sk_written out' = sk_written out @ sofar \<and>
      (\<not> sk_broken out' \<and> dest \<noteq> DestNone \<longrightarrow> sofar = ?shown)"
    by (intro exI [of _ sofar]) (simp add: sent_def)
  moreover have "cap_bytes c = ?d" if "?shown \<noteq> ?d" using that by (simp add: c capture_of_def split: if_splits)
  ultimately show ?thesis using c unfolding Let_def by blast
qed

text \<open>A destination that accepts every write stays so.\<close>

definition open_sink :: "sink \<Rightarrow> bool" where
  "open_sink s \<longleftrightarrow> \<not> sk_broken s \<and> set (sk_outcomes s) \<subseteq> {WroteAll}"

lemma write_dest_open: "open_sink s \<Longrightarrow> open_sink (write_dest dest bytes s)"
  by (auto simp: open_sink_def write_dest_def split: list.splits write_outcome.splits)

lemma stream_chunk_open: "open_sink (st_sink s) \<Longrightarrow> open_sink (st_sink (stream_chunk dest limit chunk s))"
  by (simp add: stream_chunk_def Let_def write_dest_open split: prod.split)

lemma stream_loop_open: "open_sink (st_sink s) \<Longrightarrow> open_sink (st_sink (fst (stream_loop dest limit events s)))"
  by (induction dest limit events s rule: stream_loop.induct) (auto simp: stream_chunk_open)

lemma stream_or_buffer_open:
  assumes "stream_or_buffer events dest limit buffer_first flush_at_eof out = (c, out')"
    and "set (sk_outcomes out) \<subseteq> {WroteAll}"
  shows "open_sink out'"
proof -
  let ?start = "\<lparr>st_retained = [], st_total = 0, st_truncated = False, st_buffering = buffer_first,
                   st_sink = out\<lparr>sk_broken := False\<rparr>\<rparr>"
  have "open_sink (st_sink (fst (stream_loop dest limit events ?start)))"
    by (rule stream_loop_open) (use assms(2) in \<open>simp add: open_sink_def\<close>)
  then show ?thesis
    using assms(1) by (auto simp: stream_or_buffer_def Let_def write_dest_open split: prod.splits)
qed

text \<open>No write fails other than by a closed pipe.\<close>

lemma write_dest_outcomes: "set (sk_outcomes (write_dest dest bytes s)) \<subseteq> set (sk_outcomes s)"
  by (auto simp: write_dest_def split: list.splits write_outcome.splits)

lemma stream_chunk_outcomes: "set (sk_outcomes (st_sink (stream_chunk dest limit chunk s))) \<subseteq> set (sk_outcomes (st_sink s))"
  using write_dest_outcomes
  by (auto simp: stream_chunk_def Let_def split: prod.splits if_splits dest!: subsetD [OF write_dest_outcomes])

lemma stream_loop_outcomes:
  "set (sk_outcomes (st_sink (fst (stream_loop dest limit events s)))) \<subseteq> set (sk_outcomes (st_sink s))"
proof (induction dest limit events s rule: stream_loop.induct)
  case (3 dest limit chunk events s)
  then show ?case using stream_chunk_outcomes [of dest limit chunk s] by auto
qed auto

lemma stream_or_buffer_outcomes:
  assumes "stream_or_buffer events dest limit buffer_first flush_at_eof out = (c, out')"
  shows "set (sk_outcomes out') \<subseteq> set (sk_outcomes out)"
proof -
  let ?start = "\<lparr>st_retained = [], st_total = 0, st_truncated = False, st_buffering = buffer_first,
                   st_sink = out\<lparr>sk_broken := False\<rparr>\<rparr>"
  have "set (sk_outcomes (st_sink (fst (stream_loop dest limit events ?start)))) \<subseteq> set (sk_outcomes out)"
    using stream_loop_outcomes [of dest limit events ?start] by simp
  then show ?thesis
    using assms write_dest_outcomes
    by (auto simp: stream_or_buffer_def Let_def split: prod.splits if_splits dest!: subsetD [OF write_dest_outcomes])
qed

end
