(* ===== verification/Rtk_Filter.thy ===== *)
theory Rtk_Filter
  imports Stream_Capture Registry_Types "HOL-Library.Option_ord" "HOL-Library.Product_Lexorder"
begin

unbundle bit_operations_syntax

text \<open>
  The optional compressor of captured output (\<open>output/rtk.rs\<close>): which commands have a filter, which
  binary may be the adapter, and the postprocessing that falls back to the captured bytes. The adapter
  itself is a program outside the repository: what its probes answer and what one run of it does are
  parameters.
\<close>

section \<open>Eligibility and identity\<close>

record rtk_result =
  rk_compressor :: string
  rk_gain :: "(nat \<times> nat) option"
  rk_emitted :: string
  rk_diagnostics :: "diagnostic_record list"

definition rtk_filter_for :: "string \<Rightarrow> string list \<Rightarrow> string option" where
  "rtk_filter_for program argv =
     (let base = (case file_name (components program) of Some s \<Rightarrow> s | None \<Rightarrow> program) in
      if base = ''git'' then
        (case argv of
           arg # _ \<Rightarrow>
             (if arg = ''status'' then Some ''git-status''
              else if arg = ''diff'' then Some ''git-diff''
              else if arg = ''log'' then Some ''git-log'' else None)
         | [] \<Rightarrow> None)
      else if base = ''grep'' then Some ''grep''
      else if base = ''rg'' then Some ''rg''
      else None)"

definition canonical_rtk_identity :: "('z rfsys_scheme) \<Rightarrow> path \<Rightarrow> path option" where
  "canonical_rtk_identity fs candidate =
     (case metadata fs candidate of
        Inl _ \<Rightarrow> None
      | Inr k \<Rightarrow>
          (if k \<noteq> RegularFile then None
           else if mode_bits fs candidate AND 0x49 = 0 then None
           else (case canonicalize fs candidate of Inr c \<Rightarrow> Some c | Inl _ \<Rightarrow> None)))"

definition claims_rtk :: "tool_record \<Rightarrow> bool" where
  "claims_rtk tool \<longleftrightarrow>
     tr_installed tool = Some True \<and>
     (tr_id tool = ''rtk'' \<or>
      Option.bind (tr_detect tool) (\<lambda>detect. file_name (components detect)) = Some ''rtk'')"

fun first_usable_detect :: "('z rfsys_scheme) \<Rightarrow> tool_record list \<Rightarrow> path option" where
  "first_usable_detect fs [] = None"
| "first_usable_detect fs (tool # tools) =
     (case tr_detect tool of
        None \<Rightarrow> first_usable_detect fs tools
      | Some detect \<Rightarrow>
          (if \<not> is_absolute (components detect) then first_usable_detect fs tools
           else (case canonical_rtk_identity fs (components detect) of
                   Some canonical \<Rightarrow> Some canonical
                 | None \<Rightarrow> first_usable_detect fs tools)))"

definition projected_rtk_detect_path :: "('z rfsys_scheme) \<Rightarrow> tool_record list \<Rightarrow> path option" where
  "projected_rtk_detect_path fs tools =
     first_usable_detect fs (sort_key (\<lambda>t. (tr_id t, tr_detect t)) (filter claims_rtk tools))"

fun rtk_on_path :: "('z rfsys_scheme) \<Rightarrow> path list \<Rightarrow> path option" where
  "rtk_on_path fs [] = None"
| "rtk_on_path fs (dir # dirs) =
     (case canonical_rtk_identity fs (path_join dir (components ''rtk'')) of
        Some canonical \<Rightarrow> Some canonical
      | None \<Rightarrow> rtk_on_path fs dirs)"

definition resolve_rtk_binary :: "('z rfsys_scheme) \<Rightarrow> path option \<Rightarrow> path list \<Rightarrow> path option" where
  "resolve_rtk_binary fs projected path_dirs =
     (case Option.bind projected (canonical_rtk_identity fs) of
        Some canonical \<Rightarrow> Some canonical
      | None \<Rightarrow> rtk_on_path fs path_dirs)"

section \<open>One run of the adapter\<close>

text \<open>The three pipes a spawned adapter may lack, in the order in which they are taken.\<close>

datatype adapter_pipe = AdapterStdin | AdapterStdout | AdapterStderr

fun pipe_name :: "adapter_pipe \<Rightarrow> string" where
  "pipe_name AdapterStdin = ''stdin''"
| "pipe_name AdapterStdout = ''stdout''"
| "pipe_name AdapterStderr = ''stderr''"

text \<open>A reader thread that panicked has no events.\<close>

datatype adapter_run =
    AdapterSpawnFailed string
  | AdapterPipeMissing adapter_pipe
  | AdapterTimedOut
  | AdapterWaitFailed string
  | AdapterExited "read_event list option" "read_event list option" bool string

record rtk_adapter =
  ra_gain_help :: "path \<Rightarrow> bool"
  ra_pipe_help :: "path \<Rightarrow> bool"
  ra_run :: "path \<Rightarrow> string \<Rightarrow> string \<Rightarrow> adapter_run"

definition probe_rtk :: "rtk_adapter \<Rightarrow> path \<Rightarrow> bool" where
  "probe_rtk adapter rtk \<longleftrightarrow> ra_gain_help adapter rtk \<and> ra_pipe_help adapter rtk"

fun read_bounded_loop :: "nat \<Rightarrow> read_event list \<Rightarrow> string \<Rightarrow> bool \<Rightarrow> string \<times> bool" where
  "read_bounded_loop cap [] bytes truncated = (bytes, truncated)"
| "read_bounded_loop cap (ReadFailed _ # _) bytes truncated = (bytes, truncated)"
| "read_bounded_loop cap (Chunk chunk # events) bytes truncated =
     (if chunk = [] then (bytes, truncated)
      else (let room = cap - length bytes; n = length chunk in
            read_bounded_loop cap events (if room > 0 then bytes @ take (min room n) chunk else bytes)
              (truncated \<or> n > room)))"

definition read_bounded :: "read_event list \<Rightarrow> nat \<Rightarrow> string \<times> bool" where
  "read_bounded events cap = read_bounded_loop cap events [] False"

text \<open>Sizes are \<open>usize\<close> on a 64-bit target.\<close>

definition out_cap :: "string \<Rightarrow> nat" where
  "out_cap input = max (min U64_MAX (4 * length input)) (64 * 1024)"

definition pipe_stream :: "rtk_adapter \<Rightarrow> path \<Rightarrow> string \<Rightarrow> string \<Rightarrow> (string, string) result" where
  "pipe_stream adapter rtk filter_name input =
     (case ra_run adapter rtk filter_name input of
        AdapterSpawnFailed e \<Rightarrow> Inl e
      | AdapterPipeMissing p \<Rightarrow> Inl (''rtk '' @ pipe_name p @ '' missing'')
      | AdapterTimedOut \<Rightarrow> Inl ''rtk pipe timed out''
      | AdapterWaitFailed e \<Rightarrow> Inl e
      | AdapterExited out err success status \<Rightarrow>
          (case out of
             None \<Rightarrow> Inl ''rtk stdout reader thread panicked''
           | Some events \<Rightarrow>
               (case err of
                  None \<Rightarrow> Inl ''rtk stderr reader thread panicked''
                | Some _ \<Rightarrow>
                    (let (bytes, truncated) = read_bounded events (out_cap input) in
                     if truncated then Inl ''rtk pipe output exceeded bound''
                     else if \<not> success then Inl (''rtk pipe exit '' @ status)
                     else Inr bytes))))"

section \<open>Postprocessing\<close>

definition raw_result :: "string \<Rightarrow> stream_capture \<Rightarrow> (string \<times> string) option \<Rightarrow> rtk_result" where
  "raw_result compressor capture diag =
     \<lparr>rk_compressor = compressor, rk_gain = None, rk_emitted = cap_bytes capture,
      rk_diagnostics = (case diag of Some (code, message) \<Rightarrow> [\<lparr>diag_code = code, diag_message = message\<rparr>] | None \<Rightarrow> [])\<rparr>"

text \<open>The message is cut at a byte; an adapter error text is ASCII, so the cut is at a character.\<close>

definition truncate_message :: "string \<Rightarrow> string" where
  "truncate_message msg = (if length msg > 4096 then take 4096 msg else msg)"

text \<open>
  \<open>before\<close> is the file system when the binary is first resolved, \<open>again\<close> the one after the probes. The
  gain is the quotient of the two numbers, which the code computes in \<open>f64\<close>.
\<close>

definition apply_rtk_if_eligible ::
  "rtk_adapter \<Rightarrow> ('z rfsys_scheme) \<Rightarrow> ('z rfsys_scheme) \<Rightarrow> bool \<Rightarrow> bool \<Rightarrow> bool \<Rightarrow> string \<Rightarrow> string list \<Rightarrow>
   stream_capture \<Rightarrow> path list \<Rightarrow> path option \<Rightarrow> rtk_result" where
  "apply_rtk_if_eligible adapter before again enabled json_mode profile_is_dev program argv capture path_dirs projected =
     (if json_mode \<or> \<not> enabled then
        \<lparr>rk_compressor = ''disabled'', rk_gain = None, rk_emitted = cap_bytes capture, rk_diagnostics = []\<rparr>
      else if profile_is_dev then raw_result ''unsupported'' capture None
      else (case rtk_filter_for program argv of
              None \<Rightarrow> raw_result ''unsupported'' capture None
            | Some filter_name \<Rightarrow>
                (if cap_truncated capture \<or> cap_encoding capture \<noteq> Utf8 then raw_result ''unsupported'' capture None
                 else (case resolve_rtk_binary before projected path_dirs of
                         None \<Rightarrow> raw_result ''unavailable'' capture (Some (''rtk_unavailable'', ''rtk binary not found''))
                       | Some rtk \<Rightarrow>
                           (if \<not> probe_rtk adapter rtk then
                              raw_result ''unavailable'' capture (Some (''rtk_unavailable'', ''rtk capability probe failed''))
                            else if resolve_rtk_binary again projected path_dirs \<noteq> Some rtk then
                              raw_result ''unavailable'' capture
                                (Some (''rtk_identity_drift'', ''rtk binary identity changed between probe and pipe''))
                            else (case pipe_stream adapter rtk filter_name (cap_bytes capture) of
                                    Inl msg \<Rightarrow> raw_result ''failed'' capture (Some (''rtk_failed'', truncate_message msg))
                                  | Inr out \<Rightarrow>
                                      (let raw_len = length (cap_bytes capture) in
                                       if length out < raw_len then
                                         \<lparr>rk_compressor = ''rtk'', rk_gain = Some (raw_len - length out, raw_len),
                                          rk_emitted = out, rk_diagnostics = []\<rparr>
                                       else raw_result ''unsupported'' capture None)))))))"

section \<open>Properties\<close>

lemma read_bounded_loop_exact:
  assumes "length p \<le> cap \<or> truncated"
  shows "read_bounded_loop cap events (take cap p) truncated =
    (take cap (p @ fst (delivered events)), truncated \<or> length (p @ fst (delivered events)) > cap)"
  using assms
proof (induction events arbitrary: p truncated rule: delivered.induct)
  case (3 chunk events)
  show ?case
  proof (cases "chunk = []")
    case False
    have step: "(if 0 < cap - length (take cap p) then take cap p @ take (min (cap - length (take cap p)) (length chunk)) chunk
        else take cap p) = take cap (p @ chunk)"
      by (auto simp: min_def)
    have cut: "(truncated \<or> length chunk > cap - length (take cap p)) = (truncated \<or> length (p @ chunk) > cap)"
      using 3(2) by (auto simp: min_def)
    have "read_bounded_loop cap (Chunk chunk # events) (take cap p) truncated =
        read_bounded_loop cap events (take cap (p @ chunk)) (truncated \<or> length (p @ chunk) > cap)"
      by (simp only: read_bounded_loop.simps Let_def step cut False if_False)
    also have "\<dots> = (take cap ((p @ chunk) @ fst (delivered events)),
        (truncated \<or> length (p @ chunk) > cap) \<or> length ((p @ chunk) @ fst (delivered events)) > cap)"
      by (rule 3(1) [OF False]) auto
    finally show ?thesis
      using False by (cases "delivered events") auto
  qed (use 3 in auto)
qed auto

lemma read_bounded_exact:
  "read_bounded events cap = (take cap (fst (delivered events)), length (fst (delivered events)) > cap)"
  using read_bounded_loop_exact [of "[]" cap False events] by (simp add: read_bounded_def)

lemma pipe_stream_ok:
  "pipe_stream adapter rtk filter_name input = Inr out \<Longrightarrow>
     \<exists>events err status. ra_run adapter rtk filter_name input = AdapterExited (Some events) (Some err) True status \<and>
       out = fst (delivered events)"
  by (auto simp: pipe_stream_def read_bounded_exact split: adapter_run.splits option.splits if_splits)

lemma canonical_rtk_identity_Some:
  "canonical_rtk_identity fs p = Some c \<longleftrightarrow>
     metadata fs p = Inr RegularFile \<and> mode_bits fs p AND 0x49 \<noteq> 0 \<and> canonicalize fs p = Inr c"
  by (auto simp: canonical_rtk_identity_def split: sum.splits)

lemma rtk_on_path_Some:
  "rtk_on_path fs dirs = Some c \<Longrightarrow> \<exists>p. canonical_rtk_identity fs p = Some c"
  by (induction dirs) (auto split: option.splits)

lemma resolve_rtk_binary_Some:
  "resolve_rtk_binary fs projected dirs = Some c \<Longrightarrow> \<exists>p. canonical_rtk_identity fs p = Some c"
  using rtk_on_path_Some by (auto simp: resolve_rtk_binary_def bind_eq_Some_conv split: option.splits)

text \<open>What a run that was compressed went through; every other run emits the capture.\<close>

definition rtk_compressed ::
  "rtk_adapter \<Rightarrow> ('z rfsys_scheme) \<Rightarrow> ('z rfsys_scheme) \<Rightarrow> string \<Rightarrow> string list \<Rightarrow> stream_capture \<Rightarrow> path list \<Rightarrow>
   path option \<Rightarrow> rtk_result \<Rightarrow> bool" where
  "rtk_compressed adapter before again program argv capture path_dirs projected r \<longleftrightarrow>
     \<not> cap_truncated capture \<and> cap_encoding capture = Utf8 \<and>
     (\<exists>filter_name rtk out. rtk_filter_for program argv = Some filter_name \<and>
        resolve_rtk_binary before projected path_dirs = Some rtk \<and> probe_rtk adapter rtk \<and>
        resolve_rtk_binary again projected path_dirs = Some rtk \<and>
        pipe_stream adapter rtk filter_name (cap_bytes capture) = Inr out \<and> length out < length (cap_bytes capture) \<and>
        r = \<lparr>rk_compressor = ''rtk'', rk_gain = Some (length (cap_bytes capture) - length out, length (cap_bytes capture)),
             rk_emitted = out, rk_diagnostics = []\<rparr>)"

definition passed_through :: "stream_capture \<Rightarrow> rtk_result \<Rightarrow> bool" where
  "passed_through capture r \<longleftrightarrow> rk_emitted r = cap_bytes capture \<and> rk_compressor r \<noteq> ''rtk'' \<and> rk_gain r = None"

lemma raw_result_passed: "compressor \<noteq> ''rtk'' \<Longrightarrow> passed_through capture (raw_result compressor capture diag)"
  by (simp add: raw_result_def passed_through_def)

lemma apply_rtk_off:
  "json_mode \<or> \<not> enabled \<Longrightarrow>
     passed_through capture
       (apply_rtk_if_eligible adapter before again enabled json_mode is_dev program argv capture path_dirs projected)"
  by (auto simp: apply_rtk_if_eligible_def passed_through_def)

lemma apply_rtk_on:
  assumes "enabled" "\<not> json_mode"
    and r: "r = apply_rtk_if_eligible adapter before again enabled json_mode is_dev program argv capture path_dirs projected"
  shows "passed_through capture r \<or> \<not> is_dev \<and> rtk_compressed adapter before again program argv capture path_dirs projected r"
  unfolding r apply_rtk_if_eligible_def Let_def rtk_compressed_def
  using assms(1,2) by (simp add: raw_result_passed split: option.split sum.split)

text \<open>
  The compressor never loses output. Either the emitted bytes are the captured bytes, or the
  compressor is rtk, and then the stream was eligible (not JSON, not a dev run, a command with a filter,
  complete UTF-8 capture), the adapter is a regular executable that was the same file before and after its
  probes, its run succeeded, and what is emitted is all it wrote and shorter than the capture.
\<close>

theorem rtk_falls_back_exactly:
  "let r = apply_rtk_if_eligible adapter before again enabled json_mode is_dev program argv capture path_dirs projected in
   rk_emitted r = cap_bytes capture \<and> rk_compressor r \<noteq> ''rtk'' \<and> rk_gain r = None \<or>
   rk_compressor r = ''rtk'' \<and> enabled \<and> \<not> json_mode \<and> \<not> is_dev \<and> \<not> cap_truncated capture \<and>
   cap_encoding capture = Utf8 \<and> length (rk_emitted r) < length (cap_bytes capture) \<and>
   rk_gain r = Some (length (cap_bytes capture) - length (rk_emitted r), length (cap_bytes capture)) \<and>
   (\<exists>filter_name rtk p q events err status. rtk_filter_for program argv = Some filter_name \<and>
      canonical_rtk_identity before p = Some rtk \<and> canonical_rtk_identity again q = Some rtk \<and> probe_rtk adapter rtk \<and>
      ra_run adapter rtk filter_name (cap_bytes capture) = AdapterExited (Some events) (Some err) True status \<and>
      rk_emitted r = fst (delivered events))"
proof (cases "json_mode \<or> \<not> enabled")
  case True
  then show ?thesis
    unfolding Let_def using apply_rtk_off [OF True, unfolded passed_through_def] by (intro disjI1)
next
  case on: False
  define r where
    "r = apply_rtk_if_eligible adapter before again enabled json_mode is_dev program argv capture path_dirs projected"
  consider "passed_through capture r"
    | "\<not> is_dev" "rtk_compressed adapter before again program argv capture path_dirs projected r"
    using apply_rtk_on [OF _ _ r_def] on by blast
  then show ?thesis
  proof cases
    case 1
    then show ?thesis by (simp add: r_def [symmetric] Let_def passed_through_def)
  next
    case 2
    then obtain filter_name rtk out where run: "rtk_filter_for program argv = Some filter_name"
      "resolve_rtk_binary before projected path_dirs = Some rtk" "probe_rtk adapter rtk"
      "resolve_rtk_binary again projected path_dirs = Some rtk"
      "pipe_stream adapter rtk filter_name (cap_bytes capture) = Inr out" "length out < length (cap_bytes capture)"
      "\<not> cap_truncated capture" "cap_encoding capture = Utf8" and
      r: "r = \<lparr>rk_compressor = ''rtk'', rk_gain = Some (length (cap_bytes capture) - length out, length (cap_bytes capture)),
              rk_emitted = out, rk_diagnostics = []\<rparr>"
      by (auto simp: rtk_compressed_def)
    show ?thesis
      unfolding Let_def r_def [symmetric]
      using run 2(1) on resolve_rtk_binary_Some [OF run(2)] resolve_rtk_binary_Some [OF run(4)] pipe_stream_ok [OF run(5)]
      by (simp add: r) blast
  qed
qed

end
