(* ===== verification/Process_Execution.thy ===== *)
theory Process_Execution
  imports Stream_Capture Rtk_Filter Projection_Policy Controller_Error
begin

text \<open>
  Spawning an authorised plan (\<open>execution/process.rs\<close>, \<open>execution/signals.rs\<close>, the report of
  \<open>execution/mod.rs\<close>). What the operating system does (the outcome of the spawn, what the pipes deliver,
  the order in which the select loop finds its events ready) is a machine record; what the controller
  does to the child is the list of its effects. A run that waits forever has no result.
\<close>

section \<open>Options, reports and failures\<close>

datatype execution_mode = JsonMode | HumanMode bool string

record execution_options =
  eo_mode :: execution_mode
  eo_capture_limit :: nat
  eo_rtk_projected :: "path option"

record execution_report =
  er_spawned :: bool
  er_pid :: "32 word option"
  er_exit_code :: "8 word option"
  er_signal :: "string option"
  er_outcome :: string
  er_stdout :: stream_summary
  er_stderr :: stream_summary
  er_diagnostics :: "diagnostic_record list"
  er_compressor :: string
  er_gain :: "(nat \<times> nat) option"
  er_emitted_output_bytes :: nat

definition idle_report :: "string \<Rightarrow> execution_report" where
  "idle_report kind =
     \<lparr>er_spawned = False, er_pid = None, er_exit_code = None, er_signal = None, er_outcome = kind,
      er_stdout = empty_stream_summary, er_stderr = empty_stream_summary, er_diagnostics = [], er_compressor = ''none'',
      er_gain = None, er_emitted_output_bytes = 0\<rparr>"

record exec_failure =
  ef_outcome :: string
  ef_diagnostics :: "diagnostic_record list"
  ef_spawned :: bool
  ef_pid :: "32 word option"

definition failed_to_spawn :: "diagnostic_record \<Rightarrow> exec_failure" where
  "failed_to_spawn d = \<lparr>ef_outcome = ''failed_to_spawn'', ef_diagnostics = [d], ef_spawned = False, ef_pid = None\<rparr>"

definition exec_contract :: "string \<Rightarrow> exec_failure" where
  "exec_contract message =
     \<lparr>ef_outcome = ''failed_to_spawn'',
      ef_diagnostics = [\<lparr>diag_code = ''execution_contract'', diag_message = message\<rparr>], ef_spawned = False, ef_pid = None\<rparr>"

definition exec_io :: "string \<Rightarrow> string \<Rightarrow> exec_failure" where
  "exec_io code message =
     \<lparr>ef_outcome = ''failed_to_spawn'', ef_diagnostics = [\<lparr>diag_code = code, diag_message = message\<rparr>],
      ef_spawned = False, ef_pid = None\<rparr>"

definition controller_error :: "string \<Rightarrow> string \<Rightarrow> 32 word option \<Rightarrow> exec_failure" where
  "controller_error code message pid =
     \<lparr>ef_outcome = ''controller_error'', ef_diagnostics = [\<lparr>diag_code = code, diag_message = message\<rparr>],
      ef_spawned = True, ef_pid = pid\<rparr>"

definition into_report :: "exec_failure \<Rightarrow> execution_report" where
  "into_report f =
     (idle_report (ef_outcome f))\<lparr>er_spawned := ef_spawned f, er_pid := ef_pid f, er_diagnostics := ef_diagnostics f,
        er_compressor := ''none''\<rparr>"

definition missing_pipe_failure :: "32 word option \<Rightarrow> string \<Rightarrow> exec_failure" where
  "missing_pipe_failure pid label = controller_error ''execution_io'' (''child '' @ label @ '' pipe missing'') pid"

definition wait_failure :: "string \<Rightarrow> 32 word option \<Rightarrow> exec_failure" where
  "wait_failure err pid = controller_error ''execution_io'' (''failed to wait for child: '' @ err) pid"

section \<open>Signals and the process group\<close>

definition SIGHUP :: int where "SIGHUP = 1"
definition SIGINT :: int where "SIGINT = 2"
definition SIGKILL :: int where "SIGKILL = 9"
definition SIGTERM :: int where "SIGTERM = 15"

definition signal_name :: "int \<Rightarrow> string" where
  "signal_name sig =
     (if sig = SIGINT then ''SIGINT'' else if sig = SIGTERM then ''SIGTERM'' else if sig = SIGHUP then ''SIGHUP''
      else if sig = SIGKILL then ''SIGKILL'' else ''SIGTERM'')"

text \<open>What the controller does to a child: start it, signal its process group, wait for its end.\<close>

datatype child_effect =
    Spawned path path "string list" "(string \<times> string) list"
  | GroupSignal "32 word" int
  | Awaited

record process_group_guard =
  pg_pgid :: "32 word option"

definition new_guard :: "32 word \<Rightarrow> process_group_guard" where
  "new_guard pid = \<lparr>pg_pgid = Some pid\<rparr>"

definition signal_group :: "process_group_guard \<Rightarrow> int \<Rightarrow> child_effect list" where
  "signal_group g sig = (case pg_pgid g of Some pgid \<Rightarrow> [GroupSignal pgid sig] | None \<Rightarrow> [])"

definition disarm :: "process_group_guard \<Rightarrow> process_group_guard" where
  "disarm g = g\<lparr>pg_pgid := None\<rparr>"

definition drop_guard :: "process_group_guard \<Rightarrow> child_effect list" where
  "drop_guard g = (case pg_pgid g of Some pgid \<Rightarrow> [GroupSignal pgid SIGKILL] | None \<Rightarrow> [])"

definition drop_guard_opt :: "process_group_guard option \<Rightarrow> child_effect list" where
  "drop_guard_opt guard = (case guard of Some g \<Rightarrow> drop_guard g | None \<Rightarrow> [])"

definition signal_guard :: "process_group_guard option \<Rightarrow> int \<Rightarrow> child_effect list" where
  "signal_guard guard sig = (case guard of Some g \<Rightarrow> signal_group g sig | None \<Rightarrow> [])"

text \<open>Kills the group, gives up the guard, and waits; the outcome of that wait is ignored.\<close>

definition reap_after_controller_failure ::
  "process_group_guard option \<Rightarrow> process_group_guard option \<times> child_effect list" where
  "reap_after_controller_failure guard = (map_option disarm guard, signal_guard guard SIGKILL @ [Awaited])"

section \<open>The select loop\<close>

datatype exit_status = Exited int | Signaled int | OtherStatus

datatype select_event =
    OutReady
  | ErrReady
  | WaitReady "(string, exit_status) result"
  | SignalReady "int option"

record run_state =
  run_out :: "stream_capture option"
  run_err :: "stream_capture option"
  run_status :: "(string, exit_status) result option"
  run_forwarded :: bool
  run_effects :: "child_effect list"

definition run_finished :: "run_state \<Rightarrow> bool" where
  "run_finished s \<longleftrightarrow> run_out s \<noteq> None \<and> run_err s \<noteq> None \<and> run_status s \<noteq> None"

text \<open>A branch that is done is disabled: its event does nothing.\<close>

definition select_step ::
  "process_group_guard option \<Rightarrow> stream_capture \<Rightarrow> stream_capture \<Rightarrow> select_event \<Rightarrow> run_state \<Rightarrow> run_state" where
  "select_step guard out err ev s =
     (case ev of
        OutReady \<Rightarrow> (if run_out s = None then s\<lparr>run_out := Some out\<rparr> else s)
      | ErrReady \<Rightarrow> (if run_err s = None then s\<lparr>run_err := Some err\<rparr> else s)
      | WaitReady st \<Rightarrow>
          (if run_status s = None then s\<lparr>run_status := Some st, run_effects := run_effects s @ [Awaited]\<rparr> else s)
      | SignalReady maybe_sig \<Rightarrow>
          (case (maybe_sig, guard) of
             (Some sig, Some g) \<Rightarrow>
               (if \<not> run_forwarded s then s\<lparr>run_effects := run_effects s @ signal_group g sig, run_forwarded := True\<rparr>
                else s\<lparr>run_effects := run_effects s @ signal_group g SIGKILL\<rparr>)
           | _ \<Rightarrow> s))"

fun run_loop ::
  "process_group_guard option \<Rightarrow> stream_capture \<Rightarrow> stream_capture \<Rightarrow> select_event list \<Rightarrow> run_state \<Rightarrow> run_state option" where
  "run_loop guard out err [] s = (if run_finished s then Some s else None)"
| "run_loop guard out err (ev # evs) s =
     (if run_finished s then Some s else run_loop guard out err evs (select_step guard out err ev s))"

definition run_capturing ::
  "process_group_guard option \<Rightarrow> stream_capture \<Rightarrow> stream_capture \<Rightarrow> select_event list \<Rightarrow>
   (stream_capture \<times> stream_capture \<times> (string, exit_status) result \<times> child_effect list) option" where
  "run_capturing guard out err evs =
     map_option
       (\<lambda>s. (case run_out s of Some c \<Rightarrow> c | None \<Rightarrow> empty_capture,
             case run_err s of Some c \<Rightarrow> c | None \<Rightarrow> empty_capture,
             case run_status s of Some st \<Rightarrow> st | None \<Rightarrow> Inl ''child wait missing'', run_effects s))
       (run_loop guard out err evs
          \<lparr>run_out = None, run_err = None, run_status = None, run_forwarded = False, run_effects = []\<rparr>)"

section \<open>Before and after the child\<close>

definition accept_regular_executable :: "('z rfsys_scheme) \<Rightarrow> path \<Rightarrow> path option" where
  "accept_regular_executable fs p =
     (case metadata fs p of
        Inl _ \<Rightarrow> None
      | Inr k \<Rightarrow>
          (if k \<noteq> RegularFile then None
           else if mode_bits fs p AND 0x49 = 0 then None
           else (case canonicalize fs p of Inr c \<Rightarrow> Some c | Inl _ \<Rightarrow> None)))"

definition preflight_identity :: "('z rfsys_scheme) \<Rightarrow> path \<Rightarrow> path \<Rightarrow> (exec_failure, unit) result" where
  "preflight_identity fs exe cwd =
     rbind (case accept_regular_executable fs exe of
              Some p \<Rightarrow> Inr p
            | None \<Rightarrow> Inl (exec_contract ''sealed executable is no longer a regular executable file'')) (\<lambda>exe_now.
       if exe_now \<noteq> exe then
         Inl (exec_contract ''sealed executable canonical identity drifted (execution_contract_changed)'')
       else
         rbind (map_err (\<lambda>_. exec_contract ''sealed cwd is no longer accessible'') (metadata fs cwd)) (\<lambda>kind.
           if kind \<noteq> Directory then Inl (exec_contract ''sealed cwd is no longer a directory'')
           else
             rbind (map_err (\<lambda>_. exec_contract ''sealed cwd canonicalization failed'') (canonicalize fs cwd)) (\<lambda>cwd_now.
               if cwd_now \<noteq> cwd then
                 Inl (exec_contract ''sealed cwd canonical identity drifted (execution_contract_changed)'')
               else Inr ())))"

text \<open>\<open>clamp\<close> to a byte, then the cast.\<close>

definition map_status :: "exit_status \<Rightarrow> 8 word option \<times> string option \<times> string" where
  "map_status status =
     (case status of
        Signaled sig \<Rightarrow> (Some (exit_from_signal_number sig), Some (signal_name sig), ''interrupted'')
      | Exited c \<Rightarrow> (Some (word_of_int (max 0 (min 255 c))), None, ''completed'')
      | OtherStatus \<Rightarrow> (Some 1, None, ''completed''))"

definition push_stream_diags :: "diagnostic_record list \<Rightarrow> string \<Rightarrow> stream_capture \<Rightarrow> diagnostic_record list" where
  "push_stream_diags diags label cap =
     diags
     @ (case cap_read_error cap of
          Some msg \<Rightarrow> [\<lparr>diag_code = ''execution_stream'', diag_message = label @ '': '' @ msg\<rparr>]
        | None \<Rightarrow> [])
     @ (if cap_broken_pipe cap then
          [\<lparr>diag_code = ''broken_pipe'', diag_message = label @ '': output consumer closed (broken pipe)''\<rparr>]
        else [])"

definition merge_compressor :: "string \<Rightarrow> string \<Rightarrow> string" where
  "merge_compressor a b =
     (if a = ''rtk'' \<or> b = ''rtk'' then ''rtk''
      else if a = ''unsupported'' \<or> b = ''unsupported'' then ''unsupported'' else ''none'')"

section \<open>Human output\<close>

datatype child_stream = ChildStdout | ChildStderr

fun stream_label :: "child_stream \<Rightarrow> string" where
  "stream_label ChildStdout = ''stdout''"
| "stream_label ChildStderr = ''stderr''"

record console =
  con_out :: sink
  con_err :: sink

definition write_ignore_pipe :: "string \<Rightarrow> bool \<Rightarrow> sink \<Rightarrow> bool \<times> sink" where
  "write_ignore_pipe bytes broken s =
     (if broken \<or> bytes = [] then (broken, s)
      else (case sk_outcomes s of
              [] \<Rightarrow> (broken, s\<lparr>sk_written := sk_written s @ bytes\<rparr>)
            | WroteAll # os \<Rightarrow> (broken, s\<lparr>sk_written := sk_written s @ bytes, sk_outcomes := os\<rparr>)
            | PipeClosed n # os \<Rightarrow> (True, s\<lparr>sk_written := sk_written s @ take n bytes, sk_outcomes := os\<rparr>)
            | WriteFailed n # os \<Rightarrow> (broken, s\<lparr>sk_written := sk_written s @ take n bytes, sk_outcomes := os\<rparr>)))"

text \<open>\<open>out\<close> is the standard stream of the label.\<close>

definition closed_diag :: "child_stream \<Rightarrow> bool \<Rightarrow> diagnostic_record list" where
  "closed_diag label broken =
     (if broken then
        [\<lparr>diag_code = ''broken_pipe'',
          diag_message = stream_label label @ '': output consumer closed while emitting human bytes''\<rparr>]
      else [])"

definition finalize_human_stream ::
  "rtk_adapter \<Rightarrow> ('z rfsys_scheme) \<times> ('z rfsys_scheme) \<Rightarrow> child_stream \<Rightarrow> bool \<Rightarrow> bool \<Rightarrow> string \<Rightarrow> string list \<Rightarrow>
   stream_capture \<Rightarrow> path list \<Rightarrow> path option \<Rightarrow> diagnostic_record list \<Rightarrow> sink \<Rightarrow>
   (string \<times> (nat \<times> nat) option \<times> nat) \<times> diagnostic_record list \<times> sink" where
  "finalize_human_stream adapter fss label rtk_eligible is_dev program argv cap path_dirs projected diagnostics out =
     (if \<not> rtk_eligible then ((''none'', None, cap_total_bytes cap), diagnostics, out)
      else if cap_truncated cap then ((''unsupported'', None, cap_total_bytes cap), diagnostics, out)
      else if cap_encoding cap \<noteq> Utf8 then
        (let (broken, out') = write_ignore_pipe (cap_bytes cap) False out in
         ((''none'', None, length (cap_bytes cap)), diagnostics @ closed_diag label broken, out'))
      else
        (let rtk = apply_rtk_if_eligible adapter (fst fss) (snd fss) True False is_dev program argv cap path_dirs projected;
             (broken, out') = write_ignore_pipe (rk_emitted rtk) False out in
         ((rk_compressor rtk, rk_gain rtk, length (rk_emitted rtk)),
          diagnostics @ rk_diagnostics rtk @ closed_diag label broken, out')))"

section \<open>The machine\<close>

text \<open>
  The file system is read at four moments before the spawn, and twice by the compressor of each stream.
\<close>

datatype check_point = AtIdentity | AtHelpers | AtSources | AtEnvironment

record machine =
  mc_fs :: "check_point \<Rightarrow> sfsys"
  mc_getenv :: "string \<Rightarrow> env_var"
  mc_spawn :: "path \<Rightarrow> path \<Rightarrow> string list \<Rightarrow> (string \<times> string) list \<Rightarrow> (string, 32 word option) result"
  mc_stdout :: "read_event list option"
  mc_stderr :: "read_event list option"
  mc_install_signals :: "(string, unit) result"
  mc_select :: "select_event list"
  mc_adapter :: rtk_adapter
  mc_path_dirs :: "path list"
  mc_rtk_fs :: "child_stream \<Rightarrow> sfsys \<times> sfsys"

definition finalize_output ::
  "machine \<Rightarrow> authorized_execution_plan \<Rightarrow> execution_options \<Rightarrow> stream_capture \<Rightarrow> stream_capture \<Rightarrow>
   diagnostic_record list \<Rightarrow> console \<Rightarrow>
   (string \<times> (nat \<times> nat) option \<times> nat \<times> stream_summary \<times> stream_summary) \<times> diagnostic_record list \<times> console" where
  "finalize_output w authorized options stdout_cap stderr_cap diagnostics con =
     (case eo_mode options of
        JsonMode \<Rightarrow>
          ((''none'', None, length (cap_bytes stdout_cap) + length (cap_bytes stderr_cap),
            summary_from_capture stdout_cap, summary_from_capture stderr_cap), diagnostics, con)
      | HumanMode rtk_eligible _ \<Rightarrow>
          (let resolved = sp_resolved (ap_plan authorized);
               is_dev = (ro_verb (ap_request authorized) = ''dev'');
               ((out_compressor, out_gain, out_emitted), diagnostics, out) =
                 finalize_human_stream (mc_adapter w) (mc_rtk_fs w ChildStdout) ChildStdout rtk_eligible is_dev
                   (res_program resolved) (res_argv resolved) stdout_cap (mc_path_dirs w) (eo_rtk_projected options)
                   diagnostics (con_out con);
               ((err_compressor, err_gain, err_emitted), diagnostics, err) =
                 finalize_human_stream (mc_adapter w) (mc_rtk_fs w ChildStderr) ChildStderr rtk_eligible is_dev
                   (res_program resolved) (res_argv resolved) stderr_cap (mc_path_dirs w) (eo_rtk_projected options)
                   diagnostics (con_err con)
           in ((merge_compressor out_compressor err_compressor,
                (case out_gain of Some g \<Rightarrow> Some g | None \<Rightarrow> err_gain),
                saturating_add out_emitted err_emitted, summary_from_capture stdout_cap, summary_from_capture stderr_cap),
               diagnostics, con\<lparr>con_out := out, con_err := err\<rparr>)))"

definition capture_streams ::
  "execution_options \<Rightarrow> read_event list \<Rightarrow> read_event list \<Rightarrow> console \<Rightarrow> stream_capture \<times> stream_capture \<times> console" where
  "capture_streams options out_events err_events con =
     (let limit = eo_capture_limit options in
      case eo_mode options of
        JsonMode \<Rightarrow> (capture_pipe out_events limit, capture_pipe err_events limit, con)
      | HumanMode rtk_eligible _ \<Rightarrow>
          (let buffer_for_rtk = rtk_eligible; flush_at_eof = (\<not> buffer_for_rtk);
               (out_cap, out) = stream_or_buffer out_events DestStdout limit buffer_for_rtk flush_at_eof (con_out con);
               (err_cap, err) = stream_or_buffer err_events DestStderr limit buffer_for_rtk flush_at_eof (con_err con)
           in (out_cap, err_cap, con\<lparr>con_out := out, con_err := err\<rparr>)))"

definition spawned_report ::
  "machine \<Rightarrow> env_snapshot \<Rightarrow> execution_options \<Rightarrow> authorized_execution_plan option \<Rightarrow> 32 word option \<Rightarrow>
   stream_capture \<Rightarrow> stream_capture \<Rightarrow> exit_status \<Rightarrow> console \<Rightarrow> execution_report \<times> console" where
  "spawned_report w env options lifecycle pid stdout_cap stderr_cap status con =
     (let (exit_code, signal, kind) = map_status status;
          diagnostics = push_stream_diags (push_stream_diags (es_diagnostics env) ''stdout'' stdout_cap) ''stderr'' stderr_cap;
          ((compressor, gain, emitted, stdout_summary, stderr_summary), diagnostics, con') =
            (case lifecycle of
               Some authorized \<Rightarrow> finalize_output w authorized options stdout_cap stderr_cap diagnostics con
             | None \<Rightarrow>
                 ((''none'', None, length (cap_bytes stdout_cap) + length (cap_bytes stderr_cap),
                   summary_from_capture stdout_cap, summary_from_capture stderr_cap), diagnostics, con))
      in (\<lparr>er_spawned = True, er_pid = pid, er_exit_code = exit_code, er_signal = signal, er_outcome = kind,
           er_stdout = stdout_summary, er_stderr = stderr_summary, er_diagnostics = diagnostics,
           er_compressor = compressor, er_gain = gain, er_emitted_output_bytes = emitted\<rparr>, con'))"

type_synonym run_outcome = "(exec_failure, execution_report) result \<times> child_effect list \<times> console"

definition spawn_and_reap ::
  "machine \<Rightarrow> path \<Rightarrow> path \<Rightarrow> string list \<Rightarrow> env_snapshot \<Rightarrow> execution_options \<Rightarrow>
   authorized_execution_plan option \<Rightarrow> console \<Rightarrow> run_outcome option" where
  "spawn_and_reap w exe cwd argv env options lifecycle con =
     (case mc_spawn w exe cwd argv (es_pairs env) of
        Inl e \<Rightarrow> Some (Inl (exec_io ''execution_spawn'' (''failed to spawn authorized child: '' @ e)), [], con)
      | Inr pid \<Rightarrow>
          (let guard = map_option new_guard pid;
               begun = [Spawned exe cwd argv (es_pairs env)];
               abandon = (\<lambda>done failure con.
                 let (guard', reaped) = reap_after_controller_failure guard in
                 Some (Inl failure, begun @ done @ reaped @ drop_guard_opt guard', con))
           in case mc_stdout w of
                None \<Rightarrow> abandon [] (missing_pipe_failure pid ''stdout'') con
              | Some out_events \<Rightarrow>
           (case mc_stderr w of
                None \<Rightarrow> abandon [] (missing_pipe_failure pid ''stderr'') con
              | Some err_events \<Rightarrow>
           (case mc_install_signals w of
                Inl e \<Rightarrow>
                  abandon [] (controller_error ''execution_signal'' (''failed to install signal handlers: '' @ e) pid) con
              | Inr _ \<Rightarrow>
                  (let (out, err, con') = capture_streams options out_events err_events con in
                   case run_capturing guard out err (mc_select w) of
                     None \<Rightarrow> None
                   | Some (stdout_cap, stderr_cap, status, effects) \<Rightarrow>
                       (case status of
                          Inl e \<Rightarrow> abandon effects (wait_failure e pid) con'
                        | Inr st \<Rightarrow>
                            (let (report, con'') =
                                   spawned_report w env options lifecycle pid stdout_cap stderr_cap st con'
                             in Some (Inr report,
                                      begun @ effects @ drop_guard_opt (map_option disarm guard), con''))))))))"

section \<open>The executor\<close>

definition execute_inner :: "machine \<Rightarrow> authorized_execution_plan \<Rightarrow> execution_options \<Rightarrow> console \<Rightarrow> run_outcome option" where
  "execute_inner w authorized options con =
     (let sealed = ap_plan authorized; exe = sp_executable_path sealed; cwd = sp_cwd_path sealed;
          resolved = sp_resolved sealed;
          prepared =
            rbind (preflight_identity (mc_fs w AtIdentity) exe cwd) (\<lambda>_.
              map_err (\<lambda>e. failed_to_spawn (env_error_diagnostic e)) (snapshot_env (mc_getenv w) (res_env_keys resolved)))
      in case prepared of
           Inl failure \<Rightarrow> Some (Inl failure, [], con)
         | Inr env \<Rightarrow> spawn_and_reap w exe cwd (res_argv resolved) env options (Some authorized) con)"

definition seal_failure :: "projection_seal_error \<Rightarrow> exec_failure" where
  "seal_failure e = failed_to_spawn \<lparr>diag_code = seal_error_code e, diag_message = seal_error_message e\<rparr>"

definition execute_projection_inner ::
  "registry_env \<Rightarrow> machine \<Rightarrow> authorized_projection_plan \<Rightarrow> execution_options \<Rightarrow> console \<Rightarrow> run_outcome option" where
  "execute_projection_inner renv w authorized options con =
     (let sealed = aj_plan authorized;
          prepared =
            rbind (map_err seal_failure (preflight_identities renv (mc_fs w AtIdentity) sealed)) (\<lambda>_.
            rbind (map_err seal_failure (preflight_helpers renv (mc_fs w AtHelpers) sealed)) (\<lambda>_.
            rbind (map_err seal_failure (preflight_sources renv (mc_fs w AtSources) sealed)) (\<lambda>_.
              map_err (\<lambda>e. failed_to_spawn (env_error_diagnostic e))
                (build_child_env (mc_fs w AtEnvironment) (mc_getenv w) (pp_fixed_env sealed) (pp_inherited_env_keys sealed)))))
      in case prepared of
           Inl failure \<Rightarrow> Some (Inl failure, [], con)
         | Inr env \<Rightarrow>
             spawn_and_reap w (pp_executable_path sealed) (pp_cwd_path sealed) (pp_argv sealed) env
               \<lparr>eo_mode = JsonMode, eo_capture_limit = eo_capture_limit options, eo_rtk_projected = None\<rparr> None con)"

definition report_of :: "run_outcome \<Rightarrow> execution_report \<times> child_effect list \<times> console" where
  "report_of r = (case r of (Inl failure, rest) \<Rightarrow> (into_report failure, rest) | (Inr report, rest) \<Rightarrow> (report, rest))"

definition executor_execute ::
  "machine \<Rightarrow> authorized_execution_plan \<Rightarrow> execution_options \<Rightarrow> console \<Rightarrow>
   (execution_report \<times> child_effect list \<times> console) option" where
  "executor_execute w authorized options con = map_option report_of (execute_inner w authorized options con)"

definition run_projection ::
  "registry_env \<Rightarrow> machine \<Rightarrow> authorized_projection_plan \<Rightarrow> execution_options \<Rightarrow> console \<Rightarrow>
   (execution_report \<times> child_effect list \<times> console) option" where
  "run_projection renv w authorized options con =
     map_option report_of (execute_projection_inner renv w authorized options con)"

section \<open>The select loop: what it waits for and what it sends\<close>

definition wait_results :: "select_event list \<Rightarrow> (string, exit_status) result list" where
  "wait_results evs = List.map_filter (\<lambda>ev. case ev of WaitReady st \<Rightarrow> Some st | _ \<Rightarrow> None) evs"

definition signals_of :: "select_event list \<Rightarrow> int list" where
  "signals_of evs = List.map_filter (\<lambda>ev. case ev of SignalReady s \<Rightarrow> s | _ \<Rightarrow> None) evs"

text \<open>The loop has all it waits for: both streams at their end, and the end of the child.\<close>

definition all_ready :: "select_event list \<Rightarrow> bool" where
  "all_ready evs \<longleftrightarrow> OutReady \<in> set evs \<and> ErrReady \<in> set evs \<and> wait_results evs \<noteq> []"

text \<open>The first signal is passed on to the group, each later one kills the group.\<close>

definition forwarded_signals :: "process_group_guard option \<Rightarrow> int list \<Rightarrow> child_effect list" where
  "forwarded_signals guard sigs =
     (case sigs of [] \<Rightarrow> []
      | s # later \<Rightarrow> signal_guard guard s @ concat (map (\<lambda>_. signal_guard guard SIGKILL) later))"

definition run_inv ::
  "process_group_guard option \<Rightarrow> stream_capture \<Rightarrow> stream_capture \<Rightarrow> select_event list \<Rightarrow> run_state \<Rightarrow> bool" where
  "run_inv guard out err p s \<longleftrightarrow>
     run_out s = (if OutReady \<in> set p then Some out else None) \<and>
     run_err s = (if ErrReady \<in> set p then Some err else None) \<and>
     run_status s = (case wait_results p of [] \<Rightarrow> None | st # _ \<Rightarrow> Some st) \<and>
     (run_forwarded s \<longleftrightarrow> guard \<noteq> None \<and> signals_of p \<noteq> []) \<and>
     filter (\<lambda>e. e \<noteq> Awaited) (run_effects s) = forwarded_signals guard (signals_of p) \<and>
     filter (\<lambda>e. e = Awaited) (run_effects s) = (if run_status s = None then [] else [Awaited])"

lemma events_snoc [simp]:
  "wait_results (p @ [ev]) = wait_results p @ (case ev of WaitReady st \<Rightarrow> [st] | _ \<Rightarrow> [])"
  "signals_of (p @ [ev]) = signals_of p @ (case ev of SignalReady (Some s) \<Rightarrow> [s] | _ \<Rightarrow> [])"
  by (auto simp: wait_results_def signals_of_def List.map_filter_def split: select_event.splits option.splits)

lemma signal_guard_plain [simp]:
  "filter (\<lambda>e. e \<noteq> Awaited) (signal_group g s) = signal_group g s"
  "filter (\<lambda>e. e = Awaited) (signal_group g s) = []"
  by (auto simp: signal_group_def split: option.splits)

lemma forwarded_signals_snoc:
  "forwarded_signals guard (sigs @ [s]) =
     forwarded_signals guard sigs @ signal_guard guard (if sigs = [] then s else SIGKILL)"
  by (cases sigs) (simp_all add: forwarded_signals_def)

lemma forwarded_signals_no_guard: "forwarded_signals None sigs = []"
  by (cases sigs) (simp_all add: forwarded_signals_def signal_guard_def)

lemma select_step_inv:
  assumes "run_inv guard out err p s"
  shows "run_inv guard out err (p @ [ev]) (select_step guard out err ev s)"
proof (cases ev)
  case (WaitReady st)
  then show ?thesis using assms by (auto simp: run_inv_def select_step_def split: list.splits)
next
  case (SignalReady m)
  show ?thesis
  proof (cases m)
    case None
    then show ?thesis using assms SignalReady by (simp add: run_inv_def select_step_def)
  next
    case (Some sig)
    show ?thesis
    proof (cases guard)
      case None
      then show ?thesis using assms SignalReady Some by (simp add: run_inv_def select_step_def forwarded_signals_no_guard)
    next
      case (Some g)
      then show ?thesis
        using assms SignalReady \<open>m = Some sig\<close>
        by (auto simp: run_inv_def select_step_def forwarded_signals_snoc signal_guard_def)
    qed
  qed
qed (use assms in \<open>auto simp: run_inv_def select_step_def\<close>)

lemma run_finished_iff: "run_inv guard out err p s \<Longrightarrow> run_finished s \<longleftrightarrow> all_ready p"
  by (auto simp: run_inv_def run_finished_def all_ready_def split: list.splits)

text \<open>The events the loop consumed: it stops as soon as it has everything.\<close>

definition consumed :: "select_event list \<Rightarrow> select_event list \<Rightarrow> select_event list \<Rightarrow> bool" where
  "consumed p evs used \<longleftrightarrow>
     (\<exists>now rest. used = p @ now \<and> evs = now @ rest) \<and> all_ready used \<and>
     (\<forall>q. prefix p q \<and> strict_prefix q used \<longrightarrow> \<not> all_ready q)"

lemma run_loop_consumes:
  assumes "run_inv guard out err p s"
  shows "(case run_loop guard out err evs s of
      None \<Rightarrow> \<not> all_ready (p @ evs)
    | Some s' \<Rightarrow> \<exists>used. consumed p evs used \<and> run_inv guard out err used s')"
  using assms
proof (induction evs arbitrary: p s)
  case Nil
  then show ?case
    using run_finished_iff [OF Nil] by (auto simp: consumed_def strict_prefix_def dest: prefix_order.antisym)
next
  case (Cons ev evs)
  show ?case
  proof (cases "run_finished s")
    case True
    then have "consumed p (ev # evs) p"
      using run_finished_iff [OF Cons.prems] by (auto simp: consumed_def strict_prefix_def dest: prefix_order.antisym)
    then show ?thesis using True Cons.prems by auto
  next
    case False
    have "consumed p (ev # evs) used" if "consumed (p @ [ev]) evs used" for used
    proof -
      have "\<not> all_ready q" if "prefix p q" "strict_prefix q used" for q
      proof (cases "q = p")
        case True
        then show ?thesis using False run_finished_iff [OF Cons.prems] by simp
      next
        case False
        with that(1) obtain x xs where "q = p @ x # xs" by (metis append.right_neutral neq_Nil_conv prefixE)
        moreover have "prefix q used" "prefix (p @ [ev]) used"
          using that(2) \<open>consumed (p @ [ev]) evs used\<close> by (auto simp: consumed_def strict_prefix_def)
        ultimately have "prefix (p @ [ev]) q" by (auto simp: prefix_def)
        then show ?thesis using that(2) \<open>consumed (p @ [ev]) evs used\<close> by (simp add: consumed_def)
      qed
      then show ?thesis using that by (auto simp: consumed_def)
    qed
    then show ?thesis
      using Cons.IH [OF select_step_inv [OF Cons.prems, of ev]] False by (auto split: option.splits)
  qed
qed

lemma run_inv_start:
  "run_inv guard out err [] \<lparr>run_out = None, run_err = None, run_status = None, run_forwarded = False, run_effects = []\<rparr>"
  by (simp add: run_inv_def wait_results_def signals_of_def forwarded_signals_def List.map_filter_def)

lemma run_capturing_spec:
  "(case run_capturing guard out err evs of
      None \<Rightarrow> \<not> all_ready evs
    | Some (out', err', status, effects) \<Rightarrow>
        out' = out \<and> err' = err \<and>
        (\<exists>used. consumed [] evs used \<and> status = hd (wait_results used) \<and>
           filter (\<lambda>e. e \<noteq> Awaited) effects = forwarded_signals guard (signals_of used) \<and>
           filter (\<lambda>e. e = Awaited) effects = [Awaited]))"
proof -
  let ?s = "\<lparr>run_out = None, run_err = None, run_status = None, run_forwarded = False, run_effects = []\<rparr>"
  show ?thesis
  proof (cases "run_loop guard out err evs ?s")
    case None
    then show ?thesis
      using run_loop_consumes [OF run_inv_start [of guard out err], of evs] by (simp add: run_capturing_def)
  next
    case (Some s)
    then obtain used where u: "consumed [] evs used" "run_inv guard out err used s"
      using run_loop_consumes [OF run_inv_start [of guard out err], of evs] by auto
    then have "all_ready used" by (simp add: consumed_def)
    then show ?thesis
      using u Some by (auto simp: run_capturing_def run_inv_def all_ready_def neq_Nil_conv)
  qed
qed

text \<open>
  C28: the select loop returns exactly when it can, and with what it should. It returns if and only if both
  streams ended and the wait for the child completed among the events; it then stops at the first moment
  at which all three have, returns the two captures and the first outcome of the wait, has waited for the
  child once, and has sent the process group the first signal the controller received and a kill for each
  later one, and nothing else.
\<close>

theorem run_capturing_exact:
  "(run_capturing guard out err evs = None \<longleftrightarrow> \<not> all_ready evs) \<and>
   (\<forall>out' err' status effects. run_capturing guard out err evs = Some (out', err', status, effects) \<longrightarrow>
      out' = out \<and> err' = err \<and> filter (\<lambda>e. e = Awaited) effects = [Awaited] \<and>
      (\<exists>used rest. evs = used @ rest \<and> all_ready used \<and> (\<forall>q. strict_prefix q used \<longrightarrow> \<not> all_ready q) \<and>
         status = hd (wait_results used) \<and>
         filter (\<lambda>e. e \<noteq> Awaited) effects =
           (case signals_of used of [] \<Rightarrow> []
            | s # later \<Rightarrow> signal_guard guard s @ concat (map (\<lambda>_. signal_guard guard SIGKILL) later))))"
proof -
  have more: "all_ready (used @ rest)" if "all_ready used" for used rest
    using that by (auto simp: all_ready_def wait_results_def List.map_filter_def)
  show ?thesis
    using run_capturing_spec [where guard = guard and out = out and err = err and evs = evs] more
    by (cases "run_capturing guard out err evs") (auto simp: consumed_def forwarded_signals_def)
qed

theorem run_capturing_exact_witness:
  "\<exists>used rest. [SignalReady (Some 2), OutReady, SignalReady (Some 2), WaitReady (Inr (Signaled 9)), ErrReady] = used @ rest \<and>
     all_ready used"
proof -
  let ?g = "Some (new_guard 7)"
  have "run_capturing ?g empty_capture empty_capture
      [SignalReady (Some 2), OutReady, SignalReady (Some 2), WaitReady (Inr (Signaled 9)), ErrReady] =
    Some (empty_capture, empty_capture, Inr (Signaled 9), [GroupSignal 7 2, GroupSignal 7 9, Awaited])"
    by code_simp
  with run_capturing_exact [of ?g empty_capture empty_capture
      "[SignalReady (Some 2), OutReady, SignalReady (Some 2), WaitReady (Inr (Signaled 9)), ErrReady]"]
  show ?thesis by blast
qed

section \<open>Human output, once\<close>

lemma write_ignore_pipe_sent:
  assumes "write_ignore_pipe bytes False s = (broken, s')" and "\<forall>n. WriteFailed n \<notin> set (sk_outcomes s)"
  shows "\<exists>sofar. prefix sofar bytes \<and> sk_written s' = sk_written s @ sofar \<and>
    (set (sk_outcomes s) \<subseteq> {WroteAll} \<longrightarrow> sofar = bytes)"
  using assms
  by (cases "sk_outcomes s") (auto simp: write_ignore_pipe_def take_is_prefix split: write_outcome.splits if_splits)

text \<open>What a stream that was drained and finalised showed: all its bytes, or what the compressor made of them.\<close>

definition shown_for ::
  "rtk_adapter \<Rightarrow> nat \<Rightarrow> bool \<Rightarrow> string \<Rightarrow> string \<Rightarrow> string \<Rightarrow> bool" where
  "shown_for adapter limit rtk_eligible data compressor shown \<longleftrightarrow>
     shown = data \<and> compressor \<noteq> ''rtk'' \<or>
     compressor = ''rtk'' \<and> rtk_eligible \<and> length data \<le> limit \<and> length shown < length data \<and>
     (\<exists>rtk filter_name. pipe_stream adapter rtk filter_name data = Inr shown)"

lemma finalize_streamed:
  assumes "\<not> rtk_eligible \<or> cap_truncated cap"
    and "finalize_human_stream adapter fss label rtk_eligible is_dev program argv cap dirs projected diags out =
      ((compressor, gain, emitted), diags', out')"
  shows "compressor \<noteq> ''rtk'' \<and> emitted = cap_total_bytes cap \<and> out' = out"
  using assms by (auto simp: finalize_human_stream_def split: if_splits)

lemma finalize_buffered:
  assumes "rtk_eligible" "\<not> cap_truncated cap" "length (cap_bytes cap) \<le> limit"
    and fin: "finalize_human_stream adapter fss label rtk_eligible is_dev program argv cap dirs projected diags out =
      ((compressor, gain, emitted), diags', out')"
  shows "\<exists>shown broken. shown_for adapter limit rtk_eligible (cap_bytes cap) compressor shown \<and>
    emitted = length shown \<and> write_ignore_pipe shown False out = (broken, out')"
proof (cases "cap_encoding cap = Utf8")
  case False
  then show ?thesis
    using assms by (auto simp: finalize_human_stream_def shown_for_def split: prod.splits)
next
  case True
  define r where "r = apply_rtk_if_eligible adapter (fst fss) (snd fss) True False is_dev program argv cap dirs projected"
  have "shown_for adapter limit rtk_eligible (cap_bytes cap) (rk_compressor r) (rk_emitted r)"
    using apply_rtk_on [OF TrueI _ r_def] assms(1,3) by (auto simp: shown_for_def passed_through_def rtk_compressed_def) blast+
  then show ?thesis
    using fin True assms(1,2) unfolding finalize_human_stream_def Let_def r_def [symmetric]
    by (auto split: prod.splits)
qed

text \<open>
  C29: a terminal sees the output of a child once. A stream is streamed live or buffered for the compressor,
  and then finalised. What the two steps together add to the destination is a prefix of the bytes the pipe
  delivered or, when the compressor ran, of its output for exactly these bytes; it is all of them as long as
  the destination accepts what is written, also when the stream outgrew the buffer; and the count that is
  reported is the number of bytes shown.
\<close>

theorem human_stream_exactly_once:
  assumes live: "stream_or_buffer events dest limit rtk_eligible (\<not> rtk_eligible) out = (cap, out1)"
    and fin: "finalize_human_stream adapter fss label rtk_eligible is_dev program argv cap dirs projected diags out1 =
      ((compressor, gain, emitted), diags', out2)"
    and "dest \<noteq> DestNone" "limit < U64_MAX" "\<forall>n. WriteFailed n \<notin> set (sk_outcomes out)"
  shows "\<exists>shown sofar. emitted = min U64_MAX (length shown) \<and>
    (shown = fst (delivered events) \<and> compressor \<noteq> ''rtk'' \<or>
     compressor = ''rtk'' \<and> rtk_eligible \<and> length (fst (delivered events)) \<le> limit \<and>
     length shown < length (fst (delivered events)) \<and>
     (\<exists>rtk filter_name. pipe_stream adapter rtk filter_name (fst (delivered events)) = Inr shown)) \<and>
    prefix sofar shown \<and> sk_written out2 = sk_written out @ sofar \<and>
    (set (sk_outcomes out) \<subseteq> {WroteAll} \<longrightarrow> sofar = shown)"
proof -
  let ?data = "fst (delivered events)"
  let ?shown = "if rtk_eligible \<and> length ?data \<le> limit then [] else ?data"
  note once = stream_or_buffer_exactly_once [OF live assms(4,5)]
  then have cap: "cap = capture_of limit ?data (snd (delivered events)) (sk_broken out1)" by simp
  obtain sofar where live_sent: "prefix sofar ?shown" "sk_written out1 = sk_written out @ sofar"
    "\<not> sk_broken out1 \<Longrightarrow> sofar = ?shown"
  proof -
    have same: "(if rtk_eligible \<and> length ?data \<le> limit \<and> \<not> \<not> rtk_eligible then [] else ?data) = ?shown" by auto
    obtain sofar where "prefix sofar ?shown" "sk_written out1 = sk_written out @ sofar"
      "\<not> sk_broken out1 \<and> dest \<noteq> DestNone \<longrightarrow> sofar = ?shown"
      using once unfolding Let_def same by blast
    then show thesis using that assms(3) by blast
  qed
  have opened: "\<not> sk_broken out1" if "set (sk_outcomes out) \<subseteq> {WroteAll}"
    using stream_or_buffer_open [OF live that] by (simp add: open_sink_def)
  show ?thesis
  proof (cases "rtk_eligible \<and> length ?data \<le> limit")
    case True
    then have b: "\<not> cap_truncated cap" "cap_bytes cap = ?data" by (simp_all add: cap capture_of_def)
    obtain shown broken where s: "shown_for adapter limit rtk_eligible ?data compressor shown" "emitted = length shown"
      "write_ignore_pipe shown False out1 = (broken, out2)"
      using finalize_buffered [OF _ b(1) _ fin, of limit] b(2) True by auto
    have none: "\<forall>n. WriteFailed n \<notin> set (sk_outcomes out1)"
      using stream_or_buffer_outcomes [OF live] assms(5) by blast
    from write_ignore_pipe_sent [OF s(3) this] obtain more where
      m: "prefix more shown" "sk_written out2 = sk_written out1 @ more"
      "set (sk_outcomes out1) \<subseteq> {WroteAll} \<Longrightarrow> more = shown" by auto
    have "length shown \<le> length ?data" using s(1) by (auto simp: shown_for_def)
    then have "emitted = min U64_MAX (length shown)" using s(2) True assms(4) by simp
    moreover have "sk_written out1 = sk_written out" using live_sent True by simp
    moreover have "set (sk_outcomes out) \<subseteq> {WroteAll} \<longrightarrow> more = shown"
      using m(3) stream_or_buffer_outcomes [OF live] by blast
    ultimately show ?thesis using m(1,2) s(1) unfolding shown_for_def by metis
  next
    case False
    then have "\<not> rtk_eligible \<or> cap_truncated cap" by (auto simp: cap capture_of_def)
    from finalize_streamed [OF this fin] have f: "compressor \<noteq> ''rtk''" "emitted = cap_total_bytes cap" "out2 = out1"
      by simp_all
    then show ?thesis
      using live_sent opened False by (intro exI [of _ ?data] exI [of _ sofar]) (auto simp: cap capture_of_def)
  qed
qed

section \<open>A child is owned from its start to its end\<close>

lemma guard_signals:
  "set (signal_guard (map_option new_guard pid) sig) \<subseteq> {e. \<exists>g. e = GroupSignal g sig \<and> pid = Some g}"
  by (cases pid) (auto simp: signal_guard_def signal_group_def new_guard_def)

lemma drop_disarmed [simp]: "drop_guard_opt (map_option disarm guard) = []"
  by (cases guard) (simp_all add: drop_guard_opt_def drop_guard_def disarm_def)

lemma reap_effects:
  "reap_after_controller_failure (map_option new_guard pid) =
     (map_option disarm (map_option new_guard pid),
      (case pid of Some g \<Rightarrow> [GroupSignal g SIGKILL] | None \<Rightarrow> []) @ [Awaited])"
  by (cases pid) (simp_all add: reap_after_controller_failure_def signal_guard_def signal_group_def new_guard_def)

text \<open>Effects on a running child: its group is signalled or it is waited for; nothing else is started.\<close>

definition on_child :: "32 word option \<Rightarrow> child_effect list \<Rightarrow> bool" where
  "on_child pid effects \<longleftrightarrow> (\<forall>e \<in> set effects. e = Awaited \<or> (\<exists>g sig. e = GroupSignal g sig \<and> pid = Some g))"

lemma forwarded_on_child: "on_child pid (forwarded_signals (map_option new_guard pid) sigs)"
  using guard_signals [of pid]
  by (cases sigs) (fastforce simp: on_child_def forwarded_signals_def)+

lemma wait_results_append: "wait_results (p @ q) = wait_results p @ wait_results q"
  by (simp add: wait_results_def List.map_filter_def)

lemma run_capturing_on_child:
  assumes "run_capturing (map_option new_guard pid) out err evs = Some (out', err', status, effects)"
  shows "on_child pid effects" "Awaited \<in> set effects" "status \<in> set (wait_results evs)"
proof -
  obtain used where u: "consumed [] evs used" "status = hd (wait_results used)"
    "filter (\<lambda>e. e \<noteq> Awaited) effects = forwarded_signals (map_option new_guard pid) (signals_of used)"
    "filter (\<lambda>e. e = Awaited) effects = [Awaited]"
    using run_capturing_spec [where guard = "map_option new_guard pid" and out = out and err = err and evs = evs] assms
    by auto
  have "set effects \<subseteq> insert Awaited (set (filter (\<lambda>e. e \<noteq> Awaited) effects))" by auto
  then show "on_child pid effects"
    using forwarded_on_child [of pid "signals_of used"] unfolding u(3) on_child_def by blast
  have "Awaited \<in> set (filter (\<lambda>e. e = Awaited) effects)" by (simp add: u(4))
  then show "Awaited \<in> set effects" by simp
  have "wait_results used \<noteq> []" "\<exists>rest. evs = used @ rest" using u(1) by (auto simp: consumed_def all_ready_def)
  then show "status \<in> set (wait_results evs)"
    unfolding u(2) using hd_in_set wait_results_append by fastforce
qed

definition killed_and_awaited :: "32 word option \<Rightarrow> child_effect list \<Rightarrow> bool" where
  "killed_and_awaited pid effects \<longleftrightarrow>
     (\<exists>before. effects = before @ (case pid of Some g \<Rightarrow> [GroupSignal g SIGKILL] | None \<Rightarrow> []) @ [Awaited])"

text \<open>What holds of every outcome after a spawn.\<close>

definition owned ::
  "machine \<Rightarrow> 32 word option \<Rightarrow> (exec_failure, execution_report) result \<Rightarrow> child_effect list \<Rightarrow> bool" where
  "owned w pid res effects \<longleftrightarrow>
     on_child pid effects \<and> Awaited \<in> set effects \<and>
     (case res of
        Inl f \<Rightarrow> ef_spawned f \<and> ef_pid f = pid \<and> ef_outcome f = ''controller_error'' \<and> killed_and_awaited pid effects
      | Inr report \<Rightarrow> er_spawned report \<and> er_pid report = pid \<and>
          (\<exists>st. Inr st \<in> set (wait_results (mc_select w)) \<and>
             map_status st = (er_exit_code report, er_signal report, er_outcome report)))"

lemma owned_abandoned:
  assumes "on_child pid effects" and "ef_spawned f" "ef_pid f = pid" "ef_outcome f = ''controller_error''"
  shows "owned w pid (Inl f) (effects @ (case pid of Some g \<Rightarrow> [GroupSignal g SIGKILL] | None \<Rightarrow> []) @ [Awaited])"
  using assms by (auto simp: owned_def killed_and_awaited_def on_child_def split: option.splits)

lemma spawned_report_fields:
  assumes "spawned_report w env options lifecycle pid out err st con = (report, con')"
  shows "er_spawned report \<and> er_pid report = pid \<and> map_status st = (er_exit_code report, er_signal report, er_outcome report)"
  using assms by (auto simp: spawned_report_def Let_def split: prod.splits)

lemmas after_spawn = missing_pipe_failure_def wait_failure_def controller_error_def

lemma spawn_and_reap_owned:
  assumes spawn: "mc_spawn w exe cwd argv (es_pairs env) = Inr pid"
    and run: "spawn_and_reap w exe cwd argv env options lifecycle con = Some (res, effects, con')"
  shows "\<exists>later. effects = Spawned exe cwd argv (es_pairs env) # later \<and> owned w pid res later"
proof -
  have abandoned: ?thesis if "on_child pid done" "ef_spawned f" "ef_pid f = pid" "ef_outcome f = ''controller_error''"
    "res = Inl f" "effects = [Spawned exe cwd argv (es_pairs env)] @ done @
       ((case pid of Some g \<Rightarrow> [GroupSignal g SIGKILL] | None \<Rightarrow> []) @ [Awaited]) @ []" for f "done"
    using owned_abandoned [OF that(1-4), of w] that(5,6) by simp
  note unfolded = run [unfolded spawn_and_reap_def spawn Let_def reap_effects, simplified]
  show ?thesis
  proof (cases "mc_stdout w")
    case None
    then show ?thesis using unfolded by (intro abandoned [of "[]"]) (auto simp: on_child_def after_spawn)
  next
    case out: (Some out_events)
    show ?thesis
    proof (cases "mc_stderr w")
      case None
      then show ?thesis using unfolded out by (intro abandoned [of "[]"]) (auto simp: on_child_def after_spawn)
    next
      case err: (Some err_events)
      show ?thesis
      proof (cases "mc_install_signals w")
        case (Inl e)
        then show ?thesis using unfolded out err by (intro abandoned [of "[]"]) (auto simp: on_child_def after_spawn)
      next
        case inst: (Inr u)
        obtain oc ec con1 where streams: "capture_streams options out_events err_events con = (oc, ec, con1)"
          by (metis prod_cases3)
        obtain oc' ec' status eff where loop:
          "run_capturing (map_option new_guard pid) oc ec (mc_select w) = Some (oc', ec', status, eff)"
          using unfolded out err inst streams by (auto split: option.splits)
        note eff = run_capturing_on_child [OF loop]
        show ?thesis
        proof (cases status)
          case (Inl e)
          then show ?thesis
            using unfolded out err inst streams loop by (intro abandoned [OF eff(1)]) (auto simp: after_spawn)
        next
          case (Inr st)
          obtain report con2 where rep: "spawned_report w env options lifecycle pid oc' ec' st con1 = (report, con2)"
            by fastforce
          from spawned_report_fields [OF rep] show ?thesis
            using unfolded out err inst streams loop Inr rep eff by (auto simp: owned_def)
        qed
      qed
    qed
  qed
qed

text \<open>
  C20: a child that was started is never lost and never mistaken. If the spawn fails the report says that
  nothing was spawned, and nothing was done. Otherwise exactly one child was started, with the program,
  directory, arguments and environment it was asked for; every signal goes to its own process group; and
  the controller waited for its end. A failure of the controller after the spawn is reported as a controller
  error of a spawned child with its pid, after the group was killed and the child awaited; a completed run
  reports the exit code and the signal of an outcome the wait returned.
\<close>

theorem spawned_child_owned:
  assumes "spawn_and_reap w exe cwd argv env options lifecycle con = Some (res, effects, con')"
  shows "case mc_spawn w exe cwd argv (es_pairs env) of
      Inl e \<Rightarrow> effects = [] \<and> con' = con \<and> (\<exists>f. res = Inl f \<and> \<not> ef_spawned f \<and> ef_outcome f = ''failed_to_spawn'')
    | Inr pid \<Rightarrow> \<exists>later. effects = Spawned exe cwd argv (es_pairs env) # later \<and> Awaited \<in> set later \<and>
        (\<forall>e \<in> set later. e = Awaited \<or> (\<exists>g sig. e = GroupSignal g sig \<and> pid = Some g)) \<and>
        (case res of
           Inl f \<Rightarrow> ef_spawned f \<and> ef_pid f = pid \<and> ef_outcome f = ''controller_error'' \<and>
             (\<exists>before. later = before @ (case pid of Some g \<Rightarrow> [GroupSignal g SIGKILL] | None \<Rightarrow> []) @ [Awaited])
         | Inr report \<Rightarrow> er_spawned report \<and> er_pid report = pid \<and>
             (\<exists>st. Inr st \<in> set (wait_results (mc_select w)) \<and>
                map_status st = (er_exit_code report, er_signal report, er_outcome report)))"
proof (cases "mc_spawn w exe cwd argv (es_pairs env)")
  case (Inl e)
  then show ?thesis using assms by (auto simp: spawn_and_reap_def exec_io_def)
next
  case (Inr pid)
  then show ?thesis
    using spawn_and_reap_owned [OF Inr assms]
    by (cases res) (auto simp: owned_def on_child_def killed_and_awaited_def)
qed

section \<open>What a report says of the output\<close>

text \<open>The summary of a capture with nothing lost but what is beyond the limit.\<close>

definition summarises :: "nat \<Rightarrow> read_event list \<Rightarrow> stream_summary \<Rightarrow> bool" where
  "summarises limit events s \<longleftrightarrow>
     (let data = fst (delivered events) in
      sum_bytes s = take limit data \<and> sum_captured_bytes s = min limit (length data) \<and>
      sum_total_bytes s = min U64_MAX (length data) \<and> (sum_truncated s \<longleftrightarrow> limit < length data) \<and>
      (sum_text s = None \<longleftrightarrow> CHR 0x00 \<in> set (take limit data)))"

lemma summary_of_capture: "summarises limit events (summary_from_capture (capture_of limit (fst (delivered events)) err broken))"
  by (simp add: summarises_def summary_from_capture_def capture_of_def classify_bytes_def Let_def min.commute)

lemma summarises_bounds:
  assumes "summarises limit events s"
  shows "let data = fst (delivered events) in
    sum_bytes s = take limit data \<and> length (sum_bytes s) \<le> limit \<and> sum_captured_bytes s = length (sum_bytes s) \<and>
    sum_total_bytes s = min U64_MAX (length data) \<and> sum_total_bytes s < 2 ^ 64 \<and>
    (sum_truncated s \<longleftrightarrow> limit < length data) \<and> (sum_text s = None \<longleftrightarrow> CHR 0x00 \<in> set (sum_bytes s))"
proof -
  have "min U64_MAX n < 2 ^ 64" for n by (simp add: U64_MAX_def min_def)
  then show ?thesis using assms by (simp add: summarises_def Let_def min.commute [of limit])
qed

text \<open>What is captured does not depend on the terminal.\<close>

lemma stream_chunk_sink:
  "\<exists>x. stream_chunk dest limit chunk (s\<lparr>st_sink := k\<rparr>) = (stream_chunk dest limit chunk s)\<lparr>st_sink := x\<rparr>"
  by (cases s) (auto simp: stream_chunk_def Let_def split: prod.splits)

lemma stream_loop_sink:
  "\<exists>x. stream_loop dest limit events (s\<lparr>st_sink := k\<rparr>) =
     ((fst (stream_loop dest limit events s))\<lparr>st_sink := x\<rparr>, snd (stream_loop dest limit events s))"
proof (induction dest limit events s arbitrary: k rule: stream_loop.induct)
  case (3 dest limit chunk events s)
  show ?case
  proof (cases "chunk = []")
    case True
    then show ?thesis by (intro exI [of _ k]) simp
  next
    case False
    obtain y where "stream_chunk dest limit chunk (s\<lparr>st_sink := k\<rparr>) = (stream_chunk dest limit chunk s)\<lparr>st_sink := y\<rparr>"
      using stream_chunk_sink by blast
    then show ?thesis using 3 [OF False, of y] False by simp
  qed
qed (auto intro: exI [of _ k])

lemma stream_or_buffer_summary:
  assumes "limit < U64_MAX" and "stream_or_buffer events dest limit buffer_first flush_at_eof out = (c, out')"
  shows "summarises limit events (summary_from_capture c)"
proof -
  let ?quiet = "\<lparr>sk_written = [], sk_broken = False, sk_outcomes = []\<rparr>"
  let ?start = "\<lambda>k. \<lparr>st_retained = [], st_total = 0, st_truncated = False, st_buffering = buffer_first, st_sink = k\<lparr>sk_broken := False\<rparr>\<rparr>"
  obtain c0 k0 where quiet: "stream_or_buffer events dest limit buffer_first flush_at_eof ?quiet = (c0, k0)" by fastforce
  have "c0 = capture_of limit (fst (delivered events)) (snd (delivered events)) (sk_broken k0)"
    using stream_or_buffer_exactly_once [OF quiet assms(1)] by simp
  moreover have "summary_from_capture c = summary_from_capture c0"
  proof -
    obtain t e where quiet_loop: "stream_loop dest limit events (?start ?quiet) = (t, e)" by fastforce
    have start: "(?start ?quiet)\<lparr>st_sink := out\<lparr>sk_broken := False\<rparr>\<rparr> = ?start out" by simp
    obtain x where "stream_loop dest limit events (?start out) = (t\<lparr>st_sink := x\<rparr>, e)"
      using stream_loop_sink [where s = "?start ?quiet" and k = "out\<lparr>sk_broken := False\<rparr>" and dest = dest and limit = limit
          and events = events, unfolded quiet_loop start] by auto
    then have "cap_bytes c = cap_bytes c0 \<and> cap_total_bytes c = cap_total_bytes c0 \<and>
        cap_truncated c = cap_truncated c0 \<and> cap_encoding c = cap_encoding c0"
      using assms(2) quiet quiet_loop by (auto simp: stream_or_buffer_def Let_def)
    then show ?thesis by (simp add: summary_from_capture_def split: stream_encoding.split)
  qed
  ultimately show ?thesis by (simp add: summary_of_capture)
qed

lemma capture_streams_summarises:
  assumes "capture_streams options out_events err_events con = (out, err, con')" and "eo_capture_limit options < U64_MAX"
  shows "summarises (eo_capture_limit options) out_events (summary_from_capture out) \<and>
    summarises (eo_capture_limit options) err_events (summary_from_capture err)"
  using assms stream_or_buffer_summary [OF assms(2)]
  by (auto simp: capture_streams_def Let_def capture_pipe_exact summary_of_capture split: execution_mode.splits prod.splits)

lemma spawned_report_streams:
  "spawned_report w env options lifecycle pid out err st con = (report, con') \<Longrightarrow>
     er_stdout report = summary_from_capture out \<and> er_stderr report = summary_from_capture err"
  by (auto simp: spawned_report_def finalize_output_def Let_def split: prod.splits option.splits execution_mode.splits)

text \<open>
  C21: the report of a finished child is bounded, and exact within its bounds. Of each stream it holds the
  first bytes up to the limit of the options and no more, counts every byte up to the largest 64-bit number
  without wrapping, says that it was truncated exactly when bytes beyond the limit were dropped, and shows a
  text unless the retained bytes contain a zero; in both modes, whether the stream was buffered for the
  compressor or not, and whatever the terminal does. Assumed: a limit below the largest 64-bit number.
\<close>

theorem reported_output_bounded:
  assumes "spawn_and_reap w exe cwd argv env options lifecycle con = Some (Inr report, effects, con')"
    and "eo_capture_limit options < U64_MAX"
  shows "\<exists>out_events err_events. mc_stdout w = Some out_events \<and> mc_stderr w = Some err_events \<and>
    (\<forall>(events, s) \<in> {(out_events, er_stdout report), (err_events, er_stderr report)}.
       let data = fst (delivered events); limit = eo_capture_limit options in
       sum_bytes s = take limit data \<and> length (sum_bytes s) \<le> limit \<and> sum_captured_bytes s = length (sum_bytes s) \<and>
       sum_total_bytes s = min U64_MAX (length data) \<and> sum_total_bytes s < 2 ^ 64 \<and>
       (sum_truncated s \<longleftrightarrow> limit < length data) \<and>
       (sum_text s = None \<longleftrightarrow> CHR 0x00 \<in> set (sum_bytes s)))"
proof -
  obtain pid where pid: "mc_spawn w exe cwd argv (es_pairs env) = Inr pid"
    using assms(1) by (auto simp: spawn_and_reap_def split: sum.splits)
  obtain out_events err_events where events: "mc_stdout w = Some out_events" "mc_stderr w = Some err_events"
    using assms(1) by (auto simp: spawn_and_reap_def pid Let_def split: option.splits prod.splits)
  obtain out err con1 where streams: "capture_streams options out_events err_events con = (out, err, con1)"
    by (metis prod_cases3)
  have "\<exists>out' err' status eff st con2. run_capturing (map_option new_guard pid) out err (mc_select w) = Some (out', err', status, eff) \<and>
      spawned_report w env options lifecycle pid out' err' st con1 = (report, con2)"
    using assms(1)
    by (auto simp: spawn_and_reap_def pid events streams Let_def split: sum.splits option.splits prod.splits)
  then obtain out' err' status eff st con2 where
    run: "run_capturing (map_option new_guard pid) out err (mc_select w) = Some (out', err', status, eff)"
    and rep: "spawned_report w env options lifecycle pid out' err' st con1 = (report, con2)" by blast
  have "out' = out" "err' = err"
    using run_capturing_spec [where guard = "map_option new_guard pid" and out = out and err = err and evs = "mc_select w"] run
    by auto
  with spawned_report_streams [OF rep] capture_streams_summarises [OF streams assms(2)]
  have both: "summarises (eo_capture_limit options) out_events (er_stdout report)"
    "summarises (eo_capture_limit options) err_events (er_stderr report)" by simp_all
  show ?thesis
    by (rule exI [of _ out_events], rule exI [of _ err_events]) (use events both [THEN summarises_bounds] in \<open>simp add: Let_def\<close>)
qed

section \<open>Nothing is started before the checks\<close>

lemma json_console_untouched:
  assumes "spawn_and_reap w exe cwd argv env options None con = Some (res, effects, con')" and "eo_mode options = JsonMode"
  shows "con' = con"
  using assms
  by (auto simp: spawn_and_reap_def capture_streams_def spawned_report_def Let_def
      split: sum.splits option.splits prod.splits)

lemma accept_regular_executable_Some:
  "accept_regular_executable fs p = Some c \<longleftrightarrow>
     metadata fs p = Inr RegularFile \<and> mode_bits fs p AND 0x49 \<noteq> 0 \<and> canonicalize fs p = Inr c"
  by (auto simp: accept_regular_executable_def split: sum.splits)

lemma preflight_identity_ok:
  "preflight_identity fs exe cwd = Inr () \<longleftrightarrow>
     metadata fs exe = Inr RegularFile \<and> mode_bits fs exe AND 0x49 \<noteq> 0 \<and> canonicalize fs exe = Inr exe \<and>
     metadata fs cwd = Inr Directory \<and> canonicalize fs cwd = Inr cwd"
  by (auto simp: preflight_identity_def rbind_eq_Inr_iff map_err_eq_Inr_iff split: option.splits
      dest: accept_regular_executable_Some [THEN iffD1])
    (auto simp: accept_regular_executable_def)

lemma preflight_identity_failure:
  "preflight_identity fs exe cwd = Inl f \<Longrightarrow> \<not> ef_spawned f \<and> ef_outcome f = ''failed_to_spawn''"
  by (auto simp: preflight_identity_def rbind_eq_Inl_iff map_err_def exec_contract_def
      split: option.splits if_splits sum.splits)

lemma snapshot_env_plain:
  "snapshot_env getenv keys = Inr s \<Longrightarrow> \<forall>k \<in> set keys. \<not> is_secret_key_name k"
  by (induction keys arbitrary: s) (auto simp: rbind_eq_Inr_iff split: if_splits)

lemma spawn_effects_nonempty:
  assumes "spawn_and_reap w exe cwd argv env options lifecycle con = Some (res, effects, con')" "effects \<noteq> []"
  shows "\<exists>later. effects = Spawned exe cwd argv (es_pairs env) # later \<and>
    (\<forall>e \<in> set later. e = Awaited \<or> (\<exists>g sig. e = GroupSignal g sig))"
proof (cases "mc_spawn w exe cwd argv (es_pairs env)")
  case (Inl e)
  then show ?thesis using assms by (simp add: spawn_and_reap_def)
next
  case (Inr pid)
  then show ?thesis using spawn_and_reap_owned [OF Inr assms(1)] by (fastforce simp: owned_def on_child_def)
qed

lemma spawn_effects_empty:
  assumes "spawn_and_reap w exe cwd argv env options lifecycle con = Some (res, [], con')"
  shows "con' = con \<and> (\<exists>f. res = Inl f \<and> \<not> ef_spawned f \<and> ef_outcome f = ''failed_to_spawn'')"
proof (cases "mc_spawn w exe cwd argv (es_pairs env)")
  case (Inl e)
  then show ?thesis using assms by (auto simp: spawn_and_reap_def exec_io_def)
next
  case (Inr pid)
  then show ?thesis using spawn_and_reap_owned [OF Inr assms] by auto
qed

text \<open>
  C22: a lifecycle command runs only as it was authorised. If anything was started, then at that moment the
  sealed executable was still a regular executable file under its canonical path and the sealed directory
  still a directory under its own; the first effect is the start of exactly this program there with the
  authorised arguments; its environment holds the declared keys that are set, with their values, and no key
  that names a secret; and nothing else was started. If nothing was started the console is untouched and
  the failure says so.
\<close>

theorem lifecycle_spawn_gated:
  assumes "execute_inner w authorized options con = Some (res, effects, con')"
  shows "let plan = ap_plan authorized; fs = mc_fs w AtIdentity; exe = sp_executable_path plan; cwd = sp_cwd_path plan;
             keys = res_env_keys (sp_resolved plan) in
    (effects = [] \<and> con' = con \<and> (\<exists>f. res = Inl f \<and> \<not> ef_spawned f \<and> ef_outcome f = ''failed_to_spawn'')) \<or>
    (metadata fs exe = Inr RegularFile \<and> mode_bits fs exe AND 0x49 \<noteq> 0 \<and> canonicalize fs exe = Inr exe \<and>
     metadata fs cwd = Inr Directory \<and> canonicalize fs cwd = Inr cwd \<and>
     (\<forall>k \<in> set keys. \<not> is_secret_key_name k) \<and>
     (\<exists>later. effects = Spawned exe cwd (res_argv (sp_resolved plan))
          (List.map_filter (\<lambda>k. case mc_getenv w k of VarPresent v \<Rightarrow> Some (k, v) | _ \<Rightarrow> None) keys) # later \<and>
        (\<forall>e \<in> set later. e = Awaited \<or> (\<exists>g sig. e = GroupSignal g sig))))"
proof -
  let ?plan = "ap_plan authorized"
  let ?check = "preflight_identity (mc_fs w AtIdentity) (sp_executable_path ?plan) (sp_cwd_path ?plan)"
  let ?snap = "snapshot_env (mc_getenv w) (res_env_keys (sp_resolved ?plan))"
  show ?thesis
  proof (cases ?check)
    case (Inl f)
    then show ?thesis using assms preflight_identity_failure [OF Inl] by (auto simp: execute_inner_def Let_def)
  next
    case check: (Inr u)
    show ?thesis
    proof (cases ?snap)
      case (Inl e)
      then show ?thesis using assms check by (auto simp: execute_inner_def Let_def map_err_def failed_to_spawn_def)
    next
      case (Inr env)
      then have run: "spawn_and_reap w (sp_executable_path ?plan) (sp_cwd_path ?plan) (res_argv (sp_resolved ?plan)) env options
          (Some authorized) con = Some (res, effects, con')"
        using assms check by (simp add: execute_inner_def Let_def map_err_def)
      show ?thesis
      proof (cases "effects = []")
        case True
        then show ?thesis using run spawn_effects_empty by (auto simp: Let_def)
      next
        case False
        from spawn_effects_nonempty [OF run this] show ?thesis
          using check preflight_identity_ok [of "mc_fs w AtIdentity"] snapshot_env_plain [OF Inr] snapshot_env_pairs [OF Inr]
          by (simp add: Let_def)
      qed
    qed
  qed
qed

text \<open>
  A projection runs only what was sealed. If anything was started, then the identities, the helpers and
  the sources of the plan each passed their check in the file system of that moment, the environment was
  built from the values of the plan alone, and the first effect is the start of exactly the sealed program,
  directory and arguments in that environment, with nothing else started. The console is never written;
  and if nothing was started the failure says so.
\<close>

theorem projection_spawn_gated:
  assumes "execute_projection_inner renv w authorized options con = Some (res, effects, con')"
  shows "let plan = aj_plan authorized in con' = con \<and>
    (effects = [] \<and> (\<exists>f. res = Inl f \<and> \<not> ef_spawned f \<and> ef_outcome f = ''failed_to_spawn'') \<or>
     preflight_identities renv (mc_fs w AtIdentity) plan = Inr () \<and>
     preflight_helpers renv (mc_fs w AtHelpers) plan = Inr () \<and>
     preflight_sources renv (mc_fs w AtSources) plan = Inr () \<and>
     (\<exists>env later. build_child_env (mc_fs w AtEnvironment) (mc_getenv w) (pp_fixed_env plan) (pp_inherited_env_keys plan) =
          Inr env \<and>
        effects = Spawned (pp_executable_path plan) (pp_cwd_path plan) (pp_argv plan) (es_pairs env) # later \<and>
        (\<forall>e \<in> set later. e = Awaited \<or> (\<exists>g sig. e = GroupSignal g sig))))"
proof -
  define plan where "plan = aj_plan authorized"
  define prepared where "prepared =
    rbind (map_err seal_failure (preflight_identities renv (mc_fs w AtIdentity) plan)) (\<lambda>_.
    rbind (map_err seal_failure (preflight_helpers renv (mc_fs w AtHelpers) plan)) (\<lambda>_.
    rbind (map_err seal_failure (preflight_sources renv (mc_fs w AtSources) plan)) (\<lambda>_.
      map_err (\<lambda>e. failed_to_spawn (env_error_diagnostic e))
        (build_child_env (mc_fs w AtEnvironment) (mc_getenv w) (pp_fixed_env plan) (pp_inherited_env_keys plan)))))"
  let ?options = "\<lparr>eo_mode = JsonMode, eo_capture_limit = eo_capture_limit options, eo_rtk_projected = None\<rparr>"
  show ?thesis
  proof (cases prepared)
    case (Inl f)
    then have "\<not> ef_spawned f \<and> ef_outcome f = ''failed_to_spawn''"
      by (auto simp: prepared_def rbind_eq_Inl_iff map_err_def seal_failure_def failed_to_spawn_def split: sum.splits)
    then show ?thesis
      using assms Inl unfolding execute_projection_inner_def Let_def plan_def [symmetric] prepared_def [symmetric] by auto
  next
    case (Inr env)
    then have run: "spawn_and_reap w (pp_executable_path plan) (pp_cwd_path plan) (pp_argv plan) env ?options None con =
        Some (res, effects, con')"
      using assms unfolding execute_projection_inner_def Let_def plan_def [symmetric] prepared_def [symmetric] by simp
    have ok: "preflight_identities renv (mc_fs w AtIdentity) plan = Inr ()"
      "preflight_helpers renv (mc_fs w AtHelpers) plan = Inr ()" "preflight_sources renv (mc_fs w AtSources) plan = Inr ()"
      "build_child_env (mc_fs w AtEnvironment) (mc_getenv w) (pp_fixed_env plan) (pp_inherited_env_keys plan) = Inr env"
      using Inr by (auto simp: prepared_def rbind_eq_Inr_iff map_err_eq_Inr_iff)
    have "con' = con" by (rule json_console_untouched [OF run]) simp_all
    then show ?thesis
      unfolding Let_def plan_def [symmetric]
      using ok spawn_effects_empty [of w _ _ _ env] spawn_effects_nonempty [OF run] run
      by (cases "effects = []") auto
  qed
qed

section \<open>Examples\<close>

definition quiet_machine :: machine where
  "quiet_machine =
     \<lparr>mc_fs = (\<lambda>_. tool_fs), mc_getenv = (\<lambda>_. VarNotPresent), mc_spawn = (\<lambda>_ _ _ _. Inr (Some 7)),
      mc_stdout = Some [], mc_stderr = Some [], mc_install_signals = Inr (),
      mc_select = [OutReady, ErrReady, WaitReady (Inr (Exited 0))],
      mc_adapter = \<lparr>ra_gain_help = (\<lambda>_. False), ra_pipe_help = (\<lambda>_. False), ra_run = (\<lambda>_ _ _. AdapterTimedOut)\<rparr>,
      mc_path_dirs = [], mc_rtk_fs = (\<lambda>_. (tool_fs, tool_fs))\<rparr>"

definition json_options :: execution_options where
  "json_options = \<lparr>eo_mode = JsonMode, eo_capture_limit = 16, eo_rtk_projected = None\<rparr>"

definition fresh_console :: console where
  "fresh_console = (let s = \<lparr>sk_written = [], sk_broken = False, sk_outcomes = []\<rparr> in \<lparr>con_out = s, con_err = s\<rparr>)"

definition report_input :: "sealed_projection_plan \<Rightarrow> projection_evaluation_input" where
  "report_input plan =
     \<lparr>pj_plan = plan, pj_profile = (sample_profile [''takogami bin report'', ''ontarch bin-report''])\<lparr>pf_id := ''p''\<rparr>,
      pj_policies = [], pj_policy_origins = [], pj_policy_root = components ''/ws''\<rparr>"

fun started :: "run_outcome option \<Rightarrow> bool" where
  "started (Some (_, effects, _)) = (effects \<noteq> [])"
| "started None = False"

lemma startedE:
  assumes "started r"
  obtains res effects con where "r = Some (res, effects, con)" "effects \<noteq> []"
  using assms by (cases r rule: started.cases) auto

theorem spawned_child_owned_witness:
  "\<exists>res later con'. spawn_and_reap quiet_machine [] [] [] \<lparr>es_pairs = [], es_diagnostics = []\<rparr> json_options None fresh_console =
     Some (res, Spawned [] [] [] [] # later, con') \<and> Awaited \<in> set later"
proof -
  have "started (spawn_and_reap quiet_machine [] [] [] \<lparr>es_pairs = [], es_diagnostics = []\<rparr> json_options None fresh_console)"
    by code_simp
  then obtain res effects con' where r:
    "spawn_and_reap quiet_machine [] [] [] \<lparr>es_pairs = [], es_diagnostics = []\<rparr> json_options None fresh_console =
      Some (res, effects, con')"
    by (rule startedE)
  from spawned_child_owned [OF r] show ?thesis using r by (auto simp: quiet_machine_def)
qed

theorem reported_output_bounded_witness:
  "\<exists>report effects con'. spawn_and_reap quiet_machine [] [] [] \<lparr>es_pairs = [], es_diagnostics = []\<rparr> json_options None fresh_console =
     Some (Inr report, effects, con') \<and> length (sum_bytes (er_stdout report)) \<le> 16"
proof -
  have "(case spawn_and_reap quiet_machine [] [] [] \<lparr>es_pairs = [], es_diagnostics = []\<rparr> json_options None fresh_console of
      Some (Inr _, _, _) \<Rightarrow> True | _ \<Rightarrow> False)"
    by code_simp
  then obtain report effects con' where r:
    "spawn_and_reap quiet_machine [] [] [] \<lparr>es_pairs = [], es_diagnostics = []\<rparr> json_options None fresh_console =
      Some (Inr report, effects, con')"
    by (auto split: option.splits prod.splits sum.splits)
  have "eo_capture_limit json_options = 16" "(16 :: nat) < U64_MAX"
    by (simp_all add: json_options_def U64_MAX_def)
  with reported_output_bounded [OF r] r show ?thesis by (auto simp: Let_def)
qed

theorem lifecycle_spawn_gated_witness:
  "\<exists>a. evaluate_policy sample_env build_input = Authorized a \<and>
     canonicalize tool_fs (sp_executable_path (ap_plan a)) = Inr (sp_executable_path (ap_plan a))"
proof -
  have "(case evaluate_policy sample_env build_input of
      Authorized a \<Rightarrow> started (execute_inner quiet_machine a json_options fresh_console) | _ \<Rightarrow> False)"
    by code_simp
  then obtain a where a: "evaluate_policy sample_env build_input = Authorized a"
    "started (execute_inner quiet_machine a json_options fresh_console)"
    by (auto split: policy_evaluation_result.splits)
  from a(2) obtain res effects con' where "execute_inner quiet_machine a json_options fresh_console = Some (res, effects, con')"
    "effects \<noteq> []" by (rule startedE)
  with lifecycle_spawn_gated [OF this(1)] a(1) show ?thesis by (auto simp: Let_def quiet_machine_def)
qed

lemma report_runs:
  "\<exists>plan a. tool_seal = Inr plan \<and> evaluate_projection_policy sample_env (report_input plan) = ProjectionAuthorized a \<and>
     started (execute_projection_inner tool_env quiet_machine a json_options fresh_console)"
proof -
  have "(case tool_seal of Inl _ \<Rightarrow> False | Inr plan \<Rightarrow>
      (case evaluate_projection_policy sample_env (report_input plan) of
         ProjectionAuthorized a \<Rightarrow> started (execute_projection_inner tool_env quiet_machine a json_options fresh_console)
       | _ \<Rightarrow> False))"
    by code_simp
  then show ?thesis by (auto split: sum.splits projection_evaluation_result.splits)
qed

theorem projection_spawn_gated_witness:
  "\<exists>plan. tool_seal = Inr plan \<and> preflight_sources tool_env tool_fs plan = Inr ()"
proof -
  obtain plan a where p: "tool_seal = Inr plan"
    "evaluate_projection_policy sample_env (report_input plan) = ProjectionAuthorized a"
    "started (execute_projection_inner tool_env quiet_machine a json_options fresh_console)"
    using report_runs by blast
  from p(3) obtain res effects con' where r:
    "execute_projection_inner tool_env quiet_machine a json_options fresh_console = Some (res, effects, con')" "effects \<noteq> []"
    by (rule startedE)
  have "aj_plan a = plan"
    using p(2) by (auto simp: evaluate_projection_policy_def projection_normalized_def report_input_def Let_def
        split: sum.splits if_splits)
  with projection_spawn_gated [OF r(1)] r(2) p(1) show ?thesis by (auto simp: Let_def quiet_machine_def)
qed

text \<open>A buffered stream that outgrows its buffer, and a closing terminal.\<close>

theorem human_stream_exactly_once_witness:
  "\<exists>sofar. prefix sofar ''abcde'' \<and>
     sk_written (snd (snd (finalize_human_stream (mc_adapter quiet_machine) (tool_fs, tool_fs) ChildStdout True False ''git'' [''status'']
       (fst (stream_or_buffer [Chunk ''ab'', Chunk ''cde''] DestStdout 3 True (\<not> True) \<lparr>sk_written = [], sk_broken = False, sk_outcomes = [PipeClosed 2]\<rparr>))
       [] None []
       (snd (stream_or_buffer [Chunk ''ab'', Chunk ''cde''] DestStdout 3 True (\<not> True) \<lparr>sk_written = [], sk_broken = False, sk_outcomes = [PipeClosed 2]\<rparr>))))) = sofar"
proof -
  let ?sink = "\<lparr>sk_written = [], sk_broken = False, sk_outcomes = [PipeClosed 2]\<rparr>"
  obtain cap out1 where live: "stream_or_buffer [Chunk ''ab'', Chunk ''cde''] DestStdout 3 True (\<not> True) ?sink = (cap, out1)"
    by fastforce
  obtain compressor gain emitted diags' out2 where fin:
    "finalize_human_stream (mc_adapter quiet_machine) (tool_fs, tool_fs) ChildStdout True False ''git'' [''status''] cap [] None [] out1 =
      ((compressor, gain, emitted), diags', out2)"
    by (metis prod.exhaust)
  have "(3 :: nat) < U64_MAX" by (simp add: U64_MAX_def)
  from human_stream_exactly_once [OF live fin _ this] have "\<exists>sofar. prefix sofar ''abcde'' \<and> sk_written out2 = sofar"
    by auto
  then show ?thesis unfolding live fst_conv snd_conv fin .
qed

end
