(* ===== verification/Bin_Payload.thy ===== *)
theory Bin_Payload
  imports Projection_Plan Graph_Document
begin

text \<open>
  The documents a report child prints (\<open>bin_projection/types.rs\<close>, \<open>bin_projection/validate.rs\<close>): the
  inventory of the workflows and the cleanup plan, the extraction of exactly one JSON document from the
  captured bytes, and the semantic validation of both. The streaming JSON reader and the typed decoders are
  parameters. The contract is stated declaratively and the validators are shown to decide it.
\<close>

section \<open>Documents\<close>

record inventory_summary =
  isu_total :: nat
  isu_with_manifest :: nat

record inventory_workflow =
  iw_path :: string
  iw_size_bytes :: nat
  iw_file_count :: nat
  iw_oldest_file_age_days :: "nat option"
  iw_newest_file_age_days :: "nat option"
  iw_manifest_present :: bool
  iw_manifest_count :: nat

record bin_inventory =
  bi_generated_at :: string
  bi_root :: string
  bi_summary :: inventory_summary
  bi_workflows :: "inventory_workflow list"

datatype bin_cleanup_mode = ReportOnly | DryRun | Archive | DeleteApproved

fun bin_cleanup_mode_str :: "bin_cleanup_mode \<Rightarrow> string" where
  "bin_cleanup_mode_str ReportOnly = ''report-only''"
| "bin_cleanup_mode_str DryRun = ''dry-run''"
| "bin_cleanup_mode_str Archive = ''archive''"
| "bin_cleanup_mode_str DeleteApproved = ''delete-approved''"

datatype cleanup_disposition = AdvisoryEntry | WouldArchive | WouldDelete | BlockedEntry

fun disposition_str :: "cleanup_disposition \<Rightarrow> string" where
  "disposition_str AdvisoryEntry = ''advisory''"
| "disposition_str WouldArchive = ''would_archive''"
| "disposition_str WouldDelete = ''would_delete''"
| "disposition_str BlockedEntry = ''blocked''"

datatype cleanup_reason =
    Approved | ApprovedToMismatch | ApprovedToNull | CurrentEntry | InvalidManifest | LibOrSrc | MultipleManifests
  | NoManifest | OutsideScope | RetentionPermanent | RetentionReviewRequired | ScopeRequired | StaleEntry

record cleanup_summary =
  cs_total :: nat
  cs_advisory :: nat
  cs_would_archive :: nat
  cs_would_delete :: nat
  cs_blocked :: nat

record cleanup_entry =
  ce_path :: string
  ce_disposition :: cleanup_disposition
  ce_reason :: cleanup_reason
  ce_retention :: "string option"
  ce_approved_to_matches :: "bool option"

record bin_cleanup_plan =
  bc_generated_at :: string
  bc_mode :: bin_cleanup_mode
  bc_scope :: "string option"
  bc_inventory_generated_at :: string
  bc_inventory_refreshed :: bool
  bc_summary :: cleanup_summary
  bc_entries :: "cleanup_entry list"
  bc_mutation_executed :: bool

section \<open>Bounds and errors\<close>

definition MAX_SUMMARY_COUNT :: nat where "MAX_SUMMARY_COUNT = 100000"
definition MAX_SIZE_BYTES :: nat where "MAX_SIZE_BYTES = 1099511627776"
definition MAX_FILE_COUNT :: nat where "MAX_FILE_COUNT = 10000000"
definition MAX_AGE_DAYS :: nat where "MAX_AGE_DAYS = 365000"
definition MAX_MANIFEST_COUNT :: nat where "MAX_MANIFEST_COUNT = 100000"
definition MAX_PATH_LEN :: nat where "MAX_PATH_LEN = 512"
definition MAX_RETENTION_LEN :: nat where "MAX_RETENTION_LEN = 512"

datatype payload_error =
    InvalidUtf8 | EmptyPayload | TrailingProse | MultipleDocuments | TruncatedPayload
  | DecodeFailed string | InventoryInvalid string | CleanupInvalid string

fun payload_error_code :: "payload_error \<Rightarrow> string" where
  "payload_error_code (InventoryInvalid _) = ''bin_inventory_invalid''"
| "payload_error_code (CleanupInvalid _) = ''bin_cleanup_plan_invalid''"
| "payload_error_code _ = ''bin_payload_invalid''"

fun payload_error_message :: "payload_error \<Rightarrow> string" where
  "payload_error_message InvalidUtf8 = ''child stdout is not valid UTF-8''"
| "payload_error_message EmptyPayload = ''child stdout is empty''"
| "payload_error_message TrailingProse = ''child stdout has trailing prose after JSON''"
| "payload_error_message MultipleDocuments = ''child stdout contains more than one JSON document''"
| "payload_error_message TruncatedPayload = ''child stdout was truncated; refusing partial JSON''"
| "payload_error_message (DecodeFailed m) = m"
| "payload_error_message (InventoryInvalid m) = m"
| "payload_error_message (CleanupInvalid m) = m"

section \<open>One document\<close>

text \<open>
  \<open>pr_stream\<close> lists what the streaming reader yields for a text, one item per document, with the message of
  an error; \<open>pr_inventory\<close> and \<open>pr_cleanup\<close> are the typed decoders, which reject unknown fields.
\<close>

record payload_reader =
  pr_stream :: "string \<Rightarrow> (string, unit) result list"
  pr_inventory :: "string \<Rightarrow> (string, bin_inventory) result"
  pr_cleanup :: "string \<Rightarrow> (string, bin_cleanup_plan) result"

definition parse_single_json_document :: "payload_reader \<Rightarrow> string \<Rightarrow> bool \<Rightarrow> (payload_error, string) result" where
  "parse_single_json_document reader bytes truncated =
     (if truncated then Inl TruncatedPayload
      else if \<not> valid_utf8 bytes then Inl InvalidUtf8
      else (let trimmed = trim bytes in
        if trimmed = [] then Inl EmptyPayload
        else (case pr_stream reader trimmed of
                [] \<Rightarrow> Inl EmptyPayload
              | Inl m # _ \<Rightarrow> Inl (DecodeFailed m)
              | [Inr _] \<Rightarrow> Inr trimmed
              | Inr _ # Inr _ # _ \<Rightarrow> Inl MultipleDocuments
              | Inr _ # Inl _ # _ \<Rightarrow> Inl TrailingProse)))"

section \<open>Checks of a field\<close>

definition require_utc_seconds :: "string \<Rightarrow> (string, unit) result" where
  "require_utc_seconds ts =
     (let lexical = length ts = 20 \<and> ts ! 4 = CHR ''-'' \<and> ts ! 7 = CHR ''-'' \<and> ts ! 10 = CHR ''T'' \<and> ts ! 13 = CHR '':'' \<and>
          ts ! 16 = CHR '':'' \<and> ends_with ts ''Z'' \<and> digits_at ts 0 4 \<and> digits_at ts 5 7 \<and> digits_at ts 8 10 \<and>
          digits_at ts 11 13 \<and> digits_at ts 14 16 \<and> digits_at ts 17 19
      in if \<not> lexical then Inl ''timestamp must be exact UTC seconds (...Z)''
         else map_err (\<lambda>_. ''timestamp is not calendar-valid UTC'') (rbind (parse_rfc3339_utc_seconds ts) (\<lambda>_. Inr ())))"

definition roots_equivalent :: "('z fsys_scheme) \<Rightarrow> string \<Rightarrow> path \<Rightarrow> bool" where
  "roots_equivalent fs reported expected =
     (let reported_path = components reported in
      case (canonicalize fs reported_path, canonicalize fs expected) of
        (Inr a, Inr b) \<Rightarrow> a = b
      | _ \<Rightarrow> reported_path = expected \<or> reported = path_display expected)"

definition validate_workflow_path :: "string \<Rightarrow> bool \<Rightarrow> (payload_error, unit) result" where
  "validate_workflow_path p as_cleanup =
     (let err = (\<lambda>m. if as_cleanup then CleanupInvalid m else InventoryInvalid m) in
      case parse_bin_scope p of
        Inl _ \<Rightarrow> Inl (err ''path fails workflow/subtree grammar'')
      | Inr _ \<Rightarrow>
          if list_ex (\<lambda>s. s = ''lib'' \<or> s = ''src'') (split_on (CHR ''/'') p) then
            Inl (err ''lib/src paths are forbidden'')
          else Inr ())"

definition is_auto_archive :: "string \<Rightarrow> bool" where
  "is_auto_archive s =
     (case strip_prefix s ''auto-archive-after:'' of
        None \<Rightarrow> False
      | Some rest \<Rightarrow>
          (case str_strip_suffix rest ''d'' of
             None \<Rightarrow> False
           | Some days \<Rightarrow> days \<noteq> [] \<and> list_all is_ascii_digit days))"

definition validate_retention :: "string option \<Rightarrow> (string, unit) result" where
  "validate_retention retention =
     (case retention of
        None \<Rightarrow> Inr ()
      | Some s \<Rightarrow>
          if s = ''review-before-delete'' \<or> s = ''permanent'' \<or> s = ''session-exports'' then Inr ()
          else if is_auto_archive s then Inr ()
          else Inl ''retention fails closed grammar'')"

definition auto_archive :: "string option \<Rightarrow> bool" where
  "auto_archive retention = (case retention of Some s \<Rightarrow> is_auto_archive s | None \<Rightarrow> False)"

definition combination_ok :: "cleanup_entry \<Rightarrow> bool" where
  "combination_ok e =
     (let retention = ce_retention e; matches = ce_approved_to_matches e in
      case ce_disposition e of
        WouldDelete \<Rightarrow>
          ce_reason e = Approved \<and> matches = Some True \<and> retention \<noteq> None \<and> retention \<noteq> Some ''permanent'' \<and>
          validate_retention retention = Inr ()
      | WouldArchive \<Rightarrow> ce_reason e = StaleEntry \<and> matches = None \<and> auto_archive retention
      | BlockedEntry \<Rightarrow>
          (case ce_reason e of
             ApprovedToNull \<Rightarrow> matches = Some False
           | ApprovedToMismatch \<Rightarrow> matches = Some False
           | RetentionPermanent \<Rightarrow> retention = Some ''permanent''
           | NoManifest \<Rightarrow> matches = None
           | MultipleManifests \<Rightarrow> matches = None
           | InvalidManifest \<Rightarrow> matches = None
           | LibOrSrc \<Rightarrow> matches = None
           | OutsideScope \<Rightarrow> matches = None
           | ScopeRequired \<Rightarrow> matches = None
           | _ \<Rightarrow> False)
      | AdvisoryEntry \<Rightarrow>
          (case ce_reason e of
             RetentionReviewRequired \<Rightarrow>
               (retention = Some ''review-before-delete'' \<or> retention = Some ''session-exports'') \<and> matches = None
           | StaleEntry \<Rightarrow> auto_archive retention \<and> matches = None
           | CurrentEntry \<Rightarrow> matches = None \<and> validate_retention retention = Inr ()
           | NoManifest \<Rightarrow> retention = None \<and> matches = None
           | _ \<Rightarrow> False))"

definition validate_disposition_combo :: "cleanup_entry \<Rightarrow> (payload_error, unit) result" where
  "validate_disposition_combo e =
     rbind (map_err CleanupInvalid (validate_retention (ce_retention e))) (\<lambda>_.
       ensure (combination_ok e)
         (CleanupInvalid (''invalid '' @ disposition_str (ce_disposition e) @ '' disposition combination'')))"

section \<open>The inventory\<close>

definition exceeds :: "nat option \<Rightarrow> nat \<Rightarrow> bool" where
  "exceeds x bound = (case x of Some d \<Rightarrow> d > bound | None \<Rightarrow> False)"

definition not_ascending :: "string option \<Rightarrow> string \<Rightarrow> bool" where
  "not_ascending prev p = (case prev of Some q \<Rightarrow> q \<ge> p | None \<Rightarrow> False)"

definition newer_than_oldest :: "inventory_workflow \<Rightarrow> bool" where
  "newer_than_oldest w =
     (case (iw_oldest_file_age_days w, iw_newest_file_age_days w) of
        (Some oldest, Some newest) \<Rightarrow> newest > oldest
      | _ \<Rightarrow> False)"

fun check_workflows :: "string list \<Rightarrow> string option \<Rightarrow> inventory_workflow list \<Rightarrow> (payload_error, unit) result" where
  "check_workflows seen prev [] = Inr ()"
| "check_workflows seen prev (w # ws) =
     rbind (validate_workflow_path (iw_path w) False) (\<lambda>_.
     if length (iw_path w) > MAX_PATH_LEN then Inl (InventoryInvalid ''workflow path exceeds length limit'')
     else if iw_size_bytes w > MAX_SIZE_BYTES then Inl (InventoryInvalid ''size_bytes exceeds maximum'')
     else if iw_file_count w > MAX_FILE_COUNT then Inl (InventoryInvalid ''file_count exceeds maximum'')
     else if iw_manifest_count w > MAX_MANIFEST_COUNT then Inl (InventoryInvalid ''manifest_count exceeds maximum'')
     else if exceeds (iw_oldest_file_age_days w) MAX_AGE_DAYS then
       Inl (InventoryInvalid ''oldest_file_age_days exceeds maximum'')
     else if exceeds (iw_newest_file_age_days w) MAX_AGE_DAYS then
       Inl (InventoryInvalid ''newest_file_age_days exceeds maximum'')
     else if iw_path w \<in> set seen then Inl (InventoryInvalid ''duplicate workflow path'')
     else if not_ascending prev (iw_path w) then Inl (InventoryInvalid ''workflow paths not sorted'')
     else if iw_manifest_present w \<noteq> (iw_manifest_count w > 0) then
       Inl (InventoryInvalid ''manifest_present inconsistent with manifest_count'')
     else if newer_than_oldest w then Inl (InventoryInvalid ''newest_file_age_days exceeds oldest'')
     else check_workflows (iw_path w # seen) (Some (iw_path w)) ws)"

definition validate_inventory :: "('z fsys_scheme) \<Rightarrow> bin_inventory \<Rightarrow> path \<Rightarrow> (payload_error, unit) result" where
  "validate_inventory fs doc expected_workspace_root =
     rbind (map_err InventoryInvalid (require_utc_seconds (bi_generated_at doc))) (\<lambda>_.
     if \<not> roots_equivalent fs (bi_root doc) expected_workspace_root then
       Inl (InventoryInvalid ''inventory root does not match expected workspace root'')
     else if isu_total (bi_summary doc) > MAX_SUMMARY_COUNT \<or> isu_with_manifest (bi_summary doc) > MAX_SUMMARY_COUNT then
       Inl (InventoryInvalid ''inventory summary count exceeds maximum'')
     else if length (bi_workflows doc) > MAX_SUMMARY_COUNT then
       Inl (InventoryInvalid ''inventory workflow count exceeds maximum'')
     else if isu_total (bi_summary doc) \<noteq> length (bi_workflows doc) then
       Inl (InventoryInvalid ''inventory summary.total does not match workflows length'')
     else if isu_with_manifest (bi_summary doc) \<noteq> length (filter iw_manifest_present (bi_workflows doc)) then
       Inl (InventoryInvalid ''inventory summary.with_manifest inconsistent'')
     else check_workflows [] None (bi_workflows doc))"

definition decode_inventory ::
  "payload_reader \<Rightarrow> ('z fsys_scheme) \<Rightarrow> string \<Rightarrow> bool \<Rightarrow> path \<Rightarrow> (payload_error, bin_inventory) result" where
  "decode_inventory reader fs bytes truncated expected_workspace_root =
     rbind (parse_single_json_document reader bytes truncated) (\<lambda>text.
     rbind (map_err DecodeFailed (pr_inventory reader text)) (\<lambda>doc.
     rbind (validate_inventory fs doc expected_workspace_root) (\<lambda>_. Inr doc)))"

section \<open>The cleanup plan\<close>

fun count_disposition :: "cleanup_disposition \<Rightarrow> nat \<times> nat \<times> nat \<times> nat \<Rightarrow> nat \<times> nat \<times> nat \<times> nat" where
  "count_disposition AdvisoryEntry (a, r, d, b) = (a + 1, r, d, b)"
| "count_disposition WouldArchive (a, r, d, b) = (a, r + 1, d, b)"
| "count_disposition WouldDelete (a, r, d, b) = (a, r, d + 1, b)"
| "count_disposition BlockedEntry (a, r, d, b) = (a, r, d, b + 1)"

definition outside_scope :: "string option \<Rightarrow> string \<Rightarrow> bool" where
  "outside_scope expected p =
     (case expected of Some scope \<Rightarrow> p \<noteq> scope \<and> \<not> starts_with p (scope @ ''/'') | None \<Rightarrow> False)"

definition too_long :: "string option \<Rightarrow> bool" where
  "too_long retention = (case retention of Some r \<Rightarrow> length r > MAX_RETENTION_LEN | None \<Rightarrow> False)"

fun check_entries ::
  "string option \<Rightarrow> string list \<Rightarrow> string option \<Rightarrow> nat \<times> nat \<times> nat \<times> nat \<Rightarrow> cleanup_entry list \<Rightarrow>
   (payload_error, nat \<times> nat \<times> nat \<times> nat) result" where
  "check_entries expected seen prev counts [] = Inr counts"
| "check_entries expected seen prev counts (e # es) =
     rbind (validate_workflow_path (ce_path e) True) (\<lambda>_.
     if length (ce_path e) > MAX_PATH_LEN then Inl (CleanupInvalid ''cleanup path exceeds length limit'')
     else if too_long (ce_retention e) then Inl (CleanupInvalid ''retention exceeds length limit'')
     else if ce_path e \<in> set seen then Inl (CleanupInvalid ''duplicate cleanup path'')
     else if not_ascending prev (ce_path e) then Inl (CleanupInvalid ''cleanup paths not sorted'')
     else if outside_scope expected (ce_path e) then Inl (CleanupInvalid ''cleanup entry outside requested scope'')
     else rbind (validate_disposition_combo e) (\<lambda>_.
       check_entries expected (ce_path e # seen) (Some (ce_path e)) (count_disposition (ce_disposition e) counts) es))"

definition summary_counts :: "cleanup_summary \<Rightarrow> nat \<times> nat \<times> nat \<times> nat" where
  "summary_counts s = (cs_advisory s, cs_would_archive s, cs_would_delete s, cs_blocked s)"

definition validate_cleanup_plan ::
  "bin_cleanup_plan \<Rightarrow> bin_cleanup_mode \<Rightarrow> validated_bin_scope option \<Rightarrow> (payload_error, unit) result" where
  "validate_cleanup_plan doc expected_mode expected_scope =
     rbind (map_err CleanupInvalid (require_utc_seconds (bc_generated_at doc))) (\<lambda>_.
     rbind (map_err CleanupInvalid (require_utc_seconds (bc_inventory_generated_at doc))) (\<lambda>_.
     let expected = map_option vs_normalized expected_scope; s = bc_summary doc in
     if bc_mode doc \<noteq> expected_mode then Inl (CleanupInvalid ''cleanup mode mismatch'')
     else if bc_scope doc \<noteq> expected then Inl (CleanupInvalid ''cleanup scope mismatch'')
     else if bc_mutation_executed doc then Inl (CleanupInvalid ''mutation_executed must be false'')
     else if list_ex (\<lambda>c. c > MAX_SUMMARY_COUNT)
         [cs_total s, cs_advisory s, cs_would_archive s, cs_would_delete s, cs_blocked s] then
       Inl (CleanupInvalid ''cleanup summary count exceeds maximum'')
     else if length (bc_entries doc) > MAX_SUMMARY_COUNT then
       Inl (CleanupInvalid ''cleanup entry count exceeds maximum'')
     else if cs_total s \<noteq> length (bc_entries doc) then
       Inl (CleanupInvalid ''cleanup summary.total does not match entries'')
     else rbind (check_entries expected [] None (0, 0, 0, 0) (bc_entries doc)) (\<lambda>counts.
       if summary_counts s \<noteq> counts then Inl (CleanupInvalid ''cleanup summary counts do not reconcile'')
       else Inr ())))"

definition decode_cleanup_plan ::
  "payload_reader \<Rightarrow> string \<Rightarrow> bool \<Rightarrow> bin_cleanup_mode \<Rightarrow> validated_bin_scope option \<Rightarrow>
   (payload_error, bin_cleanup_plan) result" where
  "decode_cleanup_plan reader bytes truncated expected_mode expected_scope =
     rbind (parse_single_json_document reader bytes truncated) (\<lambda>text.
     rbind (map_err DecodeFailed (pr_cleanup reader text)) (\<lambda>doc.
     rbind (validate_cleanup_plan doc expected_mode expected_scope) (\<lambda>_. Inr doc)))"

section \<open>Properties: one document\<close>

lemma single_document_iff:
  "parse_single_json_document reader bytes truncated = Inr text \<longleftrightarrow>
   \<not> truncated \<and> valid_utf8 bytes \<and> text = trim bytes \<and> text \<noteq> [] \<and> pr_stream reader text = [Inr ()]"
  unfolding parse_single_json_document_def Let_def
  by (auto split: list.splits sum.splits if_splits)

section \<open>Properties: fields\<close>

lemma require_utc_seconds_iff: "require_utc_seconds ts = Inr () \<longleftrightarrow> timestamp_ok ts"
  unfolding require_utc_seconds_def timestamp_ok_def graph_utc_lexical_def Let_def
  by (auto simp: map_err_eq_Inr_iff rbind_eq_Inr_iff)

text \<open>
  A workflow path: a namespace, \<open>bin\<close> and at least one more segment, none of them \<open>lib\<close> or \<open>src\<close>, all of
  letters, digits, dots, underscores and dashes.
\<close>

definition workflow_path_ok :: "string \<Rightarrow> bool" where
  "workflow_path_ok p \<longleftrightarrow>
     (\<exists>segs. components p = map Normal segs \<and> 3 \<le> length segs \<and> segs ! 1 = ''bin'' \<and>
        (\<forall>s \<in> set segs. is_segment s \<and> s \<noteq> ''lib'' \<and> s \<noteq> ''src''))"

lemma validate_workflow_path_iff: "validate_workflow_path p c = Inr () \<longleftrightarrow> workflow_path_ok p"
proof -
  have split: "''lib'' \<in> set (split_on (CHR ''/'') p) \<longleftrightarrow> ''lib'' \<in> set segs"
    "''src'' \<in> set (split_on (CHR ''/'') p) \<longleftrightarrow> ''src'' \<in> set segs" if "components p = map Normal segs" for segs
    using normal_components [of _ p] that by fastforce+
  have "validate_workflow_path p c = Inr () \<longleftrightarrow>
      (\<exists>v. parse_bin_scope p = Inr v) \<and> ''lib'' \<notin> set (split_on (CHR ''/'') p) \<and> ''src'' \<notin> set (split_on (CHR ''/'') p)"
    by (auto simp: validate_workflow_path_def list_ex_iff Let_def split: sum.splits)
  also have "\<dots> \<longleftrightarrow> workflow_path_ok p"
  proof
    assume "(\<exists>v. parse_bin_scope p = Inr v) \<and> ''lib'' \<notin> set (split_on (CHR ''/'') p) \<and> ''src'' \<notin> set (split_on (CHR ''/'') p)"
    then show "workflow_path_ok p" unfolding parse_bin_scope_iff workflow_path_ok_def using split by metis
  next
    assume "workflow_path_ok p"
    then obtain segs where s: "components p = map Normal segs" "3 \<le> length segs" "segs ! 1 = ''bin''"
      "\<forall>s \<in> set segs. is_segment s \<and> s \<noteq> ''lib'' \<and> s \<noteq> ''src''" by (auto simp: workflow_path_ok_def)
    then have "segs ! 0 \<notin> {''lib'', ''src''}" by (metis insert_iff less_le_trans nth_mem singletonD zero_less_numeral)
    with s split [OF s(1)] show "(\<exists>v. parse_bin_scope p = Inr v) \<and> ''lib'' \<notin> set (split_on (CHR ''/'') p) \<and>
        ''src'' \<notin> set (split_on (CHR ''/'') p)"
      unfolding parse_bin_scope_iff by blast
  qed
  finally show ?thesis .
qed

text \<open>A path may be spelled in more than one way: a trailing slash does not change its components.\<close>

lemma respelled_path_accepted:
  "workflow_path_ok ''ns/bin/x'' \<and> workflow_path_ok ''ns/bin/x/'' \<and> ''ns/bin/x'' < ''ns/bin/x/'' \<and>
   components ''ns/bin/x'' = components ''ns/bin/x/''"
  unfolding validate_workflow_path_iff [symmetric, of _ True] by code_simp

text \<open>The retention grammar, and the table of the combinations an entry may have.\<close>

datatype retention_class = NoRetention | Permanent | Review | AutoArchive

definition retention_class_of :: "string option \<Rightarrow> retention_class option" where
  "retention_class_of retention =
     (case retention of
        None \<Rightarrow> Some NoRetention
      | Some s \<Rightarrow>
          if s = ''permanent'' then Some Permanent
          else if s \<in> {''review-before-delete'', ''session-exports''} then Some Review
          else if \<exists>days. s = ''auto-archive-after:'' @ days @ ''d'' \<and> days \<noteq> [] \<and> list_all is_ascii_digit days then Some AutoArchive
          else None)"

definition allowed_combinations :: "(cleanup_disposition \<times> cleanup_reason \<times> bool option \<times> retention_class) set" where
  "allowed_combinations =
     {(WouldDelete, Approved, Some True, c) |c. c \<in> {Review, AutoArchive}} \<union>
     {(WouldArchive, StaleEntry, None, AutoArchive)} \<union>
     {(BlockedEntry, why, Some False, c) |why c. why \<in> {ApprovedToNull, ApprovedToMismatch}} \<union>
     {(BlockedEntry, RetentionPermanent, m, Permanent) |m. True} \<union>
     {(BlockedEntry, why, None, c) |why c.
        why \<in> {NoManifest, MultipleManifests, InvalidManifest, LibOrSrc, OutsideScope, ScopeRequired}} \<union>
     {(AdvisoryEntry, RetentionReviewRequired, None, Review), (AdvisoryEntry, StaleEntry, None, AutoArchive),
      (AdvisoryEntry, NoManifest, None, NoRetention)} \<union>
     {(AdvisoryEntry, CurrentEntry, None, c) |c. True}"

definition entry_combination_ok :: "cleanup_entry \<Rightarrow> bool" where
  "entry_combination_ok e \<longleftrightarrow>
     (\<exists>c. retention_class_of (ce_retention e) = Some c \<and>
        (ce_disposition e, ce_reason e, ce_approved_to_matches e, c) \<in> allowed_combinations)"

lemma is_auto_archive_iff:
  "is_auto_archive s \<longleftrightarrow> (\<exists>days. s = ''auto-archive-after:'' @ days @ ''d'' \<and> days \<noteq> [] \<and> list_all is_ascii_digit days)"
proof
  assume "is_auto_archive s"
  then obtain rest days where "s = ''auto-archive-after:'' @ rest" "rest = days @ ''d''" "days \<noteq> []" "list_all is_ascii_digit days"
    by (auto simp: is_auto_archive_def strip_prefix_def str_strip_suffix_def suffix_def prefix_def split: if_splits option.splits)
  then show "\<exists>days. s = ''auto-archive-after:'' @ days @ ''d'' \<and> days \<noteq> [] \<and> list_all is_ascii_digit days" by blast
qed (auto simp: is_auto_archive_def strip_prefix_def str_strip_suffix_def suffix_def)

lemma auto_archive_words [simp]:
  "\<not> is_auto_archive ''permanent''" "\<not> is_auto_archive ''review-before-delete''" "\<not> is_auto_archive ''session-exports''"
  by (simp_all add: is_auto_archive_def strip_prefix_def)

lemma retention_class_code:
  "retention_class_of None = Some NoRetention"
  "retention_class_of (Some s) =
     (if s = ''permanent'' then Some Permanent
      else if s = ''review-before-delete'' \<or> s = ''session-exports'' then Some Review
      else if is_auto_archive s then Some AutoArchive else None)"
  unfolding retention_class_of_def is_auto_archive_iff by simp_all

lemma retention_facts:
  "validate_retention r = Inr () \<longleftrightarrow> retention_class_of r \<noteq> None"
  "auto_archive r \<longleftrightarrow> retention_class_of r = Some AutoArchive"
  "r = Some ''permanent'' \<longleftrightarrow> retention_class_of r = Some Permanent"
  "r = None \<longleftrightarrow> retention_class_of r = Some NoRetention"
  "r = Some ''review-before-delete'' \<or> r = Some ''session-exports'' \<longleftrightarrow> retention_class_of r = Some Review"
  by (cases r; auto simp: validate_retention_def auto_archive_def retention_class_code)+

lemma allowed_combination_iff:
  "(d, why, m, c) \<in> allowed_combinations \<longleftrightarrow>
     (case d of
        WouldDelete \<Rightarrow> why = Approved \<and> m = Some True \<and> (c = Review \<or> c = AutoArchive)
      | WouldArchive \<Rightarrow> why = StaleEntry \<and> m = None \<and> c = AutoArchive
      | BlockedEntry \<Rightarrow>
          (why = ApprovedToNull \<or> why = ApprovedToMismatch) \<and> m = Some False \<or>
          why = RetentionPermanent \<and> c = Permanent \<or>
          why \<in> {NoManifest, MultipleManifests, InvalidManifest, LibOrSrc, OutsideScope, ScopeRequired} \<and> m = None
      | AdvisoryEntry \<Rightarrow> m = None \<and>
          (why = RetentionReviewRequired \<and> c = Review \<or> why = StaleEntry \<and> c = AutoArchive \<or>
           why = NoManifest \<and> c = NoRetention \<or> why = CurrentEntry))"
  unfolding allowed_combinations_def by (cases d) auto

lemma validate_disposition_combo_iff: "validate_disposition_combo e = Inr () \<longleftrightarrow> entry_combination_ok e"
proof (cases "retention_class_of (ce_retention e)")
  case None
  then show ?thesis
    using retention_facts(1) [of "ce_retention e"]
    by (auto simp: validate_disposition_combo_def entry_combination_ok_def rbind_eq_Inr_iff map_err_eq_Inr_iff)
next
  case (Some c)
  note r = retention_facts [of "ce_retention e", unfolded Some]
  have "validate_disposition_combo e = Inr () \<longleftrightarrow> combination_ok e"
    using r(1) by (simp add: validate_disposition_combo_def rbind_eq_Inr_iff map_err_eq_Inr_iff ensure_eq_Inr_iff)
  also have "\<dots> \<longleftrightarrow> (ce_disposition e, ce_reason e, ce_approved_to_matches e, c) \<in> allowed_combinations"
    unfolding combination_ok_def Let_def r allowed_combination_iff
    by (cases "ce_disposition e"; cases "ce_reason e"; cases c; simp)
  finally show ?thesis by (simp add: entry_combination_ok_def Some)
qed

section \<open>Properties: the inventory\<close>

definition workflow_ok :: "inventory_workflow \<Rightarrow> bool" where
  "workflow_ok w \<longleftrightarrow>
     workflow_path_ok (iw_path w) \<and> length (iw_path w) \<le> MAX_PATH_LEN \<and> iw_size_bytes w \<le> MAX_SIZE_BYTES \<and>
     iw_file_count w \<le> MAX_FILE_COUNT \<and> iw_manifest_count w \<le> MAX_MANIFEST_COUNT \<and>
     (\<forall>d \<in> set_option (iw_oldest_file_age_days w) \<union> set_option (iw_newest_file_age_days w). d \<le> MAX_AGE_DAYS) \<and>
     (\<forall>oldest \<in> set_option (iw_oldest_file_age_days w). \<forall>newest \<in> set_option (iw_newest_file_age_days w). newest \<le> oldest) \<and>
     (iw_manifest_present w \<longleftrightarrow> iw_manifest_count w > 0)"

definition inventory_ok :: "('z fsys_scheme) \<Rightarrow> path \<Rightarrow> bin_inventory \<Rightarrow> bool" where
  "inventory_ok fs root doc \<longleftrightarrow>
     timestamp_ok (bi_generated_at doc) \<and> roots_equivalent fs (bi_root doc) root \<and>
     (\<forall>w \<in> set (bi_workflows doc). workflow_ok w) \<and> sorted_wrt (<) (map iw_path (bi_workflows doc)) \<and>
     isu_total (bi_summary doc) = length (bi_workflows doc) \<and> length (bi_workflows doc) \<le> MAX_SUMMARY_COUNT \<and>
     isu_with_manifest (bi_summary doc) = length (filter iw_manifest_present (bi_workflows doc))"

lemma exceeds_iff [simp]: "exceeds x bound \<longleftrightarrow> \<not> (\<forall>d \<in> set_option x. d \<le> bound)"
  by (cases x) (auto simp: exceeds_def)

lemma newer_iff: "newer_than_oldest w \<longleftrightarrow>
    \<not> (\<forall>oldest \<in> set_option (iw_oldest_file_age_days w). \<forall>newest \<in> set_option (iw_newest_file_age_days w). newest \<le> oldest)"
  by (auto simp: newer_than_oldest_def split: option.splits)

lemma not_ascending_iff: "not_ascending prev p \<longleftrightarrow> \<not> (\<forall>q \<in> set_option prev. q < p)"
  by (cases prev) (auto simp: not_ascending_def)

text \<open>The paths seen so far are never above the previous one, so an ascending path is not a duplicate.\<close>

lemma check_workflows_iff:
  assumes "\<forall>s \<in> set seen. \<exists>p. prev = Some p \<and> s \<le> p"
  shows "check_workflows seen prev ws = Inr () \<longleftrightarrow>
    (\<forall>w \<in> set ws. workflow_ok w) \<and> sorted_wrt (<) (map iw_path ws) \<and>
    (\<forall>q \<in> set_option prev. \<forall>w \<in> set ws. q < iw_path w)"
  using assms
proof (induction ws arbitrary: seen prev)
  case (Cons w ws)
  have IH: "check_workflows (iw_path w # seen) (Some (iw_path w)) ws = Inr () \<longleftrightarrow>
      (\<forall>w \<in> set ws. workflow_ok w) \<and> sorted_wrt (<) (map iw_path ws) \<and> (\<forall>v \<in> set ws. iw_path w < iw_path v)"
    if "\<forall>q \<in> set_option prev. q < iw_path w"
    using that Cons.prems by (subst Cons.IH) fastforce+
  have new: "iw_path w \<notin> set seen" if "\<forall>q \<in> set_option prev. q < iw_path w"
    using that Cons.prems by fastforce
  have "check_workflows seen prev (w # ws) = Inr () \<longleftrightarrow>
      workflow_ok w \<and> (\<forall>q \<in> set_option prev. q < iw_path w) \<and> check_workflows (iw_path w # seen) (Some (iw_path w)) ws = Inr ()"
    using new by (auto simp: rbind_eq_Inr_iff validate_workflow_path_iff workflow_ok_def newer_iff not_ascending_iff)
  then show ?case using IH by (auto simp del: check_workflows.simps) (meson less_trans)
qed simp

theorem validate_inventory_iff: "validate_inventory fs doc root = Inr () \<longleftrightarrow> inventory_ok fs root doc"
proof -
  have "length (bi_workflows doc) \<le> MAX_SUMMARY_COUNT \<Longrightarrow> length (filter iw_manifest_present (bi_workflows doc)) \<le> MAX_SUMMARY_COUNT"
    using length_filter_le le_trans by blast
  then show ?thesis
    using check_workflows_iff [of "[]" None "bi_workflows doc"]
    by (auto simp: validate_inventory_def inventory_ok_def rbind_eq_Inr_iff map_err_eq_Inr_iff require_utc_seconds_iff not_less)
qed

section \<open>Properties: the cleanup plan\<close>

definition in_scope :: "string option \<Rightarrow> string \<Rightarrow> bool" where
  "in_scope expected p \<longleftrightarrow> (\<forall>scope \<in> set_option expected. p = scope \<or> prefix (scope @ ''/'') p)"

definition entry_ok :: "string option \<Rightarrow> cleanup_entry \<Rightarrow> bool" where
  "entry_ok expected e \<longleftrightarrow>
     workflow_path_ok (ce_path e) \<and> length (ce_path e) \<le> MAX_PATH_LEN \<and>
     (\<forall>r \<in> set_option (ce_retention e). length r \<le> MAX_RETENTION_LEN) \<and> in_scope expected (ce_path e) \<and>
     entry_combination_ok e"

definition disposition_count :: "cleanup_disposition \<Rightarrow> cleanup_entry list \<Rightarrow> nat" where
  "disposition_count d es = length (filter (\<lambda>e. ce_disposition e = d) es)"

definition cleanup_plan_ok :: "bin_cleanup_mode \<Rightarrow> string option \<Rightarrow> bin_cleanup_plan \<Rightarrow> bool" where
  "cleanup_plan_ok mode expected doc \<longleftrightarrow>
     timestamp_ok (bc_generated_at doc) \<and> timestamp_ok (bc_inventory_generated_at doc) \<and>
     bc_mode doc = mode \<and> bc_scope doc = expected \<and> \<not> bc_mutation_executed doc \<and>
     (\<forall>e \<in> set (bc_entries doc). entry_ok expected e) \<and> sorted_wrt (<) (map ce_path (bc_entries doc)) \<and>
     cs_total (bc_summary doc) = length (bc_entries doc) \<and> length (bc_entries doc) \<le> MAX_SUMMARY_COUNT \<and>
     cs_advisory (bc_summary doc) = disposition_count AdvisoryEntry (bc_entries doc) \<and>
     cs_would_archive (bc_summary doc) = disposition_count WouldArchive (bc_entries doc) \<and>
     cs_would_delete (bc_summary doc) = disposition_count WouldDelete (bc_entries doc) \<and>
     cs_blocked (bc_summary doc) = disposition_count BlockedEntry (bc_entries doc)"

lemma outside_scope_iff: "outside_scope expected p \<longleftrightarrow> \<not> in_scope expected p"
  by (cases expected) (auto simp: outside_scope_def in_scope_def starts_with_def)

lemma too_long_iff: "too_long r \<longleftrightarrow> \<not> (\<forall>s \<in> set_option r. length s \<le> MAX_RETENTION_LEN)"
  by (cases r) (auto simp: too_long_def)

definition add_counts :: "nat \<times> nat \<times> nat \<times> nat \<Rightarrow> cleanup_entry list \<Rightarrow> nat \<times> nat \<times> nat \<times> nat" where
  "add_counts counts es =
     (case counts of (a, r, d, b) \<Rightarrow>
        (a + disposition_count AdvisoryEntry es, r + disposition_count WouldArchive es,
         d + disposition_count WouldDelete es, b + disposition_count BlockedEntry es))"

lemma add_counts_Cons: "add_counts (count_disposition (ce_disposition e) counts) es = add_counts counts (e # es)"
  by (cases counts; cases "ce_disposition e") (simp_all add: add_counts_def disposition_count_def)

lemma check_entries_iff:
  assumes "\<forall>s \<in> set seen. \<exists>p. prev = Some p \<and> s \<le> p"
  shows "check_entries expected seen prev counts es = Inr counts' \<longleftrightarrow>
    (\<forall>e \<in> set es. entry_ok expected e) \<and> sorted_wrt (<) (map ce_path es) \<and>
    (\<forall>q \<in> set_option prev. \<forall>e \<in> set es. q < ce_path e) \<and> counts' = add_counts counts es"
  using assms
proof (induction es arbitrary: seen prev counts)
  case Nil
  then show ?case by (cases counts) (auto simp: add_counts_def disposition_count_def)
next
  case (Cons e es)
  let ?counts = "count_disposition (ce_disposition e) counts"
  have IH: "check_entries expected (ce_path e # seen) (Some (ce_path e)) ?counts es = Inr counts' \<longleftrightarrow>
      (\<forall>e \<in> set es. entry_ok expected e) \<and> sorted_wrt (<) (map ce_path es) \<and> (\<forall>f \<in> set es. ce_path e < ce_path f) \<and>
      counts' = add_counts counts (e # es)"
    if "\<forall>q \<in> set_option prev. q < ce_path e"
    using that Cons.prems by (subst Cons.IH) (fastforce simp: add_counts_Cons)+
  have new: "ce_path e \<notin> set seen" if "\<forall>q \<in> set_option prev. q < ce_path e"
    using that Cons.prems by fastforce
  have "check_entries expected seen prev counts (e # es) = Inr counts' \<longleftrightarrow>
      entry_ok expected e \<and> (\<forall>q \<in> set_option prev. q < ce_path e) \<and>
      check_entries expected (ce_path e # seen) (Some (ce_path e)) ?counts es = Inr counts'"
    using new by (auto simp: rbind_eq_Inr_iff validate_workflow_path_iff entry_ok_def validate_disposition_combo_iff
        too_long_iff outside_scope_iff not_ascending_iff split: if_splits)
  then show ?case using IH by (auto simp del: check_entries.simps) (meson less_trans)
qed

lemma disposition_count_bounded: "length es \<le> n \<Longrightarrow> disposition_count d es \<le> n"
  unfolding disposition_count_def by (rule order.trans [OF length_filter_le])

lemma validate_cleanup_plan_iff:
  "validate_cleanup_plan doc mode scope = Inr () \<longleftrightarrow> cleanup_plan_ok mode (map_option vs_normalized scope) doc"
  using check_entries_iff [of "[]" None "map_option vs_normalized scope" "(0, 0, 0, 0)" "bc_entries doc" "summary_counts (bc_summary doc)"]
  by (auto simp: validate_cleanup_plan_def cleanup_plan_ok_def rbind_eq_Inr_iff map_err_eq_Inr_iff require_utc_seconds_iff
      Let_def summary_counts_def add_counts_def not_less disposition_count_bounded
      disposition_count_bounded [THEN leD])

text \<open>
  C37: the decoder of a cleanup plan accepts exactly the plans of the contract. It returns a plan if and only
  if the output of the child was complete, is UTF-8 and holds one JSON document and nothing else, which reads
  as this plan, and the plan has the mode and the scope that were asked for, no mutation, two valid timestamps,
  at most 100000 entries in strictly ascending order of their paths, each a workflow path inside the scope
  with a combination of disposition, reason, approval and retention that the table allows (a deletion only if
  approved and not permanent), and a summary whose counts are those of the entries.
\<close>

theorem decode_cleanup_plan_iff:
  "decode_cleanup_plan reader bytes truncated mode scope = Inr doc \<longleftrightarrow>
     \<not> truncated \<and> valid_utf8 bytes \<and> trim bytes \<noteq> [] \<and> pr_stream reader (trim bytes) = [Inr ()] \<and>
     pr_cleanup reader (trim bytes) = Inr doc \<and> cleanup_plan_ok mode (map_option vs_normalized scope) doc"
  by (auto simp: decode_cleanup_plan_def single_document_iff map_err_eq_Inr_iff rbind_eq_Inr_iff validate_cleanup_plan_iff)

end
