(* ===== verification/Lifecycle_Dispatch.thy ===== *)
theory Lifecycle_Dispatch
  imports Process_Execution Session_Store Resolver Bin_Payload
begin

text \<open>
  The coordination of a lifecycle command (\<open>run_lifecycle_with_executor\<close> of \<open>commands.rs\<close>): resolve,
  evaluate the policy, and for an authorised direct command write the pending record, run the executor,
  and write what happened. The executor and the outcomes of the operating system are arguments; what was
  done is the list of events, in order.
\<close>

section \<open>Records\<close>

definition request_flags :: "bool \<Rightarrow> bool \<Rightarrow> string list" where
  "request_flags explain execute =
     (if explain then [''--explain''] else []) @ (if execute then [''--execute''] else [])"

definition empty_output :: output_summary where
  "empty_output =
     \<lparr>os_stdout_bytes = 0, os_stderr_bytes = 0, os_truncated = False, os_encoding = ''utf-8'', os_compressor = ''none''\<rparr>"

text \<open>\<open>began\<close> and \<open>ended\<close> are the two readings of the clock.\<close>

definition base_record_from_authorized ::
  "int \<Rightarrow> int \<Rightarrow> authorized_execution_plan \<Rightarrow> string \<Rightarrow> bool \<Rightarrow> string \<Rightarrow> bool \<Rightarrow> runtime_context option \<Rightarrow>
   diagnostic_record option \<Rightarrow> runtime_command_record" where
  "base_record_from_authorized began ended authorized command execute kind include_resolution ctx ctx_diag =
     (let plan = ap_plan authorized; resolved = sp_resolved plan in
      \<lparr>rc_schema_version = SCHEMA_VERSION, rc_record_kind = RECORD_KIND_COMMAND_EXECUTION,
       rc_session_id = res_session_id resolved, rc_plan_digest = sp_plan_digest plan,
       rc_parent_session_id = None, rc_work_session_id = None, rc_runtime_context = ctx,
       rc_started_at = utc_now_rfc3339 began,
       rc_ended_at = (if kind \<noteq> ''pending'' then Some (utc_now_rfc3339 ended) else None),
       rc_actor = ''agent'', rc_profile_id = res_profile_id resolved,
       rc_request = \<lparr>rq_command = command, rq_unit_id = Some (res_unit_id resolved), rq_verb = Some (res_verb resolved),
         rq_flags = request_flags (ro_explain_requested (ap_request authorized)) execute\<rparr>,
       rc_resolution = (if include_resolution then Some resolved else None),
       rc_policy_decision = ap_policy_decision authorized,
       rc_execution = \<lparr>ex_started = False, ex_pid = None, ex_exit_code = None, ex_signal = None, ex_outcome = kind\<rparr>,
       rc_source_fingerprints = rg_source_fingerprints (res_registry_generation resolved),
       rc_output_summary = empty_output, rc_error = ctx_diag\<rparr>)"

fun decision_reason :: "policy_decision \<Rightarrow> string" where
  "decision_reason (Deny _ _ why) = why"
| "decision_reason (Gate _ _ why _) = why"
| "decision_reason (Allow _) = ''unexpected''"

definition base_record_from_rejected ::
  "int \<Rightarrow> int \<Rightarrow> rejected_policy_outcome \<Rightarrow> string \<Rightarrow> bool \<Rightarrow> string \<Rightarrow> runtime_context option \<Rightarrow> runtime_command_record" where
  "base_record_from_rejected began ended rejected command execute kind ctx =
     (let plan = rj_plan rejected; resolved = sp_resolved plan in
      \<lparr>rc_schema_version = SCHEMA_VERSION, rc_record_kind = RECORD_KIND_COMMAND_EXECUTION,
       rc_session_id = res_session_id resolved, rc_plan_digest = sp_plan_digest plan,
       rc_parent_session_id = None, rc_work_session_id = None, rc_runtime_context = ctx,
       rc_started_at = utc_now_rfc3339 began, rc_ended_at = Some (utc_now_rfc3339 ended),
       rc_actor = ''agent'', rc_profile_id = res_profile_id resolved,
       rc_request = \<lparr>rq_command = command, rq_unit_id = Some (res_unit_id resolved), rq_verb = Some (res_verb resolved),
         rq_flags = request_flags False (execute \<or> rj_execution_requested rejected)\<rparr>,
       rc_resolution = None, rc_policy_decision = rj_decision rejected,
       rc_execution = \<lparr>ex_started = False, ex_pid = None, ex_exit_code = None, ex_signal = None, ex_outcome = kind\<rparr>,
       rc_source_fingerprints = rg_source_fingerprints (res_registry_generation resolved),
       rc_output_summary = empty_output,
       rc_error = Some \<lparr>diag_code = (if kind = ''denied'' then ''policy_deny'' else ''policy_gate''),
         diag_message = decision_reason (rj_decision rejected)\<rparr>\<rparr>)"

definition merge_encoding :: "string \<Rightarrow> string \<Rightarrow> string" where
  "merge_encoding a b =
     (if a = ''binary'' \<or> b = ''binary'' then ''binary''
      else if a = ''lossy-utf-8'' \<or> b = ''lossy-utf-8'' then ''lossy-utf-8'' else ''utf-8'')"

definition started_record :: "runtime_command_record \<Rightarrow> 32 word \<Rightarrow> runtime_command_record" where
  "started_record pending pid =
     pending\<lparr>rc_execution := (rc_execution pending)\<lparr>ex_started := True, ex_pid := Some (unat pid)\<rparr>\<rparr>"

definition unavailable_record :: "runtime_command_record \<Rightarrow> int \<Rightarrow> runtime_command_record" where
  "unavailable_record pending ended =
     pending\<lparr>rc_execution := (rc_execution pending)\<lparr>ex_outcome := ''execution_unavailable''\<rparr>,
       rc_ended_at := Some (utc_now_rfc3339 ended)\<rparr>"

definition final_record :: "runtime_command_record \<Rightarrow> execution_report \<Rightarrow> int \<Rightarrow> runtime_command_record" where
  "final_record pending report ended =
     pending\<lparr>rc_execution := \<lparr>ex_started = er_spawned report, ex_pid = map_option unat (er_pid report),
         ex_exit_code = map_option unat (er_exit_code report), ex_signal = er_signal report,
         ex_outcome = er_outcome report\<rparr>,
       rc_ended_at := Some (utc_now_rfc3339 ended),
       rc_output_summary := \<lparr>os_stdout_bytes = sum_total_bytes (er_stdout report),
         os_stderr_bytes = sum_total_bytes (er_stderr report),
         os_truncated = (sum_truncated (er_stdout report) \<or> sum_truncated (er_stderr report)),
         os_encoding = merge_encoding (sum_encoding (er_stdout report)) (sum_encoding (er_stderr report)),
         os_compressor = er_compressor report\<rparr>,
       rc_error := (case er_diagnostics report of d # _ \<Rightarrow> Some d | [] \<Rightarrow> rc_error pending)\<rparr>"

section \<open>The world of a command\<close>

text \<open>
  The texts of a contract reason and of an operating system error are parameters; \<open>lw_faults\<close> gives for
  each write of the command, in order, the step at which it fails, if any.
\<close>

record lifecycle_world =
  lw_inputs :: resolver_inputs
  lw_to_value :: "partial_resolution_trace \<Rightarrow> json option"
  lw_policy_env :: policy_env
  lw_home :: state_home_inputs
  lw_ensure_home :: "path \<Rightarrow> (string, unit) result"
  lw_open_store :: "path \<Rightarrow> (store_error, unit) result"
  lw_faults :: "nat \<Rightarrow> write_step option"
  lw_clock :: "nat \<Rightarrow> int"
  lw_context_env :: runtime_context_env
  lw_reason_text :: "contract_reason \<Rightarrow> string"
  lw_io_text :: "io_error \<Rightarrow> string"
  lw_debug_provider :: "string option \<Rightarrow> string"
  lw_json :: bool

fun store_error_display :: "(contract_reason \<Rightarrow> string) \<Rightarrow> (io_error \<Rightarrow> string) \<Rightarrow> store_error \<Rightarrow> string" where
  "store_error_display why io InvalidSessionId = ''invalid session id''"
| "store_error_display why io (Contract c) = ''record contract invalid: '' @ why c"
| "store_error_display why io (RecordNotFound i) = ''session record not found: '' @ i"
| "store_error_display why io (Collision i) = ''session id collision: '' @ i"
| "store_error_display why io (PathRejected p) = ''record path rejected: '' @ p"
| "store_error_display why io (StoreIo e) = ''state I/O: '' @ io e"

definition state_io :: "lifecycle_world \<Rightarrow> store_error \<Rightarrow> controller_error" where
  "state_io w e = StateIo (store_error_display (lw_reason_text w) (lw_io_text w) e) (store_error_code e)"

definition profile_compressor :: "profile_record \<Rightarrow> string" where
  "profile_compressor profile =
     (case Option.bind (pf_rest profile ''output_compressor'') json_as_str of Some s \<Rightarrow> s | None \<Rightarrow> ''none'')"

definition state_home_for :: "lifecycle_world \<Rightarrow> profile_record \<Rightarrow> path" where
  "state_home_for w profile =
     resolve_session_state_home ((lw_home w)\<lparr>sh_profile_session_state_home := pf_session_state_home profile\<rparr>)"

definition projected_rtk :: "lifecycle_world \<Rightarrow> path option" where
  "projected_rtk w =
     (case load_tools (ri_env (lw_inputs w)) (ri_fs (lw_inputs w)) (ri_paths (lw_inputs w)) of
        Inr (doc, _) \<Rightarrow> projected_rtk_detect_path (ri_fs (lw_inputs w)) (td_tools doc)
      | Inl _ \<Rightarrow> None)"

definition lifecycle_options :: "lifecycle_world \<Rightarrow> profile_record \<Rightarrow> execution_options" where
  "lifecycle_options w profile =
     \<lparr>eo_mode = (if lw_json w then JsonMode else HumanMode (profile_compressor profile = ''rtk'') (pf_id profile)),
      eo_capture_limit = DEFAULT_CAPTURE_LIMIT, eo_rtk_projected = projected_rtk w\<rparr>"

section \<open>Responses and events\<close>

text \<open>
  The envelope a bin command builds for its outcome (\<open>CommandEnvelope\<close> with the data of \<open>run_bin\<close>), with the
  validated document of the child, if there is one, and what is said of the execution, if there was one.
\<close>

datatype bin_document = InventoryDocument bin_inventory | CleanupDocument bin_cleanup_plan

record bin_envelope =
  be_command :: string
  be_session_id :: string
  be_status :: string
  be_exit_code :: "8 word"
  be_policy_decision :: policy_decision
  be_plan_digest :: string
  be_deferred_unavailable :: bool
  be_execution :: "execution_record option"
  be_payload :: "bin_document option"
  be_diagnostics :: "diagnostic_record list"

text \<open>What a coordinator hands to the output, or the error it returns.\<close>

datatype response =
    Failed controller_error
  | ErrorEmitted controller_error "resolution_explanation option" "freshness option" "diagnostic_record list"
  | PolicyEmitted controller_error rejected_policy_outcome freshness "diagnostic_record list"
  | PolicyContractEmitted controller_error sealed_execution_plan freshness bool
  | PlanEmitted authorized_execution_plan resolution_explanation freshness "diagnostic_record list"
  | ExplanationEmitted authorized_execution_plan resolution_explanation freshness "diagnostic_record list"
  | ExecutedEmitted authorized_execution_plan resolution_explanation freshness execution_report
      runtime_command_record "diagnostic_record list"
  | EnvelopeEmitted projection_operation "validated_bin_scope option" bin_envelope

datatype lifecycle_event = RecordWritten runtime_command_record | ChildRun "child_effect list"

type_synonym executor =
  "authorized_execution_plan \<Rightarrow> execution_options \<Rightarrow> console \<Rightarrow> (execution_report \<times> child_effect list \<times> console) option"

type_synonym lifecycle_outcome = "response \<times> store \<times> lifecycle_event list \<times> console"

fun fill_session :: "string \<Rightarrow> controller_error \<Rightarrow> controller_error" where
  "fill_session sid (ResolutionError code message None partial) = ResolutionError code message (Some sid) partial"
| "fill_session sid err = err"

definition persist_terminal ::
  "lifecycle_world \<Rightarrow> path \<Rightarrow> store \<Rightarrow> runtime_command_record \<Rightarrow> store \<times> (controller_error, unit) result" where
  "persist_terminal w home st r =
     (case lw_ensure_home w home of
        Inl message \<Rightarrow> (st, Inl (StateIo message ''state_io''))
      | Inr _ \<Rightarrow>
          (case lw_open_store w home of
             Inl e \<Rightarrow> (st, Inl (state_io w e))
           | Inr _ \<Rightarrow> map_prod id (map_err (state_io w)) (write_terminal_unlocked (lw_faults w 0) st r)))"

text \<open>A record that ends the command at once, and the response if it could be written.\<close>

definition terminal_response ::
  "lifecycle_world \<Rightarrow> path \<Rightarrow> store \<Rightarrow> runtime_command_record \<Rightarrow> response \<Rightarrow> console \<Rightarrow> lifecycle_outcome" where
  "terminal_response w home st r response con =
     (case persist_terminal w home st r of
        (st', Inl e) \<Rightarrow> (Failed e, st', [], con)
      | (st', Inr _) \<Rightarrow> (response, st', [RecordWritten r], con))"

text \<open>A write under the lock: the rest of the command runs only if it succeeds.\<close>

definition then_written ::
  "lifecycle_world \<Rightarrow> unit store_action \<Rightarrow> runtime_command_record \<Rightarrow> lifecycle_event list \<Rightarrow> console \<Rightarrow>
   (store \<Rightarrow> lifecycle_event list \<Rightarrow> lifecycle_outcome option) \<Rightarrow> lifecycle_outcome option" where
  "then_written w written r events con rest =
     (case written of
        (st', Inl e) \<Rightarrow> Some (Failed (state_io w e), st', events, con)
      | (st', Inr _) \<Rightarrow> rest st' (events @ [RecordWritten r]))"

section \<open>Execution\<close>

definition stands_in :: "execution_report \<Rightarrow> bool" where
  "stands_in report \<longleftrightarrow>
     \<not> er_spawned report \<and> (er_outcome report = ''spy_reached'' \<or> er_outcome report = ''execution_unavailable'')"

definition conclude ::
  "lifecycle_world \<Rightarrow> resolve_success \<Rightarrow> authorized_execution_plan \<Rightarrow> session_lock \<Rightarrow> runtime_command_record \<Rightarrow>
   execution_report \<Rightarrow> diagnostic_record list \<Rightarrow> console \<Rightarrow> store \<Rightarrow> lifecycle_event list \<Rightarrow> lifecycle_outcome option" where
  "conclude w success authorized lock pending report extra con st events =
     (if stands_in report then
        (let r = unavailable_record pending (lw_clock w 2) in
         then_written w (write_final (lw_faults w 2) st r lock) r events con (\<lambda>st' events'.
           Some (ErrorEmitted
             (ExecutionUnavailable (lock_session_id lock) (deferred_from_authorized authorized))
             (Some (rs_explanation success)) (Some (rs_freshness success)) extra, st', events', con)))
      else
        (let r = final_record pending report (lw_clock w 2) in
         then_written w (write_final (lw_faults w 2) st r lock) r events con (\<lambda>st' events'.
           Some (ExecutedEmitted authorized (rs_explanation success) (rs_freshness success) report r extra,
             st', events', con))))"

definition record_start ::
  "lifecycle_world \<Rightarrow> session_lock \<Rightarrow> runtime_command_record \<Rightarrow> execution_report \<Rightarrow> console \<Rightarrow> store \<Rightarrow>
   lifecycle_event list \<Rightarrow> (runtime_command_record \<Rightarrow> store \<Rightarrow> lifecycle_event list \<Rightarrow> lifecycle_outcome option) \<Rightarrow>
   lifecycle_outcome option" where
  "record_start w lock pending report con st events rest =
     (case (er_spawned report, er_pid report) of
        (True, Some pid) \<Rightarrow>
          (let r = started_record pending pid in
           then_written w (write_final (lw_faults w 1) st r lock) r events con (rest r))
      | _ \<Rightarrow> rest pending st events)"

definition execute_and_record ::
  "executor \<Rightarrow> lifecycle_world \<Rightarrow> resolution_request \<Rightarrow> resolve_success \<Rightarrow> authorized_execution_plan \<Rightarrow> path \<Rightarrow>
   runtime_context option \<Rightarrow> diagnostic_record option \<Rightarrow> diagnostic_record list \<Rightarrow> store \<Rightarrow> console \<Rightarrow>
   lifecycle_outcome option" where
  "execute_and_record executor w request success authorized home ctx ctx_diag extra st con =
     (case lw_open_store w home of
        Inl e \<Rightarrow> Some (Failed (state_io w e), st, [], con)
      | Inr _ \<Rightarrow>
     (case acquire_lock st (rr_session_id request) of
        Inl e \<Rightarrow> Some (Failed (state_io w e), st, [], con)
      | Inr lock \<Rightarrow>
          (let profile = pin_profile (rs_policy_input success);
               pending = (base_record_from_authorized (lw_clock w 0) (lw_clock w 1) authorized
                 (verb_str (rr_verb request)) True ''pending'' True ctx ctx_diag)\<lparr>rc_ended_at := None\<rparr>
           in then_written w (write_pending (lw_faults w 0) st pending lock) pending [] con (\<lambda>st1 events.
                case executor authorized (lifecycle_options w profile) con of
                  None \<Rightarrow> None
                | Some (report, effects, con') \<Rightarrow>
                    record_start w lock pending report con' st1 (events @ [ChildRun effects]) (\<lambda>pending st2 events.
                      conclude w success authorized lock pending report extra con' st2 events)))))"

section \<open>The coordinator\<close>

definition class_unavailable_message :: "lifecycle_world \<Rightarrow> resolved_command \<Rightarrow> string" where
  "class_unavailable_message w resolved =
     ''execution_class='' @ execution_class_str (res_execution_class resolved) @ '' with provider '' @
     lw_debug_provider w (res_runtime_provider resolved) @ '' is not executable in S6''"

definition rejected_response ::
  "lifecycle_world \<Rightarrow> resolution_request \<Rightarrow> resolve_success \<Rightarrow> rejected_policy_outcome \<Rightarrow> path \<Rightarrow> runtime_context option \<Rightarrow>
   diagnostic_record list \<Rightarrow> store \<Rightarrow> console \<Rightarrow> lifecycle_outcome" where
  "rejected_response w request success rejected home ctx extra st con =
     (let refuse = (\<lambda>kind err.
            terminal_response w home st
              (base_record_from_rejected (lw_clock w 0) (lw_clock w 1) rejected (verb_str (rr_verb request))
                (rr_execute_requested request) kind ctx)
              (PolicyEmitted err rejected (rs_freshness success) extra) con)
      in case rj_decision rejected of
           Deny _ _ why \<Rightarrow> refuse ''denied'' (PolicyDenied why (outcome_from_rejected rejected))
         | Gate _ _ why _ \<Rightarrow> refuse ''gated'' (PolicyGated why (outcome_from_rejected rejected))
         | Allow _ \<Rightarrow>
             (Failed (InternalError ''policy evaluator returned Allow without authorization''), st, [], con))"

definition authorized_response ::
  "executor \<Rightarrow> lifecycle_world \<Rightarrow> resolution_request \<Rightarrow> resolve_success \<Rightarrow> authorized_execution_plan \<Rightarrow> path \<Rightarrow>
   runtime_context option \<Rightarrow> diagnostic_record option \<Rightarrow> diagnostic_record list \<Rightarrow> store \<Rightarrow> console \<Rightarrow>
   lifecycle_outcome option" where
  "authorized_response executor w request success authorized home ctx ctx_diag extra st con =
     (let resolved = sp_resolved (rs_plan success);
          base = (\<lambda>execute kind. base_record_from_authorized (lw_clock w 0) (lw_clock w 1) authorized
            (verb_str (rr_verb request)) execute kind True ctx ctx_diag);
          explanation = rs_explanation success; fresh = rs_freshness success
      in if res_execution_class resolved \<noteq> Direct then
           Some (terminal_response w home st (base (rr_execute_requested request) ''execution_unavailable'')
             (ErrorEmitted (ExecutionClassUnavailable (class_unavailable_message w resolved)
                (deferred_from_authorized authorized)) (Some explanation) (Some fresh) extra) con)
         else if rr_execute_requested request then
           execute_and_record executor w request success authorized home ctx ctx_diag extra st con
         else
           Some (terminal_response w home st (base False ''planned'')
             (if rr_explain request then ExplanationEmitted authorized explanation fresh extra
              else PlanEmitted authorized explanation fresh extra) con))"

definition option_list :: "'a option \<Rightarrow> 'a list" where
  "option_list x = (case x of Some v \<Rightarrow> [v] | None \<Rightarrow> [])"

definition run_lifecycle_with_executor ::
  "executor \<Rightarrow> lifecycle_world \<Rightarrow> resolution_request \<Rightarrow> store \<Rightarrow> console \<Rightarrow> lifecycle_outcome option" where
  "run_lifecycle_with_executor executor w request st con =
     (let (ctx, ctx_diag) = collect_runtime_context (lw_context_env w); extra = option_list ctx_diag in
      case resolve (lw_to_value w) (lw_inputs w) request of
        Inl err \<Rightarrow> Some (ErrorEmitted (fill_session (rr_session_id request) err) None None [], st, [], con)
      | Inr success \<Rightarrow>
          (let home = state_home_for w (pin_profile (rs_policy_input success)) in
           case evaluate_policy (lw_policy_env w) (rs_policy_input success) of
             ContractFailure err \<Rightarrow>
               Some (PolicyContractEmitted (from_policy_contract err) (rs_plan success) (rs_freshness success)
                 (rr_execute_requested request), st, [], con)
           | Rejected rejected \<Rightarrow> Some (rejected_response w request success rejected home ctx extra st con)
           | Authorized authorized \<Rightarrow>
               authorized_response executor w request success authorized home ctx ctx_diag extra st con))"

end
