(* ===== verification/Lifecycle_Recording.thy ===== *)
theory Lifecycle_Recording
  imports Lifecycle_Dispatch
begin

text \<open>
  What the coordination of a lifecycle command guarantees: the order of the writes and of the child,
  the validity of every record it writes, and that a run is recorded as it ended.
\<close>

section \<open>The executor as the coordinator sees it\<close>

text \<open>The combinations of outcome, process evidence and spawn flag that an executor reports.\<close>

definition report_shape :: "execution_report \<Rightarrow> bool" where
  "report_shape r \<longleftrightarrow>
     (er_outcome r = ''failed_to_spawn'' \<and> \<not> er_spawned r \<and> er_pid r = None \<and> er_exit_code r = None \<and> er_signal r = None) \<or>
     (er_outcome r = ''completed'' \<and> er_spawned r \<and> er_exit_code r \<noteq> None \<and> er_signal r = None) \<or>
     (er_outcome r = ''interrupted'' \<and> er_spawned r \<and> (\<exists>s \<in> set KNOWN_SIGNAL_NAMES. er_signal r = Some s)) \<or>
     (er_outcome r = ''controller_error'' \<and> er_spawned r \<and> er_exit_code r = None \<and> er_signal r = None)"

definition starts_plan :: "authorized_execution_plan \<Rightarrow> child_effect list \<Rightarrow> bool" where
  "starts_plan a effects \<longleftrightarrow>
     (\<exists>pairs later. effects = Spawned (sp_executable_path (ap_plan a)) (sp_cwd_path (ap_plan a))
        (res_argv (sp_resolved (ap_plan a))) pairs # later)"

locale executor_contract =
  fixes execute :: executor
  assumes shape: "execute a options con = Some (report, effects, con') \<Longrightarrow> report_shape report"
    and spawned_iff: "execute a options con = Some (report, effects, con') \<Longrightarrow> er_spawned report \<longleftrightarrow> effects \<noteq> []"
    and starts: "execute a options con = Some (report, effects, con') \<Longrightarrow> effects \<noteq> [] \<Longrightarrow> starts_plan a effects"
begin

lemma never_stands_in: "execute a options con = Some (report, effects, con') \<Longrightarrow> \<not> stands_in report"
  using shape by (fastforce simp: stands_in_def report_shape_def)

lemma idle_or_starts: "execute a options con = Some (report, effects, con') \<Longrightarrow> effects = [] \<or> starts_plan a effects"
  using starts by blast

end

lemma signal_name_known: "signal_name sig \<in> set KNOWN_SIGNAL_NAMES"
  by (simp add: signal_name_def KNOWN_SIGNAL_NAMES_def)

lemma map_status_shape:
  assumes "map_status st = (code, sig, kind)"
  shows "kind = ''completed'' \<and> code \<noteq> None \<and> sig = None \<or>
    kind = ''interrupted'' \<and> (\<exists>s \<in> set KNOWN_SIGNAL_NAMES. sig = Some s)"
  using assms by (cases st) (use signal_name_known in \<open>auto simp: map_status_def\<close>)

lemma spawn_and_reap_shape:
  assumes "spawn_and_reap w exe cwd argv env options lifecycle con = Some (res, effects, con')"
  shows "report_shape (fst (report_of (res, effects, con'))) \<and>
    (er_spawned (fst (report_of (res, effects, con'))) \<longleftrightarrow> effects \<noteq> [])"
proof (cases "mc_spawn w exe cwd argv (es_pairs env)")
  case (Inl e)
  then show ?thesis
    using assms by (auto simp: spawn_and_reap_def exec_io_def report_of_def into_report_def idle_report_def report_shape_def)
next
  case (Inr pid)
  then obtain later where l: "effects = Spawned exe cwd argv (es_pairs env) # later" "owned w pid res later"
    using spawn_and_reap_owned [OF Inr assms] by blast
  show ?thesis
  proof (cases res)
    case (Inl f)
    then show ?thesis
      using l by (simp add: owned_def report_of_def into_report_def idle_report_def report_shape_def)
  next
    case (Inr report)
    with l obtain st where "er_spawned report" "map_status st = (er_exit_code report, er_signal report, er_outcome report)"
      by (auto simp: owned_def)
    then show ?thesis
      using map_status_shape [of st] Inr l by (auto simp: report_of_def report_shape_def)
  qed
qed

lemma execute_inner_cases:
  assumes "execute_inner w a options con = Some (res, effects, con')"
  obtains (refused) f where "res = Inl f" "effects = []" "ef_outcome f = ''failed_to_spawn''" "\<not> ef_spawned f" "ef_pid f = None"
  | (spawn) env where "spawn_and_reap w (sp_executable_path (ap_plan a)) (sp_cwd_path (ap_plan a))
      (res_argv (sp_resolved (ap_plan a))) env options (Some a) con = Some (res, effects, con')"
proof -
  let ?check = "preflight_identity (mc_fs w AtIdentity) (sp_executable_path (ap_plan a)) (sp_cwd_path (ap_plan a))"
  let ?snap = "snapshot_env (mc_getenv w) (res_env_keys (sp_resolved (ap_plan a)))"
  have pid: "?check = Inl f \<Longrightarrow> ef_pid f = None" for f
    by (auto simp: preflight_identity_def rbind_eq_Inl_iff map_err_def exec_contract_def split: option.splits if_splits sum.splits)
  show thesis
  proof (cases ?check)
    case (Inl f)
    then show thesis
      using assms preflight_identity_failure [OF Inl] pid [OF Inl] by (intro refused) (auto simp: execute_inner_def Let_def)
  next
    case check: (Inr u)
    show thesis
    proof (cases ?snap)
      case (Inl e)
      then show thesis
        using assms check by (intro refused) (auto simp: execute_inner_def Let_def map_err_def failed_to_spawn_def)
    next
      case (Inr env)
      then show thesis
        using assms check by (intro spawn) (auto simp: execute_inner_def Let_def map_err_def)
    qed
  qed
qed

lemma executor_execute_facts:
  assumes "executor_execute w a options con = Some (report, effects, con')"
  shows "report_shape report \<and> (er_spawned report \<longleftrightarrow> effects \<noteq> []) \<and> (effects \<noteq> [] \<longrightarrow> starts_plan a effects)"
proof -
  obtain res where run: "execute_inner w a options con = Some (res, effects, con')"
    and report: "report = fst (report_of (res, effects, con'))"
    using assms unfolding executor_execute_def report_of_def by (fastforce split: sum.splits prod.splits)
  from run show ?thesis
  proof (cases rule: execute_inner_cases)
    case (refused f)
    then show ?thesis by (simp add: report report_of_def into_report_def idle_report_def report_shape_def)
  next
    case (spawn env)
    then show ?thesis
      using spawn_and_reap_shape [OF spawn] spawn_effects_nonempty [OF spawn] by (auto simp: report starts_plan_def)
  qed
qed

interpretation tokio: executor_contract "executor_execute w" for w
  by unfold_locales (use executor_execute_facts in blast)+

section \<open>What a resolution fixes\<close>

lemma resolve_fields:
  assumes "resolve to_value inp request = Inr s" and "rr_session_id request \<noteq> []"
  defines "r \<equiv> sp_resolved (rs_plan s)"
  shows "res_session_id r = rr_session_id request" "res_unit_id r = rr_unit_id request"
    "res_verb r = verb_str (rr_verb request)" "res_schema_version r = SCHEMA_VERSION"
    "pin_plan (rs_policy_input s) = rs_plan s"
proof -
  have "with_session_id inp request = request" using assms(2) by (simp add: with_session_id_def)
  then obtain d iv backend tools selected where "resolved_by inp request s d iv backend tools selected"
    using resolve_cases(2) [OF refl assms(1)] by auto
  then show "res_session_id r = rr_session_id request" "res_unit_id r = rr_unit_id request"
    "res_verb r = verb_str (rr_verb request)" "pin_plan (rs_policy_input s) = rs_plan s"
    by (simp_all add: resolved_by_def Let_def r_def)
  show "res_schema_version r = SCHEMA_VERSION"
    using assms(1) unfolding r_def
    by (auto simp: resolve_def resolve_inner_def seal_resolution_def Let_def map_err_eq_Inr_iff seal_fields
        normalize_resolved_def resolved_command_of_def at_def elim!: rbind_InrE)
qed

lemma authorized_fields:
  assumes "evaluate_policy env input = Authorized a"
  shows "ap_plan a = pin_plan input" "is_Allow (ap_policy_decision a)"
proof -
  obtain ns where "evaluate_normalized env input ns = Authorized a"
    using assms by (auto simp: evaluate_policy_def Let_def split: sum.splits)
  then show "ap_plan a = pin_plan input" "is_Allow (ap_policy_decision a)"
    by (auto simp: evaluate_normalized_def Let_def split: if_splits)
qed

lemma rejected_plan:
  assumes "evaluate_policy env input = Rejected r"
  shows "rj_plan r = pin_plan input"
proof -
  obtain ns where "evaluate_normalized env input ns = Rejected r"
    using assms by (auto simp: evaluate_policy_def Let_def split: sum.splits)
  then show ?thesis by (auto simp: evaluate_normalized_def Let_def split: if_splits)
qed

section \<open>The records satisfy the contract\<close>

text \<open>What the coordinator knows of the plan when it starts to write.\<close>

definition recordable :: "authorized_execution_plan \<Rightarrow> string \<Rightarrow> string \<Rightarrow> bool" where
  "recordable a sid verb \<longleftrightarrow>
     (let r = sp_resolved (ap_plan a) in
      res_session_id r = sid \<and> res_verb r = verb \<and> res_schema_version r = SCHEMA_VERSION \<and>
      is_Allow (ap_policy_decision a) \<and> is_valid_plan_digest (sp_plan_digest (ap_plan a)) \<and>
      validate_session_id sid = Inr ())"

text \<open>
  The record a run starts from, whatever the command, and what later steps of the run may change of it: the
  execution, its end, the output and the error.
\<close>

definition run_base :: "int \<Rightarrow> string \<Rightarrow> runtime_command_record \<Rightarrow> bool" where
  "run_base began sid base \<longleftrightarrow>
     validate_session_id sid = Inr () \<and> rc_session_id base = sid \<and>
     rc_started_at base = utc_now_rfc3339 began \<and> 0 \<le> began \<and> began < 253402300800 \<and>
     rc_schema_version base = SCHEMA_VERSION \<and> rc_record_kind base = RECORD_KIND_COMMAND_EXECUTION \<and>
     rc_actor base = ''agent'' \<and> is_valid_plan_digest (rc_plan_digest base) \<and>
     pred_option (resolution_agrees base) (rc_resolution base) \<and> pred_option context_ok (rc_runtime_context base) \<and>
     is_Allow (rc_policy_decision base)"

definition run_record :: "runtime_command_record \<Rightarrow> runtime_command_record \<Rightarrow> bool" where
  "run_record base r \<longleftrightarrow>
     (\<exists>ex ended summary err.
        r = base\<lparr>rc_execution := ex, rc_ended_at := ended, rc_output_summary := summary, rc_error := err\<rparr>)"

lemma run_record_refl: "run_record r r"
  unfolding run_record_def
  by (intro exI [of _ "rc_execution r"] exI [of _ "rc_ended_at r"] exI [of _ "rc_output_summary r"] exI [of _ "rc_error r"]) simp

lemma run_record_contract:
  assumes "run_base began sid base" and "run_record base r"
    and "rc_ended_at r = None \<or> (\<exists>ended. rc_ended_at r = Some (utc_now_rfc3339 ended) \<and> began \<le> ended \<and> ended < 253402300800)"
    and "phase_ok p r" and "pred_option error_ok (rc_error r)"
  shows "validate_for_write r = Inr ()" "rc_session_id r = sid"
proof -
  have b: "validate_session_id sid = Inr ()" "0 \<le> began" "began < 253402300800"
    using assms(1) by (simp_all add: run_base_def)
  from b(1) have "sid \<noteq> []" by (auto simp: validate_session_id_def)
  show sid: "rc_session_id r = sid" using assms(1,2) by (auto simp: run_base_def run_record_def)
  have "rc_started_at r = utc_now_rfc3339 began"
    using assms(1,2) by (auto simp: run_base_def run_record_def)
  then have "times_ok r" using assms(3) b parse_utc_now by (auto simp: times_ok_def)
  moreover have "pred_option context_ok (rc_runtime_context r)"
    "rc_schema_version r = ''0.1.0''" "rc_record_kind r = ''command_execution''" "rc_actor r = ''agent''"
    "is_valid_plan_digest (rc_plan_digest r)"
    using assms(1,2) by (auto simp: run_base_def run_record_def SCHEMA_VERSION_def RECORD_KIND_COMMAND_EXECUTION_def)
  moreover have "pred_option (resolution_agrees r) (rc_resolution r)"
  proof -
    have "resolution_agrees r x \<longleftrightarrow> resolution_agrees base x" for x
      using assms(2) by (auto simp: run_record_def resolution_agrees_def)
    moreover have "rc_resolution r = rc_resolution base" using assms(2) by (auto simp: run_record_def)
    ultimately show ?thesis using assms(1) by (simp add: run_base_def pred_option_def)
  qed
  ultimately have "record_contract r"
    using assms(4,5) sid \<open>sid \<noteq> []\<close> by (auto simp: record_contract_def)
  with b(1) sid show "validate_for_write r = Inr ()"
    by (simp add: validate_for_write_def validate_contract_iff map_err_eq_Inr_iff)
qed

lemma context_capture_ok:
  assumes "collect_runtime_context env = (ctx, ctx_diag)"
  shows "pred_option context_ok ctx" "pred_option error_ok ctx_diag"
proof -
  show "pred_option context_ok ctx" using assms
    by (auto simp: collect_runtime_context_def context_ok_def normalize_id_valid split: option.splits sum.splits if_splits)
  show "pred_option error_ok ctx_diag" using assms
    by (auto simp: collect_runtime_context_def context_invalid_def error_ok_def split: option.splits sum.splits if_splits)
qed

lemma run_record_update:
  assumes "run_record base r"
  shows "run_record base (r\<lparr>rc_execution := ex, rc_ended_at := ended, rc_output_summary := summary, rc_error := err\<rparr>)"
proof -
  obtain ex0 ended0 summary0 err0 where
    "r = base\<lparr>rc_execution := ex0, rc_ended_at := ended0, rc_output_summary := summary0, rc_error := err0\<rparr>"
    using assms by (auto simp: run_record_def)
  then have "r\<lparr>rc_execution := ex, rc_ended_at := ended, rc_output_summary := summary, rc_error := err\<rparr> =
      base\<lparr>rc_execution := ex, rc_ended_at := ended, rc_output_summary := summary, rc_error := err\<rparr>"
    by simp
  then show ?thesis unfolding run_record_def by blast
qed

lemma run_record_execution: "run_record base r \<Longrightarrow> run_record base (r\<lparr>rc_execution := ex\<rparr>)"
  by (drule run_record_update [where ended = "rc_ended_at r" and summary = "rc_output_summary r" and err = "rc_error r" and ex = ex]) simp

lemma run_record_final:
  assumes "run_record base r"
  shows "run_record base (started_record r pid)" "run_record base (final_record r report t)"
  using run_record_execution [OF assms] run_record_update [OF assms] by (simp_all add: started_record_def final_record_def)

lemma run_record_decision:
  "run_record base r \<Longrightarrow> rc_policy_decision r = rc_policy_decision base \<and> rc_plan_digest r = rc_plan_digest base"
  by (auto simp: run_record_def)

text \<open>The phase of a record whose execution is that of a report, with its outcome or a later controller error.\<close>

lemma reported_phase:
  assumes "report_shape report" and "er_spawned report \<longrightarrow> er_pid report \<noteq> None"
    and "is_Allow (rc_policy_decision r)" and "rc_ended_at r \<noteq> None"
    and "rc_execution r = \<lparr>ex_started = er_spawned report, ex_pid = map_option unat (er_pid report),
      ex_exit_code = map_option unat (er_exit_code report), ex_signal = er_signal report, ex_outcome = kind\<rparr>"
    and "kind = er_outcome report \<or> kind = ''controller_error'' \<and> er_spawned report"
  shows "\<exists>p. p \<noteq> Pending \<and> phase_ok p r"
proof -
  let ?ok = "\<lambda>p. p \<noteq> Pending \<and> phase_ok p r"
  have "?ok FailedToSpawn \<or> ?ok Completed \<or> ?ok Interrupted \<or> ?ok ControllerErr"
    using assms unfolding report_shape_def by (auto simp: phase_ok_def never_ran_def ran_def)
  then show ?thesis by blast
qed

lemma final_phase:
  assumes "report_shape report" and "er_spawned report \<longrightarrow> er_pid report \<noteq> None"
    and "run_record base r" and "is_Allow (rc_policy_decision base)"
  shows "\<exists>p. p \<noteq> Pending \<and> phase_ok p (final_record r report t)"
  by (rule reported_phase [OF assms(1,2)])
    (use run_record_decision [OF run_record_final(2) [OF assms(3)]] assms(4) in \<open>auto simp: final_record_def\<close>)

lemma pending_phase:
  assumes "run_record base r" and "rc_ended_at r = None" "ex_outcome (rc_execution r) = ''pending''"
    and "is_Allow (rc_policy_decision base)"
  shows "phase_ok Pending r"
  using assms run_record_decision [OF assms(1)] by (simp add: phase_ok_def)

lemma run_record_transition:
  assumes "run_record base current" "run_record base r" "is_pending current"
  shows "check_legal_transition current r = Inr ()"
  using assms by (auto simp: check_legal_transition_def run_record_def)

lemma write_pending_ok:
  assumes "validate_for_write r = Inr ()" and "lock_session_id lock = rc_session_id r"
    and "st_entries st (rc_session_id r @ ''.json'') = None"
  shows "write_pending None st r lock = (install st (rc_session_id r @ ''.json'') r, Inr ())"
proof -
  have "record_path (rc_session_id r) = Inr (rc_session_id r @ ''.json'')"
    using assms(1) by (auto simp: record_path_iff validate_for_write_def result_simps)
  with assms show ?thesis
    by (simp add: write_pending_def guarded_def check_lock_matches_record_def atomic_replace_def path_present_def)
qed

text \<open>One write of a run whose session holds the pending record.\<close>

lemma run_write:
  assumes "codec_ok st" and "stored st sid = Some current" "is_pending current" "run_record base current"
    and "run_record base r" "validate_for_write r = Inr ()" "rc_session_id r = sid"
  shows "write_final None st r \<lparr>lock_session_id = sid\<rparr> = (install st (sid @ ''.json'') r, Inr ())"
    and "stored (install st (sid @ ''.json'') r) sid = Some r"
    and "j \<noteq> sid \<Longrightarrow> stored (install st (sid @ ''.json'') r) j = stored st j"
proof -
  show "write_final None st r \<lparr>lock_session_id = sid\<rparr> = (install st (sid @ ''.json'') r, Inr ())"
    using write_final_ok [OF assms(6), of "\<lparr>lock_session_id = sid\<rparr>" st current] assms(2,7)
      run_record_transition [OF assms(4,5,3)] by simp
  show "stored (install st (sid @ ''.json'') r) sid = Some r"
    using read_install_same [OF assms(1,6)] assms(7) by (simp add: stored_Some_iff)
  show "stored (install st (sid @ ''.json'') r) j = stored st j" if "j \<noteq> sid"
    using read_install_other [OF that] by (simp add: stored_def)
qed

section \<open>The writes of a run\<close>

text \<open>The store while a run is under way: its session holds a pending record of the run, and no other session changed.\<close>

definition run_at :: "runtime_command_record \<Rightarrow> string \<Rightarrow> store \<Rightarrow> runtime_command_record \<Rightarrow> store \<Rightarrow> bool" where
  "run_at base sid before r st \<longleftrightarrow>
     run_record base r \<and> is_pending r \<and> rc_ended_at r = None \<and> stored st sid = Some r \<and> codec_ok st \<and>
     (\<forall>j. j \<noteq> sid \<longrightarrow> stored st j = stored before j)"

lemma pending_contract:
  assumes "run_base began sid base" and "run_record base r" "is_pending r" "rc_ended_at r = None" "pred_option error_ok (rc_error r)"
  shows "validate_for_write r = Inr ()" "rc_session_id r = sid"
proof -
  have "is_Allow (rc_policy_decision base)" using assms(1) by (simp add: run_base_def)
  then have "phase_ok Pending r" using pending_phase [OF assms(2,4)] assms(3) by (simp add: is_pending_def)
  then show "validate_for_write r = Inr ()" "rc_session_id r = sid"
    using run_record_contract [OF assms(1,2) disjI1 [OF assms(4)] _ assms(5)] by blast+
qed

lemma run_starts:
  assumes base: "run_base began sid base" "is_pending base" "rc_ended_at base = None" "pred_option error_ok (rc_error base)"
    and disk: "codec_ok st" "st_entries st (sid @ ''.json'') = None"
  shows "\<exists>st1. write_pending None st base \<lparr>lock_session_id = sid\<rparr> = (st1, Inr ()) \<and> run_at base sid st base st1"
proof -
  note ok = pending_contract [OF base(1) run_record_refl base(2-4)]
  let ?st1 = "install st (sid @ ''.json'') base"
  have "write_pending None st base \<lparr>lock_session_id = sid\<rparr> = (?st1, Inr ())"
    using write_pending_ok [OF ok(1), of "\<lparr>lock_session_id = sid\<rparr>" st] disk(2) ok(2) by simp
  moreover have "stored ?st1 sid = Some base" "codec_ok ?st1"
    using read_install_same [OF disk(1) ok(1)] ok(2) disk(1) by (simp_all add: stored_Some_iff)
  moreover have "stored ?st1 j = stored st j" if "j \<noteq> sid" for j
    using read_install_other [OF that] by (simp add: stored_def)
  ultimately show ?thesis using base(2,3) run_record_refl by (auto simp: run_at_def)
qed

lemma run_continues:
  assumes "run_base began sid base" and at: "run_at base sid before p st"
    and r: "run_record base r" "is_pending r" "rc_ended_at r = None" "pred_option error_ok (rc_error r)"
  shows "\<exists>st1. write_final None st r \<lparr>lock_session_id = sid\<rparr> = (st1, Inr ()) \<and> run_at base sid before r st1"
proof -
  have p: "codec_ok st" "stored st sid = Some p" "is_pending p" "run_record base p"
    and other: "\<And>j. j \<noteq> sid \<Longrightarrow> stored st j = stored before j"
    using at by (simp_all add: run_at_def)
  note w = run_write [OF p r(1) pending_contract [OF assms(1) r]]
  show ?thesis
    using w other r p(1) by (intro exI [of _ "install st (sid @ ''.json'') r"]) (simp add: run_at_def)
qed

lemma run_ends:
  assumes "run_base began sid base" and at: "run_at base sid before p st"
    and r: "run_record base r" "rc_ended_at r = Some (utc_now_rfc3339 ended)" "began \<le> ended" "ended < 253402300800"
    and ph: "ph \<noteq> Pending" "phase_ok ph r" and "pred_option error_ok (rc_error r)"
  shows "\<exists>st1. write_final None st r \<lparr>lock_session_id = sid\<rparr> = (st1, Inr ()) \<and> stored st1 sid = Some r \<and> \<not> is_pending r \<and>
    (\<forall>j. j \<noteq> sid \<longrightarrow> stored st1 j = stored before j)"
proof -
  have p: "codec_ok st" "stored st sid = Some p" "is_pending p" "run_record base p"
    and other: "\<And>j. j \<noteq> sid \<Longrightarrow> stored st j = stored before j"
    using at by (simp_all add: run_at_def)
  have "validate_for_write r = Inr ()" "rc_session_id r = sid"
    using run_record_contract [OF assms(1) r(1) _ ph(2) assms(9)] r(2-4) by blast+
  note w = run_write [OF p r(1) this]
  have "\<not> is_pending r" using ph phase_name_inj [of ph Pending] by (simp add: is_pending_def phase_ok_def)
  then show ?thesis
    using w other by (intro exI [of _ "install st (sid @ ''.json'') r"]) simp
qed

section \<open>A run is recorded as it ended\<close>

text \<open>A disk on which nothing fails, and a clock that does not run backwards.\<close>

definition quiet_disk :: "lifecycle_world \<Rightarrow> store \<Rightarrow> string \<Rightarrow> path \<Rightarrow> bool" where
  "quiet_disk w st sid home \<longleftrightarrow>
     codec_ok st \<and> lw_open_store w home = Inr () \<and> st_lock_fault st sid = None \<and>
     st_entries st (sid @ ''.json'') = None \<and> (\<forall>k. lw_faults w k = None)"

definition steady_clock :: "lifecycle_world \<Rightarrow> bool" where
  "steady_clock w \<longleftrightarrow> 0 \<le> lw_clock w 0 \<and> lw_clock w 0 \<le> lw_clock w 2 \<and> lw_clock w 2 < 253402300800"

lemma lifecycle_base:
  assumes "recordable a sid verb" and "pred_option context_ok ctx" and "steady_clock w"
    and base_def: "base = (base_record_from_authorized (lw_clock w 0) t a verb True ''pending'' True ctx ctx_diag)\<lparr>rc_ended_at := None\<rparr>"
  shows "run_base (lw_clock w 0) sid base" "is_pending base" "rc_ended_at base = None" "rc_error base = ctx_diag"
    "rc_plan_digest base = sp_plan_digest (ap_plan a)"
  using assms(1-3)
  by (auto simp: run_base_def recordable_def base_def base_record_from_authorized_def Let_def is_pending_def
      resolution_agrees_def steady_clock_def)

lemma run_until_report:
  assumes disk: "quiet_disk w st (rr_session_id request) home" and clock: "steady_clock w"
    and rec: "recordable a (rr_session_id request) (verb_str (rr_verb request))"
    and ctx: "pred_option context_ok ctx" "pred_option error_ok ctx_diag"
    and exec: "execute a (lifecycle_options w (pin_profile (rs_policy_input success))) con = Some (report, effects, con')"
    and shape: "er_spawned report \<longrightarrow> er_pid report \<noteq> None"
  obtains base pending st2 events where
    "execute_and_record execute w request success a home ctx ctx_diag extra st con =
      conclude w success a \<lparr>lock_session_id = rr_session_id request\<rparr> pending report extra con' st2 events"
    "run_base (lw_clock w 0) (rr_session_id request) base" "run_at base (rr_session_id request) st pending st2"
    "rc_error pending = ctx_diag" "rc_plan_digest base = sp_plan_digest (ap_plan a)"
proof -
  let ?sid = "rr_session_id request"
  let ?lock = "\<lparr>lock_session_id = ?sid\<rparr>"
  define base where "base = (base_record_from_authorized (lw_clock w 0) (lw_clock w 1) a (verb_str (rr_verb request)) True
    ''pending'' True ctx ctx_diag)\<lparr>rc_ended_at := None\<rparr>"
  have d: "codec_ok st" "lw_open_store w home = Inr ()" "st_lock_fault st ?sid = None" "st_entries st (?sid @ ''.json'') = None"
    "\<And>k. lw_faults w k = None"
    using disk by (simp_all add: quiet_disk_def)
  have sid_ok: "validate_session_id ?sid = Inr ()" using rec by (simp add: recordable_def Let_def)
  note b = lifecycle_base [OF rec ctx(1) clock, where t = "lw_clock w 1" and ctx_diag = ctx_diag, folded base_def]
  obtain st1 where w1: "write_pending None st base ?lock = (st1, Inr ())" and at1: "run_at base ?sid st base st1"
    using run_starts [OF b(1-3) _ d(1,4)] b(4) ctx(2) by auto
  obtain pending st2 events where started:
    "\<And>rest. record_start w ?lock base report con' st1 ([RecordWritten base] @ [ChildRun effects]) rest = rest pending st2 events"
    "run_at base ?sid st pending st2" "rc_error pending = ctx_diag"
  proof (cases "er_spawned report")
    case False
    then have "record_start w ?lock base report con' st1 ([RecordWritten base] @ [ChildRun effects]) rest =
        rest base st1 ([RecordWritten base] @ [ChildRun effects])" for rest
      by (simp add: record_start_def)
    then show thesis using that at1 b(4) by blast
  next
    case True
    then obtain pid where pid: "er_pid report = Some pid" using shape by blast
    let ?r = "started_record base pid"
    have "is_pending ?r" "rc_ended_at ?r = None" "rc_error ?r = ctx_diag"
      using b by (simp_all add: started_record_def is_pending_def)
    then obtain st2 where w2: "write_final None st1 ?r ?lock = (st2, Inr ())" "run_at base ?sid st ?r st2"
      using run_continues [OF b(1) at1 run_record_final(1) [OF run_record_refl]] ctx(2) by metis
    have "record_start w ?lock base report con' st1 ([RecordWritten base] @ [ChildRun effects]) rest =
        rest ?r st2 ([RecordWritten base, ChildRun effects, RecordWritten ?r])" for rest
      using True pid w2(1) d(5) by (simp add: record_start_def then_written_def Let_def)
    then show thesis using that w2(2) \<open>rc_error ?r = ctx_diag\<close> by blast
  qed
  have "execute_and_record execute w request success a home ctx ctx_diag extra st con =
      conclude w success a ?lock pending report extra con' st2 events"
    using d(2,3,5) sid_ok w1 exec started(1)
    unfolding execute_and_record_def Let_def base_def [symmetric]
    by (simp add: acquire_lock_def then_written_def Let_def)
  then show thesis using that started(2,3) b(1,5) by blast
qed

text \<open>The last write, when the record of the outcome satisfies the contract.\<close>

lemma execute_and_record_ok:
  assumes disk: "quiet_disk w st (rr_session_id request) home" and clock: "steady_clock w"
    and rec: "recordable a (rr_session_id request) (verb_str (rr_verb request))"
    and ctx: "pred_option context_ok ctx" "pred_option error_ok ctx_diag"
    and exec: "execute a (lifecycle_options w (pin_profile (rs_policy_input success))) con = Some (report, effects, con')"
    and shape: "report_shape report" "er_spawned report \<longrightarrow> er_pid report \<noteq> None" "\<not> stands_in report"
    and diag: "er_diagnostics report \<noteq> [] \<longrightarrow> error_ok (hd (er_diagnostics report))"
  shows "\<exists>r st' events.
    execute_and_record execute w request success a home ctx ctx_diag extra st con =
      Some (ExecutedEmitted a (rs_explanation success) (rs_freshness success) report r extra, st', events, con') \<and>
    stored st' (rr_session_id request) = Some r \<and> \<not> is_pending r \<and>
    rc_execution r = \<lparr>ex_started = er_spawned report, ex_pid = map_option unat (er_pid report),
      ex_exit_code = map_option unat (er_exit_code report), ex_signal = er_signal report, ex_outcome = er_outcome report\<rparr> \<and>
    rc_plan_digest r = sp_plan_digest (ap_plan a) \<and> rc_ended_at r = Some (utc_now_rfc3339 (lw_clock w 2)) \<and>
    (\<forall>j. j \<noteq> rr_session_id request \<longrightarrow> stored st' j = stored st j)"
proof -
  let ?sid = "rr_session_id request"
  obtain base pending st2 events where run:
    "execute_and_record execute w request success a home ctx ctx_diag extra st con =
      conclude w success a \<lparr>lock_session_id = ?sid\<rparr> pending report extra con' st2 events"
    "run_base (lw_clock w 0) ?sid base" "run_at base ?sid st pending st2" "rc_error pending = ctx_diag"
    "rc_plan_digest base = sp_plan_digest (ap_plan a)"
    by (rule run_until_report [where execute = execute and extra = extra, OF disk clock rec ctx exec shape(2)])
  have t: "lw_clock w 0 \<le> lw_clock w 2" "lw_clock w 2 < 253402300800" using clock by (simp_all add: steady_clock_def)
  have p: "run_record base pending" using run(3) by (simp add: run_at_def)
  let ?f = "final_record pending report (lw_clock w 2)"
  have f: "run_record base ?f" by (rule run_record_final(2) [OF p])
  have "is_Allow (rc_policy_decision base)" using run(2) by (simp add: run_base_def)
  from final_phase [OF shape(1,2) p this] obtain ph where ph: "ph \<noteq> Pending" "phase_ok ph ?f" by blast
  have "pred_option error_ok (rc_error ?f)"
    using diag ctx(2) run(4) by (cases "er_diagnostics report") (simp_all add: final_record_def)
  moreover have ended: "rc_ended_at ?f = Some (utc_now_rfc3339 (lw_clock w 2))" by (simp add: final_record_def)
  ultimately obtain st3 where last_write: "write_final None st2 ?f \<lparr>lock_session_id = ?sid\<rparr> = (st3, Inr ())"
    "stored st3 ?sid = Some ?f" "\<not> is_pending ?f" "\<forall>j. j \<noteq> ?sid \<longrightarrow> stored st3 j = stored st j"
    using run_ends [OF run(2,3) f _ t ph] by blast
  have "lw_faults w 2 = None" using disk by (simp add: quiet_disk_def)
  then have "execute_and_record execute w request success a home ctx ctx_diag extra st con =
      Some (ExecutedEmitted a (rs_explanation success) (rs_freshness success) report ?f extra,
        st3, events @ [RecordWritten ?f], con')"
    using run(1) shape(3) last_write(1) by (simp add: conclude_def then_written_def Let_def)
  then show ?thesis
    using last_write(2-4) run(5) run_record_decision [OF f] ended
    by (intro exI [of _ ?f] exI [of _ st3]) (auto simp: final_record_def)
qed

text \<open>A last write that the contract refuses.\<close>

lemma execute_and_record_refused:
  assumes disk: "quiet_disk w st (rr_session_id request) home" and clock: "steady_clock w"
    and rec: "recordable a (rr_session_id request) (verb_str (rr_verb request))"
    and ctx: "pred_option context_ok ctx" "pred_option error_ok ctx_diag"
    and exec: "execute a (lifecycle_options w (pin_profile (rs_policy_input success))) con = Some (report, effects, con')"
    and shape: "er_spawned report \<longrightarrow> er_pid report \<noteq> None" "\<not> stands_in report"
    and diag: "er_diagnostics report \<noteq> []" "\<not> error_ok (hd (er_diagnostics report))"
  shows "\<exists>e st' events r.
    execute_and_record execute w request success a home ctx ctx_diag extra st con = Some (Failed (state_io w e), st', events, con') \<and>
    store_error_code e = ''record_contract_invalid'' \<and> stored st' (rr_session_id request) = Some r \<and> is_pending r"
proof -
  let ?sid = "rr_session_id request"
  obtain base pending st2 events where run:
    "execute_and_record execute w request success a home ctx ctx_diag extra st con =
      conclude w success a \<lparr>lock_session_id = ?sid\<rparr> pending report extra con' st2 events"
    "run_at base ?sid st pending st2"
    by (rule run_until_report [where execute = execute and extra = extra, OF disk clock rec ctx exec shape(1)])
      (rule that; assumption)
  have p: "is_pending pending" "stored st2 ?sid = Some pending" using run(2) by (simp_all add: run_at_def)
  let ?f = "final_record pending report (lw_clock w 2)"
  have "\<not> record_contract ?f"
    using diag by (cases "er_diagnostics report") (simp_all add: record_contract_def final_record_def)
  then obtain e where e: "validate ?f = Inl e"
    using validate_contract_iff [of ?f] by (cases "validate ?f") simp_all
  have "rc_session_id pending = ?sid" using p(2) by (auto simp: stored_Some_iff read_raw_Inr_iff read_path_Inr_iff)
  then have "rc_session_id ?f = ?sid" by (simp add: final_record_def)
  moreover have "validate_session_id ?sid = Inr ()" using rec by (simp add: recordable_def Let_def)
  ultimately have "write_final (lw_faults w 2) st2 ?f \<lparr>lock_session_id = ?sid\<rparr> = (st2, Inl (Contract (RecordInvalid e)))"
    using e by (simp add: write_final_def guarded_def validate_for_write_def map_err_def)
  then show ?thesis
    using run(1) p shape(2) by (auto simp: conclude_def then_written_def Let_def intro!: exI [of _ "Contract (RecordInvalid e)"])
qed

text \<open>
  C11: an executed command is recorded as it ended. On a working disk and with a steady clock, a command that
  resolves, is authorised, is direct and asks to be executed is run once by the executor, and its outcome,
  exit code, signal and pid are what is read back from the store under its session when the coordinator
  returns: the record is terminal, carries the digest of the authorised plan, and no other session changed.
\<close>

theorem lifecycle_run_recorded:
  assumes "resolve (lw_to_value w) (lw_inputs w) request = Inr s" and "rr_session_id request \<noteq> []"
    and "validate_session_id (rr_session_id request) = Inr ()" and "is_valid_plan_digest (sp_plan_digest (rs_plan s))"
    and "evaluate_policy (lw_policy_env w) (rs_policy_input s) = Authorized a"
    and "res_execution_class (sp_resolved (rs_plan s)) = Direct" and "rr_execute_requested request"
    and "quiet_disk w st (rr_session_id request) (state_home_for w (pin_profile (rs_policy_input s)))" and "steady_clock w"
    and "executor_execute m a (lifecycle_options w (pin_profile (rs_policy_input s))) con = Some (report, effects, con')"
    and "er_spawned report \<longrightarrow> er_pid report \<noteq> None"
    and "er_diagnostics report \<noteq> [] \<longrightarrow> error_ok (hd (er_diagnostics report))"
  shows "\<exists>r st' events extra.
    run_lifecycle_with_executor (executor_execute m) w request st con =
      Some (ExecutedEmitted a (rs_explanation s) (rs_freshness s) report r extra, st', events, con') \<and>
    stored st' (rr_session_id request) = Some r \<and> \<not> is_pending r \<and>
    rc_execution r = \<lparr>ex_started = er_spawned report, ex_pid = map_option unat (er_pid report),
      ex_exit_code = map_option unat (er_exit_code report), ex_signal = er_signal report, ex_outcome = er_outcome report\<rparr> \<and>
    rc_plan_digest r = sp_plan_digest (rs_plan s) \<and>
    (\<forall>j. j \<noteq> rr_session_id request \<longrightarrow> stored st' j = stored st j)"
proof -
  obtain ctx ctx_diag where c: "collect_runtime_context (lw_context_env w) = (ctx, ctx_diag)" by fastforce
  note f = resolve_fields [OF assms(1,2)]
  have plan: "ap_plan a = rs_plan s" using authorized_fields(1) [OF assms(5)] f(5) by simp
  have "recordable a (rr_session_id request) (verb_str (rr_verb request))"
    using f assms(3,4) authorized_fields(2) [OF assms(5)] by (simp add: recordable_def Let_def plan)
  from execute_and_record_ok [where execute = "executor_execute m", OF assms(8,9) this context_capture_ok [OF c] assms(10) tokio.shape [OF assms(10)] assms(11)
      tokio.never_stands_in [OF assms(10)] assms(12), of "option_list ctx_diag"]
  show ?thesis
    using assms(1,5,6,7) c plan
    by (simp add: run_lifecycle_with_executor_def authorized_response_def Let_def) blast
qed

text \<open>
  C19: a message that is too long strands a record. The message of the first diagnostic of a run becomes the
  error of its record, without a bound, and the contract bounds an error at 4096 bytes. When it is longer (an
  operating system text, or the name of an environment key, which resolution does not bound) the last write is
  refused: the command ends with a state error although the child ran, and its record stays pending.
\<close>

theorem oversized_diagnostic_strands_record:
  assumes "resolve (lw_to_value w) (lw_inputs w) request = Inr s" and "rr_session_id request \<noteq> []"
    and "validate_session_id (rr_session_id request) = Inr ()" and "is_valid_plan_digest (sp_plan_digest (rs_plan s))"
    and "evaluate_policy (lw_policy_env w) (rs_policy_input s) = Authorized a"
    and "res_execution_class (sp_resolved (rs_plan s)) = Direct" and "rr_execute_requested request"
    and "quiet_disk w st (rr_session_id request) (state_home_for w (pin_profile (rs_policy_input s)))" and "steady_clock w"
    and "executor_execute m a (lifecycle_options w (pin_profile (rs_policy_input s))) con = Some (report, effects, con')"
    and "er_spawned report \<longrightarrow> er_pid report \<noteq> None"
    and "er_diagnostics report \<noteq> []" and "length (diag_message (hd (er_diagnostics report))) > 4096"
  shows "\<exists>e st' events r.
    run_lifecycle_with_executor (executor_execute m) w request st con = Some (Failed (state_io w e), st', events, con') \<and>
    store_error_code e = ''record_contract_invalid'' \<and> stored st' (rr_session_id request) = Some r \<and> is_pending r"
proof -
  obtain ctx ctx_diag where c: "collect_runtime_context (lw_context_env w) = (ctx, ctx_diag)" by fastforce
  note f = resolve_fields [OF assms(1,2)]
  have plan: "ap_plan a = rs_plan s" using authorized_fields(1) [OF assms(5)] f(5) by simp
  have "recordable a (rr_session_id request) (verb_str (rr_verb request))"
    using f assms(3,4) authorized_fields(2) [OF assms(5)] by (simp add: recordable_def Let_def plan)
  moreover have "\<not> error_ok (hd (er_diagnostics report))" using assms(13) by (simp add: error_ok_def)
  ultimately show ?thesis
    using execute_and_record_refused [where execute = "executor_execute m" and extra = "option_list ctx_diag",
        OF assms(8,9) _ context_capture_ok [OF c] assms(10,11) tokio.never_stands_in [OF assms(10)] assms(12)]
      assms(1,5,6,7) c
    by (simp add: run_lifecycle_with_executor_def authorized_response_def Let_def)
qed

section \<open>Nothing runs before it is authorised and recorded\<close>

definition records_ok :: "string \<Rightarrow> string \<Rightarrow> lifecycle_event list \<Rightarrow> bool" where
  "records_ok sid digest events \<longleftrightarrow>
     (\<forall>r. RecordWritten r \<in> set events \<longrightarrow> validate r = Inr () \<and> rc_session_id r = sid \<and> rc_plan_digest r = digest)"

definition no_child :: "lifecycle_event list \<Rightarrow> bool" where
  "no_child events \<longleftrightarrow> (\<forall>effects. ChildRun effects \<notin> set events)"

lemma records_ok_simps [simp]:
  "records_ok sid digest []" "records_ok sid digest (ChildRun e # events) = records_ok sid digest events"
  "records_ok sid digest (xs @ ys) = (records_ok sid digest xs \<and> records_ok sid digest ys)"
  "records_ok sid digest (RecordWritten r # events) =
     (validate r = Inr () \<and> rc_session_id r = sid \<and> rc_plan_digest r = digest \<and> records_ok sid digest events)"
  by (auto simp: records_ok_def)

lemma no_child_simps [simp]:
  "no_child []" "no_child (RecordWritten r # events) = no_child events" "\<not> no_child (ChildRun e # events)"
  "no_child (xs @ ys) = (no_child xs \<and> no_child ys)"
  by (auto simp: no_child_def)

lemma write_valid:
  assumes "(st', Inr ()) \<in> {write_pending fault st r lock, write_final fault st r lock, write_terminal_unlocked fault st r}"
  shows "validate r = Inr ()"
  using write_success [OF assms] by (auto simp: validate_for_write_def result_simps)

lemma write_final_valid: "write_final fault st r lock = (st', Inr ()) \<Longrightarrow> validate r = Inr ()"
  by (rule write_valid [of st' fault st r lock]) simp

lemma then_written_cases:
  assumes "then_written w written r events con rest = Some (resp, st', events', con')"
  obtains (failed) e where "snd written = Inl e" "events' = events" "con' = con"
  | (written) st1 where "written = (st1, Inr ())" "rest st1 (events @ [RecordWritten r]) = Some (resp, st', events', con')"
  using assms by (auto simp: then_written_def split: prod.splits sum.splits)

lemma terminal_response_events:
  assumes "terminal_response w home st r resp con = (resp', st', events, con')"
    and "rc_session_id r = sid" "rc_plan_digest r = digest"
  shows "records_ok sid digest events \<and> no_child events \<and> length events \<le> 1 \<and> con' = con"
proof -
  have "validate r = Inr ()" if "persist_terminal w home st r = (st1, Inr u)" for st1 u
    using that write_valid [of st1 "lw_faults w 0" st r]
    by (auto simp: persist_terminal_def map_prod_def map_err_def split: sum.splits prod.splits)
  then show ?thesis
    using assms by (auto simp: terminal_response_def split: prod.splits sum.splits)
qed

lemma conclude_events:
  assumes "conclude w success a lock pending report extra con st events = Some (resp, st', events', con')"
    and "rc_session_id pending = sid" "rc_plan_digest pending = digest"
  shows "con' = con \<and> (\<exists>more. events' = events @ more \<and> records_ok sid digest more \<and> no_child more)"
proof -
  have "events' = events \<and> con' = con \<or>
    (\<exists>r. events' = events @ [RecordWritten r] \<and> con' = con \<and> validate r = Inr () \<and>
       rc_session_id r = rc_session_id pending \<and> rc_plan_digest r = rc_plan_digest pending)"
    using assms(1) unfolding conclude_def Let_def
    by (auto split: if_splits elim!: then_written_cases dest!: write_final_valid) 
      (auto simp: unavailable_record_def final_record_def)
  then show ?thesis using assms(2,3) by auto
qed

lemma execute_and_record_events:
  assumes "execute_and_record executor w request success a home ctx ctx_diag extra st con = Some (resp, st', events, con')"
    and "res_session_id (sp_resolved (ap_plan a)) = sid"
  shows "records_ok sid (sp_plan_digest (ap_plan a)) events \<and>
    (no_child events \<and> length events \<le> 1 \<and> con' = con \<or>
     (\<exists>pending report effects more options. events = [RecordWritten pending, ChildRun effects] @ more \<and> is_pending pending \<and>
        executor a options con = Some (report, effects, con') \<and> no_child more))"
proof -
  define pending where "pending = (base_record_from_authorized (lw_clock w 0) (lw_clock w 1) a (verb_str (rr_verb request))
    True ''pending'' True ctx ctx_diag)\<lparr>rc_ended_at := None\<rparr>"
  let ?digest = "sp_plan_digest (ap_plan a)"
  have p: "rc_session_id pending = sid" "rc_plan_digest pending = ?digest" "is_pending pending"
    using assms(2) by (simp_all add: pending_def base_record_from_authorized_def Let_def is_pending_def)
  show ?thesis
  proof (cases "lw_open_store w home")
    case (Inl e)
    then show ?thesis using assms(1) by (auto simp: execute_and_record_def)
  next
    case opened: (Inr u)
    show ?thesis
    proof (cases "acquire_lock st (rr_session_id request)")
      case (Inl e)
      then show ?thesis using assms(1) opened by (auto simp: execute_and_record_def)
    next
      case (Inr lock)
      let ?options = "lifecycle_options w (pin_profile (rs_policy_input success))"
      have run: "then_written w (write_pending (lw_faults w 0) st pending lock) pending [] con (\<lambda>st1 events.
          case executor a ?options con of None \<Rightarrow> None
          | Some (report, effects, con') \<Rightarrow>
              record_start w lock pending report con' st1 (events @ [ChildRun effects]) (\<lambda>pending st2 events.
                conclude w success a lock pending report extra con' st2 events)) = Some (resp, st', events, con')"
        using assms(1) opened Inr unfolding execute_and_record_def Let_def pending_def by simp
      show ?thesis
      proof (cases rule: then_written_cases [OF run])
        case (1 e)
        then show ?thesis by simp
      next
        case (2 st1)
        then have valid: "validate pending = Inr ()" using write_valid [of st1 "lw_faults w 0" st pending lock] by simp
        obtain report effects con1 where exec: "executor a ?options con = Some (report, effects, con1)"
          and rest: "record_start w lock pending report con1 st1 ([RecordWritten pending] @ [ChildRun effects])
            (\<lambda>pending st2 events. conclude w success a lock pending report extra con1 st2 events) =
            Some (resp, st', events, con')"
          using 2(2) by (auto split: option.splits)
        have "con' = con1 \<and> (\<exists>more. events = ([RecordWritten pending] @ [ChildRun effects]) @ more \<and>
            records_ok sid ?digest more \<and> no_child more)"
        proof (cases "er_spawned report \<and> er_pid report \<noteq> None")
          case False
          then have "conclude w success a lock pending report extra con1 st1 ([RecordWritten pending] @ [ChildRun effects]) =
              Some (resp, st', events, con')"
            using rest by (auto simp: record_start_def split: option.splits bool.splits)
          from conclude_events [OF this p(1,2)] show ?thesis by simp
        next
          case True
          then obtain pid where pid: "er_spawned report" "er_pid report = Some pid" by auto
          let ?r = "started_record pending pid"
          have r: "rc_session_id ?r = sid" "rc_plan_digest ?r = ?digest" using p by (simp_all add: started_record_def)
          have started: "then_written w (write_final (lw_faults w 1) st1 ?r lock) ?r ([RecordWritten pending] @ [ChildRun effects]) con1
              (\<lambda>st2 events. conclude w success a lock ?r report extra con1 st2 events) = Some (resp, st', events, con')"
            using rest pid by (simp add: record_start_def Let_def)
          show ?thesis
          proof (cases rule: then_written_cases [OF started])
            case (1 e)
            then show ?thesis by simp
          next
            case (2 st2)
            then have v: "validate ?r = Inr ()" using write_valid [of st2 "lw_faults w 1" st1 ?r lock] by simp
            from conclude_events [OF 2(2) r] show ?thesis using v r by fastforce
          qed
        qed
        then show ?thesis using exec valid p by auto
      qed
    qed
  qed
qed

text \<open>
  C10: nothing runs before it is authorised and recorded. Whatever the disk, the clock and the operating
  system do, a command that returns ran at most one child process, and only after the policy authorised the
  resolved plan, the command is direct and asked to be executed, and a valid pending record with the digest of
  that plan was written; a child that was started is the authorised program in its directory with its
  arguments. Every record that was written satisfies the contract and belongs to the session of the command.
  Without a child the terminal is untouched and at most one record was written.
\<close>

theorem lifecycle_runs_only_authorized:
  assumes "run_lifecycle_with_executor (executor_execute m) w request st con = Some (resp, st', events, con')"
    and "rr_session_id request \<noteq> []"
  shows "(\<forall>r. RecordWritten r \<in> set events \<longrightarrow> validate r = Inr () \<and> rc_session_id r = rr_session_id request) \<and>
    ((\<forall>effects. ChildRun effects \<notin> set events) \<and> length events \<le> 1 \<and> con' = con \<or>
     (\<exists>s a pending effects more. resolve (lw_to_value w) (lw_inputs w) request = Inr s \<and>
        evaluate_policy (lw_policy_env w) (rs_policy_input s) = Authorized a \<and> ap_plan a = rs_plan s \<and>
        res_execution_class (sp_resolved (rs_plan s)) = Direct \<and> rr_execute_requested request \<and>
        events = [RecordWritten pending, ChildRun effects] @ more \<and> (\<forall>effects. ChildRun effects \<notin> set more) \<and>
        is_pending pending \<and> rc_plan_digest pending = sp_plan_digest (rs_plan s) \<and>
        (effects = [] \<or>
         (\<exists>pairs later. effects = Spawned (sp_executable_path (rs_plan s)) (sp_cwd_path (rs_plan s))
            (res_argv (sp_resolved (rs_plan s))) pairs # later))))"
proof -
  let ?sid = "rr_session_id request"
  obtain ctx ctx_diag where c: "collect_runtime_context (lw_context_env w) = (ctx, ctx_diag)" by fastforce
  note run = assms(1) [unfolded run_lifecycle_with_executor_def Let_def c prod.case]
  show ?thesis
  proof (cases "resolve (lw_to_value w) (lw_inputs w) request")
    case (Inl e)
    then show ?thesis using run by auto
  next
    case s: (Inr s)
    note f = resolve_fields [OF s assms(2)]
    show ?thesis
    proof (cases "evaluate_policy (lw_policy_env w) (rs_policy_input s)")
      case (ContractFailure e)
      then show ?thesis using run s by auto
    next
      case (Rejected rejected)
      have plan: "rj_plan rejected = rs_plan s" using rejected_plan [OF Rejected] f(5) by simp
      have same: "rc_session_id (base_record_from_rejected b e rejected v x k ctx) = ?sid"
        "rc_plan_digest (base_record_from_rejected b e rejected v x k ctx) = sp_plan_digest (rs_plan s)" for b e v x k
        using f(1) by (simp_all add: base_record_from_rejected_def Let_def plan)
      have "rejected_response w request s rejected (state_home_for w (pin_profile (rs_policy_input s))) ctx
          (option_list ctx_diag) st con = (resp, st', events, con')"
        using run s Rejected by simp
      then have "(events = [] \<and> con' = con) \<or> (\<exists>r resp'. terminal_response w (state_home_for w (pin_profile (rs_policy_input s))) st r resp' con =
          (resp, st', events, con') \<and> rc_session_id r = ?sid \<and> rc_plan_digest r = sp_plan_digest (rs_plan s))"
        unfolding rejected_response_def Let_def using same by (cases "rj_decision rejected") (simp_all, blast+)
      then have "records_ok ?sid (sp_plan_digest (rs_plan s)) events \<and> no_child events \<and> length events \<le> 1 \<and> con' = con"
        using terminal_response_events by fastforce
      then show ?thesis by (auto simp: records_ok_def no_child_def)
    next
      case (Authorized a)
      have plan: "ap_plan a = rs_plan s" using authorized_fields(1) [OF Authorized] f(5) by simp
      have resp: "authorized_response (executor_execute m) w request s a (state_home_for w (pin_profile (rs_policy_input s)))
          ctx ctx_diag (option_list ctx_diag) st con = Some (resp, st', events, con')"
        using run s Authorized by simp
      show ?thesis
      proof (cases "res_execution_class (sp_resolved (rs_plan s)) = Direct \<and> rr_execute_requested request")
        case False
        have same: "rc_session_id (base_record_from_authorized b e a v x k i ctx d) = ?sid"
          "rc_plan_digest (base_record_from_authorized b e a v x k i ctx d) = sp_plan_digest (rs_plan s)" for b e v x k i d
          using f(1) by (simp_all add: base_record_from_authorized_def Let_def plan)
        have "\<exists>r resp'. terminal_response w (state_home_for w (pin_profile (rs_policy_input s))) st r resp' con =
            (resp, st', events, con') \<and> rc_session_id r = ?sid \<and> rc_plan_digest r = sp_plan_digest (rs_plan s)"
          using resp False unfolding authorized_response_def Let_def
          by (cases "res_execution_class (sp_resolved (rs_plan s)) = Direct") (simp, use same in blast)+
        then have "records_ok ?sid (sp_plan_digest (rs_plan s)) events \<and> no_child events \<and> length events \<le> 1 \<and> con' = con"
          using terminal_response_events by blast
        then show ?thesis by (auto simp: records_ok_def no_child_def)
      next
        case True
        then have "execute_and_record (executor_execute m) w request s a (state_home_for w (pin_profile (rs_policy_input s)))
            ctx ctx_diag (option_list ctx_diag) st con = Some (resp, st', events, con')"
          using resp by (simp add: authorized_response_def Let_def)
        from execute_and_record_events [OF this, of ?sid] have ev: "records_ok ?sid (sp_plan_digest (rs_plan s)) events"
          and cases: "no_child events \<and> length events \<le> 1 \<and> con' = con \<or>
            (\<exists>pending report effects more options. events = [RecordWritten pending, ChildRun effects] @ more \<and>
               is_pending pending \<and> executor_execute m a options con = Some (report, effects, con') \<and> no_child more)"
          using f(1) plan by auto
        from cases show ?thesis
        proof (elim disjE exE conjE)
          fix pending report effects more options
          assume e: "events = [RecordWritten pending, ChildRun effects] @ more" "is_pending pending" "no_child more"
            "executor_execute m a options con = Some (report, effects, con')"
          have "rc_plan_digest pending = sp_plan_digest (rs_plan s)" using ev e(1) by simp
          moreover have "effects = [] \<or>
              (\<exists>pairs later. effects = Spawned (sp_executable_path (rs_plan s)) (sp_cwd_path (rs_plan s))
                (res_argv (sp_resolved (rs_plan s))) pairs # later)"
            using tokio.idle_or_starts [OF e(4)] by (auto simp: starts_plan_def plan)
          moreover have "\<forall>r. RecordWritten r \<in> set events \<longrightarrow> validate r = Inr () \<and> rc_session_id r = ?sid"
            "\<forall>effects. ChildRun effects \<notin> set more"
            using ev e(3) unfolding records_ok_def no_child_def by blast+
          ultimately show ?thesis using True s Authorized plan e(1,2) by blast
        qed (use ev in \<open>unfold records_ok_def no_child_def, blast\<close>)
      qed
    qed
  qed
qed

section \<open>A command returns\<close>

lemma spawn_and_reap_returns:
  assumes "all_ready (mc_select w)"
  shows "spawn_and_reap w exe cwd argv env options lifecycle con \<noteq> None"
proof -
  have no: "run_capturing guard out err (mc_select w) = None \<Longrightarrow> False" for guard out err
    using run_capturing_spec [where guard = guard and out = out and err = err and evs = "mc_select w"] assms
    by (cases "run_capturing guard out err (mc_select w)") auto
  show ?thesis
    by (auto simp: spawn_and_reap_def Let_def split: sum.splits option.splits prod.splits dest: no)
qed

lemma executor_execute_returns: "all_ready (mc_select w) \<Longrightarrow> executor_execute w a options con \<noteq> None"
  using spawn_and_reap_returns by (auto simp: executor_execute_def execute_inner_def Let_def split: sum.splits)

lemma then_written_returns:
  "(\<And>st' events'. rest st' events' \<noteq> None) \<Longrightarrow> then_written w written r events con rest \<noteq> None"
  by (auto simp: then_written_def split: prod.splits sum.splits)

lemma record_start_returns:
  "(\<And>pending st' events'. rest pending st' events' \<noteq> None) \<Longrightarrow> record_start w lock pending report con st events rest \<noteq> None"
  using then_written_returns by (auto simp: record_start_def Let_def split: bool.splits option.splits)

lemma conclude_returns: "conclude w success a lock pending report extra con st events \<noteq> None"
  unfolding conclude_def Let_def by (cases "stands_in report") (simp_all add: then_written_returns del: not_None_eq)

lemma execute_and_record_returns:
  assumes "\<And>a options con. executor a options con \<noteq> None"
  shows "execute_and_record executor w request success a home ctx ctx_diag extra st con \<noteq> None"
proof -
  have "(case executor a options con of None \<Rightarrow> None
      | Some (report, effects, con') \<Rightarrow>
          record_start w lock pending report con' st1 (events @ [ChildRun effects]) (\<lambda>pending st2 events.
            conclude w success a lock pending report extra con' st2 events)) \<noteq> None" for options con lock pending st1 events
    using assms [of a options con] record_start_returns [OF conclude_returns] by (auto split: option.splits prod.splits)
  then have "then_written w written pending events con (\<lambda>st1 events. case executor a options con of None \<Rightarrow> None
      | Some (report, effects, con') \<Rightarrow>
          record_start w lock pending report con' st1 (events @ [ChildRun effects]) (\<lambda>pending st2 events.
            conclude w success a lock pending report extra con' st2 events)) \<noteq> None" for written pending events con options lock
    by (intro then_written_returns) blast
  then show ?thesis
    unfolding execute_and_record_def Let_def
    by (cases "lw_open_store w home"; cases "acquire_lock st (rr_session_id request)") (simp_all del: not_None_eq One_nat_def)
qed

lemma coordinator_returns:
  assumes "\<And>a options con. executor a options con \<noteq> None"
  shows "run_lifecycle_with_executor executor w request st con \<noteq> None"
  using execute_and_record_returns [where executor = executor, OF assms]
  unfolding run_lifecycle_with_executor_def authorized_response_def Let_def
  by (auto simp del: not_None_eq split: prod.splits sum.splits policy_evaluation_result.splits)


section \<open>Examples\<close>

text \<open>
  A resolution whose profile allows the request and the child, with no policy selected; a machine with its
  workspace; and a working disk. The digest of the rules drops the separator and nothing else.
\<close>

definition allowed_resolver_inputs :: resolver_inputs where
  "allowed_resolver_inputs = sample_resolver_inputs
     \<lparr>ri_env := sample_registry_env
        \<lparr>rv_profiles := (\<lambda>_. Inr \<lparr>pd_generated_at = ''t'', pd_profiles = [sample_profile [''takogami build'', ''moon run'']]\<rparr>),
         rv_policies := (\<lambda>_. Inr \<lparr>pol_generated_at = ''t'', pol_policies = []\<rparr>)\<rparr>,
      ri_digest := \<lparr>de_sha256_hex = (\<lambda>_. replicate 64 (CHR ''a'')), de_to_json = (\<lambda>_. '''')\<rparr>\<rparr>"

definition allowed_request :: resolution_request where
  "allowed_request = (sample_request Build)\<lparr>rr_session_id := ''tkg_1'', rr_explicit_profile := Some ''dev''\<rparr>"

definition resolved_env :: policy_env where
  "resolved_env = sample_env\<lparr>env_sha256_hex := filter (\<lambda>c. c \<noteq> CHR '':''),
     env_fs := fsys.truncate (ri_fs allowed_resolver_inputs)\<rparr>"

definition ws_machine :: machine where
  "ws_machine = quiet_machine
     \<lparr>mc_fs := (\<lambda>_. tool_fs\<lparr>metadata := (\<lambda>p. Inr (if p = components ''/ws/app'' then Directory else RegularFile))\<rparr>),
      mc_getenv := (\<lambda>_. VarPresent ''1'')\<rparr>"

definition broken_machine :: "string \<Rightarrow> machine" where
  "broken_machine message = ws_machine\<lparr>mc_spawn := (\<lambda>_ _ _ _. Inl message)\<rparr>"

definition sample_world :: lifecycle_world where
  "sample_world =
     \<lparr>lw_inputs = allowed_resolver_inputs, lw_to_value = (\<lambda>_. None), lw_policy_env = resolved_env,
      lw_home = \<lparr>sh_cli_state_home = None, sh_env_takogami_state_home = None, sh_profile_session_state_home = None,
        sh_env_xdg_state_home = None, sh_home_dir = Some (components ''/h'')\<rparr>,
      lw_ensure_home = (\<lambda>_. Inr ()), lw_open_store = (\<lambda>_. Inr ()), lw_faults = (\<lambda>_. None),
      lw_clock = (\<lambda>_. 1784624400),
      lw_context_env = \<lparr>env_herdr_workspace_id = None, env_herdr_tab_id = None, env_herdr_pane_id = None,
        env_tmux = None, env_tmux_pane = None\<rparr>,
      lw_reason_text = (\<lambda>_. ''''), lw_io_text = (\<lambda>_. ''''), lw_debug_provider = (\<lambda>_. ''''), lw_json = True\<rparr>"

lemma sample_runs:
  "\<exists>s a. resolve (\<lambda>_. None) allowed_resolver_inputs allowed_request = Inr s \<and>
     is_valid_plan_digest (sp_plan_digest (rs_plan s)) \<and> res_execution_class (sp_resolved (rs_plan s)) = Direct \<and>
     evaluate_policy resolved_env (rs_policy_input s) = Authorized a \<and>
     (\<forall>n x message.
        (\<exists>report effects con'. executor_execute ws_machine a \<lparr>eo_mode = JsonMode, eo_capture_limit = n, eo_rtk_projected = x\<rparr>
             fresh_console = Some (report, effects, con') \<and>
           er_spawned report \<and> er_pid report \<noteq> None \<and> er_diagnostics report = [] \<and>
           er_outcome report = ''completed'' \<and> er_exit_code report = Some 0) \<and>
        (\<exists>report effects con'. executor_execute (broken_machine message) a
             \<lparr>eo_mode = JsonMode, eo_capture_limit = n, eo_rtk_projected = x\<rparr> fresh_console = Some (report, effects, con') \<and>
           \<not> er_spawned report \<and>
           map diag_message (er_diagnostics report) = [''failed to spawn authorized child: '' @ message]))"
proof -
  let ?options = "\<lambda>n x. \<lparr>eo_mode = JsonMode, eo_capture_limit = n, eo_rtk_projected = x\<rparr>"
  have run: "(case resolve (\<lambda>_. None) allowed_resolver_inputs allowed_request of Inl _ \<Rightarrow> False | Inr s \<Rightarrow>
      is_valid_plan_digest (sp_plan_digest (rs_plan s)) \<and> res_execution_class (sp_resolved (rs_plan s)) = Direct \<and>
      (case evaluate_policy resolved_env (rs_policy_input s) of
         Authorized a \<Rightarrow>
           (case executor_execute ws_machine a (?options n x) fresh_console of
              Some (report, effects, con') \<Rightarrow> er_spawned report \<and> er_pid report \<noteq> None \<and> er_diagnostics report = [] \<and>
           er_outcome report = ''completed'' \<and> er_exit_code report = Some 0
            | None \<Rightarrow> False) \<and>
           (case executor_execute (broken_machine message) a (?options n x) fresh_console of
              Some (report, effects, con') \<Rightarrow> \<not> er_spawned report \<and>
                map diag_message (er_diagnostics report) = [''failed to spawn authorized child: '' @ message]
            | None \<Rightarrow> False)
       | _ \<Rightarrow> False))" for n x message
    by code_simp
  obtain s where s: "resolve (\<lambda>_. None) allowed_resolver_inputs allowed_request = Inr s"
    using run [of 0 None "[]"] by (cases "resolve (\<lambda>_. None) allowed_resolver_inputs allowed_request") simp_all
  obtain a where a: "evaluate_policy resolved_env (rs_policy_input s) = Authorized a"
    using run [of 0 None "[]"] unfolding s
    by (cases "evaluate_policy resolved_env (rs_policy_input s)") simp_all
  note each = run [unfolded s sum.case a policy_evaluation_result.case]
  have "(\<exists>report effects con'. executor_execute ws_machine a (?options n x) fresh_console = Some (report, effects, con') \<and>
           er_spawned report \<and> er_pid report \<noteq> None \<and> er_diagnostics report = [] \<and>
           er_outcome report = ''completed'' \<and> er_exit_code report = Some 0) \<and>
        (\<exists>report effects con'. executor_execute (broken_machine message) a (?options n x) fresh_console = Some (report, effects, con') \<and>
           \<not> er_spawned report \<and>
           map diag_message (er_diagnostics report) = [''failed to spawn authorized child: '' @ message])" for n x message
    using each [of n x message] by (simp split: option.splits prod.splits)
  then show ?thesis using s a each [of 0 None "[]"] by blast
qed

lemma sample_disk: "quiet_disk sample_world (unary_store Map.empty) sid home" and sample_clock: "steady_clock sample_world"
  by (simp_all add: quiet_disk_def steady_clock_def sample_world_def unary_store_def codec_ok_def)

lemma sample_options:
  "\<exists>x. lifecycle_options sample_world profile = \<lparr>eo_mode = JsonMode, eo_capture_limit = DEFAULT_CAPTURE_LIMIT, eo_rtk_projected = x\<rparr>"
  by (simp add: lifecycle_options_def) (simp add: sample_world_def)

lemma sample_world_parts:
  "lw_to_value sample_world = (\<lambda>_. None)" "lw_inputs sample_world = allowed_resolver_inputs"
  "lw_policy_env sample_world = resolved_env"
  by (simp_all add: sample_world_def)

lemma allowed_request_parts:
  "rr_session_id allowed_request = ''tkg_1''" "rr_execute_requested allowed_request"
  "validate_session_id (rr_session_id allowed_request) = Inr ()"
  by code_simp+

theorem lifecycle_run_recorded_witness:
  "\<exists>r st' resp events con'. run_lifecycle_with_executor (executor_execute ws_machine) sample_world allowed_request
       (unary_store Map.empty) fresh_console = Some (resp, st', events, con') \<and>
     stored st' ''tkg_1'' = Some r \<and> ex_started (rc_execution r)"
proof -
  obtain s a where s: "resolve (\<lambda>_. None) allowed_resolver_inputs allowed_request = Inr s"
    "is_valid_plan_digest (sp_plan_digest (rs_plan s))" "res_execution_class (sp_resolved (rs_plan s)) = Direct"
    "evaluate_policy resolved_env (rs_policy_input s) = Authorized a"
    and runs: "\<And>n x. \<exists>report effects con'. executor_execute ws_machine a
      \<lparr>eo_mode = JsonMode, eo_capture_limit = n, eo_rtk_projected = x\<rparr> fresh_console = Some (report, effects, con') \<and>
      er_spawned report \<and> er_pid report \<noteq> None \<and> er_diagnostics report = []"
    using sample_runs by metis
  let ?profile = "pin_profile (rs_policy_input s)"
  obtain x where x: "lifecycle_options sample_world ?profile =
      \<lparr>eo_mode = JsonMode, eo_capture_limit = DEFAULT_CAPTURE_LIMIT, eo_rtk_projected = x\<rparr>"
    using sample_options by blast
  obtain report effects con' where run: "executor_execute ws_machine a (lifecycle_options sample_world ?profile) fresh_console =
      Some (report, effects, con')" and shape: "er_spawned report" "er_pid report \<noteq> None" "er_diagnostics report = []"
    using runs [of DEFAULT_CAPTURE_LIMIT x] unfolding x by blast
  have "rr_session_id allowed_request \<noteq> []" by (simp add: allowed_request_parts)
  from lifecycle_run_recorded [where w = sample_world and request = allowed_request, unfolded sample_world_parts,
      OF s(1) this allowed_request_parts(3) s(2,4,3) allowed_request_parts(2) sample_disk sample_clock run]
  show ?thesis using shape by (fastforce simp: allowed_request_parts(1))
qed

theorem oversized_diagnostic_strands_record_witness:
  "\<exists>r st' resp events con'.
     run_lifecycle_with_executor (executor_execute (broken_machine (replicate 4096 (CHR ''x'')))) sample_world allowed_request
       (unary_store Map.empty) fresh_console = Some (resp, st', events, con') \<and>
     stored st' ''tkg_1'' = Some r \<and> is_pending r"
proof -
  define message :: string where "message = replicate 4096 (CHR ''x'')"
  let ?m = "broken_machine message"
  obtain s a where s: "resolve (\<lambda>_. None) allowed_resolver_inputs allowed_request = Inr s"
    "is_valid_plan_digest (sp_plan_digest (rs_plan s))" "res_execution_class (sp_resolved (rs_plan s)) = Direct"
    "evaluate_policy resolved_env (rs_policy_input s) = Authorized a"
    and runs: "\<And>n x message. \<exists>report effects con'. executor_execute (broken_machine message) a
      \<lparr>eo_mode = JsonMode, eo_capture_limit = n, eo_rtk_projected = x\<rparr> fresh_console = Some (report, effects, con') \<and>
      \<not> er_spawned report \<and> map diag_message (er_diagnostics report) = [''failed to spawn authorized child: '' @ message]"
    using sample_runs by blast
  let ?profile = "pin_profile (rs_policy_input s)"
  obtain x where x: "lifecycle_options sample_world ?profile =
      \<lparr>eo_mode = JsonMode, eo_capture_limit = DEFAULT_CAPTURE_LIMIT, eo_rtk_projected = x\<rparr>"
    using sample_options by blast
  obtain report effects con' where run: "executor_execute ?m a (lifecycle_options sample_world ?profile) fresh_console =
      Some (report, effects, con')" and shape: "\<not> er_spawned report"
    "map diag_message (er_diagnostics report) = [''failed to spawn authorized child: '' @ message]"
    using runs [of message DEFAULT_CAPTURE_LIMIT x, folded x] by (elim exE conjE) (rule that)
  have d: "er_diagnostics report \<noteq> []" "length (diag_message (hd (er_diagnostics report))) > 4096"
    using shape(2) by (auto simp: message_def)
  have "rr_session_id allowed_request \<noteq> []" by (simp add: allowed_request_parts)
  from oversized_diagnostic_strands_record [where w = sample_world and request = allowed_request, unfolded sample_world_parts,
      OF s(1) this allowed_request_parts(3) s(2,4,3) allowed_request_parts(2) sample_disk sample_clock run _ d]
  show ?thesis using shape(1) unfolding message_def [symmetric] by (fastforce simp: allowed_request_parts(1))
qed

lemma ws_ready: "all_ready (mc_select ws_machine)"
  by (simp add: ws_machine_def quiet_machine_def all_ready_def wait_results_def List.map_filter_def)


theorem lifecycle_runs_only_authorized_witness:
  "\<exists>resp st' events con'. run_lifecycle_with_executor (executor_execute ws_machine) sample_world allowed_request
       (unary_store Map.empty) fresh_console = Some (resp, st', events, con') \<and>
     (\<forall>r. RecordWritten r \<in> set events \<longrightarrow> validate r = Inr () \<and> rc_session_id r = ''tkg_1'')"
proof -
  have "run_lifecycle_with_executor (executor_execute ws_machine) sample_world allowed_request
      (unary_store Map.empty) fresh_console \<noteq> None"
    by (rule coordinator_returns) (rule executor_execute_returns [OF ws_ready])
  then obtain resp st' events con' where run: "run_lifecycle_with_executor (executor_execute ws_machine) sample_world
      allowed_request (unary_store Map.empty) fresh_console = Some (resp, st', events, con')" by auto
  have "rr_session_id allowed_request \<noteq> []" by (simp add: allowed_request_parts)
  from lifecycle_runs_only_authorized [OF run this] run show ?thesis by (auto simp: allowed_request_parts(1))
qed

end
