(* ===== verification/Bin_Dispatch.thy ===== *)
theory Bin_Dispatch
  imports Lifecycle_Recording Projection_Policy
begin

text \<open>
  The coordination of a bin command (\<open>run_bin\<close> of \<open>commands.rs\<close>): select the profile and the policies, seal
  the projection, evaluate the policy, and for an authorised projection write the pending record, run the
  child, validate the document it printed, and write what happened. The writes, the clock and the store are
  those of the lifecycle commands.
\<close>

section \<open>The command\<close>

datatype bin_command = BinReportCommand | BinCleanupCommand bin_cleanup_mode "string option"

fun bin_operation :: "bin_command \<Rightarrow> projection_operation \<times> string option" where
  "bin_operation BinReportCommand = (BinReport, None)"
| "bin_operation (BinCleanupCommand mode scope) =
     (case mode of
        ReportOnly \<Rightarrow> BinCleanupReportOnly
      | DryRun \<Rightarrow> BinCleanupDryRun
      | Archive \<Rightarrow> BinCleanupArchive
      | DeleteApproved \<Rightarrow> BinCleanupDeleteApproved, scope)"

definition bin_scope :: "string option \<Rightarrow> (controller_error, validated_bin_scope option) result" where
  "bin_scope raw_scope =
     (case raw_scope of
        None \<Rightarrow> Inr None
      | Some raw \<Rightarrow>
          (case parse_bin_scope raw of
             Inr s \<Rightarrow> Inr (Some s)
           | Inl e \<Rightarrow> Inl (UsageError (scope_error_message e @ '' ('' @ scope_error_code e @ '')'') None)))"

text \<open>
  \<open>bw_debug_code\<close> is the debug text of a resolution error, \<open>bw_seal_fs\<close> the file system the projection is
  sealed in, \<open>bw_payload_fs\<close> the one that is read when the document of the child is validated.
\<close>

record bin_world =
  bw_life :: lifecycle_world
  bw_explicit_profile :: "string option"
  bw_debug_code :: "resolution_code \<Rightarrow> string"
  bw_to_json :: "projection_payload \<Rightarrow> string"
  bw_seal_fs :: sfsys
  bw_payload_fs :: sfsys
  bw_reader :: payload_reader

section \<open>Before the policy\<close>

definition bin_select :: "bin_world \<Rightarrow> (controller_error, selected_profile) result" where
  "bin_select w =
     (let inp = lw_inputs (bw_life w); env = ri_env inp; fs = ri_fs inp; paths = ri_paths inp in
      rbind (map_err (\<lambda>e. ContractError (''profile registry unavailable: '' @ error_display e)) (load_profiles env fs paths)) (\<lambda>profiles.
      rbind (map_err (\<lambda>e. ContractError (''profile selection failed: '' @ bw_debug_code w e))
               (select_profile profiles (bw_explicit_profile w) (ri_env_profile inp))) (\<lambda>profile.
      rbind (map_err (\<lambda>e. ContractError (''policy registry unavailable: '' @ error_display e)) (load_policies env fs paths)) (\<lambda>policies_doc.
        map_err (\<lambda>e. ContractError (''policy selection failed: '' @ bw_debug_code w e)) (collect_bin_policy_refs policies_doc profile)))))"

definition bin_seal ::
  "bin_world \<Rightarrow> projection_operation \<Rightarrow> validated_bin_scope option \<Rightarrow> selected_profile \<Rightarrow>
   (controller_error, projection_evaluation_input) result" where
  "bin_seal w op scope selected =
     (let inp = lw_inputs (bw_life w); env = ri_env inp; paths = ri_paths inp in
      rbind (map_err (\<lambda>e. ContractError (''cannot canonicalize policy root: '' @ rv_io_text env e))
               (canonicalize (ri_fs inp) (rp_workspace_root paths))) (\<lambda>policy_root.
      rbind (map_err (\<lambda>e. ExecutionIo (seal_error_message e) (seal_error_code e))
               (seal_projection env (bw_to_json w) (bw_seal_fs w) op (rp_registry_root paths) (rp_workspace_root paths) scope
                 (ri_next_id inp) (pf_id (sel_profile selected)) (sel_policy_ids selected))) (\<lambda>sealed.
        Inr \<lparr>pj_plan = sealed, pj_profile = sel_profile selected, pj_policies = sel_policies selected,
             pj_policy_origins = sel_policy_origins selected, pj_policy_root = policy_root\<rparr>)))"

section \<open>Records\<close>

definition projection_terminal_record ::
  "int \<Rightarrow> int \<Rightarrow> sealed_projection_plan \<Rightarrow> policy_decision \<Rightarrow> string \<Rightarrow> bool \<Rightarrow> nat option \<Rightarrow> nat option \<Rightarrow> string option \<Rightarrow>
   runtime_command_record" where
  "projection_terminal_record began ended plan decision kind began_child pid code signal =
     \<lparr>rc_schema_version = SCHEMA_VERSION, rc_record_kind = RECORD_KIND_COMMAND_EXECUTION,
      rc_session_id = pp_session_id plan, rc_plan_digest = pp_plan_digest plan,
      rc_parent_session_id = None, rc_work_session_id = None, rc_runtime_context = None,
      rc_started_at = utc_now_rfc3339 began,
      rc_ended_at = (if kind \<noteq> ''pending'' then Some (utc_now_rfc3339 ended) else None),
      rc_actor = ''agent'', rc_profile_id = pp_profile_id plan, rc_request = pp_safe_request plan,
      rc_resolution = None, rc_policy_decision = decision,
      rc_execution = \<lparr>ex_started = began_child, ex_pid = pid, ex_exit_code = code, ex_signal = signal, ex_outcome = kind\<rparr>,
      rc_source_fingerprints = pp_source_fingerprints plan, rc_output_summary = empty_output, rc_error = None\<rparr>"

definition pid_record :: "runtime_command_record \<Rightarrow> execution_report \<Rightarrow> runtime_command_record" where
  "pid_record pending report =
     pending\<lparr>rc_execution := (rc_execution pending)\<lparr>ex_started := True, ex_pid := map_option unat (er_pid report)\<rparr>\<rparr>"

text \<open>What the coordinator makes of a report: the outcome, the exit code, the document and the error.\<close>

record bin_verdict =
  bv_outcome :: string
  bv_exit :: "8 word"
  bv_payload :: "bin_document option"
  bv_diagnostics :: "diagnostic_record list"
  bv_error :: "diagnostic_record option"

definition bin_final_record :: "runtime_command_record \<Rightarrow> execution_report \<Rightarrow> bin_verdict \<Rightarrow> int \<Rightarrow> runtime_command_record" where
  "bin_final_record pending report v ended =
     pending\<lparr>rc_execution := \<lparr>ex_started = er_spawned report, ex_pid = map_option unat (er_pid report),
         ex_exit_code = map_option unat (er_exit_code report), ex_signal = er_signal report, ex_outcome = bv_outcome v\<rparr>,
       rc_ended_at := Some (utc_now_rfc3339 ended),
       rc_output_summary := \<lparr>os_stdout_bytes = sum_total_bytes (er_stdout report),
         os_stderr_bytes = sum_total_bytes (er_stderr report),
         os_truncated = (sum_truncated (er_stdout report) \<or> sum_truncated (er_stderr report)),
         os_encoding = merge_encoding (sum_encoding (er_stdout report)) (sum_encoding (er_stderr report)),
         os_compressor = er_compressor report\<rparr>,
       rc_error := (case bv_error v of Some d \<Rightarrow> Some d
         | None \<Rightarrow> (case bv_diagnostics v of d # _ \<Rightarrow> Some d | [] \<Rightarrow> rc_error pending))\<rparr>"

section \<open>The document of the child\<close>

text \<open>No other operation reaches this point: the last case stands for the \<open>unreachable!\<close> of the code.\<close>

definition bin_document_of ::
  "bin_world \<Rightarrow> projection_operation \<Rightarrow> validated_bin_scope option \<Rightarrow> execution_report \<Rightarrow>
   (payload_error, bin_document) result option" where
  "bin_document_of w op scope report =
     (let bytes = sum_bytes (er_stdout report); truncated = sum_truncated (er_stdout report) in
      case op of
        BinReport \<Rightarrow>
          Some (map_sum id InventoryDocument
            (decode_inventory (bw_reader w) (bw_payload_fs w) bytes truncated (rp_workspace_root (ri_paths (lw_inputs (bw_life w))))))
      | BinCleanupReportOnly \<Rightarrow>
          Some (map_sum id CleanupDocument (decode_cleanup_plan (bw_reader w) bytes truncated ReportOnly scope))
      | _ \<Rightarrow> None)"

definition judge_report ::
  "bin_world \<Rightarrow> projection_operation \<Rightarrow> validated_bin_scope option \<Rightarrow> execution_report \<Rightarrow> bin_verdict option" where
  "judge_report w op scope report =
     (let plain = \<lparr>bv_outcome = er_outcome report,
            bv_exit = (case er_exit_code report of Some c \<Rightarrow> c | None \<Rightarrow> EXECUTION_IO),
            bv_payload = None, bv_diagnostics = er_diagnostics report, bv_error = None\<rparr>
      in if er_spawned report \<and> er_signal report = None \<and> er_exit_code report = Some 0 then
           (case bin_document_of w op scope report of
              None \<Rightarrow> None
            | Some (Inr doc) \<Rightarrow> Some (plain\<lparr>bv_payload := Some doc\<rparr>)
            | Some (Inl pe) \<Rightarrow>
                (let d = \<lparr>diag_code = payload_error_code pe, diag_message = payload_error_message pe\<rparr>
                 in Some (plain\<lparr>bv_outcome := ''controller_error'', bv_exit := CONTRACT,
                      bv_diagnostics := er_diagnostics report @ [d], bv_error := Some d\<rparr>)))
         else if er_spawned report \<and> er_exit_code report \<noteq> Some 0 then
           Some (plain\<lparr>bv_exit := (case er_exit_code report of Some c \<Rightarrow> c | None \<Rightarrow> 1)\<rparr>)
         else if \<not> er_spawned report then Some (plain\<lparr>bv_exit := EXECUTION_IO\<rparr>)
         else Some plain)"

section \<open>Execution\<close>

type_synonym projection_executor =
  "authorized_projection_plan \<Rightarrow> execution_options \<Rightarrow> console \<Rightarrow> (execution_report \<times> child_effect list \<times> console) option"

definition default_options :: execution_options where
  "default_options = \<lparr>eo_mode = JsonMode, eo_capture_limit = DEFAULT_CAPTURE_LIMIT, eo_rtk_projected = None\<rparr>"

definition bin_allow_envelope ::
  "projection_operation \<Rightarrow> authorized_projection_plan \<Rightarrow> execution_report \<Rightarrow> bin_verdict \<Rightarrow> bin_envelope" where
  "bin_allow_envelope op a report v =
     \<lparr>be_command = request_command_name op, be_session_id = pp_session_id (aj_plan a),
      be_status = (if bv_exit v = 0 then ''ok'' else ''error''), be_exit_code = bv_exit v,
      be_policy_decision = aj_policy_decision a, be_plan_digest = pp_plan_digest (aj_plan a),
      be_deferred_unavailable = False,
      be_execution = Some \<lparr>ex_started = er_spawned report, ex_pid = map_option unat (er_pid report),
        ex_exit_code = map_option unat (er_exit_code report), ex_signal = er_signal report, ex_outcome = bv_outcome v\<rparr>,
      be_payload = bv_payload v, be_diagnostics = bv_diagnostics v\<rparr>"

definition bin_conclude ::
  "bin_world \<Rightarrow> projection_operation \<Rightarrow> authorized_projection_plan \<Rightarrow> session_lock \<Rightarrow> runtime_command_record \<Rightarrow>
   execution_report \<Rightarrow> console \<Rightarrow> store \<Rightarrow> lifecycle_event list \<Rightarrow> lifecycle_outcome option" where
  "bin_conclude w op a lock pending report con st events =
     (case judge_report w op (pp_safe_scope (aj_plan a)) report of
        None \<Rightarrow> None
      | Some v \<Rightarrow>
          (let life = bw_life w; r = bin_final_record pending report v (lw_clock life 2) in
           then_written life (write_final (lw_faults life 2) st r lock) r events con (\<lambda>st' events'.
             Some (EnvelopeEmitted op (pp_safe_scope (aj_plan a)) (bin_allow_envelope op a report v), st', events', con))))"

definition bin_record_start ::
  "bin_world \<Rightarrow> session_lock \<Rightarrow> runtime_command_record \<Rightarrow> execution_report \<Rightarrow> console \<Rightarrow> store \<Rightarrow> lifecycle_event list \<Rightarrow>
   (store \<Rightarrow> lifecycle_event list \<Rightarrow> lifecycle_outcome option) \<Rightarrow> lifecycle_outcome option" where
  "bin_record_start w lock pending report con st events rest =
     (if er_spawned report then
        (let life = bw_life w; r = pid_record pending report in
         then_written life (write_final (lw_faults life 1) st r lock) r events con rest)
      else rest st events)"

definition bin_authorized_response ::
  "projection_executor \<Rightarrow> bin_world \<Rightarrow> projection_operation \<Rightarrow> authorized_projection_plan \<Rightarrow> path \<Rightarrow> store \<Rightarrow> console \<Rightarrow>
   lifecycle_outcome option" where
  "bin_authorized_response executor w op a home st con =
     (let life = bw_life w; plan = aj_plan a in
      case lw_open_store life home of
        Inl e \<Rightarrow> Some (Failed (state_io life e), st, [], con)
      | Inr _ \<Rightarrow>
     (case acquire_lock st (pp_session_id plan) of
        Inl e \<Rightarrow> Some (Failed (state_io life e), st, [], con)
      | Inr lock \<Rightarrow>
          (let pending = (projection_terminal_record (lw_clock life 0) (lw_clock life 1) plan (aj_policy_decision a)
                 ''pending'' False None None None)\<lparr>rc_ended_at := None\<rparr>
           in then_written life (write_pending (lw_faults life 0) st pending lock) pending [] con (\<lambda>st1 events.
                case executor a default_options con of
                  None \<Rightarrow> None
                | Some (report, effects, con') \<Rightarrow>
                    bin_record_start w lock pending report con' st1 (events @ [ChildRun effects]) (\<lambda>st2 events.
                      bin_conclude w op a lock pending report con' st2 events)))))"

section \<open>Refusal\<close>

definition deferred_diagnostic :: diagnostic_record where
  "deferred_diagnostic =
     \<lparr>diag_code = ''deferred_unavailable'', diag_message = ''archive/delete-approved remain deferred; no child spawn''\<rparr>"

definition bin_refusal_error :: "rejected_projection_outcome \<Rightarrow> string \<Rightarrow> diagnostic_record" where
  "bin_refusal_error rejected kind =
     (if ro_deferred_unavailable rejected then deferred_diagnostic
      else \<lparr>diag_code = (if kind = ''denied'' then ''policy_deny'' else ''policy_gate''), diag_message = kind @ '' by policy''\<rparr>)"

definition bin_refusal_envelope ::
  "projection_operation \<Rightarrow> rejected_projection_outcome \<Rightarrow> 8 word \<Rightarrow> bin_envelope" where
  "bin_refusal_envelope op rejected exit =
     \<lparr>be_command = request_command_name op, be_session_id = pp_session_id (ro_plan rejected),
      be_status = (if exit = POLICY_GATE then ''gated'' else ''denied''), be_exit_code = exit,
      be_policy_decision = ro_decision rejected, be_plan_digest = pp_plan_digest (ro_plan rejected),
      be_deferred_unavailable = ro_deferred_unavailable rejected, be_execution = None, be_payload = None,
      be_diagnostics = (if ro_deferred_unavailable rejected then [deferred_diagnostic] else [])\<rparr>"

definition bin_rejected_response ::
  "bin_world \<Rightarrow> projection_operation \<Rightarrow> rejected_projection_outcome \<Rightarrow> path \<Rightarrow> store \<Rightarrow> console \<Rightarrow> lifecycle_outcome" where
  "bin_rejected_response w op rejected home st con =
     (let life = bw_life w;
          refuse = (\<lambda>kind exit.
            terminal_response life home st
              ((projection_terminal_record (lw_clock life 0) (lw_clock life 1) (ro_plan rejected) (ro_decision rejected)
                 kind False None None None)\<lparr>rc_error := Some (bin_refusal_error rejected kind)\<rparr>)
              (EnvelopeEmitted op (pp_safe_scope (ro_plan rejected)) (bin_refusal_envelope op rejected exit)) con)
      in case ro_decision rejected of
           Deny _ _ _ \<Rightarrow> refuse ''denied'' POLICY_DENY
         | Gate _ _ _ _ \<Rightarrow> refuse ''gated'' POLICY_GATE
         | Allow _ \<Rightarrow>
             (Failed (InternalError ''projection evaluator returned Allow without authorization''), st, [], con))"

section \<open>The coordinator\<close>

definition run_bin ::
  "projection_executor \<Rightarrow> bin_world \<Rightarrow> bin_command \<Rightarrow> store \<Rightarrow> console \<Rightarrow> lifecycle_outcome option" where
  "run_bin executor w sub st con =
     (let (op, raw_scope) = bin_operation sub in
      case bin_scope raw_scope of
        Inl err \<Rightarrow> Some (ErrorEmitted err None None [], st, [], con)
      | Inr scope \<Rightarrow>
     (case rbind (bin_select w) (bin_seal w op scope) of
        Inl err \<Rightarrow> Some (Failed err, st, [], con)
      | Inr input \<Rightarrow>
          (let home = state_home_for (bw_life w) (pj_profile input) in
           case evaluate_projection_policy (lw_policy_env (bw_life w)) input of
             ProjectionContract err \<Rightarrow> Some (ErrorEmitted (from_policy_contract err) None None [], st, [], con)
           | ProjectionRejected rejected \<Rightarrow> Some (bin_rejected_response w op rejected home st con)
           | ProjectionAuthorized a \<Rightarrow> bin_authorized_response executor w op a home st con)))"

end
