(* ===== verification/Bin_Recording.thy ===== *)
theory Bin_Recording
  imports Bin_Dispatch
begin

text \<open>
  What the coordination of a bin command guarantees: only a report is ever run, and only after it was
  authorised and recorded; a success always comes with a validated document; and a run is recorded as it
  ended.
\<close>

section \<open>The executor as the coordinator sees it\<close>

definition starts_sealed :: "authorized_projection_plan \<Rightarrow> child_effect list \<Rightarrow> bool" where
  "starts_sealed a effects \<longleftrightarrow>
     (\<exists>pairs later. effects = Spawned (pp_executable_path (aj_plan a)) (pp_cwd_path (aj_plan a)) (pp_argv (aj_plan a)) pairs # later)"

locale projection_executor_contract =
  fixes execute :: projection_executor
  assumes shape: "execute a options con = Some (report, effects, con') \<Longrightarrow> report_shape report"
    and starts: "execute a options con = Some (report, effects, con') \<Longrightarrow> effects \<noteq> [] \<Longrightarrow> starts_sealed a effects"
    and quiet: "execute a options con = Some (report, effects, con') \<Longrightarrow> con' = con"
begin

lemma idle_or_starts: "execute a options con = Some (report, effects, con') \<Longrightarrow> effects = [] \<or> starts_sealed a effects"
  using starts by blast

lemma clean_exit_completed:
  assumes "execute a options con = Some (report, effects, con')"
    and "er_spawned report" "er_signal report = None" "er_exit_code report \<noteq> None"
  shows "er_outcome report = ''completed''"
  using shape [OF assms(1)] assms(2-4) by (auto simp: report_shape_def)

end

text \<open>The checks between the authorisation and the spawn.\<close>

definition prepared_env :: "registry_env \<Rightarrow> machine \<Rightarrow> authorized_projection_plan \<Rightarrow> (exec_failure, env_snapshot) result" where
  "prepared_env renv w a =
     rbind (map_err seal_failure (preflight_identities renv (mc_fs w AtIdentity) (aj_plan a))) (\<lambda>_.
     rbind (map_err seal_failure (preflight_helpers renv (mc_fs w AtHelpers) (aj_plan a))) (\<lambda>_.
     rbind (map_err seal_failure (preflight_sources renv (mc_fs w AtSources) (aj_plan a))) (\<lambda>_.
       map_err (\<lambda>e. failed_to_spawn (env_error_diagnostic e))
         (build_child_env (mc_fs w AtEnvironment) (mc_getenv w) (pp_fixed_env (aj_plan a)) (pp_inherited_env_keys (aj_plan a))))))"

lemma execute_projection_inner_prepared:
  "execute_projection_inner renv w a options con =
     (case prepared_env renv w a of
        Inl f \<Rightarrow> Some (Inl f, [], con)
      | Inr env \<Rightarrow> spawn_and_reap w (pp_executable_path (aj_plan a)) (pp_cwd_path (aj_plan a)) (pp_argv (aj_plan a)) env
          \<lparr>eo_mode = JsonMode, eo_capture_limit = eo_capture_limit options, eo_rtk_projected = None\<rparr> None con)"
  by (simp add: execute_projection_inner_def prepared_env_def Let_def)

lemma prepared_env_failure:
  "prepared_env renv w a = Inl f \<Longrightarrow> ef_outcome f = ''failed_to_spawn'' \<and> \<not> ef_spawned f \<and> ef_pid f = None"
  by (auto simp: prepared_env_def rbind_eq_Inl_iff map_err_def seal_failure_def failed_to_spawn_def split: sum.splits)

lemma execute_projection_inner_cases:
  assumes "execute_projection_inner renv w a options con = Some (res, effects, con')"
  obtains (refused) f where "res = Inl f" "effects = []" "con' = con" "ef_outcome f = ''failed_to_spawn''" "\<not> ef_spawned f" "ef_pid f = None"
  | (spawn) env options' where "spawn_and_reap w (pp_executable_path (aj_plan a)) (pp_cwd_path (aj_plan a))
      (pp_argv (aj_plan a)) env options' None con = Some (res, effects, con')" "eo_mode options' = JsonMode"
proof (cases "prepared_env renv w a")
  case (Inl f)
  then show thesis using assms prepared_env_failure [OF Inl] by (intro refused) (auto simp: execute_projection_inner_prepared)
next
  case (Inr env)
  show thesis by (rule spawn) (use assms Inr in \<open>auto simp: execute_projection_inner_prepared\<close>)
qed

lemma run_projection_facts:
  assumes "run_projection renv w a options con = Some (report, effects, con')"
  shows "report_shape report \<and> (effects \<noteq> [] \<longrightarrow> starts_sealed a effects) \<and> con' = con \<and>
    (er_spawned report \<longrightarrow> er_exit_code report \<noteq> None \<longrightarrow>
      (\<exists>st. Inr st \<in> set (wait_results (mc_select w)) \<and>
         map_status st = (er_exit_code report, er_signal report, er_outcome report)))"
proof -
  obtain res where run: "execute_projection_inner renv w a options con = Some (res, effects, con')"
    and report: "report = fst (report_of (res, effects, con'))"
    using assms unfolding run_projection_def report_of_def by (fastforce split: sum.splits prod.splits)
  from run show ?thesis
  proof (cases rule: execute_projection_inner_cases)
    case (refused f)
    then show ?thesis by (simp add: report report_of_def into_report_def idle_report_def report_shape_def)
  next
    case (spawn env options')
    have "\<exists>st. Inr st \<in> set (wait_results (mc_select w)) \<and>
        map_status st = (er_exit_code report, er_signal report, er_outcome report)"
      if "er_spawned report" "er_exit_code report \<noteq> None"
    proof (cases "mc_spawn w (pp_executable_path (aj_plan a)) (pp_cwd_path (aj_plan a)) (pp_argv (aj_plan a)) (es_pairs env)")
      case (Inl e)
      then show ?thesis
        using spawn(1) that by (auto simp: spawn_and_reap_def exec_io_def report report_of_def into_report_def idle_report_def)
    next
      case (Inr pid)
      then show ?thesis
        using spawn_and_reap_owned [OF Inr spawn(1)] that unfolding report
        by (cases res) (auto simp: owned_def report_of_def into_report_def idle_report_def)
    qed
    then show ?thesis
      using spawn_and_reap_shape [OF spawn(1)] spawn_effects_nonempty [OF spawn(1)] json_console_untouched [OF spawn]
      by (auto simp: report starts_sealed_def)
  qed
qed

interpretation tokio_projection: projection_executor_contract "run_projection renv w" for renv w
  by unfold_locales (use run_projection_facts in blast)+

section \<open>What was selected and sealed\<close>

lemma bin_input:
  assumes "rbind (bin_select w) (bin_seal w op scope) = Inr input"
  shows "pp_operation (pj_plan input) = op" "pp_safe_scope (pj_plan input) = scope"
    "pp_session_id (pj_plan input) = ri_next_id (lw_inputs (bw_life w))"
  using assms
  by (auto simp: bin_seal_def seal_projection_def seal_with_search_dirs_def Let_def map_err_eq_Inr_iff elim!: rbind_InrE)

lemma projection_result_plan:
  "evaluate_projection_policy env input = ProjectionAuthorized a \<Longrightarrow>
     aj_plan a = pj_plan input \<and> child_supported (pp_operation (pj_plan input)) \<and> is_Allow (aj_policy_decision a)"
  "evaluate_projection_policy env input = ProjectionRejected r \<Longrightarrow> ro_plan r = pj_plan input"
  by (auto simp: evaluate_projection_policy_def projection_normalized_def Let_def split: sum.splits if_splits)

section \<open>The verdict\<close>

lemma judge_report_cases:
  assumes "judge_report w op scope report = Some v"
  obtains (validated) doc where "er_spawned report" "er_signal report = None" "er_exit_code report = Some 0"
      "bin_document_of w op scope report = Some (Inr doc)"
      "bv_payload v = Some doc" "bv_exit v = 0" "bv_outcome v = er_outcome report" "bv_error v = None"
      "bv_diagnostics v = er_diagnostics report"
  | (refused) pe where "er_spawned report" "er_signal report = None" "er_exit_code report = Some 0"
      "bin_document_of w op scope report = Some (Inl pe)" "bv_payload v = None" "bv_exit v = CONTRACT"
      "bv_outcome v = ''controller_error''"
      "bv_error v = Some \<lparr>diag_code = payload_error_code pe, diag_message = payload_error_message pe\<rparr>"
  | (failed) "bv_payload v = None" "bv_outcome v = er_outcome report" "bv_error v = None"
      "bv_diagnostics v = er_diagnostics report"
      "bv_exit v \<noteq> 0 \<or> er_spawned report \<and> er_exit_code report = Some 0 \<and> er_signal report \<noteq> None"
proof (cases "er_spawned report \<and> er_signal report = None \<and> er_exit_code report = Some 0")
  case True
  then show thesis
    using assms validated refused
    by (auto simp: judge_report_def Let_def split: option.splits sum.splits)
next
  case False
  then have "bv_payload v = None \<and> bv_outcome v = er_outcome report \<and> bv_error v = None \<and>
      bv_diagnostics v = er_diagnostics report \<and>
      (bv_exit v \<noteq> 0 \<or> er_spawned report \<and> er_exit_code report = Some 0 \<and> er_signal report \<noteq> None)"
    using assms by (auto simp: judge_report_def Let_def exit_code_defs split: option.splits if_splits)
  then show thesis using failed by blast
qed

lemma signal_exit_nonzero:
  assumes "map_status st = (Some 0, Some name, kind)" and "\<And>sig. st = Signaled sig \<Longrightarrow> 0 < sig"
  shows False
proof -
  obtain sig where st: "st = Signaled sig" and zero: "exit_from_signal_number sig = 0"
    using assms(1) by (cases st) (auto simp: map_status_def)
  have "0 < sig" using assms(2) st by blast
  then have "129 \<le> max 0 (min 255 (saturating_add_i32 128 sig))" "max 0 (min 255 (saturating_add_i32 128 sig)) \<le> (255 :: int)"
    by (auto simp: saturating_add_i32_def)
  then show False using zero by (simp add: exit_from_signal_number_def Let_def word_of_int_eq_0_iff zdvd_not_zless)
qed

section \<open>The events of a run\<close>

lemma pid_record_fields:
  "rc_session_id (pid_record r report) = rc_session_id r" "rc_plan_digest (pid_record r report) = rc_plan_digest r"
  "rc_session_id (bin_final_record r report v t) = rc_session_id r"
  "rc_plan_digest (bin_final_record r report v t) = rc_plan_digest r"
  by (simp_all add: pid_record_def bin_final_record_def)

lemma bin_conclude_cases:
  assumes "bin_conclude w op a lock pending report con st events = Some (resp, st', events', con')"
  obtains (lost) e where "resp = Failed e" "events' = events" "con' = con"
  | (ended) v r where "judge_report w op (pp_safe_scope (aj_plan a)) report = Some v"
      "r = bin_final_record pending report v (lw_clock (bw_life w) 2)" "validate r = Inr ()"
      "resp = EnvelopeEmitted op (pp_safe_scope (aj_plan a)) (bin_allow_envelope op a report v)"
      "events' = events @ [RecordWritten r]" "con' = con"
proof -
  obtain v where v: "judge_report w op (pp_safe_scope (aj_plan a)) report = Some v"
    using assms by (auto simp: bin_conclude_def split: option.splits)
  let ?r = "bin_final_record pending report v (lw_clock (bw_life w) 2)"
  have step: "then_written (bw_life w) (write_final (lw_faults (bw_life w) 2) st ?r lock) ?r events con (\<lambda>st' events'.
      Some (EnvelopeEmitted op (pp_safe_scope (aj_plan a)) (bin_allow_envelope op a report v), st', events', con)) =
      Some (resp, st', events', con')"
    using assms v by (simp add: bin_conclude_def Let_def)
  show thesis
  proof (cases "write_final (lw_faults (bw_life w) 2) st ?r lock")
    case (Pair st1 res)
    show thesis
    proof (cases res)
      case (Inl e)
      then show thesis using step Pair by (intro lost) (auto simp: then_written_def)
    next
      case (Inr u)
      then have "validate ?r = Inr ()" using Pair write_final_valid by simp
      then show thesis using step Pair Inr v by (intro ended) (auto simp: then_written_def)
    qed
  qed
qed

text \<open>A run of an authorised projection: nothing but the pending record, or the record, the child and what follows.\<close>

lemma bin_authorized_events:
  assumes "bin_authorized_response executor w op a home st con = Some (resp, st', events, con')"
    and sid: "pp_session_id (aj_plan a) = sid"
  obtains (unstarted) e where "resp = Failed e" "events = []" "con' = con"
  | (child) pending report effects more where "executor a default_options con = Some (report, effects, con')"
      "events = [RecordWritten pending, ChildRun effects] @ more" "is_pending pending"
      "records_ok sid (pp_plan_digest (aj_plan a)) events" "no_child more"
      "(\<exists>e. resp = Failed e) \<or>
       (\<exists>v begun. judge_report w op (pp_safe_scope (aj_plan a)) report = Some v \<and>
          resp = EnvelopeEmitted op (pp_safe_scope (aj_plan a)) (bin_allow_envelope op a report v) \<and>
          more = begun @ [RecordWritten (bin_final_record pending report v (lw_clock (bw_life w) 2))])"
proof -
  let ?life = "bw_life w" and ?digest = "pp_plan_digest (aj_plan a)"
  define pending where "pending = (projection_terminal_record (lw_clock ?life 0) (lw_clock ?life 1) (aj_plan a)
    (aj_policy_decision a) ''pending'' False None None None)\<lparr>rc_ended_at := None\<rparr>"
  have p: "rc_session_id pending = sid" "rc_plan_digest pending = ?digest" "is_pending pending"
    using sid by (simp_all add: pending_def projection_terminal_record_def is_pending_def)
  show thesis
  proof (cases "\<exists>e. lw_open_store ?life home = Inl e \<or> acquire_lock st (pp_session_id (aj_plan a)) = Inl e")
    case True
    then have "\<exists>e. resp = Failed e \<and> events = [] \<and> con' = con"
      using assms(1) by (auto simp: bin_authorized_response_def Let_def split: sum.splits)
    then show thesis using unstarted by blast
  next
    case False
    then obtain u lock where ready: "lw_open_store ?life home = Inr u" "acquire_lock st (pp_session_id (aj_plan a)) = Inr lock"
      by (metis sum.exhaust)
    have run: "then_written ?life (write_pending (lw_faults ?life 0) st pending lock) pending [] con (\<lambda>st1 events.
        case executor a default_options con of None \<Rightarrow> None
        | Some (report, effects, con') \<Rightarrow>
            bin_record_start w lock pending report con' st1 (events @ [ChildRun effects]) (\<lambda>st2 events.
              bin_conclude w op a lock pending report con' st2 events)) = Some (resp, st', events, con')"
      using assms(1) ready unfolding bin_authorized_response_def Let_def pending_def by simp
    show thesis
    proof (cases rule: then_written_cases [OF run])
      case (1 e)
      then show thesis using run by (intro unstarted) (auto simp: then_written_def split: prod.splits sum.splits)
    next
      case (2 st1)
      then have valid: "validate pending = Inr ()" using write_valid [of st1 "lw_faults ?life 0" st pending lock] by simp
      obtain report effects con1 where exec: "executor a default_options con = Some (report, effects, con1)"
        and rest: "bin_record_start w lock pending report con1 st1 ([RecordWritten pending] @ [ChildRun effects])
          (\<lambda>st2 events. bin_conclude w op a lock pending report con1 st2 events) = Some (resp, st', events, con')"
        using 2(2) by (auto split: option.splits)
      have concluded: thesis if ev: "begun = [] \<or> (\<exists>r. begun = [RecordWritten r] \<and> validate r = Inr () \<and>
            rc_session_id r = sid \<and> rc_plan_digest r = ?digest)"
        and c: "bin_conclude w op a lock pending report con1 st2 ([RecordWritten pending, ChildRun effects] @ begun) =
            Some (resp, st', events, con')" for begun st2
        using c
      proof (cases rule: bin_conclude_cases)
        case (lost e)
        show thesis by (rule child [of report effects pending begun]) (use exec lost ev valid p in auto)
      next
        case (ended v r)
        show thesis
          by (rule child [of report effects pending "begun @ [RecordWritten r]"])
            (use exec ended ev valid p pid_record_fields in auto)
      qed
      show thesis
      proof (cases "er_spawned report")
        case False
        then show thesis using rest concluded [of "[]" st1] by (simp add: bin_record_start_def)
      next
        case True
        let ?r = "pid_record pending report"
        have started: "then_written ?life (write_final (lw_faults ?life 1) st1 ?r lock) ?r
            ([RecordWritten pending] @ [ChildRun effects]) con1
            (\<lambda>st2 events. bin_conclude w op a lock pending report con1 st2 events) = Some (resp, st', events, con')"
          using rest True by (simp add: bin_record_start_def Let_def)
        show thesis
        proof (cases rule: then_written_cases [OF started])
          case (1 e)
          then have "\<exists>e. resp = Failed e" using started by (auto simp: then_written_def split: prod.splits sum.splits)
          then show thesis by (intro child [of report effects pending "[]"]) (use 1 exec valid p in auto)
        next
          case (2 st2)
          then have "validate ?r = Inr ()" using write_final_valid by blast
          then show thesis using 2(2) concluded [of "[RecordWritten ?r]" st2] p pid_record_fields by simp
        qed
      qed
    qed
  qed
qed

section \<open>Only reports run\<close>

text \<open>
  C15: a bin command runs nothing but an authorised report. Whatever the disk, the clock and the operating
  system do, a command that returns ran at most one child; then it was a report or a report-only cleanup, the
  projection was sealed for its scope and authorised, a valid pending record with the digest of the plan was
  written before, and a child that was started is the sealed executable in the sealed directory with the
  sealed arguments. No mode that changes files starts anything. Every record that was written satisfies the
  contract and belongs to the session; the terminal is never written by the run.
\<close>

theorem bin_runs_only_reports:
  assumes "run_bin (run_projection renv m) w sub st con = Some (resp, st', events, con')"
  shows "con' = con \<and>
    (\<forall>r. RecordWritten r \<in> set events \<longrightarrow> validate r = Inr () \<and> rc_session_id r = ri_next_id (lw_inputs (bw_life w))) \<and>
    ((\<forall>effects. ChildRun effects \<notin> set events) \<and> length events \<le> 1 \<or>
     (\<exists>op raw scope input a pending effects more.
        (sub = BinReportCommand \<or> (\<exists>s. sub = BinCleanupCommand ReportOnly s)) \<and>
        bin_operation sub = (op, raw) \<and> bin_scope raw = Inr scope \<and>
        rbind (bin_select w) (bin_seal w op scope) = Inr input \<and>
        evaluate_projection_policy (lw_policy_env (bw_life w)) input = ProjectionAuthorized a \<and> aj_plan a = pj_plan input \<and>
        events = [RecordWritten pending, ChildRun effects] @ more \<and> (\<forall>effects. ChildRun effects \<notin> set more) \<and>
        is_pending pending \<and> rc_plan_digest pending = pp_plan_digest (pj_plan input) \<and>
        (effects = [] \<or>
         (\<exists>pairs later. effects = Spawned (pp_executable_path (pj_plan input)) (pp_cwd_path (pj_plan input))
            (pp_argv (pj_plan input)) pairs # later))))"
proof -
  let ?sid = "ri_next_id (lw_inputs (bw_life w))"
  obtain op raw where op: "bin_operation sub = (op, raw)" by fastforce
  note run = assms [unfolded run_bin_def Let_def op prod.case]
  have idle: ?thesis if "events = [] \<and> con' = con" using that by simp
  show ?thesis
  proof (cases "bin_scope raw")
    case (Inl e)
    then show ?thesis using run by (intro idle) auto
  next
    case scope: (Inr scope)
    show ?thesis
    proof (cases "rbind (bin_select w) (bin_seal w op scope)")
      case (Inl e)
      then show ?thesis using run scope by (intro idle) auto
    next
      case input: (Inr input)
      note fields = bin_input [OF input]
      show ?thesis
      proof (cases "evaluate_projection_policy (lw_policy_env (bw_life w)) input")
        case (ProjectionContract e)
        then show ?thesis using run scope input by (intro idle) auto
      next
        case (ProjectionRejected rejected)
        have plan: "ro_plan rejected = pj_plan input" using projection_result_plan(2) [OF ProjectionRejected] .
        have "bin_rejected_response w op rejected (state_home_for (bw_life w) (pj_profile input)) st con = (resp, st', events, con')"
          using run scope input ProjectionRejected by simp
        then have "(events = [] \<and> con' = con) \<or> (\<exists>r resp'. terminal_response (bw_life w)
            (state_home_for (bw_life w) (pj_profile input)) st r resp' con = (resp, st', events, con') \<and>
            rc_session_id r = ?sid \<and> rc_plan_digest r = pp_plan_digest (pj_plan input))"
          unfolding bin_rejected_response_def Let_def using fields(3) plan
          by (cases "ro_decision rejected") (simp_all, (force simp: projection_terminal_record_def)+)
        then have "records_ok ?sid (pp_plan_digest (pj_plan input)) events \<and> no_child events \<and> length events \<le> 1 \<and> con' = con"
          using terminal_response_events by fastforce
        then show ?thesis by (auto simp: records_ok_def no_child_def)
      next
        case (ProjectionAuthorized a)
        note plan = projection_result_plan(1) [OF ProjectionAuthorized]
        have sub: "sub = BinReportCommand \<or> (\<exists>s. sub = BinCleanupCommand ReportOnly s)"
          using op plan fields(1) by (cases sub rule: bin_operation.cases) (auto simp: child_supported_def split: bin_cleanup_mode.splits)
        have resp: "bin_authorized_response (run_projection renv m) w op a (state_home_for (bw_life w) (pj_profile input)) st con =
            Some (resp, st', events, con')"
          using run scope input ProjectionAuthorized by simp
        have sid: "pp_session_id (aj_plan a) = ?sid" using plan fields(3) by simp
        from resp show ?thesis
        proof (cases rule: bin_authorized_events [OF _ sid, consumes 1, case_names unstarted child])
          case (unstarted e)
          then show ?thesis by (intro idle) simp
        next
          case (child pending report effects more)
          have "effects = [] \<or> starts_sealed a effects" using tokio_projection.idle_or_starts [OF child(1)] .
          then have "effects = [] \<or> (\<exists>pairs later. effects = Spawned (pp_executable_path (pj_plan input)) (pp_cwd_path (pj_plan input))
              (pp_argv (pj_plan input)) pairs # later)"
            using plan by (simp add: starts_sealed_def)
          moreover have "con' = con" by (rule tokio_projection.quiet [OF child(1)])
          moreover have "rc_plan_digest pending = pp_plan_digest (pj_plan input)" using child(2,4) plan by simp
          moreover have "\<forall>r. RecordWritten r \<in> set events \<longrightarrow> validate r = Inr () \<and> rc_session_id r = ?sid"
            "\<forall>effects. ChildRun effects \<notin> set more"
            using child(4,5) unfolding records_ok_def no_child_def by blast+
          ultimately show ?thesis
            using sub op scope input ProjectionAuthorized plan child(2,3) by blast
        qed
      qed
    qed
  qed
qed

section \<open>A success is a validated document\<close>

definition accepted_document ::
  "bin_world \<Rightarrow> projection_operation \<Rightarrow> string option \<Rightarrow> execution_report \<Rightarrow> bin_document \<Rightarrow> bool" where
  "accepted_document w op scope report doc \<longleftrightarrow>
     (let text = trim (sum_bytes (er_stdout report)) in
      \<not> sum_truncated (er_stdout report) \<and> valid_utf8 (sum_bytes (er_stdout report)) \<and> text \<noteq> [] \<and>
      pr_stream (bw_reader w) text = [Inr ()] \<and>
      (case doc of
         InventoryDocument listing \<Rightarrow> op = BinReport \<and> pr_inventory (bw_reader w) text = Inr listing \<and>
           inventory_ok (bw_payload_fs w) (rp_workspace_root (ri_paths (lw_inputs (bw_life w)))) listing
       | CleanupDocument plan \<Rightarrow> op = BinCleanupReportOnly \<and> pr_cleanup (bw_reader w) text = Inr plan \<and>
           cleanup_plan_ok ReportOnly scope plan))"

lemma decode_inventory_ok:
  assumes "decode_inventory reader fs bytes truncated root = Inr doc"
  shows "\<not> truncated \<and> valid_utf8 bytes \<and> trim bytes \<noteq> [] \<and> pr_stream reader (trim bytes) = [Inr ()] \<and>
    pr_inventory reader (trim bytes) = Inr doc \<and> inventory_ok fs root doc"
  using assms
  by (auto simp: decode_inventory_def single_document_iff map_err_eq_Inr_iff validate_inventory_iff elim!: rbind_InrE)

lemma decode_cleanup_plan_ok:
  assumes "decode_cleanup_plan reader bytes truncated mode scope = Inr doc"
  shows "\<not> truncated \<and> valid_utf8 bytes \<and> trim bytes \<noteq> [] \<and> pr_stream reader (trim bytes) = [Inr ()] \<and>
    pr_cleanup reader (trim bytes) = Inr doc \<and> cleanup_plan_ok mode (map_option vs_normalized scope) doc"
  using assms
  by (auto simp: decode_cleanup_plan_def single_document_iff map_err_eq_Inr_iff validate_cleanup_plan_iff elim!: rbind_InrE)

lemma map_sum_Inr: "map_sum f g r = Inr y \<longleftrightarrow> (\<exists>x. r = Inr x \<and> y = g x)"
  by (cases r) auto

lemma bin_document_of_accepted:
  assumes "bin_document_of w op scope report = Some (Inr doc)"
  shows "accepted_document w op (map_option vs_normalized scope) report doc"
proof (cases op)
  case BinReport
  then obtain listing where "doc = InventoryDocument listing"
    "decode_inventory (bw_reader w) (bw_payload_fs w) (sum_bytes (er_stdout report)) (sum_truncated (er_stdout report))
       (rp_workspace_root (ri_paths (lw_inputs (bw_life w)))) = Inr listing"
    using assms by (auto simp: bin_document_of_def Let_def map_sum_Inr)
  with decode_inventory_ok [OF this(2)] BinReport show ?thesis by (simp add: accepted_document_def Let_def)
next
  case BinCleanupReportOnly
  then obtain plan where "doc = CleanupDocument plan"
    "decode_cleanup_plan (bw_reader w) (sum_bytes (er_stdout report)) (sum_truncated (er_stdout report)) ReportOnly scope = Inr plan"
    using assms by (auto simp: bin_document_of_def Let_def map_sum_Inr)
  with decode_cleanup_plan_ok [OF this(2)] BinCleanupReportOnly show ?thesis by (simp add: accepted_document_def Let_def)
qed (use assms in \<open>simp_all add: bin_document_of_def\<close>)

text \<open>
  C16: a bin command succeeds only with a validated document. The exit code of an envelope is zero if and only
  if its status is ok, and if and only if it carries a document; then the child of an authorised report exited
  with zero, its output was complete and held exactly one JSON document, the document is the one of this
  operation and satisfies the contract for the workspace root or the requested scope, and the last record
  that was written says that the run completed with exit code zero. Anything else the child prints, and any
  other way it ends, is an error without a document. A signal number is assumed to be positive.
\<close>

theorem bin_success_is_validated:
  assumes "run_bin (run_projection renv m) w sub st con = Some (EnvelopeEmitted op scope env, st', events, con')"
    and "\<forall>sig. Inr (Signaled sig) \<in> set (wait_results (mc_select m)) \<longrightarrow> 0 < sig"
  shows "(be_exit_code env = 0 \<longleftrightarrow> be_status env = ''ok'') \<and> (be_exit_code env = 0 \<longleftrightarrow> be_payload env \<noteq> None) \<and>
    bin_scope (snd (bin_operation sub)) = Inr scope \<and> op = fst (bin_operation sub) \<and>
    (\<forall>doc. be_payload env = Some doc \<longrightarrow>
      (\<exists>a report effects r. run_projection renv m a default_options con = Some (report, effects, con') \<and>
         er_exit_code report = Some 0 \<and> accepted_document w op (map_option vs_normalized scope) report doc \<and>
         last events = RecordWritten r \<and> ex_outcome (rc_execution r) = ''completed'' \<and> ex_exit_code (rc_execution r) = Some 0))"
proof -
  obtain op1 raw where op': "bin_operation sub = (op1, raw)" by fastforce
  note run = assms(1) [unfolded run_bin_def Let_def, unfolded op' prod.case]
  obtain scope' where scope': "bin_scope raw = Inr scope'" using run by (cases "bin_scope raw") auto
  obtain input where input: "rbind (bin_select w) (bin_seal w op1 scope') = Inr input"
    using run scope' by (cases "rbind (bin_select w) (bin_seal w op1 scope')") auto
  note fields = bin_input [OF input]
  have raw: "fst (bin_operation sub) = op1" "snd (bin_operation sub) = raw" using op' by simp_all
  show ?thesis
  proof (cases "evaluate_projection_policy (lw_policy_env (bw_life w)) input")
    case (ProjectionContract e)
    then show ?thesis using run scope' input by simp
  next
    case (ProjectionRejected rejected)
    have plan: "ro_plan rejected = pj_plan input" using projection_result_plan(2) [OF ProjectionRejected] .
    have "bin_rejected_response w op1 rejected (state_home_for (bw_life w) (pj_profile input)) st con =
        (EnvelopeEmitted op scope env, st', events, con')"
      using run scope' input ProjectionRejected by simp
    then have "op = op1 \<and> scope = pp_safe_scope (ro_plan rejected) \<and>
        (\<exists>exit \<in> {POLICY_DENY, POLICY_GATE}. env = bin_refusal_envelope op1 rejected exit)"
      unfolding bin_rejected_response_def Let_def terminal_response_def
      by (auto split: policy_decision.splits prod.splits sum.splits)
    then show ?thesis using plan fields scope' raw by (auto simp: bin_refusal_envelope_def exit_code_defs)
  next
    case (ProjectionAuthorized a)
    note plan = projection_result_plan(1) [OF ProjectionAuthorized]
    have resp: "bin_authorized_response (run_projection renv m) w op1 a (state_home_for (bw_life w) (pj_profile input)) st con =
        Some (EnvelopeEmitted op scope env, st', events, con')"
      using run scope' input ProjectionAuthorized by simp
    from resp show ?thesis
    proof (cases rule: bin_authorized_events [OF _ refl, consumes 1, case_names unstarted child])
      case (unstarted e)
      then show ?thesis by simp
    next
      case (child pending report effects more)
      then obtain v begun where v: "judge_report w op1 scope' report = Some v" "op = op1" "scope = scope'"
        "env = bin_allow_envelope op1 a report v"
        "events = [RecordWritten pending, ChildRun effects] @ begun @
          [RecordWritten (bin_final_record pending report v (lw_clock (bw_life w) 2))]"
        using plan fields(2) by auto
      let ?r = "bin_final_record pending report v (lw_clock (bw_life w) 2)"
      have last: "last events = RecordWritten ?r" using v(5) by simp
      from v(1) show ?thesis
      proof (cases rule: judge_report_cases)
        case (validated doc)
        have "er_outcome report = ''completed''"
          using tokio_projection.clean_exit_completed [OF child(1) validated(1,2)] validated(3) by simp
        then have "ex_outcome (rc_execution ?r) = ''completed''" "ex_exit_code (rc_execution ?r) = Some 0"
          using validated by (simp_all add: bin_final_record_def)
        then show ?thesis
          using v(2-4) validated scope' raw child(1) last bin_document_of_accepted [OF validated(4)]
          by (auto simp: bin_allow_envelope_def)
      next
        case (refused pe)
        then show ?thesis using v(2-4) scope' raw by (simp add: bin_allow_envelope_def exit_code_defs)
      next
        case failed
        have "bv_exit v \<noteq> 0"
        proof
          assume zero: "bv_exit v = 0"
          then have "er_spawned report" "er_exit_code report = Some 0" "er_signal report \<noteq> None" using failed by auto
          moreover from this obtain st where st: "Inr st \<in> set (wait_results (mc_select m))"
            "map_status st = (er_exit_code report, er_signal report, er_outcome report)"
            using run_projection_facts [OF child(1)] by auto
          moreover have "0 < sig" if "st = Signaled sig" for sig using that st(1) assms(2) by blast
          ultimately show False using signal_exit_nonzero [of st] by auto
        qed
        then show ?thesis using v(2-4) failed scope' raw by (simp add: bin_allow_envelope_def)
      qed
    qed
  qed
qed

section \<open>A run is recorded as it ended\<close>

lemma bin_base:
  assumes "validate_session_id sid = Inr ()" and "pp_session_id plan = sid" and "is_valid_plan_digest (pp_plan_digest plan)"
    and "is_Allow decision" and "steady_clock life"
    and base_def: "base = (projection_terminal_record (lw_clock life 0) t plan decision ''pending'' False None None None)\<lparr>rc_ended_at := None\<rparr>"
  shows "run_base (lw_clock life 0) sid base" "is_pending base" "rc_ended_at base = None" "rc_error base = None"
    "rc_plan_digest base = pp_plan_digest plan"
  using assms(1-5)
  by (simp_all add: run_base_def base_def projection_terminal_record_def is_pending_def steady_clock_def)

lemma bin_record_final:
  assumes "run_record base r"
  shows "run_record base (pid_record r report)" "run_record base (bin_final_record r report v t)"
  using run_record_execution [OF assms] run_record_update [OF assms] by (simp_all add: pid_record_def bin_final_record_def)

lemma judged_kind:
  "judge_report w op scope report = Some v \<Longrightarrow> bv_outcome v = er_outcome report \<or>
     bv_outcome v = ''controller_error'' \<and> er_spawned report \<and> er_exit_code report = Some 0 \<and> bv_payload v = None"
  by (erule judge_report_cases) auto

lemma bin_run_written:
  assumes op: "bin_operation sub = (op, raw)" and scope: "bin_scope raw = Inr scope"
    and input: "rbind (bin_select w) (bin_seal w op scope) = Inr input"
    and auth: "evaluate_projection_policy (lw_policy_env (bw_life w)) input = ProjectionAuthorized a"
    and sid: "validate_session_id (ri_next_id (lw_inputs (bw_life w))) = Inr ()"
    and digest: "is_valid_plan_digest (pp_plan_digest (pj_plan input))"
    and disk: "quiet_disk (bw_life w) st (ri_next_id (lw_inputs (bw_life w))) (state_home_for (bw_life w) (pj_profile input))"
    and clock: "steady_clock (bw_life w)"
    and exec: "run_projection renv m a default_options con = Some (report, effects, con')"
    and pid: "er_spawned report \<longrightarrow> er_pid report \<noteq> None"
    and verdict: "judge_report w op scope report = Some v"
    and diag: "\<forall>d \<in> set_option (bv_error v) \<union> set (bv_diagnostics v). error_ok d"
  shows "\<exists>r st' events. run_bin (run_projection renv m) w sub st con =
      Some (EnvelopeEmitted op scope (bin_allow_envelope op a report v), st', events, con) \<and>
    stored st' (ri_next_id (lw_inputs (bw_life w))) = Some r \<and> \<not> is_pending r \<and>
    rc_execution r = \<lparr>ex_started = er_spawned report, ex_pid = map_option unat (er_pid report),
      ex_exit_code = map_option unat (er_exit_code report), ex_signal = er_signal report, ex_outcome = bv_outcome v\<rparr> \<and>
    rc_plan_digest r = pp_plan_digest (pj_plan input) \<and>
    (\<forall>j. j \<noteq> ri_next_id (lw_inputs (bw_life w)) \<longrightarrow> stored st' j = stored st j)"
proof -
  let ?sid = "ri_next_id (lw_inputs (bw_life w))" and ?life = "bw_life w"
  let ?lock = "\<lparr>lock_session_id = ?sid\<rparr>"
  note plan = projection_result_plan(1) [OF auth] and fields = bin_input [OF input]
  have d: "codec_ok st" "lw_open_store ?life (state_home_for ?life (pj_profile input)) = Inr ()" "st_lock_fault st ?sid = None"
    "st_entries st (?sid @ ''.json'') = None" "\<And>k. lw_faults ?life k = None"
    using disk by (simp_all add: quiet_disk_def)
  have t: "lw_clock ?life 0 \<le> lw_clock ?life 2" "lw_clock ?life 2 < 253402300800" using clock by (simp_all add: steady_clock_def)
  have con: "con' = con" by (rule tokio_projection.quiet [OF exec])
  have shape: "report_shape report" by (rule tokio_projection.shape [OF exec])
  define base where "base = (projection_terminal_record (lw_clock ?life 0) (lw_clock ?life 1) (aj_plan a) (aj_policy_decision a)
    ''pending'' False None None None)\<lparr>rc_ended_at := None\<rparr>"
  have pid_ok: "pp_session_id (aj_plan a) = ?sid" "is_valid_plan_digest (pp_plan_digest (aj_plan a))"
    using plan fields digest by simp_all
  note b = bin_base [OF sid pid_ok conjunct2 [OF conjunct2 [OF plan]] clock base_def]
  obtain st1 where w1: "write_pending None st base ?lock = (st1, Inr ())" and at1: "run_at base ?sid st base st1"
    using run_starts [OF b(1-3) _ d(1,4)] b(4) by auto
  obtain p st2 events where started:
    "\<And>rest. bin_record_start w ?lock base report con st1 ([RecordWritten base] @ [ChildRun effects]) rest = rest st2 events"
    "run_at base ?sid st p st2"
  proof (cases "er_spawned report")
    case False
    then show thesis using that at1 by (simp add: bin_record_start_def)
  next
    case True
    let ?r = "pid_record base report"
    have "is_pending ?r" "rc_ended_at ?r = None" "pred_option error_ok (rc_error ?r)"
      using b by (simp_all add: pid_record_def is_pending_def)
    then obtain st2 where w2: "write_final None st1 ?r ?lock = (st2, Inr ())" "run_at base ?sid st ?r st2"
      using run_continues [OF b(1) at1 bin_record_final(1) [OF run_record_refl]] by blast
    show thesis
      by (rule that [of st2 "[RecordWritten base, ChildRun effects, RecordWritten ?r]"])
        (use True w2 d(5) in \<open>simp_all add: bin_record_start_def then_written_def Let_def\<close>)
  qed
  let ?f = "bin_final_record base report v (lw_clock ?life 2)"
  have f: "run_record base ?f" by (rule bin_record_final(2) [OF run_record_refl])
  have kind: "bv_outcome v = er_outcome report \<or> bv_outcome v = ''controller_error'' \<and> er_spawned report"
    using judged_kind [OF verdict] by blast
  have ended: "rc_ended_at ?f = Some (utc_now_rfc3339 (lw_clock ?life 2))" by (simp add: bin_final_record_def)
  have "is_Allow (rc_policy_decision ?f)" using run_record_decision [OF f] b(1) by (simp add: run_base_def)
  then obtain ph where ph: "ph \<noteq> Pending" "phase_ok ph ?f"
    using reported_phase [OF shape pid, of ?f "bv_outcome v"] kind ended by (auto simp: bin_final_record_def)
  have "pred_option error_ok (rc_error ?f)"
    using diag b(4) by (cases "bv_error v"; cases "bv_diagnostics v") (simp_all add: bin_final_record_def)
  then obtain st3 where last_write: "write_final None st2 ?f ?lock = (st3, Inr ())" "stored st3 ?sid = Some ?f"
    "\<not> is_pending ?f" "\<forall>j. j \<noteq> ?sid \<longrightarrow> stored st3 j = stored st j"
    using run_ends [OF b(1) started(2) f ended t ph] by blast
  have "bin_conclude w op a ?lock base report con st2 events =
      Some (EnvelopeEmitted op scope (bin_allow_envelope op a report v), st3, events @ [RecordWritten ?f], con)"
    using verdict last_write(1) d(5) plan fields(2) by (simp add: bin_conclude_def then_written_def Let_def)
  then have "bin_authorized_response (run_projection renv m) w op a (state_home_for ?life (pj_profile input)) st con =
      Some (EnvelopeEmitted op scope (bin_allow_envelope op a report v), st3, events @ [RecordWritten ?f], con)"
    using d(2,3,5) sid w1 exec started(1) pid_ok(1) con
    unfolding bin_authorized_response_def Let_def base_def [symmetric]
    by (simp add: acquire_lock_def then_written_def Let_def)
  then have "run_bin (run_projection renv m) w sub st con =
      Some (EnvelopeEmitted op scope (bin_allow_envelope op a report v), st3, events @ [RecordWritten ?f], con)"
    using op scope input auth by (simp add: run_bin_def Let_def)
  then show ?thesis
    using last_write(2-4) run_record_decision [OF f] b(5) plan
    by (intro exI [of _ ?f] exI [of _ st3]) (auto simp: bin_final_record_def)
qed

text \<open>
  C17: a run of a bin command is recorded as it ended. On a working disk and with a steady clock, an authorised
  report is run once; the record that is read back under its session when the command returns is terminal,
  carries the digest of the plan, and says of the execution exactly what the envelope says: outcome,
  pid, exit code and signal, where a document that was refused makes the outcome a controller error although
  the child exited with zero. No other session changed.
\<close>

theorem bin_run_recorded:
  assumes op: "bin_operation sub = (op, raw)" and scope: "bin_scope raw = Inr scope"
    and input: "rbind (bin_select w) (bin_seal w op scope) = Inr input"
    and auth: "evaluate_projection_policy (lw_policy_env (bw_life w)) input = ProjectionAuthorized a"
    and sid: "validate_session_id (ri_next_id (lw_inputs (bw_life w))) = Inr ()"
    and digest: "is_valid_plan_digest (pp_plan_digest (pj_plan input))"
    and disk: "quiet_disk (bw_life w) st (ri_next_id (lw_inputs (bw_life w))) (state_home_for (bw_life w) (pj_profile input))"
    and clock: "steady_clock (bw_life w)"
    and exec: "run_projection renv m a default_options con = Some (report, effects, con')"
    and pid: "er_spawned report \<longrightarrow> er_pid report \<noteq> None"
    and verdict: "judge_report w op scope report = Some v"
    and diag: "\<forall>d \<in> set_option (bv_error v) \<union> set (bv_diagnostics v). error_ok d"
  shows "\<exists>r st' events. let env = bin_allow_envelope op a report v; sid = ri_next_id (lw_inputs (bw_life w)) in
    run_bin (run_projection renv m) w sub st con = Some (EnvelopeEmitted op scope env, st', events, con) \<and>
    stored st' sid = Some r \<and> \<not> is_pending r \<and> be_execution env = Some (rc_execution r) \<and>
    (ex_outcome (rc_execution r) = er_outcome report \<or>
     ex_outcome (rc_execution r) = ''controller_error'' \<and> er_exit_code report = Some 0 \<and> bv_payload v = None) \<and>
    rc_plan_digest r = pp_plan_digest (pj_plan input) \<and> (\<forall>j. j \<noteq> sid \<longrightarrow> stored st' j = stored st j)"
  using bin_run_written [OF assms] judged_kind [OF verdict] by (fastforce simp: bin_allow_envelope_def Let_def)

section \<open>Examples\<close>

text \<open>
  A host whose search directories and workspace exist, a profile that allows the report and its child, and a
  child that prints an empty inventory.
\<close>

definition host_fs :: sfsys where
  "host_fs =
     (let kind = (\<lambda>p. case p of [_] \<Rightarrow> Directory
         | _ \<Rightarrow> (case last p of Normal s \<Rightarrow> if s = ''ws'' \<or> s = ''bin'' \<or> s = ''sbin'' then Directory else RegularFile
           | _ \<Rightarrow> Directory))
      in tool_fs\<lparr>symlink_metadata := (\<lambda>p. Inr (kind p)), metadata := (\<lambda>p. Inr (kind p)),
           read_bytes := (\<lambda>_. Inr ''x''), open_nofollow := (\<lambda>p. Inr (Inr (kind p, 1)))\<rparr>)"

definition host_env :: registry_env where
  "host_env = sample_registry_env
     \<lparr>rv_sha256_hex := (\<lambda>bytes. if bytes = [] then replicate 64 (CHR ''a'') else ''ab''),
      rv_profiles := (\<lambda>_. Inr \<lparr>pd_generated_at = ''t'', pd_profiles = [sample_profile [''takogami bin report'', ''ontarch bin-report'']]\<rparr>),
      rv_policies := (\<lambda>_. Inr \<lparr>pol_generated_at = ''t'', pol_policies = []\<rparr>)\<rparr>"

definition host_machine :: machine where
  "host_machine = quiet_machine\<lparr>mc_fs := (\<lambda>_. host_fs), mc_stdout := Some [Chunk ''{}'']\<rparr>"

definition empty_inventory :: bin_inventory where
  "empty_inventory =
     \<lparr>bi_generated_at = ''2026-01-01T00:00:00Z'', bi_root = ''/ws'',
      bi_summary = \<lparr>isu_total = 0, isu_with_manifest = 0\<rparr>, bi_workflows = []\<rparr>"

definition host_world :: bin_world where
  "host_world =
     \<lparr>bw_life = sample_world\<lparr>lw_inputs := allowed_resolver_inputs\<lparr>ri_env := host_env\<rparr>\<rparr>,
      bw_explicit_profile = Some ''dev'', bw_debug_code = (\<lambda>_. []), bw_to_json = (\<lambda>_. []), bw_seal_fs = host_fs,
      bw_payload_fs = host_fs,
      bw_reader = \<lparr>pr_stream = (\<lambda>_. [Inr ()]), pr_inventory = (\<lambda>_. Inr empty_inventory), pr_cleanup = (\<lambda>_. Inl ''unused'')\<rparr>\<rparr>"

lemma host_ready:
  "\<exists>input a env. rbind (bin_select host_world) (bin_seal host_world BinReport None) = Inr input \<and>
     is_valid_plan_digest (pp_plan_digest (pj_plan input)) \<and>
     evaluate_projection_policy (lw_policy_env (bw_life host_world)) input = ProjectionAuthorized a \<and>
     prepared_env host_env host_machine a = Inr env \<and> es_diagnostics env = []"
proof -
  have "(case rbind (bin_select host_world) (bin_seal host_world BinReport None) of Inl _ \<Rightarrow> False | Inr input \<Rightarrow>
      is_valid_plan_digest (pp_plan_digest (pj_plan input)) \<and>
      (case evaluate_projection_policy (lw_policy_env (bw_life host_world)) input of
         ProjectionAuthorized a \<Rightarrow>
           (case prepared_env host_env host_machine a of Inr env \<Rightarrow> es_diagnostics env = [] | Inl _ \<Rightarrow> False)
       | _ \<Rightarrow> False))"
    by code_simp
  then obtain input a where ready: "rbind (bin_select host_world) (bin_seal host_world BinReport None) = Inr input"
    "is_valid_plan_digest (pp_plan_digest (pj_plan input))"
    "evaluate_projection_policy (lw_policy_env (bw_life host_world)) input = ProjectionAuthorized a"
    "case prepared_env host_env host_machine a of Inr env \<Rightarrow> es_diagnostics env = [] | Inl _ \<Rightarrow> False"
    by (auto split: sum.splits projection_evaluation_result.splits)
  from ready(4) obtain env where "prepared_env host_env host_machine a = Inr env" "es_diagnostics env = []"
    by (cases "prepared_env host_env host_machine a") auto
  with ready(1-3) show ?thesis by blast
qed

definition host_report :: execution_report where
  "host_report =
     \<lparr>er_spawned = True, er_pid = Some 7, er_exit_code = Some 0, er_signal = None, er_outcome = ''completed'',
      er_stdout = summary_from_capture (capture_of DEFAULT_CAPTURE_LIMIT ''{}'' None False),
      er_stderr = summary_from_capture (capture_of DEFAULT_CAPTURE_LIMIT [] None False),
      er_diagnostics = [], er_compressor = ''none'', er_gain = None, er_emitted_output_bytes = 2\<rparr>"

lemma host_runs:
  assumes "prepared_env host_env host_machine a = Inr env" and "es_diagnostics env = []"
  shows "\<exists>effects. run_projection host_env host_machine a default_options con = Some (host_report, effects, con)"
proof -
  have spawn: "mc_spawn host_machine exe cwd argv pairs = Inr (Some 7)" "mc_stdout host_machine = Some [Chunk ''{}'']"
    "mc_stderr host_machine = Some []" "mc_install_signals host_machine = Inr ()"
    "mc_select host_machine = [OutReady, ErrReady, WaitReady (Inr (Exited 0))]" for exe cwd argv pairs
    by (simp_all add: host_machine_def quiet_machine_def)
  have loop: "run_capturing guard out err [OutReady, ErrReady, WaitReady (Inr (Exited 0))] =
      Some (out, err, Inr (Exited 0), [Awaited])" for guard out err
    by (simp add: run_capturing_def select_step_def run_finished_def)
  have limit: "take DEFAULT_CAPTURE_LIMIT ''{}'' = ''{}''" by (simp add: DEFAULT_CAPTURE_LIMIT_def)
  show ?thesis
    using assms
    by (simp add: run_projection_def execute_projection_inner_prepared spawn_and_reap_def spawn Let_def capture_streams_def
        capture_pipe_exact loop spawned_report_def map_status_def report_of_def host_report_def default_options_def
        push_stream_diags_def capture_of_def limit)
qed

lemma empty_inventory_accepted:
  "decode_inventory (bw_reader host_world) (bw_payload_fs host_world) ''{}'' False (components ''/ws'') = Inr empty_inventory"
proof -
  have single: "parse_single_json_document (bw_reader host_world) ''{}'' False = Inr ''{}''" by code_simp
  have "require_utc_seconds ''2026-01-01T00:00:00Z'' = Inr ()" "roots_equivalent host_fs ''/ws'' (components ''/ws'')"
    by code_simp+
  then have "inventory_ok host_fs (components ''/ws'') empty_inventory"
    by (simp add: inventory_ok_def empty_inventory_def require_utc_seconds_iff)
  then have "validate_inventory host_fs empty_inventory (components ''/ws'') = Inr ()" by (simp add: validate_inventory_iff)
  moreover have "bw_payload_fs host_world = host_fs" "pr_inventory (bw_reader host_world) json = Inr empty_inventory" for json
    by (simp_all add: host_world_def)
  ultimately show ?thesis by (simp add: decode_inventory_def single)
qed

lemma host_verdict:
  "judge_report host_world BinReport None host_report =
     Some \<lparr>bv_outcome = ''completed'', bv_exit = 0, bv_payload = Some (InventoryDocument empty_inventory),
       bv_diagnostics = [], bv_error = None\<rparr>"
proof -
  have root: "rp_workspace_root (ri_paths (lw_inputs (bw_life host_world))) = components ''/ws''"
    by (simp add: host_world_def sample_world_def allowed_resolver_inputs_def sample_resolver_inputs_def)
  have stdout: "sum_bytes (er_stdout host_report) = ''{}''" "\<not> sum_truncated (er_stdout host_report)"
    by (simp_all add: host_report_def summary_from_capture_def capture_of_def DEFAULT_CAPTURE_LIMIT_def)
  have ended: "er_spawned host_report" "er_signal host_report = None" "er_exit_code host_report = Some 0"
    "er_outcome host_report = ''completed''" "er_diagnostics host_report = []"
    by (simp_all add: host_report_def)
  show ?thesis
    by (simp add: judge_report_def Let_def ended bin_document_of_def stdout root empty_inventory_accepted)
qed

lemma host_parts:
  "ri_next_id (lw_inputs (bw_life host_world)) = ''tkg_1''" "validate_session_id ''tkg_1'' = Inr ()"
  "quiet_disk (bw_life host_world) (unary_store Map.empty) ''tkg_1'' home" "steady_clock (bw_life host_world)"
  "bin_scope None = Inr None" "bin_operation BinReportCommand = (BinReport, None)"
proof -
  show "ri_next_id (lw_inputs (bw_life host_world)) = ''tkg_1''"
    by (simp add: host_world_def allowed_resolver_inputs_def sample_resolver_inputs_def)
  show "validate_session_id ''tkg_1'' = Inr ()" by code_simp
  show "quiet_disk (bw_life host_world) (unary_store Map.empty) ''tkg_1'' home"
    using sample_disk [of "''tkg_1''" home] by (simp add: quiet_disk_def host_world_def)
  show "steady_clock (bw_life host_world)" using sample_clock by (simp add: steady_clock_def host_world_def)
qed (simp_all add: bin_scope_def)

text \<open>The report on this host: it runs, its document is accepted, and the run is recorded.\<close>

lemma host_run:
  "\<exists>input a effects. rbind (bin_select host_world) (bin_seal host_world BinReport None) = Inr input \<and>
     evaluate_projection_policy (lw_policy_env (bw_life host_world)) input = ProjectionAuthorized a \<and>
     is_valid_plan_digest (pp_plan_digest (pj_plan input)) \<and>
     run_projection host_env host_machine a default_options fresh_console = Some (host_report, effects, fresh_console)"
  using host_ready host_runs by blast

theorem bin_run_recorded_witness:
  "\<exists>op scope env r st' events. run_bin (run_projection host_env host_machine) host_world BinReportCommand
       (unary_store Map.empty) fresh_console = Some (EnvelopeEmitted op scope env, st', events, fresh_console) \<and>
     stored st' ''tkg_1'' = Some r \<and> ex_outcome (rc_execution r) = ''completed''"
proof -
  obtain input a effects where h: "rbind (bin_select host_world) (bin_seal host_world BinReport None) = Inr input"
    "evaluate_projection_policy (lw_policy_env (bw_life host_world)) input = ProjectionAuthorized a"
    "is_valid_plan_digest (pp_plan_digest (pj_plan input))"
    "run_projection host_env host_machine a default_options fresh_console = Some (host_report, effects, fresh_console)"
    using host_run by blast
  have ended: "er_pid host_report = Some 7" "er_exit_code host_report = Some 0" "er_outcome host_report = ''completed''"
    by (simp_all add: host_report_def)
  from bin_run_recorded [where w = host_world, unfolded host_parts(1),
      OF host_parts(6,5) h(1,2) host_parts(2) h(3) host_parts(3,4) h(4) _ host_verdict]
  show ?thesis using ended by (fastforce simp: Let_def)
qed

lemma host_envelope:
  "\<exists>op scope env st' events. run_bin (run_projection host_env host_machine) host_world BinReportCommand
     (unary_store Map.empty) fresh_console = Some (EnvelopeEmitted op scope env, st', events, fresh_console) \<and> be_exit_code env = 0"
proof -
  obtain input a effects where h: "rbind (bin_select host_world) (bin_seal host_world BinReport None) = Inr input"
    "evaluate_projection_policy (lw_policy_env (bw_life host_world)) input = ProjectionAuthorized a"
    "is_valid_plan_digest (pp_plan_digest (pj_plan input))"
    "run_projection host_env host_machine a default_options fresh_console = Some (host_report, effects, fresh_console)"
    using host_run by blast
  from bin_run_written [where w = host_world, unfolded host_parts(1),
      OF host_parts(6,5) h(1,2) host_parts(2) h(3) host_parts(3,4) h(4) _ host_verdict]
  show ?thesis by (fastforce simp: host_report_def bin_allow_envelope_def)
qed

theorem bin_success_is_validated_witness:
  "\<exists>op scope env st' events con' doc. run_bin (run_projection host_env host_machine) host_world BinReportCommand
     (unary_store Map.empty) fresh_console = Some (EnvelopeEmitted op scope env, st', events, con') \<and>
   be_status env = ''ok'' \<and> be_payload env = Some doc"
proof -
  obtain op scope env st' events where run: "run_bin (run_projection host_env host_machine) host_world BinReportCommand
      (unary_store Map.empty) fresh_console = Some (EnvelopeEmitted op scope env, st', events, fresh_console)" "be_exit_code env = 0"
    using host_envelope by blast
  have "\<forall>sig. Inr (Signaled sig) \<in> set (wait_results (mc_select host_machine)) \<longrightarrow> 0 < sig"
    by (simp add: host_machine_def quiet_machine_def wait_results_def List.map_filter_def)
  from bin_success_is_validated [OF run(1) this] run show ?thesis by fastforce
qed

theorem bin_runs_only_reports_witness:
  "\<exists>resp st' events con'. run_bin (run_projection host_env host_machine) host_world BinReportCommand
     (unary_store Map.empty) fresh_console = Some (resp, st', events, con') \<and>
   (\<forall>r. RecordWritten r \<in> set events \<longrightarrow> validate r = Inr () \<and> rc_session_id r = ''tkg_1'')"
proof -
  obtain resp st' events con' where run: "run_bin (run_projection host_env host_machine) host_world BinReportCommand
      (unary_store Map.empty) fresh_console = Some (resp, st', events, con')"
    using host_envelope by blast
  from bin_runs_only_reports [OF run] run show ?thesis by (auto simp: host_parts(1))
qed

end
