(* ===== verification/Output_Sink.thy ===== *)
theory Output_Sink
  imports Lifecycle_Dispatch Session_Query
begin

text \<open>
  The output of a command (\<open>output/mod.rs\<close>, \<open>output/envelope.rs\<close>, the envelope of \<open>contracts/types.rs\<close>): what is
  written to the terminal for each response, as one JSON document or as text, and the exit code. A write may
  fail at any line; the failure ends the emission except where the code goes on.
\<close>

section \<open>The envelope\<close>

record envelope_metrics =
  em_registry_cache :: string
  em_output_bytes :: nat
  em_compressor :: string
  em_gain :: "(nat \<times> nat) option"

record child_output =
  co_stdout :: "string option"
  co_stderr :: "string option"
  co_truncated :: bool
  co_encoding :: string

text \<open>What a refusal says of the plan.\<close>

record policy_failure_plan_summary =
  fs_schema_version :: string
  fs_session_id :: string
  fs_unit_id :: string
  fs_verb :: string
  fs_backend :: string
  fs_adapter :: string
  fs_program_basename :: string
  fs_profile_id :: string
  fs_policy_ids :: "string list"
  fs_execution_class :: string
  fs_runtime_provider :: "string option"
  fs_plan_digest :: string

definition from_plan :: "sealed_execution_plan \<Rightarrow> policy_failure_plan_summary" where
  "from_plan plan =
     (let r = sp_resolved plan in
      \<lparr>fs_schema_version = res_schema_version r, fs_session_id = res_session_id r, fs_unit_id = res_unit_id r,
       fs_verb = res_verb r, fs_backend = res_backend r, fs_adapter = res_adapter r,
       fs_program_basename = (case file_name (components (res_program r)) of Some n \<Rightarrow> n | None \<Rightarrow> ''unavailable''),
       fs_profile_id = res_profile_id r, fs_policy_ids = res_policy_ids r,
       fs_execution_class = execution_class_str (res_execution_class r), fs_runtime_provider = res_runtime_provider r,
       fs_plan_digest = sp_plan_digest plan\<rparr>)"

text \<open>The \<open>policy\<close> object of a data object, and the data of each kind of response with its members.\<close>

record policy_view =
  pv_request :: policy_layer_result
  pv_child :: policy_layer_result
  pv_execution_authorized :: bool
  pv_approval_transport :: string

definition policy_view_of :: "policy_evaluation_explanation \<Rightarrow> bool \<Rightarrow> policy_view" where
  "policy_view_of ex authorized =
     \<lparr>pv_request = px_request ex, pv_child = px_child ex, pv_execution_authorized = authorized,
      pv_approval_transport = px_approval_transport ex\<rparr>"

record executed_view =
  xv_plan_digest :: string
  xv_resolved_command :: resolved_command
  xv_policy_decision :: policy_decision
  xv_policy :: policy_view
  xv_started :: bool
  xv_pid :: "32 word option"
  xv_outcome :: string
  xv_exit_code :: "8 word option"
  xv_signal :: "string option"
  xv_record_kind :: string
  xv_session_id :: string

text \<open>What \<open>doctor\<close> finds, and what the other handlers that only read hand over.\<close>

record doctor_check =
  dk_name :: string
  dk_ok :: bool
  dk_detail :: string
  dk_severity :: string

record doctor_report =
  dr_scope :: string
  dr_registry_readiness :: bool
  dr_session_readiness :: bool
  dr_rtk_readiness :: bool
  dr_ready :: bool
  dr_checks :: "doctor_check list"

record classified_tool =
  ct_id :: string
  ct_module :: "string option"
  ct_installed :: "bool option"
  ct_default :: "bool option"
  ct_capability_class :: string
  ct_version :: "string option"

datatype handler_data =
    GraphData string freshness graph_document "string option"
  | SessionsData nat "session_summary list" "string list"
  | SessionRecordData runtime_command_record "string list option"
  | ScanData freshness "json list" "unit_record list" "unit_record list"
  | UnitsData freshness nat "unit_record list"
  | ToolsData freshness nat "tool_record list"
  | UnitData freshness unit_record
  | ClassifiedToolsData freshness "classified_tool list" "json option"
  | InterfacesData bool string
  | ValidationData bool bool string string string
  | DoctorData doctor_report

datatype envelope_data =
    PlanData resolved_command string policy_decision policy_view bool bool
  | RefusalData policy_failure_plan_summary string policy_decision policy_view bool bool
  | PolicyContractData policy_failure_plan_summary string "string option" "string option" bool bool
  | DeferredData string string policy_decision bool bool policy_view
  | ContractDetailsData string string "string option" "string option"
  | ExecutedData executed_view
  | BinData bin_envelope
  | HandlerData handler_data

datatype envelope_explanation =
    ResolutionView resolution_explanation "policy_evaluation_explanation option"
  | PolicyOnlyView policy_evaluation_explanation
  | PartialView json

record command_envelope =
  ev_schema_version :: string
  ev_command :: string
  ev_session_id :: "string option"
  ev_status :: string
  ev_exit_code :: "8 word"
  ev_data :: "envelope_data option"
  ev_explanation :: "envelope_explanation option"
  ev_diagnostics :: "diagnostic_record list"
  ev_child :: "child_output option"
  ev_metrics :: "envelope_metrics option"

definition envelope_error :: "string \<Rightarrow> 8 word \<Rightarrow> string \<Rightarrow> string \<Rightarrow> command_envelope" where
  "envelope_error command code diag message =
     \<lparr>ev_schema_version = SCHEMA_VERSION, ev_command = command, ev_session_id = None, ev_status = ''error'',
      ev_exit_code = code, ev_data = None, ev_explanation = None,
      ev_diagnostics = [\<lparr>diag_code = diag, diag_message = message\<rparr>], ev_child = None, ev_metrics = None\<rparr>"

definition envelope_ok :: "string \<Rightarrow> envelope_data option \<Rightarrow> command_envelope" where
  "envelope_ok command data =
     \<lparr>ev_schema_version = SCHEMA_VERSION, ev_command = command, ev_session_id = None, ev_status = ''ok'',
      ev_exit_code = 0, ev_data = data, ev_explanation = None, ev_diagnostics = [], ev_child = None, ev_metrics = None\<rparr>"

definition cache_metrics :: "freshness \<Rightarrow> envelope_metrics" where
  "cache_metrics fresh = \<lparr>em_registry_cache = freshness_str fresh, em_output_bytes = 0, em_compressor = ''none'', em_gain = None\<rparr>"

section \<open>The terminal\<close>

text \<open>The outcome of each next write of a line; a failed write leaves nothing behind.\<close>

datatype std_stream = Stdout | Stderr

record write_failure =
  wf_broken_pipe :: bool
  wf_text :: string

record screen =
  sc_stdout :: string
  sc_stderr :: string
  sc_outcomes :: "write_failure option list"

type_synonym 'a emission = "(write_failure, 'a) result \<times> screen"

definition put :: "std_stream \<Rightarrow> string \<Rightarrow> screen \<Rightarrow> screen" where
  "put stream text s =
     (case stream of
        Stdout \<Rightarrow> s\<lparr>sc_stdout := sc_stdout s @ text\<rparr>
      | Stderr \<Rightarrow> s\<lparr>sc_stderr := sc_stderr s @ text\<rparr>)"

definition write_text :: "std_stream \<Rightarrow> string \<Rightarrow> screen \<Rightarrow> unit emission" where
  "write_text stream text s =
     (case sc_outcomes s of
        [] \<Rightarrow> (Inr (), put stream text s)
      | None # os \<Rightarrow> (Inr (), put stream text (s\<lparr>sc_outcomes := os\<rparr>))
      | Some e # os \<Rightarrow> (Inl e, s\<lparr>sc_outcomes := os\<rparr>))"

fun write_lines :: "std_stream \<Rightarrow> string list \<Rightarrow> screen \<Rightarrow> unit emission" where
  "write_lines stream [] s = (Inr (), s)"
| "write_lines stream (line # lines) s =
     (case write_text stream (line @ [CHR 0x0A]) s of
        (Inl e, s') \<Rightarrow> (Inl e, s')
      | (Inr _, s') \<Rightarrow> write_lines stream lines s')"

text \<open>A closed pipe is passed over, another failure ends the emission.\<close>

fun write_lines_tolerant :: "std_stream \<Rightarrow> string list \<Rightarrow> screen \<Rightarrow> unit emission" where
  "write_lines_tolerant stream [] s = (Inr (), s)"
| "write_lines_tolerant stream (line # lines) s =
     (case write_text stream (line @ [CHR 0x0A]) s of
        (Inl e, s') \<Rightarrow> (if wf_broken_pipe e then write_lines_tolerant stream lines s' else (Inl e, s'))
      | (Inr _, s') \<Rightarrow> write_lines_tolerant stream lines s')"

definition then_write :: "unit emission \<Rightarrow> (screen \<Rightarrow> 'a emission) \<Rightarrow> 'a emission" where
  "then_write first rest = (case first of (Inl e, s) \<Rightarrow> (Inl e, s) | (Inr _, s) \<Rightarrow> rest s)"

definition exits :: "8 word \<Rightarrow> unit emission \<Rightarrow> (8 word) emission" where
  "exits code r = then_write r (\<lambda>s. (Inr code, s))"

text \<open>
  \<open>oe_encode\<close> renders an envelope as JSON, \<open>oe_debug_args\<close> is the debug text of the arguments of a command,
  \<open>oe_decode_trace\<close> reads a resolution trace back from its JSON value.
\<close>

record output_env =
  oe_json :: bool
  oe_no_color :: bool
  oe_encode :: "command_envelope \<Rightarrow> (string, string) result"
  oe_debug_args :: "string list \<Rightarrow> string"
  oe_decode_trace :: "json \<Rightarrow> partial_resolution_trace option"

definition emit_json :: "output_env \<Rightarrow> command_envelope \<Rightarrow> screen \<Rightarrow> unit emission" where
  "emit_json env envelope s =
     (case oe_encode env envelope of
        Inl m \<Rightarrow> (Inl \<lparr>wf_broken_pipe = False, wf_text = m\<rparr>, s)
      | Inr line \<Rightarrow> write_lines Stdout [line] s)"

definition error_prefix :: "output_env \<Rightarrow> string" where
  "error_prefix env =
     (if oe_no_color env then ''error'' else [CHR 0x1B] @ ''[31merror'' @ [CHR 0x1B] @ ''[0m'')"

definition diagnostic_lines :: "diagnostic_record list \<Rightarrow> string list" where
  "diagnostic_lines ds = map (\<lambda>d. ''takogami: '' @ diag_code d @ '': '' @ diag_message d) ds"

section \<open>Success and plans\<close>

definition emit_success ::
  "output_env \<Rightarrow> string \<Rightarrow> handler_data \<Rightarrow> freshness option \<Rightarrow> string list \<Rightarrow> screen \<Rightarrow> (8 word) emission" where
  "emit_success env command data fresh human s =
     (if oe_json env then
        exits SUCCESS (emit_json env ((envelope_ok command (Some (HandlerData data)))\<lparr>ev_metrics := map_option cache_metrics fresh\<rparr>) s)
      else exits SUCCESS (write_lines Stdout human s))"

definition render_human_summary :: "output_env \<Rightarrow> resolution_explanation \<Rightarrow> string" where
  "render_human_summary env ex =
     ''Plan only '' @ em_dash @ '' '' @ rx_unit_verb ex @ '' '' @ rx_unit_id ex @ '' '' @ [CHR 0xE2, CHR 0x86, CHR 0x92] @ '' '' @
     ce_program (rx_command ex) @ '' '' @ oe_debug_args env (ce_arguments (rx_command ex)) @
     [CHR 0x0A] @ ''Session: '' @ rx_session_id ex @
     [CHR 0x0A] @ ''Plan digest: '' @ (case rx_plan_digest ex of Some d \<Rightarrow> d | None \<Rightarrow> ''(none)'') @
     [CHR 0x0A] @ ''Profile: '' @ rx_profile_id ex @ [CHR 0x0A] @ ''Freshness: '' @ rx_registry_cache ex"

definition render_human_policy_summary :: "policy_evaluation_explanation \<Rightarrow> string" where
  "render_human_policy_summary ex =
     (let n = length (sort_dedup (lr_matched_rules (px_request ex) @ lr_matched_rules (px_child ex)));
          effective = (case px_effective_decision ex of Allow _ \<Rightarrow> ''Allow'' | Gate _ _ _ _ \<Rightarrow> ''Gate'' | Deny _ _ _ \<Rightarrow> ''Deny'')
      in ''Policy: '' @ effective @ '' (request='' @ lr_decision (px_request ex) @ '', child='' @
         lr_decision (px_child ex) @ ''; '' @ show_nat n @ '' rules)'')"

definition plan_envelope ::
  "string \<Rightarrow> authorized_execution_plan \<Rightarrow> freshness \<Rightarrow> diagnostic_record list \<Rightarrow> command_envelope" where
  "plan_envelope command a fresh extra =
     (let plan = ap_plan a; requested = ro_execute_requested (ap_request a) in
      (envelope_ok command (Some (PlanData (sp_resolved plan) (sp_plan_digest plan) (ap_policy_decision a)
         (policy_view_of (ap_policy_explanation a) True) True requested)))
      \<lparr>ev_session_id := Some (res_session_id (sp_resolved plan)), ev_diagnostics := sp_diagnostics plan @ extra,
       ev_metrics := Some (cache_metrics fresh)\<rparr>)"

definition emit_plan_with_policy ::
  "output_env \<Rightarrow> string \<Rightarrow> authorized_execution_plan \<Rightarrow> resolution_explanation \<Rightarrow> freshness \<Rightarrow> diagnostic_record list \<Rightarrow>
   screen \<Rightarrow> (8 word) emission" where
  "emit_plan_with_policy env command a explanation fresh extra s =
     (if oe_json env then exits SUCCESS (emit_json env (plan_envelope command a fresh extra) s)
      else exits SUCCESS (then_write
        (write_lines Stdout [render_human_summary env explanation, render_human_policy_summary (ap_policy_explanation a),
           plan_only_line] s)
        (write_lines Stderr (diagnostic_lines extra))))"

definition emit_explanation_with_policy ::
  "output_env \<Rightarrow> string \<Rightarrow> authorized_execution_plan \<Rightarrow> resolution_explanation \<Rightarrow> freshness \<Rightarrow> diagnostic_record list \<Rightarrow>
   screen \<Rightarrow> (8 word) emission" where
  "emit_explanation_with_policy env command a explanation fresh extra s =
     (if oe_json env then
        exits SUCCESS (emit_json env ((plan_envelope command a fresh extra)
          \<lparr>ev_explanation := Some (ResolutionView explanation (Some (ap_policy_explanation a)))\<rparr>) s)
      else exits SUCCESS (then_write
        (write_lines Stdout [render_human_explanation explanation, render_human_policy_section (ap_policy_explanation a),
           plan_only_line] s)
        (write_lines Stderr (diagnostic_lines extra))))"

section \<open>Refusals\<close>

definition session_line :: "controller_error \<Rightarrow> string list" where
  "session_line err = (case error_session_id err of Some sid \<Rightarrow> [''session: '' @ sid] | None \<Rightarrow> [])"

definition refusal_lines :: "output_env \<Rightarrow> controller_error \<Rightarrow> sealed_execution_plan \<Rightarrow> string list" where
  "refusal_lines env err plan =
     [error_prefix env @ '': '' @ error_display err] @ session_line err @
     [''plan digest: '' @ sp_plan_digest plan,
      ''unit: '' @ res_unit_id (sp_resolved plan) @ ''  verb: '' @ res_verb (sp_resolved plan) @ ''  program: '' @
        fs_program_basename (from_plan plan) @ '' (arguments redacted)'']"

definition emit_policy_outcome ::
  "output_env \<Rightarrow> string \<Rightarrow> controller_error \<Rightarrow> rejected_policy_outcome \<Rightarrow> freshness \<Rightarrow> diagnostic_record list \<Rightarrow>
   screen \<Rightarrow> (8 word) emission" where
  "emit_policy_outcome env command err rejected fresh extra s =
     (let plan = rj_plan rejected; ex = rj_explanation rejected; code = exit_code err in
      if oe_json env then
        exits code (emit_json env ((envelope_error command code (diagnostic_code err) (error_display err))
          \<lparr>ev_session_id := error_session_id err,
           ev_data := Some (RefusalData (from_plan plan) (sp_plan_digest plan) (rj_decision rejected)
             (policy_view_of ex False) False (rj_execution_requested rejected)),
           ev_explanation := Some (PolicyOnlyView ex),
           ev_diagnostics := [\<lparr>diag_code = diagnostic_code err, diag_message = error_display err\<rparr>] @ extra,
           ev_metrics := Some (cache_metrics fresh)\<rparr>) s)
      else exits code
        (write_lines Stderr (refusal_lines env err plan @ [render_human_policy_section ex] @ diagnostic_lines extra) s))"

definition emit_policy_contract_outcome ::
  "output_env \<Rightarrow> string \<Rightarrow> controller_error \<Rightarrow> sealed_execution_plan \<Rightarrow> freshness \<Rightarrow> bool \<Rightarrow> screen \<Rightarrow> (8 word) emission" where
  "emit_policy_contract_outcome env command err plan fresh requested s =
     (let code = exit_code err;
          (policy, field) = (case err of PolicyContractFailed _ _ d \<Rightarrow> (pcd_policy_id d, pcd_field d) | _ \<Rightarrow> (None, None))
      in if oe_json env then
        exits code (emit_json env ((envelope_error command code (diagnostic_code err) (error_display err))
          \<lparr>ev_session_id := error_session_id err,
           ev_data := Some (PolicyContractData (from_plan plan) (sp_plan_digest plan) policy field False requested),
           ev_metrics := Some (cache_metrics fresh)\<rparr>) s)
      else exits code (write_lines Stderr (refusal_lines env err plan) s))"

section \<open>Errors\<close>

definition policy_explanation_from_error :: "controller_error \<Rightarrow> policy_evaluation_explanation option" where
  "policy_explanation_from_error err =
     (case err of
        PolicyDenied _ d \<Rightarrow> Some (pod_explanation d)
      | PolicyGated _ d \<Rightarrow> Some (pod_explanation d)
      | ExecutionUnavailable _ d \<Rightarrow> Some (edd_policy_explanation d)
      | ExecutionClassUnavailable _ d \<Rightarrow> Some (edd_policy_explanation d)
      | _ \<Rightarrow> None)"

definition deferred_data :: "execution_deferred_details \<Rightarrow> envelope_data" where
  "deferred_data d =
     DeferredData (edd_session_id d) (edd_plan_digest d) (edd_policy_decision d) True (edd_execution_requested d)
       (policy_view_of (edd_policy_explanation d) True)"

definition error_data :: "controller_error \<Rightarrow> envelope_data option" where
  "error_data err =
     (case err of
        ExecutionUnavailable _ d \<Rightarrow> Some (deferred_data d)
      | ExecutionClassUnavailable _ d \<Rightarrow> Some (deferred_data d)
      | PolicyContractFailed _ _ d \<Rightarrow>
          Some (ContractDetailsData (pcd_session_id d) (pcd_plan_digest d) (pcd_policy_id d) (pcd_field d))
      | _ \<Rightarrow> None)"

definition error_partial :: "controller_error \<Rightarrow> json option" where
  "error_partial err = (case err of ResolutionError _ _ _ partial \<Rightarrow> partial | _ \<Rightarrow> None)"

definition emit_error_with_explanation ::
  "output_env \<Rightarrow> string \<Rightarrow> controller_error \<Rightarrow> resolution_explanation option \<Rightarrow> freshness option \<Rightarrow> diagnostic_record list \<Rightarrow>
   screen \<Rightarrow> (8 word) emission" where
  "emit_error_with_explanation env command err explanation fresh extra s =
     (let code = exit_code err in
      if oe_json env then
        exits code (emit_json env ((envelope_error command code (diagnostic_code err) (error_display err))
          \<lparr>ev_session_id := error_session_id err, ev_data := error_data err,
           ev_explanation := (case error_partial err of Some t \<Rightarrow> Some (PartialView t)
             | None \<Rightarrow> map_option (\<lambda>ex. ResolutionView ex (policy_explanation_from_error err)) explanation),
           ev_diagnostics := [\<lparr>diag_code = diagnostic_code err, diag_message = error_display err\<rparr>] @ extra,
           ev_metrics := map_option cache_metrics fresh\<rparr>) s)
      else exits code
        (write_lines Stderr
          ([error_prefix env @ '': '' @ error_display err] @ session_line err @
           (case Option.bind (error_partial err) (oe_decode_trace env) of
              Some t \<Rightarrow> [render_human_partial_explanation t]
            | None \<Rightarrow> option_list (map_option render_human_explanation explanation)) @
           option_list (map_option render_human_policy_section (policy_explanation_from_error err)) @
           diagnostic_lines extra) s))"

definition emit_error :: "output_env \<Rightarrow> string \<Rightarrow> controller_error \<Rightarrow> screen \<Rightarrow> (8 word) emission" where
  "emit_error env command err s = emit_error_with_explanation env command err None None [] s"

section \<open>An executed command\<close>

definition executed_exit :: "execution_report \<Rightarrow> 8 word" where
  "executed_exit report =
     (if er_outcome report = ''completed'' then (case er_exit_code report of Some c \<Rightarrow> c | None \<Rightarrow> 1)
      else if er_outcome report = ''interrupted'' then
        (case er_signal report of Some name \<Rightarrow> exit_from_signal_name name | None \<Rightarrow> 128)
      else if er_outcome report = ''failed_to_spawn'' then EXECUTION_IO
      else if er_spawned report then (case er_exit_code report of Some c \<Rightarrow> c | None \<Rightarrow> EXECUTION_IO)
      else EXECUTION_IO)"

definition output_encoding :: "execution_report \<Rightarrow> string" where
  "output_encoding report =
     (let out = sum_encoding (er_stdout report); err = sum_encoding (er_stderr report) in
      if out = ''binary'' \<or> err = ''binary'' then ''binary''
      else if out = ''lossy-utf-8'' \<or> err = ''lossy-utf-8'' then ''lossy-utf-8'' else ''utf-8'')"

definition executed_envelope ::
  "string \<Rightarrow> authorized_execution_plan \<Rightarrow> freshness \<Rightarrow> execution_report \<Rightarrow> runtime_command_record \<Rightarrow>
   diagnostic_record list \<Rightarrow> command_envelope" where
  "executed_envelope command a fresh report r extra =
     (let plan = ap_plan a; exit = executed_exit report in
      \<lparr>ev_schema_version = SCHEMA_VERSION, ev_command = command, ev_session_id = Some (res_session_id (sp_resolved plan)),
       ev_status = (if exit = 0 then ''ok'' else ''error''), ev_exit_code = exit,
       ev_data = Some (ExecutedData
         \<lparr>xv_plan_digest = sp_plan_digest plan, xv_resolved_command = sp_resolved plan,
          xv_policy_decision = ap_policy_decision a, xv_policy = policy_view_of (ap_policy_explanation a) True,
          xv_started = er_spawned report, xv_pid = er_pid report, xv_outcome = er_outcome report,
          xv_exit_code = er_exit_code report, xv_signal = er_signal report,
          xv_record_kind = rc_record_kind r, xv_session_id = rc_session_id r\<rparr>),
       ev_explanation = None, ev_diagnostics = er_diagnostics report @ extra,
       ev_child = Some \<lparr>co_stdout = sum_text (er_stdout report), co_stderr = sum_text (er_stderr report),
         co_truncated = (sum_truncated (er_stdout report) \<or> sum_truncated (er_stderr report)),
         co_encoding = output_encoding report\<rparr>,
       ev_metrics = Some \<lparr>em_registry_cache = freshness_str fresh, em_output_bytes = er_emitted_output_bytes report,
         em_compressor = er_compressor report, em_gain = er_gain report\<rparr>\<rparr>)"

definition emit_executed ::
  "output_env \<Rightarrow> string \<Rightarrow> authorized_execution_plan \<Rightarrow> freshness \<Rightarrow> execution_report \<Rightarrow> runtime_command_record \<Rightarrow>
   diagnostic_record list \<Rightarrow> screen \<Rightarrow> (8 word) emission" where
  "emit_executed env command a fresh report r extra s =
     (if oe_json env then exits (executed_exit report) (emit_json env (executed_envelope command a fresh report r extra) s)
      else exits (executed_exit report) (write_lines_tolerant Stderr (diagnostic_lines (er_diagnostics report @ extra)) s))"

section \<open>A bin command\<close>

definition render_bin_policy_human :: "string \<Rightarrow> string \<Rightarrow> bool \<Rightarrow> string option \<Rightarrow> string list" where
  "render_bin_policy_human command status deferred scope =
     [''Bin: '' @ command, ''Status: '' @ status,
      (case scope of Some v \<Rightarrow> ''Scope: '' @ v | None \<Rightarrow> ''Scope: workspace-wide'')] @
     (if deferred then [''Detail: deferred_unavailable (no child spawn)''] else [])"

definition bin_status_line :: "8 word \<Rightarrow> string list" where
  "bin_status_line exit = (if exit \<noteq> 0 then [''Status: error (exit '' @ show_nat (unat exit) @ '')''] else [])"

text \<open>The members of a document that are looked up by name; a member another document has is not there.\<close>

definition document_generated_at :: "bin_document \<Rightarrow> string" where
  "document_generated_at doc =
     (case doc of InventoryDocument listing \<Rightarrow> bi_generated_at listing | CleanupDocument plan \<Rightarrow> bc_generated_at plan)"

definition inventory_lines :: "bin_document \<Rightarrow> string list" where
  "inventory_lines doc =
     (let (found, with_manifest) = (case doc of
            InventoryDocument listing \<Rightarrow> (isu_total (bi_summary listing), isu_with_manifest (bi_summary listing))
          | CleanupDocument plan \<Rightarrow> (cs_total (bc_summary plan), 0))
      in [''Generated: '' @ document_generated_at doc, ''Workflows: '' @ show_nat found,
          ''With manifests: '' @ show_nat with_manifest])"

definition cleanup_lines :: "bin_document \<Rightarrow> string list" where
  "cleanup_lines doc =
     (case doc of
        InventoryDocument listing \<Rightarrow> [''total: '' @ show_nat (isu_total (bi_summary listing))]
      | CleanupDocument plan \<Rightarrow>
          (let sm = bc_summary plan in
           [''total: '' @ show_nat (cs_total sm), ''advisory: '' @ show_nat (cs_advisory sm),
            ''would_archive: '' @ show_nat (cs_would_archive sm), ''would_delete: '' @ show_nat (cs_would_delete sm),
            ''blocked: '' @ show_nat (cs_blocked sm)]))"

text \<open>The payload is what the member of the data object holds, if there is one; \<open>Some None\<close> is the JSON null.\<close>

definition render_bin_allow_human ::
  "projection_operation \<Rightarrow> string option \<Rightarrow> bin_document option option \<Rightarrow> 8 word \<Rightarrow> string list" where
  "render_bin_allow_human op scope payload exit =
     (case op of
        BinReport \<Rightarrow>
          ''Bin inventory'' #
          (case payload of
             Some value \<Rightarrow> (case value of Some doc \<Rightarrow> inventory_lines doc | None \<Rightarrow> [])
           | None \<Rightarrow> bin_status_line exit)
      | BinCleanupReportOnly \<Rightarrow>
          [''Bin cleanup (report-only)'', ''Mode: report-only'',
           (case scope of Some v \<Rightarrow> ''Scope: '' @ v | None \<Rightarrow> ''Scope: workspace-wide'')] @
          (case Option.bind payload id of Some doc \<Rightarrow> cleanup_lines doc | None \<Rightarrow> []) @
          [''Mutation executed: false''] @ bin_status_line exit
      | _ \<Rightarrow> [''Bin: '' @ request_command_name op, ''Status: exit '' @ show_nat (unat exit)])"

text \<open>The envelope of a bin command as an envelope of the output; a refusal has no execution.\<close>

definition bin_command_envelope :: "bin_envelope \<Rightarrow> command_envelope" where
  "bin_command_envelope e =
     \<lparr>ev_schema_version = SCHEMA_VERSION, ev_command = be_command e, ev_session_id = Some (be_session_id e),
      ev_status = be_status e, ev_exit_code = be_exit_code e, ev_data = Some (BinData e), ev_explanation = None,
      ev_diagnostics = be_diagnostics e, ev_child = None, ev_metrics = None\<rparr>"

definition bin_human_lines :: "projection_operation \<Rightarrow> string option \<Rightarrow> bin_envelope \<Rightarrow> string list" where
  "bin_human_lines op scope e =
     (case be_execution e of
        None \<Rightarrow> render_bin_policy_human (be_command e) (be_status e) (be_deferred_unavailable e) scope
      | Some _ \<Rightarrow> render_bin_allow_human op scope (Some (be_payload e)) (be_exit_code e))"

definition emit_bin_outcome ::
  "output_env \<Rightarrow> projection_operation \<Rightarrow> string option \<Rightarrow> bin_envelope \<Rightarrow> screen \<Rightarrow> (controller_error, 8 word) result \<times> screen" where
  "emit_bin_outcome env op scope e s =
     (case (if oe_json env then emit_json env (bin_command_envelope e) s
            else write_text Stdout (concat (map (\<lambda>line. line @ [CHR 0x0A]) (bin_human_lines op scope e))) s) of
        (Inr _, s') \<Rightarrow> (Inr (be_exit_code e), s')
      | (Inl f, s') \<Rightarrow> (if wf_broken_pipe f then (Inr (be_exit_code e), s') else (Inl (InternalError (wf_text f)), s')))"

section \<open>Doctor\<close>

definition doctor_lines :: "doctor_report \<Rightarrow> string list" where
  "doctor_lines report =
     [''takogami doctor (controller readiness)'',
      ''scope: required build tools + registry contracts + state-home writability''] @
     map (\<lambda>c. ''  ['' @ (if dk_ok c then ''ok'' else ''fail'') @ ''] '' @ dk_name c @ '' ('' @ dk_severity c @ '') '' @
       em_dash @ '' '' @ dk_detail c) (dr_checks report) @
     [''status: '' @ (if dr_ready report then ''ready'' else ''not ready (required checks failed)'')]"

definition emit_doctor :: "output_env \<Rightarrow> doctor_report \<Rightarrow> screen \<Rightarrow> (8 word) emission" where
  "emit_doctor env report s =
     (let e = envelope_ok ''doctor'' (Some (HandlerData (DoctorData report)));
          code = (if dr_ready report then SUCCESS else INTERNAL)
      in if oe_json env then
           exits code (emit_json env
             (if dr_ready report then e else e\<lparr>ev_status := ''error'', ev_exit_code := INTERNAL\<rparr>) s)
         else exits code (write_lines Stdout (doctor_lines report) s))"

section \<open>The error of a failed write\<close>

type_synonym handled = "(controller_error, 8 word) result \<times> screen"

definition lift_io :: "(8 word) emission \<Rightarrow> handled" where
  "lift_io r = map_prod (map_err (\<lambda>f. InternalError (wf_text f))) id r"

end
