(* ===== verification/Command_Line.thy ===== *)
theory Command_Line
  imports Bin_Dispatch
begin

text \<open>
  The commands of the controller and their names (\<open>cli/mod.rs\<close>). The parser of the arguments is a library; a
  command is what it hands over.
\<close>

datatype list_target = ListUnits | ListTools
datatype graph_format = JsonFormat | DotFormat | TextFormat
datatype session_command = SessionList "nat option" | SessionShow string | SessionLatest

datatype command =
    ScanCommand bool
  | ListCommand list_target "string list"
  | InfoCommand string
  | DoctorCommand
  | ToolsCommand
  | InterfacesCommand bool
  | DevCommand string bool bool
  | BuildCommand string bool bool
  | CheckCommand string bool bool
  | GraphCommand graph_format
  | BinCommand bin_command
  | SessionCommand session_command

fun command_name :: "command \<Rightarrow> string" where
  "command_name (ScanCommand _) = ''scan''"
| "command_name (ListCommand _ _) = ''list''"
| "command_name (InfoCommand _) = ''info''"
| "command_name DoctorCommand = ''doctor''"
| "command_name ToolsCommand = ''tools''"
| "command_name (InterfacesCommand _) = ''interfaces''"
| "command_name (DevCommand _ _ _) = ''dev''"
| "command_name (BuildCommand _ _ _) = ''build''"
| "command_name (CheckCommand _ _ _) = ''check''"
| "command_name (GraphCommand _) = ''graph''"
| "command_name (BinCommand _) = ''bin''"
| "command_name (SessionCommand _) = ''session''"

fun graph_format_str :: "graph_format \<Rightarrow> string" where
  "graph_format_str JsonFormat = ''json''"
| "graph_format_str DotFormat = ''dot''"
| "graph_format_str TextFormat = ''text''"

definition lifecycle_name :: "string \<Rightarrow> string \<Rightarrow> bool \<Rightarrow> bool \<Rightarrow> string" where
  "lifecycle_name verb unit_id explain execute =
     join '' '' ([verb @ '' '' @ unit_id] @ (if explain then [''--explain''] else []) @ (if execute then [''--execute''] else []))"

fun qualified_name :: "command \<Rightarrow> string" where
  "qualified_name (ScanCommand refresh) = (if refresh then ''scan --refresh'' else ''scan'')"
| "qualified_name (ListCommand target _) = (case target of ListUnits \<Rightarrow> ''list units'' | ListTools \<Rightarrow> ''list tools'')"
| "qualified_name (InfoCommand unit_id) = ''info '' @ unit_id"
| "qualified_name DoctorCommand = ''doctor''"
| "qualified_name ToolsCommand = ''tools''"
| "qualified_name (InterfacesCommand validating) = (if validating then ''interfaces validate'' else ''interfaces'')"
| "qualified_name (DevCommand unit_id explain execute) = lifecycle_name ''dev'' unit_id explain execute"
| "qualified_name (BuildCommand unit_id explain execute) = lifecycle_name ''build'' unit_id explain execute"
| "qualified_name (CheckCommand unit_id explain execute) = lifecycle_name ''check'' unit_id explain execute"
| "qualified_name (GraphCommand format) = ''graph --format '' @ graph_format_str format"
| "qualified_name (BinCommand sub) =
     (case sub of
        BinReportCommand \<Rightarrow> ''bin report''
      | BinCleanupCommand mode _ \<Rightarrow> ''bin cleanup --mode '' @ bin_cleanup_mode_str mode)"
| "qualified_name (SessionCommand sub) =
     (case sub of
        SessionList _ \<Rightarrow> ''session list''
      | SessionShow sid \<Rightarrow> ''session show '' @ sid
      | SessionLatest \<Rightarrow> ''session latest'')"

fun lifecycle_parts :: "command \<Rightarrow> (lifecycle_verb \<times> string \<times> bool \<times> bool) option" where
  "lifecycle_parts (DevCommand unit_id explain execute) = Some (Dev, unit_id, explain, execute)"
| "lifecycle_parts (BuildCommand unit_id explain execute) = Some (Build, unit_id, explain, execute)"
| "lifecycle_parts (CheckCommand unit_id explain execute) = Some (Check, unit_id, explain, execute)"
| "lifecycle_parts _ = None"

end
