(* ===== verification/Query_Commands.thy ===== *)
theory Query_Commands
  imports Output_Sink Command_Line Registry_Query
begin

text \<open>
  The commands that only read (\<open>commands.rs\<close>, \<open>doctor.rs\<close>, \<open>registry/adapters.rs\<close>): graph, session, scan, list,
  info, tools, interfaces and doctor. Each looks up what its component provides and emits it; none runs a child of
  its own but the three external tools with literal arguments, and none writes a record but the recovery of an
  abandoned one.
\<close>

section \<open>The world of a query\<close>

record adapter_output =
  ao_success :: bool
  ao_stdout :: string
  ao_stderr :: string

datatype home_probe = CannotCreate string | CannotWrite string | Writable

text \<open>
  \<open>qw_refreshed_fs\<close> is the file system after an external tool has run, \<open>qw_spawn\<close> what the operating system
  answers to its start, \<open>qw_key_order\<close> the order in which a hash map is iterated; the texts of errors and the
  encoders of JSON are parameters, the latter with the error they may return.
\<close>

record query_world =
  qw_env :: registry_env
  qw_fs :: sfsys
  qw_refreshed_fs :: sfsys
  qw_current_dir :: "(io_error, path) result"
  qw_var_registry :: "string option"
  qw_var_workspace :: "string option"
  qw_key_order :: "string list \<Rightarrow> string list"
  qw_spawn :: "path \<Rightarrow> string \<Rightarrow> string list \<Rightarrow> (string, adapter_output) result"
  qw_read_json :: "string \<Rightarrow> json option"
  qw_cli_profile :: "string option"
  qw_env_profile :: "string option"
  qw_home :: state_home_inputs
  qw_path_var :: "string option"
  qw_probe :: "path \<Rightarrow> home_probe"
  qw_open_store :: "path \<Rightarrow> (store_error, unit) result"
  qw_listing :: "path \<Rightarrow> listing"
  qw_recovery :: recovery_env
  qw_reason_text :: "contract_reason \<Rightarrow> string"
  qw_io_text :: "io_error \<Rightarrow> string"
  qw_time_text :: "ts_error \<Rightarrow> string"
  qw_record_value :: "runtime_command_record \<Rightarrow> (string, unit) result"
  qw_graph_env :: graph_env
  qw_graph_value :: "graph_document \<Rightarrow> (string, unit) result"
  qw_graph_pretty :: "graph_document \<Rightarrow> (string, string) result"

definition registry_view :: "query_world \<Rightarrow> rfsys" where
  "registry_view w = rfsys.truncate (qw_fs w)"

definition access :: "query_world \<Rightarrow> (controller_error, registry_paths) result" where
  "access w = resolve_registry_paths (qw_env w) (registry_view w) (qw_current_dir w) (qw_var_registry w) (qw_var_workspace w)"

section \<open>External tools\<close>






section \<open>Answers\<close>















section \<open>Interfaces\<close>





section \<open>Graph\<close>







section \<open>Sessions\<close>











section \<open>Doctor\<close>

definition REQUIRED_TOOLS :: "string list" where "REQUIRED_TOOLS = [''cargo'', ''rustc'', ''moon'']"
definition OPTIONAL_TOOLS :: "string list" where "OPTIONAL_TOOLS = [''rtk'', ''tmux'', ''herdr'']"

definition which_in_path :: "rfsys \<Rightarrow> string \<Rightarrow> string \<Rightarrow> bool" where
  "which_in_path fs tool path_var =
     list_ex (\<lambda>dir. path_is_file fs (path_join (components dir) (components tool)))
       (filter (\<lambda>d. d \<noteq> []) (split_on (CHR '':'') path_var))"

definition check_state_home_writable :: "query_world \<Rightarrow> path \<Rightarrow> bool \<times> string" where
  "check_state_home_writable w home =
     (case qw_probe w home of
        CannotCreate e \<Rightarrow> (False, ''cannot create '' @ path_display home @ '': '' @ e)
      | CannotWrite e \<Rightarrow> (False, ''cannot write probe under '' @ path_display home @ '': '' @ e)
      | Writable \<Rightarrow> (True, ''writable at '' @ path_display home @ '' (probe removed; no session record)''))"

definition tool_check :: "query_world \<Rightarrow> string \<Rightarrow> string \<Rightarrow> string \<Rightarrow> doctor_check" where
  "tool_check w severity missing tool =
     (let found = which_in_path (registry_view w) tool (case qw_path_var w of Some p \<Rightarrow> p | None \<Rightarrow> []) in
      \<lparr>dk_name = tool, dk_ok = found,
       dk_detail = (if found then ''found on PATH ('' @ severity @ '')'' else ''not found on PATH ('' @ missing @ '')''),
       dk_severity = severity\<rparr>)"

definition run_doctor :: "query_world \<Rightarrow> registry_paths option \<Rightarrow> doctor_report" where
  "run_doctor w registry =
     (let required = map (tool_check w ''required'' ''required'') REQUIRED_TOOLS;
          (registry_ok, registry_detail) = (case registry of
            Some paths \<Rightarrow> contracts_readable (qw_env w) (registry_view w) paths
          | None \<Rightarrow> (False, ''registry access not configured''));
          home = resolve_session_state_home ((qw_home w)\<lparr>sh_profile_session_state_home := None\<rparr>);
          (state_ok, state_detail) = check_state_home_writable w home;
          optional = map (tool_check w ''optional'' (''optional '' @ em_dash @ '' not required'')) OPTIONAL_TOOLS
      in \<lparr>dr_scope = ''controller_readiness'', dr_registry_readiness = registry_ok, dr_session_readiness = False,
          dr_rtk_readiness = list_ex (\<lambda>c. dk_name c = ''rtk'' \<and> dk_ok c) optional,
          dr_ready = (list_all dk_ok required \<and> registry_ok \<and> state_ok),
          dr_checks = required @
            [\<lparr>dk_name = ''registry_contracts'', dk_ok = registry_ok, dk_detail = registry_detail, dk_severity = ''required''\<rparr>,
             \<lparr>dk_name = ''state_home_writable'', dk_ok = state_ok, dk_detail = state_detail, dk_severity = ''required''\<rparr>] @
            optional\<rparr>)"

definition doctor_command :: "output_env \<Rightarrow> query_world \<Rightarrow> screen \<Rightarrow> handled" where
  "doctor_command env w s =
     lift_io (emit_doctor env (run_doctor w (case access w of Inr paths \<Rightarrow> Some paths | Inl _ \<Rightarrow> None)) s)"

section \<open>What doctor answers\<close>

lemma write_lines_open:
  assumes "sc_outcomes s = []"
  shows "\<exists>s'. write_lines stream lines s = (Inr (), s')"
  using assms
proof (induction lines arbitrary: s)
  case (Cons line lines)
  then show ?case by (simp add: write_text_def put_def split: std_stream.splits)
qed simp

lemma emit_doctor_written:
  assumes "sc_outcomes s = []" and "\<forall>e. \<exists>line. oe_encode env e = Inr line"
  shows "fst (lift_io (emit_doctor env report s)) = Inr (if dr_ready report then 0 else 1)"
proof -
  have json: "fst (emit_json env e s) = Inr ()" for e
  proof -
    obtain line where "oe_encode env e = Inr line" using assms(2) by blast
    then show ?thesis using write_lines_open [OF assms(1), of Stdout "[line]"] by (auto simp: emit_json_def)
  qed
  have human: "fst (write_lines Stdout lines s) = Inr ()" for lines
    using write_lines_open [OF assms(1), of Stdout lines] by auto
  have "fst r = Inr () \<Longrightarrow> fst (lift_io (exits code r)) = Inr code" for r code
    by (cases r) (simp add: lift_io_def exits_def then_write_def)
  then show ?thesis
    by (simp add: emit_doctor_def Let_def json human) (simp add: SUCCESS_def INTERNAL_def)
qed

lemma which_in_path_iff:
  "which_in_path fs tool path_var \<longleftrightarrow>
     (\<exists>dir \<in> set (split_on (CHR '':'') path_var). dir \<noteq> [] \<and> path_is_file fs (path_join (components dir) (components tool)))"
  by (auto simp: which_in_path_def list_ex_iff)

lemma contracts_readable_iff:
  "fst (contracts_readable env fs paths) \<longleftrightarrow>
     path_exists fs (file_path paths Units) \<and>
     (\<exists>text doc. read_to_string fs (file_path paths Units) = Inr text \<and> rv_units env text = Inr doc)"
  by (cases "read_to_string fs (file_path paths Units)")
    (auto simp: contracts_readable_def Let_def result_simps split: sum.split)

lemma check_state_home_writable_iff: "fst (check_state_home_writable w home) \<longleftrightarrow> qw_probe w home = Writable"
  by (cases "qw_probe w home") (simp_all add: check_state_home_writable_def)

lemma tool_check_fields:
  "dk_severity (tool_check w severity missing tool) = severity"
  "dk_ok (tool_check w severity missing tool) \<longleftrightarrow>
     which_in_path (registry_view w) tool (case qw_path_var w of Some p \<Rightarrow> p | None \<Rightarrow> [])"
  by (simp_all add: tool_check_def Let_def)

text \<open>The checks of a report, with what each depends on.\<close>

lemma run_doctor_checks:
  "dr_ready (run_doctor w registry) \<longleftrightarrow>
     (\<forall>tool \<in> set REQUIRED_TOOLS. which_in_path (registry_view w) tool (case qw_path_var w of Some p \<Rightarrow> p | None \<Rightarrow> [])) \<and>
     (\<exists>paths. registry = Some paths \<and> fst (contracts_readable (qw_env w) (registry_view w) paths)) \<and>
     fst (check_state_home_writable w (resolve_session_state_home ((qw_home w)\<lparr>sh_profile_session_state_home := None\<rparr>)))"
  "dr_ready (run_doctor w registry) \<longleftrightarrow> (\<forall>c \<in> set (dr_checks (run_doctor w registry)). dk_severity c = ''required'' \<longrightarrow> dk_ok c)"
  by (auto simp: run_doctor_def Let_def list_all_iff image_iff ball_Un tool_check_fields split: prod.splits option.splits)

text \<open>
  C35: doctor is ready exactly when the controller can work. The process ends with zero, on a terminal that can be
  written to, exactly when cargo, rustc and moon are regular files in directories of PATH, the registry of units can be
  found, read and decoded, and the state home takes a file; equivalently, when no check it shows as required
  failed. No optional tool has a part in it.
\<close>

theorem doctor_ready_iff:
  assumes "sc_outcomes s = []" and "\<forall>e. \<exists>line. oe_encode env e = Inr line"
  shows "(fst (doctor_command env w s) = Inr 0 \<longleftrightarrow>
      (\<forall>tool \<in> {''cargo'', ''rustc'', ''moon''}. \<exists>dir \<in> set (split_on (CHR '':'') (case qw_path_var w of Some p \<Rightarrow> p | None \<Rightarrow> [])).
         dir \<noteq> [] \<and> path_is_file (registry_view w) (path_join (components dir) (components tool))) \<and>
      (\<exists>paths text doc. access w = Inr paths \<and> path_exists (registry_view w) (file_path paths Units) \<and>
         read_to_string (registry_view w) (file_path paths Units) = Inr text \<and> rv_units (qw_env w) text = Inr doc) \<and>
      qw_probe w (resolve_session_state_home ((qw_home w)\<lparr>sh_profile_session_state_home := None\<rparr>)) = Writable) \<and>
    (fst (doctor_command env w s) = Inr 0 \<longleftrightarrow>
      (\<forall>c \<in> set (dr_checks (run_doctor w (case access w of Inr paths \<Rightarrow> Some paths | Inl _ \<Rightarrow> None))).
         dk_severity c = ''required'' \<longrightarrow> dk_ok c))"
proof -
  let ?registry = "case access w of Inr paths \<Rightarrow> Some paths | Inl _ \<Rightarrow> None"
  have exit: "fst (doctor_command env w s) = Inr 0 \<longleftrightarrow> dr_ready (run_doctor w ?registry)"
    using emit_doctor_written [OF assms] by (simp add: doctor_command_def)
  have found: "(\<exists>paths. ?registry = Some paths \<and> P paths) \<longleftrightarrow> (\<exists>paths. access w = Inr paths \<and> P paths)" for P
    by (cases "access w") simp_all
  show ?thesis
    unfolding exit run_doctor_checks(2) [symmetric]
    by (simp add: run_doctor_checks(1) found which_in_path_iff contracts_readable_iff check_state_home_writable_iff REQUIRED_TOOLS_def)
qed

section \<open>Every query\<close>













section \<open>Examples\<close>

text \<open>A machine with an empty registry, on which every path is a regular file.\<close>

definition bare_query_world :: query_world where
  "bare_query_world =
     \<lparr>qw_env = sample_registry_env\<lparr>rv_units := (\<lambda>_. Inr
        \<lparr>ud_generated_at = [], ud_registry_generation = None, ud_summary = JNull, ud_units = []\<rparr>)\<rparr>, qw_fs = flat_fs, qw_refreshed_fs = flat_fs, qw_current_dir = Inr [RootDir],
      qw_var_registry = Some ''/reg'', qw_var_workspace = Some ''/ws'', qw_key_order = id, qw_spawn = (\<lambda>_ _ _. Inl []),
      qw_read_json = (\<lambda>_. None), qw_cli_profile = None, qw_env_profile = None,
      qw_home = \<lparr>sh_cli_state_home = None, sh_env_takogami_state_home = None, sh_profile_session_state_home = None,
        sh_env_xdg_state_home = None, sh_home_dir = None\<rparr>,
      qw_path_var = Some ''/bin'', qw_probe = (\<lambda>_. Writable), qw_open_store = (\<lambda>_. Inr ()),
      qw_listing = (\<lambda>_. \<lparr>root_exists = False, read_dir = Inr []\<rparr>),
      qw_recovery = \<lparr>env_now = (\<lambda>_. 0), env_fault = (\<lambda>_. None)\<rparr>, qw_reason_text = (\<lambda>_. []), qw_io_text = (\<lambda>_. []),
      qw_time_text = (\<lambda>_. []), qw_record_value = (\<lambda>_. Inr ()), qw_graph_env = sample_graph_env,
      qw_graph_value = (\<lambda>_. Inr ()), qw_graph_pretty = (\<lambda>_. Inr [])\<rparr>"

definition plain_output :: output_env where
  "plain_output = \<lparr>oe_json = True, oe_no_color = True, oe_encode = (\<lambda>_. Inr ''{}''), oe_debug_args = (\<lambda>_. []),
     oe_decode_trace = (\<lambda>_. None)\<rparr>"

definition open_screen :: screen where
  "open_screen = \<lparr>sc_stdout = [], sc_stderr = [], sc_outcomes = []\<rparr>"

theorem doctor_ready_iff_witness: "fst (doctor_command plain_output bare_query_world open_screen) = Inr 0"
proof -
  have "sc_outcomes open_screen = []" "\<forall>e. \<exists>line. oe_encode plain_output e = Inr line"
    by (simp_all add: open_screen_def plain_output_def)
  moreover have "\<forall>c \<in> set (dr_checks (run_doctor bare_query_world
      (case access bare_query_world of Inr paths \<Rightarrow> Some paths | Inl _ \<Rightarrow> None))). dk_severity c = ''required'' \<longrightarrow> dk_ok c"
    by code_simp
  ultimately show ?thesis using doctor_ready_iff [of open_screen plain_output bare_query_world] by blast
qed

end
