(* ===== verification/Controller_Main.thy ===== *)
theory Controller_Main
  imports Query_Commands Bin_Recording
begin

text \<open>
  From a command to the exit code of the process (\<open>app.rs\<close>, \<open>cli/mod.rs\<close>, \<open>main.rs\<close>): the response of a
  coordinator is emitted, an error it returns is emitted instead, and what cannot be emitted ends the process
  with a failure.
\<close>

section \<open>The emission of a response\<close>

definition emit_response :: "output_env \<Rightarrow> string \<Rightarrow> response \<Rightarrow> screen \<Rightarrow> handled" where
  "emit_response env command resp s =
     (case resp of
        Failed err \<Rightarrow> (Inl err, s)
      | ErrorEmitted err explanation fresh extra \<Rightarrow>
          lift_io (emit_error_with_explanation env command err explanation fresh extra s)
      | PolicyEmitted err rejected fresh extra \<Rightarrow> lift_io (emit_policy_outcome env command err rejected fresh extra s)
      | PolicyContractEmitted err plan fresh requested \<Rightarrow>
          lift_io (emit_policy_contract_outcome env command err plan fresh requested s)
      | PlanEmitted a explanation fresh extra \<Rightarrow> lift_io (emit_plan_with_policy env command a explanation fresh extra s)
      | ExplanationEmitted a explanation fresh extra \<Rightarrow>
          lift_io (emit_explanation_with_policy env command a explanation fresh extra s)
      | ExecutedEmitted a explanation fresh report r extra \<Rightarrow>
          lift_io (emit_executed env command a fresh report r extra s)
      | EnvelopeEmitted op scope e \<Rightarrow> emit_bin_outcome env op (map_option vs_normalized scope) e s)"

text \<open>The end of \<open>dispatch\<close>: an error the handler returned is emitted under the name of the command.\<close>

definition finish_dispatch :: "output_env \<Rightarrow> string \<Rightarrow> handled \<Rightarrow> handled" where
  "finish_dispatch env command r =
     (case r of
        (Inr code, s) \<Rightarrow> (Inr code, s)
      | (Inl err, s) \<Rightarrow> lift_io (emit_error env command err s))"

definition process_exit :: "(controller_error, 8 word) result \<Rightarrow> 8 word" where
  "process_exit r = (case r of Inr code \<Rightarrow> code | Inl _ \<Rightarrow> 1)"

definition respond :: "output_env \<Rightarrow> string \<Rightarrow> screen \<Rightarrow> lifecycle_outcome \<Rightarrow> handled \<times> store \<times> lifecycle_event list \<times> console" where
  "respond env command s result =
     (case result of (resp, st, events, con) \<Rightarrow> (finish_dispatch env command (emit_response env command resp s), st, events, con))"

definition lifecycle_process ::
  "output_env \<Rightarrow> executor \<Rightarrow> lifecycle_world \<Rightarrow> resolution_request \<Rightarrow> store \<Rightarrow> console \<Rightarrow> screen \<Rightarrow>
   (handled \<times> store \<times> lifecycle_event list \<times> console) option" where
  "lifecycle_process env executor w request st con s =
     map_option (respond env (verb_str (rr_verb request)) s) (run_lifecycle_with_executor executor w request st con)"


section \<open>The dispatch\<close>








section \<open>Writing\<close>



text \<open>The exit code an emission may end with: the one it was given, or one of a failure.\<close>

lemma lift_io_exits_cases:
  obtains (emitted) s where "lift_io (exits code r) = (Inr code, s)"
  | (broken) m s where "lift_io (exits code r) = (Inl (InternalError m), s)"
  by (cases r; cases "fst r") (auto simp: lift_io_def exits_def then_write_def intro: that)

definition response_exit :: "response \<Rightarrow> 8 word" where
  "response_exit resp =
     (case resp of
        Failed err \<Rightarrow> exit_code err
      | ErrorEmitted err _ _ _ \<Rightarrow> exit_code err
      | PolicyEmitted err _ _ _ \<Rightarrow> exit_code err
      | PolicyContractEmitted err _ _ _ \<Rightarrow> exit_code err
      | PlanEmitted _ _ _ _ \<Rightarrow> SUCCESS
      | ExplanationEmitted _ _ _ _ \<Rightarrow> SUCCESS
      | ExecutedEmitted _ _ _ report _ _ \<Rightarrow> executed_exit report
      | EnvelopeEmitted _ _ e \<Rightarrow> be_exit_code e)"

lemma exit_code_nonzero [simp]: "exit_code err \<noteq> 0"
  by (cases err) (simp_all add: exit_code_defs)

lemma emit_bin_outcome_cases:
  "(\<exists>s'. emit_bin_outcome env op scope e s = (Inr (be_exit_code e), s')) \<or>
   (\<exists>m s'. emit_bin_outcome env op scope e s = (Inl (InternalError m), s'))"
  by (auto simp: emit_bin_outcome_def simp del: split_paired_Ex split: prod.split sum.split)

text \<open>
  Every response is emitted with its own exit code, and what goes wrong on the way never turns it into a success.
\<close>

lemma emit_exits:
  "\<exists>r. lift_io (emit_error_with_explanation env command err explanation fresh extra s) = lift_io (exits (exit_code err) r)"
  "\<exists>r. lift_io (emit_policy_outcome env command err rejected cached extra s) = lift_io (exits (exit_code err) r)"
  "\<exists>r. lift_io (emit_policy_contract_outcome env command err plan cached requested s) = lift_io (exits (exit_code err) r)"
  "\<exists>r. lift_io (emit_plan_with_policy env command a ex cached extra s) = lift_io (exits SUCCESS r)"
  "\<exists>r. lift_io (emit_explanation_with_policy env command a ex cached extra s) = lift_io (exits SUCCESS r)"
  "\<exists>r. lift_io (emit_executed env command a cached report rec extra s) = lift_io (exits (executed_exit report) r)"
  unfolding emit_error_with_explanation_def emit_policy_outcome_def emit_policy_contract_outcome_def
    emit_plan_with_policy_def emit_explanation_with_policy_def emit_executed_def Let_def
  by (cases "oe_json env"; simp only: if_True if_False split: prod.split; blast)+

text \<open>Every response is lifted from an emission with its exit code, but for an error that is passed on and a bin envelope.\<close>

lemma emit_response_lifted:
  "(\<exists>err. resp = Failed err) \<or> (\<exists>op scope e. resp = EnvelopeEmitted op scope e) \<or>
   (\<exists>r. emit_response env command resp s = lift_io (exits (response_exit resp) r))"
  by (cases resp) (simp_all add: emit_response_def response_exit_def del: split_paired_Ex, (rule emit_exits)+)

lemma emit_response_cases:
  obtains (emitted) s' where "emit_response env command resp s = (Inr (response_exit resp), s')"
  | (broken) err s' where "emit_response env command resp s = (Inl err, s')" "resp = Failed err \<or> (\<exists>m. err = InternalError m)"
proof -
  consider (failed) err where "resp = Failed err" | (bin) op scope e where "resp = EnvelopeEmitted op scope e"
    | (lifted) r where "emit_response env command resp s = lift_io (exits (response_exit resp) r)"
    using emit_response_lifted by blast
  then show thesis
  proof cases
    case (failed err)
    then show thesis using broken by (simp add: emit_response_def)
  next
    case (bin op scope e)
    then show thesis
      using emitted broken emit_bin_outcome_cases [of env op "map_option vs_normalized scope" e s]
      by (auto simp: emit_response_def response_exit_def)
  next
    case (lifted r)
    then show thesis by (cases rule: lift_io_exits_cases [of "response_exit resp" r]) (use emitted broken in auto)
  qed
qed

lemma finish_zero:
  assumes "process_exit (fst (finish_dispatch env command (emit_response env command resp s))) = 0"
  shows "response_exit resp = 0"
proof (cases rule: emit_response_cases [of env command resp s])
  case (emitted s')
  then show ?thesis using assms by (simp add: finish_dispatch_def process_exit_def)
next
  case (broken err s')
  have "lift_io (emit_error env command err s') = lift_io (exits (exit_code err) r) \<Longrightarrow> False" for r
    using assms broken(1)
    by (cases rule: lift_io_exits_cases [of "exit_code err" r]) (simp_all add: finish_dispatch_def process_exit_def)
  moreover have "\<exists>r. lift_io (emit_error env command err s') = lift_io (exits (exit_code err) r)"
    unfolding emit_error_def by (rule emit_exits)
  ultimately show ?thesis by blast
qed

section \<open>The response of a lifecycle command\<close>

text \<open>The responses of a command that was not executed, and of one that was.\<close>

fun is_error_response :: "response \<Rightarrow> bool" where
  "is_error_response (Failed _) = True"
| "is_error_response (ErrorEmitted _ _ _ _) = True"
| "is_error_response (PolicyEmitted _ _ _ _) = True"
| "is_error_response (PolicyContractEmitted _ _ _ _) = True"
| "is_error_response _ = False"

fun is_plan_response :: "response \<Rightarrow> bool" where
  "is_plan_response (PlanEmitted _ _ _ _) = True"
| "is_plan_response (ExplanationEmitted _ _ _ _) = True"
| "is_plan_response _ = False"

definition executed_response ::
  "executor \<Rightarrow> authorized_execution_plan \<Rightarrow> console \<Rightarrow> response \<Rightarrow> lifecycle_event list \<Rightarrow> console \<Rightarrow> bool" where
  "executed_response execute a con resp events con' \<longleftrightarrow>
     (\<exists>explanation fresh report r extra effects options pending t.
        resp = ExecutedEmitted a explanation fresh report r extra \<and> last events = RecordWritten r \<and>
        ChildRun effects \<in> set events \<and> execute a options con = Some (report, effects, con') \<and>
        r = final_record pending report t)"

lemma conclude_response:
  assumes "conclude w success a lock pending report extra con st events = Some (resp, st', events', con')"
  shows "con' = con \<and> (is_error_response resp \<or>
    (\<exists>explanation fresh r t. resp = ExecutedEmitted a explanation fresh report r extra \<and>
       events' = events @ [RecordWritten r] \<and> r = final_record pending report t))"
  using assms by (auto simp: conclude_def then_written_def Let_def split: if_splits prod.splits sum.splits)

lemma record_start_response:
  assumes "record_start w lock pending report con st events rest = Some (resp, st', events', con')"
  shows "is_error_response resp \<or> (\<exists>p st1 more. rest p st1 (events @ more) = Some (resp, st', events', con'))"
proof -
  consider "rest pending st (events @ []) = Some (resp, st', events', con')"
    | pid where "then_written w (write_final (lw_faults w 1) st (started_record pending pid) lock) (started_record pending pid)
        events con (rest (started_record pending pid)) = Some (resp, st', events', con')"
    using assms by (auto simp: record_start_def Let_def split: bool.splits option.splits)
  then show ?thesis
  proof cases
    case 1
    then show ?thesis by blast
  next
    case 2
    then show ?thesis by (auto simp: then_written_def split: prod.splits sum.splits)
  qed
qed

lemma execute_and_record_response:
  assumes "execute_and_record execute w request success a home ctx ctx_diag extra st con = Some (resp, st', events, con')"
  shows "is_error_response resp \<or> executed_response execute a con resp events con'"
proof -
  define pending where "pending = (base_record_from_authorized (lw_clock w 0) (lw_clock w 1) a (verb_str (rr_verb request))
    True ''pending'' True ctx ctx_diag)\<lparr>rc_ended_at := None\<rparr>"
  let ?options = "lifecycle_options w (pin_profile (rs_policy_input success))"
  have "is_error_response resp \<or> (\<exists>lock st1 report effects con1. execute a ?options con = Some (report, effects, con1) \<and>
      record_start w lock pending report con1 st1 [RecordWritten pending, ChildRun effects] (\<lambda>pending st2 events.
        conclude w success a lock pending report extra con1 st2 events) = Some (resp, st', events, con'))"
    using assms unfolding execute_and_record_def Let_def pending_def [symmetric]
    by (auto simp: then_written_def split: sum.splits prod.splits option.splits)
  then show ?thesis
  proof (elim disjE exE conjE)
    fix lock st1 report effects con1
    assume run: "execute a ?options con = Some (report, effects, con1)"
      and start: "record_start w lock pending report con1 st1 [RecordWritten pending, ChildRun effects] (\<lambda>pending st2 events.
        conclude w success a lock pending report extra con1 st2 events) = Some (resp, st', events, con')"
    from record_start_response [OF start] show ?thesis
    proof (elim disjE exE)
      fix p st2 more
      assume "conclude w success a lock p report extra con1 st2 ([RecordWritten pending, ChildRun effects] @ more) =
        Some (resp, st', events, con')"
      from conclude_response [OF this] run show ?thesis by (auto simp: executed_response_def) blast
    qed simp
  qed simp
qed

lemma terminal_response_result:
  "terminal_response w home st r resp con = (resp', st', events, con') \<Longrightarrow>
     con' = con \<and> (is_error_response resp' \<or> resp' = resp \<and> events = [RecordWritten r])"
  by (auto simp: terminal_response_def split: prod.splits sum.splits)

text \<open>Every response is an error, a plan that was only shown, or a run of the authorised plan.\<close>

lemma lifecycle_response:
  assumes "run_lifecycle_with_executor execute w request st con = Some (resp, st', events, con')"
  shows "is_error_response resp \<or>
    (\<exists>success a. resolve (lw_to_value w) (lw_inputs w) request = Inr success \<and>
       evaluate_policy (lw_policy_env w) (rs_policy_input success) = Authorized a \<and>
       (if rr_execute_requested request then executed_response execute a con resp events con'
        else is_plan_response resp \<and> con' = con \<and> (\<exists>r. events = [RecordWritten r] \<and> ex_outcome (rc_execution r) = ''planned'')))"
proof -
  obtain ctx ctx_diag where ctx: "collect_runtime_context (lw_context_env w) = (ctx, ctx_diag)" by fastforce
  note run = assms [unfolded run_lifecycle_with_executor_def Let_def ctx prod.case]
  show ?thesis
  proof (cases "resolve (lw_to_value w) (lw_inputs w) request")
    case (Inl err)
    then show ?thesis using run by auto
  next
    case success: (Inr success)
    let ?home = "state_home_for w (pin_profile (rs_policy_input success))"
    show ?thesis
    proof (cases "evaluate_policy (lw_policy_env w) (rs_policy_input success)")
      case (ContractFailure err)
      then show ?thesis using run success by auto
    next
      case (Rejected rejected)
      have "rejected_response w request success rejected ?home ctx (option_list ctx_diag) st con = (resp, st', events, con')"
        using run success Rejected by simp
      then have "is_error_response resp"
        unfolding rejected_response_def Let_def
        by (auto split: policy_decision.splits dest!: terminal_response_result)
      then show ?thesis ..
    next
      case (Authorized a)
      have resp: "authorized_response execute w request success a ?home ctx ctx_diag (option_list ctx_diag) st con =
          Some (resp, st', events, con')"
        using run success Authorized by simp
      consider (unavailable) "is_error_response resp"
        | (executed) "rr_execute_requested request"
          "execute_and_record execute w request success a ?home ctx ctx_diag (option_list ctx_diag) st con = Some (resp, st', events, con')"
        | (planned) r resp0 where "\<not> rr_execute_requested request" "is_plan_response resp0" "ex_outcome (rc_execution r) = ''planned''"
          "terminal_response w ?home st r resp0 con = (resp, st', events, con')"
      proof (cases "res_execution_class (sp_resolved (rs_plan success)) = Direct")
        case False
        then obtain r err x y z where
          "terminal_response w ?home st r (ErrorEmitted err x y z) con = (resp, st', events, con')"
          using resp unfolding authorized_response_def Let_def by auto
        then show thesis using terminal_response_result unavailable by fastforce
      next
        case True
        let ?plan = "if rr_explain request
          then ExplanationEmitted a (rs_explanation success) (rs_freshness success) (option_list ctx_diag)
          else PlanEmitted a (rs_explanation success) (rs_freshness success) (option_list ctx_diag)"
        let ?r = "base_record_from_authorized (lw_clock w 0) (lw_clock w 1) a (verb_str (rr_verb request)) False ''planned'' True
          ctx ctx_diag"
        have "is_plan_response ?plan" "ex_outcome (rc_execution ?r) = ''planned''"
          by (simp_all add: base_record_from_authorized_def Let_def)
        then show thesis
          using resp True executed planned [of ?plan ?r] unfolding authorized_response_def Let_def
          by (cases "rr_execute_requested request") (simp_all del: One_nat_def)
      qed
      then show ?thesis
      proof cases
        case unavailable
        then show ?thesis ..
      next
        case executed
        then show ?thesis using execute_and_record_response [OF executed(2)] success Authorized by auto
      next
        case (planned r resp0)
        then show ?thesis using terminal_response_result [OF planned(4)] success Authorized by auto
      qed
    qed
  qed
qed

section \<open>Success means success\<close>

lemma error_response_exit: "is_error_response resp \<Longrightarrow> response_exit resp \<noteq> 0"
  by (cases resp) (simp_all add: response_exit_def)

lemma exit_from_signal_name_nonzero: "exit_from_signal_name name \<noteq> 0"
  by (simp add: exit_from_signal_name_def exit_from_signal_number_def saturating_add_i32_def Let_def)

lemma executed_exit_zero:
  assumes "report_shape report" and "executed_exit report = 0"
  shows "er_spawned report \<and> er_outcome report = ''completed'' \<and> er_exit_code report = Some 0"
  using assms exit_from_signal_name_nonzero
  by (auto simp: report_shape_def executed_exit_def EXECUTION_IO_def split: option.splits if_splits)

text \<open>
  C12: a process that ends with zero did what it was asked. Whatever the disk, the child, the operating system and
  the terminal do: when a lifecycle command ends with exit code zero, its plan was resolved and authorised;
  without a request to execute, nothing was run and the one record written says that it was planned; with one,
  the authorised program was started, the child ended by itself with zero, and the last record that was
  written says that it completed with exit code zero.
\<close>

theorem lifecycle_success_is_success:
  assumes "lifecycle_process env (executor_execute m) w request st con s = Some ((r, s'), st', events, con')"
    and "process_exit r = 0"
  shows "\<exists>success a. resolve (lw_to_value w) (lw_inputs w) request = Inr success \<and>
    evaluate_policy (lw_policy_env w) (rs_policy_input success) = Authorized a \<and>
    (if rr_execute_requested request then
       \<exists>options report effects written later pairs.
         executor_execute m a options con = Some (report, effects, con') \<and> ChildRun effects \<in> set events \<and>
         effects = Spawned (sp_executable_path (ap_plan a)) (sp_cwd_path (ap_plan a)) (res_argv (sp_resolved (ap_plan a))) pairs # later \<and>
         er_outcome report = ''completed'' \<and> er_exit_code report = Some 0 \<and> last events = RecordWritten written \<and>
         ex_outcome (rc_execution written) = ''completed'' \<and> ex_exit_code (rc_execution written) = Some 0
     else con' = con \<and> (\<exists>written. events = [RecordWritten written] \<and> ex_outcome (rc_execution written) = ''planned''))"
proof -
  obtain resp where run: "run_lifecycle_with_executor (executor_execute m) w request st con = Some (resp, st', events, con')"
    and r: "(r, s') = finish_dispatch env (verb_str (rr_verb request)) (emit_response env (verb_str (rr_verb request)) resp s)"
    using assms(1) by (auto simp: lifecycle_process_def respond_def split: prod.splits)
  have zero: "response_exit resp = 0"
    by (rule finish_zero [of env "verb_str (rr_verb request)" resp s]) (use assms(2) r in \<open>metis fst_conv\<close>)
  then have "\<not> is_error_response resp" using error_response_exit by blast
  with lifecycle_response [OF run] obtain success a where s: "resolve (lw_to_value w) (lw_inputs w) request = Inr success"
    "evaluate_policy (lw_policy_env w) (rs_policy_input success) = Authorized a"
    and kind: "if rr_execute_requested request then executed_response (executor_execute m) a con resp events con'
      else is_plan_response resp \<and> con' = con \<and> (\<exists>r. events = [RecordWritten r] \<and> ex_outcome (rc_execution r) = ''planned'')"
    by blast
  show ?thesis
  proof (cases "rr_execute_requested request")
    case False
    then show ?thesis using s kind by auto
  next
    case True
    then obtain report written effects options pending t where e: "last events = RecordWritten written" "ChildRun effects \<in> set events"
      "executor_execute m a options con = Some (report, effects, con')" "written = final_record pending report t"
      "response_exit resp = executed_exit report"
      using kind by (auto simp: executed_response_def response_exit_def)
    have ok: "er_spawned report" "er_outcome report = ''completed''" "er_exit_code report = Some 0"
      using executed_exit_zero [OF tokio.shape [OF e(3)]] zero e(5) by simp_all
    have "starts_plan a effects" using tokio.starts [OF e(3)] tokio.spawned_iff [OF e(3)] ok(1) by blast
    then obtain pairs later where "effects = Spawned (sp_executable_path (ap_plan a)) (sp_cwd_path (ap_plan a))
        (res_argv (sp_resolved (ap_plan a))) pairs # later"
      by (auto simp: starts_plan_def)
    moreover have "ex_outcome (rc_execution written) = ''completed''" "ex_exit_code (rc_execution written) = Some 0"
      using e(4) ok by (simp_all add: final_record_def)
    ultimately show ?thesis unfolding if_P [OF True] using s e(1-3) ok(2,3) by blast
  qed
qed

section \<open>One document\<close>










text \<open>What a command has printed: one line, the rendering of an envelope with the exit code of the process.\<close>

definition printed :: "output_env \<Rightarrow> command_envelope \<Rightarrow> screen \<Rightarrow> handled \<Rightarrow> bool" where
  "printed env envelope s h \<longleftrightarrow>
     (\<exists>line. oe_encode env envelope = Inr line \<and> (ev_status envelope = ''ok'' \<longleftrightarrow> ev_exit_code envelope = 0) \<and>
        h = (Inr (ev_exit_code envelope), s\<lparr>sc_stdout := sc_stdout s @ line @ [CHR 0x0A]\<rparr>))"




definition answered :: "output_env \<Rightarrow> string \<Rightarrow> screen \<Rightarrow> handled \<Rightarrow> bool" where
  "answered env command s h \<longleftrightarrow>
     (\<exists>err. h = (Inl err, s)) \<or> (\<exists>envelope. printed env envelope s h \<and> ev_command envelope = command)"


lemma answered_error [simp]: "answered env command s (Inl err, s)"
  by (simp add: answered_def)


















section \<open>What a refusal shows\<close>




section \<open>A closed terminal\<close>

lemma write_lines_tolerant_closed:
  assumes "\<forall>e. Some e \<in> set (sc_outcomes s) \<longrightarrow> wf_broken_pipe e"
  shows "\<exists>s'. write_lines_tolerant stream lines s = (Inr (), s')"
  using assms
proof (induction lines arbitrary: s)
  case (Cons line lines)
  have "\<forall>e. Some e \<in> set (sc_outcomes (snd (write_text stream t s))) \<longrightarrow> wf_broken_pipe e"
    "\<And>e s'. write_text stream t s = (Inl e, s') \<Longrightarrow> wf_broken_pipe e" for t
    using Cons.prems by (auto simp: write_text_def put_def split: list.splits option.splits std_stream.splits)
  then show ?case
    using Cons.IH by (auto simp del: split_paired_Ex split: prod.split sum.split) (metis snd_conv)+
qed simp

text \<open>
  Without --json, a terminal that is closed at any moment does not change the exit code of an executed command; with
  it, a closed standard output turns the exit code of a command that was executed and recorded into a failure.
\<close>

lemma closed_terminal_keeps_exit:
  assumes "\<not> oe_json env" and "\<forall>e. Some e \<in> set (sc_outcomes s) \<longrightarrow> wf_broken_pipe e"
  shows "process_exit (fst (finish_dispatch env command
    (emit_response env command (ExecutedEmitted a explanation fresh report r extra) s))) = executed_exit report"
  using write_lines_tolerant_closed [OF assms(2), of Stderr "diagnostic_lines (er_diagnostics report @ extra)"] assms(1)
  by (auto simp: emit_response_def emit_executed_def lift_io_def exits_def then_write_def finish_dispatch_def process_exit_def)

lemma closed_output_overturns_exit:
  assumes "oe_json env" and "\<forall>e. \<exists>line. oe_encode env e = Inr line" and "sc_outcomes s = [Some closed, Some closed]"
  shows "process_exit (fst (finish_dispatch env command
    (emit_response env command (ExecutedEmitted a explanation fresh report r extra) s))) = 1"
proof -
  have "\<exists>line. oe_encode env e = Inr line" for e using assms(2) by blast
  then show ?thesis
    using assms(1,3)
    by (auto simp: emit_response_def emit_executed_def lift_io_def exits_def then_write_def finish_dispatch_def process_exit_def
        emit_json_def write_text_def emit_error_def emit_error_with_explanation_def Let_def split: sum.split)
qed

text \<open>
  A child killed by a signal without a name of its own is called SIGTERM: the record keeps its exit code, the
  process ends with the one of SIGTERM.
\<close>

lemma unnamed_signal_exit:
  assumes "map_status (Signaled 11) = (er_exit_code report, er_signal report, er_outcome report)"
  shows "er_exit_code report = Some 139 \<and> executed_exit report = 143"
  using assms
proof -
  have "er_exit_code report = Some 139 \<and> er_signal report = Some ''SIGTERM'' \<and> er_outcome report = ''interrupted''"
    using assms
    by (auto simp: map_status_def signal_name_def exit_from_signal_number_def saturating_add_i32_def Let_def
        SIGINT_def SIGTERM_def SIGHUP_def SIGKILL_def)
  then show ?thesis by (simp add: executed_exit_def exit_from_signal_name_def exit_from_signal_number_def SIGTERM_def
      saturating_add_i32_def)
qed

text \<open>The payload of a bin response is always a member of its data, so a failed report shows no status.\<close>

lemma failed_report_without_status:
  assumes "be_execution e = Some x" and "be_payload e = None"
  shows "bin_human_lines BinReport scope e = [''Bin inventory'']"
  using assms by (simp add: bin_human_lines_def render_bin_allow_human_def)

section \<open>Examples\<close>

text \<open>The sample command is resolved, authorised, executed and recorded, and its process ends with zero.\<close>

lemma sample_process:
  "\<exists>s' st' events con'. lifecycle_process plain_output (executor_execute ws_machine) sample_world allowed_request
     (unary_store Map.empty) fresh_console open_screen = Some ((Inr 0, s'), st', events, con')"
proof -
  obtain s a where s: "resolve (\<lambda>_. None) allowed_resolver_inputs allowed_request = Inr s"
    "is_valid_plan_digest (sp_plan_digest (rs_plan s))" "res_execution_class (sp_resolved (rs_plan s)) = Direct"
    "evaluate_policy resolved_env (rs_policy_input s) = Authorized a"
    and runs: "\<And>n x. \<exists>report effects con'. executor_execute ws_machine a
      \<lparr>eo_mode = JsonMode, eo_capture_limit = n, eo_rtk_projected = x\<rparr> fresh_console = Some (report, effects, con') \<and>
      er_pid report \<noteq> None \<and> er_diagnostics report = [] \<and> er_outcome report = ''completed'' \<and> er_exit_code report = Some 0"
    using sample_runs by metis
  let ?profile = "pin_profile (rs_policy_input s)" and ?execute = "executor_execute ws_machine"
  obtain report effects con' where run: "?execute a (lifecycle_options sample_world ?profile) fresh_console =
      Some (report, effects, con')" and shape: "er_pid report \<noteq> None" "er_diagnostics report = []"
    "er_outcome report = ''completed''" "er_exit_code report = Some 0"
    using runs sample_options [of ?profile] by metis
  have exit: "executed_exit report = 0" using shape(3,4) by (simp add: executed_exit_def)
  obtain ctx ctx_diag where c: "collect_runtime_context (lw_context_env sample_world) = (ctx, ctx_diag)" by fastforce
  have sid: "rr_session_id allowed_request \<noteq> []" by (simp add: allowed_request_parts)
  note f = resolve_fields [OF s(1) sid]
  have plan: "ap_plan a = rs_plan s" using authorized_fields(1) [OF s(4)] f(5) by simp
  have "recordable a (rr_session_id allowed_request) (verb_str (rr_verb allowed_request))"
    using f s(2) allowed_request_parts(3) authorized_fields(2) [OF s(4)] by (simp add: recordable_def Let_def plan)
  from execute_and_record_ok [where execute = ?execute and w = sample_world and success = s and request = allowed_request
        and extra = "option_list ctx_diag",
      OF sample_disk sample_clock this context_capture_ok [OF c] run tokio.shape [OF run] _ tokio.never_stands_in [OF run]]
  obtain r st' events where "run_lifecycle_with_executor ?execute sample_world allowed_request (unary_store Map.empty) fresh_console =
      Some (ExecutedEmitted a (rs_explanation s) (rs_freshness s) report r (option_list ctx_diag), st', events, con')"
    using s c plan shape(1,2) allowed_request_parts(2)
    by (simp add: run_lifecycle_with_executor_def authorized_response_def Let_def sample_world_parts del: not_None_eq) blast
  then show ?thesis
    using exit by (auto simp: lifecycle_process_def respond_def emit_response_def emit_executed_def finish_dispatch_def
        plain_output_def open_screen_def emit_json_def write_text_def lift_io_def exits_def then_write_def)
qed

theorem lifecycle_success_is_success_witness:
  "\<exists>report effects. er_outcome report = ''completed'' \<and>
     (\<exists>a options con'. executor_execute ws_machine a options fresh_console = Some (report, effects, con'))"
proof -
  obtain s' st' events con' where "lifecycle_process plain_output (executor_execute ws_machine) sample_world allowed_request
      (unary_store Map.empty) fresh_console open_screen = Some ((Inr 0, s'), st', events, con')"
    using sample_process by blast
  from lifecycle_success_is_success [OF this, simplified process_exit_def sum.case, OF refl] show ?thesis
    unfolding if_P [OF allowed_request_parts(2)] by (elim exE conjE, intro exI conjI)
qed




end
