(* ===== verification/Spec2Isabelle.thy ===== *)
theory Spec2Isabelle
  imports Timestamp Entrypoint Record_Contract Session_Store Session_Query Registry_Types Policy_Raw
    Policy_Command Policy_Classify Policy_Paths Policy_Normalize Execution_Plan Policy_Evaluate Controller_Error
    Std_Collections Registry_Access Registry_Query Resolution_Entry Resolution_Profile Resolution_Paths Resolver
    Secure_File Child_Environment Projection_Plan Projection_Policy Graph_Document Stream_Capture Rtk_Filter
    Process_Execution Lifecycle_Dispatch Lifecycle_Recording Bin_Payload Bin_Dispatch Bin_Recording
    Output_Sink Command_Line Query_Commands Controller_Main
begin

text \<open>
  Verification library for Takogami, the command controller of the WfOS workspace
  (\<open>src/packages/takogami/src\<close>). Every file name below is relative to that directory. The other packages of
  the repository are shell, jq and configuration and are not part of this library.

  \<^bold>\<open>The program.\<close> Takogami runs the lifecycle commands of a workspace unit (dev, build, check) and two read-only
  bin reports on behalf of an agent. A command passes through a fixed pipeline:

  \<^item> the registry files (\<open>registry/\<close>) are found, loaded and checked for freshness;
  \<^item> the request is resolved (\<open>resolution/\<close>) against unit, profile, policies, entrypoint, directory, manifests
    and executable into a sealed plan with a digest and an explanation;
  \<^item> policy evaluation (\<open>policy/\<close>) normalises policies and profile into rules, evaluates a request layer and a
    child layer and authorises only what both layers explicitly allow;
  \<^item> the session store (\<open>sessions/\<close>) holds one record per command: pending before the child starts, then
    exactly one terminal record;
  \<^item> the execution layer (\<open>execution/\<close>) checks the sealed identities again, builds the environment, starts the
    child in its own process group, forwards signals, captures its output and reaps it;
  \<^item> the output layer (\<open>output/\<close>, \<open>app.rs\<close>) prints one envelope or a few lines and fixes the exit code;
  \<^item> \<open>commands.rs\<close> is the coordinator that puts these in order, with every early return.

  A bin command follows the same pipeline with a sealed projection (\<open>projection/\<close>, \<open>policy/projection_eval.rs\<close>) in
  place of the resolution, and with a document the child prints that is decoded and validated
  (\<open>bin_projection/\<close>). A knowledge graph file is validated, checked for freshness and rendered (\<open>graph/\<close>).

  \<^bold>\<open>The theories\<close>, in the order of the pipeline. Each has one record, datatype or function per item of the code,
  under the name of the code (suffixed where HOL has the name), then the lemmas about them.

  \<^item> \<open>Takogami_Prelude\<close>: results and the \<open>?\<close> operator (\<open>result\<close>, \<open>rbind\<close>, \<open>traverse\<close>), byte strings and the
    functions of \<open>str\<close>, paths as component lists with the functions of \<open>std::path\<close>, the view of a file system
    (\<open>fsys\<close>). \<open>Std_Collections\<close>: \<open>BTreeMap\<close>, \<open>from_utf8_lossy\<close>, line splitting.
  \<^item> \<open>Timestamp\<close> (\<open>contracts/timestamp.rs\<close>, the clock of \<open>sessions/store.rs\<close>) and \<open>Entrypoint\<close>
    (\<open>contracts/entrypoint.rs\<close>): the two hand-written parsers, with their renderers and round trips.
  \<^item> \<open>Record_Contract\<close> (\<open>contracts/types.rs\<close>, \<open>sessions/runtime_context.rs\<close>): the durable record, its validator
    and the declarative contract it decides.
  \<^item> \<open>Session_Store\<close> (\<open>sessions/store.rs\<close>, \<open>sessions/recovery.rs\<close>): lock, atomic write with a fault at any of its
    steps, the legal transitions of a record and the recovery of abandoned ones; \<open>Session_Query\<close>
    (\<open>sessions/query.rs\<close>): listing, show and latest. The locale \<open>record_writer\<close> states what the invariant of a
    record needs of a writer; the store interprets it.
  \<^item> \<open>Registry_Types\<close>, \<open>Registry_Access\<close>, \<open>Registry_Query\<close> (\<open>registry/types.rs\<close>, \<open>access.rs\<close>, \<open>query.rs\<close>, \<open>scan.rs\<close>).
  \<^item> \<open>Policy_Raw\<close>, \<open>Policy_Command\<close>, \<open>Policy_Classify\<close>, \<open>Policy_Paths\<close>, \<open>Policy_Normalize\<close>, \<open>Policy_Evaluate\<close>: one theory
    per file of \<open>policy/\<close>. The locale \<open>rule_provider\<close> states what evaluation needs of a normaliser, and
    \<open>normalize_policies\<close> interprets it.
  \<^item> \<open>Execution_Plan\<close> (\<open>resolution/plan.rs\<close>, \<open>resolution/explain.rs\<close>), \<open>Resolution_Entry\<close>, \<open>Resolution_Profile\<close>,
    \<open>Resolution_Paths\<close>, \<open>Resolver\<close> (the other files of \<open>resolution/\<close>): from a request to the sealed plan or to an
    error with the partial trace.
  \<^item> \<open>Controller_Error\<close> (\<open>error.rs\<close>, \<open>exit_codes.rs\<close>): every error with its code and its exit code, on \<open>8 word\<close>.
  \<^item> \<open>Secure_File\<close> (\<open>contracts/secure_file.rs\<close>, \<open>fingerprint.rs\<close>, \<open>state.rs\<close>), \<open>Child_Environment\<close>
    (\<open>execution/environment.rs\<close>), \<open>Projection_Plan\<close> (\<open>projection/\<close>), \<open>Projection_Policy\<close>
    (\<open>policy/projection_eval.rs\<close>).
  \<^item> \<open>Stream_Capture\<close> (\<open>execution/streams.rs\<close>), \<open>Rtk_Filter\<close> (\<open>output/rtk.rs\<close>), \<open>Process_Execution\<close>
    (\<open>execution/process.rs\<close>, \<open>signals.rs\<close>): preflight, spawn, the select loop as a function of the events the
    operating system delivers, the process-group guard, the report.
  \<^item> \<open>Lifecycle_Dispatch\<close> (\<open>run_lifecycle_with_executor\<close> and its records in \<open>commands.rs\<close>) and \<open>Lifecycle_Recording\<close>
    (what it guarantees). The locale \<open>executor_contract\<close> states what the coordinator needs of an executor; the
    model of the real one interprets it.
  \<^item> \<open>Bin_Payload\<close> (\<open>bin_projection/\<close>), \<open>Bin_Dispatch\<close> (\<open>run_bin\<close>), \<open>Bin_Recording\<close> (its guarantees, through the
    locale \<open>projection_executor_contract\<close>), \<open>Graph_Document\<close> (\<open>graph/\<close>).
  \<^item> \<open>Output_Sink\<close> (\<open>output/mod.rs\<close>, \<open>output/envelope.rs\<close>): envelope and lines of every response, the terminal as a
    screen whose next writes may fail.
  \<^item> \<open>Command_Line\<close> (\<open>cli/mod.rs\<close>) and \<open>Query_Commands\<close> (the other handlers of \<open>commands.rs\<close>, \<open>doctor.rs\<close>,
    \<open>registry/adapters.rs\<close>): graph, session, scan, list, info, tools, interfaces and doctor.
  \<^item> \<open>Controller_Main\<close> (\<open>app.rs\<close>): the dispatch of a command line, from the response of its handler to the exit code
    of the process.
  \<^item> this theory: the properties that compose resolution with authorisation, and sealing with execution.

  \<^bold>\<open>How code is modelled.\<close> A struct is a record, an enum a datatype, \<open>Result\<close> a sum whose left side is the error,
  \<open>Option\<close> an option, a \<open>String\<close> the list of its UTF-8 bytes. Exit codes, process identifiers and the counters
  of a stream are words of their width; other integers are natural numbers or integers, with the saturation or
  wrap-around of the code written out. The panic of the timestamp parser on a slice inside a character is an
  error value of its own. State is passed explicitly: the store is a record of its directory entries and
  locks, the terminal a record of what was written; the file system is a function argument, and where the
  code looks at it twice (before and after sealing, before the spawn) the model takes two.

  \<^bold>\<open>What the theorems show.\<close>

  \<^item> \<^emph>\<open>Authorisation\<close>: evaluation authorises exactly under dual explicit allow without deny or gate; its published
    decision refines the order deny, gate, allow, default deny; it does not depend on the order of the policies; no
    shell wrapper is ever authorised; every path of an authorised plan lies in the canonical root and the
    allowed scopes. The matchers are decided against a declarative glob language.
  \<^item> \<^emph>\<open>Resolution\<close>: the plan stays below the workspace root, the handoff always passes the checks of the evaluator,
    a failure carries a trace that is a prefix of the pipeline.
  \<^item> \<^emph>\<open>Coordination\<close>: whatever the operating system does, at most one child runs, only after authorisation and
    after a valid pending record, and it is the authorised program; on a working disk the run is recorded as it
    ended; a process that ends with zero did what it was asked; with --json every command line prints exactly one
    envelope that carries its exit code; a refusal does not show what would have been run. Of the bin commands the
    same is shown of the run and the record, and that a success always comes with a validated document.
  \<^item> \<^emph>\<open>Execution\<close>: the child is started once, with the sealed identities and the declared environment, is signalled
    only in its own group, always awaited, reported truthfully and within the capture limit; its output reaches the
    terminal exactly once; the select loop returns exactly when both streams and the wait are done.
  \<^item> \<^emph>\<open>Records\<close>: the validator decides its contract; a terminal record never changes, whatever sequence of store
    operations runs and whichever of their steps fails; abandoned records are recovered; listings are sound,
    complete and ordered, and no query changes more than recovery does. Doctor is ready exactly when what it requires
    is there.
  \<^item> \<^emph>\<open>Documents\<close>: the graph validator and the decoder of a cleanup plan decide their declarative contracts; the DOT
    rendering, the timestamps and the legacy entrypoints read back.

  \<^bold>\<open>Parameters and hypotheses.\<close> What is not in the repository is an argument of the definitions that use it.

  \<^item> Decoders of TOML and JSON: the readers of \<open>registry_env\<close>, \<open>policy_parser\<close>, \<open>graph_env\<close>, \<open>payload_reader\<close>, the codec
    of the store. The store assumes \<open>codec_ok\<close> (an encoded record decodes to itself); nothing else is assumed of
    any of them. The rendering of an envelope is \<open>oe_encode\<close> of \<open>output_env\<close>; that it succeeds is a hypothesis where
    a document is promised.
  \<^item> SHA-256 and the hexadecimal encoding: functions from strings to strings; \<open>hex_ok\<close> says that a digest holds
    no separator of the rule identities. No injectivity is assumed: statements are about equal digests.
  \<^item> The file system: \<open>fsys\<close>, \<open>rfsys\<close> and \<open>sfsys\<close> are records of its answers (canonicalisation, metadata, contents).
    \<open>canonical_ok\<close> and \<open>canonical_laws\<close> state that a canonical path is absolute, free of dots and its own
    canonical form. Every definition is total in the answers, so a missing file or an error is an ordinary value.
  \<^item> The operating system under a child: \<open>machine\<close> holds the outcome of the spawn, the bytes of the pipes, the events
    of the select loop in their order, the answers of the compressor, and \<open>console\<close> the outcome of each write.
    \<open>lifecycle_world\<close>, \<open>bin_world\<close> and \<open>query_world\<close> add the clock, the faults of each store write and the environment.
    \<open>quiet_disk\<close> and \<open>steady_clock\<close> (a disk that works, a clock between 1970 and 9999 that does not run back) are
    hypotheses only where a run is shown to be recorded.

  Each property with a hypothesis has a witness that applies it to a concrete run of the model.

  \<^bold>\<open>Bounds and termination.\<close> Recursions are structural or have a measure: the search for the registry and
  for the longest existing prefix of a path measure the path, the select loop runs over its events and is None
  if they end before the streams and the wait do (\<open>run_capturing_exact\<close> states exactly when it returns, and
  \<open>lifecycle_command_returns\<close> carries it to the whole command). The only fuel is in \<open>read_dot\<close>, the reader that
  states the round trip of the DOT rendering: it is the length of the text, and each statement takes at least
  one character. The limits of the code (bytes of a record, of a stream, of a document, records of a
  listing) are its constants.

  \<^bold>\<open>Not modelled\<close>, and why.

  \<^item> The serde implementations and the clap parser are generated from attributes; the TOML and JSON readers are
    libraries.
  \<^item> What the external tools of \<open>registry/adapters.rs\<close> answer is an argument. \<open>UnixSignalSource\<close> selects over three
    operating-system signals; creating directories, setting file modes and the calls of the operating system
    have no logic of their own. The executors of \<open>execution/mod.rs\<close> that stand in for tests, and
    \<open>test_mutation.rs\<close>, are test code. \<open>policy/authorize.rs\<close> and the \<open>mod.rs\<close> files only re-export.
  \<^item> Time passes only between the steps of the model: a timeout of the compressor is one of its answers.
\<close>

section \<open>From a request to an authorised command\<close>

text \<open>
  C6: a command that is resolved and then authorised is the resolved one, and stays in its scope. When
  policy evaluation looks at the file system the resolver looked at, an authorised plan is the plan of
  the resolution, its program is no shell wrapper, its working directory is a directory below the
  canonical workspace root, and the working directory, every source manifest and every path operand of
  its arguments is below that root, matched by an allowed pattern and by no blocked one.
\<close>

theorem authorized_resolution_confined:
  assumes "resolve to_value inp rq = Inr s" and "hex_ok env" and "env_fs env = fsys.truncate (ri_fs inp)"
    and "evaluate_policy env (rs_policy_input s) = Authorized a"
  shows "ap_plan a = rs_plan s \<and> basename (res_program (sp_resolved (rs_plan s))) \<notin> set WRAPPERS \<and>
    (\<exists>root ns. canonicalize (ri_fs inp) (rp_workspace_root (ri_paths inp)) = Inr root \<and>
       normalize_policies env (pin_policies (rs_policy_input s)) (pin_profile (rs_policy_input s)) root = Inr ns \<and>
       path_is_dir (ri_fs inp) (sp_cwd_path (rs_plan s)) \<and> prefix root (sp_cwd_path (rs_plan s)) \<and>
       (\<forall>p \<in> set (path_facts (rs_policy_input s)).
          \<exists>rel. normalize_path_fact (env_fs env) p (sp_cwd_path (rs_plan s)) root = Inr rel \<and>
            (\<exists>g \<in> set (ns_allowed_path_patterns ns). path_matches g rel) \<and>
            \<not> (\<exists>b \<in> set (ns_blocked_path_patterns ns). path_matches b rel)))"
proof -
  let ?i = "rs_policy_input s" and ?fs = "ri_fs inp" and ?ws = "rp_workspace_root (ri_paths inp)"
  obtain d iv backend tools selected where r: "resolved_by inp (with_session_id inp rq) s d iv backend tools selected"
    using resolve_cases(2) [OF refl assms(1)] by blast
  have root: "canonicalize ?fs ?ws = Inr (pin_policy_root ?i)" and plan: "pin_plan ?i = rs_plan s"
    and cwd: "resolve_cwd (ri_env inp) ?fs ?ws d (iv_entry iv) = Inr (iv_cwd iv)" "sp_cwd_path (rs_plan s) = rcw_canonical (iv_cwd iv)"
    using r unfolding resolved_by_def Let_def by blast+
  have cr: "canonical_root ?fs ?ws = pin_policy_root ?i" by (simp add: canonical_root_def unwrap_or_def root)
  have dir: "path_is_dir ?fs (sp_cwd_path (rs_plan s))" "prefix (pin_policy_root ?i) (sp_cwd_path (rs_plan s))"
    using resolve_cwd_contained [OF cwd(1), unfolded cr] cwd(2) by auto
  obtain ns where ns: "normalize_policies env (pin_policies ?i) (pin_profile ?i) (pin_policy_root ?i) = Inr ns"
    "verdict (set (child_matched (env_fs env) ?i ns)) = EAllow"
    by (rule evaluate_policy_authorized [OF assms(4)])
  have "ap_plan a = rs_plan s"
    using assms(4) plan ns(1) unfolding evaluate_policy_def evaluate_normalized_def Let_def
    by (auto split: sum.splits if_splits)
  moreover have "basename (res_program (sp_resolved (rs_plan s))) \<notin> set WRAPPERS"
    using np.wrapper_denied [OF assms(2) ns(1)] ns(2) plan by fastforce
  moreover have "\<forall>p \<in> set (path_facts ?i). \<exists>rel. normalize_path_fact (env_fs env) p (sp_cwd_path (rs_plan s)) (pin_policy_root ?i) = Inr rel \<and>
      (\<exists>g \<in> set (ns_allowed_path_patterns ns). path_matches g rel) \<and>
      \<not> (\<exists>b \<in> set (ns_blocked_path_patterns ns). path_matches b rel)"
    using np.facts_confined [OF assms(2) ns(1), of "env_fs env" ?i] unfolding ns(2) plan by blast
  ultimately show ?thesis using root dir ns(1) by blast
qed

lemma hex_resolved: "hex_ok resolved_env"
  by (simp add: hex_ok_def resolved_env_def)

theorem authorized_resolution_confined_witness:
  "\<exists>s a. resolve (\<lambda>_. None) allowed_resolver_inputs allowed_request = Inr s \<and>
     evaluate_policy resolved_env (rs_policy_input s) = Authorized a \<and> ap_plan a = rs_plan s \<and>
     path_is_dir (ri_fs allowed_resolver_inputs) (sp_cwd_path (rs_plan s))"
proof -
  obtain s a where sa: "resolve (\<lambda>_. None) allowed_resolver_inputs allowed_request = Inr s"
    "evaluate_policy resolved_env (rs_policy_input s) = Authorized a"
    using sample_runs by blast
  have "env_fs resolved_env = fsys.truncate (ri_fs allowed_resolver_inputs)" by (simp add: resolved_env_def)
  from authorized_resolution_confined [OF sa(1) hex_resolved this sa(2)] sa show ?thesis by blast
qed

section \<open>From a projection to its child\<close>

lemma fixed_env_closed:
  assumes "validate_controller_path fs path = Inr ()"
  shows "build_child_env fs getenv (projection_fixed_env ws path) [] =
    Inr \<lparr>es_pairs = [(''NO_COLOR'', ''1''), (''PANOPLY_AGENT'', ''1''), (''PATH'', path), (''WS_ROOT'', path_display ws)],
      es_diagnostics = []\<rparr>"
proof -
  have env: "projection_fixed_env ws path =
      [(''NO_COLOR'', ''1''), (''PANOPLY_AGENT'', ''1''), (''PATH'', path), (''WS_ROOT'', path_display ws)]"
    by (simp add: projection_fixed_env_def less_char_def)
  have "check_all (check_fixed fs) (projection_fixed_env ws path) = Inr ()"
    using assms unfolding env by (simp add: check_fixed_def)
  moreover have "sorted (map fst (projection_fixed_env ws path))" unfolding env by (simp add: less_char_def)
  ultimately show ?thesis
    unfolding build_child_env_def by (simp add: sort_key_id_if_sorted) (simp add: env)
qed

text \<open>
  The child of a projection is fixed by its plan. A plan that was sealed and then authorised is handed
  over unchanged; its arguments are one of the two report commands; and the environment built for the
  child in the file system of the sealing is exactly the four values of the plan, whatever the environment
  of the controller holds.
\<close>

theorem authorized_projection_child_fixed:
  assumes "seal_with_search_dirs renv to_json fs op registry_root ws scope sid pid pols dirs = Inr plan"
    and "evaluate_projection_policy env input = ProjectionAuthorized a" and "pj_plan input = plan"
  shows "aj_plan a = plan \<and>
    (pp_argv plan = [''bin-report'', ''--json''] \<or>
     (\<exists>operand. pp_argv plan = [''bin-cleanup'', ''--mode'', ''report-only''] @ operand @ [''--json''] \<and>
        (operand = [] \<or> (\<exists>s. scope = Some s \<and> operand = [''--scope'', vs_normalized s])))) \<and>
    (\<exists>path. map_of (pp_fixed_env plan) ''PATH'' = Some path \<and>
       build_child_env fs getenv (pp_fixed_env plan) (pp_inherited_env_keys plan) =
         Inr \<lparr>es_pairs = [(''NO_COLOR'', ''1''), (''PANOPLY_AGENT'', ''1''), (''PATH'', path), (''WS_ROOT'', path_display ws)],
           es_diagnostics = []\<rparr>)"
proof -
  obtain path where p: "validate_controller_path fs path = Inr ()"
    "pp_fixed_env plan = projection_fixed_env ws path" "pp_inherited_env_keys plan = []"
    "pp_argv plan = child_argv op scope" "pp_operation plan = op"
    using assms(1) unfolding seal_with_search_dirs_def Let_def
    by (auto simp: rbind_eq_Inr_iff map_err_eq_Inr_iff split: option.splits)
  obtain ns where n: "normalize_policies env (pj_policies input) (pj_profile input) (pj_policy_root input) = Inr ns"
    and a: "projection_normalized env input ns = ProjectionAuthorized a"
    using assms(2) by (auto simp: evaluate_projection_policy_def Let_def split: sum.splits)
  have "child_supported op" using projection_normalized_cases [OF n, of input] a assms(3) p(5) by blast
  then have "op = BinReport \<or> op = BinCleanupReportOnly" by (simp add: child_supported_def)
  then have "pp_argv plan = [''bin-report'', ''--json''] \<or>
     (\<exists>operand. pp_argv plan = [''bin-cleanup'', ''--mode'', ''report-only''] @ operand @ [''--json''] \<and>
        (operand = [] \<or> (\<exists>s. scope = Some s \<and> operand = [''--scope'', vs_normalized s])))"
    unfolding p(4) by (cases scope) (auto simp: child_argv_def)
  moreover have "aj_plan a = plan"
    using a assms(3) unfolding projection_normalized_def Let_def by (auto split: if_splits)
  moreover have "map_of (pp_fixed_env plan) ''PATH'' = Some path"
    unfolding p(2) by (simp add: projection_fixed_env_def less_char_def)
  ultimately show ?thesis using fixed_env_closed [OF p(1)] unfolding p(2,3) by blast
qed

theorem authorized_projection_child_fixed_witness:
  "\<exists>plan a. tool_seal = Inr plan \<and> evaluate_projection_policy sample_env (report_input plan) = ProjectionAuthorized a \<and>
     aj_plan a = plan"
proof -
  have "(case tool_seal of
      Inr plan \<Rightarrow> authorizes_projection (evaluate_projection_policy sample_env (report_input plan)) | Inl _ \<Rightarrow> False)"
    by code_simp
  then obtain plan where p: "tool_seal = Inr plan"
    "authorizes_projection (evaluate_projection_policy sample_env (report_input plan))"
    by (auto split: sum.splits)
  then obtain a where a: "evaluate_projection_policy sample_env (report_input plan) = ProjectionAuthorized a"
    by (cases "evaluate_projection_policy sample_env (report_input plan)") auto
  have "pj_plan (report_input plan) = plan" by (simp add: report_input_def)
  from authorized_projection_child_fixed [OF p(1) [unfolded tool_seal_def] a this] p a show ?thesis by blast
qed

text \<open>
  C23: what a projection starts is what was sealed and authorised. If the child of an authorised plan was
  started, then the identities, helpers and sources of the plan passed their checks again in the file systems
  of those moments, and the first effect is the start of the sealed executable in the sealed directory with
  one of the two report commands, in an environment of exactly four variables, whatever the environment of the
  controller holds; nothing else is started and the console is not written. Otherwise nothing was started and
  the failure says so.
\<close>

theorem authorized_projection_runs_sealed:
  assumes "seal_with_search_dirs renv to_json fs op registry_root ws scope sid pid pols dirs = Inr plan"
    and "evaluate_projection_policy env input = ProjectionAuthorized a" and "pj_plan input = plan"
    and "execute_projection_inner renv w a options con = Some (res, effects, con')"
  shows "con' = con \<and>
    (effects = [] \<and> (\<exists>f. res = Inl f \<and> \<not> ef_spawned f \<and> ef_outcome f = ''failed_to_spawn'') \<or>
     preflight_identities renv (mc_fs w AtIdentity) plan = Inr () \<and>
     preflight_helpers renv (mc_fs w AtHelpers) plan = Inr () \<and>
     preflight_sources renv (mc_fs w AtSources) plan = Inr () \<and>
     (\<exists>path operand later.
        effects = Spawned (pp_executable_path plan) (pp_cwd_path plan) (pp_argv plan)
          [(''NO_COLOR'', ''1''), (''PANOPLY_AGENT'', ''1''), (''PATH'', path), (''WS_ROOT'', path_display ws)] # later \<and>
        map_of (pp_fixed_env plan) ''PATH'' = Some path \<and>
        (\<forall>e \<in> set later. e = Awaited \<or> (\<exists>g sig. e = GroupSignal g sig)) \<and>
        (pp_argv plan = [''bin-report'', ''--json''] \<or>
         pp_argv plan = [''bin-cleanup'', ''--mode'', ''report-only''] @ operand @ [''--json''] \<and>
           (operand = [] \<or> (\<exists>s. scope = Some s \<and> operand = [''--scope'', vs_normalized s])))))"
proof -
  obtain path where path: "map_of (pp_fixed_env plan) ''PATH'' = Some path"
    "pp_fixed_env plan = projection_fixed_env ws path" "pp_inherited_env_keys plan = []"
    using assms(1) unfolding seal_with_search_dirs_def Let_def
    by (auto simp: rbind_eq_Inr_iff map_err_eq_Inr_iff projection_fixed_env_def less_char_def split: option.splits)
  have a: "aj_plan a = plan" and argv: "pp_argv plan = [''bin-report'', ''--json''] \<or>
     (\<exists>operand. pp_argv plan = [''bin-cleanup'', ''--mode'', ''report-only''] @ operand @ [''--json''] \<and>
        (operand = [] \<or> (\<exists>s. scope = Some s \<and> operand = [''--scope'', vs_normalized s])))"
    using authorized_projection_child_fixed [OF assms(1-3)] by blast+
  have pairs: "es_pairs e = [(''NO_COLOR'', ''1''), (''PANOPLY_AGENT'', ''1''), (''PATH'', path), (''WS_ROOT'', path_display ws)]"
    if "build_child_env (mc_fs w AtEnvironment) (mc_getenv w) (pp_fixed_env plan) (pp_inherited_env_keys plan) = Inr e" for e
  proof -
    have "check_fixed (mc_fs w AtEnvironment) (''PATH'', path) = Inr ()"
      using that map_of_SomeD [OF path(1)] by (auto simp: build_child_env_def rbind_eq_Inr_iff check_all_eq_Inr_iff)
    then have "validate_controller_path (mc_fs w AtEnvironment) path = Inr ()"
      by (simp add: check_fixed_def map_err_eq_Inr_iff)
    from fixed_env_closed [OF this] show ?thesis using that unfolding path(2,3) by auto
  qed
  show ?thesis
    using projection_spawn_gated [OF assms(4)] pairs argv path(1) unfolding Let_def a by blast
qed

theorem authorized_projection_runs_sealed_witness:
  "\<exists>plan a res effects con'. tool_seal = Inr plan \<and>
     evaluate_projection_policy sample_env (report_input plan) = ProjectionAuthorized a \<and>
     execute_projection_inner tool_env quiet_machine a json_options fresh_console = Some (res, effects, con') \<and>
     preflight_helpers tool_env tool_fs plan = Inr ()"
proof -
  obtain plan a where p: "tool_seal = Inr plan"
    "evaluate_projection_policy sample_env (report_input plan) = ProjectionAuthorized a"
    "started (execute_projection_inner tool_env quiet_machine a json_options fresh_console)"
    using report_runs by blast
  from p(3) obtain res effects con' where r:
    "execute_projection_inner tool_env quiet_machine a json_options fresh_console = Some (res, effects, con')" "effects \<noteq> []"
    by (rule startedE)
  have "pj_plan (report_input plan) = plan" by (simp add: report_input_def)
  from authorized_projection_runs_sealed [OF p(1) [unfolded tool_seal_def] p(2) this r(1)] p r show ?thesis
    by (auto simp: quiet_machine_def)
qed

end
